(* ===== verification/Store_Types.thy ===== *)
theory Store_Types
  imports Rust_Base
begin

text \<open>
  The data model of the agent store (\<open>crates/zcode-agent-store/src/lib.rs\<close>): the error type,
  the closed enumerations with the text that is stored for each of them, the rows of the seven
  tables of the schema, the records the public API hands out, and the conversion of a stored
  task row into a \<open>TaskRecord\<close>.

  A column whose values are always written from a closed enumeration (phase, outcome, turn
  state, message state, request state) holds the constructor; its text is \<open>as_str\<close> of it and
  is read back with \<open>parse\<close>, and the two are inverse to each other.
\<close>

section \<open>Errors\<close>

text \<open>
  Of \<open>rusqlite::Error\<close> the model keeps the cases a well-functioning SQLite can answer with: a
  query for exactly one row that finds none, a violated constraint, and a stored value that is
  not of the requested type. Input and output failures of the database file are not modelled.
\<close>

datatype sqlite_error = QueryReturnedNoRows | ConstraintViolation | InvalidColumnType

datatype store_error =
    Sqlite sqlite_error
  | LegacySchemaUnsupported
  | InvalidState string
  | Conflict string

fun store_error_code :: "store_error \<Rightarrow> string" where
  "store_error_code LegacySchemaUnsupported = ''STORE_SCHEMA_VERSION_UNSUPPORTED''"
| "store_error_code (Sqlite _) = ''PERSISTENCE_ERROR''"
| "store_error_code (InvalidState _) = ''INVALID_STATE''"
| "store_error_code (Conflict _) = ''CONFLICT''"

type_synonym 'a store_result = "store_error + 'a"

section \<open>Closed enumerations\<close>

datatype task_phase = Queued | Preparing | Running | WaitingInput | Cancelling | Terminal

definition is_terminal :: "task_phase \<Rightarrow> bool" where
  "is_terminal p \<longleftrightarrow> p = Terminal"

fun task_phase_as_str :: "task_phase \<Rightarrow> string" where
  "task_phase_as_str Queued = ''QUEUED''"
| "task_phase_as_str Preparing = ''PREPARING''"
| "task_phase_as_str Running = ''RUNNING''"
| "task_phase_as_str WaitingInput = ''WAITING_INPUT''"
| "task_phase_as_str Cancelling = ''CANCELLING''"
| "task_phase_as_str Terminal = ''TERMINAL''"

definition task_phase_parse :: "string \<Rightarrow> task_phase store_result" where
  "task_phase_parse v =
     (if v = ''QUEUED'' then Inr Queued
      else if v = ''PREPARING'' then Inr Preparing
      else if v = ''RUNNING'' then Inr Running
      else if v = ''WAITING_INPUT'' then Inr WaitingInput
      else if v = ''CANCELLING'' then Inr Cancelling
      else if v = ''TERMINAL'' then Inr Terminal
      else Inl (InvalidState (''unknown task phase '' @ v)))"

text \<open>The variant name \<open>{:?}\<close> prints.\<close>

fun task_phase_debug :: "task_phase \<Rightarrow> string" where
  "task_phase_debug Queued = ''Queued''"
| "task_phase_debug Preparing = ''Preparing''"
| "task_phase_debug Running = ''Running''"
| "task_phase_debug WaitingInput = ''WaitingInput''"
| "task_phase_debug Cancelling = ''Cancelling''"
| "task_phase_debug Terminal = ''Terminal''"

datatype task_outcome = Completed | Failed | Cancelled | TimedOut | RuntimeLost | ResultInvalid

fun task_outcome_as_str :: "task_outcome \<Rightarrow> string" where
  "task_outcome_as_str Completed = ''COMPLETED''"
| "task_outcome_as_str Failed = ''FAILED''"
| "task_outcome_as_str Cancelled = ''CANCELLED''"
| "task_outcome_as_str TimedOut = ''TIMED_OUT''"
| "task_outcome_as_str RuntimeLost = ''RUNTIME_LOST''"
| "task_outcome_as_str ResultInvalid = ''RESULT_INVALID''"

definition task_outcome_parse :: "string \<Rightarrow> task_outcome store_result" where
  "task_outcome_parse v =
     (if v = ''COMPLETED'' then Inr Completed
      else if v = ''FAILED'' then Inr Failed
      else if v = ''CANCELLED'' then Inr Cancelled
      else if v = ''TIMED_OUT'' then Inr TimedOut
      else if v = ''RUNTIME_LOST'' then Inr RuntimeLost
      else if v = ''RESULT_INVALID'' then Inr ResultInvalid
      else Inl (InvalidState (''unknown task outcome '' @ v)))"

datatype turn_state = TurnIdle | TurnActive | TurnFailed

fun turn_state_as_str :: "turn_state \<Rightarrow> string" where
  "turn_state_as_str TurnIdle = ''IDLE''"
| "turn_state_as_str TurnActive = ''ACTIVE''"
| "turn_state_as_str TurnFailed = ''FAILED''"

definition turn_state_parse :: "string \<Rightarrow> turn_state store_result" where
  "turn_state_parse v =
     (if v = ''IDLE'' then Inr TurnIdle
      else if v = ''ACTIVE'' then Inr TurnActive
      else if v = ''FAILED'' then Inr TurnFailed
      else Inl (InvalidState (''unknown turn state '' @ v)))"

datatype message_state = MsgQueued | MsgSending | MsgDelivered | MsgFailed

datatype pending_request_state = ReqPending | ReqSending | ReqResponded

datatype pending_response_claim =
    Claimed
  | TaskStopping
  | NotPending pending_request_state
  | NotFound

datatype submission_disposition = Created | Existing

lemma task_phase_roundtrip [simp]: "task_phase_parse (task_phase_as_str p) = Inr p"
  by (cases p) (simp_all add: task_phase_parse_def)

lemma task_outcome_roundtrip [simp]: "task_outcome_parse (task_outcome_as_str v) = Inr v"
  by (cases v) (simp_all add: task_outcome_parse_def)

lemma turn_state_roundtrip [simp]: "turn_state_parse (turn_state_as_str v) = Inr v"
  by (cases v) (simp_all add: turn_state_parse_def)

lemma task_phase_parse_sound: "task_phase_parse v = Inr p \<Longrightarrow> v = task_phase_as_str p"
  by (auto simp: task_phase_parse_def split: if_splits)

lemma task_outcome_parse_sound: "task_outcome_parse v = Inr p \<Longrightarrow> v = task_outcome_as_str p"
  by (auto simp: task_outcome_parse_def split: if_splits)

lemma turn_state_parse_sound: "turn_state_parse v = Inr p \<Longrightarrow> v = turn_state_as_str p"
  by (auto simp: turn_state_parse_def split: if_splits)

text \<open>The phases of the SQL lists \<open>IN ('PREPARING',...)\<close> and \<open>IN ('QUEUED','PREPARING',...)\<close>.\<close>

definition owned_phase :: "task_phase \<Rightarrow> bool" where
  "owned_phase p \<longleftrightarrow> p \<in> {Preparing, Running, WaitingInput, Cancelling}"

definition active_phase :: "task_phase \<Rightarrow> bool" where
  "active_phase p \<longleftrightarrow> p \<in> {Queued, Preparing, Running, WaitingInput, Cancelling}"

lemma active_phase_iff [simp]: "active_phase p \<longleftrightarrow> p \<noteq> Terminal"
  by (cases p) (simp_all add: active_phase_def)

lemma owned_phase_simps [simp]:
  "\<not> owned_phase Queued" "owned_phase Preparing" "owned_phase Running"
  "owned_phase WaitingInput" "owned_phase Cancelling" "\<not> owned_phase Terminal"
  by (simp_all add: owned_phase_def)

definition message_live :: "message_state \<Rightarrow> bool" where
  "message_live s \<longleftrightarrow> s \<in> {MsgQueued, MsgSending}"

definition request_live :: "pending_request_state \<Rightarrow> bool" where
  "request_live s \<longleftrightarrow> s \<in> {ReqPending, ReqSending}"

lemma live_simps [simp]:
  "message_live MsgQueued" "message_live MsgSending"
  "\<not> message_live MsgDelivered" "\<not> message_live MsgFailed"
  "request_live ReqPending" "request_live ReqSending" "\<not> request_live ReqResponded"
  by (simp_all add: message_live_def request_live_def)

section \<open>Rows\<close>

text \<open>A row of \<open>tasks\<close>, with SQLite's implicit \<open>rowid\<close> first. A nullable column is an option.\<close>

record task_row =
  t_rowid :: i64
  t_agent_id :: string
  t_repository :: string
  t_phase :: task_phase
  t_outcome :: "task_outcome option"
  t_workspace_path :: string
  t_runtime_hash :: "string option"
  t_prepared_launch_json :: string
  t_prepared_launch_sha256 :: string
  t_initial_prompt :: string
  t_zcode_session_id :: "string option"
  t_turn_state :: turn_state
  t_pid :: "i64 option"
  t_process_group_id :: "i64 option"
  t_process_uid :: "i64 option"
  t_process_start_token :: "string option"
  t_runtime_agent_id :: "string option"
  t_owner_id :: "string option"
  t_owner_epoch :: i64
  t_lease_expires_at :: "i64 option"
  t_close_requested :: bool
  t_stop_requested :: bool
  t_created_at :: i64
  t_started_at :: "i64 option"
  t_completed_at :: "i64 option"
  t_last_heartbeat_at :: "i64 option"
  t_last_event_seq :: i64
  t_failure_code :: "string option"
  t_failure_message :: "string option"
  t_closed_at :: "i64 option"
  t_reaped_at :: "i64 option"

text \<open>\<open>CHECK ((phase = 'TERMINAL') = (outcome IS NOT NULL))\<close>\<close>

definition task_check :: "task_row \<Rightarrow> bool" where
  "task_check r \<longleftrightarrow> (t_phase r = Terminal) = (t_outcome r \<noteq> None)"

record event_row =
  e_agent_id :: string
  e_runtime_agent_id :: string
  e_seq :: i64
  e_source_seq :: i64
  e_timestamp :: i64
  e_event_type :: string
  e_turn_id :: "string option"
  e_payload_json :: string
  e_redaction_level :: string

record message_row =
  m_message_id :: string
  m_agent_id :: string
  m_mode :: string
  m_content :: string
  m_state :: message_state
  m_created_at :: i64
  m_delivered_at :: "i64 option"
  m_target_turn_id :: "string option"
  m_failure_code :: "string option"
  m_failure_message :: "string option"

record request_row =
  p_request_id :: string
  p_agent_id :: string
  p_correlation_id :: string
  p_request_type :: string
  p_payload_json :: string
  p_state :: pending_request_state
  p_created_at :: i64
  p_responded_at :: "i64 option"
  p_response_decision :: "string option"
  p_response_content :: "string option"

record result_row =
  r_agent_id :: string
  r_outcome :: task_outcome
  r_final_text :: string
  r_partial :: bool
  r_result_sha256 :: string
  r_completed_at :: i64

record ledger_row =
  l_agent_id :: string
  l_owner_epoch :: i64
  l_from_phase :: "task_phase option"
  l_to_phase :: task_phase
  l_outcome :: "task_outcome option"
  l_reason_code :: "string option"
  l_recorded_at :: i64

text \<open>
  The database: each table is the list of its rows in rowid order (a new row gets a rowid
  above all others, so it goes to the end). \<open>db_next_id\<close> is the single row of
  \<open>task_id_allocator\<close>.
\<close>

record db =
  db_tasks :: "task_row list"
  db_events :: "event_row list"
  db_messages :: "message_row list"
  db_requests :: "request_row list"
  db_results :: "result_row list"
  db_ledger :: "ledger_row list"
  db_next_id :: i64

text \<open>The database the schema script creates.\<close>

definition empty_db :: db where
  "empty_db = \<lparr>db_tasks = [], db_events = [], db_messages = [], db_requests = [],
     db_results = [], db_ledger = [], db_next_id = 10000000\<rparr>"

section \<open>The records of the public API\<close>

record new_task =
  nt_agent_id :: string
  nt_repository :: string
  nt_workspace_path :: string
  nt_runtime_hash :: "string option"
  nt_prepared_launch_json :: string
  nt_prepared_launch_sha256 :: string
  nt_initial_prompt :: string

record process_identity =
  pi_pid :: u32
  pi_process_group_id :: "32 word"
  pi_uid :: u32
  pi_start_token :: string

record task_record =
  tr_agent_id :: string
  tr_repository :: string
  tr_phase :: task_phase
  tr_outcome :: "task_outcome option"
  tr_workspace_path :: string
  tr_runtime_hash :: "string option"
  tr_prepared_launch_json :: string
  tr_prepared_launch_sha256 :: string
  tr_initial_prompt :: string
  tr_owner_id :: "string option"
  tr_owner_epoch :: u64
  tr_close_requested :: bool
  tr_stop_requested :: bool
  tr_last_event_seq :: u64
  tr_failure_code :: "string option"
  tr_failure_message :: "string option"
  tr_runtime_agent_id :: "string option"
  tr_zcode_session_id :: "string option"
  tr_turn_state :: turn_state
  tr_process_identity :: "process_identity option"
  tr_closed_at :: "i64 option"
  tr_reaped_at :: "i64 option"
  tr_created_at :: i64

record task_result =
  res_outcome :: task_outcome
  res_final_text :: string
  res_partial :: bool

record stored_task_result =
  st_result :: task_result
  st_result_sha256 :: string

record task_page_filter =
  pf_phase :: "task_phase option"
  pf_outcome :: "task_outcome option"

record task_window_query =
  wq_agent_id :: "string option"
  wq_workspace_path :: "string option"
  wq_start_ms :: "i64 option"
  wq_end_ms :: "i64 option"

record terminal_update =
  tu_outcome :: task_outcome
  tu_failure_code :: "string option"
  tu_failure_message :: "string option"

record lifecycle_write =
  lw_agent_id :: string
  lw_runtime_agent_id :: string
  lw_owner_epoch :: u64
  lw_source_sequence :: u64
  lw_event_type :: string
  lw_turn_id :: "string option"
  lw_payload_json :: string
  lw_redaction_level :: string
  lw_terminal :: "terminal_update option"
  lw_turn_state :: "turn_state option"

record control_decision =
  cd_phase :: task_phase
  cd_outcome :: "task_outcome option"
  cd_owner_epoch :: u64
  cd_needs_runtime_stop :: bool
  cd_prior_stop_or_close :: bool

section \<open>Conversions at the SQLite boundary\<close>

definition u64_to_i64 :: "u64 \<Rightarrow> i64 store_result" where
  "u64_to_i64 v = (if uint v \<le> i64_max then Inr (uint v)
     else Inl (InvalidState ''value exceeds SQLite i64''))"

definition usize_to_i64 :: "u64 \<Rightarrow> i64 store_result" where
  "usize_to_i64 v = (if uint v \<le> i64_max then Inr (uint v)
     else Inl (InvalidState ''value exceeds SQLite i64''))"

definition i64_to_u64 :: "i64 \<Rightarrow> u64 store_result" where
  "i64_to_u64 v = (if 0 \<le> v then Inr (word_of_int v)
     else Inl (InvalidState ''negative SQLite value''))"

lemma u64_to_i64_Inr: "u64_to_i64 v = Inr i \<Longrightarrow> i = uint v \<and> 0 \<le> i \<and> i \<le> i64_max"
  by (auto simp: u64_to_i64_def split: if_splits)

lemma uint_word_of_i64: "0 \<le> i \<Longrightarrow> i \<le> i64_max \<Longrightarrow> uint (word_of_int i :: u64) = i"
  by (simp add: i64_max_def uint_word_of_int take_bit_int_eq_self)

lemma i64_u64_roundtrip:
  "0 \<le> i \<Longrightarrow> i \<le> i64_max \<Longrightarrow> and_then (i64_to_u64 i) u64_to_i64 = Inr i"
  by (simp add: i64_to_u64_def u64_to_i64_def uint_word_of_i64)

lemma u64_to_i64_word_of_int [simp]:
  "0 \<le> i \<Longrightarrow> i \<le> i64_max \<Longrightarrow> u64_to_i64 (word_of_int i) = Inr i"
  by (simp add: u64_to_i64_def uint_word_of_i64)

text \<open>
  \<open>row.get::<_, i64>\<close>. An integer sum that leaves the 64-bit range is stored by SQLite as a
  REAL; the column then holds a value outside \<open>in_i64\<close> and reading it as \<open>i64\<close> fails.
\<close>

definition get_i64 :: "i64 \<Rightarrow> i64 store_result" where
  "get_i64 v = (if in_i64 v then Inr v else Inl (Sqlite InvalidColumnType))"

lemma get_i64_ok [simp]: "0 \<le> v \<Longrightarrow> v \<le> i64_max \<Longrightarrow> get_i64 v = Inr v"
  by (simp add: get_i64_def in_i64_def i64_max_def)

definition stored_identity :: "task_row \<Rightarrow> process_identity option store_result" where
  "stored_identity r =
     (case (t_pid r, t_process_group_id r, t_process_uid r, t_process_start_token r) of
        (Some pid, Some pgid, Some uid, Some token) \<Rightarrow>
          and_then (ok_or (InvalidState ''stored pid is invalid'') (u32_try_from pid)) (\<lambda>pid.
          and_then (ok_or (InvalidState ''stored process group is invalid'') (i32_try_from pgid))
            (\<lambda>pgid.
          and_then (ok_or (InvalidState ''stored uid is invalid'') (u32_try_from uid)) (\<lambda>uid.
          Inr (Some \<lparr>pi_pid = pid, pi_process_group_id = pgid, pi_uid = uid,
                     pi_start_token = token\<rparr>))))
      | (None, None, None, None) \<Rightarrow> Inr None
      | _ \<Rightarrow> Inl (InvalidState ''stored process identity is incomplete''))"

definition convert_task_row :: "task_row \<Rightarrow> task_record store_result" where
  "convert_task_row r =
     and_then (get_i64 (t_owner_epoch r)) (\<lambda>epoch_column.
     and_then (get_i64 (t_last_event_seq r)) (\<lambda>seq_column.
     and_then (stored_identity r) (\<lambda>identity.
     and_then (task_phase_parse (task_phase_as_str (t_phase r))) (\<lambda>phase.
     and_then (transpose_opt task_outcome_parse (map_option task_outcome_as_str (t_outcome r)))
       (\<lambda>out.
     and_then (i64_to_u64 epoch_column) (\<lambda>epoch.
     and_then (turn_state_parse (turn_state_as_str (t_turn_state r))) (\<lambda>turn.
     and_then (i64_to_u64 seq_column) (\<lambda>seq.
     Inr \<lparr>tr_agent_id = t_agent_id r, tr_repository = t_repository r, tr_phase = phase,
          tr_outcome = out, tr_workspace_path = t_workspace_path r,
          tr_runtime_hash = t_runtime_hash r,
          tr_prepared_launch_json = t_prepared_launch_json r,
          tr_prepared_launch_sha256 = t_prepared_launch_sha256 r,
          tr_initial_prompt = t_initial_prompt r, tr_owner_id = t_owner_id r,
          tr_owner_epoch = epoch, tr_close_requested = t_close_requested r,
          tr_stop_requested = t_stop_requested r, tr_last_event_seq = seq,
          tr_failure_code = t_failure_code r, tr_failure_message = t_failure_message r,
          tr_runtime_agent_id = t_runtime_agent_id r,
          tr_zcode_session_id = t_zcode_session_id r, tr_turn_state = turn,
          tr_process_identity = identity, tr_closed_at = t_closed_at r,
          tr_reaped_at = t_reaped_at r, tr_created_at = t_created_at r\<rparr>))))))))"

text \<open>The columns of a process identity, as \<open>mark_session_running\<close> and the restore write them.\<close>

definition set_identity :: "process_identity option \<Rightarrow> task_row \<Rightarrow> task_row" where
  "set_identity identity r = r\<lparr>
     t_pid := map_option (\<lambda>v. uint (pi_pid v)) identity,
     t_process_group_id := map_option (\<lambda>v. sint (pi_process_group_id v)) identity,
     t_process_uid := map_option (\<lambda>v. uint (pi_uid v)) identity,
     t_process_start_token := map_option pi_start_token identity\<rparr>"

lemma stored_identity_set_identity [simp]:
  "stored_identity (set_identity identity r) = Inr identity"
  by (cases identity) (simp_all add: stored_identity_def set_identity_def)

text \<open>A row that converts: counters in range and a process identity that is whole.\<close>

definition row_ok :: "task_row \<Rightarrow> bool" where
  "row_ok r \<longleftrightarrow> is_ok (stored_identity r) \<and> 0 \<le> t_owner_epoch r \<and> t_owner_epoch r \<le> i64_max
     \<and> 0 \<le> t_last_event_seq r \<and> t_last_event_seq r \<le> i64_max"

lemma convert_task_row_ok:
  assumes "row_ok r"
  obtains rec where "convert_task_row r = Inr rec"
    and "tr_agent_id rec = t_agent_id r" and "tr_phase rec = t_phase r"
    and "tr_outcome rec = t_outcome r" and "tr_owner_epoch rec = word_of_int (t_owner_epoch r)"
    and "tr_close_requested rec = t_close_requested r"
    and "tr_stop_requested rec = t_stop_requested r"
    and "tr_failure_code rec = t_failure_code r"
    and "tr_failure_message rec = t_failure_message r"
proof -
  from assms obtain identity where identity: "stored_identity r = Inr identity"
    by (cases "stored_identity r") (auto simp: row_ok_def)
  have out: "transpose_opt task_outcome_parse (map_option task_outcome_as_str (t_outcome r))
      = Inr (t_outcome r)"
    by (cases "t_outcome r") simp_all
  from assms show ?thesis
    by (intro that) (auto simp: convert_task_row_def identity out i64_to_u64_def row_ok_def)
qed

end
