(* ===== verification/Store_Ops.thy ===== *)
theory Store_Ops
  imports Store_Types "HOL-Library.List_Lexorder" "HOL-Library.Product_Lexorder"
    "HOL-Library.Char_ord"
begin

text \<open>
  The operations of \<open>Store\<close> (\<open>crates/zcode-agent-store/src/lib.rs\<close>), one definition per method.

  Every method that writes runs inside one immediate transaction. The body of the transaction
  is a function from the database to an error or a value with the new database; \<open>run_tx\<close>
  commits the new database of a body that ends with \<open>Ok\<close> and rolls back one that ends with
  \<open>Err\<close>, since \<open>rusqlite\<close> rolls a dropped transaction back. The mutex around the connection
  and the immediate transaction make a method atomic, so a method is one function on databases.

  \<open>now\<close> is the sequence of readings the calls of \<open>now_millis\<close> of one method see, in the order
  of the calls. \<open>digest\<close> is the SHA-256 of the JSON text of a result, computed by the
  \<open>serde_json\<close> and \<open>sha2\<close> crates, and a parameter here.
\<close>

type_synonym 'a tx = "db \<Rightarrow> ('a \<times> db) store_result"
type_synonym 'a op = "db \<Rightarrow> 'a store_result \<times> db"
type_synonym clock = "nat \<Rightarrow> i64"

definition run_tx :: "'a tx \<Rightarrow> 'a op" where
  "run_tx body d = (case body d of Inl e \<Rightarrow> (Inl e, d) | Inr (a, d') \<Rightarrow> (Inr a, d'))"

text \<open>A value that is computed from the result of a committed transaction and may fail.\<close>

definition after_commit :: "('a \<Rightarrow> 'b store_result) \<Rightarrow> 'a op \<Rightarrow> 'b op" where
  "after_commit f operation d =
     (case operation d of (Inl e, d') \<Rightarrow> (Inl e, d') | (Inr a, d') \<Rightarrow> (f a, d'))"

section \<open>Statements\<close>

definition find_task :: "db \<Rightarrow> string \<Rightarrow> task_row option" where
  "find_task d i = find (\<lambda>r. t_agent_id r = i) (db_tasks d)"

definition query_task :: "db \<Rightarrow> string \<Rightarrow> task_record option store_result" where
  "query_task d i = transpose_opt convert_task_row (find_task d i)"

type_synonym guard = "task_phase \<times> task_outcome option \<times> u64 \<times> bool \<times> bool"

definition query_guard :: "db \<Rightarrow> string \<Rightarrow> guard store_result" where
  "query_guard d i =
     and_then (ok_or (InvalidState (''unknown task '' @ i)) (find_task d i)) (\<lambda>r.
     and_then (get_i64 (t_owner_epoch r)) (\<lambda>epoch_column.
     and_then (task_phase_parse (task_phase_as_str (t_phase r))) (\<lambda>phase.
     and_then (transpose_opt task_outcome_parse (map_option task_outcome_as_str (t_outcome r)))
       (\<lambda>out.
     and_then (i64_to_u64 epoch_column) (\<lambda>epoch.
     Inr (phase, out, epoch, t_close_requested r, t_stop_requested r))))))"

text \<open>\<open>UPDATE tasks SET ... WHERE ...\<close>: the number of changed rows, with the CHECK constraint.\<close>

definition update_tasks :: "(task_row \<Rightarrow> bool) \<Rightarrow> (task_row \<Rightarrow> task_row) \<Rightarrow> nat tx" where
  "update_tasks sel f d =
     (let hit = filter sel (db_tasks d)
      in if list_all (\<lambda>r. task_check (f r)) hit
         then Inr (length hit,
                   d\<lparr>db_tasks := map (\<lambda>r. if sel r then f r else r) (db_tasks d)\<rparr>)
         else Inl (Sqlite ConstraintViolation))"

definition update_messages :: "(message_row \<Rightarrow> bool) \<Rightarrow> (message_row \<Rightarrow> message_row) \<Rightarrow> db \<Rightarrow> nat \<times> db"
where
  "update_messages sel f d =
     (length (filter sel (db_messages d)),
      d\<lparr>db_messages := map (\<lambda>r. if sel r then f r else r) (db_messages d)\<rparr>)"

definition update_requests :: "(request_row \<Rightarrow> bool) \<Rightarrow> (request_row \<Rightarrow> request_row) \<Rightarrow> db \<Rightarrow> nat \<times> db"
where
  "update_requests sel f d =
     (length (filter sel (db_requests d)),
      d\<lparr>db_requests := map (\<lambda>r. if sel r then f r else r) (db_requests d)\<rparr>)"

definition next_rowid :: "task_row list \<Rightarrow> i64" where
  "next_rowid ts = foldr (\<lambda>r m. max (t_rowid r) m) ts 0 + 1"

text \<open>\<open>ORDER BY created_at, rowid LIMIT 1\<close>: a stable sort of the rows, which are in rowid order.\<close>

definition first_by :: "('r \<Rightarrow> i64) \<Rightarrow> 'r list \<Rightarrow> 'r option" where
  "first_by key rows = (case sort_key key rows of [] \<Rightarrow> None | r # _ \<Rightarrow> Some r)"

text \<open>The \<open>REFERENCES tasks(agent_id)\<close> of the other tables.\<close>

definition references :: "db \<Rightarrow> string \<Rightarrow> bool" where
  "references d i \<longleftrightarrow> find_task d i \<noteq> None"

definition insert_ledger ::
  "i64 \<Rightarrow> string \<Rightarrow> u64 \<Rightarrow> task_phase option \<Rightarrow> task_phase \<Rightarrow> task_outcome option \<Rightarrow>
   string option \<Rightarrow> db \<Rightarrow> db store_result" where
  "insert_ledger now i epoch from_phase to_phase out reason d =
     and_then (u64_to_i64 epoch) (\<lambda>epoch_column.
     if references d i
     then Inr (d\<lparr>db_ledger := db_ledger d @
            [\<lparr>l_agent_id = i, l_owner_epoch = epoch_column, l_from_phase = from_phase,
              l_to_phase = to_phase, l_outcome = out, l_reason_code = reason,
              l_recorded_at = now\<rparr>]\<rparr>)
     else Inl (Sqlite ConstraintViolation))"

definition insert_result_row :: "result_row \<Rightarrow> db \<Rightarrow> db store_result" where
  "insert_result_row row d =
     (if references d (r_agent_id row) \<and>
         (\<forall>r \<in> set (db_results d). r_agent_id r \<noteq> r_agent_id row)
      then Inr (d\<lparr>db_results := db_results d @ [row]\<rparr>)
      else Inl (Sqlite ConstraintViolation))"

definition delete_result :: "string \<Rightarrow> db \<Rightarrow> db" where
  "delete_result i d = d\<lparr>db_results := filter (\<lambda>r. r_agent_id r \<noteq> i) (db_results d)\<rparr>"

definition settle_terminal_commands :: "string \<Rightarrow> string \<Rightarrow> db \<Rightarrow> db" where
  "settle_terminal_commands i reason d =
     (let d1 = snd (update_messages
            (\<lambda>m. m_agent_id m = i \<and> message_live (m_state m))
            (\<lambda>m. m\<lparr>m_state := MsgFailed, m_failure_code := Some reason,
                   m_failure_message := Some ''runtime is no longer available''\<rparr>) d)
      in d1\<lparr>db_requests :=
            filter (\<lambda>p. \<not> (p_agent_id p = i \<and> request_live (p_state p))) (db_requests d1)\<rparr>)"

definition completion_blockers_tx :: "db \<Rightarrow> string \<Rightarrow> bool \<times> bool" where
  "completion_blockers_tx d i =
     (list_ex (\<lambda>p. p_agent_id p = i \<and> request_live (p_state p)) (db_requests d),
      list_ex (\<lambda>m. m_agent_id m = i \<and> message_live (m_state m)) (db_messages d))"

text \<open>\<open>COALESCE\<close>.\<close>

definition coalesce :: "'v option \<Rightarrow> 'v \<Rightarrow> 'v option" where
  "coalesce x y = (case x of None \<Rightarrow> Some y | Some v \<Rightarrow> Some v)"

definition terminal_row :: "i64 \<Rightarrow> task_outcome \<Rightarrow> terminal_update \<Rightarrow> task_row \<Rightarrow> task_row" where
  "terminal_row now out tu r =
     r\<lparr>t_phase := Terminal, t_outcome := Some out,
       t_completed_at := coalesce (t_completed_at r) now,
       t_failure_code := tu_failure_code tu, t_failure_message := tu_failure_message tu,
       t_turn_state := (if out \<in> {Failed, RuntimeLost, ResultInvalid} then TurnFailed
                        else TurnIdle),
       t_closed_at := (if t_close_requested r then coalesce (t_closed_at r) now
                       else t_closed_at r)\<rparr>"

definition apply_terminal ::
  "clock \<Rightarrow> string \<Rightarrow> u64 \<Rightarrow> task_phase \<Rightarrow> bool \<Rightarrow> bool \<Rightarrow> terminal_update \<Rightarrow> task_outcome tx"
where
  "apply_terminal now i epoch from_phase close_req stop_req tu d =
     (if from_phase = Terminal then Inl (Conflict ''task is already terminal'')
      else
        let out = (if (stop_req \<or> close_req) \<and> tu_outcome tu \<noteq> Cancelled then Cancelled
                   else tu_outcome tu)
        in and_then (u64_to_i64 epoch) (\<lambda>epoch_column.
           and_then (update_tasks
             (\<lambda>r. t_agent_id r = i \<and> t_owner_epoch r = epoch_column \<and> t_phase r \<noteq> Terminal)
             (terminal_row (now 0) out tu) d)
             (\<lambda>(changed, d1).
           if changed \<noteq> 1
           then Inl (Conflict (''terminal transition lost for '' @ i @ '' epoch ''
                               @ show_nat (unat epoch)))
           else
             let d2 = settle_terminal_commands i
                        (case tu_failure_code tu of None \<Rightarrow> ''TASK_TERMINATED'' | Some c \<Rightarrow> c) d1
             in and_then (insert_ledger (now 1) i epoch (Some from_phase) Terminal (Some out)
                            (tu_failure_code tu) d2) (\<lambda>d3.
                Inr (out, d3)))))"

section \<open>Identity allocation and submission\<close>

definition reserve_task_id :: "string op" where
  "reserve_task_id = run_tx (\<lambda>d.
     let nxt = db_next_id d
     in if \<not> (10000000 \<le> nxt \<and> nxt \<le> 99999999)
        then Inl (Conflict ''task id allocator exhausted'')
        else Inr (show_nat (nat nxt), d\<lparr>db_next_id := nxt + 1\<rparr>))"

definition invalid_text :: "string \<Rightarrow> bool" where
  "invalid_text v \<longleftrightarrow> trim v = [] \<or> nul \<in> set v"

fun check_fields :: "(string \<times> string) list \<Rightarrow> unit store_result" where
  "check_fields [] = Inr ()"
| "check_fields ((name, v) # rest) =
     (if invalid_text v then Inl (InvalidState (name @ '' is invalid'')) else check_fields rest)"

definition validate_task :: "new_task \<Rightarrow> unit store_result" where
  "validate_task t = check_fields
     [(''agent_id'', nt_agent_id t), (''repository'', nt_repository t),
      (''workspace_path'', nt_workspace_path t),
      (''prepared_launch_json'', nt_prepared_launch_json t),
      (''prepared_launch_sha256'', nt_prepared_launch_sha256 t),
      (''initial_prompt'', nt_initial_prompt t)]"

text \<open>The \<open>INSERT INTO tasks\<close> of a submission: the other columns take their defaults.\<close>

definition queued_row :: "new_task \<Rightarrow> i64 \<Rightarrow> i64 \<Rightarrow> task_row" where
  "queued_row t rowid created =
     \<lparr>t_rowid = rowid, t_agent_id = nt_agent_id t, t_repository = nt_repository t,
      t_phase = Queued, t_outcome = None, t_workspace_path = nt_workspace_path t,
      t_runtime_hash = nt_runtime_hash t, t_prepared_launch_json = nt_prepared_launch_json t,
      t_prepared_launch_sha256 = nt_prepared_launch_sha256 t,
      t_initial_prompt = nt_initial_prompt t, t_zcode_session_id = None,
      t_turn_state = TurnIdle, t_pid = None, t_process_group_id = None, t_process_uid = None,
      t_process_start_token = None, t_runtime_agent_id = None, t_owner_id = None,
      t_owner_epoch = 0, t_lease_expires_at = None, t_close_requested = False,
      t_stop_requested = False, t_created_at = created, t_started_at = None,
      t_completed_at = None, t_last_heartbeat_at = None, t_last_event_seq = 0,
      t_failure_code = None, t_failure_message = None, t_closed_at = None,
      t_reaped_at = None\<rparr>"

definition busy_agent :: "db \<Rightarrow> (task_row \<Rightarrow> bool) \<Rightarrow> string option" where
  "busy_agent d sel =
     map_option t_agent_id (first_by t_created_at
       (filter (\<lambda>r. sel r \<and> active_phase (t_phase r)) (db_tasks d)))"

definition enqueue_task_authoritative ::
  "clock \<Rightarrow> new_task \<Rightarrow> (task_record \<times> submission_disposition) op" where
  "enqueue_task_authoritative now t = run_tx (\<lambda>d.
     and_then (validate_task t) (\<lambda>_.
     and_then (query_task d (nt_agent_id t)) (\<lambda>existing.
     if existing \<noteq> None
     then Inl (Conflict (''agent id '' @ nt_agent_id t @ '' already exists''))
     else
       (case busy_agent d (\<lambda>r. t_workspace_path r = nt_workspace_path t) of
          Some active \<Rightarrow> Inl (Conflict (''WORKSPACE_BUSY active_agent_id='' @ active))
        | None \<Rightarrow>
            let d1 = d\<lparr>db_tasks := db_tasks d @
                        [queued_row t (next_rowid (db_tasks d)) (now 0)]\<rparr>
            in and_then (insert_ledger (now 1) (nt_agent_id t) 0 None Queued None None d1)
                 (\<lambda>d2.
               and_then (query_task d2 (nt_agent_id t)) (\<lambda>found.
               and_then (ok_or (InvalidState ''inserted task disappeared'') found) (\<lambda>stored.
               Inr ((stored, Created), d2))))))))"

section \<open>Queries\<close>

definition get_task :: "string \<Rightarrow> db \<Rightarrow> task_record option store_result" where
  "get_task i d = query_task d i"

definition validate_scope :: "string option \<Rightarrow> unit store_result" where
  "validate_scope repository =
     (if repository = None
      then Inl (InvalidState ''repository or group task scope is required'') else Inr ())"

definition get_task_scoped :: "string \<Rightarrow> string option \<Rightarrow> db \<Rightarrow> task_record option store_result"
where
  "get_task_scoped i repository d =
     and_then (validate_scope repository) (\<lambda>_.
     (case find (\<lambda>r. t_agent_id r = i \<and>
              (repository = None \<or> repository = Some (t_repository r))) (db_tasks d) of
        None \<Rightarrow> Inr None
      | Some r \<Rightarrow> query_task d (t_agent_id r)))"

definition fetch_listed :: "string \<Rightarrow> db \<Rightarrow> string \<Rightarrow> task_record store_result" where
  "fetch_listed gone d i = and_then (query_task d i) (ok_or (InvalidState gone))"

definition list_task_page ::
  "string option \<Rightarrow> task_page_filter \<Rightarrow> u64 option \<Rightarrow> u64 \<Rightarrow> db \<Rightarrow>
   (task_record list \<times> u64 option) store_result" where
  "list_task_page repository flt cursor limit d =
     and_then (validate_scope repository) (\<lambda>_.
     if limit = 0 then Inl (InvalidState ''task page limit must be positive'')
     else
       and_then (transpose_opt u64_to_i64 cursor) (\<lambda>cursor_column.
       and_then (usize_to_i64 (saturating_add limit 1)) (\<lambda>limit_column.
       let rows = take (nat limit_column) (rev (filter (\<lambda>r.
                (repository = None \<or> repository = Some (t_repository r)) \<and>
                (pf_phase flt = None \<or> pf_phase flt = Some (t_phase r)) \<and>
                (pf_outcome flt = None \<or> pf_outcome flt = t_outcome r) \<and>
                (case cursor_column of None \<Rightarrow> True | Some c \<Rightarrow> t_rowid r < c)) (db_tasks d)));
           has_more = unat limit < length rows;
           selected = take (unat limit) rows
       in and_then (if has_more \<and> selected \<noteq> []
                    then and_then (i64_to_u64 (t_rowid (last selected))) (\<lambda>c. Inr (Some c))
                    else Inr None) (\<lambda>next_cursor.
          and_then (collect_results (fetch_listed ''listed task disappeared'' d)
                     (map t_agent_id selected)) (\<lambda>tasks.
          Inr (tasks, next_cursor))))))"

definition list_task_window :: "task_window_query \<Rightarrow> db \<Rightarrow> task_record list store_result" where
  "list_task_window q d =
     (if wq_agent_id q = None \<and> wq_workspace_path q = None
      then Inl (InvalidState ''agent_id or workspace_path query scope is required'')
      else if (case (wq_start_ms q, wq_end_ms q) of (Some s, Some e) \<Rightarrow> s > e | _ \<Rightarrow> False)
      then Inl (InvalidState ''query start_ms must be less than or equal to end_ms'')
      else collect_results (fetch_listed ''task disappeared during query'' d)
        (map t_agent_id (sort_key (\<lambda>r. (t_created_at r, t_agent_id r))
          (filter (\<lambda>r.
             (wq_agent_id q = None \<or> wq_agent_id q = Some (t_agent_id r)) \<and>
             (wq_workspace_path q = None \<or> wq_workspace_path q = Some (t_workspace_path r)) \<and>
             (case wq_start_ms q of None \<Rightarrow> True | Some s \<Rightarrow> s \<le> t_created_at r) \<and>
             (case wq_end_ms q of None \<Rightarrow> True
              | Some e \<Rightarrow> (case t_completed_at r of None \<Rightarrow> False | Some c \<Rightarrow> c \<le> e)))
           (db_tasks d)))))"

definition startup_recovery_tasks :: "db \<Rightarrow> task_record list store_result" where
  "startup_recovery_tasks d =
     collect_results (fetch_listed ''startup recovery task disappeared'' d)
       (map t_agent_id (sort_key t_created_at
         (filter (\<lambda>r. owned_phase (t_phase r) \<or> (t_phase r = Terminal \<and> t_reaped_at r = None))
           (db_tasks d))))"

definition active_count :: "db \<Rightarrow> u64 store_result" where
  "active_count d = i64_to_u64 (int (length (filter (\<lambda>r. owned_phase (t_phase r)) (db_tasks d))))"

end
