(* ===== verification/Store_Lifecycle.thy ===== *)
theory Store_Lifecycle
  imports Store_Ops
begin

text \<open>
  The methods of \<open>Store\<close> that move a task through its life: the queue claim, the start of a
  session, the event log, the terminal transition, stop and close requests, the requeue of a
  finished task, reaping, the restore after a failed resume, and the immutable result.
\<close>

section \<open>Claim and start\<close>

definition claimable :: "db \<Rightarrow> i64 \<Rightarrow> task_row \<Rightarrow> bool" where
  "claimable d limit q \<longleftrightarrow> t_phase q = Queued \<and> \<not> t_close_requested q \<and>
     int (length (filter (\<lambda>a. t_repository a = t_repository q \<and> owned_phase (t_phase a))
           (db_tasks d))) < limit"

definition claimed_row :: "string \<Rightarrow> i64 \<Rightarrow> task_row \<Rightarrow> task_row" where
  "claimed_row owner now r =
     r\<lparr>t_phase := Preparing, t_owner_id := Some owner, t_owner_epoch := t_owner_epoch r + 1,
       t_started_at := coalesce (t_started_at r) now, t_last_heartbeat_at := Some now\<rparr>"

definition claim_next ::
  "clock \<Rightarrow> string \<Rightarrow> u64 \<Rightarrow> u64 \<Rightarrow> (task_record \<times> u64) option op" where
  "claim_next now owner global_limit per_workspace_limit =
     (if per_workspace_limit = 0 then (\<lambda>d. (Inr None, d))
      else run_tx (\<lambda>d.
        and_then (usize_to_i64 per_workspace_limit) (\<lambda>limit.
        (case map_option t_agent_id
                (first_by t_created_at (filter (claimable d limit) (db_tasks d))) of
           None \<Rightarrow> Inr (None, d)
         | Some i \<Rightarrow>
             and_then (update_tasks
               (\<lambda>r. t_agent_id r = i \<and> t_phase r = Queued \<and> \<not> t_close_requested r)
               (claimed_row owner (now 0)) d) (\<lambda>(changed, d1).
             if changed \<noteq> 1
             then Inl (Conflict (''task '' @ i @ '' lost its queue claim''))
             else
               and_then (query_task d1 i) (\<lambda>found.
               and_then (ok_or (InvalidState ''claimed task disappeared'') found) (\<lambda>task.
               and_then (insert_ledger (now 1) i (tr_owner_epoch task) (Some Queued) Preparing
                          None (Some ''CLAIMED'') d1) (\<lambda>d2.
               Inr (Some (task, tr_owner_epoch task), d2)))))))))"

definition started_row ::
  "string \<Rightarrow> process_identity option \<Rightarrow> string option \<Rightarrow> turn_state option \<Rightarrow> i64 \<Rightarrow>
   task_row \<Rightarrow> task_row" where
  "started_row runtime_agent identity session turn now r =
     (set_identity identity r)\<lparr>t_phase := Running, t_runtime_agent_id := Some runtime_agent,
       t_last_heartbeat_at := Some now,
       t_zcode_session_id := (case session of None \<Rightarrow> t_zcode_session_id r | Some v \<Rightarrow> Some v),
       t_turn_state := (case turn of None \<Rightarrow> t_turn_state r | Some v \<Rightarrow> v)\<rparr>"

definition mark_session_running ::
  "clock \<Rightarrow> string \<Rightarrow> u64 \<Rightarrow> string \<Rightarrow> process_identity option \<Rightarrow> string option \<Rightarrow>
   turn_state option \<Rightarrow> bool op" where
  "mark_session_running now i epoch runtime_agent identity session turn = run_tx (\<lambda>d.
     and_then (u64_to_i64 epoch) (\<lambda>epoch_column.
     and_then (update_tasks
       (\<lambda>r. t_agent_id r = i \<and> t_owner_epoch r = epoch_column \<and> t_phase r = Preparing)
       (started_row runtime_agent identity session turn (now 0)) d)
       (\<lambda>(changed, d1).
     if changed = 1
     then and_then (insert_ledger (now 1) i epoch (Some Preparing) Running None
                      (Some ''RUNTIME_STARTED'') d1) (\<lambda>d2. Inr (True, d2))
     else Inr (False, d1))))"

section \<open>Events and the terminal transition\<close>

definition insert_event :: "event_row \<Rightarrow> db \<Rightarrow> db store_result" where
  "insert_event row d =
     (if references d (e_agent_id row) \<and>
         list_all (\<lambda>e. \<not> (e_agent_id e = e_agent_id row
               \<and> e_runtime_agent_id e = e_runtime_agent_id row
               \<and> (e_seq e = e_seq row \<or> e_source_seq e = e_source_seq row))) (db_events d)
      then Inr (d\<lparr>db_events := db_events d @ [row]\<rparr>)
      else Inl (Sqlite ConstraintViolation))"

definition logged_row :: "i64 \<Rightarrow> turn_state option \<Rightarrow> i64 \<Rightarrow> task_row \<Rightarrow> task_row" where
  "logged_row sequence turn now r =
     r\<lparr>t_last_event_seq := sequence, t_last_heartbeat_at := Some now,
       t_turn_state := (case turn of None \<Rightarrow> t_turn_state r | Some v \<Rightarrow> v)\<rparr>"

definition append_lifecycle_tx :: "clock \<Rightarrow> lifecycle_write \<Rightarrow> i64 tx" where
  "append_lifecycle_tx now w d =
     and_then (u64_to_i64 (lw_source_sequence w)) (\<lambda>source.
     (case find (\<lambda>e. e_agent_id e = lw_agent_id w \<and> e_runtime_agent_id e = lw_runtime_agent_id w
               \<and> e_source_seq e = source) (db_events d) of
        Some e \<Rightarrow> Inr (e_seq e, d)
      | None \<Rightarrow>
          and_then (query_guard d (lw_agent_id w)) (\<lambda>(phase, out, epoch, close_req, stop_req).
          if phase = Terminal \<or> epoch \<noteq> lw_owner_epoch w
          then Inl (Conflict (''late lifecycle record rejected for '' @ lw_agent_id w
                      @ '' epoch '' @ show_nat (unat (lw_owner_epoch w))))
          else
            and_then (ok_or (Sqlite QueryReturnedNoRows) (find_task d (lw_agent_id w))) (\<lambda>task.
            and_then (get_i64 (t_last_event_seq task)) (\<lambda>last_seq.
            and_then (if last_seq + 1 \<le> i64_max then Inr (last_seq + 1)
                      else Inl (InvalidState ''event sequence overflow'')) (\<lambda>sequence.
            and_then (insert_event
              \<lparr>e_agent_id = lw_agent_id w, e_runtime_agent_id = lw_runtime_agent_id w,
               e_seq = sequence, e_source_seq = source, e_timestamp = now 0,
               e_event_type = lw_event_type w, e_turn_id = lw_turn_id w,
               e_payload_json = lw_payload_json w,
               e_redaction_level = lw_redaction_level w\<rparr> d) (\<lambda>d1.
            and_then (update_tasks (\<lambda>r. t_agent_id r = lw_agent_id w)
              (logged_row sequence (lw_turn_state w) (now 1)) d1) (\<lambda>(_, d2).
            and_then (case lw_terminal w of
                None \<Rightarrow> Inr d2
              | Some tu \<Rightarrow>
                  and_then (apply_terminal (\<lambda>k. now (k + 2)) (lw_agent_id w) (lw_owner_epoch w)
                    phase close_req stop_req tu d2) (\<lambda>(_, d3). Inr d3)) (\<lambda>d3.
            Inr (sequence, d3))))))))))"

definition append_lifecycle :: "clock \<Rightarrow> lifecycle_write \<Rightarrow> u64 op" where
  "append_lifecycle now w = after_commit i64_to_u64 (run_tx (append_lifecycle_tx now w))"

definition transition_terminal ::
  "clock \<Rightarrow> string \<Rightarrow> u64 \<Rightarrow> terminal_update \<Rightarrow> task_outcome op" where
  "transition_terminal now i owner_epoch tu = run_tx (\<lambda>d.
     and_then (query_guard d i) (\<lambda>(phase, out, epoch, close_req, stop_req).
     if phase = Terminal
     then and_then (ok_or (InvalidState ''terminal task is missing its outcome'') out)
            (\<lambda>v. Inr (v, d))
     else if epoch \<noteq> owner_epoch
     then Inl (Conflict (''owner epoch changed for '' @ i))
     else apply_terminal now i owner_epoch phase close_req stop_req tu d))"

definition fail_claim :: "clock \<Rightarrow> string \<Rightarrow> u64 \<Rightarrow> string \<Rightarrow> string \<Rightarrow> task_outcome op" where
  "fail_claim now i owner_epoch code message =
     transition_terminal now i owner_epoch
       \<lparr>tu_outcome = RuntimeLost, tu_failure_code = Some code,
        tu_failure_message = Some message\<rparr>"

section \<open>Stop, close, resume, reap\<close>

definition stopped_row :: "task_phase \<Rightarrow> bool \<Rightarrow> bool \<Rightarrow> i64 \<Rightarrow> task_row \<Rightarrow> task_row" where
  "stopped_row next_phase close_it cancellation_intent now r =
     r\<lparr>t_phase := next_phase,
       t_close_requested := (if close_it then True else t_close_requested r),
       t_stop_requested := (if cancellation_intent then True else t_stop_requested r),
       t_closed_at := (if close_it then coalesce (t_closed_at r) now else t_closed_at r)\<rparr>"

definition request_stop_internal :: "clock \<Rightarrow> string \<Rightarrow> bool \<Rightarrow> bool \<Rightarrow> control_decision op" where
  "request_stop_internal now i close_it cancellation_intent = run_tx (\<lambda>d.
     and_then (query_guard d i) (\<lambda>(phase, out, epoch, close_req, stop_req).
     let needs_runtime_stop = owned_phase phase;
         next_phase = (if phase = Terminal then phase else Cancelling)
     in and_then (update_tasks (\<lambda>r. t_agent_id r = i)
          (stopped_row next_phase close_it cancellation_intent (now 0)) d) (\<lambda>(_, d1).
        and_then
          (if phase \<noteq> Terminal
           then let d2 = settle_terminal_commands i ''STOP_REQUESTED'' d1
                in if phase \<noteq> next_phase
                   then insert_ledger (now 1) i epoch (Some phase) next_phase None
                          (Some (if close_it then ''CLOSE_REQUESTED'' else ''STOP_REQUESTED'')) d2
                   else Inr d2
           else Inr d1) (\<lambda>d3.
        Inr (\<lparr>cd_phase = next_phase, cd_outcome = out, cd_owner_epoch = epoch,
              cd_needs_runtime_stop = needs_runtime_stop,
              cd_prior_stop_or_close = (close_req \<or> stop_req)\<rparr>, d3)))))"

definition request_close :: "clock \<Rightarrow> string \<Rightarrow> control_decision op" where
  "request_close now i = request_stop_internal now i True True"

definition request_stop :: "clock \<Rightarrow> string \<Rightarrow> control_decision op" where
  "request_stop now i = request_stop_internal now i False True"

definition request_runtime_stop :: "clock \<Rightarrow> string \<Rightarrow> control_decision op" where
  "request_runtime_stop now i = request_stop_internal now i False False"

definition requeued_row :: "task_row \<Rightarrow> task_row" where
  "requeued_row r = (set_identity None r)\<lparr>t_phase := Queued, t_outcome := None,
     t_owner_id := None, t_lease_expires_at := None, t_close_requested := False,
     t_stop_requested := False, t_failure_code := None, t_failure_message := None,
     t_closed_at := None, t_reaped_at := None, t_completed_at := None,
     t_last_event_seq := 0, t_turn_state := TurnIdle, t_runtime_agent_id := None\<rparr>"

definition queued_message :: "string \<Rightarrow> string \<Rightarrow> string \<Rightarrow> string \<Rightarrow> i64 \<Rightarrow> message_row" where
  "queued_message mid i mode content created =
     \<lparr>m_message_id = mid, m_agent_id = i, m_mode = mode, m_content = content,
      m_state = MsgQueued, m_created_at = created, m_delivered_at = None,
      m_target_turn_id = None, m_failure_code = None, m_failure_message = None\<rparr>"

definition requeue_task_for_resume_with_message ::
  "clock \<Rightarrow> string \<Rightarrow> string \<Rightarrow> string \<Rightarrow> unit op" where
  "requeue_task_for_resume_with_message now i mid content = run_tx (\<lambda>d.
     and_then (ok_or (Sqlite QueryReturnedNoRows) (find_task d i)) (\<lambda>task.
     and_then (get_i64 (t_owner_epoch task)) (\<lambda>owner_epoch.
     if t_phase task \<noteq> Terminal then Inl (Conflict (''task '' @ i @ '' is not terminal''))
     else if t_zcode_session_id task = None
     then Inl (InvalidState ''task has no persisted session id to resume'')
     else
       (case busy_agent d (\<lambda>r. t_workspace_path r = t_workspace_path task
                               \<and> t_agent_id r \<noteq> i) of
          Some active \<Rightarrow> Inl (Conflict (''WORKSPACE_BUSY active_agent_id='' @ active))
        | None \<Rightarrow>
          if list_ex (\<lambda>m. m_message_id m = mid) (db_messages d)
          then Inl (Conflict (''message '' @ mid @ '' already exists''))
          else
            and_then (update_tasks (\<lambda>r. t_agent_id r = i \<and> t_phase r = Terminal) requeued_row
                       (delete_result i d)) (\<lambda>(changed, d1).
            if changed \<noteq> 1
            then Inl (Conflict (''task '' @ i @ '' changed before resume''))
            else
              and_then (i64_to_u64 owner_epoch) (\<lambda>epoch.
              and_then (insert_ledger (now 0) i epoch (Some Terminal) Queued None
                         (Some ''RESUME_REQUESTED'') d1) (\<lambda>d2.
              Inr ((), d2\<lparr>db_messages := db_messages d2 @
                     [queued_message mid i ''queue'' content (now 1)]\<rparr>))))))))"

definition reaped_row :: "i64 \<Rightarrow> task_row \<Rightarrow> task_row" where
  "reaped_row now r = r\<lparr>t_owner_id := None, t_lease_expires_at := None,
     t_reaped_at := coalesce (t_reaped_at r) now\<rparr>"

text \<open>
  \<open>reap_task\<close> commits first and then fails when the outcome is missing, so the error is a value
  of the committed transaction.
\<close>

definition reap_task :: "clock \<Rightarrow> string \<Rightarrow> task_outcome op" where
  "reap_task now i = after_commit (ok_or (InvalidState ''terminal task has no outcome''))
     (run_tx (\<lambda>d.
        and_then (query_guard d i) (\<lambda>(phase, out, _, _, _).
        if phase \<noteq> Terminal
        then Inl (InvalidState (''cannot reap nonterminal task '' @ i))
        else
          and_then (update_tasks (\<lambda>r. t_agent_id r = i)
            (reaped_row (now 0)) d) (\<lambda>(_, d1).
          Inr (out, d1)))))"

definition restored_row :: "task_record \<Rightarrow> i64 \<Rightarrow> task_row \<Rightarrow> task_row" where
  "restored_row original seq r =
     (set_identity (tr_process_identity original) r)\<lparr>
       t_phase := Terminal, t_outcome := tr_outcome original, t_owner_id := tr_owner_id original,
       t_lease_expires_at := None, t_close_requested := tr_close_requested original,
       t_stop_requested := tr_stop_requested original,
       t_failure_code := tr_failure_code original,
       t_failure_message := tr_failure_message original,
       t_runtime_agent_id := tr_runtime_agent_id original,
       t_zcode_session_id := tr_zcode_session_id original,
       t_turn_state := tr_turn_state original, t_closed_at := tr_closed_at original,
       t_reaped_at := tr_reaped_at original, t_last_event_seq := seq\<rparr>"

definition restore_terminal_after_resume_failure ::
  "(task_result \<Rightarrow> string) \<Rightarrow> clock \<Rightarrow> task_record \<Rightarrow> task_result option \<Rightarrow> unit op" where
  "restore_terminal_after_resume_failure digest now original result = run_tx (\<lambda>d.
     and_then (u64_to_i64 (tr_last_event_seq original)) (\<lambda>seq.
     and_then (update_tasks (\<lambda>r. t_agent_id r = tr_agent_id original)
                (restored_row original seq) d) (\<lambda>(_, d1).
     (case result of
        None \<Rightarrow> Inr ((), d1)
      | Some res \<Rightarrow>
          and_then (insert_result_row
            \<lparr>r_agent_id = tr_agent_id original, r_outcome = res_outcome res,
             r_final_text = res_final_text res, r_partial = res_partial res,
             r_result_sha256 = digest res, r_completed_at = now 0\<rparr>
            (delete_result (tr_agent_id original) d1)) (\<lambda>d2. Inr ((), d2))))))"

section \<open>Results\<close>

definition validate_result :: "task_result \<Rightarrow> unit store_result" where
  "validate_result res =
     (if trim (res_final_text res) = [] then Inl (InvalidState ''invalid task result'')
      else if res_partial res \<and> res_outcome res = Completed
      then Inl (InvalidState ''partial result cannot be completed'')
      else Inr ())"

definition store_task_result ::
  "(task_result \<Rightarrow> string) \<Rightarrow> clock \<Rightarrow> string \<Rightarrow> task_result \<Rightarrow> unit op" where
  "store_task_result digest now i res = run_tx (\<lambda>d.
     and_then (validate_result res) (\<lambda>_.
     and_then (query_task d i) (\<lambda>found.
     and_then (ok_or (InvalidState (''unknown task '' @ i)) found) (\<lambda>task.
     (case find (\<lambda>r. r_agent_id r = i) (db_results d) of
        Some existing \<Rightarrow>
          if r_result_sha256 existing = digest res then Inr ((), d)
          else Inl (Conflict (''task '' @ i @ '' already has a different immutable result''))
      | None \<Rightarrow>
          if tr_phase task = Terminal
          then Inl (Conflict (''task '' @ i @ '' is terminal without this result''))
          else if \<not> owned_phase (tr_phase task)
          then Inl (Conflict (''task '' @ i @ '' cannot complete from ''
                              @ task_phase_debug (tr_phase task)))
          else if res_outcome res = Completed \<and>
                  (fst (completion_blockers_tx d i) \<or> snd (completion_blockers_tx d i))
          then Inl (Conflict
                 ''task completion is blocked by pending input or queued messages'')
          else if (tr_stop_requested task \<or> tr_close_requested task)
                  \<and> res_outcome res \<noteq> Cancelled
          then Inl (Conflict ''cancellation or close intent wins over late result'')
          else
            and_then (insert_result_row
              \<lparr>r_agent_id = i, r_outcome = res_outcome res, r_final_text = res_final_text res,
               r_partial = res_partial res, r_result_sha256 = digest res,
               r_completed_at = now 0\<rparr> d) (\<lambda>d1.
            and_then (apply_terminal (\<lambda>k. now (k + 1)) i (tr_owner_epoch task) (tr_phase task)
              (tr_close_requested task) (tr_stop_requested task)
              \<lparr>tu_outcome = res_outcome res,
               tu_failure_code =
                 (case tr_failure_code task of Some c \<Rightarrow> Some c
                  | None \<Rightarrow> if res_outcome res \<noteq> Completed then Some ''task failed'' else None),
               tu_failure_message = tr_failure_message task\<rparr> d1) (\<lambda>(_, d2).
            Inr ((), d2))))))))"

definition query_task_result :: "db \<Rightarrow> string \<Rightarrow> stored_task_result option store_result" where
  "query_task_result d i =
     transpose_opt (\<lambda>r.
       and_then (task_outcome_parse (task_outcome_as_str (r_outcome r))) (\<lambda>out.
       Inr \<lparr>st_result = \<lparr>res_outcome = out, res_final_text = r_final_text r,
                          res_partial = r_partial r\<rparr>,
            st_result_sha256 = r_result_sha256 r\<rparr>))
       (find (\<lambda>r. r_agent_id r = i) (db_results d))"

definition task_result_of :: "string \<Rightarrow> db \<Rightarrow> stored_task_result option store_result" where
  "task_result_of i d = query_task_result d i"

end
