(* ===== verification/Store_Commands.thy ===== *)
theory Store_Commands
  imports Store_Lifecycle
begin

text \<open>
  The two command queues of a task in \<open>Store\<close>: messages to the agent and the agent's pending
  requests (permissions and questions) with the responses to them.
\<close>

section \<open>Messages\<close>

definition find_message :: "db \<Rightarrow> string \<Rightarrow> message_row option" where
  "find_message d mid = find (\<lambda>m. m_message_id m = mid) (db_messages d)"

definition insert_message :: "clock \<Rightarrow> string \<Rightarrow> string \<Rightarrow> string \<Rightarrow> string \<Rightarrow> bool op" where
  "insert_message now mid i mode content =
     (if mode \<noteq> ''queue''
      then (\<lambda>d. (Inl (InvalidState ''only queue message mode is supported''), d))
      else run_tx (\<lambda>d.
        and_then (query_guard d i) (\<lambda>(phase, _, _, close_req, stop_req).
        if phase = Terminal \<or> close_req \<or> stop_req
        then Inl (Conflict ''terminal or stopping task cannot accept messages'')
        else
          (case find_message d mid of
             None \<Rightarrow>
               Inr (True, d\<lparr>db_messages := db_messages d @
                              [queued_message mid i mode content (now 0)]\<rparr>)
           | Some existing \<Rightarrow>
               if m_agent_id existing \<noteq> i \<or> m_mode existing \<noteq> mode
                  \<or> m_content existing \<noteq> content
               then Inl (Conflict ''message id is already bound to different content'')
               else Inr (False, d)))))"

definition message :: "string \<Rightarrow> db \<Rightarrow> message_row option store_result" where
  "message mid d = Inr (find_message d mid)"

definition claim_next_message :: "string \<Rightarrow> message_row option op" where
  "claim_next_message i = run_tx (\<lambda>d.
     and_then (query_guard d i) (\<lambda>(phase, _, _, close_req, stop_req).
     if phase \<noteq> Running \<or> close_req \<or> stop_req then Inr (None, d)
     else
       (case map_option m_message_id (first_by m_created_at
               (filter (\<lambda>m. m_agent_id m = i \<and> m_state m = MsgQueued) (db_messages d))) of
          None \<Rightarrow> Inr (None, d)
        | Some mid \<Rightarrow>
            let d1 = snd (update_messages
                       (\<lambda>m. m_message_id m = mid \<and> m_state m = MsgQueued)
                       (\<lambda>m. m\<lparr>m_state := MsgSending\<rparr>) d)
            in Inr (find_message d1 mid, d1))))"

definition complete_message :: "clock \<Rightarrow> string \<Rightarrow> string option \<Rightarrow> bool op" where
  "complete_message now mid target_turn d =
     (let (changed, d1) = update_messages
            (\<lambda>m. m_message_id m = mid \<and> m_state m = MsgSending)
            (\<lambda>m. m\<lparr>m_state := MsgDelivered, m_delivered_at := Some (now 0),
                   m_target_turn_id := target_turn\<rparr>) d
      in (Inr (changed = 1), d1))"

definition fail_message :: "string \<Rightarrow> string \<Rightarrow> string \<Rightarrow> bool op" where
  "fail_message mid code text d =
     (let (changed, d1) = update_messages
            (\<lambda>m. m_message_id m = mid \<and> message_live (m_state m))
            (\<lambda>m. m\<lparr>m_state := MsgFailed, m_failure_code := Some code,
                   m_failure_message := Some text\<rparr>) d
      in (Inr (changed = 1), d1))"

section \<open>Pending requests\<close>

definition find_request :: "db \<Rightarrow> string \<Rightarrow> request_row option" where
  "find_request d rid = find (\<lambda>p. p_request_id p = rid) (db_requests d)"

definition pending_row :: "string \<Rightarrow> string \<Rightarrow> string \<Rightarrow> string \<Rightarrow> string \<Rightarrow> i64 \<Rightarrow> request_row"
where
  "pending_row rid i correlation kind payload created =
     \<lparr>p_request_id = rid, p_agent_id = i, p_correlation_id = correlation,
      p_request_type = kind, p_payload_json = payload, p_state = ReqPending,
      p_created_at = created, p_responded_at = None, p_response_decision = None,
      p_response_content = None\<rparr>"

text \<open>
  \<open>INSERT OR IGNORE INTO pending_requests\<close>: a row with the same request id, or with the same
  agent and correlation id, makes the statement change nothing.
\<close>

definition request_collides :: "db \<Rightarrow> string \<Rightarrow> string \<Rightarrow> string \<Rightarrow> bool" where
  "request_collides d rid i correlation \<longleftrightarrow>
     list_ex (\<lambda>p. p_request_id p = rid \<or> (p_agent_id p = i \<and> p_correlation_id p = correlation))
       (db_requests d)"

definition insert_pending_request ::
  "clock \<Rightarrow> string \<Rightarrow> string \<Rightarrow> string \<Rightarrow> string \<Rightarrow> string \<Rightarrow> bool op" where
  "insert_pending_request now rid i correlation kind payload = run_tx (\<lambda>d.
     and_then (query_guard d i) (\<lambda>(phase, _, epoch, close_req, stop_req).
     if phase \<notin> {Running, WaitingInput} \<or> close_req \<or> stop_req
     then Inl (Conflict ''task cannot publish a pending request in its current phase'')
     else if request_collides d rid i correlation
     then
       and_then (ok_or (InvalidState ''pending request idempotency row disappeared'')
                  (find_request d rid)) (\<lambda>existing.
       if p_agent_id existing \<noteq> i \<or> p_correlation_id existing \<noteq> correlation
          \<or> p_request_type existing \<noteq> kind \<or> p_payload_json existing \<noteq> payload
       then Inl (Conflict ''pending request identity has different content'')
       else Inr (False, d))
     else
       let d1 = d\<lparr>db_requests := db_requests d @
                   [pending_row rid i correlation kind payload (now 0)]\<rparr>
       in if phase = Running
          then
            and_then (update_tasks (\<lambda>r. t_agent_id r = i \<and> t_phase r = Running)
                       (\<lambda>r. r\<lparr>t_phase := WaitingInput\<rparr>) d1) (\<lambda>(_, d2).
            and_then (insert_ledger (now 1) i epoch (Some Running) WaitingInput None
                       (Some ''INPUT_REQUESTED'') d2) (\<lambda>d3.
            Inr (True, d3)))
          else Inr (True, d1)))"

definition pending_request :: "string \<Rightarrow> string \<Rightarrow> db \<Rightarrow> request_row option store_result" where
  "pending_request i rid d =
     Inr (case find_request d rid of
            None \<Rightarrow> None
          | Some p \<Rightarrow> if p_agent_id p = i then Some p else None)"

definition pending_requests_bounded :: "string \<Rightarrow> u64 \<Rightarrow> db \<Rightarrow> request_row list store_result" where
  "pending_requests_bounded i limit d =
     and_then (usize_to_i64 limit) (\<lambda>limit_column.
     collect_results (\<lambda>rid. ok_or (InvalidState ''pending request disappeared'') (find_request d rid))
       (map p_request_id (take (nat limit_column) (sort_key p_created_at
         (filter (\<lambda>p. p_agent_id p = i \<and> request_live (p_state p)) (db_requests d))))))"

definition pending_requests :: "string \<Rightarrow> db \<Rightarrow> request_row list store_result" where
  "pending_requests i d = pending_requests_bounded i 9223372036854775807 d"

definition completion_blockers :: "string \<Rightarrow> db \<Rightarrow> (bool \<times> bool) store_result" where
  "completion_blockers i d = Inr (completion_blockers_tx d i)"

definition claim_pending_response_if_accepting ::
  "string \<Rightarrow> string \<Rightarrow> string \<Rightarrow> string option \<Rightarrow> pending_response_claim op" where
  "claim_pending_response_if_accepting i rid decision content = run_tx (\<lambda>d.
     (case find_request d rid of
        None \<Rightarrow> Inr (NotFound, d)
      | Some p \<Rightarrow>
          if p_agent_id p \<noteq> i then Inr (NotFound, d)
          else if p_state p \<noteq> ReqPending then Inr (NotPending (p_state p), d)
          else
            and_then (query_guard d i) (\<lambda>(phase, _, _, close_req, stop_req).
            if phase \<notin> {Running, WaitingInput} \<or> close_req \<or> stop_req
            then Inr (TaskStopping, d)
            else
              Inr (Claimed, snd (update_requests
                (\<lambda>q. p_request_id q = rid \<and> p_agent_id q = i \<and> p_state q = ReqPending)
                (\<lambda>q. q\<lparr>p_state := ReqSending, p_response_decision := Some decision,
                       p_response_content := content\<rparr>) d)))))"

definition complete_pending_response :: "clock \<Rightarrow> string \<Rightarrow> string \<Rightarrow> bool op" where
  "complete_pending_response now i rid = run_tx (\<lambda>d.
     let (changed, d1) = update_requests
           (\<lambda>q. p_request_id q = rid \<and> p_agent_id q = i \<and> p_state q = ReqSending)
           (\<lambda>q. q\<lparr>p_state := ReqResponded, p_responded_at := Some (now 0)\<rparr>) d
     in if changed = 1
        then
          let remaining = list_ex (\<lambda>p. p_agent_id p = i \<and> request_live (p_state p))
                            (db_requests d1)
          in and_then (query_guard d1 i) (\<lambda>(phase, _, epoch, close_req, stop_req).
             if \<not> remaining \<and> phase = WaitingInput \<and> \<not> close_req \<and> \<not> stop_req
             then
               and_then (update_tasks (\<lambda>r. t_agent_id r = i \<and> t_phase r = WaitingInput)
                          (\<lambda>r. r\<lparr>t_phase := Running\<rparr>) d1) (\<lambda>(_, d2).
               and_then (insert_ledger (now 1) i epoch (Some WaitingInput) Running None
                          (Some ''INPUT_RESOLVED'') d2) (\<lambda>d3.
               Inr (True, d3)))
             else Inr (True, d1))
        else Inr (False, d1))"

definition release_pending_response :: "string \<Rightarrow> string \<Rightarrow> bool op" where
  "release_pending_response i rid d =
     (let (changed, d1) = update_requests
            (\<lambda>q. p_request_id q = rid \<and> p_agent_id q = i \<and> p_state q = ReqSending)
            (\<lambda>q. q\<lparr>p_state := ReqPending, p_response_decision := None,
                   p_response_content := None\<rparr>) d
      in (Inr (changed = 1), d1))"

section \<open>Opening a store\<close>

text \<open>
  \<open>initialize_schema\<close> on the version and the table names of the file that was opened: an empty
  file gets the schema, a current one is kept as it is, everything else is refused.
  \<open>NOT LIKE 'sqlite_%'\<close> drops the names that start with \<open>sqlite\<close> (in any case) and one more
  character.
\<close>

definition schema_version :: i64 where "schema_version = 12"

definition expected_tables :: "string list" where
  "expected_tables = [''events'', ''lifecycle_ledger'', ''messages'', ''pending_requests'',
     ''task_id_allocator'', ''task_results'', ''tasks'']"

definition internal_table :: "string \<Rightarrow> bool" where
  "internal_table name \<longleftrightarrow> prefix ''sqlite'' (to_ascii_lowercase name) \<and> 7 \<le> length name"

definition schema_is_current :: "string list \<Rightarrow> bool" where
  "schema_is_current names \<longleftrightarrow> sort (filter (\<lambda>n. \<not> internal_table n) names) = expected_tables"

record database_file =
  f_version :: i64
  f_tables :: "string list"
  f_db :: db

definition initialize_schema :: "database_file \<Rightarrow> database_file store_result" where
  "initialize_schema f =
     (if filter (\<lambda>n. \<not> internal_table n) (f_tables f) \<noteq> []
      then if f_version f \<noteq> schema_version \<or> \<not> schema_is_current (f_tables f)
           then Inl LegacySchemaUnsupported
           else Inr f
      else if f_version f \<noteq> 0 then Inl LegacySchemaUnsupported
      else Inr (f\<lparr>f_version := schema_version, f_tables := f_tables f @ expected_tables,
                   f_db := empty_db\<rparr>))"

end
