(* ===== verification/Store_Invariants.thy ===== *)
theory Store_Invariants
  imports Store_Commands
begin

text \<open>
  The invariant of the store and that every method keeps it. The statements of a method touch
  the row of one task at a time, so the proofs go through \<open>upd_task\<close>, the update of one row,
  and a handful of lemmas that say what an updated row must satisfy.
\<close>

named_theorems store_simps \<comment> \<open>frames: which table a statement leaves alone\<close>
named_theorems op_defs \<comment> \<open>the definitions of the methods\<close>

section \<open>One row at a time\<close>

definition upd_task :: "string \<Rightarrow> (task_row \<Rightarrow> task_row) \<Rightarrow> db \<Rightarrow> db" where
  "upd_task i g d = d\<lparr>db_tasks := map (\<lambda>r. if t_agent_id r = i then g r else r) (db_tasks d)\<rparr>"

lemma upd_task_frame [simp]:
  "db_events (upd_task i g d) = db_events d" "db_messages (upd_task i g d) = db_messages d"
  "db_requests (upd_task i g d) = db_requests d" "db_results (upd_task i g d) = db_results d"
  "db_ledger (upd_task i g d) = db_ledger d" "db_next_id (upd_task i g d) = db_next_id d"
  by (simp_all add: upd_task_def)

lemma db_tasks_upd_task:
  "db_tasks (upd_task i g d) = map (\<lambda>r. if t_agent_id r = i then g r else r) (db_tasks d)"
  by (simp add: upd_task_def)

definition keeps_id :: "(task_row \<Rightarrow> task_row) \<Rightarrow> bool" where
  "keeps_id g \<longleftrightarrow> (\<forall>r. t_agent_id (g r) = t_agent_id r)"

lemma find_task_Some_iff:
  assumes "distinct (map t_agent_id (db_tasks d))"
  shows "find_task d i = Some r \<longleftrightarrow> r \<in> set (db_tasks d) \<and> t_agent_id r = i"
proof -
  have "distinct (map t_agent_id ts) \<Longrightarrow>
    find (\<lambda>r. t_agent_id r = i) ts = Some r \<longleftrightarrow> r \<in> set ts \<and> t_agent_id r = i" for ts
    by (induction ts) (auto simp: image_iff)
  with assms show ?thesis by (simp add: find_task_def)
qed

lemma find_task_SomeD: "find_task d i = Some r \<Longrightarrow> r \<in> set (db_tasks d) \<and> t_agent_id r = i"
  by (auto simp: find_task_def find_Some_iff)

lemma find_task_None_iff: "find_task d i = None \<longleftrightarrow> (\<forall>r \<in> set (db_tasks d). t_agent_id r \<noteq> i)"
  by (auto simp: find_task_def find_None_iff)

lemma find_task_cong [store_simps]: "db_tasks d = db_tasks d' \<Longrightarrow> find_task d i = find_task d' i"
  by (simp add: find_task_def)

lemma find_task_upd_task:
  assumes "keeps_id g"
  shows "find_task (upd_task i g d) j =
    (if j = i then map_option g (find_task d i) else find_task d j)"
proof -
  have "find (\<lambda>r. t_agent_id r = j) (map (\<lambda>r. if t_agent_id r = i then g r else r) ts) =
    (if j = i then map_option g (find (\<lambda>r. t_agent_id r = i) ts)
     else find (\<lambda>r. t_agent_id r = j) ts)" for ts
    using assms by (induction ts) (auto simp: keeps_id_def)
  then show ?thesis by (simp add: find_task_def db_tasks_upd_task)
qed

lemma update_tasks_Inr:
  assumes "update_tasks (\<lambda>r. t_agent_id r = i \<and> c r) f d = Inr (n, d')"
  shows "d' = upd_task i (\<lambda>r. if c r then f r else r) d"
    and "n = length (filter (\<lambda>r. t_agent_id r = i \<and> c r) (db_tasks d))"
    and "find_task d i = Some r \<Longrightarrow> c r \<Longrightarrow> task_check (f r)"
  using assms
  by (auto simp: update_tasks_def Let_def upd_task_def list_all_iff find_task_def find_Some_iff
      split: if_splits intro!: arg_cong [where f = "\<lambda>x. db_tasks_update x d"])

lemma update_tasks_all_Inr:
  assumes "update_tasks (\<lambda>r. t_agent_id r = i) f d = Inr (n, d')"
  shows "d' = upd_task i f d"
    and "find_task d i = Some r \<Longrightarrow> task_check (f r)"
  using update_tasks_Inr [where c = "\<lambda>_. True" and i = i and f = f and d = d] assms by simp_all

lemma count_key:
  assumes "distinct (map t_agent_id ts)"
  shows "length (filter (\<lambda>r. t_agent_id r = i \<and> c r) ts) =
    (case find (\<lambda>r. t_agent_id r = i) ts of None \<Rightarrow> 0 | Some r \<Rightarrow> if c r then 1 else 0)"
  using assms
proof (induction ts)
  case Nil
  then show ?case by simp
next
  case (Cons r ts)
  have "t_agent_id r = i \<Longrightarrow> filter (\<lambda>r. t_agent_id r = i \<and> c r) ts = []"
    using Cons.prems by (fastforce simp: filter_empty_conv image_iff)
  with Cons show ?case by auto
qed

lemma query_guard_Inr:
  assumes "query_guard d i = Inr (ph, out, ep, cl, st)"
  obtains r where "find_task d i = Some r" "t_phase r = ph" "t_outcome r = out"
    "ep = word_of_int (t_owner_epoch r)" "0 \<le> t_owner_epoch r" "t_owner_epoch r \<le> i64_max"
    "t_close_requested r = cl" "t_stop_requested r = st"
proof -
  have out: "transpose_opt task_outcome_parse (map_option task_outcome_as_str v) = Inr v" for v
    by (cases v) simp_all
  show ?thesis
    using assms that
    by (auto simp: query_guard_def result_simps out get_i64_def in_i64_def i64_to_u64_def
        split: if_splits)
qed

lemma query_guard_ok:
  assumes "find_task d i = Some r" "row_ok r"
  shows "query_guard d i = Inr (t_phase r, t_outcome r, word_of_int (t_owner_epoch r),
    t_close_requested r, t_stop_requested r)"
proof -
  have out: "transpose_opt task_outcome_parse (map_option task_outcome_as_str v) = Inr v" for v
    by (cases v) simp_all
  show ?thesis using assms by (simp add: query_guard_def out i64_to_u64_def row_ok_def)
qed

section \<open>The invariant\<close>

text \<open>A stop or close request is only recorded together with the move out of the running phases.\<close>

definition flags_ok :: "task_row \<Rightarrow> bool" where
  "flags_ok r \<longleftrightarrow> (t_close_requested r \<or> t_stop_requested r \<longrightarrow> t_phase r \<in> {Cancelling, Terminal})"

definition row_inv :: "task_row \<Rightarrow> bool" where
  "row_inv r \<longleftrightarrow> task_check r \<and> row_ok r \<and> flags_ok r"

definition workspace_exclusive :: "db \<Rightarrow> bool" where
  "workspace_exclusive d \<longleftrightarrow>
     (\<forall>r \<in> set (db_tasks d). \<forall>s \<in> set (db_tasks d).
        t_workspace_path r = t_workspace_path s \<longrightarrow> t_phase r \<noteq> Terminal \<longrightarrow> t_phase s \<noteq> Terminal
        \<longrightarrow> t_agent_id r = t_agent_id s)"

definition has_live_request :: "db \<Rightarrow> string \<Rightarrow> bool" where
  "has_live_request d i \<longleftrightarrow> (\<exists>p \<in> set (db_requests d). p_agent_id p = i \<and> request_live (p_state p))"

definition waiting_has_request :: "db \<Rightarrow> bool" where
  "waiting_has_request d \<longleftrightarrow>
     (\<forall>r \<in> set (db_tasks d). t_phase r = WaitingInput \<longrightarrow> has_live_request d (t_agent_id r))"

definition known :: "db \<Rightarrow> string set" where
  "known d = t_agent_id ` set (db_tasks d)"

definition tables_ok :: "db \<Rightarrow> bool" where
  "tables_ok d \<longleftrightarrow> distinct (map m_message_id (db_messages d)) \<and>
     distinct (map p_request_id (db_requests d)) \<and> distinct (map r_agent_id (db_results d)) \<and>
     m_agent_id ` set (db_messages d) \<subseteq> known d \<and> p_agent_id ` set (db_requests d) \<subseteq> known d \<and>
     r_agent_id ` set (db_results d) \<subseteq> known d \<and> l_agent_id ` set (db_ledger d) \<subseteq> known d"

definition core_inv :: "db \<Rightarrow> bool" where
  "core_inv d \<longleftrightarrow> distinct (map t_agent_id (db_tasks d)) \<and> (\<forall>r \<in> set (db_tasks d). row_inv r) \<and>
     workspace_exclusive d \<and> tables_ok d"

definition store_inv :: "db \<Rightarrow> bool" where
  "store_inv d \<longleftrightarrow> core_inv d \<and> waiting_has_request d"

lemma core_inv_distinct: "core_inv d \<Longrightarrow> distinct (map t_agent_id (db_tasks d))"
  by (simp add: core_inv_def)

lemma task_unique:
  assumes "core_inv d" "find_task d i = Some r" "s \<in> set (db_tasks d)" "t_agent_id s = i"
  shows "s = r"
proof -
  have "find_task d i = Some s"
    using assms(3,4) find_task_Some_iff [OF core_inv_distinct [OF assms(1)]] by blast
  with assms(2) show ?thesis by simp
qed

lemma core_inv_row: "core_inv d \<Longrightarrow> find_task d i = Some r \<Longrightarrow> row_inv r"
  by (auto simp: core_inv_def dest: find_task_SomeD)

lemma store_inv_core: "store_inv d \<Longrightarrow> core_inv d"
  by (simp add: store_inv_def)

lemma store_inv_empty: "store_inv empty_db"
  by (simp add: store_inv_def core_inv_def empty_db_def workspace_exclusive_def tables_ok_def
      waiting_has_request_def)

lemma map_id_upd_task:
  "keeps_id g \<Longrightarrow> map t_agent_id (db_tasks (upd_task i g d)) = map t_agent_id (db_tasks d)"
  by (simp add: db_tasks_upd_task keeps_id_def)

lemma known_upd_task [simp]: "keeps_id g \<Longrightarrow> known (upd_task i g d) = known d"
  unfolding known_def by (metis map_id_upd_task list.set_map)

lemma set_upd_task:
  "r \<in> set (db_tasks (upd_task i g d)) \<Longrightarrow>
   (\<exists>s \<in> set (db_tasks d). t_agent_id s = i \<and> r = g s) \<or>
   (r \<in> set (db_tasks d) \<and> t_agent_id r \<noteq> i)"
  by (auto simp: db_tasks_upd_task)

text \<open>What an updated row must satisfy for the invariant to survive.\<close>

definition may_occupy :: "db \<Rightarrow> task_row \<Rightarrow> bool" where
  "may_occupy d r \<longleftrightarrow> (\<forall>s \<in> set (db_tasks d). t_agent_id s \<noteq> t_agent_id r \<longrightarrow>
     t_workspace_path s = t_workspace_path r \<longrightarrow> t_phase s = Terminal)"

lemma may_occupy_active:
  "core_inv d \<Longrightarrow> r \<in> set (db_tasks d) \<Longrightarrow> t_phase r \<noteq> Terminal \<Longrightarrow> may_occupy d r"
  unfolding core_inv_def workspace_exclusive_def may_occupy_def by metis

lemma exclusive_upd_task:
  assumes inv: "core_inv d" and found: "find_task d i = Some r" and id: "keeps_id g"
    and ws: "t_workspace_path (g r) = t_workspace_path r"
    and occ: "t_phase (g r) \<noteq> Terminal \<Longrightarrow> may_occupy d r"
  shows "workspace_exclusive (upd_task i g d)"
proof -
  have only: "s = r" if "s \<in> set (db_tasks d)" "t_agent_id s = i" for s
    using inv found that by (rule task_unique)
  have r: "r \<in> set (db_tasks d)" "t_agent_id r = i" using found by (auto dest: find_task_SomeD)
  have excl: "workspace_exclusive d" using inv by (simp add: core_inv_def)
  have alone: False
    if "s \<in> set (db_tasks d) \<and> t_agent_id s \<noteq> i" "t_workspace_path s = t_workspace_path (g r)"
      "t_phase s \<noteq> Terminal" "t_phase (g r) \<noteq> Terminal" for s
    using that r ws occ [OF that(4)] by (auto simp: may_occupy_def)
  show ?thesis
    unfolding workspace_exclusive_def
  proof (intro ballI impI)
    fix a b
    assume a: "a \<in> set (db_tasks (upd_task i g d))" and b: "b \<in> set (db_tasks (upd_task i g d))"
      and eq: "t_workspace_path a = t_workspace_path b"
      and act: "t_phase a \<noteq> Terminal" "t_phase b \<noteq> Terminal"
    from a b only have "a = g r \<or> a \<in> set (db_tasks d) \<and> t_agent_id a \<noteq> i"
      and "b = g r \<or> b \<in> set (db_tasks d) \<and> t_agent_id b \<noteq> i"
      by (auto dest!: set_upd_task)
    then show "t_agent_id a = t_agent_id b"
      using eq act alone [of a] alone [of b] excl unfolding workspace_exclusive_def by metis
  qed
qed

lemma core_inv_upd_task:
  assumes "core_inv d" "find_task d i = Some r" "keeps_id g"
    "t_workspace_path (g r) = t_workspace_path r"
    "t_phase (g r) \<noteq> Terminal \<Longrightarrow> may_occupy d r" "row_inv (g r)"
  shows "core_inv (upd_task i g d)"
proof -
  have only: "s = r" if "s \<in> set (db_tasks d)" "t_agent_id s = i" for s
    using assms(1,2) that by (rule task_unique)
  have "\<forall>s \<in> set (db_tasks (upd_task i g d)). row_inv s"
    using assms(1,6) only by (auto simp: core_inv_def dest!: set_upd_task)
  moreover have "workspace_exclusive (upd_task i g d)"
    using assms(1-5) by (rule exclusive_upd_task)
  ultimately show ?thesis
    using assms(1,3) by (simp add: core_inv_def map_id_upd_task tables_ok_def)
qed

lemma upd_task_absent: "find_task d i = None \<Longrightarrow> upd_task i g d = d"
  using map_idI [of "db_tasks d" "\<lambda>r. if t_agent_id r = i then g r else r"]
  by (simp add: upd_task_def find_task_None_iff)

lemma waiting_upd_task:
  assumes "waiting_has_request d" "core_inv d" "find_task d i = Some r" "keeps_id g"
    "t_phase (g r) = WaitingInput \<Longrightarrow> has_live_request d i"
  shows "waiting_has_request (upd_task i g d)"
proof -
  have only: "s = r" if "s \<in> set (db_tasks d)" "t_agent_id s = i" for s
    using assms(2,3) that by (rule task_unique)
  have "has_live_request (upd_task i g d) j = has_live_request d j" for j
    by (simp add: has_live_request_def)
  then show ?thesis
    using assms(1,3-5) only
    by (fastforce simp: waiting_has_request_def keeps_id_def dest!: set_upd_task)
qed

section \<open>What the statements keep\<close>

lemma run_tx_keeps:
  "P d \<Longrightarrow> (\<And>a d'. body d = Inr (a, d') \<Longrightarrow> P d') \<Longrightarrow> P (snd (run_tx body d))"
  by (auto simp: run_tx_def split: sum.splits)

lemma snd_after_commit [simp]: "snd (after_commit f operation d) = snd (operation d)"
  by (auto simp: after_commit_def split: prod.splits sum.splits)

lemma run_tx_Inr: "run_tx body d = (Inr a, d') \<longleftrightarrow> body d = Inr (a, d')"
  by (auto simp: run_tx_def split: sum.splits)

lemma run_tx_Inl: "run_tx body d = (Inl e, d') \<longleftrightarrow> body d = Inl e \<and> d' = d"
  by (auto simp: run_tx_def split: sum.splits)

text \<open>An update of the commands, results, events or ledger alone.\<close>

lemma core_inv_frame:
  assumes "core_inv d" "db_tasks d' = db_tasks d" "tables_ok d'"
  shows "core_inv d'"
proof -
  have "workspace_exclusive d' = workspace_exclusive d"
    unfolding workspace_exclusive_def assms(2) by (rule refl)
  with assms show ?thesis by (simp add: core_inv_def)
qed

lemma waiting_frame:
  assumes "waiting_has_request d" "db_tasks d' = db_tasks d" "db_requests d' = db_requests d"
  shows "waiting_has_request d'"
  using assms by (simp add: waiting_has_request_def has_live_request_def)

lemma references_known: "references d i \<longleftrightarrow> i \<in> known d"
  by (auto simp: references_def known_def find_task_None_iff)

lemma insert_ledger_Inr:
  assumes "insert_ledger now i ep fp tp out reason d = Inr d'"
  shows "d' = d\<lparr>db_ledger := db_ledger d @
      [\<lparr>l_agent_id = i, l_owner_epoch = uint ep, l_from_phase = fp, l_to_phase = tp,
        l_outcome = out, l_reason_code = reason, l_recorded_at = now\<rparr>]\<rparr>"
    and "i \<in> known d"
  using assms
  by (auto simp: insert_ledger_def result_simps references_known u64_to_i64_def split: if_splits)

lemma insert_ledger_keeps:
  assumes "insert_ledger now i ep fp tp out reason d = Inr d'"
  shows "core_inv d \<Longrightarrow> core_inv d'" "waiting_has_request d \<Longrightarrow> waiting_has_request d'"
    "db_tasks d' = db_tasks d" "db_requests d' = db_requests d" "db_messages d' = db_messages d"
    "db_results d' = db_results d" "db_events d' = db_events d" "db_next_id d' = db_next_id d"
proof -
  note d' = insert_ledger_Inr [OF assms]
  show "core_inv d \<Longrightarrow> core_inv d'"
    by (rule core_inv_frame) (use d' in \<open>auto simp: core_inv_def tables_ok_def known_def\<close>)
  show "waiting_has_request d \<Longrightarrow> waiting_has_request d'"
    by (rule waiting_frame) (simp_all add: d'(1))
qed (simp_all add: insert_ledger_Inr(1) [OF assms])

lemma settle_frame [simp]:
  "db_tasks (settle_terminal_commands i reason d) = db_tasks d"
  "db_results (settle_terminal_commands i reason d) = db_results d"
  "db_events (settle_terminal_commands i reason d) = db_events d"
  "db_ledger (settle_terminal_commands i reason d) = db_ledger d"
  "db_next_id (settle_terminal_commands i reason d) = db_next_id d"
  by (simp_all add: settle_terminal_commands_def update_messages_def Let_def)

lemma known_settle [simp]: "known (settle_terminal_commands i reason d) = known d"
  by (simp add: known_def)

lemma distinct_map_upd:
  "(\<And>x. k (f x) = k x) \<Longrightarrow> map k (map (\<lambda>x. if c x then f x else x) xs) = map k xs"
  by simp

lemma core_inv_settle: "core_inv d \<Longrightarrow> core_inv (settle_terminal_commands i reason d)"
proof (rule core_inv_frame)
  assume "core_inv d"
  then have "tables_ok d" by (simp add: core_inv_def)
  then show "tables_ok (settle_terminal_commands i reason d)"
    by (auto simp: tables_ok_def settle_terminal_commands_def update_messages_def Let_def
        distinct_map_upd comp_def known_def image_subset_iff if_distrib
        intro: distinct_map_filter cong: if_cong)
qed simp_all

lemma has_live_request_settle:
  "j \<noteq> i \<Longrightarrow> has_live_request (settle_terminal_commands i reason d) j = has_live_request d j"
  "\<not> has_live_request (settle_terminal_commands i reason d) i"
  by (auto simp: has_live_request_def settle_terminal_commands_def update_messages_def Let_def)

lemma waiting_settle:
  assumes "waiting_has_request d" "\<And>r. find_task d i = Some r \<Longrightarrow> t_phase r \<noteq> WaitingInput"
    "core_inv d"
  shows "waiting_has_request (settle_terminal_commands i reason d)"
  unfolding waiting_has_request_def
proof (intro ballI impI)
  fix r
  assume r: "r \<in> set (db_tasks (settle_terminal_commands i reason d))" "t_phase r = WaitingInput"
  then have "t_agent_id r \<noteq> i"
    using assms(2,3) find_task_Some_iff [OF core_inv_distinct [OF assms(3)], of i r] by auto
  then show "has_live_request (settle_terminal_commands i reason d) (t_agent_id r)"
    using r assms(1) by (simp add: has_live_request_settle waiting_has_request_def)
qed

lemma row_ok_frame:
  assumes "row_ok r" "t_pid r' = t_pid r" "t_process_group_id r' = t_process_group_id r"
    "t_process_uid r' = t_process_uid r" "t_process_start_token r' = t_process_start_token r"
    "t_owner_epoch r' = t_owner_epoch r" "t_last_event_seq r' = t_last_event_seq r"
  shows "row_ok r'"
  using assms by (simp add: row_ok_def stored_identity_def)

lemma row_ok_identity:
  assumes "t_pid r' = t_pid (set_identity identity r)"
    "t_process_group_id r' = t_process_group_id (set_identity identity r)"
    "t_process_uid r' = t_process_uid (set_identity identity r)"
    "t_process_start_token r' = t_process_start_token (set_identity identity r)"
    "0 \<le> t_owner_epoch r'" "t_owner_epoch r' \<le> i64_max"
    "0 \<le> t_last_event_seq r'" "t_last_event_seq r' \<le> i64_max"
  shows "row_ok r'"
proof -
  have "stored_identity r' = stored_identity (set_identity identity r)"
    using assms(1-4) by (simp add: stored_identity_def)
  then show ?thesis using assms(5-8) by (simp add: row_ok_def)
qed

lemma query_task_ok:
  assumes "core_inv d"
  shows "query_task d i = Inl e \<Longrightarrow> False"
    and "query_task d i = Inr None \<Longrightarrow> find_task d i = None"
    and "find_task d i = Some r \<Longrightarrow> \<exists>rec. query_task d i = Inr (Some rec) \<and>
      tr_phase rec = t_phase r \<and> tr_owner_epoch rec = word_of_int (t_owner_epoch r) \<and>
      tr_close_requested rec = t_close_requested r \<and> tr_stop_requested rec = t_stop_requested r \<and>
      tr_agent_id rec = i \<and> tr_failure_code rec = t_failure_code r"
proof -
  have ok: "find_task d i = Some r \<Longrightarrow> row_ok r \<and> t_agent_id r = i" for r
    using core_inv_row [OF assms, of i r] by (auto simp: row_inv_def dest: find_task_SomeD)
  show "query_task d i = Inl e \<Longrightarrow> False" "query_task d i = Inr None \<Longrightarrow> find_task d i = None"
    using ok by (auto simp: query_task_def transpose_opt_def result_simps
        elim: convert_task_row_ok split: option.splits)
  show "find_task d i = Some r \<Longrightarrow> \<exists>rec. query_task d i = Inr (Some rec) \<and>
      tr_phase rec = t_phase r \<and> tr_owner_epoch rec = word_of_int (t_owner_epoch r) \<and>
      tr_close_requested rec = t_close_requested r \<and> tr_stop_requested rec = t_stop_requested r \<and>
      tr_agent_id rec = i \<and> tr_failure_code rec = t_failure_code r"
  proof -
    assume found: "find_task d i = Some r"
    with ok have "row_ok r" "t_agent_id r = i" by auto
    then show ?thesis
      by (elim convert_task_row_ok) (auto simp: query_task_def found)
  qed
qed

end
