(* ===== verification/Store_Safety.thy ===== *)
theory Store_Safety
  imports Store_Invariants
begin

text \<open>
  Every method of the store keeps \<open>store_inv\<close>, the step relation of the store with one rule
  per writing method, and the invariant in every reachable database.
\<close>

section \<open>The row updates\<close>

named_theorems row_defs \<comment> \<open>the row updates of the UPDATE statements\<close>

lemmas row_updates [row_defs] =
  terminal_row_def claimed_row_def started_row_def logged_row_def stopped_row_def
  requeued_row_def reaped_row_def restored_row_def set_identity_def

lemma keeps_id_rows [simp]:
  "keeps_id (terminal_row now out tu)" "keeps_id (claimed_row owner now)"
  "keeps_id (started_row ra idt ses tn now)" "keeps_id (logged_row sq tn now)"
  "keeps_id (stopped_row np cl ci now)" "keeps_id requeued_row" "keeps_id (reaped_row now)"
  "keeps_id (restored_row orig sq)" "keeps_id (\<lambda>r. r\<lparr>t_phase := ph\<rparr>)"
  by (simp_all add: keeps_id_def row_defs)

lemma workspace_rows [simp]:
  "t_workspace_path (terminal_row now out tu r) = t_workspace_path r"
  "t_workspace_path (claimed_row owner now r) = t_workspace_path r"
  "t_workspace_path (started_row ra idt ses tn now r) = t_workspace_path r"
  "t_workspace_path (logged_row sq tn now r) = t_workspace_path r"
  "t_workspace_path (stopped_row np cl ci now r) = t_workspace_path r"
  "t_workspace_path (requeued_row r) = t_workspace_path r"
  "t_workspace_path (reaped_row now r) = t_workspace_path r"
  "t_workspace_path (restored_row orig sq r) = t_workspace_path r"
  by (simp_all add: row_defs)

lemma phase_rows [simp]:
  "t_phase (terminal_row now out tu r) = Terminal"
  "t_phase (claimed_row owner now r) = Preparing"
  "t_phase (started_row ra idt ses tn now r) = Running"
  "t_phase (logged_row sq tn now r) = t_phase r"
  "t_phase (stopped_row np cl ci now r) = np"
  "t_phase (requeued_row r) = Queued"
  "t_phase (reaped_row now r) = t_phase r"
  "t_phase (restored_row orig sq r) = Terminal"
  by (simp_all add: row_defs)

lemma upd_task_eqI:
  assumes "\<And>s. s \<in> set (db_tasks d) \<Longrightarrow> t_agent_id s = i \<Longrightarrow> g s = h s"
  shows "upd_task i g d = upd_task i h d"
proof -
  have "map (\<lambda>r. if t_agent_id r = i then g r else r) (db_tasks d) =
      map (\<lambda>r. if t_agent_id r = i then h r else r) (db_tasks d)"
    using assms by (auto cong: map_cong)
  then show ?thesis by (simp add: upd_task_def)
qed

lemma upd_task_cong:
  assumes "core_inv d" "find_task d i = Some r" "g r = h r"
  shows "upd_task i g d = upd_task i h d"
  using task_unique [OF assms(1,2)] assms(3) by (intro upd_task_eqI) blast

text \<open>An update of one row inside a transaction, for a database with the invariant.\<close>

lemma update_task_row:
  assumes inv: "core_inv d" and upd: "update_tasks (\<lambda>r. t_agent_id r = i \<and> c r) f d = Inr (n, d')"
  shows "n \<noteq> 1 \<Longrightarrow> d' = d"
    and "n = 1 \<Longrightarrow> \<exists>r. find_task d i = Some r \<and> c r \<and> task_check (f r) \<and> d' = upd_task i f d"
proof -
  have n: "n = (case find_task d i of None \<Rightarrow> 0 | Some r \<Rightarrow> if c r then 1 else 0)"
    using update_tasks_Inr(2) [OF upd] count_key [OF core_inv_distinct [OF inv]]
    by (simp add: find_task_def)
  have d': "d' = upd_task i (\<lambda>r. if c r then f r else r) d" by (rule update_tasks_Inr(1) [OF upd])
  show "n \<noteq> 1 \<Longrightarrow> d' = d"
  proof (cases "find_task d i")
    case None
    then show ?thesis using d' by (simp add: upd_task_absent)
  next
    case (Some r)
    assume "n \<noteq> 1"
    with n Some have "\<not> c r" by auto
    then have "d' = upd_task i (\<lambda>r. r) d"
      unfolding d' by (intro upd_task_cong [OF inv Some]) simp
    then show ?thesis by (simp add: upd_task_def)
  qed
  show "n = 1 \<Longrightarrow> \<exists>r. find_task d i = Some r \<and> c r \<and> task_check (f r) \<and> d' = upd_task i f d"
  proof -
    assume "n = 1"
    with n obtain r where r: "find_task d i = Some r" "c r" by (auto split: option.splits if_splits)
    with update_tasks_Inr(3) [OF upd] have "task_check (f r)" by blast
    moreover from r have "d' = upd_task i f d"
      unfolding d' by (intro upd_task_cong [OF inv r(1)]) simp
    ultimately show ?thesis using r by blast
  qed
qed

text \<open>The invariant after a row update, when the new row is still a good one.\<close>

lemma store_inv_upd:
  assumes inv: "store_inv d" and found: "find_task d i = Some r" and id: "keeps_id g"
    and ws: "t_workspace_path (g r) = t_workspace_path r"
    and occ: "t_phase (g r) = Terminal \<or> t_phase r \<noteq> Terminal \<or> may_occupy d r"
    and row: "row_inv (g r)"
    and live: "t_phase (g r) = WaitingInput \<Longrightarrow> has_live_request d i"
  shows "store_inv (upd_task i g d)"
proof -
  have core: "core_inv d" by (rule store_inv_core [OF inv])
  have "r \<in> set (db_tasks d)" using found by (auto dest: find_task_SomeD)
  with occ core have "t_phase (g r) \<noteq> Terminal \<Longrightarrow> may_occupy d r"
    by (auto intro: may_occupy_active)
  with core found id ws row have "core_inv (upd_task i g d)" by (intro core_inv_upd_task)
  moreover have "waiting_has_request (upd_task i g d)"
    using inv core found id live by (intro waiting_upd_task) (simp_all add: store_inv_def)
  ultimately show ?thesis by (simp add: store_inv_def)
qed

lemma tables_ok_frame:
  assumes "db_tasks d' = db_tasks d" "db_messages d' = db_messages d"
    "db_requests d' = db_requests d" "db_results d' = db_results d" "db_ledger d' = db_ledger d"
  shows "tables_ok d' = tables_ok d"
  using assms by (simp add: tables_ok_def known_def)

lemma store_inv_frame:
  assumes "store_inv d" "db_tasks d' = db_tasks d" "db_requests d' = db_requests d"
    "tables_ok d \<Longrightarrow> tables_ok d'"
  shows "store_inv d'"
  using assms core_inv_frame [of d d'] waiting_frame [of d d']
  by (simp add: store_inv_def core_inv_def)

lemma store_inv_ledger:
  "insert_ledger now i ep fp tp out reason d = Inr d' \<Longrightarrow> store_inv d \<Longrightarrow> store_inv d'"
  by (auto simp: store_inv_def dest: insert_ledger_keeps(1,2))

lemma store_inv_settle:
  assumes "store_inv d" "find_task d i = Some r" "t_phase r \<noteq> WaitingInput"
  shows "store_inv (settle_terminal_commands i reason d)"
  using assms by (auto simp: store_inv_def intro: core_inv_settle waiting_settle)

lemma row_inv_terminal: "row_inv r \<Longrightarrow> row_inv (terminal_row now out tu r)"
  by (auto simp: row_inv_def task_check_def flags_ok_def row_defs intro: row_ok_frame)

lemma run_tx_inv:
  "store_inv d \<Longrightarrow> (\<And>a d'. body d = Inr (a, d') \<Longrightarrow> store_inv d') \<Longrightarrow>
   store_inv (snd (run_tx body d))"
  by (rule run_tx_keeps)

section \<open>The methods\<close>

lemma apply_terminal_Inr:
  assumes inv: "core_inv d" and ok: "apply_terminal now i ep fp cl st tu d = Inr (out, d')"
  obtains r where "find_task d i = Some r" "t_owner_epoch r = uint ep" "t_phase r \<noteq> Terminal"
    "out = (if (st \<or> cl) \<and> tu_outcome tu \<noteq> Cancelled then Cancelled else tu_outcome tu)"
    "insert_ledger (now 1) i ep (Some fp) Terminal (Some out) (tu_failure_code tu)
       (settle_terminal_commands i
         (case tu_failure_code tu of None \<Rightarrow> ''TASK_TERMINATED'' | Some c \<Rightarrow> c)
         (upd_task i (terminal_row (now 0) out tu) d)) = Inr d'"
proof -
  from ok obtain epc n d1 where epc: "u64_to_i64 ep = Inr epc" and n: "n = 1"
    and out: "out = (if (st \<or> cl) \<and> tu_outcome tu \<noteq> Cancelled then Cancelled else tu_outcome tu)"
    and upd: "update_tasks (\<lambda>r. t_agent_id r = i \<and> t_owner_epoch r = epc \<and> t_phase r \<noteq> Terminal)
        (terminal_row (now 0) out tu) d = Inr (n, d1)"
    and led: "insert_ledger (now 1) i ep (Some fp) Terminal (Some out) (tu_failure_code tu)
       (settle_terminal_commands i
         (case tu_failure_code tu of None \<Rightarrow> ''TASK_TERMINATED'' | Some c \<Rightarrow> c) d1) = Inr d'"
    by (auto simp: apply_terminal_def Let_def result_simps split: if_splits prod.splits)
  from update_task_row(2) [OF inv upd n] epc out led show ?thesis
    by (auto dest: u64_to_i64_Inr intro: that)
qed

lemma apply_terminal_keeps:
  assumes inv: "store_inv d" and ok: "apply_terminal now i ep fp cl st tu d = Inr (out, d')"
  shows "store_inv d'"
proof -
  note core = store_inv_core [OF inv]
  obtain r where r: "find_task d i = Some r"
    and led: "insert_ledger (now 1) i ep (Some fp) Terminal (Some out) (tu_failure_code tu)
       (settle_terminal_commands i
         (case tu_failure_code tu of None \<Rightarrow> ''TASK_TERMINATED'' | Some c \<Rightarrow> c)
         (upd_task i (terminal_row (now 0) out tu) d)) = Inr d'"
    by (rule apply_terminal_Inr [OF core ok])
  have "store_inv (upd_task i (terminal_row (now 0) out tu) d)"
    using core_inv_row [OF core r] by (intro store_inv_upd [OF inv r]) (simp_all add: row_inv_terminal)
  moreover have "find_task (upd_task i (terminal_row (now 0) out tu) d) i =
      Some (terminal_row (now 0) out tu r)"
    by (simp add: find_task_upd_task r)
  ultimately have "store_inv (settle_terminal_commands i reason
      (upd_task i (terminal_row (now 0) out tu) d))" for reason
    by (rule store_inv_settle) simp
  then show ?thesis by (rule store_inv_ledger [OF led])
qed

lemma reserve_task_id_keeps: "store_inv d \<Longrightarrow> store_inv (snd (reserve_task_id d))"
  unfolding reserve_task_id_def
proof (rule run_tx_keeps)
  fix a d'
  assume inv: "store_inv d" and "(let nxt = db_next_id d in
    if \<not> (10000000 \<le> nxt \<and> nxt \<le> 99999999) then Inl (Conflict ''task id allocator exhausted'')
    else Inr (show_nat (nat nxt), d\<lparr>db_next_id := nxt + 1\<rparr>)) = Inr (a, d')"
  then have "d' = d\<lparr>db_next_id := db_next_id d + 1\<rparr>" by (auto simp: Let_def split: if_splits)
  with inv show "store_inv d'"
    by (auto intro!: store_inv_frame [OF inv] simp: tables_ok_def known_def)
qed

lemma first_by_Some: "first_by key xs = Some x \<Longrightarrow> x \<in> set xs"
proof -
  assume "first_by key xs = Some x"
  then obtain ys where "sort_key key xs = x # ys" by (auto simp: first_by_def split: list.splits)
  then show ?thesis by (metis list.set_intros(1) set_sort)
qed

lemma first_by_None_iff: "first_by key xs = None \<longleftrightarrow> xs = []"
proof -
  have "first_by key xs = None \<longleftrightarrow> sort_key key xs = []"
    by (auto simp: first_by_def split: list.splits)
  also have "\<dots> \<longleftrightarrow> xs = []" by (metis length_0_conv length_sort)
  finally show ?thesis .
qed

lemma busy_agent_None_iff:
  "busy_agent d sel = None \<longleftrightarrow> (\<forall>r \<in> set (db_tasks d). sel r \<longrightarrow> t_phase r = Terminal)"
  by (auto simp: busy_agent_def first_by_None_iff filter_empty_conv)

lemma row_inv_queued: "row_inv (queued_row t rid created)"
  by (simp add: row_inv_def task_check_def flags_ok_def row_ok_def queued_row_def
      stored_identity_def i64_max_def)

lemma store_inv_append:
  assumes inv: "store_inv d" and absent: "find_task d (t_agent_id new) = None"
    and free: "\<forall>r \<in> set (db_tasks d). t_workspace_path r = t_workspace_path new \<longrightarrow> t_phase r = Terminal"
    and row: "row_inv new" "t_phase new \<noteq> WaitingInput"
  shows "store_inv (d\<lparr>db_tasks := db_tasks d @ [new]\<rparr>)"
proof -
  let ?d = "d\<lparr>db_tasks := db_tasks d @ [new]\<rparr>"
  have core: "core_inv d" by (rule store_inv_core [OF inv])
  have "workspace_exclusive ?d"
    unfolding workspace_exclusive_def
  proof (intro ballI impI)
    fix a b
    assume "a \<in> set (db_tasks ?d)" "b \<in> set (db_tasks ?d)"
      and eq: "t_workspace_path a = t_workspace_path b"
      and act: "t_phase a \<noteq> Terminal" "t_phase b \<noteq> Terminal"
    then have "a \<in> set (db_tasks d) \<or> a = new" "b \<in> set (db_tasks d) \<or> b = new" by auto
    with eq act free core show "t_agent_id a = t_agent_id b"
      unfolding core_inv_def workspace_exclusive_def by metis
  qed
  moreover have "tables_ok ?d" using core by (auto simp: core_inv_def tables_ok_def known_def)
  moreover have "distinct (map t_agent_id (db_tasks ?d))"
    using core absent by (auto simp: core_inv_def find_task_None_iff)
  ultimately have "core_inv ?d" using core row by (auto simp: core_inv_def)
  moreover have "waiting_has_request ?d"
    using inv row by (auto simp: store_inv_def waiting_has_request_def has_live_request_def)
  ultimately show ?thesis by (simp add: store_inv_def)
qed

lemma query_task_None: "core_inv d \<Longrightarrow> query_task d i = Inr None \<Longrightarrow> find_task d i = None"
  by (rule query_task_ok(2))

lemma enqueue_keeps: "store_inv d \<Longrightarrow> store_inv (snd (enqueue_task_authoritative now t d))"
  unfolding enqueue_task_authoritative_def
proof (rule run_tx_inv, assumption, goal_cases)
  case (1 a d')
  let ?new = "queued_row t (next_rowid (db_tasks d)) (now 0)"
  from 1 have q: "query_task d (nt_agent_id t) = Inr None"
    and free: "busy_agent d (\<lambda>r. t_workspace_path r = nt_workspace_path t) = None"
    and led: "insert_ledger (now 1) (nt_agent_id t) 0 None Queued None None
      (d\<lparr>db_tasks := db_tasks d @ [?new]\<rparr>) = Inr d'"
    by (auto simp: result_simps Let_def split: if_splits option.splits)
  have id: "t_agent_id ?new = nt_agent_id t" "t_workspace_path ?new = nt_workspace_path t"
    "t_phase ?new = Queued"
    by (simp_all add: queued_row_def)
  have "store_inv (d\<lparr>db_tasks := db_tasks d @ [?new]\<rparr>)"
    using 1(1) free query_task_None [OF store_inv_core [OF 1(1)] q]
    by (intro store_inv_append) (auto simp: id busy_agent_None_iff row_inv_queued)
  then show ?case by (rule store_inv_ledger [OF led])
qed

lemma claim_next_cases:
  assumes core: "core_inv d" and run: "claim_next now owner gl pl d = (Inr res, d')"
  obtains (idle) "res = None" "d' = d"
    | (claimed) i r rec limit where "usize_to_i64 pl = Inr limit"
      "map_option t_agent_id (first_by t_created_at (filter (claimable d limit) (db_tasks d)))
         = Some i"
      "find_task d i = Some r" "t_phase r = Queued" "\<not> t_close_requested r"
      "t_owner_epoch r + 1 \<le> i64_max" "t_outcome r = None"
      "convert_task_row (claimed_row owner (now 0) r) = Inr rec"
      "res = Some (rec, tr_owner_epoch rec)"
      "insert_ledger (now 1) i (tr_owner_epoch rec) (Some Queued) Preparing None
         (Some ''CLAIMED'') (upd_task i (claimed_row owner (now 0)) d) = Inr d'"
proof (cases "pl = 0")
  case True
  with run show ?thesis by (intro idle) (simp_all add: claim_next_def)
next
  case False
  with run obtain limit where limit: "usize_to_i64 pl = Inr limit"
    by (auto simp: claim_next_def run_tx_Inr result_simps)
  let ?pick = "map_option t_agent_id
    (first_by t_created_at (filter (claimable d limit) (db_tasks d)))"
  show ?thesis
  proof (cases ?pick)
    case None
    with False run limit show ?thesis by (intro idle) (simp_all add: claim_next_def run_tx_Inr)
  next
    case (Some i)
    with False run limit obtain n d1 rec where n: "n = 1"
      and upd: "update_tasks (\<lambda>r. t_agent_id r = i \<and> t_phase r = Queued \<and> \<not> t_close_requested r)
           (claimed_row owner (now 0)) d = Inr (n, d1)"
      and q: "query_task d1 i = Inr (Some rec)" and res: "res = Some (rec, tr_owner_epoch rec)"
      and led: "insert_ledger (now 1) i (tr_owner_epoch rec) (Some Queued) Preparing None
           (Some ''CLAIMED'') d1 = Inr d'"
      by (auto simp: claim_next_def run_tx_Inr result_simps split: if_splits)
    from update_task_row(2) [OF core upd n] obtain r where r: "find_task d i = Some r"
      "t_phase r = Queued" "\<not> t_close_requested r" "task_check (claimed_row owner (now 0) r)"
      and d1: "d1 = upd_task i (claimed_row owner (now 0)) d" by blast
    have conv: "convert_task_row (claimed_row owner (now 0) r) = Inr rec"
      using q by (auto simp: query_task_def d1 find_task_upd_task r result_simps)
    then have "t_owner_epoch r + 1 \<le> i64_max"
      by (auto simp: convert_task_row_def result_simps get_i64_def in_i64_def claimed_row_def
          split: if_splits)
    with claimed [OF limit Some r(1-3)] conv res led r(2,4) d1 show ?thesis
      by (simp add: task_check_def claimed_row_def)
  qed
qed

lemma claim_next_Inl: "claim_next now owner gl pl d = (Inl e, d') \<Longrightarrow> d' = d"
  by (auto simp: claim_next_def run_tx_Inl split: if_splits)

lemma row_inv_claimed:
  assumes "row_inv r" "t_phase r = Queued" "t_owner_epoch r + 1 \<le> i64_max"
  shows "row_inv (claimed_row owner now r)"
  using assms by (auto simp: row_inv_def task_check_def flags_ok_def row_ok_def
      stored_identity_def claimed_row_def)

lemma claim_next_keeps:
  assumes inv: "store_inv d"
  shows "store_inv (snd (claim_next now owner gl pl d))"
proof (cases "claim_next now owner gl pl d")
  case (Pair res d')
  note core = store_inv_core [OF inv]
  have "store_inv d'"
  proof (cases res)
    case (Inl e)
    with Pair claim_next_Inl inv show ?thesis by blast
  next
    case (Inr v)
    with Pair have "claim_next now owner gl pl d = (Inr v, d')" by simp
    with core show ?thesis
    proof (cases rule: claim_next_cases)
      case idle
      with inv show ?thesis by simp
    next
      case (claimed i r rec limit)
      have "store_inv (upd_task i (claimed_row owner (now 0)) d)"
        using claimed core_inv_row [OF core claimed(3)]
        by (intro store_inv_upd [OF inv claimed(3)]) (simp_all add: row_inv_claimed)
      then show ?thesis by (rule store_inv_ledger [OF claimed(10)])
    qed
  qed
  with Pair show ?thesis by simp
qed

lemma mark_session_running_cases:
  assumes core: "core_inv d"
    and run: "mark_session_running now i ep ra idt ses tn d = (Inr res, d')"
  obtains (skipped) "\<not> res" "d' = d"
      "\<And>r. find_task d i = Some r \<Longrightarrow> t_owner_epoch r \<noteq> uint ep \<or> t_phase r \<noteq> Preparing"
    | (started) r where res "find_task d i = Some r" "t_owner_epoch r = uint ep"
      "t_phase r = Preparing"
      "insert_ledger (now 1) i ep (Some Preparing) Running None (Some ''RUNTIME_STARTED'')
         (upd_task i (started_row ra idt ses tn (now 0)) d) = Inr d'"
proof -
  from run obtain epc n d1 where epc: "u64_to_i64 ep = Inr epc" and
    upd: "update_tasks (\<lambda>r. t_agent_id r = i \<and> t_owner_epoch r = epc \<and> t_phase r = Preparing)
        (started_row ra idt ses tn (now 0)) d = Inr (n, d1)"
    and fin: "n \<noteq> 1 \<and> \<not> res \<and> d' = d1 \<or> n = 1 \<and> res \<and>
        insert_ledger (now 1) i ep (Some Preparing) Running None (Some ''RUNTIME_STARTED'') d1
          = Inr d'"
    by (auto simp: mark_session_running_def run_tx_Inr result_simps split: if_splits prod.splits)
  note epc = u64_to_i64_Inr [OF epc]
  show ?thesis
  proof (cases "n = 1")
    case False
    moreover have "n = (case find_task d i of None \<Rightarrow> 0
        | Some r \<Rightarrow> if t_owner_epoch r = epc \<and> t_phase r = Preparing then 1 else 0)"
      using update_tasks_Inr(2) [OF upd] count_key [OF core_inv_distinct [OF core]]
      by (simp add: find_task_def)
    ultimately show ?thesis
      using fin epc update_task_row(1) [OF core upd] by (intro skipped) (auto split: if_splits)
  next
    case True
    with update_task_row(2) [OF core upd True] fin epc show ?thesis by (auto intro: started)
  qed
qed

lemma mark_session_running_Inl:
  "mark_session_running now i ep ra idt ses tn d = (Inl e, d') \<Longrightarrow> d' = d"
  by (simp add: mark_session_running_def run_tx_Inl)

lemma row_inv_started:
  assumes "row_inv r" "t_phase r = Preparing"
  shows "row_inv (started_row ra idt ses tn now r)"
proof -
  have "row_ok (started_row ra idt ses tn now r)"
    using assms(1) by (intro row_ok_identity [where identity = idt and r = r])
      (simp_all add: started_row_def row_inv_def row_ok_def set_identity_def)
  with assms show ?thesis by (auto simp: row_inv_def flags_ok_def task_check_def row_defs)
qed

lemma mark_session_running_keeps:
  assumes inv: "store_inv d"
  shows "store_inv (snd (mark_session_running now i ep ra idt ses tn d))"
proof (cases "mark_session_running now i ep ra idt ses tn d")
  case (Pair res d')
  note core = store_inv_core [OF inv]
  have "store_inv d'"
  proof (cases res)
    case (Inl e)
    with Pair mark_session_running_Inl inv show ?thesis by blast
  next
    case (Inr v)
    with Pair have "mark_session_running now i ep ra idt ses tn d = (Inr v, d')" by simp
    with core show ?thesis
    proof (cases rule: mark_session_running_cases)
      case skipped
      with inv show ?thesis by simp
    next
      case (started r)
      have "store_inv (upd_task i (started_row ra idt ses tn (now 0)) d)"
        using started core_inv_row [OF core started(2)]
        by (intro store_inv_upd [OF inv started(2)]) (simp_all add: row_inv_started)
      then show ?thesis by (rule store_inv_ledger [OF started(5)])
    qed
  qed
  with Pair show ?thesis by simp
qed

lemma insert_event_Inr:
  "insert_event row d = Inr d' \<Longrightarrow> d' = d\<lparr>db_events := db_events d @ [row]\<rparr>"
  by (auto simp: insert_event_def split: if_splits)

lemma append_lifecycle_tx_Inr:
  assumes "append_lifecycle_tx now w d = Inr (sq, d')"
  obtains (replay) e where "d' = d" "e \<in> set (db_events d)" "e_agent_id e = lw_agent_id w"
      "e_runtime_agent_id e = lw_runtime_agent_id w" "e_seq e = sq"
      "e_source_seq e = uint (lw_source_sequence w)"
    | (fresh) r d1 d2 where "find_task d (lw_agent_id w) = Some r" "t_phase r \<noteq> Terminal"
      "word_of_int (t_owner_epoch r) = lw_owner_epoch w" "sq = t_last_event_seq r + 1"
      "sq \<le> i64_max"
      "insert_event \<lparr>e_agent_id = lw_agent_id w, e_runtime_agent_id = lw_runtime_agent_id w,
         e_seq = sq, e_source_seq = uint (lw_source_sequence w), e_timestamp = now 0,
         e_event_type = lw_event_type w, e_turn_id = lw_turn_id w,
         e_payload_json = lw_payload_json w, e_redaction_level = lw_redaction_level w\<rparr> d = Inr d1"
      "d2 = upd_task (lw_agent_id w) (logged_row sq (lw_turn_state w) (now 1)) d1"
      "case lw_terminal w of None \<Rightarrow> d' = d2
       | Some tu \<Rightarrow> \<exists>out. apply_terminal (\<lambda>k. now (k + 2)) (lw_agent_id w) (lw_owner_epoch w)
           (t_phase r) (t_close_requested r) (t_stop_requested r) tu d2 = Inr (out, d')"
proof -
  let ?i = "lw_agent_id w"
  obtain source where source: "u64_to_i64 (lw_source_sequence w) = Inr source"
    using assms by (auto simp: append_lifecycle_tx_def result_simps)
  note src = u64_to_i64_Inr [OF source]
  show ?thesis
  proof (cases "find (\<lambda>e. e_agent_id e = ?i \<and> e_runtime_agent_id e = lw_runtime_agent_id w
               \<and> e_source_seq e = source) (db_events d)")
    case (Some e)
    with assms source have "sq = e_seq e" "d' = d" by (simp_all add: append_lifecycle_tx_def)
    moreover from Some have "e \<in> set (db_events d)" "e_agent_id e = ?i"
      "e_runtime_agent_id e = lw_runtime_agent_id w" "e_source_seq e = source"
      by (auto simp: find_Some_iff)
    ultimately show ?thesis using src by (intro replay [of e]) simp_all
  next
    case None
    with assms source obtain ph out ep cl st t n d1 d2 where
      guard: "query_guard d ?i = Inr (ph, out, ep, cl, st)" and ph: "ph \<noteq> Terminal"
      and ep: "ep = lw_owner_epoch w" and t: "find_task d ?i = Some t"
      and sqn: "sq = t_last_event_seq t + 1" "sq \<le> i64_max"
      and ev: "insert_event \<lparr>e_agent_id = ?i, e_runtime_agent_id = lw_runtime_agent_id w,
               e_seq = sq, e_source_seq = source, e_timestamp = now 0,
               e_event_type = lw_event_type w, e_turn_id = lw_turn_id w,
               e_payload_json = lw_payload_json w,
               e_redaction_level = lw_redaction_level w\<rparr> d = Inr d1"
      and upd: "update_tasks (\<lambda>r. t_agent_id r = ?i)
        (logged_row sq (lw_turn_state w) (now 1)) d1 = Inr (n, d2)"
      and fin: "case lw_terminal w of None \<Rightarrow> d' = d2
          | Some tu \<Rightarrow> \<exists>out. apply_terminal (\<lambda>k. now (k + 2)) ?i (lw_owner_epoch w) ph cl st tu d2
              = Inr (out, d')"
      unfolding append_lifecycle_tx_def
      by (auto simp: result_simps get_i64_def split: option.splits if_splits prod.splits)
    from query_guard_Inr [OF guard] t have "t_phase t = ph" "ep = word_of_int (t_owner_epoch t)"
      "t_close_requested t = cl" "t_stop_requested t = st"
      by auto
    with ph ep t sqn ev fin update_tasks_all_Inr(1) [OF upd] src show ?thesis
      by (intro fresh [of t d1 d2]) auto
  qed
qed

lemma append_lifecycle_keeps:
  assumes inv: "store_inv d"
  shows "store_inv (snd (append_lifecycle now w d))"
  unfolding append_lifecycle_def snd_after_commit
proof (rule run_tx_inv [OF inv])
  fix sq d'
  assume "append_lifecycle_tx now w d = Inr (sq, d')"
  then show "store_inv d'"
  proof (cases rule: append_lifecycle_tx_Inr)
    case replay
    with inv show ?thesis by simp
  next
    case (fresh r d1 d2)
    let ?i = "lw_agent_id w"
    note d1 = insert_event_Inr [OF fresh(6)]
    have inv1: "store_inv d1"
      by (rule store_inv_frame [OF inv]) (simp_all add: d1 tables_ok_def known_def)
    have r1: "find_task d1 ?i = Some r" using fresh(1) by (simp add: d1 find_task_def)
    have old: "row_inv r" by (rule core_inv_row [OF store_inv_core [OF inv] fresh(1)])
    then have "row_inv (logged_row sq (lw_turn_state w) (now 1) r)"
      using fresh(4,5)
      by (auto simp: row_inv_def task_check_def flags_ok_def row_ok_def stored_identity_def
          logged_row_def)
    moreover have "t_phase r = WaitingInput \<Longrightarrow> has_live_request d1 ?i"
      using inv1 r1 by (auto simp: store_inv_def waiting_has_request_def dest!: find_task_SomeD)
    ultimately have "store_inv d2"
      unfolding fresh(7) using fresh(2) by (intro store_inv_upd [OF inv1 r1]) simp_all
    with fresh(8) show ?thesis by (auto split: option.splits intro: apply_terminal_keeps)
  qed
qed

lemma transition_terminal_keeps:
  "store_inv d \<Longrightarrow> store_inv (snd (transition_terminal now i ep tu d))"
  unfolding transition_terminal_def
  by (rule run_tx_inv) (auto simp: result_simps split: if_splits intro: apply_terminal_keeps)

lemma request_stop_cases:
  assumes run: "request_stop_internal now i close_it intent d = (Inr res, d')"
  obtains (finished) r where "find_task d i = Some r" "t_phase r = Terminal"
      "d' = upd_task i (stopped_row Terminal close_it intent (now 0)) d"
      "cd_phase res = Terminal" "\<not> cd_needs_runtime_stop res"
    | (again) r where "find_task d i = Some r" "t_phase r = Cancelling"
      "d' = settle_terminal_commands i ''STOP_REQUESTED''
         (upd_task i (stopped_row Cancelling close_it intent (now 0)) d)"
      "cd_phase res = Cancelling" "cd_needs_runtime_stop res"
    | (stopping) r reason where "find_task d i = Some r" "t_phase r \<noteq> Terminal"
      "t_phase r \<noteq> Cancelling"
      "insert_ledger (now 1) i (word_of_int (t_owner_epoch r)) (Some (t_phase r)) Cancelling None
         reason (settle_terminal_commands i ''STOP_REQUESTED''
           (upd_task i (stopped_row Cancelling close_it intent (now 0)) d)) = Inr d'"
      "cd_phase res = Cancelling" "cd_needs_runtime_stop res = owned_phase (t_phase r)"
proof -
  from run obtain ph out ep cl st n d1 where guard: "query_guard d i = Inr (ph, out, ep, cl, st)"
    and upd: "update_tasks (\<lambda>r. t_agent_id r = i)
      (stopped_row (if ph = Terminal then ph else Cancelling) close_it intent (now 0)) d = Inr (n, d1)"
    and res: "cd_phase res = (if ph = Terminal then ph else Cancelling)"
      "cd_needs_runtime_stop res = owned_phase ph"
    and fin: "ph = Terminal \<and> d' = d1 \<or>
      ph = Cancelling \<and> d' = settle_terminal_commands i ''STOP_REQUESTED'' d1 \<or>
      ph \<noteq> Terminal \<and> ph \<noteq> Cancelling \<and>
       (\<exists>reason. insert_ledger (now 1) i ep (Some ph) Cancelling None reason
          (settle_terminal_commands i ''STOP_REQUESTED'' d1) = Inr d')"
    unfolding request_stop_internal_def run_tx_Inr
    by (fastforce simp: result_simps Let_def split: if_splits)
  obtain r where r: "find_task d i = Some r" "t_phase r = ph" "ep = word_of_int (t_owner_epoch r)"
    using query_guard_Inr [OF guard] by blast
  note d1 = update_tasks_all_Inr(1) [OF upd]
  from fin r res show ?thesis
    by (elim disjE conjE exE) (auto simp: d1 intro: finished again stopping)
qed

lemma row_inv_stopped:
  assumes "row_inv r" "np = (if t_phase r = Terminal then Terminal else Cancelling)"
  shows "row_inv (stopped_row np close_it intent now r)"
  using assms
  by (auto simp: row_inv_def task_check_def flags_ok_def stopped_row_def intro: row_ok_frame)

lemma request_stop_internal_keeps:
  assumes inv: "store_inv d"
  shows "store_inv (snd (request_stop_internal now i close_it intent d))"
proof (cases "request_stop_internal now i close_it intent d")
  case (Pair res d')
  note core = store_inv_core [OF inv]
  let ?g = "\<lambda>np. stopped_row np close_it intent (now 0)"
  have settled: "store_inv (settle_terminal_commands i ''STOP_REQUESTED'' (upd_task i (?g Cancelling) d))"
    if r: "find_task d i = Some r" "t_phase r \<noteq> Terminal" for r
  proof (rule store_inv_settle)
    show "store_inv (upd_task i (?g Cancelling) d)"
      using r core_inv_row [OF core r(1)]
      by (intro store_inv_upd [OF inv r(1)]) (simp_all add: row_inv_stopped)
    show "find_task (upd_task i (?g Cancelling) d) i = Some (?g Cancelling r)"
      by (simp add: find_task_upd_task r)
  qed simp
  have "store_inv d'"
  proof (cases res)
    case (Inl e)
    with Pair inv show ?thesis by (simp add: request_stop_internal_def run_tx_Inl)
  next
    case (Inr v)
    with Pair have "request_stop_internal now i close_it intent d = (Inr v, d')" by simp
    then show ?thesis
    proof (cases rule: request_stop_cases)
      case (finished r)
      then show ?thesis
        using core_inv_row [OF core finished(1)]
        by (auto intro!: store_inv_upd [OF inv finished(1)] simp: row_inv_stopped)
    next
      case (again r)
      with settled [OF again(1)] show ?thesis by simp
    next
      case (stopping r reason)
      with settled [OF stopping(1)] show ?thesis by (auto intro: store_inv_ledger)
    qed
  qed
  with Pair show ?thesis by simp
qed

lemma tables_ok_delete_result: "tables_ok d \<Longrightarrow> tables_ok (delete_result i d)"
  by (auto simp: tables_ok_def delete_result_def known_def intro: distinct_map_filter)

lemma delete_result_frame [simp]:
  "db_tasks (delete_result i d) = db_tasks d" "db_requests (delete_result i d) = db_requests d"
  "db_messages (delete_result i d) = db_messages d" "db_events (delete_result i d) = db_events d"
  "db_ledger (delete_result i d) = db_ledger d" "db_next_id (delete_result i d) = db_next_id d"
  by (simp_all add: delete_result_def)

lemma store_inv_delete_result: "store_inv d \<Longrightarrow> store_inv (delete_result i d)"
  by (erule store_inv_frame) (simp_all add: tables_ok_delete_result)

lemma insert_result_row_Inr:
  "insert_result_row row d = Inr d' \<Longrightarrow> d' = d\<lparr>db_results := db_results d @ [row]\<rparr>
     \<and> r_agent_id row \<in> known d \<and> r_agent_id row \<notin> r_agent_id ` set (db_results d)"
  by (auto simp: insert_result_row_def references_known split: if_splits)

lemma store_inv_insert_result:
  assumes "insert_result_row row d = Inr d'" "store_inv d"
  shows "store_inv d'"
proof -
  note d' = insert_result_row_Inr [OF assms(1)]
  have "known d' = known d" using d' by (simp add: known_def)
  with d' show ?thesis by (intro store_inv_frame [OF assms(2)]) (auto simp: tables_ok_def)
qed

lemma row_inv_requeued: "row_inv r \<Longrightarrow> row_inv (requeued_row r)"
  by (auto simp: row_inv_def task_check_def flags_ok_def requeued_row_def row_ok_def i64_max_def
      set_identity_def stored_identity_def)

lemma store_inv_new_message:
  assumes "store_inv d" "mid \<notin> m_message_id ` set (db_messages d)" "i \<in> known d"
  shows "store_inv (d\<lparr>db_messages := db_messages d @ [queued_message mid i mode content t]\<rparr>)"
  using assms
  by (intro store_inv_frame [OF assms(1)]) (auto simp: tables_ok_def known_def queued_message_def)

lemma requeue_tx_Inr:
  assumes run: "requeue_task_for_resume_with_message now i mid content d = (Inr (), d')"
    and inv: "core_inv (delete_result i d)"
  obtains r d1 d2 where "find_task d i = Some r" "t_phase r = Terminal"
    "t_zcode_session_id r \<noteq> None" "may_occupy d r" "mid \<notin> m_message_id ` set (db_messages d)"
    "d1 = upd_task i requeued_row (delete_result i d)"
    "insert_ledger (now 0) i (word_of_int (t_owner_epoch r)) (Some Terminal) Queued None
       (Some ''RESUME_REQUESTED'') d1 = Inr d2"
    "d' = d2\<lparr>db_messages := db_messages d2 @ [queued_message mid i ''queue'' content (now 1)]\<rparr>"
proof -
  from run obtain r n d1 ep d2 where r: "find_task d i = Some r" "t_phase r = Terminal"
    "t_zcode_session_id r \<noteq> None"
    and free: "busy_agent d (\<lambda>s. t_workspace_path s = t_workspace_path r \<and> t_agent_id s \<noteq> i) = None"
    and mids: "\<forall>m \<in> set (db_messages d). m_message_id m \<noteq> mid" and n: "n = 1"
    and upd: "update_tasks (\<lambda>r. t_agent_id r = i \<and> t_phase r = Terminal) requeued_row
        (delete_result i d) = Inr (n, d1)"
    and ep: "i64_to_u64 (t_owner_epoch r) = Inr ep"
    and led: "insert_ledger (now 0) i ep (Some Terminal) Queued None
       (Some ''RESUME_REQUESTED'') d1 = Inr d2"
    and d': "d' = d2\<lparr>db_messages := db_messages d2 @ [queued_message mid i ''queue'' content (now 1)]\<rparr>"
    unfolding requeue_task_for_resume_with_message_def run_tx_Inr
    by (auto simp: result_simps get_i64_def list_ex_iff
        split: if_splits option.splits prod.splits)
  from mids have mid: "mid \<notin> m_message_id ` set (db_messages d)" by auto
  have "may_occupy d r"
    using free r(1) by (auto simp: may_occupy_def busy_agent_None_iff dest: find_task_SomeD)
  moreover have "d1 = upd_task i requeued_row (delete_result i d)"
    using update_task_row(2) [OF inv upd n] by blast
  ultimately show ?thesis
    using r mid ep led d' by (intro that [of r d1 d2]) (auto simp: i64_to_u64_def split: if_splits)
qed

lemma requeue_keeps:
  assumes inv: "store_inv d"
  shows "store_inv (snd (requeue_task_for_resume_with_message now i mid content d))"
proof (cases "requeue_task_for_resume_with_message now i mid content d")
  case (Pair res d')
  have inv0: "store_inv (delete_result i d)" by (rule store_inv_delete_result [OF inv])
  show ?thesis
  proof (cases res)
    case (Inl e)
    with Pair have "d' = d"
      by (simp add: requeue_task_for_resume_with_message_def run_tx_Inl)
    with Pair inv show ?thesis by simp
  next
    case (Inr u)
    with Pair have run: "requeue_task_for_resume_with_message now i mid content d = (Inr (), d')"
      by simp
    obtain r d1 d2 where r: "find_task d i = Some r" "may_occupy d r"
      and mid: "mid \<notin> m_message_id ` set (db_messages d)"
      and d1: "d1 = upd_task i requeued_row (delete_result i d)"
      and led: "insert_ledger (now 0) i (word_of_int (t_owner_epoch r)) (Some Terminal) Queued None
        (Some ''RESUME_REQUESTED'') d1 = Inr d2"
      and d': "d' = d2\<lparr>db_messages := db_messages d2 @ [queued_message mid i ''queue'' content (now 1)]\<rparr>"
      by (rule requeue_tx_Inr [OF run store_inv_core [OF inv0]])
    have r0: "find_task (delete_result i d) i = Some r" "may_occupy (delete_result i d) r"
      using r by (simp_all add: find_task_def may_occupy_def)
    have "store_inv d1"
      unfolding d1 using r0 core_inv_row [OF store_inv_core [OF inv] r(1)]
      by (intro store_inv_upd [OF inv0 r0(1)]) (simp_all add: row_inv_requeued)
    then have inv2: "store_inv d2" by (rule store_inv_ledger [OF led])
    have "db_messages d2 = db_messages d" "i \<in> known d2"
      using insert_ledger_keeps(3,5) [OF led] insert_ledger_Inr(2) [OF led]
      by (simp_all add: d1 known_def)
    with mid have "store_inv d'" unfolding d' by (intro store_inv_new_message [OF inv2]) simp_all
    with Pair show ?thesis by simp
  qed
qed

lemma reap_task_keeps: "store_inv d \<Longrightarrow> store_inv (snd (reap_task now i d))"
  unfolding reap_task_def snd_after_commit
proof (rule run_tx_inv, assumption, goal_cases)
  case (1 a d')
  note inv = 1(1)
  from 1(2) obtain ph out ep cl st n where guard: "query_guard d i = Inr (ph, out, ep, cl, st)"
    and upd: "update_tasks (\<lambda>r. t_agent_id r = i) (reaped_row (now 0)) d = Inr (n, d')"
    and ph: "ph = Terminal"
    by (auto simp: result_simps split: if_splits)
  obtain r where r: "find_task d i = Some r" "t_phase r = Terminal"
    using query_guard_Inr [OF guard] ph by blast
  have "row_inv (reaped_row (now 0) r)"
    using core_inv_row [OF store_inv_core [OF inv] r(1)]
    by (auto simp: row_inv_def task_check_def flags_ok_def reaped_row_def intro: row_ok_frame)
  then show ?case
    unfolding update_tasks_all_Inr(1) [OF upd] using r
    by (intro store_inv_upd [OF inv r(1)]) (simp_all add: reaped_row_def)
qed

lemma restore_tx_Inr:
  assumes inv: "core_inv d"
    and run: "restore_terminal_after_resume_failure digest now original result d = (Inr (), d')"
  shows "\<exists>d1. (d1 = upd_task (tr_agent_id original)
        (restored_row original (uint (tr_last_event_seq original))) d)
    \<and> uint (tr_last_event_seq original) \<le> i64_max
    \<and> (\<forall>r. find_task d (tr_agent_id original) = Some r \<longrightarrow> tr_outcome original \<noteq> None)
    \<and> (case result of None \<Rightarrow> d' = d1
        | Some res \<Rightarrow> insert_result_row
            \<lparr>r_agent_id = tr_agent_id original, r_outcome = res_outcome res,
             r_final_text = res_final_text res, r_partial = res_partial res,
             r_result_sha256 = digest res, r_completed_at = now 0\<rparr>
            (delete_result (tr_agent_id original) d1) = Inr d')"
proof -
  from run obtain sq n d1 where sq: "u64_to_i64 (tr_last_event_seq original) = Inr sq"
    and upd: "update_tasks (\<lambda>r. t_agent_id r = tr_agent_id original) (restored_row original sq) d
        = Inr (n, d1)"
    and fin: "case result of None \<Rightarrow> d' = d1
        | Some res \<Rightarrow> insert_result_row
            \<lparr>r_agent_id = tr_agent_id original, r_outcome = res_outcome res,
             r_final_text = res_final_text res, r_partial = res_partial res,
             r_result_sha256 = digest res, r_completed_at = now 0\<rparr>
            (delete_result (tr_agent_id original) d1) = Inr d'"
    unfolding restore_terminal_after_resume_failure_def run_tx_Inr
    by (auto simp: result_simps split: option.splits)
  have "tr_outcome original \<noteq> None" if "find_task d (tr_agent_id original) = Some r" for r
    using update_tasks_all_Inr(2) [OF upd that] by (simp add: task_check_def restored_row_def)
  with fin u64_to_i64_Inr [OF sq] update_tasks_all_Inr(1) [OF upd] show ?thesis by auto
qed

lemma restore_keeps:
  assumes inv: "store_inv d"
  shows "store_inv (snd (restore_terminal_after_resume_failure digest now original result d))"
proof (cases "restore_terminal_after_resume_failure digest now original result d")
  case (Pair res d')
  let ?i = "tr_agent_id original"
  show ?thesis
  proof (cases res)
    case (Inl e)
    with Pair have "d' = d"
      by (simp add: restore_terminal_after_resume_failure_def run_tx_Inl)
    with Pair inv show ?thesis by simp
  next
    case (Inr u)
    let ?g = "restored_row original (uint (tr_last_event_seq original))"
    from Pair Inr have run:
      "restore_terminal_after_resume_failure digest now original result d = (Inr (), d')" by simp
    from restore_tx_Inr [OF store_inv_core [OF inv] run] obtain d1 where
      d1: "d1 = upd_task ?i ?g d" and sq: "uint (tr_last_event_seq original) \<le> i64_max"
      and out: "\<And>r. find_task d ?i = Some r \<Longrightarrow> tr_outcome original \<noteq> None"
      and fin: "d' = d1 \<or> (\<exists>row. insert_result_row row (delete_result ?i d1) = Inr d')"
      by (auto split: option.splits)
    have "store_inv d1"
    proof (cases "find_task d ?i")
      case None
      with inv show ?thesis by (simp add: d1 upd_task_absent)
    next
      case (Some r)
      have old: "row_inv r" by (rule core_inv_row [OF store_inv_core [OF inv] Some])
      then have "row_ok (?g r)"
        using sq
        by (intro row_ok_identity [where identity = "tr_process_identity original" and r = r])
          (simp_all add: restored_row_def row_inv_def row_ok_def set_identity_def)
      with out [OF Some] have "row_inv (?g r)"
        by (auto simp: row_inv_def task_check_def flags_ok_def restored_row_def)
      then show ?thesis unfolding d1 by (intro store_inv_upd [OF inv Some]) simp_all
    qed
    with fin have "store_inv d'"
      by (auto intro: store_inv_insert_result store_inv_delete_result)
    with Pair show ?thesis by simp
  qed
qed

lemma store_task_result_keeps:
  "store_inv d \<Longrightarrow> store_inv (snd (store_task_result digest now i res d))"
  unfolding store_task_result_def
proof (rule run_tx_inv, assumption, goal_cases)
  case (1 a d')
  then consider "d' = d"
    | row d1 nw ep fp cl st tu out where "insert_result_row row d = Inr d1"
      "apply_terminal nw i ep fp cl st tu d1 = Inr (out, d')"
    by (auto simp: result_simps split: option.splits if_splits)
  then show ?case
    using 1(1) by cases (auto intro: apply_terminal_keeps store_inv_insert_result)
qed

section \<open>Messages and pending requests\<close>

lemma store_inv_update_messages:
  assumes "store_inv d" "\<And>m. m_message_id (f m) = m_message_id m \<and> m_agent_id (f m) = m_agent_id m"
  shows "store_inv (snd (update_messages sel f d))"
proof (rule store_inv_frame [OF assms(1)])
  let ?ms = "map (\<lambda>m. if sel m then f m else m) (db_messages d)"
  have ids: "map m_message_id ?ms = map m_message_id (db_messages d)"
    "map m_agent_id ?ms = map m_agent_id (db_messages d)"
    using assms(2) by simp_all
  then have "m_agent_id ` set ?ms = m_agent_id ` set (db_messages d)" by (metis list.set_map)
  with ids(1) show "tables_ok d \<Longrightarrow> tables_ok (snd (update_messages sel f d))"
    by (simp add: update_messages_def tables_ok_def known_def del: map_map set_map)
qed (simp_all add: update_messages_def)

lemma insert_message_keeps: "store_inv d \<Longrightarrow> store_inv (snd (insert_message now mid i mode content d))"
proof (cases "mode = ''queue''")
  case False
  then show "store_inv d \<Longrightarrow> ?thesis" by (simp add: insert_message_def)
next
  case True
  then have queue: "\<not> mode \<noteq> ''queue''" by simp
  assume inv: "store_inv d"
  show ?thesis
    unfolding insert_message_def if_not_P [OF queue]
  proof (rule run_tx_inv [OF inv], goal_cases)
    case (1 a d')
    then consider "d' = d"
      | ph out ep cl st where "query_guard d i = Inr (ph, out, ep, cl, st)" "find_message d mid = None"
        "d' = d\<lparr>db_messages := db_messages d @ [queued_message mid i mode content (now 0)]\<rparr>"
      by (auto simp: result_simps split: option.splits if_splits)
    then show ?case
    proof cases
      case 1
      with inv show ?thesis by simp
    next
      case 2
      from query_guard_Inr [OF 2(1)] have "i \<in> known d"
        by (auto simp: known_def dest!: find_task_SomeD)
      moreover have "mid \<notin> m_message_id ` set (db_messages d)"
        using 2(2) by (auto simp: find_message_def find_None_iff)
      ultimately show ?thesis using 2(3) store_inv_new_message [OF inv] by simp
    qed
  qed
qed

lemma claim_next_message_keeps: "store_inv d \<Longrightarrow> store_inv (snd (claim_next_message i d))"
  unfolding claim_next_message_def
  by (rule run_tx_inv)
    (auto simp: result_simps Let_def split: option.splits if_splits intro: store_inv_update_messages)

lemma complete_message_keeps: "store_inv d \<Longrightarrow> store_inv (snd (complete_message now mid tn d))"
  by (auto simp: complete_message_def Let_def split_beta intro: store_inv_update_messages)

lemma fail_message_keeps: "store_inv d \<Longrightarrow> store_inv (snd (fail_message mid code txt d))"
  by (auto simp: fail_message_def Let_def split_beta intro: store_inv_update_messages)

lemma core_inv_update_requests:
  assumes "core_inv d" "\<And>p. p_request_id (f p) = p_request_id p \<and> p_agent_id (f p) = p_agent_id p"
  shows "core_inv (snd (update_requests sel f d))"
proof (rule core_inv_frame [OF assms(1)])
  let ?ps = "map (\<lambda>p. if sel p then f p else p) (db_requests d)"
  have ids: "map p_request_id ?ps = map p_request_id (db_requests d)"
    "map p_agent_id ?ps = map p_agent_id (db_requests d)"
    using assms(2) by simp_all
  then have "p_agent_id ` set ?ps = p_agent_id ` set (db_requests d)" by (metis list.set_map)
  with ids(1) assms(1) show "tables_ok (snd (update_requests sel f d))"
    by (simp add: update_requests_def tables_ok_def known_def core_inv_def del: map_map set_map)
qed (simp add: update_requests_def)

lemma has_live_update_requests:
  assumes "\<And>p. p_agent_id (f p) = p_agent_id p"
    "\<And>p. sel p \<Longrightarrow> p_agent_id p = j \<Longrightarrow> request_live (p_state (f p))"
    "has_live_request d j"
  shows "has_live_request (snd (update_requests sel f d)) j"
proof -
  from assms(3) obtain p where p: "p \<in> set (db_requests d)" "p_agent_id p = j"
    "request_live (p_state p)"
    by (auto simp: has_live_request_def)
  let ?q = "if sel p then f p else p"
  have "?q \<in> set (db_requests (snd (update_requests sel f d)))"
    using p(1) by (auto simp: update_requests_def)
  moreover have "p_agent_id ?q = j" "request_live (p_state ?q)" using p assms(1,2) by auto
  ultimately show ?thesis unfolding has_live_request_def by blast
qed

lemma store_inv_update_requests:
  assumes "store_inv d" "\<And>p. p_request_id (f p) = p_request_id p \<and> p_agent_id (f p) = p_agent_id p"
    "\<And>p. sel p \<Longrightarrow> request_live (p_state (f p))"
  shows "store_inv (snd (update_requests sel f d))"
proof -
  have tasks: "db_tasks (snd (update_requests sel f d)) = db_tasks d"
    by (simp add: update_requests_def)
  have "core_inv (snd (update_requests sel f d))"
    using assms(1,2) by (intro core_inv_update_requests) (simp_all add: store_inv_def)
  moreover have "waiting_has_request (snd (update_requests sel f d))"
    using assms
    by (auto simp: store_inv_def waiting_has_request_def tasks intro!: has_live_update_requests)
  ultimately show ?thesis by (simp add: store_inv_def)
qed

lemma release_pending_response_keeps:
  "store_inv d \<Longrightarrow> store_inv (snd (release_pending_response i rid d))"
  by (auto simp: release_pending_response_def Let_def split_beta intro: store_inv_update_requests)

lemma claim_pending_response_keeps:
  "store_inv d \<Longrightarrow> store_inv (snd (claim_pending_response_if_accepting i rid dec content d))"
  unfolding claim_pending_response_if_accepting_def
  by (rule run_tx_inv)
    (auto simp: result_simps split: option.splits if_splits intro: store_inv_update_requests)

lemma store_inv_add_request:
  assumes inv: "store_inv d" and "i \<in> known d" "\<not> request_collides d rid i corr"
  shows "store_inv (d\<lparr>db_requests := db_requests d @ [pending_row rid i corr kind payload t]\<rparr>)"
    (is "store_inv ?d")
proof -
  have "tables_ok d" using inv by (simp add: store_inv_def core_inv_def)
  moreover have "rid \<notin> p_request_id ` set (db_requests d)"
    using assms(3) by (auto simp: request_collides_def list_ex_iff)
  ultimately have tables: "tables_ok ?d"
    using assms(2) by (simp add: tables_ok_def known_def pending_row_def)
  have "core_inv ?d" by (rule core_inv_frame [OF store_inv_core [OF inv] _ tables]) simp
  moreover have "has_live_request d j \<Longrightarrow> has_live_request ?d j" for j
    by (auto simp: has_live_request_def)
  then have "waiting_has_request ?d"
    using inv by (simp add: store_inv_def waiting_has_request_def)
  ultimately show ?thesis by (simp add: store_inv_def)
qed

lemma row_inv_switch:
  "row_inv r \<Longrightarrow> \<not> t_close_requested r \<Longrightarrow> \<not> t_stop_requested r \<Longrightarrow> t_phase r \<noteq> Terminal \<Longrightarrow>
   ph \<noteq> Terminal \<Longrightarrow> row_inv (r\<lparr>t_phase := ph\<rparr>)"
  by (auto simp: row_inv_def task_check_def flags_ok_def intro: row_ok_frame)

lemma insert_pending_request_cases:
  assumes core: "core_inv d"
    and run: "insert_pending_request now rid i corr kind payload d = (Inr res, d')"
  obtains (replay) p where "\<not> res" "d' = d" "find_request d rid = Some p" "p_agent_id p = i"
    | (asked) r d1 where res "find_task d i = Some r" "\<not> t_close_requested r"
      "\<not> t_stop_requested r" "\<not> request_collides d rid i corr"
      "d1 = d\<lparr>db_requests := db_requests d @ [pending_row rid i corr kind payload (now 0)]\<rparr>"
      "t_phase r = WaitingInput \<and> d' = d1 \<or> t_phase r = Running \<and>
       insert_ledger (now 1) i (word_of_int (t_owner_epoch r)) (Some Running) WaitingInput None
         (Some ''INPUT_REQUESTED'') (upd_task i (\<lambda>r. r\<lparr>t_phase := WaitingInput\<rparr>) d1) = Inr d'"
proof -
  let ?d1 = "d\<lparr>db_requests := db_requests d @ [pending_row rid i corr kind payload (now 0)]\<rparr>"
  from run obtain ph out ep cl st where guard: "query_guard d i = Inr (ph, out, ep, cl, st)"
    and ph: "ph \<in> {Running, WaitingInput}" and flags: "\<not> cl" "\<not> st"
    by (fastforce simp: insert_pending_request_def run_tx_Inr result_simps split: if_splits)
  obtain r where r: "find_task d i = Some r" "t_phase r = ph" "ep = word_of_int (t_owner_epoch r)"
    "\<not> t_close_requested r" "\<not> t_stop_requested r"
    using query_guard_Inr [OF guard] flags by blast
  show ?thesis
  proof (cases "request_collides d rid i corr")
    case True
    with run guard ph flags show ?thesis
      by (auto simp: insert_pending_request_def run_tx_Inr result_simps split: if_splits
          intro: replay)
  next
    case False
    with run guard ph flags consider "res" "ph = WaitingInput" "d' = ?d1"
      | n d2 where "res" "ph = Running"
        "update_tasks (\<lambda>r. t_agent_id r = i \<and> t_phase r = Running)
           (\<lambda>r. r\<lparr>t_phase := WaitingInput\<rparr>) ?d1 = Inr (n, d2)"
        "insert_ledger (now 1) i ep (Some Running) WaitingInput None (Some ''INPUT_REQUESTED'') d2
           = Inr d'"
      by (fastforce simp: insert_pending_request_def run_tx_Inr result_simps Let_def
          split: if_splits)
    then show ?thesis
    proof cases
      case 1
      with False r show ?thesis by (intro asked [of r ?d1]) simp_all
    next
      case (2 n d2)
      have core1: "upd_task i (\<lambda>r. if t_phase r = Running then r\<lparr>t_phase := WaitingInput\<rparr> else r) ?d1
          = upd_task i (\<lambda>r. r\<lparr>t_phase := WaitingInput\<rparr>) ?d1"
        using task_unique [OF core r(1)] r(2) 2(2) by (intro upd_task_eqI) auto
      with 2 False r update_tasks_Inr(1) [OF 2(3)] show ?thesis
        by (intro asked [of r ?d1]) simp_all
    qed
  qed
qed

lemma insert_pending_request_keeps:
  assumes inv: "store_inv d"
  shows "store_inv (snd (insert_pending_request now rid i corr kind payload d))"
proof (cases "insert_pending_request now rid i corr kind payload d")
  case (Pair res d')
  note core = store_inv_core [OF inv]
  have "store_inv d'"
  proof (cases res)
    case (Inl e)
    with Pair inv show ?thesis by (simp add: insert_pending_request_def run_tx_Inl)
  next
    case (Inr v)
    with Pair have "insert_pending_request now rid i corr kind payload d = (Inr v, d')" by simp
    with core show ?thesis
    proof (cases rule: insert_pending_request_cases)
      case replay
      with inv show ?thesis by simp
    next
      case (asked r d1)
      have inv1: "store_inv d1"
        unfolding asked(6) using asked(2,5)
        by (intro store_inv_add_request [OF inv]) (auto simp: known_def dest: find_task_SomeD)
      have r1: "find_task d1 i = Some r" using asked(2) by (simp add: asked(6) find_task_def)
      have "has_live_request d1 i" by (auto simp: asked(6) has_live_request_def pending_row_def)
      then have "t_phase r = Running \<Longrightarrow>
          store_inv (upd_task i (\<lambda>r. r\<lparr>t_phase := WaitingInput\<rparr>) d1)"
        using asked core_inv_row [OF core asked(2)]
        by (intro store_inv_upd [OF inv1 r1]) (simp_all add: row_inv_switch)
      with asked(7) inv1 show ?thesis by (auto intro: store_inv_ledger)
    qed
  qed
  with Pair show ?thesis by simp
qed

text \<open>A change of the requests of one agent that may end their life.\<close>

lemma store_inv_requests_of:
  assumes inv: "store_inv d"
    and f: "\<And>p. p_request_id (f p) = p_request_id p \<and> p_agent_id (f p) = p_agent_id p"
    and sel: "\<And>p. sel p \<Longrightarrow> p_agent_id p = i"
    and live: "\<And>r. find_task d i = Some r \<Longrightarrow> t_phase r = WaitingInput \<Longrightarrow>
      has_live_request (snd (update_requests sel f d)) i"
  shows "store_inv (snd (update_requests sel f d))" (is "store_inv ?d")
proof -
  note core = store_inv_core [OF inv]
  have tasks: "db_tasks ?d = db_tasks d" by (simp add: update_requests_def)
  have others: "has_live_request ?d j" if "has_live_request d j" "j \<noteq> i" for j
    using that f sel by (intro has_live_update_requests) auto
  have "waiting_has_request ?d"
    unfolding waiting_has_request_def tasks
  proof (intro ballI impI)
    fix r
    assume r: "r \<in> set (db_tasks d)" "t_phase r = WaitingInput"
    then have "find_task d (t_agent_id r) = Some r"
      using find_task_Some_iff [OF core_inv_distinct [OF core]] by simp
    with r inv live others show "has_live_request ?d (t_agent_id r)"
      by (cases "t_agent_id r = i") (auto simp: store_inv_def waiting_has_request_def)
  qed
  moreover have "core_inv ?d" by (rule core_inv_update_requests [OF core f])
  ultimately show ?thesis by (simp add: store_inv_def)
qed

lemma update_requests_none: "fst (update_requests sel f d) = 0 \<Longrightarrow> snd (update_requests sel f d) = d"
  using map_idI [of "db_requests d" "\<lambda>p. if sel p then f p else p"]
  by (simp add: update_requests_def filter_empty_conv)

lemma count_request_key:
  "distinct (map p_request_id ps) \<Longrightarrow> length (filter (\<lambda>p. p_request_id p = rid \<and> c p) ps) \<le> 1"
proof (induction ps)
  case (Cons p ps)
  have "p_request_id p = rid \<Longrightarrow> filter (\<lambda>p. p_request_id p = rid \<and> c p) ps = []"
    using Cons.prems by (fastforce simp: filter_empty_conv image_iff)
  with Cons show ?case by auto
qed simp

lemma upd_task_update_requests:
  "upd_task i g (snd (update_requests sel f d)) = snd (update_requests sel f (upd_task i g d))"
  by (simp add: upd_task_def update_requests_def)

abbreviation sending :: "string \<Rightarrow> string \<Rightarrow> request_row \<Rightarrow> bool" where
  "sending i rid q \<equiv> p_request_id q = rid \<and> p_agent_id q = i \<and> p_state q = ReqSending"

definition responded_row :: "i64 \<Rightarrow> request_row \<Rightarrow> request_row" where
  "responded_row t q = q\<lparr>p_state := ReqResponded, p_responded_at := Some t\<rparr>"

lemma complete_pending_response_cases:
  assumes core: "core_inv d" and run: "complete_pending_response now i rid d = (Inr res, d')"
    and d1: "d1 = snd (update_requests (sending i rid) (responded_row (now 0)) d)"
  obtains (absent) "\<not> res" "d' = d"
    | (answered) r where res "find_task d i = Some r" "d' = d1"
      "t_phase r = WaitingInput \<Longrightarrow> has_live_request d1 i"
    | (resumed) r where res "find_task d i = Some r" "t_phase r = WaitingInput"
      "\<not> t_close_requested r" "\<not> t_stop_requested r"
      "insert_ledger (now 1) i (word_of_int (t_owner_epoch r)) (Some WaitingInput) Running None
         (Some ''INPUT_RESOLVED'') (upd_task i (\<lambda>r. r\<lparr>t_phase := Running\<rparr>) d1) = Inr d'"
      "\<not> has_live_request d1 i"
proof -
  let ?run = "\<lambda>r. r\<lparr>t_phase := Running\<rparr>"
  have eq: "d1 = snd (update_requests (sending i rid)
      (\<lambda>q. q\<lparr>p_state := ReqResponded, p_responded_at := Some (now 0)\<rparr>) d)"
    by (simp add: d1 responded_row_def [abs_def])
  have tasks: "find_task d1 i = find_task d i"
    by (simp add: d1 update_requests_def find_task_def)
  have core1: "core_inv d1"
    unfolding d1 by (rule core_inv_update_requests [OF core]) (simp add: responded_row_def)
  let ?f = "\<lambda>q. q\<lparr>p_state := ReqResponded, p_responded_at := Some (now 0)\<rparr>"
  from run consider "fst (update_requests (sending i rid) ?f d) \<noteq> 1" "\<not> res" "d' = d1"
    | ph out ep cl st where "res" "query_guard d1 i = Inr (ph, out, ep, cl, st)" "d' = d1"
      "ph = WaitingInput \<longrightarrow> cl \<or> st \<or> has_live_request d1 i"
    | ep out n d2 where "res" "query_guard d1 i = Inr (WaitingInput, out, ep, False, False)"
      "update_tasks (\<lambda>r. t_agent_id r = i \<and> t_phase r = WaitingInput) ?run d1 = Inr (n, d2)"
      "insert_ledger (now 1) i ep (Some WaitingInput) Running None (Some ''INPUT_RESOLVED'') d2
         = Inr d'" "\<not> has_live_request d1 i"
    unfolding complete_pending_response_def run_tx_Inr eq
    by (fastforce simp: result_simps Let_def split_beta list_ex_iff has_live_request_def
        split: if_splits)
  then show ?thesis
  proof cases
    case 1
    have "length (filter (sending i rid) (db_requests d)) \<le> 1"
      using core by (intro count_request_key) (simp add: core_inv_def tables_ok_def)
    moreover have "length (filter (sending i rid) (db_requests d)) \<noteq> 1"
      using 1(1) by (simp add: update_requests_def)
    ultimately have "length (filter (sending i rid) (db_requests d)) = 0" by linarith
    then have "d1 = d" unfolding d1 by (intro update_requests_none) (simp add: update_requests_def)
    with 1 show ?thesis by (intro absent) simp_all
  next
    case 2
    obtain r where r: "find_task d i = Some r" "t_phase r = ph" "t_close_requested r = cl"
      "t_stop_requested r = st"
      using query_guard_Inr [OF 2(2)] tasks by auto
    with core_inv_row [OF core r(1)] have "ph = WaitingInput \<Longrightarrow> \<not> cl \<and> \<not> st"
      by (auto simp: row_inv_def flags_ok_def)
    with 2 r show ?thesis by (intro answered [of r]) auto
  next
    case 3
    obtain r where r: "find_task d i = Some r" "t_phase r = WaitingInput"
      "\<not> t_close_requested r" "\<not> t_stop_requested r" "ep = word_of_int (t_owner_epoch r)"
      using query_guard_Inr [OF 3(2)] tasks by auto
    then have "d2 = upd_task i ?run d1"
      using update_tasks_Inr(1) [OF 3(3)] tasks by (auto intro: upd_task_cong [OF core1])
    with 3 r show ?thesis by (intro resumed [of r]) auto
  qed
qed

lemma complete_pending_response_keeps:
  assumes inv: "store_inv d"
  shows "store_inv (snd (complete_pending_response now i rid d))"
proof (cases "complete_pending_response now i rid d")
  case (Pair res d')
  note core = store_inv_core [OF inv]
  let ?run = "\<lambda>r. r\<lparr>t_phase := Running\<rparr>"
  let ?upd = "\<lambda>d. snd (update_requests (sending i rid) (responded_row (now 0)) d)"
  have "store_inv d'"
  proof (cases res)
    case (Inl e)
    with Pair inv show ?thesis by (simp add: complete_pending_response_def run_tx_Inl)
  next
    case (Inr v)
    with Pair have run: "complete_pending_response now i rid d = (Inr v, d')" by simp
    show ?thesis
    proof (cases rule: complete_pending_response_cases
        [OF core run refl, case_names absent answered resumed])
      case absent
      with inv show ?thesis by simp
    next
      case (answered r)
      then show ?thesis
        by (auto intro!: store_inv_requests_of [OF inv, where i = i] simp: responded_row_def)
    next
      case (resumed r)
      have "store_inv (upd_task i ?run d)"
        using resumed core_inv_row [OF core resumed(2)]
        by (intro store_inv_upd [OF inv resumed(2)]) (simp_all add: row_inv_switch)
      moreover have "find_task (upd_task i ?run d) i = Some (?run r)"
        by (simp add: find_task_upd_task resumed(2))
      ultimately have "store_inv (?upd (upd_task i ?run d))"
        by (intro store_inv_requests_of [where i = i]) (auto simp: responded_row_def)
      then have "store_inv (upd_task i ?run (?upd d))" by (simp add: upd_task_update_requests)
      then show ?thesis by (rule store_inv_ledger [OF resumed(6)])
    qed
  qed
  with Pair show ?thesis by simp
qed

end
