(* ===== verification/Machine.thy ===== *)
theory Machine
  imports Main
begin

text \<open>
  State machines: the states reachable from an initial one, and the interfaces a component
  offers to the proofs about its runs. \<open>invariant_machine\<close> is the contract "every step keeps
  the invariant"; \<open>refined_machine\<close> adds an abstraction every step projects through;
  \<open>fenced_writer\<close> is the contract of a writer whose stale commands change nothing.
\<close>

inductive reach :: "'s \<Rightarrow> ('s \<Rightarrow> 's \<Rightarrow> bool) \<Rightarrow> 's \<Rightarrow> bool" for s0 and step where
  start: "reach s0 step s0"
| next_state: "reach s0 step s \<Longrightarrow> step s t \<Longrightarrow> reach s0 step t"

lemma reach_mono: "reach s0 step s \<Longrightarrow> (\<And>a b. step a b \<Longrightarrow> step' a b) \<Longrightarrow> reach s0 step' s"
  by (induction rule: reach.induct) (auto intro: reach.intros)

locale invariant_machine =
  fixes init :: 's
    and step :: "'s \<Rightarrow> 's \<Rightarrow> bool"
    and inv :: "'s \<Rightarrow> bool"
  assumes inv_init: "inv init"
    and inv_step: "inv s \<Longrightarrow> step s t \<Longrightarrow> inv t"
begin

lemma reach_inv: "reach init step s \<Longrightarrow> inv s"
  by (induction rule: reach.induct) (auto intro: inv_init inv_step)

lemma reach_strengthen:
  assumes "\<And>s. reach init step s \<Longrightarrow> inv s \<Longrightarrow> P s \<Longrightarrow> (\<And>t. step s t \<Longrightarrow> P t)" "P init"
    "reach init step s"
  shows "P s"
  using assms(3) by (induction rule: reach.induct) (use assms(1,2) reach_inv in blast)+

lemma steps_keep: "step\<^sup>*\<^sup>* s t \<Longrightarrow> inv s \<Longrightarrow> inv t"
  by (induction rule: rtranclp_induct) (auto intro: inv_step)

end

locale refined_machine = invariant_machine init step inv
  for init :: 's and step :: "'s \<Rightarrow> 's \<Rightarrow> bool" and inv :: "'s \<Rightarrow> bool" +
  fixes abs :: "'s \<Rightarrow> 'a"
    and astep :: "'a \<Rightarrow> 'a \<Rightarrow> bool"
  assumes sim: "inv s \<Longrightarrow> step s t \<Longrightarrow> abs t = abs s \<or> astep (abs s) (abs t)"
begin

lemma reach_abs: "reach init step s \<Longrightarrow> reach (abs init) astep (abs s)"
proof (induction rule: reach.induct)
  case start
  show ?case by (rule reach.start)
next
  case (next_state s t)
  then have "inv s" by (blast intro: reach_inv)
  with next_state sim [of s t] show ?case by (auto intro: reach.next_state)
qed

lemma steps_abs: "step\<^sup>*\<^sup>* s t \<Longrightarrow> inv s \<Longrightarrow> astep\<^sup>*\<^sup>* (abs s) (abs t)"
proof (induction rule: rtranclp_induct)
  case base
  show ?case by simp
next
  case (step t u)
  then have "inv t" by (blast intro: steps_keep)
  with step sim [of t u] show ?case by (auto intro: rtranclp.rtrancl_into_rtrancl)
qed

end

locale fenced_writer =
  fixes issue :: "'c \<Rightarrow> 's \<Rightarrow> 's"
    and stale :: "'c \<Rightarrow> 's \<Rightarrow> bool"
  assumes fence: "stale c s \<Longrightarrow> issue c s = s"
begin

lemma stale_run: "(\<And>c. c \<in> set cs \<Longrightarrow> stale c s) \<Longrightarrow> fold issue cs s = s"
  by (induction cs) (simp_all add: fence)

lemma stale_prefix:
  "(\<And>c. c \<in> set cs \<Longrightarrow> stale c s) \<Longrightarrow> fold issue (cs @ ds) s = fold issue ds s"
  by (simp add: stale_run)

end

end
