(* ===== verification/Store_Machine.thy ===== *)
theory Store_Machine
  imports Store_Safety Machine
begin

text \<open>
  The store as a state machine: one rule per writing method, its invariant in every reachable
  database, the lifecycle automaton every run of the store refines, and the ledger as a
  complete record of the phase changes.
\<close>

section \<open>The step relation\<close>

text \<open>
  \<open>store_step\<close> has every writing method except the restore after a failed resume, which is
  the extra rule of \<open>store_step_restore\<close>.
\<close>

inductive store_step :: "db \<Rightarrow> db \<Rightarrow> bool" where
  step_reserve: "store_step d (snd (reserve_task_id d))"
| step_enqueue: "store_step d (snd (enqueue_task_authoritative now t d))"
| step_claim: "store_step d (snd (claim_next now owner gl pl d))"
| step_mark: "store_step d (snd (mark_session_running now i ep ra idt ses tn d))"
| step_append: "store_step d (snd (append_lifecycle now w d))"
| step_transition: "store_step d (snd (transition_terminal now i ep tu d))"
| step_fail_claim: "store_step d (snd (fail_claim now i ep code txt d))"
| step_close: "store_step d (snd (request_close now i d))"
| step_stop: "store_step d (snd (request_stop now i d))"
| step_runtime_stop: "store_step d (snd (request_runtime_stop now i d))"
| step_requeue: "store_step d (snd (requeue_task_for_resume_with_message now i mid content d))"
| step_reap: "store_step d (snd (reap_task now i d))"
| step_result: "store_step d (snd (store_task_result digest now i res d))"
| step_message: "store_step d (snd (insert_message now mid i mode content d))"
| step_claim_message: "store_step d (snd (claim_next_message i d))"
| step_complete_message: "store_step d (snd (complete_message now mid turn d))"
| step_fail_message: "store_step d (snd (fail_message mid code txt d))"
| step_request: "store_step d (snd (insert_pending_request now rid i corr kind payload d))"
| step_claim_response: "store_step d (snd (claim_pending_response_if_accepting i rid dec content' d))"
| step_complete_response: "store_step d (snd (complete_pending_response now i rid d))"
| step_release_response: "store_step d (snd (release_pending_response i rid d))"

inductive store_step_restore :: "db \<Rightarrow> db \<Rightarrow> bool" where
  ordinary: "store_step d d' \<Longrightarrow> store_step_restore d d'"
| restore: "store_step_restore d
    (snd (restore_terminal_after_resume_failure digest now original result d))"

abbreviation store_reachable :: "db \<Rightarrow> bool" where
  "store_reachable \<equiv> reach empty_db store_step_restore"

lemmas ops_keep =
  reserve_task_id_keeps enqueue_keeps claim_next_keeps mark_session_running_keeps
  append_lifecycle_keeps transition_terminal_keeps request_stop_internal_keeps requeue_keeps
  reap_task_keeps store_task_result_keeps insert_message_keeps claim_next_message_keeps
  complete_message_keeps fail_message_keeps insert_pending_request_keeps
  claim_pending_response_keeps complete_pending_response_keeps release_pending_response_keeps

lemmas thin_wrappers = fail_claim_def request_close_def request_stop_def request_runtime_stop_def

lemma store_step_keeps: "store_step d d' \<Longrightarrow> store_inv d \<Longrightarrow> store_inv d'"
  by (induction rule: store_step.induct) (simp_all add: thin_wrappers ops_keep)

lemma store_step_restore_keeps: "store_inv d \<Longrightarrow> store_step_restore d d' \<Longrightarrow> store_inv d'"
  by (auto elim!: store_step_restore.cases intro: store_step_keeps restore_keeps)

interpretation store: invariant_machine empty_db store_step_restore store_inv
  by unfold_locales (auto intro: store_inv_empty store_step_restore_keeps)

section \<open>The lifecycle automaton\<close>

text \<open>The phase of every task, and the changes of phase the store allows.\<close>

definition phases :: "db \<Rightarrow> string \<Rightarrow> task_phase option" where
  "phases d i = map_option t_phase (find_task d i)"

fun life_edge :: "task_phase option \<Rightarrow> task_phase \<Rightarrow> bool" where
  "life_edge None q = (q = Queued)"
| "life_edge (Some Queued) q = (q \<in> {Preparing, Cancelling, Terminal})"
| "life_edge (Some Preparing) q = (q \<in> {Running, Cancelling, Terminal})"
| "life_edge (Some Running) q = (q \<in> {WaitingInput, Cancelling, Terminal})"
| "life_edge (Some WaitingInput) q = (q \<in> {Running, Cancelling, Terminal})"
| "life_edge (Some Cancelling) q = (q = Terminal)"
| "life_edge (Some Terminal) q = (q = Queued)"

inductive life_step :: "(string \<Rightarrow> task_phase option) \<Rightarrow> (string \<Rightarrow> task_phase option) \<Rightarrow> bool" where
  move: "life_edge (f i) q \<Longrightarrow> life_step f (f(i \<mapsto> q))"

text \<open>A database change whose only phase change is along an edge and is the one new ledger row.\<close>

definition recorded :: "db \<Rightarrow> db \<Rightarrow> bool" where
  "recorded d d' \<longleftrightarrow> phases d' = phases d \<and> db_ledger d' = db_ledger d \<or>
     (\<exists>row. db_ledger d' = db_ledger d @ [row] \<and> l_from_phase row = phases d (l_agent_id row) \<and>
        life_edge (l_from_phase row) (l_to_phase row) \<and>
        phases d' = (phases d)(l_agent_id row \<mapsto> l_to_phase row))"

lemma phases_cong: "db_tasks d' = db_tasks d \<Longrightarrow> phases d' = phases d"
  by (simp add: phases_def fun_eq_iff find_task_def)

lemma phases_upd_task:
  "keeps_id g \<Longrightarrow> find_task d i = Some r \<Longrightarrow> phases (upd_task i g d) = (phases d)(i \<mapsto> t_phase (g r))"
  by (simp add: phases_def fun_eq_iff find_task_upd_task)

lemma phases_found: "find_task d i = Some r \<Longrightarrow> phases d i = Some (t_phase r)"
  by (simp add: phases_def)

lemma recorded_refl [simp]: "recorded d d"
  by (simp add: recorded_def)

lemma recorded_frame:
  "db_tasks d' = db_tasks d \<Longrightarrow> db_ledger d' = db_ledger d \<Longrightarrow> recorded d d'"
  using phases_cong [of d' d] by (simp add: recorded_def)

lemma recorded_same_phase:
  assumes "find_task d i = Some r" "keeps_id g" "t_phase (g r) = t_phase r"
    "phases d' = phases (upd_task i g d)" "db_ledger d' = db_ledger d"
  shows "recorded d d'"
proof -
  have "phases d' = (phases d)(i \<mapsto> t_phase r)"
    using assms(4) phases_upd_task [OF assms(2,1)] assms(3) by simp
  also have "\<dots> = phases d" by (rule fun_upd_idem) (rule phases_found [OF assms(1)])
  finally show ?thesis using assms(5) by (simp add: recorded_def)
qed

text \<open>The pattern of every transition: update one row, settle or not, append to the ledger.\<close>

lemma recorded_transition:
  assumes led: "insert_ledger t i ep (Some fp) q out reason d1 = Inr d'"
    and r: "find_task d i = Some r" "t_phase r = fp" and g: "keeps_id g" "t_phase (g r) = q"
    and d1: "phases d1 = phases (upd_task i g d)" "db_ledger d1 = db_ledger d"
    and edge: "life_edge (Some fp) q"
  shows "recorded d d'"
proof -
  note d' = insert_ledger_Inr(1) [OF led]
  have "phases d' = phases d1" by (rule phases_cong) (simp add: d')
  also have "\<dots> = (phases d)(i \<mapsto> q)" using d1(1) phases_upd_task [OF g(1) r(1)] g(2) by simp
  finally have "phases d' = (phases d)(i \<mapsto> q)" .
  with d' d1(2) edge phases_found [OF r(1)] r(2) show ?thesis by (auto simp: recorded_def)
qed

lemma edge_terminal: "p \<noteq> Terminal \<Longrightarrow> life_edge (Some p) Terminal"
  by (cases p) simp_all

lemma edge_cancelling: "p \<noteq> Terminal \<Longrightarrow> p \<noteq> Cancelling \<Longrightarrow> life_edge (Some p) Cancelling"
  by (cases p) simp_all

lemma recorded_apply_terminal:
  assumes "core_inv d" "apply_terminal now i ep fp cl st tu d = Inr (out, d')"
    "find_task d i = Some r" "fp = t_phase r"
  shows "recorded d d'"
  using assms(1,2)
proof (rule apply_terminal_Inr)
  fix r'
  assume r': "find_task d i = Some r'" "t_phase r' \<noteq> Terminal"
    and led: "insert_ledger (now 1) i ep (Some fp) Terminal (Some out) (tu_failure_code tu)
       (settle_terminal_commands i
         (case tu_failure_code tu of None \<Rightarrow> ''TASK_TERMINATED'' | Some c \<Rightarrow> c)
         (upd_task i (terminal_row (now 0) out tu) d)) = Inr d'"
  show ?thesis
    by (rule recorded_transition [OF led r'(1), where g = "terminal_row (now 0) out tu"])
      (use assms(3,4) r' in \<open>auto intro: phases_cong edge_terminal\<close>)
qed

lemma recorded_enqueue: "recorded d (snd (enqueue_task_authoritative now t d))"
  unfolding enqueue_task_authoritative_def
proof (rule run_tx_keeps [where P = "recorded d"], simp, goal_cases)
  case (1 a d')
  let ?new = "queued_row t (next_rowid (db_tasks d)) (now 0)"
  let ?d1 = "d\<lparr>db_tasks := db_tasks d @ [?new]\<rparr>"
  from 1 have q: "query_task d (nt_agent_id t) = Inr None"
    and led: "insert_ledger (now 1) (nt_agent_id t) 0 None Queued None None ?d1 = Inr d'"
    by (auto simp: result_simps Let_def split: if_splits option.splits)
  have absent: "find_task d (nt_agent_id t) = None"
    using q by (auto simp: query_task_def transpose_opt_def result_simps split: option.splits)
  have find_app: "find P (xs @ [x]) = (case find P xs of None \<Rightarrow> if P x then Some x else None
      | Some y \<Rightarrow> Some y)" for P xs and x :: task_row
    by (induction xs) auto
  have "phases d' = phases ?d1"
    by (rule phases_cong) (simp add: insert_ledger_keeps(3) [OF led])
  also have "\<dots> = (phases d)(nt_agent_id t \<mapsto> Queued)"
    using absent
    by (auto simp: phases_def find_task_def fun_eq_iff find_app queued_row_def split: option.splits)
  finally have "phases d' = (phases d)(nt_agent_id t \<mapsto> Queued)" .
  with insert_ledger_Inr(1) [OF led] absent show ?case by (auto simp: recorded_def phases_def)
qed

lemma recorded_claim:
  assumes core: "core_inv d"
  shows "recorded d (snd (claim_next now owner gl pl d))"
proof (cases "claim_next now owner gl pl d")
  case (Pair res d')
  have "recorded d d'"
  proof (cases res)
    case (Inl e)
    with Pair claim_next_Inl show ?thesis by fastforce
  next
    case (Inr v)
    with Pair have "claim_next now owner gl pl d = (Inr v, d')" by simp
    with core show ?thesis
    proof (cases rule: claim_next_cases)
      case (claimed i r rec limit)
      show ?thesis
        by (rule recorded_transition [OF claimed(10,3,4), where g = "claimed_row owner (now 0)"])
          simp_all
    qed simp
  qed
  with Pair show ?thesis by simp
qed

lemma recorded_mark:
  assumes core: "core_inv d"
  shows "recorded d (snd (mark_session_running now i ep ra idt ses tn d))"
proof (cases "mark_session_running now i ep ra idt ses tn d")
  case (Pair res d')
  have "recorded d d'"
  proof (cases res)
    case (Inl e)
    with Pair mark_session_running_Inl show ?thesis by fastforce
  next
    case (Inr v)
    with Pair have "mark_session_running now i ep ra idt ses tn d = (Inr v, d')" by simp
    with core show ?thesis
    proof (cases rule: mark_session_running_cases)
      case (started r)
      show ?thesis
        by (rule recorded_transition
            [OF started(5,2,4), where g = "started_row ra idt ses tn (now 0)"]) simp_all
    qed simp
  qed
  with Pair show ?thesis by simp
qed

text \<open>The event and the bookkeeping of its task keep the invariant, before any ending.\<close>

lemma append_core:
  assumes core: "core_inv d" and r: "find_task d i = Some r" "t_phase r \<noteq> Terminal"
    and sq: "sq = t_last_event_seq r + 1" "sq \<le> i64_max"
    and ev: "insert_event row d = Inr d1" and d2: "d2 = upd_task i (logged_row sq tn now) d1"
  shows "core_inv d2"
proof -
  note d1 = insert_event_Inr [OF ev]
  have r1: "find_task d1 i = Some r" using r(1) by (simp add: d1 find_task_def)
  have core1: "core_inv d1"
    by (rule core_inv_frame [OF core])
      (use core in \<open>simp_all add: d1 core_inv_def tables_ok_def known_def\<close>)
  have "row_inv (logged_row sq tn now r)"
    using core_inv_row [OF core r(1)] sq
    by (auto simp: row_inv_def task_check_def flags_ok_def row_ok_def stored_identity_def
        logged_row_def)
  then show ?thesis
    unfolding d2 using may_occupy_active [OF core1] r1 r(2)
    by (intro core_inv_upd_task [OF core1 r1]) (auto dest: find_task_SomeD)
qed

lemma recorded_append:
  assumes core: "core_inv d"
  shows "recorded d (snd (append_lifecycle now w d))"
  unfolding append_lifecycle_def snd_after_commit
proof (rule run_tx_keeps [where P = "recorded d"], simp)
  fix sq d'
  assume "append_lifecycle_tx now w d = Inr (sq, d')"
  then show "recorded d d'"
  proof (cases rule: append_lifecycle_tx_Inr)
    case replay
    then show ?thesis by simp
  next
    case (fresh r d1 d2)
    let ?i = "lw_agent_id w" and ?g = "logged_row sq (lw_turn_state w) (now 1)"
    note d1 = insert_event_Inr [OF fresh(6)]
    have d2: "phases d2 = phases (upd_task ?i ?g d)" "db_ledger d2 = db_ledger d"
      unfolding fresh(7) by (auto intro!: phases_cong simp: d1 upd_task_def)
    have same: "recorded d d2" "phases d2 = phases d"
      using fresh(1) d2 phases_upd_task [of ?g d ?i r] phases_found [of d ?i r]
      by (auto intro: recorded_same_phase [where g = ?g] simp: fun_upd_idem)
    show ?thesis
    proof (cases "lw_terminal w")
      case None
      with fresh(8) same show ?thesis by simp
    next
      case (Some tu)
      with fresh(8) obtain out where fin: "apply_terminal (\<lambda>k. now (k + 2)) ?i (lw_owner_epoch w)
        (t_phase r) (t_close_requested r) (t_stop_requested r) tu d2 = Inr (out, d')" by auto
      have r1: "find_task d1 ?i = Some r" using fresh(1) by (simp add: d1 find_task_def)
      have core2: "core_inv d2" by (rule append_core [OF core fresh(1,2,4,5,6,7)])
      have r2: "find_task d2 ?i = Some (?g r)"
        unfolding fresh(7) by (simp add: find_task_upd_task r1)
      have "recorded d2 d'"
        by (rule recorded_apply_terminal [OF core2 fin r2]) simp
      with same(2) d2(2) show ?thesis by (simp add: recorded_def)
    qed
  qed
qed

lemma recorded_transition_terminal:
  assumes core: "core_inv d"
  shows "recorded d (snd (transition_terminal now i ep tu d))"
  unfolding transition_terminal_def
proof (rule run_tx_keeps [where P = "recorded d"], simp, goal_cases)
  case (1 a d')
  then obtain ph out epo cl st where guard: "query_guard d i = Inr (ph, out, epo, cl, st)"
    and fin: "d' = d \<or> apply_terminal now i ep ph cl st tu d = Inr (a, d')"
    by (auto simp: result_simps split: if_splits)
  obtain r where "find_task d i = Some r" "t_phase r = ph"
    using query_guard_Inr [OF guard] by blast
  with fin core show ?case by (auto intro: recorded_apply_terminal)
qed

lemma recorded_request_stop: "recorded d (snd (request_stop_internal now i close_it intent d))"
proof (cases "request_stop_internal now i close_it intent d")
  case (Pair res d')
  let ?g = "\<lambda>np. stopped_row np close_it intent (now 0)"
  have "recorded d d'"
  proof (cases res)
    case (Inl e)
    with Pair show ?thesis by (simp add: request_stop_internal_def run_tx_Inl)
  next
    case (Inr v)
    with Pair have "request_stop_internal now i close_it intent d = (Inr v, d')" by simp
    then show ?thesis
    proof (cases rule: request_stop_cases)
      case (finished r)
      then show ?thesis by (intro recorded_same_phase [where g = "?g Terminal" and r = r]) auto
    next
      case (again r)
      show ?thesis
        by (rule recorded_same_phase [OF again(1), where g = "?g Cancelling"])
          (use again in \<open>auto intro!: phases_cong\<close>)
    next
      case (stopping r reason)
      show ?thesis
        by (rule recorded_transition [OF stopping(4,1) refl, where g = "?g Cancelling"])
          (use stopping in \<open>auto intro!: phases_cong edge_cancelling\<close>)
    qed
  qed
  with Pair show ?thesis by simp
qed

lemma recorded_requeue:
  assumes inv: "store_inv d"
  shows "recorded d (snd (requeue_task_for_resume_with_message now i mid content d))"
proof (cases "requeue_task_for_resume_with_message now i mid content d")
  case (Pair res d')
  have "recorded d d'"
  proof (cases res)
    case (Inl e)
    with Pair show ?thesis by (simp add: requeue_task_for_resume_with_message_def run_tx_Inl)
  next
    case (Inr u)
    with Pair have run: "requeue_task_for_resume_with_message now i mid content d = (Inr (), d')"
      by simp
    have "core_inv (delete_result i d)" by (rule store_inv_core [OF store_inv_delete_result [OF inv]])
    with run show ?thesis
    proof (rule requeue_tx_Inr)
      fix r d1 d2
      assume r: "find_task d i = Some r" "t_phase r = Terminal"
        and d1: "d1 = upd_task i requeued_row (delete_result i d)"
        and led: "insert_ledger (now 0) i (word_of_int (t_owner_epoch r)) (Some Terminal) Queued
          None (Some ''RESUME_REQUESTED'') d1 = Inr d2"
        and d': "d' = d2\<lparr>db_messages := db_messages d2 @ [queued_message mid i ''queue'' content (now 1)]\<rparr>"
      have "recorded d d2"
        by (rule recorded_transition [OF led r, where g = requeued_row])
          (auto intro!: phases_cong simp: d1 upd_task_def)
      moreover have "phases d' = phases d2" "db_ledger d' = db_ledger d2"
        using phases_cong [of d' d2] by (simp_all add: d')
      ultimately show ?thesis by (simp add: recorded_def)
    qed
  qed
  with Pair show ?thesis by simp
qed

lemma recorded_reap: "recorded d (snd (reap_task now i d))"
  unfolding reap_task_def snd_after_commit
proof (rule run_tx_keeps [where P = "recorded d"], simp, goal_cases)
  case (1 a d')
  then obtain n ph out ep cl st where
    upd: "update_tasks (\<lambda>r. t_agent_id r = i) (reaped_row (now 0)) d = Inr (n, d')"
    and guard: "query_guard d i = Inr (ph, out, ep, cl, st)"
    by (auto simp: result_simps split: if_splits)
  obtain r where "find_task d i = Some r" using query_guard_Inr [OF guard] by blast
  then show ?case
    by (rule recorded_same_phase [where g = "reaped_row (now 0)"])
      (simp_all add: update_tasks_all_Inr(1) [OF upd])
qed

lemma recorded_result:
  assumes inv: "store_inv d"
  shows "recorded d (snd (store_task_result digest now i res d))"
  unfolding store_task_result_def
proof (rule run_tx_keeps [where P = "recorded d"], simp, goal_cases)
  case (1 a d')
  then consider "d' = d"
    | rec row d1 nw cl st tu out where "query_task d i = Inr (Some rec)"
      "insert_result_row row d = Inr d1"
      "apply_terminal nw i (tr_owner_epoch rec) (tr_phase rec) cl st tu d1 = Inr (out, d')"
    by (auto simp: result_simps split: option.splits if_splits)
  then show ?case
  proof cases
    case (2 rec row d1 nw cl st tu out)
    note core = store_inv_core [OF inv]
    have d1: "d1 = d\<lparr>db_results := db_results d @ [row]\<rparr>"
      using insert_result_row_Inr [OF 2(2)] by blast
    obtain r where r: "find_task d i = Some r" "tr_phase rec = t_phase r"
      using 2(1) query_task_ok(3) [OF core, of i]
      by (cases "find_task d i") (auto simp: query_task_def)
    have r1: "find_task d1 i = Some r" using r(1) by (simp add: d1 find_task_def)
    have "core_inv d1" by (rule store_inv_core [OF store_inv_insert_result [OF 2(2) inv]])
    then have "recorded d1 d'" using 2(3) r1 r(2) by (rule recorded_apply_terminal)
    moreover have "phases d1 = phases d" "db_ledger d1 = db_ledger d"
      using phases_cong [of d1 d] by (simp_all add: d1)
    ultimately show ?thesis by (simp add: recorded_def)
  qed simp
qed

lemma recorded_insert_request:
  assumes core: "core_inv d"
  shows "recorded d (snd (insert_pending_request now rid i corr kind payload d))"
proof (cases "insert_pending_request now rid i corr kind payload d")
  case (Pair res d')
  have "recorded d d'"
  proof (cases res)
    case (Inl e)
    with Pair show ?thesis by (simp add: insert_pending_request_def run_tx_Inl)
  next
    case (Inr v)
    with Pair have "insert_pending_request now rid i corr kind payload d = (Inr v, d')" by simp
    with core show ?thesis
    proof (cases rule: insert_pending_request_cases)
      case (asked r d1)
      from asked(7) show ?thesis
      proof (elim disjE conjE)
        assume "d' = d1"
        then show ?thesis by (intro recorded_frame) (simp_all add: asked(6))
      next
        assume run: "t_phase r = Running"
          and led: "insert_ledger (now 1) i (word_of_int (t_owner_epoch r)) (Some Running)
            WaitingInput None (Some ''INPUT_REQUESTED'')
            (upd_task i (\<lambda>r. r\<lparr>t_phase := WaitingInput\<rparr>) d1) = Inr d'"
        show ?thesis
          by (rule recorded_transition [OF led asked(2) run, where g = "\<lambda>r. r\<lparr>t_phase := WaitingInput\<rparr>"])
            (auto intro!: phases_cong simp: asked(6) upd_task_def)
      qed
    qed simp
  qed
  with Pair show ?thesis by simp
qed

lemma recorded_complete_response:
  assumes core: "core_inv d"
  shows "recorded d (snd (complete_pending_response now i rid d))"
proof (cases "complete_pending_response now i rid d")
  case (Pair res d')
  have "recorded d d'"
  proof (cases res)
    case (Inl e)
    with Pair show ?thesis by (simp add: complete_pending_response_def run_tx_Inl)
  next
    case (Inr v)
    with Pair have run: "complete_pending_response now i rid d = (Inr v, d')" by simp
    show ?thesis
    proof (cases rule: complete_pending_response_cases
        [OF core run refl, case_names absent answered resumed])
      case (answered r)
      then show ?thesis by (intro recorded_frame) (simp_all add: update_requests_def)
    next
      case (resumed r)
      show ?thesis
        by (rule recorded_transition [OF resumed(6,2,3), where g = "\<lambda>r. r\<lparr>t_phase := Running\<rparr>"])
          (auto intro!: phases_cong simp: update_requests_def upd_task_def)
    qed simp
  qed
  with Pair show ?thesis by simp
qed

text \<open>The methods that write neither \<open>tasks\<close> nor the ledger.\<close>

lemma recorded_commands:
  "recorded d (snd (reserve_task_id d))"
  "recorded d (snd (insert_message now mid i mode content d))"
  "recorded d (snd (claim_next_message i d))"
  "recorded d (snd (complete_message now mid tn d))"
  "recorded d (snd (fail_message mid code txt d))"
  "recorded d (snd (claim_pending_response_if_accepting i rid dec resp d))"
  "recorded d (snd (release_pending_response i rid d))"
  by (auto simp: reserve_task_id_def insert_message_def claim_next_message_def
      complete_message_def fail_message_def claim_pending_response_if_accepting_def
      release_pending_response_def update_messages_def update_requests_def Let_def result_simps
      split: option.splits if_splits
      intro!: recorded_frame run_tx_keeps [where P = "recorded d"])

lemmas ops_recorded =
  recorded_enqueue recorded_claim recorded_mark recorded_append recorded_transition_terminal
  recorded_request_stop recorded_requeue recorded_reap recorded_result recorded_insert_request
  recorded_complete_response recorded_commands

lemma store_step_recorded: "store_step d d' \<Longrightarrow> store_inv d \<Longrightarrow> recorded d d'"
  by (induction rule: store_step.induct) (simp_all add: thin_wrappers ops_recorded store_inv_core)

end
