(* ===== verification/Store_Refinement.thy ===== *)
theory Store_Refinement
  imports Store_Machine
begin

text \<open>
  What the store promises to its clients, as interpretations of the interfaces of \<open>Machine\<close>:
  the runs of the store project to runs of the lifecycle automaton, the transition ledger can
  be replayed to the current phases, and the writes of a worker whose epoch is out of date
  change nothing.
\<close>

section \<open>Refinement of the lifecycle automaton\<close>

interpretation lifecycle: refined_machine empty_db store_step store_inv phases life_step
proof unfold_locales
  show "store_inv empty_db" by (rule store_inv_empty)
next
  fix d d'
  assume "store_inv d" "store_step d d'"
  then show "store_inv d'" by (blast intro: store_step_keeps)
next
  fix d d'
  assume "store_inv d" "store_step d d'"
  then have "recorded d d'" by (blast intro: store_step_recorded)
  then show "phases d' = phases d \<or> life_step (phases d) (phases d')"
    unfolding recorded_def by (metis life_step.move)
qed

lemma phases_empty [simp]: "phases empty_db = Map.empty"
  by (simp add: phases_def find_task_def empty_db_def fun_eq_iff)

section \<open>Replaying the ledger\<close>

text \<open>
  An auditor's reading of \<open>lifecycle_ledger\<close>: every row must start where the replayed life of
  its task stands and move along an edge of the automaton.
\<close>

fun replay :: "ledger_row list \<Rightarrow> (string \<Rightarrow> task_phase option) \<Rightarrow> (string \<Rightarrow> task_phase option) option"
where
  "replay [] f = Some f"
| "replay (row # rows) f =
     (if l_from_phase row = f (l_agent_id row) \<and> life_edge (l_from_phase row) (l_to_phase row)
      then replay rows (f(l_agent_id row \<mapsto> l_to_phase row)) else None)"

lemma replay_append:
  "replay (xs @ ys) f = (case replay xs f of None \<Rightarrow> None | Some g \<Rightarrow> replay ys g)"
  by (induction xs arbitrary: f) auto

lemma replay_recorded:
  assumes "recorded d d'" "replay (db_ledger d) Map.empty = Some (phases d)"
  shows "replay (db_ledger d') Map.empty = Some (phases d')"
  using assms(1) unfolding recorded_def
  by (elim disjE exE conjE) (simp_all add: assms(2) replay_append)

lemma replay_reach:
  assumes "reach empty_db store_step d"
  shows "replay (db_ledger d) Map.empty = Some (phases d)"
  using assms
proof (rule lifecycle.reach_strengthen [rotated 2])
  show "replay (db_ledger empty_db) Map.empty = Some (phases empty_db)"
    by (simp add: empty_db_def [THEN arg_cong [where f = db_ledger]])
next
  fix s t
  assume "store_inv s" "replay (db_ledger s) Map.empty = Some (phases s)" "store_step s t"
  then show "replay (db_ledger t) Map.empty = Some (phases t)"
    by (blast intro: replay_recorded store_step_recorded)
qed

section \<open>Fencing by owner epoch\<close>

text \<open>The writes a daemon worker issues under the epoch of its claim.\<close>

datatype worker_write =
    Start string u64 string "process_identity option" "string option" "turn_state option"
  | Log lifecycle_write
  | Finish string u64 terminal_update
  | Abandon string u64 string string

fun write_agent :: "worker_write \<Rightarrow> string" where
  "write_agent (Start i ep ra idt ses tn) = i"
| "write_agent (Log w) = lw_agent_id w"
| "write_agent (Finish i ep tu) = i"
| "write_agent (Abandon i ep code txt) = i"

fun write_epoch :: "worker_write \<Rightarrow> u64" where
  "write_epoch (Start i ep ra idt ses tn) = ep"
| "write_epoch (Log w) = lw_owner_epoch w"
| "write_epoch (Finish i ep tu) = ep"
| "write_epoch (Abandon i ep code txt) = ep"

fun issue_write :: "clock \<Rightarrow> worker_write \<Rightarrow> db \<Rightarrow> db" where
  "issue_write now (Start i ep ra idt ses tn) d = snd (mark_session_running now i ep ra idt ses tn d)"
| "issue_write now (Log w) d = snd (append_lifecycle now w d)"
| "issue_write now (Finish i ep tu) d = snd (transition_terminal now i ep tu d)"
| "issue_write now (Abandon i ep code txt) d = snd (fail_claim now i ep code txt d)"

definition stale_write :: "worker_write \<Rightarrow> db \<Rightarrow> bool" where
  "stale_write c d \<longleftrightarrow> (\<forall>r \<in> set (db_tasks d). t_agent_id r = write_agent c \<longrightarrow>
     t_owner_epoch r \<noteq> uint (write_epoch c))"

lemma stale_mark:
  assumes "\<forall>r \<in> set (db_tasks d). t_agent_id r = i \<longrightarrow> t_owner_epoch r \<noteq> uint ep"
  shows "snd (mark_session_running now i ep ra idt ses tn d) = d"
proof -
  have "filter (\<lambda>r. t_agent_id r = i \<and> t_owner_epoch r = uint ep \<and> t_phase r = Preparing)
      (db_tasks d) = []"
    using assms by (auto simp: filter_empty_conv)
  moreover have "map (\<lambda>r. if t_agent_id r = i \<and> t_owner_epoch r = uint ep \<and> t_phase r = Preparing
      then started_row ra idt ses tn (now 0) r else r) (db_tasks d) = db_tasks d"
    using assms by (intro map_idI) auto
  ultimately show ?thesis
    by (simp add: mark_session_running_def run_tx_def u64_to_i64_def update_tasks_def)
qed

lemma stale_guard:
  assumes "\<forall>r \<in> set (db_tasks d). t_agent_id r = i \<longrightarrow> t_owner_epoch r \<noteq> uint ep"
    "query_guard d i = Inr (ph, out, epo, cl, st)"
  shows "epo \<noteq> ep"
  using query_guard_Inr [OF assms(2)] assms(1) by (metis find_task_SomeD uint_word_of_i64)

lemma stale_transition:
  assumes "\<forall>r \<in> set (db_tasks d). t_agent_id r = i \<longrightarrow> t_owner_epoch r \<noteq> uint ep"
  shows "snd (transition_terminal now i ep tu d) = d"
  unfolding transition_terminal_def
  by (rule run_tx_keeps [where P = "\<lambda>x. x = d"])
    (auto simp: result_simps dest: stale_guard [OF assms] split: if_splits)

lemma stale_append:
  assumes "\<forall>r \<in> set (db_tasks d). t_agent_id r = lw_agent_id w \<longrightarrow>
    t_owner_epoch r \<noteq> uint (lw_owner_epoch w)"
  shows "snd (append_lifecycle now w d) = d"
  unfolding append_lifecycle_def snd_after_commit
  by (rule run_tx_keeps [where P = "\<lambda>x. x = d"])
    (auto simp: append_lifecycle_tx_def result_simps dest: stale_guard [OF assms]
      split: if_splits option.splits)

interpretation epoch: fenced_writer "issue_write now" stale_write for now
proof
  fix c d
  assume "stale_write c d"
  then show "issue_write now c d = d"
    by (cases c) (simp_all add: stale_write_def fail_claim_def stale_mark stale_append
        stale_transition)
qed

text \<open>What a successful claim did: the oldest claimable row moves on under the next epoch.\<close>

lemma claim_next_epoch:
  assumes core: "core_inv d" and run: "claim_next now owner gl pl d = (Inr (Some (rec, ep)), d')"
  obtains r where "find_task d (tr_agent_id rec) = Some r" "uint ep = t_owner_epoch r + 1"
    "db_tasks d' = db_tasks (upd_task (tr_agent_id rec) (claimed_row owner (now 0)) d)"
    "t_phase r = Queued" "\<not> t_close_requested r"
    "first_by t_created_at (filter (claimable d (uint pl)) (db_tasks d)) = Some r"
  using core run
proof (cases rule: claim_next_cases)
  case (claimed i r rec' limit)
  have row: "row_inv r" by (rule core_inv_row [OF core claimed(3)])
  have "row_ok (claimed_row owner (now 0) r)"
    using row claimed(6)
    by (auto simp: row_inv_def row_ok_def claimed_row_def stored_identity_def)
  then have "tr_agent_id rec = i" "ep = word_of_int (t_owner_epoch r + 1)"
    using claimed(8,9) find_task_SomeD [OF claimed(3)]
    by (auto elim!: convert_task_row_ok simp: claimed_row_def)
  moreover have "0 \<le> t_owner_epoch r" using row by (simp add: row_inv_def row_ok_def)
  moreover have "limit = uint pl" using claimed(1) by (simp add: usize_to_i64_def split: if_splits)
  then have "first_by t_created_at (filter (claimable d (uint pl)) (db_tasks d)) = Some r"
    using claimed(2) first_by_Some task_unique [OF core claimed(3)] by fastforce
  ultimately show ?thesis
    using claimed(3,4,5,6) insert_ledger_keeps(3) [OF claimed(10)]
      uint_word_of_i64 [of "t_owner_epoch r + 1"] by (intro that) simp_all
qed simp

end
