(* ===== verification/Store_Samples.thy ===== *)
theory Store_Samples
  imports Store_Refinement
begin

text \<open>
  A concrete run of the store, state by state: submit, claim, start, ask, stop, finish. The
  witnesses of the store properties evaluate at these states.
\<close>

definition clk :: clock where "clk k = 1000 + int k"

definition sample_task :: new_task where
  "sample_task = \<lparr>nt_agent_id = ''10000000'', nt_repository = ''/repo'',
     nt_workspace_path = ''/work'', nt_runtime_hash = None, nt_prepared_launch_json = ''{}'',
     nt_prepared_launch_sha256 = ''ab'', nt_initial_prompt = ''do it''\<rparr>"

definition sample_queued :: db where
  "sample_queued = snd (enqueue_task_authoritative clk sample_task empty_db)"

definition sample_claimed :: db where
  "sample_claimed = snd (claim_next clk ''worker'' 4 1 sample_queued)"

definition sample_running :: db where
  "sample_running = snd (mark_session_running clk ''10000000'' 1 ''ra'' None (Some ''ses'') None
     sample_claimed)"

definition sample_waiting :: db where
  "sample_waiting = snd (insert_pending_request clk ''q1'' ''10000000'' ''c1'' ''permission''
     ''{}'' sample_running)"

definition sample_stopping :: db where
  "sample_stopping = snd (request_stop clk ''10000000'' sample_running)"

definition sample_end :: terminal_update where
  "sample_end = \<lparr>tu_outcome = Failed, tu_failure_code = None, tu_failure_message = None\<rparr>"

definition sample_stopped :: db where
  "sample_stopped = snd (transition_terminal clk ''10000000'' 1 sample_end sample_stopping)"

definition sample_failed :: db where
  "sample_failed = snd (transition_terminal clk ''10000000'' 1 sample_end sample_running)"

lemmas sample_defs = sample_queued_def sample_claimed_def sample_running_def sample_waiting_def
  sample_stopping_def sample_stopped_def sample_failed_def

lemma samples_reachable:
  "store_reachable sample_queued" "store_reachable sample_claimed" "store_reachable sample_running"
  "store_reachable sample_waiting" "store_reachable sample_stopping"
  "store_reachable sample_stopped" "store_reachable sample_failed"
  unfolding sample_defs by (rule reach.intros store_step_restore.ordinary store_step.intros)+

lemma samples_by_steps:
  "reach empty_db store_step sample_queued" "reach empty_db store_step sample_waiting"
  "reach empty_db store_step sample_stopped"
  unfolding sample_defs by (rule reach.intros store_step.intros)+

lemma sample_task_states:
  "map_option t_phase (find_task sample_waiting ''10000000'') = Some WaitingInput"
  "map_option t_outcome (find_task sample_stopped ''10000000'') = Some (Some Cancelled)"
  by code_simp+

end
