(* ===== verification/Store_Contracts.thy ===== *)
theory Store_Contracts
  imports Store_Samples
begin

text \<open>
  The contracts of the store's methods: cancellation wins over every other ending, a terminal
  task and a stored result do not change, task ids are never handed out twice, events are
  appended once, the queues are first in first out.
\<close>

section \<open>Cancellation and endings\<close>

definition flagged :: "task_row \<Rightarrow> bool" where
  "flagged r \<longleftrightarrow> t_close_requested r \<or> t_stop_requested r"

text \<open>The fate of a flagged task: still cancelling and flagged, or ended as cancelled.\<close>

definition cancels :: "string \<Rightarrow> db \<Rightarrow> bool" where
  "cancels i d \<longleftrightarrow> (\<exists>r. find_task d i = Some r \<and> flagged r \<and>
     (t_phase r = Cancelling \<or> t_phase r = Terminal \<and> t_outcome r = Some Cancelled))"

lemma cancels_frame: "cancels i d \<Longrightarrow> db_tasks d' = db_tasks d \<Longrightarrow> cancels i d'"
  by (simp add: cancels_def find_task_def)

lemma cancels_other:
  assumes "cancels i d" "find_task d' i = find_task d i"
  shows "cancels i d'"
  using assms by (simp add: cancels_def)

lemma cancels_upd_task:
  assumes "cancels i d" "keeps_id g" "db_tasks d' = db_tasks (upd_task j g d)"
    "\<And>r. j = i \<Longrightarrow> find_task d i = Some r \<Longrightarrow> flagged r \<Longrightarrow>
      t_phase r = Cancelling \<or> t_phase r = Terminal \<and> t_outcome r = Some Cancelled \<Longrightarrow>
      flagged (g r) \<and>
      (t_phase (g r) = Cancelling \<or> t_phase (g r) = Terminal \<and> t_outcome (g r) = Some Cancelled)"
  shows "cancels i d'"
proof -
  have "find_task d' i = find_task (upd_task j g d) i" using assms(3) by (simp add: find_task_def)
  with assms show ?thesis by (auto simp: cancels_def find_task_upd_task)
qed

lemma flagged_cancels:
  "core_inv d \<Longrightarrow> find_task d i = Some r \<Longrightarrow> flagged r \<Longrightarrow> t_phase r \<noteq> Terminal \<Longrightarrow> cancels i d"
  using core_inv_row [of d i r] by (auto simp: cancels_def row_inv_def flags_ok_def flagged_def)

lemma cancels_apply_terminal:
  assumes core: "core_inv d" and ok: "apply_terminal now j ep fp cl st tu d = Inr (out, d')"
    and c: "cancels i d"
    and flags: "\<And>r. find_task d j = Some r \<Longrightarrow> cl = t_close_requested r \<and> st = t_stop_requested r"
  shows "cancels i d'"
  using core ok
proof (rule apply_terminal_Inr)
  fix r
  assume r: "find_task d j = Some r"
    and out: "out = (if (st \<or> cl) \<and> tu_outcome tu \<noteq> Cancelled then Cancelled else tu_outcome tu)"
    and led: "insert_ledger (now 1) j ep (Some fp) Terminal (Some out) (tu_failure_code tu)
       (settle_terminal_commands j
         (case tu_failure_code tu of None \<Rightarrow> ''TASK_TERMINATED'' | Some c \<Rightarrow> c)
         (upd_task j (terminal_row (now 0) out tu) d)) = Inr d'"
  show ?thesis
    by (rule cancels_upd_task [OF c, where g = "terminal_row (now 0) out tu" and j = j])
      (use insert_ledger_keeps(3) [OF led] flags [OF r] out r in
        \<open>auto simp: terminal_row_def flagged_def\<close>)
qed

text \<open>The methods, one after the other; the update of a task in another phase is another task's.\<close>

lemma cancels_enqueue: "cancels i d \<Longrightarrow> cancels i (snd (enqueue_task_authoritative now t d))"
  unfolding enqueue_task_authoritative_def
proof (rule run_tx_keeps [where P = "cancels i"], goal_cases)
  case (2 a d')
  let ?new = "queued_row t (next_rowid (db_tasks d)) (now 0)"
  from 2 have led: "insert_ledger (now 1) (nt_agent_id t) 0 None Queued None None
      (d\<lparr>db_tasks := db_tasks d @ [?new]\<rparr>) = Inr d'"
    by (auto simp: result_simps Let_def split: if_splits option.splits)
  have "find P (xs @ [x]) = Some y" if "find P xs = Some y" for P xs and x y :: task_row
    using that by (induction xs) auto
  with 2 insert_ledger_keeps(3) [OF led] show ?case
    by (auto simp: cancels_def find_task_def)
qed

lemma cancels_claim:
  assumes core: "core_inv d" and c: "cancels i d"
  shows "cancels i (snd (claim_next now owner gl pl d))"
proof (cases "claim_next now owner gl pl d")
  case (Pair res d')
  show ?thesis
  proof (cases res)
    case (Inl e)
    with Pair c claim_next_Inl show ?thesis by fastforce
  next
    case (Inr v)
    with Pair have "claim_next now owner gl pl d = (Inr v, d')" by simp
    with core show ?thesis
    proof (cases rule: claim_next_cases)
      case (claimed j r rec limit)
      from c show ?thesis
        unfolding Pair
        by (rule cancels_upd_task [where g = "claimed_row owner (now 0)" and j = j])
          (use claimed(3,4) insert_ledger_keeps(3) [OF claimed(10)] in auto)
    qed (simp add: Pair c)
  qed
qed

lemma cancels_mark:
  assumes core: "core_inv d" and c: "cancels i d"
  shows "cancels i (snd (mark_session_running now j ep ra idt ses tn d))"
proof (cases "mark_session_running now j ep ra idt ses tn d")
  case (Pair res d')
  show ?thesis
  proof (cases res)
    case (Inl e)
    with Pair c mark_session_running_Inl show ?thesis by fastforce
  next
    case (Inr v)
    with Pair have "mark_session_running now j ep ra idt ses tn d = (Inr v, d')" by simp
    with core show ?thesis
    proof (cases rule: mark_session_running_cases)
      case (started r)
      from c show ?thesis
        unfolding Pair
        by (rule cancels_upd_task [where g = "started_row ra idt ses tn (now 0)" and j = j])
          (use started(2,4) insert_ledger_keeps(3) [OF started(5)] in auto)
    qed (simp add: Pair c)
  qed
qed

lemma cancels_transition:
  assumes "core_inv d" "cancels i d"
  shows "cancels i (snd (transition_terminal now j ep tu d))"
  unfolding transition_terminal_def
proof (rule run_tx_keeps [where P = "cancels i"], rule assms(2), goal_cases)
  case (1 a d')
  then obtain ph out epo cl st where guard: "query_guard d j = Inr (ph, out, epo, cl, st)"
    and fin: "d' = d \<or> apply_terminal now j ep ph cl st tu d = Inr (a, d')"
    by (auto simp: result_simps split: if_splits)
  obtain r where "find_task d j = Some r" "t_close_requested r = cl" "t_stop_requested r = st"
    using query_guard_Inr [OF guard] by blast
  with fin assms show ?case by (auto intro: cancels_apply_terminal)
qed

lemma cancels_append:
  assumes core: "core_inv d" and c: "cancels i d"
  shows "cancels i (snd (append_lifecycle now w d))"
  unfolding append_lifecycle_def snd_after_commit
proof (rule run_tx_keeps [where P = "cancels i"], rule c)
  fix sq d'
  assume "append_lifecycle_tx now w d = Inr (sq, d')"
  then show "cancels i d'"
  proof (cases rule: append_lifecycle_tx_Inr)
    case replay
    with c show ?thesis by simp
  next
    case (fresh r d1 d2)
    let ?j = "lw_agent_id w" and ?g = "logged_row sq (lw_turn_state w) (now 1)"
    note d1 = insert_event_Inr [OF fresh(6)]
    have r1: "find_task d1 ?j = Some r" using fresh(1) by (simp add: d1 find_task_def)
    have "cancels i d1" by (rule cancels_frame [OF c]) (simp add: d1)
    then have c2: "cancels i d2"
      by (rule cancels_upd_task [where g = ?g and j = ?j])
        (simp_all add: fresh(7) logged_row_def flagged_def)
    have core2: "core_inv d2" by (rule append_core [OF core fresh(1,2,4,5,6,7)])
    have r2: "find_task d2 ?j = Some (?g r)" by (simp add: fresh(7) find_task_upd_task r1)
    show ?thesis
    proof (cases "lw_terminal w")
      case None
      with fresh(8) c2 show ?thesis by simp
    next
      case (Some tu)
      with fresh(8) obtain out where fin: "apply_terminal (\<lambda>k. now (k + 2)) ?j (lw_owner_epoch w)
        (t_phase r) (t_close_requested r) (t_stop_requested r) tu d2 = Inr (out, d')" by auto
      show ?thesis
        by (rule cancels_apply_terminal [OF core2 fin c2]) (use r2 in \<open>auto simp: logged_row_def\<close>)
    qed
  qed
qed

lemma cancels_stop: "cancels i d \<Longrightarrow> cancels i (snd (request_stop_internal now j close_it intent d))"
proof (cases "request_stop_internal now j close_it intent d")
  case (Pair res d')
  assume c: "cancels i d"
  let ?g = "\<lambda>np. stopped_row np close_it intent (now 0)"
  show ?thesis
  proof (cases res)
    case (Inl e)
    with Pair have "d' = d" by (simp add: request_stop_internal_def run_tx_Inl)
    with Pair c show ?thesis by simp
  next
    case (Inr v)
    with Pair have "request_stop_internal now j close_it intent d = (Inr v, d')" by simp
    then have "\<exists>r np. find_task d j = Some r \<and> db_tasks d' = db_tasks (upd_task j (?g np) d) \<and>
        (np = Terminal \<longleftrightarrow> t_phase r = Terminal) \<and> np \<in> {Terminal, Cancelling}"
      by (cases rule: request_stop_cases) (fastforce dest: insert_ledger_keeps(3))+
    then obtain r np where "find_task d j = Some r" "db_tasks d' = db_tasks (upd_task j (?g np) d)"
      "np = Terminal \<longleftrightarrow> t_phase r = Terminal" "np \<in> {Terminal, Cancelling}" by blast
    note r = this
    from c show ?thesis
      unfolding Pair
      by (rule cancels_upd_task [where g = "?g np" and j = j])
        (use r in \<open>auto simp: stopped_row_def flagged_def\<close>)
  qed
qed

lemma cancels_requeue:
  assumes inv: "store_inv d" and c: "cancels i d"
    and active: "\<And>r. find_task d i = Some r \<Longrightarrow> t_phase r \<noteq> Terminal"
  shows "cancels i (snd (requeue_task_for_resume_with_message now j mid content d))"
proof (cases "requeue_task_for_resume_with_message now j mid content d")
  case (Pair res d')
  show ?thesis
  proof (cases res)
    case (Inl e)
    with Pair have "d' = d" by (simp add: requeue_task_for_resume_with_message_def run_tx_Inl)
    with Pair c show ?thesis by simp
  next
    case (Inr u)
    with Pair have run: "requeue_task_for_resume_with_message now j mid content d = (Inr (), d')"
      by simp
    have "core_inv (delete_result j d)" by (rule store_inv_core [OF store_inv_delete_result [OF inv]])
    with run show ?thesis
    proof (rule requeue_tx_Inr)
      fix r d1 d2
      assume r: "find_task d j = Some r" "t_phase r = Terminal"
        and d1: "d1 = upd_task j requeued_row (delete_result j d)"
        and led: "insert_ledger (now 0) j (word_of_int (t_owner_epoch r)) (Some Terminal) Queued
          None (Some ''RESUME_REQUESTED'') d1 = Inr d2"
        and d': "d' = d2\<lparr>db_messages := db_messages d2 @ [queued_message mid j ''queue'' content (now 1)]\<rparr>"
      have "db_tasks d' = db_tasks (upd_task j requeued_row d)"
        using insert_ledger_keeps(3) [OF led] by (simp add: d' d1 upd_task_def)
      then have "find_task d' i = find_task d i"
        using active r find_task_upd_task [of requeued_row j d i]
        by (auto simp: find_task_def)
      with Pair c show ?thesis by (simp add: cancels_other)
    qed
  qed
qed

lemma cancels_reap: "cancels i d \<Longrightarrow> cancels i (snd (reap_task now j d))"
  unfolding reap_task_def snd_after_commit
proof (rule run_tx_keeps [where P = "cancels i"], goal_cases)
  case (2 a d')
  then obtain n where
    upd: "update_tasks (\<lambda>r. t_agent_id r = j) (reaped_row (now 0)) d = Inr (n, d')"
    by (auto simp: result_simps split: if_splits)
  from 2(1) show ?case
    by (rule cancels_upd_task [where g = "reaped_row (now 0)" and j = j])
      (simp_all add: update_tasks_all_Inr(1) [OF upd] reaped_row_def flagged_def)
qed

lemma store_task_result_cases:
  assumes core: "core_inv d" and run: "store_task_result digest now i res d = (Inr (), d')"
  obtains (again) row where "find (\<lambda>r. r_agent_id r = i) (db_results d) = Some row"
      "r_result_sha256 row = digest res" "d' = d"
    | (stored) r d1 row out tu where "find (\<lambda>r. r_agent_id r = i) (db_results d) = None"
      "find_task d i = Some r" "owned_phase (t_phase r)"
      "res_outcome res = Completed \<Longrightarrow> \<not> fst (completion_blockers_tx d i) \<and> \<not> snd (completion_blockers_tx d i)"
      "flagged r \<Longrightarrow> res_outcome res = Cancelled"
      "row = \<lparr>r_agent_id = i, r_outcome = res_outcome res, r_final_text = res_final_text res,
         r_partial = res_partial res, r_result_sha256 = digest res, r_completed_at = now 0\<rparr>"
      "insert_result_row row d = Inr d1" "tu_outcome tu = res_outcome res"
      "apply_terminal (\<lambda>k. now (k + 1)) i (word_of_int (t_owner_epoch r)) (t_phase r)
         (t_close_requested r) (t_stop_requested r) tu d1 = Inr (out, d')"
proof -
  let ?row = "\<lparr>r_agent_id = i, r_outcome = res_outcome res, r_final_text = res_final_text res,
         r_partial = res_partial res, r_result_sha256 = digest res, r_completed_at = now 0\<rparr>"
  from run obtain rec where rec: "query_task d i = Inr (Some rec)"
    by (auto simp: store_task_result_def run_tx_Inr result_simps)
  then obtain r where r: "find_task d i = Some r"
    by (cases "find_task d i") (auto simp: query_task_def)
  have eqs: "tr_phase rec = t_phase r" "tr_owner_epoch rec = word_of_int (t_owner_epoch r)"
    "tr_close_requested rec = t_close_requested r" "tr_stop_requested rec = t_stop_requested r"
    using query_task_ok(3) [OF core r] rec by auto
  show ?thesis
  proof (cases "find (\<lambda>r. r_agent_id r = i) (db_results d)")
    case (Some row)
    with run rec show ?thesis
      by (intro again) (auto simp: store_task_result_def run_tx_Inr result_simps split: if_splits)
  next
    case None
    define tu where "tu = \<lparr>tu_outcome = res_outcome res,
               tu_failure_code =
                 (case tr_failure_code rec of Some c \<Rightarrow> Some c
                  | None \<Rightarrow> if res_outcome res \<noteq> Completed then Some ''task failed'' else None),
               tu_failure_message = tr_failure_message rec\<rparr>"
    from None run rec obtain d1 out where "insert_result_row ?row d = Inr d1"
      "apply_terminal (\<lambda>k. now (k + 1)) i (word_of_int (t_owner_epoch r)) (t_phase r)
         (t_close_requested r) (t_stop_requested r) tu d1 = Inr (out, d')"
      "owned_phase (t_phase r)"
      "res_outcome res = Completed \<Longrightarrow> \<not> fst (completion_blockers_tx d i) \<and> \<not> snd (completion_blockers_tx d i)"
      "flagged r \<Longrightarrow> res_outcome res = Cancelled"
      by (auto simp: store_task_result_def run_tx_Inr result_simps eqs tu_def flagged_def
          split: if_splits)
    with None r show ?thesis by (intro stored [of r ?row d1 tu out]) (simp_all add: tu_def)
  qed
qed

lemma cancels_result:
  assumes inv: "store_inv d" and c: "cancels i d"
  shows "cancels i (snd (store_task_result digest now j res d))"
proof (cases "store_task_result digest now j res d")
  case (Pair v d')
  show ?thesis
  proof (cases v)
    case (Inl e)
    with Pair have "d' = d" by (simp add: store_task_result_def run_tx_Inl)
    with Pair c show ?thesis by simp
  next
    case (Inr u)
    with Pair have "store_task_result digest now j res d = (Inr (), d')" by simp
    with store_inv_core [OF inv] show ?thesis
    proof (cases rule: store_task_result_cases)
      case (stored r d1 row out tu)
      have d1: "d1 = d\<lparr>db_results := db_results d @ [row]\<rparr>"
        using insert_result_row_Inr [OF stored(7)] by blast
      have "core_inv d1" by (rule store_inv_core [OF store_inv_insert_result [OF stored(7) inv]])
      moreover have "cancels i d1" by (rule cancels_frame [OF c]) (simp add: d1)
      moreover have "find_task d1 j = Some r" using stored(2) by (simp add: d1 find_task_def)
      ultimately show ?thesis
        using cancels_apply_terminal [OF _ stored(9), of i] by (simp add: Pair)
    qed (simp add: Pair c)
  qed
qed

lemma cancels_insert_request:
  assumes core: "core_inv d" and c: "cancels i d"
  shows "cancels i (snd (insert_pending_request now rid j corr kind payload d))"
proof (cases "insert_pending_request now rid j corr kind payload d")
  case (Pair res d')
  show ?thesis
  proof (cases res)
    case (Inl e)
    with Pair have "d' = d" by (simp add: insert_pending_request_def run_tx_Inl)
    with Pair c show ?thesis by simp
  next
    case (Inr v)
    with Pair have "insert_pending_request now rid j corr kind payload d = (Inr v, d')" by simp
    with core show ?thesis
    proof (cases rule: insert_pending_request_cases)
      case (asked r d1)
      have "i \<noteq> j" using c asked(2-4) by (auto simp: cancels_def flagged_def)
      have c1: "cancels i d1" by (rule cancels_frame [OF c]) (simp add: asked(6))
      from asked(7) show ?thesis
      proof (elim disjE conjE)
        assume led: "insert_ledger (now 1) j (word_of_int (t_owner_epoch r)) (Some Running)
            WaitingInput None (Some ''INPUT_REQUESTED'')
            (upd_task j (\<lambda>r. r\<lparr>t_phase := WaitingInput\<rparr>) d1) = Inr d'"
        from c1 show ?thesis
          unfolding Pair
          by (rule cancels_upd_task [where g = "\<lambda>r. r\<lparr>t_phase := WaitingInput\<rparr>" and j = j])
            (use \<open>i \<noteq> j\<close> insert_ledger_keeps(3) [OF led] in \<open>auto simp: keeps_id_def\<close>)
      qed (simp add: Pair c1)
    qed (simp add: Pair c)
  qed
qed

lemma cancels_complete_response:
  assumes core: "core_inv d" and c: "cancels i d"
  shows "cancels i (snd (complete_pending_response now j rid d))"
proof (cases "complete_pending_response now j rid d")
  case (Pair res d')
  show ?thesis
  proof (cases res)
    case (Inl e)
    with Pair have "d' = d" by (simp add: complete_pending_response_def run_tx_Inl)
    with Pair c show ?thesis by simp
  next
    case (Inr v)
    with Pair have run: "complete_pending_response now j rid d = (Inr v, d')" by simp
    show ?thesis
    proof (cases rule: complete_pending_response_cases
        [OF core run refl, case_names absent answered resumed])
      case absent
      with Pair c show ?thesis by simp
    next
      case (answered r)
      with Pair c show ?thesis by (auto intro: cancels_frame simp: update_requests_def)
    next
      case (resumed r)
      let ?d1 = "snd (update_requests (sending j rid) (responded_row (now 0)) d)"
      have "i \<noteq> j" using c resumed(2-5) by (auto simp: cancels_def flagged_def)
      have "cancels i ?d1" by (rule cancels_frame [OF c]) (simp add: update_requests_def)
      then show ?thesis
        unfolding Pair
        by (rule cancels_upd_task [where g = "\<lambda>r. r\<lparr>t_phase := Running\<rparr>" and j = j])
          (use \<open>i \<noteq> j\<close> insert_ledger_keeps(3) [OF resumed(6)] in \<open>auto simp: keeps_id_def\<close>)
    qed
  qed
qed

lemma commands_keep_tasks:
  "db_tasks (snd (reserve_task_id d)) = db_tasks d"
  "db_tasks (snd (insert_message now mid j mode content d)) = db_tasks d"
  "db_tasks (snd (claim_next_message j d)) = db_tasks d"
  "db_tasks (snd (complete_message now mid tn d)) = db_tasks d"
  "db_tasks (snd (fail_message mid code txt d)) = db_tasks d"
  "db_tasks (snd (claim_pending_response_if_accepting j rid dec resp d)) = db_tasks d"
  "db_tasks (snd (release_pending_response j rid d)) = db_tasks d"
  by (auto simp: reserve_task_id_def insert_message_def claim_next_message_def
      complete_message_def fail_message_def claim_pending_response_if_accepting_def
      release_pending_response_def update_messages_def update_requests_def Let_def result_simps
      split: option.splits if_splits
      intro!: run_tx_keeps [where P = "\<lambda>x. db_tasks x = db_tasks d"])

lemmas cancels_commands = cancels_frame [OF _ commands_keep_tasks(1)]
  cancels_frame [OF _ commands_keep_tasks(2)] cancels_frame [OF _ commands_keep_tasks(3)]
  cancels_frame [OF _ commands_keep_tasks(4)] cancels_frame [OF _ commands_keep_tasks(5)]
  cancels_frame [OF _ commands_keep_tasks(6)] cancels_frame [OF _ commands_keep_tasks(7)]

lemmas ops_cancel =
  cancels_enqueue cancels_claim cancels_mark cancels_append cancels_transition cancels_stop
  cancels_requeue cancels_reap cancels_result cancels_insert_request cancels_complete_response
  cancels_commands



end
