(* ===== verification/Store_Records.thy ===== *)
theory Store_Records
  imports Store_Contracts
begin

text \<open>
  The contracts of the store's records: task ids, results, endings, events, messages, pending
  requests, listings and the schema.
\<close>

section \<open>Task ids\<close>

lemma insert_ledger_next_id: "insert_ledger t i ep fp q out reason d = Inr d' \<Longrightarrow>
  db_next_id d' = db_next_id d"
  by (rule insert_ledger_keeps(8))

lemma update_tasks_next_id: "update_tasks sel f d = Inr (n, d') \<Longrightarrow> db_next_id d' = db_next_id d"
  by (auto simp: update_tasks_def Let_def split: if_splits)

lemma apply_terminal_next_id:
  "apply_terminal now i ep fp cl st tu d = Inr (out, d') \<Longrightarrow> db_next_id d' = db_next_id d"
  by (auto simp: apply_terminal_def Let_def result_simps split: if_splits
      dest!: insert_ledger_next_id update_tasks_next_id)

lemma insert_event_next_id: "insert_event row d = Inr d' \<Longrightarrow> db_next_id d' = db_next_id d"
  by (auto dest: insert_event_Inr)

lemma insert_result_next_id: "insert_result_row row d = Inr d' \<Longrightarrow> db_next_id d' = db_next_id d"
  by (auto simp: insert_result_row_def split: if_splits)

lemmas next_id_frames = insert_ledger_next_id update_tasks_next_id apply_terminal_next_id
  insert_event_next_id insert_result_next_id

lemmas method_defs = enqueue_task_authoritative_def claim_next_def mark_session_running_def
  append_lifecycle_def append_lifecycle_tx_def transition_terminal_def request_stop_internal_def
  requeue_task_for_resume_with_message_def reap_task_def store_task_result_def insert_message_def
  claim_next_message_def complete_message_def fail_message_def insert_pending_request_def
  claim_pending_response_if_accepting_def complete_pending_response_def
  release_pending_response_def restore_terminal_after_resume_failure_def

lemma delete_result_next_id [simp]: "db_next_id (delete_result i d) = db_next_id d"
  by (simp add: delete_result_def)

lemma reserve_next_id: "db_next_id d \<le> db_next_id (snd (reserve_task_id d))"
  unfolding reserve_task_id_def
  by (rule run_tx_keeps [where P = "\<lambda>x. db_next_id d \<le> db_next_id x"])
    (auto simp: Let_def split: if_splits)

lemma run_tx_next_id:
  assumes "\<And>a d'. body d = Inr (a, d') \<Longrightarrow> db_next_id d' = db_next_id d"
  shows "db_next_id (snd (run_tx body d)) = db_next_id d"
  by (rule run_tx_keeps [where P = "\<lambda>x. db_next_id x = db_next_id d"]) (use assms in auto)

lemma store_step_next_id: "store_step d d' \<Longrightarrow> db_next_id d \<le> db_next_id d'"
  by (erule store_step.cases)
    (auto simp: thin_wrappers method_defs Let_def result_simps reserve_next_id
      update_messages_def update_requests_def split: if_splits option.splits prod.splits
      dest!: next_id_frames intro!: run_tx_next_id [THEN eq_refl [OF sym]])

lemma store_run_next_id: "store_step_restore\<^sup>*\<^sup>* d d' \<Longrightarrow> db_next_id d \<le> db_next_id d'"
proof (induction rule: rtranclp_induct)
  case (step t u)
  from step(2) have "db_next_id t \<le> db_next_id u"
  proof cases
    case (restore digest now original result)
    have "db_next_id u = db_next_id t"
      unfolding restore(1) restore_terminal_after_resume_failure_def
      by (rule run_tx_next_id) (auto simp: result_simps split: option.splits dest!: next_id_frames)
    then show ?thesis by simp
  qed (rule store_step_next_id)
  with step(3) show ?case by simp
qed simp

lemma reserve_task_id_Inr:
  "reserve_task_id d = (Inr s, d') \<longleftrightarrow> 10000000 \<le> db_next_id d \<and> db_next_id d \<le> 99999999 \<and>
     s = show_nat (nat (db_next_id d)) \<and> d' = d\<lparr>db_next_id := db_next_id d + 1\<rparr>"
  by (auto simp: reserve_task_id_def run_tx_Inr Let_def split: if_splits)

lemma length_show_nat: "10 ^ k \<le> n \<Longrightarrow> n < 10 ^ Suc k \<Longrightarrow> length (show_nat n) = Suc k"
proof (induction k arbitrary: n)
  case 0
  then show ?case by (subst show_nat.simps) simp
next
  case (Suc k)
  moreover have "10 \<le> n"
    using Suc.prems(1) one_le_power [of "10::nat" k] unfolding power_Suc by linarith
  ultimately have "10 ^ k \<le> n div 10" "n div 10 < 10 ^ Suc k" "\<not> n < 10"
    by (auto simp: less_eq_div_iff_mult_less_eq div_less_iff_less_mult algebra_simps)
  with Suc.IH show ?case by (subst show_nat.simps) simp
qed

text \<open>
  Task ids are eight decimal digits and are never handed out twice: whatever the store does
  between two successful reservations, the two ids differ. When the allocator is exhausted it
  refuses and does not wrap around.
\<close>

theorem task_ids_never_repeat:
  assumes "reserve_task_id d1 = (Inr a, d2)" "store_step_restore\<^sup>*\<^sup>* d2 d3"
  shows "length a = 8 \<and> list_all is_ascii_digit a \<and>
    (case reserve_task_id d3 of
       (Inr b, _) \<Rightarrow> b \<noteq> a \<and> length b = 8
     | (Inl e, d4) \<Rightarrow> e = Conflict ''task id allocator exhausted'' \<and> d4 = d3)"
proof -
  have eight: "length (show_nat (nat n)) = 8" if "10000000 \<le> n" "n \<le> 99999999" for n :: int
    using length_show_nat [of 7 "nat n"] that by simp
  have a: "10000000 \<le> db_next_id d1" "db_next_id d1 \<le> 99999999"
    "a = show_nat (nat (db_next_id d1))" "db_next_id d2 = db_next_id d1 + 1"
    using assms(1) by (auto simp: reserve_task_id_Inr)
  have later: "db_next_id d1 < db_next_id d3"
    using store_run_next_id [OF assms(2)] a(4) by simp
  obtain res d4 where res: "reserve_task_id d3 = (res, d4)" by fastforce
  show ?thesis
  proof (cases res)
    case (Inl e)
    with res have "e = Conflict ''task id allocator exhausted'' \<and> d4 = d3"
      by (auto simp: reserve_task_id_def run_tx_Inl Let_def split: if_splits)
    with a eight Inl res show ?thesis by (simp add: show_nat_digits)
  next
    case (Inr b)
    with res have b: "10000000 \<le> db_next_id d3" "db_next_id d3 \<le> 99999999"
      "b = show_nat (nat (db_next_id d3))" by (auto simp: reserve_task_id_Inr)
    have "b \<noteq> a" using later a b show_nat_inj by fastforce
    with a b eight Inr res show ?thesis by (simp add: show_nat_digits)
  qed
qed

theorem task_ids_never_repeat_witness:
  "fst (reserve_task_id (snd (reserve_task_id empty_db))) \<noteq> fst (reserve_task_id empty_db)"
proof -
  define d e where "d = snd (reserve_task_id empty_db)" and "e = snd (reserve_task_id d)"
  have "reserve_task_id empty_db = (Inr (show_nat 10000000), d)"
    "reserve_task_id d = (Inr (show_nat 10000001), e)"
    unfolding d_def e_def by (simp_all add: reserve_task_id_def run_tx_def empty_db_def)
  then show ?thesis
    unfolding d_def [symmetric]
    using task_ids_never_repeat [of empty_db "show_nat 10000000" d d] by simp
qed

section \<open>Endings and results\<close>

lemma list_ex_map_upd: "(\<And>x. \<not> P (f x)) \<Longrightarrow> \<not> list_ex P (map (\<lambda>x. if P x then f x else x) xs)"
  by (induction xs) simp_all

lemma settle_quiet:
  "\<not> fst (completion_blockers_tx (settle_terminal_commands i reason d) i) \<and>
   \<not> snd (completion_blockers_tx (settle_terminal_commands i reason d) i)"
proof
  show "\<not> fst (completion_blockers_tx (settle_terminal_commands i reason d) i)"
    using has_live_request_settle(2) [of i reason d]
    by (simp add: completion_blockers_tx_def has_live_request_def list_ex_iff)
  show "\<not> snd (completion_blockers_tx (settle_terminal_commands i reason d) i)"
    unfolding completion_blockers_tx_def snd_conv settle_terminal_commands_def update_messages_def
      Let_def
    by simp (rule list_ex_map_upd, simp)
qed

lemma apply_terminal_ends:
  assumes core: "core_inv d" and ok: "apply_terminal now i ep fp cl st tu d = Inr (out, d')"
  shows "\<exists>r. find_task d' i = Some r \<and> t_phase r = Terminal \<and> t_outcome r = Some out"
    and "db_results d' = db_results d"
    and "out = (if (st \<or> cl) \<and> tu_outcome tu \<noteq> Cancelled then Cancelled else tu_outcome tu)"
    and "\<not> fst (completion_blockers_tx d' i) \<and> \<not> snd (completion_blockers_tx d' i)"
proof -
  let ?reason = "case tu_failure_code tu of None \<Rightarrow> ''TASK_TERMINATED'' | Some c \<Rightarrow> c"
  obtain r where r: "find_task d i = Some r"
    and out: "out = (if (st \<or> cl) \<and> tu_outcome tu \<noteq> Cancelled then Cancelled else tu_outcome tu)"
    and led: "insert_ledger (now 1) i ep (Some fp) Terminal (Some out) (tu_failure_code tu)
       (settle_terminal_commands i ?reason (upd_task i (terminal_row (now 0) out tu) d)) = Inr d'"
    by (rule apply_terminal_Inr [OF core ok])
  note keeps = insert_ledger_keeps(3-6) [OF led]
  have "find_task d' i = find_task (upd_task i (terminal_row (now 0) out tu) d) i"
    by (simp add: keeps find_task_def)
  with r show "\<exists>r. find_task d' i = Some r \<and> t_phase r = Terminal \<and> t_outcome r = Some out"
    by (simp add: find_task_upd_task terminal_row_def)
  show "db_results d' = db_results d" by (simp add: keeps)
  show "out = (if (st \<or> cl) \<and> tu_outcome tu \<noteq> Cancelled then Cancelled else tu_outcome tu)"
    by (rule out)
  show "\<not> fst (completion_blockers_tx d' i) \<and> \<not> snd (completion_blockers_tx d' i)"
    using settle_quiet [of i ?reason "upd_task i (terminal_row (now 0) out tu) d"]
    by (simp add: completion_blockers_tx_def keeps)
qed

lemma transition_of_terminal:
  assumes "core_inv d" "find_task d i = Some r" "t_phase r = Terminal" "t_outcome r = Some out"
  shows "transition_terminal now i ep tu d = (Inr out, d)"
  using assms query_guard_ok [OF assms(2)] core_inv_row [OF assms(1,2)]
  by (simp add: transition_terminal_def run_tx_def row_inv_def)

text \<open>
  A terminal transition is final and idempotent: after one succeeded with an outcome, every
  later terminal transition of the task, under any epoch and with any update, reports that same
  outcome and changes nothing.
\<close>

theorem terminal_transition_is_final:
  assumes "store_reachable d" "transition_terminal now i ep tu d = (Inr out, d')"
  shows "transition_terminal now' i ep' tu' d' = (Inr out, d')"
proof -
  note inv = store.reach_inv [OF assms(1)]
  note core = store_inv_core [OF inv]
  from assms(2) obtain ph out' epo cl st where guard: "query_guard d i = Inr (ph, out', epo, cl, st)"
    and fin: "ph = Terminal \<and> out' = Some out \<and> d' = d \<or>
      apply_terminal now i ep ph cl st tu d = Inr (out, d')"
    by (auto simp: transition_terminal_def run_tx_Inr result_simps split: if_splits)
  have "store_inv d'" using transition_terminal_keeps [OF inv, of now i ep tu] assms(2) by simp
  then have core': "core_inv d'" by (rule store_inv_core)
  from fin have "\<exists>r. find_task d' i = Some r \<and> t_phase r = Terminal \<and> t_outcome r = Some out"
  proof
    assume "ph = Terminal \<and> out' = Some out \<and> d' = d"
    with query_guard_Inr [OF guard] show ?thesis by metis
  qed (rule apply_terminal_ends(1) [OF core])
  with core' show ?thesis by (auto intro: transition_of_terminal)
qed

theorem terminal_transition_is_final_witness:
  "transition_terminal clk ''10000000'' 9 sample_end sample_stopped = (Inr Cancelled, sample_stopped)"
proof (rule terminal_transition_is_final [OF samples_reachable(5)])
  have "fst (transition_terminal clk ''10000000'' 1 sample_end sample_stopping) = Inr Cancelled"
    by code_simp
  then show "transition_terminal clk ''10000000'' 1 sample_end sample_stopping =
      (Inr Cancelled, sample_stopped)"
    by (simp add: sample_stopped_def prod_eq_iff)
qed

lemma stored_result_found:
  assumes inv: "store_inv d" and run: "store_task_result digest now i res d = (Inr (), d')"
  shows "\<exists>row. find (\<lambda>r. r_agent_id r = i) (db_results d') = Some row \<and>
    r_result_sha256 row = digest res"
  using store_inv_core [OF inv] run
proof (cases rule: store_task_result_cases)
  case (stored r d1 row out tu)
  have d1: "d1 = d\<lparr>db_results := db_results d @ [row]\<rparr>"
    using insert_result_row_Inr [OF stored(7)] by blast
  have "core_inv d1" by (rule store_inv_core [OF store_inv_insert_result [OF stored(7) inv]])
  then have "db_results d' = db_results d @ [row]"
    using apply_terminal_ends(2) [OF _ stored(9)] by (simp add: d1)
  moreover have "find P (xs @ [x]) = Some x" if "find P xs = None" "P x" for P xs and x :: result_row
    using that by (induction xs) (auto split: if_splits)
  ultimately show ?thesis using stored(1,6) by simp
qed auto

text \<open>
  A stored result is immutable: after \<open>store_task_result\<close> succeeded, the task has a result
  with that digest, storing a result with the same digest again succeeds without a change, and
  storing a valid result with another digest is refused as a conflict without a change.
\<close>

theorem stored_result_is_immutable:
  assumes "store_reachable d" "store_task_result digest now i res d = (Inr (), d')"
    "validate_result res' = Inr ()"
  shows "(\<exists>st. task_result_of i d' = Inr (Some st) \<and> st_result_sha256 st = digest res) \<and>
    store_task_result digest now' i res' d' =
      (if digest res' = digest res then Inr ()
       else Inl (Conflict (''task '' @ i @ '' already has a different immutable result'')), d')"
proof -
  note inv = store.reach_inv [OF assms(1)]
  have "store_inv d'" using store_task_result_keeps [OF inv, of digest now i res] assms(2) by simp
  then have core: "core_inv d'" by (rule store_inv_core)
  obtain row where row: "find (\<lambda>r. r_agent_id r = i) (db_results d') = Some row"
    "r_result_sha256 row = digest res"
    using stored_result_found [OF inv assms(2)] by blast
  then have "i \<in> known d'"
    using core by (auto simp: find_Some_iff core_inv_def tables_ok_def)
  then obtain r where "find_task d' i = Some r"
    by (cases "find_task d' i") (auto simp: known_def find_task_None_iff)
  then obtain rec where "query_task d' i = Inr (Some rec)"
    using query_task_ok(3) [OF core] by blast
  with row assms(3) show ?thesis
    by (simp add: task_result_of_def query_task_result_def store_task_result_def run_tx_def)
qed

definition sample_result :: "task_outcome \<Rightarrow> task_result" where
  "sample_result out = \<lparr>res_outcome = out, res_final_text = ''done'', res_partial = False\<rparr>"

definition sample_digest :: "task_result \<Rightarrow> string" where
  "sample_digest res = task_outcome_as_str (res_outcome res) @ res_final_text res"

theorem stored_result_is_immutable_witness:
  "fst (store_task_result sample_digest clk ''10000000'' (sample_result Failed)
     (snd (store_task_result sample_digest clk ''10000000'' (sample_result Completed)
       sample_running))) =
   Inl (Conflict (''task '' @ ''10000000'' @ '' already has a different immutable result''))"
proof -
  define d' where "d' = snd (store_task_result sample_digest clk ''10000000''
    (sample_result Completed) sample_running)"
  have "fst (store_task_result sample_digest clk ''10000000'' (sample_result Completed)
      sample_running) = Inr ()" by code_simp
  then have run: "store_task_result sample_digest clk ''10000000'' (sample_result Completed)
      sample_running = (Inr (), d')" by (simp add: d'_def prod_eq_iff)
  have "validate_result (sample_result Failed) = Inr ()" by code_simp
  from stored_result_is_immutable [OF samples_reachable(3) run this, of clk] show ?thesis
    unfolding d'_def [symmetric] by (simp add: sample_digest_def sample_result_def)
qed

text \<open>
  Claim C26. A success is only recorded for a quiet task: when \<open>store_task_result\<close> stores the first
  result of a task and its outcome is \<open>COMPLETED\<close>, the task was owned by a worker, no stop or
  close was requested, no request was pending and no message was queued or being sent; and
  afterwards the task is terminal with the outcome \<open>COMPLETED\<close>.
\<close>

theorem completion_needs_quiet_task:
  assumes "store_reachable d" "store_task_result digest now i res d = (Inr (), d')"
    "res_outcome res = Completed" "find (\<lambda>r. r_agent_id r = i) (db_results d) = None"
  shows "\<exists>r r'. find_task d i = Some r \<and> owned_phase (t_phase r) \<and>
      \<not> t_stop_requested r \<and> \<not> t_close_requested r \<and> completion_blockers i d = Inr (False, False) \<and>
      find_task d' i = Some r' \<and> t_phase r' = Terminal \<and> t_outcome r' = Some Completed"
proof -
  note inv = store.reach_inv [OF assms(1)]
  from store_inv_core [OF inv] assms(2) show ?thesis
  proof (cases rule: store_task_result_cases)
    case again
    with assms(4) show ?thesis by simp
  next
    case (stored r d1 row out tu)
    have "core_inv d1" by (rule store_inv_core [OF store_inv_insert_result [OF stored(7) inv]])
    note ends = apply_terminal_ends(1,3) [OF this stored(9)]
    have quiet: "\<not> flagged r" using stored(5) assms(3) by auto
    with ends(2) stored(8) assms(3) have "out = Completed" by (simp add: flagged_def)
    with ends(1) stored(2-4) quiet assms(3) show ?thesis
      by (auto simp: flagged_def completion_blockers_def prod_eq_iff)
  qed
qed

theorem completion_needs_quiet_task_witness:
  "completion_blockers ''10000000'' sample_running = Inr (False, False)"
proof -
  define d' where "d' = snd (store_task_result sample_digest clk ''10000000''
    (sample_result Completed) sample_running)"
  have "fst (store_task_result sample_digest clk ''10000000'' (sample_result Completed)
      sample_running) = Inr ()" by code_simp
  then have run: "store_task_result sample_digest clk ''10000000'' (sample_result Completed)
      sample_running = (Inr (), d')" by (simp add: d'_def prod_eq_iff)
  have "find (\<lambda>r. r_agent_id r = ''10000000'') (db_results sample_running) = None" by code_simp
  from completion_needs_quiet_task [OF samples_reachable(3) run _ this] show ?thesis
    by (auto simp: sample_result_def)
qed

end
