(* ===== verification/Store_Queues.thy ===== *)
theory Store_Queues
  imports Store_Records
begin

text \<open>
  The contracts of the store's queues and logs: the claim queue, the event log, the message
  queue, the pending requests, stop requests, and the restore after a failed resume.
\<close>

section \<open>The claim queue\<close>

lemma first_by_least: "first_by key xs = Some x \<Longrightarrow> y \<in> set xs \<Longrightarrow> key x \<le> key y"
proof -
  assume "first_by key xs = Some x" and y: "y \<in> set xs"
  then obtain rest where s: "sort_key key xs = x # rest"
    by (auto simp: first_by_def split: list.splits)
  have "sorted (map key (sort_key key xs))" by simp
  with s y show ?thesis by (metis list.set_intros(1) list.simps(9) set_ConsD set_sort sorted_simps(2) image_eqI list.set_map order_refl set_ConsD)
qed

definition owned_in :: "db \<Rightarrow> string \<Rightarrow> nat" where
  "owned_in d repo = length (filter (\<lambda>a. t_repository a = repo \<and> owned_phase (t_phase a)) (db_tasks d))"

lemma claimable_owned: "claimable d limit q \<longleftrightarrow> t_phase q = Queued \<and> \<not> t_close_requested q \<and>
    int (owned_in d (t_repository q)) < limit"
  by (simp add: claimable_def owned_in_def)

lemma owned_in_claim:
  assumes "distinct (map t_agent_id ts)" "find (\<lambda>r. t_agent_id r = i) ts = Some r"
    "\<not> owned_phase (t_phase r)" "owned_phase (t_phase (g r))" "t_repository (g r) = t_repository r"
  shows "length (filter (\<lambda>a. t_repository a = t_repository r \<and> owned_phase (t_phase a))
      (map (\<lambda>r. if t_agent_id r = i then g r else r) ts)) =
    Suc (length (filter (\<lambda>a. t_repository a = t_repository r \<and> owned_phase (t_phase a)) ts))"
  using assms
proof (induction ts)
  case (Cons s ts)
  have "map (\<lambda>r. if t_agent_id r = t_agent_id s then g r else r) ts = ts"
    using Cons.prems(1) by (intro map_idI) (auto simp: image_iff)
  with Cons show ?case by (auto split: if_splits simp del: length_filter_map)
qed simp

text \<open>
  The queue claim: \<open>claim_next\<close> hands out a queued task without a close request, the oldest
  one among those whose repository has a free slot; the task is then in \<open>PREPARING\<close> under an
  epoch one above its last, and its repository has at most the limit of owned tasks. When it
  hands out nothing, nothing was claimable.
\<close>

theorem claim_takes_oldest_within_limit:
  assumes "store_reachable d" "claim_next now owner gl pl d = (Inr res, d')" "pl \<noteq> 0"
  shows "case res of
      None \<Rightarrow> d' = d \<and> (\<forall>q \<in> set (db_tasks d). \<not> claimable d (uint pl) q)
    | Some (rec, ep) \<Rightarrow> \<exists>r r'. find_task d (tr_agent_id rec) = Some r \<and> claimable d (uint pl) r \<and>
        (\<forall>q \<in> set (db_tasks d). claimable d (uint pl) q \<longrightarrow> t_created_at r \<le> t_created_at q) \<and>
        find_task d' (tr_agent_id rec) = Some r' \<and> t_phase r' = Preparing \<and>
        t_owner_epoch r' = t_owner_epoch r + 1 \<and> uint ep = t_owner_epoch r' \<and>
        int (owned_in d' (t_repository r)) \<le> uint pl"
proof (cases res)
  case None
  with assms(2,3) show ?thesis
    by (auto simp: claim_next_def run_tx_Inr result_simps usize_to_i64_def first_by_None_iff
        filter_empty_conv split: if_splits option.splits)
next
  case (Some re)
  obtain rec ep where re: "re = (rec, ep)" by fastforce
  note core = store_inv_core [OF store.reach_inv [OF assms(1)]]
  note run = assms(2) [unfolded Some re]
  obtain r where r: "find_task d (tr_agent_id rec) = Some r" "uint ep = t_owner_epoch r + 1"
    and d': "db_tasks d' = db_tasks (upd_task (tr_agent_id rec) (claimed_row owner (now 0)) d)"
    and "t_phase r = Queued"
    and pick: "first_by t_created_at (filter (claimable d (uint pl)) (db_tasks d)) = Some r"
    by (rule claim_next_epoch [OF core run])
  have c: "claimable d (uint pl) r" using first_by_Some [OF pick] by simp
  have "owned_in d' (t_repository r) = Suc (owned_in d (t_repository r))"
    unfolding owned_in_def d' db_tasks_upd_task
    by (rule owned_in_claim [OF core_inv_distinct [OF core]])
      (use r \<open>t_phase r = Queued\<close> in \<open>auto simp: find_task_def claimed_row_def\<close>)
  moreover have "find_task d' (tr_agent_id rec) = Some (claimed_row owner (now 0) r)"
    using d' r(1) find_task_upd_task [of "claimed_row owner (now 0)"] by (simp add: find_task_def)
  ultimately show ?thesis
    using c r first_by_least [OF pick]
    by (simp add: Some re claimed_row_def claimable_owned)
qed

theorem claim_takes_oldest_within_limit_witness:
  "\<exists>r'. find_task sample_claimed ''10000000'' = Some r' \<and> t_phase r' = Preparing \<and>
     t_owner_epoch r' = 1"
proof -
  have "fst (claim_next clk ''worker'' 4 1 sample_queued) =
      Inr (map_option (\<lambda>r. (projr (convert_task_row r), 1))
        (find_task sample_claimed ''10000000''))" by code_simp
  moreover have "find_task sample_claimed ''10000000'' = Some (hd (db_tasks sample_claimed))"
    by code_simp
  ultimately have "claim_next clk ''worker'' 4 1 sample_queued =
      (Inr (Some (projr (convert_task_row (hd (db_tasks sample_claimed))), 1)), sample_claimed)"
    by (simp add: sample_claimed_def prod_eq_iff)
  moreover have "tr_agent_id (projr (convert_task_row (hd (db_tasks sample_claimed)))) = ''10000000''"
    by code_simp
  ultimately show ?thesis
    using claim_takes_oldest_within_limit [OF samples_reachable(1)] by fastforce
qed

section \<open>The event log\<close>

lemma append_lifecycle_Inr:
  assumes "append_lifecycle now w d = (Inr sq, d')"
  obtains n where "append_lifecycle_tx now w d = Inr (n, d')" "i64_to_u64 n = Inr sq"
  using assms
  by (auto simp: append_lifecycle_def after_commit_def run_tx_def split: sum.splits prod.splits)

definition same_event :: "lifecycle_write \<Rightarrow> event_row \<Rightarrow> bool" where
  "same_event w e \<longleftrightarrow> e_agent_id e = lw_agent_id w \<and> e_runtime_agent_id e = lw_runtime_agent_id w
     \<and> e_source_seq e = uint (lw_source_sequence w)"

lemma apply_terminal_events:
  assumes "core_inv d" "apply_terminal now i ep fp cl st tu d = Inr (out, d')"
  shows "db_events d' = db_events d"
  using assms by (rule apply_terminal_Inr) (auto dest: insert_ledger_keeps(7))

lemma append_found:
  "uint (lw_source_sequence w) \<le> i64_max \<Longrightarrow> find (same_event w) (db_events d) = Some e \<Longrightarrow>
   append_lifecycle_tx now w d = Inr (e_seq e, d)"
  by (simp add: append_lifecycle_tx_def u64_to_i64_def same_event_def [abs_def])

lemma append_logged:
  assumes core: "core_inv d" and run: "append_lifecycle_tx now w d = Inr (sq, d')"
  shows "uint (lw_source_sequence w) \<le> i64_max"
    and "\<exists>e. find (same_event w) (db_events d') = Some e \<and> e_seq e = sq"
    and "d' = d \<and> find (same_event w) (db_events d) \<noteq> None \<or>
      (\<exists>r e. find_task d (lw_agent_id w) = Some r \<and> sq = t_last_event_seq r + 1 \<and>
        db_events d' = db_events d @ [e] \<and> same_event w e \<and> e_seq e = sq)"
proof -
  show src: "uint (lw_source_sequence w) \<le> i64_max"
    using run by (auto simp: append_lifecycle_tx_def result_simps dest: u64_to_i64_Inr)
  have "(\<exists>e. find (same_event w) (db_events d') = Some e \<and> e_seq e = sq) \<and>
    (d' = d \<and> find (same_event w) (db_events d) \<noteq> None \<or>
      (\<exists>r e. find_task d (lw_agent_id w) = Some r \<and> sq = t_last_event_seq r + 1 \<and>
        db_events d' = db_events d @ [e] \<and> same_event w e \<and> e_seq e = sq))"
  proof (cases "find (same_event w) (db_events d)")
    case (Some e)
    with append_found [OF src Some] run show ?thesis by simp
  next
    case None
    from run show ?thesis
    proof (cases rule: append_lifecycle_tx_Inr)
      case replay
      with None show ?thesis by (auto simp: find_None_iff same_event_def)
    next
      case (fresh r d1 d2)
      note core2 = append_core [OF core fresh(1,2,4,5,6,7)]
      obtain e where e: "db_events d1 = db_events d @ [e]" "same_event w e" "e_seq e = sq"
        using insert_event_Inr [OF fresh(6)] by (simp add: same_event_def)
      have "db_events d' = db_events d2"
        using fresh(8) apply_terminal_events [OF core2] by (auto split: option.splits)
      then have log: "db_events d' = db_events d @ [e]" using e(1) by (simp add: fresh(7))
      have "find P (xs @ [x]) = Some x" if "find P xs = None" "P x" for P xs and x :: event_row
        using that by (induction xs) (auto split: if_splits)
      with None log e fresh(1,4) show ?thesis by auto
    qed
  qed
  then show "\<exists>e. find (same_event w) (db_events d') = Some e \<and> e_seq e = sq"
    and "d' = d \<and> find (same_event w) (db_events d) \<noteq> None \<or>
      (\<exists>r e. find_task d (lw_agent_id w) = Some r \<and> sq = t_last_event_seq r + 1 \<and>
        db_events d' = db_events d @ [e] \<and> same_event w e \<and> e_seq e = sq)"
    by blast+
qed

text \<open>
  Events are appended exactly once: a write that succeeds either repeats an event the log
  already holds, and then changes nothing, or gets the sequence number after the last one of
  its task; and repeating the same source sequence of the same runtime later, with any other
  content and epoch, returns the same sequence number and changes nothing.
\<close>


theorem events_append_once:
  assumes "store_reachable d" "append_lifecycle now w d = (Inr sq, d')"
    "lw_agent_id w' = lw_agent_id w" "lw_runtime_agent_id w' = lw_runtime_agent_id w"
    "lw_source_sequence w' = lw_source_sequence w"
  shows "(d' = d \<and> list_ex (same_event w) (db_events d) \<or>
      (\<exists>r e. find_task d (lw_agent_id w) = Some r \<and> uint sq = t_last_event_seq r + 1 \<and>
        db_events d' = db_events d @ [e] \<and> same_event w e \<and> e_seq e = uint sq)) \<and>
    append_lifecycle now' w' d' = (Inr sq, d')"
proof -
  note core = store_inv_core [OF store.reach_inv [OF assms(1)]]
  obtain n where run: "append_lifecycle_tx now w d = Inr (n, d')" and n: "i64_to_u64 n = Inr sq"
    by (rule append_lifecycle_Inr [OF assms(2)])
  note logged = append_logged [OF core run]
  have same: "same_event w' = same_event w" using assms(3-5) by (simp add: same_event_def fun_eq_iff)
  obtain e where e: "find (same_event w') (db_events d') = Some e" "e_seq e = n"
    using logged(2) same by auto
  then have "append_lifecycle_tx now' w' d' = Inr (n, d')"
    using append_found [OF _ e(1)] logged(1) assms(5) by simp
  then have again: "append_lifecycle now' w' d' = (Inr sq, d')"
    using n by (simp add: append_lifecycle_def after_commit_def run_tx_def)
  from logged(3) show ?thesis
  proof
    assume "d' = d \<and> find (same_event w) (db_events d) \<noteq> None"
    with again show ?thesis by (auto simp: find_None_iff list_ex_iff)
  next
    assume "\<exists>r e. find_task d (lw_agent_id w) = Some r \<and> n = t_last_event_seq r + 1 \<and>
        db_events d' = db_events d @ [e] \<and> same_event w e \<and> e_seq e = n"
    then obtain r e' where r: "find_task d (lw_agent_id w) = Some r" "n = t_last_event_seq r + 1"
      and e': "db_events d' = db_events d @ [e']" "same_event w e'" "e_seq e' = n" by blast
    have "n \<le> i64_max"
      using run by (cases rule: append_lifecycle_tx_Inr) (use r e' in auto)
    with n have "uint sq = n"
      by (auto simp: i64_to_u64_def uint_word_of_i64 split: if_splits)
    with r e' again show ?thesis
      by (intro conjI disjI2 exI [of _ r] exI [of _ e']) simp_all
  qed
qed

definition sample_write :: lifecycle_write where
  "sample_write = \<lparr>lw_agent_id = ''10000000'', lw_runtime_agent_id = ''ra'', lw_owner_epoch = 1,
     lw_source_sequence = 3, lw_event_type = ''turn.started'', lw_turn_id = None,
     lw_payload_json = ''{}'', lw_redaction_level = ''SAFE'', lw_terminal = None,
     lw_turn_state = Some TurnActive\<rparr>"

theorem events_append_once_witness:
  "append_lifecycle clk (sample_write\<lparr>lw_owner_epoch := 5\<rparr>)
     (snd (append_lifecycle clk sample_write sample_running)) =
   (Inr 1, snd (append_lifecycle clk sample_write sample_running))"
proof -
  define d' where "d' = snd (append_lifecycle clk sample_write sample_running)"
  have "fst (append_lifecycle clk sample_write sample_running) = Inr 1" by code_simp
  then have "append_lifecycle clk sample_write sample_running = (Inr 1, d')"
    by (simp add: d'_def prod_eq_iff)
  from events_append_once [OF samples_reachable(3) this, of "sample_write\<lparr>lw_owner_epoch := 5\<rparr>" clk]
  show ?thesis unfolding d'_def [symmetric] by simp
qed

section \<open>The message queue\<close>

lemma find_message_unique:
  assumes "distinct (map m_message_id ms)" "m \<in> set ms"
  shows "find (\<lambda>x. m_message_id x = m_message_id m) ms = Some m"
  using assms by (induction ms) (auto simp: image_iff)

lemma claim_message_Inr:
  assumes inv: "store_inv d" and run: "claim_next_message i d = (Inr (Some m), d')"
  obtains q r where "q \<in> set (db_messages d)" "m_agent_id q = i" "m_state q = MsgQueued"
    "m = q\<lparr>m_state := MsgSending\<rparr>" "find_task d i = Some r" "t_phase r = Running"
    "\<And>q'. q' \<in> set (db_messages d) \<Longrightarrow> m_agent_id q' = i \<Longrightarrow> m_state q' = MsgQueued \<Longrightarrow>
       m_created_at q \<le> m_created_at q'"
    "d' = d\<lparr>db_messages := map (\<lambda>x. if m_message_id x = m_message_id q \<and> m_state x = MsgQueued
       then x\<lparr>m_state := MsgSending\<rparr> else x) (db_messages d)\<rparr>"
proof -
  have dist: "distinct (map m_message_id (db_messages d))"
    using store_inv_core [OF inv] by (simp add: core_inv_def tables_ok_def)
  let ?queued = "filter (\<lambda>m. m_agent_id m = i \<and> m_state m = MsgQueued) (db_messages d)"
  let ?new = "\<lambda>q. map (\<lambda>x. if m_message_id x = m_message_id q \<and> m_state x = MsgQueued
       then x\<lparr>m_state := MsgSending\<rparr> else x) (db_messages d)"
  from run obtain q out ep where guard: "query_guard d i = Inr (Running, out, ep, False, False)"
    and q: "first_by m_created_at ?queued = Some q"
    and d': "d' = d\<lparr>db_messages := ?new q\<rparr>" and m: "find_message d' (m_message_id q) = Some m"
    by (auto simp: claim_next_message_def run_tx_Inr result_simps update_messages_def Let_def
        split: if_splits option.splits)
  have qin: "q \<in> set (db_messages d)" "m_agent_id q = i" "m_state q = MsgQueued"
    using first_by_Some [OF q] by auto
  have "map m_message_id (?new q) = map m_message_id (db_messages d)" by simp
  with dist have "distinct (map m_message_id (?new q))" by (simp only:)
  moreover have "q\<lparr>m_state := MsgSending\<rparr> \<in> set (?new q)" using qin by force
  ultimately have "m = q\<lparr>m_state := MsgSending\<rparr>"
    using m find_message_unique [of "?new q" "q\<lparr>m_state := MsgSending\<rparr>"]
    by (simp add: find_message_def d')
  moreover obtain r where "find_task d i = Some r" "t_phase r = Running"
    using query_guard_Inr [OF guard] by blast
  ultimately show ?thesis
    using qin d' first_by_least [OF q] by (intro that [of q r]) auto
qed

text \<open>
  Messages are delivered in order and claimed once: \<open>claim_next_message\<close> takes, for a task
  that is running and was not asked to stop, the oldest queued message of that task, marks it
  \<open>SENDING\<close> and returns it; the next claim of the task never returns the same message.
\<close>

theorem messages_claimed_in_order_once:
  assumes "store_reachable d" "claim_next_message i d = (Inr (Some m), d')"
    "claim_next_message i d' = (Inr (Some m'), d'')"
  shows "m_message_id m' \<noteq> m_message_id m \<and> m_created_at m \<le> m_created_at m' \<and>
    m_agent_id m = i \<and> m_state m = MsgSending \<and> find_message d' (m_message_id m) = Some m \<and>
    map_option m_state (find_message d (m_message_id m)) = Some MsgQueued"
proof -
  note inv = store.reach_inv [OF assms(1)]
  have inv': "store_inv d'" using claim_next_message_keeps [OF inv, of i] assms(2) by simp
  have dist: "distinct (map m_message_id (db_messages x))" if "store_inv x" for x
    using store_inv_core [OF that] by (simp add: core_inv_def tables_ok_def)
  let ?new = "\<lambda>q. map (\<lambda>x. if m_message_id x = m_message_id q \<and> m_state x = MsgQueued
       then x\<lparr>m_state := MsgSending\<rparr> else x) (db_messages d)"
  obtain q where q: "q \<in> set (db_messages d)" "m_agent_id q = i" "m_state q = MsgQueued"
    "m = q\<lparr>m_state := MsgSending\<rparr>" and d': "db_messages d' = ?new q"
    and least: "\<And>q'. q' \<in> set (db_messages d) \<Longrightarrow> m_agent_id q' = i \<Longrightarrow> m_state q' = MsgQueued \<Longrightarrow>
       m_created_at q \<le> m_created_at q'"
    by (rule claim_message_Inr [OF inv assms(2)]) auto
  obtain q' where q': "q' \<in> set (db_messages d')" "m_agent_id q' = i" "m_state q' = MsgQueued"
    "m' = q'\<lparr>m_state := MsgSending\<rparr>"
    by (rule claim_message_Inr [OF inv' assms(3)])
  have old: "q' \<in> set (db_messages d)" "m_message_id q' \<noteq> m_message_id q"
    using q'(1,3) unfolding d' by (auto split: if_splits)
  have "m \<in> set (db_messages d')" unfolding d' using q by force
  then have "find_message d' (m_message_id m) = Some m"
    unfolding find_message_def by (rule find_message_unique [OF dist [OF inv']])
  moreover have "find_message d (m_message_id q) = Some q"
    unfolding find_message_def by (rule find_message_unique [OF dist [OF inv] q(1)])
  ultimately show ?thesis using q q' old least [OF old(1)] by simp
qed

definition sample_messages :: db where
  "sample_messages = snd (insert_message clk ''m2'' ''10000000'' ''queue'' ''then this''
     (snd (insert_message clk ''m1'' ''10000000'' ''queue'' ''do this'' sample_running)))"

lemma sample_messages_reachable: "store_reachable sample_messages"
  unfolding sample_messages_def sample_defs
  by (rule reach.intros store_step_restore.ordinary store_step.intros)+

definition sending_message :: "string \<Rightarrow> string \<Rightarrow> message_row" where
  "sending_message mid content =
     (queued_message mid ''10000000'' ''queue'' content 1000)\<lparr>m_state := MsgSending\<rparr>"

theorem messages_claimed_in_order_once_witness:
  "map_option m_state (find_message sample_messages ''m1'') = Some MsgQueued"
proof -
  define d1 d2 where "d1 = snd (claim_next_message ''10000000'' sample_messages)"
    and "d2 = snd (claim_next_message ''10000000'' d1)"
  have "fst (claim_next_message ''10000000'' sample_messages) =
      Inr (Some (sending_message ''m1'' ''do this''))"
    and "fst (claim_next_message ''10000000'' d1) =
      Inr (Some (sending_message ''m2'' ''then this''))"
    unfolding d1_def by code_simp+
  then have "claim_next_message ''10000000'' sample_messages =
      (Inr (Some (sending_message ''m1'' ''do this'')), d1)"
    and "claim_next_message ''10000000'' d1 = (Inr (Some (sending_message ''m2'' ''then this'')), d2)"
    by (simp_all add: d1_def d2_def prod_eq_iff)
  from messages_claimed_in_order_once [OF sample_messages_reachable this] show ?thesis
    by (simp add: sending_message_def queued_message_def)
qed

section \<open>Pending requests\<close>

lemma find_request_unique:
  assumes "distinct (map p_request_id ps)" "p \<in> set ps"
  shows "find (\<lambda>x. p_request_id x = p_request_id p) ps = Some p"
  using assms by (induction ps) (auto simp: image_iff)

lemma find_request_update:
  assumes "\<And>q. p_request_id (f q) = p_request_id q"
  shows "find_request (snd (update_requests sel f d)) rid =
    map_option (\<lambda>q. if sel q then f q else q) (find_request d rid)"
proof -
  have "find (\<lambda>p. p_request_id p = rid) (map (\<lambda>r. if sel r then f r else r) ps) =
    map_option (\<lambda>q. if sel q then f q else q) (find (\<lambda>p. p_request_id p = rid) ps)" for ps
    using assms by (induction ps) auto
  then show ?thesis by (simp add: find_request_def update_requests_def)
qed

text \<open>
  A pending request is answered at most once: a response is only claimed for a pending
  request of a running or waiting task that was not asked to stop; the claim stores the
  decision, and until it is released every further claim of the same request, whatever its
  decision, is told that the request is already being sent.
\<close>

theorem response_claimed_once:
  assumes "claim_pending_response_if_accepting i rid dec content d = (Inr Claimed, d')"
  shows "claim_pending_response_if_accepting i rid dec' content' d' =
      (Inr (NotPending ReqSending), d') \<and>
    (\<exists>p r. find_request d rid = Some p \<and> p_agent_id p = i \<and> p_state p = ReqPending \<and>
      find_request d' rid = Some (p\<lparr>p_state := ReqSending, p_response_decision := Some dec,
        p_response_content := content\<rparr>) \<and>
      find_task d i = Some r \<and> t_phase r \<in> {Running, WaitingInput} \<and>
      \<not> t_close_requested r \<and> \<not> t_stop_requested r)"
proof -
  let ?sel = "\<lambda>q. p_request_id q = rid \<and> p_agent_id q = i \<and> p_state q = ReqPending"
  let ?f = "\<lambda>q. q\<lparr>p_state := ReqSending, p_response_decision := Some dec, p_response_content := content\<rparr>"
  from assms obtain p ph out ep where p: "find_request d rid = Some p" "p_agent_id p = i"
    "p_state p = ReqPending" and guard: "query_guard d i = Inr (ph, out, ep, False, False)"
    and ph: "ph \<in> {Running, WaitingInput}" and d': "d' = snd (update_requests ?sel ?f d)"
    by (fastforce simp: claim_pending_response_if_accepting_def run_tx_Inr result_simps
        split: if_splits option.splits)
  have rid: "p_request_id p = rid" using p(1) by (auto simp: find_request_def find_Some_iff)
  have found: "find_request d' rid = Some (?f p)"
    unfolding d' using p rid by (subst find_request_update) simp_all
  then have "claim_pending_response_if_accepting i rid dec' content' d' =
      (Inr (NotPending ReqSending), d')"
    using p(2) by (simp add: claim_pending_response_if_accepting_def run_tx_def)
  moreover obtain r where "find_task d i = Some r" "t_phase r = ph" "\<not> t_close_requested r"
    "\<not> t_stop_requested r" using query_guard_Inr [OF guard] by metis
  ultimately show ?thesis using p found ph by blast
qed

theorem response_claimed_once_witness:
  "fst (claim_pending_response_if_accepting ''10000000'' ''q1'' ''deny'' None
     (snd (claim_pending_response_if_accepting ''10000000'' ''q1'' ''allow'' None sample_waiting)))
   = Inr (NotPending ReqSending)"
proof -
  define d' where
    "d' = snd (claim_pending_response_if_accepting ''10000000'' ''q1'' ''allow'' None sample_waiting)"
  have "fst (claim_pending_response_if_accepting ''10000000'' ''q1'' ''allow'' None sample_waiting)
      = Inr Claimed" by code_simp
  then have "claim_pending_response_if_accepting ''10000000'' ''q1'' ''allow'' None sample_waiting
      = (Inr Claimed, d')" by (simp add: d'_def prod_eq_iff)
  from response_claimed_once [OF this, of "''deny''" None] show ?thesis
    unfolding d'_def [symmetric] by simp
qed

text \<open>
  Answering the last open request resumes the task: when \<open>complete_pending_response\<close> succeeds
  for a task in \<open>WAITING_INPUT\<close>, the task is \<open>RUNNING\<close> afterwards exactly when no other request
  of it is still open, and otherwise it keeps waiting.
\<close>

theorem last_answer_resumes_task:
  assumes "store_reachable d" "complete_pending_response now i rid d = (Inr True, d')"
    "find_task d i = Some r" "t_phase r = WaitingInput"
  shows "\<exists>r'. find_task d' i = Some r' \<and>
    t_phase r' = (if has_live_request d' i then WaitingInput else Running)"
proof -
  note inv = store.reach_inv [OF assms(1)]
  have "store_inv d'"
    using complete_pending_response_keeps [OF inv, of now i rid] assms(2) by simp
  then have wait: "find_task d' i = Some r' \<Longrightarrow> t_phase r' = WaitingInput \<Longrightarrow> has_live_request d' i" for r'
    by (auto simp: store_inv_def waiting_has_request_def dest!: find_task_SomeD)
  let ?d1 = "snd (update_requests (sending i rid) (responded_row (now 0)) d)"
  have tasks: "find_task ?d1 i = find_task d i" by (simp add: update_requests_def find_task_def)
  show ?thesis
  proof (cases rule: complete_pending_response_cases
      [OF store_inv_core [OF inv] assms(2) refl, case_names absent answered resumed])
    case (answered s)
    with assms(3,4) wait tasks show ?thesis by auto
  next
    case (resumed s)
    have "find_task d' i = Some (r\<lparr>t_phase := Running\<rparr>)"
      using insert_ledger_keeps(3) [OF resumed(6)] assms(3) tasks
        find_task_upd_task [of "\<lambda>r. r\<lparr>t_phase := Running\<rparr>" i ?d1 i]
      by (simp add: find_task_def keeps_id_def)
    moreover have "\<not> has_live_request d' i"
      using resumed(7) insert_ledger_keeps(4) [OF resumed(6)] by (simp add: has_live_request_def)
    ultimately show ?thesis by simp
  qed simp
qed

definition sample_answering :: db where
  "sample_answering =
     snd (claim_pending_response_if_accepting ''10000000'' ''q1'' ''allow'' None sample_waiting)"

lemma sample_answering_reachable: "store_reachable sample_answering"
  unfolding sample_answering_def sample_defs
  by (rule reach.intros store_step_restore.ordinary store_step.intros)+

theorem last_answer_resumes_task_witness:
  "\<exists>r'. find_task (snd (complete_pending_response clk ''10000000'' ''q1'' sample_answering))
     ''10000000'' = Some r' \<and> t_phase r' = Running"
proof -
  define d' where "d' = snd (complete_pending_response clk ''10000000'' ''q1'' sample_answering)"
  have "fst (complete_pending_response clk ''10000000'' ''q1'' sample_answering) = Inr True"
    by code_simp
  then have run: "complete_pending_response clk ''10000000'' ''q1'' sample_answering = (Inr True, d')"
    by (simp add: d'_def prod_eq_iff)
  have "find_task sample_answering ''10000000'' = Some (hd (db_tasks sample_answering))"
    "t_phase (hd (db_tasks sample_answering)) = WaitingInput" by code_simp+
  note resumes = last_answer_resumes_task [OF sample_answering_reachable run this]
  have "\<not> has_live_request d' ''10000000''"
    unfolding d'_def has_live_request_def by code_simp
  with resumes show ?thesis unfolding d'_def [symmetric] by simp
qed

section \<open>Stopping\<close>

text \<open>
  A stop or close request on a task that has not ended puts it into \<open>CANCELLING\<close>, records
  the request, fails its queued messages and drops its open requests; from then on the task
  accepts no message, publishes no request and no queue claim picks it. The caller is told to
  stop the runtime exactly when a worker owned the task.
\<close>

theorem stop_request_closes_task:
  assumes "store_reachable d" "find_task d i = Some r" "t_phase r \<noteq> Terminal"
    "request_stop_internal now i close_it True d = (Inr decision, d')"
  shows "(\<exists>r'. find_task d' i = Some r' \<and> t_phase r' = Cancelling \<and> t_stop_requested r' \<and>
      (close_it \<longrightarrow> t_close_requested r' \<and> t_closed_at r' \<noteq> None)) \<and>
    completion_blockers i d' = Inr (False, False) \<and>
    cd_needs_runtime_stop decision = owned_phase (t_phase r) \<and>
    \<not> is_ok (fst (insert_message now' mid i ''queue'' content d')) \<and>
    \<not> is_ok (fst (insert_pending_request now' rid i corr kind payload d'))"
proof -
  note inv = store.reach_inv [OF assms(1)]
  let ?g = "stopped_row Cancelling close_it True (now 0)"
  have d': "db_tasks d' = db_tasks (upd_task i ?g d) \<and>
      \<not> fst (completion_blockers_tx d' i) \<and> \<not> snd (completion_blockers_tx d' i) \<and>
      cd_needs_runtime_stop decision = owned_phase (t_phase r)"
    using assms(4)
  proof (cases rule: request_stop_cases)
    case finished
    with assms(2,3) show ?thesis by simp
  next
    case (again s)
    with assms(2) show ?thesis using settle_quiet by simp
  next
    case (stopping s reason)
    note keeps = insert_ledger_keeps(3-5) [OF stopping(4)]
    show ?thesis
      using settle_quiet [of i "''STOP_REQUESTED''" "upd_task i ?g d"] stopping(1,6) assms(2)
      by (simp add: keeps completion_blockers_tx_def)
  qed
  then have found: "find_task d' i = Some (?g r)"
    using assms(2) find_task_upd_task [of ?g i d i] by (simp add: find_task_def)
  have "store_inv d'"
    using request_stop_internal_keeps [OF inv, of now i close_it True] assms(4) by simp
  then have "row_inv (?g r)" by (blast intro: core_inv_row store_inv_core found)
  then have "query_guard d' i = Inr (Cancelling, t_outcome (?g r), word_of_int (t_owner_epoch (?g r)),
      t_close_requested (?g r), True)"
    using query_guard_ok [OF found] by (simp add: row_inv_def stopped_row_def)
  then have "\<not> is_ok (fst (insert_message now' mid i ''queue'' content d'))"
    "\<not> is_ok (fst (insert_pending_request now' rid i corr kind payload d'))"
    by (simp_all add: insert_message_def insert_pending_request_def run_tx_def)
  with d' found show ?thesis
    by (auto simp: stopped_row_def completion_blockers_def prod_eq_iff coalesce_def split: option.splits)
qed

theorem stop_request_closes_task_witness:
  "completion_blockers ''10000000'' (snd (request_stop_internal clk ''10000000'' True True
     sample_waiting)) = Inr (False, False)"
proof -
  define d' where "d' = snd (request_stop_internal clk ''10000000'' True True sample_waiting)"
  have "is_ok (fst (request_stop_internal clk ''10000000'' True True sample_waiting))" by code_simp
  then obtain dec where run: "request_stop_internal clk ''10000000'' True True sample_waiting
      = (Inr dec, d')"
    by (cases "fst (request_stop_internal clk ''10000000'' True True sample_waiting)")
      (simp_all add: d'_def prod_eq_iff)
  have "find_task sample_waiting ''10000000'' = Some (hd (db_tasks sample_waiting))"
    "t_phase (hd (db_tasks sample_waiting)) \<noteq> Terminal" by code_simp+
  from stop_request_closes_task [OF samples_reachable(4) this run] show ?thesis
    unfolding d'_def [symmetric] by blast
qed

end
