(* ===== verification/Store_Properties.thy ===== *)
theory Store_Properties
  imports Store_Samples
begin

text \<open>
  The properties of the agent store: what holds of every reachable database, and the contract
  of each group of methods.
\<close>

section \<open>Reachable databases\<close>

text \<open>
  Claim C1. Mutual exclusion on workspaces. In every database the store can reach, by any sequence
  of its methods with any arguments, two tasks that are not terminal and share a workspace
  path are the same task.
\<close>

theorem workspace_has_one_active_task:
  assumes "store_reachable d" "r \<in> set (db_tasks d)" "s \<in> set (db_tasks d)"
    "t_phase r \<noteq> Terminal" "t_phase s \<noteq> Terminal" "t_workspace_path r = t_workspace_path s"
  shows "r = s"
proof -
  note core = store_inv_core [OF store.reach_inv [OF assms(1)]]
  have "t_agent_id r = t_agent_id s"
    using core assms(2-6) unfolding core_inv_def workspace_exclusive_def by blast
  moreover have "find_task d (t_agent_id r) = Some r"
    using core_inv_distinct [OF core] assms(2) by (simp add: find_task_Some_iff)
  ultimately show ?thesis using task_unique [OF core _ assms(3)] by auto
qed

theorem workspace_has_one_active_task_witness:
  "hd (db_tasks sample_waiting) = last (db_tasks sample_waiting)"
  by (rule workspace_has_one_active_task [of sample_waiting]) (simp add: samples_reachable, code_simp+)

text \<open>
  A task that waits for input has something to wait for: in every reachable database a
  task in \<open>WAITING_INPUT\<close> has a pending request that is not answered yet, so the daemon can
  always leave the phase.
\<close>

theorem waiting_task_has_live_request:
  assumes "store_reachable d" "find_task d i = Some r" "t_phase r = WaitingInput"
  shows "\<exists>p \<in> set (db_requests d). p_agent_id p = i \<and> request_live (p_state p)"
  using store.reach_inv [OF assms(1)] assms(3) find_task_SomeD [OF assms(2)]
  by (auto simp: store_inv_def waiting_has_request_def has_live_request_def)

theorem waiting_task_has_live_request_witness:
  "\<exists>p \<in> set (db_requests sample_waiting). p_agent_id p = ''10000000'' \<and> request_live (p_state p)"
  by (rule waiting_task_has_live_request [OF samples_reachable(4),
        where r = "hd (db_tasks sample_waiting)"]) code_simp+

lemma fetch_listed_ok:
  assumes "core_inv d" "r \<in> set (db_tasks d)"
  shows "\<exists>rec. fetch_listed gone d (t_agent_id r) = Inr rec \<and> tr_agent_id rec = t_agent_id r \<and>
    tr_phase rec = t_phase r"
proof -
  have "find_task d (t_agent_id r) = Some r"
    using core_inv_distinct [OF assms(1)] assms(2) by (simp add: find_task_Some_iff)
  from query_task_ok(3) [OF assms(1) this] show ?thesis by (auto simp: fetch_listed_def)
qed

lemma collect_listed:
  assumes "core_inv d" "set rs \<subseteq> set (db_tasks d)"
  shows "\<exists>ts. collect_results (fetch_listed gone d) (map t_agent_id rs) = Inr ts \<and>
    map tr_agent_id ts = map t_agent_id rs \<and> map tr_phase ts = map t_phase rs"
  using assms(2)
proof (induction rs)
  case (Cons r rs)
  with fetch_listed_ok [OF assms(1), of r gone] show ?case by fastforce
qed simp

text \<open>
  Every stored task can be read back: in a reachable database \<open>get_task\<close> never fails, it
  finds exactly the stored agents, and the startup recovery inventory is exactly the tasks a
  crashed daemon may own together with the finished tasks that were not reaped.
\<close>

theorem reachable_store_reads:
  assumes "store_reachable d"
  shows "(\<exists>found. get_task i d = Inr found \<and> (found = None \<longleftrightarrow> i \<notin> known d) \<and>
      (\<forall>rec. found = Some rec \<longrightarrow> tr_agent_id rec = i)) \<and>
    (\<exists>ts. startup_recovery_tasks d = Inr ts \<and>
      set (map tr_agent_id ts) = {t_agent_id r |r. r \<in> set (db_tasks d) \<and>
        (owned_phase (t_phase r) \<or> t_phase r = Terminal \<and> t_reaped_at r = None)})"
proof (intro conjI)
  note core = store_inv_core [OF store.reach_inv [OF assms]]
  show "\<exists>found. get_task i d = Inr found \<and> (found = None \<longleftrightarrow> i \<notin> known d) \<and>
      (\<forall>rec. found = Some rec \<longrightarrow> tr_agent_id rec = i)"
  proof (cases "find_task d i")
    case None
    moreover from this have "i \<notin> known d" by (auto simp: known_def find_task_None_iff)
    ultimately show ?thesis by (auto simp: get_task_def query_task_def)
  next
    case (Some r)
    with query_task_ok(3) [OF core Some] find_task_SomeD [OF Some] show ?thesis
      by (auto simp: get_task_def known_def)
  qed
  let ?open = "\<lambda>r. owned_phase (t_phase r) \<or> (t_phase r = Terminal \<and> t_reaped_at r = None)"
  let ?rs = "sort_key t_created_at (filter ?open (db_tasks d))"
  from collect_listed [OF core, of ?rs "''startup recovery task disappeared''"]
  obtain ts where "startup_recovery_tasks d = Inr ts"
    and ids: "map tr_agent_id ts = map t_agent_id ?rs"
    by (auto simp: startup_recovery_tasks_def)
  moreover have "set (map tr_agent_id ts) = {t_agent_id r |r. r \<in> set (db_tasks d) \<and> ?open r}"
    unfolding ids by auto
  ultimately show "\<exists>ts. startup_recovery_tasks d = Inr ts \<and>
      set (map tr_agent_id ts) = {t_agent_id r |r. r \<in> set (db_tasks d) \<and> ?open r}" by blast
qed

theorem reachable_store_reads_witness:
  "\<exists>ts. startup_recovery_tasks sample_waiting = Inr ts \<and> ts \<noteq> []"
proof -
  have "''10000000'' \<in> {t_agent_id r |r. r \<in> set (db_tasks sample_waiting) \<and>
        (owned_phase (t_phase r) \<or> t_phase r = Terminal \<and> t_reaped_at r = None)}"
    by (rule CollectI, rule exI [of _ "hd (db_tasks sample_waiting)"]) code_simp
  moreover obtain ts where ts: "startup_recovery_tasks sample_waiting = Inr ts"
    "set (map tr_agent_id ts) = {t_agent_id r |r. r \<in> set (db_tasks sample_waiting) \<and>
        (owned_phase (t_phase r) \<or> t_phase r = Terminal \<and> t_reaped_at r = None)}"
    using reachable_store_reads [OF samples_reachable(4), of "''10000000''"] by blast
  ultimately have "''10000000'' \<in> set (map tr_agent_id ts)" by blast
  with ts(1) show ?thesis by auto
qed

section \<open>The lifecycle\<close>





text \<open>
  Claim C19. Claiming fences every earlier owner: \<open>claim_next\<close> hands out a task under an epoch larger
  than the one it had, and from then on no batch of worker writes for that task under another
  epoch (start, event, terminal transition, failed claim) changes the database.
\<close>

theorem claim_fences_earlier_owners:
  assumes "store_reachable d" "claim_next now owner gl pl d = (Inr (Some (rec, ep)), d')"
    "\<And>c. c \<in> set cs \<Longrightarrow> write_agent c = tr_agent_id rec \<and> write_epoch c \<noteq> ep"
  shows "(\<exists>r. find_task d (tr_agent_id rec) = Some r \<and> t_owner_epoch r < uint ep) \<and>
    fold (issue_write later) cs d' = d'"
proof
  note core = store_inv_core [OF store.reach_inv [OF assms(1)]]
  obtain r where r: "find_task d (tr_agent_id rec) = Some r" "uint ep = t_owner_epoch r + 1"
    and d': "db_tasks d' = db_tasks (upd_task (tr_agent_id rec) (claimed_row owner (now 0)) d)"
    by (rule claim_next_epoch [OF core assms(2)])
  from r show "\<exists>r. find_task d (tr_agent_id rec) = Some r \<and> t_owner_epoch r < uint ep" by simp
  have "t_owner_epoch s = uint ep" if "s \<in> set (db_tasks d')" "t_agent_id s = tr_agent_id rec" for s
    using that task_unique [OF core r(1)] r(2)
    by (auto simp: d' db_tasks_upd_task claimed_row_def split: if_splits)
  with assms(3) have "stale_write c d'" if "c \<in> set cs" for c
    using that unfolding stale_write_def by (metis word_uint_eq_iff)
  then show "fold (issue_write later) cs d' = d'" by (rule epoch.stale_run)
qed

theorem claim_fences_earlier_owners_witness:
  "fold (issue_write clk) [Abandon ''10000000'' 0 ''X'' ''y'', Finish ''10000000'' 7 sample_end]
     sample_claimed = sample_claimed"
proof -
  have "fst (claim_next clk ''worker'' 4 1 sample_queued) =
      Inr (map_option (\<lambda>r. (projr (convert_task_row r), 1))
        (find_task sample_claimed ''10000000''))" by code_simp
  moreover have "find_task sample_claimed ''10000000'' = Some (hd (db_tasks sample_claimed))"
    by code_simp
  moreover have "tr_agent_id (projr (convert_task_row (hd (db_tasks sample_claimed)))) = ''10000000''"
    by code_simp
  moreover have "write_agent c = ''10000000'' \<and> write_epoch c \<noteq> 1"
    if "c \<in> set [Abandon ''10000000'' 0 ''X'' ''y'', Finish ''10000000'' 7 sample_end]" for c
    using that by auto
  ultimately show ?thesis
    by (intro conjunct2 [OF claim_fences_earlier_owners [OF samples_reachable(1), of clk "''worker''" 4 1
        "projr (convert_task_row (hd (db_tasks sample_claimed)))" 1 sample_claimed]])
      (simp_all add: sample_claimed_def prod_eq_iff)
qed

end
