(* ===== verification/Store_Listing.thy ===== *)
theory Store_Listing
  imports Store_Queues Store_Properties
begin

text \<open>
  Listings: the rows of \<open>tasks\<close> are numbered in order of submission, so following the cursors
  of \<open>list_task_page\<close> visits every matching task exactly once. The theory closes with the
  schema check and the restore after a failed resume.
\<close>

section \<open>Row ids\<close>

definition rowids :: "db \<Rightarrow> i64 list" where
  "rowids d = map t_rowid (db_tasks d)"

definition numbered :: "db \<Rightarrow> bool" where
  "numbered d \<longleftrightarrow> rowids d = map (\<lambda>k. int k + 1) [0..<length (db_tasks d)]"

lemma rowid_rows [simp]:
  "t_rowid (terminal_row t out tu r) = t_rowid r" "t_rowid (claimed_row ow t r) = t_rowid r"
  "t_rowid (started_row ra idt ses tn t r) = t_rowid r" "t_rowid (logged_row sq tn t r) = t_rowid r"
  "t_rowid (stopped_row np cl intent t r) = t_rowid r" "t_rowid (requeued_row r) = t_rowid r"
  "t_rowid (reaped_row t r) = t_rowid r" "t_rowid (restored_row rec sq r) = t_rowid r"
  by (simp_all add: row_updates set_identity_def)

lemma update_tasks_rowids:
  "update_tasks sel f d = Inr (n, d') \<Longrightarrow> (\<And>r. t_rowid (f r) = t_rowid r) \<Longrightarrow> rowids d' = rowids d"
  by (auto simp: update_tasks_def Let_def rowids_def split: if_splits)

lemma insert_ledger_rowids: "insert_ledger t i ep fp q out reason d = Inr d' \<Longrightarrow> rowids d' = rowids d"
  by (auto simp: rowids_def dest: insert_ledger_keeps(3))

lemma settle_rowids [simp]: "rowids (settle_terminal_commands i reason d) = rowids d"
  by (simp add: rowids_def)

lemma apply_terminal_rowids:
  "apply_terminal now i ep fp cl st tu d = Inr (out, d') \<Longrightarrow> rowids d' = rowids d"
  by (auto simp: apply_terminal_def Let_def result_simps split: if_splits
      dest!: insert_ledger_rowids update_tasks_rowids)

lemma insert_event_rowids: "insert_event row d = Inr d' \<Longrightarrow> rowids d' = rowids d"
  by (auto simp: rowids_def dest: insert_event_Inr)

lemma insert_result_rowids: "insert_result_row row d = Inr d' \<Longrightarrow> rowids d' = rowids d"
  by (auto simp: rowids_def insert_result_row_def split: if_splits)

lemma rowids_frame [simp]:
  "rowids (delete_result i d) = rowids d" "rowids (d\<lparr>db_messages := ms\<rparr>) = rowids d"
  "rowids (d\<lparr>db_requests := ps\<rparr>) = rowids d"
  by (simp_all add: rowids_def delete_result_def)

lemma run_tx_rowids:
  assumes "\<And>a d'. body d = Inr (a, d') \<Longrightarrow> rowids d' = rowids d"
  shows "rowids (snd (run_tx body d)) = rowids d"
  by (rule run_tx_keeps [where P = "\<lambda>x. rowids x = rowids d"]) (use assms in auto)

lemmas rowids_frames = insert_ledger_rowids update_tasks_rowids apply_terminal_rowids
  insert_event_rowids insert_result_rowids

lemma store_step_rowids:
  assumes "store_step_restore d d'"
  shows "rowids d' = rowids d \<or> rowids d' = rowids d @ [next_rowid (db_tasks d)]"
  using assms
proof cases
  case (restore digest now original result)
  have "rowids d' = rowids d"
    unfolding restore(1) restore_terminal_after_resume_failure_def
    by (rule run_tx_rowids) (auto simp: result_simps split: option.splits dest!: rowids_frames)
  then show ?thesis ..
next
  case ordinary
  then show ?thesis
  proof cases
    case (step_enqueue now t)
    show ?thesis
      unfolding step_enqueue enqueue_task_authoritative_def
      by (rule run_tx_keeps [where P = "\<lambda>x. rowids x = rowids d \<or> rowids x = rowids d @ [next_rowid (db_tasks d)]"])
        (auto simp: result_simps Let_def rowids_def queued_row_def split: if_splits option.splits
          dest!: insert_ledger_rowids)
  next
    case step_reserve
    show ?thesis
      unfolding step_reserve reserve_task_id_def
      by (intro disjI1 run_tx_rowids) (auto simp: Let_def rowids_def split: if_splits)
  qed (rule disjI1, auto simp: thin_wrappers method_defs Let_def result_simps
      update_messages_def update_requests_def split: if_splits option.splits prod.splits
      dest!: rowids_frames intro!: run_tx_rowids)+
qed

lemma next_rowid_numbered:
  assumes "numbered d"
  shows "next_rowid (db_tasks d) = int (length (db_tasks d)) + 1"
proof -
  have "foldr (\<lambda>r m. max (t_rowid r) m) (db_tasks d) 0 = foldr max (rowids d) 0"
    by (simp add: rowids_def foldr_map comp_def)
  also have "\<dots> = foldr max (map (\<lambda>k. int k + 1) [0..<length (db_tasks d)]) 0"
    using assms by (simp only: numbered_def)
  also have "foldr max (map (\<lambda>k. int k + 1) [0..<n]) m = max (int n) m" if "0 \<le> m" for n m
    using that by (induction n arbitrary: m) auto
  finally show ?thesis by (simp add: next_rowid_def)
qed

lemma reachable_numbered: "store_reachable d \<Longrightarrow> numbered d"
proof (induction rule: reach.induct)
  case start
  show ?case by (simp add: numbered_def rowids_def empty_db_def)
next
  case (next_state s t)
  have len: "length (rowids x) = length (db_tasks x)" for x by (simp add: rowids_def)
  from store_step_rowids [OF next_state(2)] show ?case
  proof
    assume same: "rowids t = rowids s"
    then have "length (db_tasks t) = length (db_tasks s)" using len [of s] len [of t] by simp
    with same next_state.IH show ?thesis by (simp add: numbered_def)
  next
    assume new: "rowids t = rowids s @ [next_rowid (db_tasks s)]"
    then have "length (db_tasks t) = Suc (length (db_tasks s))" using len [of s] len [of t] by simp
    with new next_state.IH next_rowid_numbered [OF next_state.IH] show ?thesis
      by (simp add: numbered_def)
  qed
qed

section \<open>Pages\<close>

definition page_match :: "string option \<Rightarrow> task_page_filter \<Rightarrow> task_row \<Rightarrow> bool" where
  "page_match repository flt r \<longleftrightarrow>
     (repository = None \<or> repository = Some (t_repository r)) \<and>
     (pf_phase flt = None \<or> pf_phase flt = Some (t_phase r)) \<and>
     (pf_outcome flt = None \<or> pf_outcome flt = t_outcome r)"

definition newest_first :: "string option \<Rightarrow> task_page_filter \<Rightarrow> db \<Rightarrow> task_row list" where
  "newest_first repository flt d = rev (filter (page_match repository flt) (db_tasks d))"

text \<open>A client that follows the cursors, with fuel for the number of pages.\<close>

fun walk_pages :: "nat \<Rightarrow> string option \<Rightarrow> task_page_filter \<Rightarrow> u64 option \<Rightarrow> u64 \<Rightarrow> db \<Rightarrow>
  task_record list option store_result" where
  "walk_pages 0 repository flt cursor limit d = Inr None"
| "walk_pages (Suc fuel) repository flt cursor limit d =
     and_then (list_task_page repository flt cursor limit d) (\<lambda>(ts, next_cursor).
     (case next_cursor of
        None \<Rightarrow> Inr (Some ts)
      | Some c \<Rightarrow>
          and_then (walk_pages fuel repository flt (Some c) limit d) (\<lambda>rest.
          Inr (map_option (\<lambda>r. ts @ r) rest))))"

lemma descending_drop:
  assumes "sorted_wrt (\<lambda>a b. t_rowid b < t_rowid a) ys" "0 < n" "n \<le> length ys"
  shows "filter (\<lambda>r. t_rowid r < t_rowid (last (take n ys))) ys = drop n ys"
proof -
  have split: "ys = take n ys @ drop n ys" by simp
  have ne: "take n ys \<noteq> []" using assms(2,3) by auto
  have desc: "sorted_wrt (\<lambda>a b. t_rowid b < t_rowid a) (take n ys @ drop n ys)"
    using assms(1) by simp
  have "sorted_wrt (\<lambda>a b. t_rowid b < t_rowid a) (butlast (take n ys) @ [last (take n ys)])"
    using desc ne by (simp add: sorted_wrt_append del: append_take_drop_id)
  then have "t_rowid (last (take n ys)) < t_rowid x" if "x \<in> set (butlast (take n ys))" for x
    using that by (simp add: sorted_wrt_append)
  moreover have "set (take n ys) = insert (last (take n ys)) (set (butlast (take n ys)))"
    using ne by (metis append_butlast_last_id list.simps(15) rotate1.simps(2) set_rotate1)
  ultimately have "filter (\<lambda>r. t_rowid r < t_rowid (last (take n ys))) (take n ys) = []"
    by (auto simp: filter_empty_conv dest: less_asym)
  moreover have "filter (\<lambda>r. t_rowid r < t_rowid (last (take n ys))) (drop n ys) = drop n ys"
    using desc last_in_set [OF ne]
    by (auto simp: sorted_wrt_append filter_id_conv simp del: append_take_drop_id)
  ultimately show ?thesis by (subst split) (simp only: filter_append append_Nil)
qed

lemma newest_first_descending:
  assumes "numbered d"
  shows "sorted_wrt (\<lambda>a b. t_rowid b < t_rowid a) (newest_first repository flt d)"
proof -
  have "sorted_wrt (<) (rowids d)"
    using assms by (simp add: numbered_def sorted_wrt_map sorted_wrt_iff_nth_less)
  then have "sorted_wrt (\<lambda>a b. t_rowid a < t_rowid b) (db_tasks d)"
    by (simp add: rowids_def sorted_wrt_map)
  then show ?thesis by (simp add: newest_first_def sorted_wrt_rev sorted_wrt_filter)
qed

definition before :: "i64 option \<Rightarrow> task_row list \<Rightarrow> task_row list" where
  "before c rows = filter (\<lambda>r. case c of None \<Rightarrow> True | Some v \<Rightarrow> t_rowid r < v) rows"

lemma numbered_range:
  assumes "numbered d" "r \<in> set (db_tasks d)"
  shows "1 \<le> t_rowid r \<and> t_rowid r \<le> int (length (db_tasks d))"
proof -
  have "t_rowid r \<in> set (rowids d)" using assms(2) by (simp add: rowids_def)
  with assms(1) show ?thesis by (auto simp: numbered_def)
qed

lemma page_contents:
  assumes core: "core_inv d" and num: "numbered d" and size: "int (length (db_tasks d)) \<le> i64_max"
    and limit: "limit \<noteq> 0" "uint limit < i64_max" and repo: "repository \<noteq> None"
    and c: "\<And>v. c = Some v \<Longrightarrow> 0 \<le> v \<and> v \<le> i64_max"
    and M: "M = before c (newest_first repository flt d)"
  shows "\<exists>ts. list_task_page repository flt (map_option word_of_int c) limit d =
      Inr (ts, if unat limit < length M then Some (word_of_int (t_rowid (last (take (unat limit) M))))
               else None) \<and>
    map tr_agent_id ts = map t_agent_id (take (unat limit) M)"
proof -
  let ?n = "unat limit"
  have rows: "rev (filter (\<lambda>r.
      (repository = None \<or> repository = Some (t_repository r)) \<and>
      (pf_phase flt = None \<or> pf_phase flt = Some (t_phase r)) \<and>
      (pf_outcome flt = None \<or> pf_outcome flt = t_outcome r) \<and>
      (case c of None \<Rightarrow> True | Some c \<Rightarrow> t_rowid r < c)) (db_tasks d)) = M"
    unfolding M before_def newest_first_def rev_filter filter_filter
    by (rule filter_cong) (auto simp: page_match_def)
  have column: "usize_to_i64 (saturating_add limit 1) = Inr (int ?n + 1)"
    using limit(2) by (simp add: usize_to_i64_def uint_saturating_add i64_max_def)
  have cursor: "transpose_opt u64_to_i64 (map_option word_of_int c) = Inr c"
    using c by (cases c) auto
  have n: "nat (int ?n + 1) = Suc ?n" by (metis nat_int of_nat_Suc add.commute)
  have sub: "set (take ?n M) \<subseteq> set (db_tasks d)"
    unfolding M before_def newest_first_def by (auto dest!: in_set_takeD)
  from collect_listed [OF core sub, of "''listed task disappeared''"] obtain ts where
    ts: "collect_results (fetch_listed ''listed task disappeared'' d) (map t_agent_id (take ?n M)) = Inr ts"
      "map tr_agent_id ts = map t_agent_id (take ?n M)" by blast
  have pos: "0 < ?n" using limit(1) by (simp add: unat_gt_0)
  have last: "i64_to_u64 (t_rowid (last (take ?n M))) = Inr (word_of_int (t_rowid (last (take ?n M))))"
    if "take ?n M \<noteq> []"
    using numbered_range [OF num, of "last (take ?n M)"] sub last_in_set [OF that]
    by (auto simp: i64_to_u64_def)
  have more: "(?n < length (take (Suc ?n) M) \<and> take ?n M \<noteq> []) \<longleftrightarrow> ?n < length M"
    using pos by auto
  show ?thesis
    unfolding list_task_page_def cursor column and_then_simps rows Let_def n
    using repo limit(1) ts last more pos by (auto simp: validate_scope_def min_def)
qed

lemma walk_pages_all:
  assumes core: "core_inv d" and num: "numbered d" and size: "int (length (db_tasks d)) \<le> i64_max"
    and limit: "limit \<noteq> 0" "uint limit < i64_max" and repo: "repository \<noteq> None"
  shows "(\<And>v. c = Some v \<Longrightarrow> 0 \<le> v \<and> v \<le> i64_max) \<Longrightarrow>
    length (before c (newest_first repository flt d)) < fuel \<Longrightarrow>
    \<exists>ts. walk_pages fuel repository flt (map_option word_of_int c) limit d = Inr (Some ts) \<and>
      map tr_agent_id ts = map t_agent_id (before c (newest_first repository flt d))"
proof (induction fuel arbitrary: c)
  case 0
  then show ?case by simp
next
  case (Suc fuel)
  let ?n = "unat limit" and ?N = "newest_first repository flt d"
  let ?M = "before c ?N"
  obtain ts where page: "list_task_page repository flt (map_option word_of_int c) limit d =
      Inr (ts, if ?n < length ?M then Some (word_of_int (t_rowid (last (take ?n ?M)))) else None)"
    and ts: "map tr_agent_id ts = map t_agent_id (take ?n ?M)"
    using page_contents [OF core num size limit repo Suc.prems(1) refl] by blast
  show ?case
  proof (cases "?n < length ?M")
    case False
    with page ts show ?thesis by simp
  next
    case True
    let ?c = "t_rowid (last (take ?n ?M))"
    have pos: "0 < ?n" using limit(1) by (simp add: unat_gt_0)
    have ne: "take ?n ?M \<noteq> []" using True pos by auto
    have desc: "sorted_wrt (\<lambda>a b. t_rowid b < t_rowid a) ?M"
      unfolding before_def by (rule sorted_wrt_filter) (rule newest_first_descending [OF num])
    have inM: "last (take ?n ?M) \<in> set ?M" using last_in_set [OF ne] by (rule in_set_takeD)
    then have "last (take ?n ?M) \<in> set (db_tasks d)"
      by (simp add: before_def newest_first_def)
    from numbered_range [OF num this] size have c: "0 \<le> ?c" "?c \<le> i64_max" by auto
    have "before (Some ?c) ?N = filter (\<lambda>r. t_rowid r < ?c) ?M"
      unfolding before_def filter_filter
      by (rule filter_cong) (use inM in \<open>auto simp: before_def split: option.splits\<close>)
    also have "\<dots> = drop ?n ?M" by (rule descending_drop [OF desc pos]) (use True in simp)
    finally have rest: "before (Some ?c) ?N = drop ?n ?M" .
    have "length (before (Some ?c) ?N) < fuel" using Suc.prems(2) True pos by (simp add: rest)
    from Suc.IH [of "Some ?c", OF _ this] c obtain us where
      us: "walk_pages fuel repository flt (Some (word_of_int ?c)) limit d = Inr (Some us)"
        "map tr_agent_id us = map t_agent_id (drop ?n ?M)" unfolding rest by auto
    have "walk_pages (Suc fuel) repository flt (map_option word_of_int c) limit d = Inr (Some (ts @ us))"
      using True by (simp add: page us(1))
    moreover have "map tr_agent_id (ts @ us) = map t_agent_id ?M"
      using ts us(2) by (metis append_take_drop_id map_append)
    ultimately show ?thesis by blast
  qed
qed

text \<open>
  Paging is complete and without repetition: a client that starts without a cursor, asks for
  pages of any positive size and follows the returned cursors ends after at most one page per
  task, and has then seen exactly the matching tasks of the repository, each once, the newest
  submission first.
\<close>

theorem pages_visit_every_task_once:
  assumes "store_reachable d" "int (length (db_tasks d)) \<le> i64_max" "limit \<noteq> 0" "uint limit < i64_max"
  shows "\<exists>ts. walk_pages (Suc (length (db_tasks d))) (Some repo) flt None limit d = Inr (Some ts) \<and>
    map tr_agent_id ts = map t_agent_id (rev (filter (page_match (Some repo) flt) (db_tasks d))) \<and>
    distinct (map tr_agent_id ts)"
proof -
  note core = store_inv_core [OF store.reach_inv [OF assms(1)]]
  have "length (before None (newest_first (Some repo) flt d)) < Suc (length (db_tasks d))"
    by (simp add: before_def newest_first_def le_imp_less_Suc)
  from walk_pages_all [OF core reachable_numbered [OF assms(1)] assms(2-4) _ _ this] obtain ts where
    ts: "walk_pages (Suc (length (db_tasks d))) (Some repo) flt None limit d = Inr (Some ts)"
      "map tr_agent_id ts = map t_agent_id (newest_first (Some repo) flt d)"
    by (auto simp: before_def)
  have "distinct (map tr_agent_id ts)"
    using core_inv_distinct [OF core]
    by (simp add: ts(2) newest_first_def rev_map [symmetric] distinct_map_filter)
  with ts show ?thesis by (auto simp: newest_first_def)
qed

definition sample_two :: db where
  "sample_two = snd (enqueue_task_authoritative clk
     (sample_task\<lparr>nt_agent_id := ''10000001'', nt_workspace_path := ''/other''\<rparr>) sample_queued)"

lemma sample_two_reachable: "store_reachable sample_two"
  unfolding sample_two_def sample_defs
  by (rule reach.intros store_step_restore.ordinary store_step.intros)+

theorem pages_visit_every_task_once_witness:
  "\<exists>ts. walk_pages 3 (Some ''/repo'') \<lparr>pf_phase = None, pf_outcome = None\<rparr> None 1 sample_two =
     Inr (Some ts) \<and> map tr_agent_id ts = [''10000001'', ''10000000'']"
proof -
  have n: "length (db_tasks sample_two) = 2" by code_simp
  have ids: "map t_agent_id (rev (filter (page_match (Some ''/repo'')
      \<lparr>pf_phase = None, pf_outcome = None\<rparr>) (db_tasks sample_two))) = [''10000001'', ''10000000'']"
    by code_simp
  from pages_visit_every_task_once [OF sample_two_reachable, of 1 "''/repo''"
      "\<lparr>pf_phase = None, pf_outcome = None\<rparr>"] show ?thesis
    unfolding n ids by (auto simp: i64_max_def numeral_3_eq_3)
qed

section \<open>Submission\<close>

lemma find_task_append:
  "find_task (d\<lparr>db_tasks := db_tasks d @ [r]\<rparr>) i =
     (case find_task d i of None \<Rightarrow> if t_agent_id r = i then Some r else None | Some s \<Rightarrow> Some s)"
proof -
  have "find P (xs @ [r]) = (case find P xs of None \<Rightarrow> if P r then Some r else None | Some s \<Rightarrow> Some s)"
    for P xs by (induction xs) auto
  then show ?thesis by (simp add: find_task_def)
qed

lemma row_ok_queued: "row_ok (queued_row t rowid now)"
  using row_inv_queued by (auto simp: row_inv_def)

lemma enqueue_run:
  assumes "validate_task t = Inr ()" "find_task d (nt_agent_id t) = None"
    "busy_agent d (\<lambda>r. t_workspace_path r = nt_workspace_path t) = None"
  shows "\<exists>rec row. enqueue_task_authoritative now t d = (Inr (rec, Created),
      d\<lparr>db_tasks := db_tasks d @ [queued_row t (next_rowid (db_tasks d)) (now 0)],
        db_ledger := db_ledger d @ [row]\<rparr>) \<and>
    convert_task_row (queued_row t (next_rowid (db_tasks d)) (now 0)) = Inr rec"
proof -
  let ?new = "queued_row t (next_rowid (db_tasks d)) (now 0)"
  obtain rec where rec: "convert_task_row ?new = Inr rec"
    by (rule convert_task_row_ok [OF row_ok_queued])
  have here: "find_task (d\<lparr>db_tasks := db_tasks d @ [?new]\<rparr>) (nt_agent_id t) = Some ?new"
    using assms(2) by (simp add: find_task_append queued_row_def)
  then have "find_task (d\<lparr>db_tasks := db_tasks d @ [?new], db_ledger := l\<rparr>) (nt_agent_id t) = Some ?new"
    for l by (simp add: find_task_def)
  with assms here rec show ?thesis
    apply (intro exI [of _ rec] exI [of _ "\<lparr>l_agent_id = nt_agent_id t, l_owner_epoch = 0,
        l_from_phase = None, l_to_phase = Queued, l_outcome = None, l_reason_code = None,
        l_recorded_at = now 1\<rparr>"])
    by (simp add: enqueue_task_authoritative_def run_tx_def query_task_def Let_def insert_ledger_def
        u64_to_i64_def i64_max_def references_def)
qed

text \<open>
  Submission is all or nothing and admits exactly the right tasks: a task is accepted if and
  only if its fields are valid, its agent id is new and no task that has not ended uses its
  workspace; an accepted task is appended in phase \<open>QUEUED\<close> and can be read back; a refused one
  changes nothing.
\<close>

theorem submission_admits_exactly:
  assumes "store_reachable d" "enqueue_task_authoritative now t d = (res, d')"
  shows "(is_ok res \<longleftrightarrow> validate_task t = Inr () \<and> nt_agent_id t \<notin> known d \<and>
      (\<forall>r \<in> set (db_tasks d). t_workspace_path r = nt_workspace_path t \<longrightarrow> t_phase r = Terminal)) \<and>
    (case res of
       Inl e \<Rightarrow> d' = d
     | Inr (rec, disposition) \<Rightarrow> disposition = Created \<and> get_task (nt_agent_id t) d' = Inr (Some rec) \<and>
         tr_phase rec = Queued \<and>
         db_tasks d' = db_tasks d @ [queued_row t (next_rowid (db_tasks d)) (now 0)])"
proof -
  note core = store_inv_core [OF store.reach_inv [OF assms(1)]]
  let ?free = "busy_agent d (\<lambda>r. t_workspace_path r = nt_workspace_path t) = None"
  have free: "?free \<longleftrightarrow>
      (\<forall>r \<in> set (db_tasks d). t_workspace_path r = nt_workspace_path t \<longrightarrow> t_phase r = Terminal)"
    by (auto simp: busy_agent_None_iff)
  have new: "nt_agent_id t \<notin> known d \<longleftrightarrow> find_task d (nt_agent_id t) = None"
    by (auto simp: known_def find_task_None_iff image_iff)
  show ?thesis
  proof (cases "validate_task t = Inr () \<and> find_task d (nt_agent_id t) = None \<and> ?free")
    case True
    let ?new = "queued_row t (next_rowid (db_tasks d)) (now 0)"
    from True obtain rec row where run: "enqueue_task_authoritative now t d = (Inr (rec, Created),
        d\<lparr>db_tasks := db_tasks d @ [?new], db_ledger := db_ledger d @ [row]\<rparr>)"
      and rec: "convert_task_row ?new = Inr rec" using enqueue_run by metis
    have "find_task d' (nt_agent_id t) = Some ?new"
      using True run assms(2) find_task_append [of d ?new "nt_agent_id t"]
      by (auto simp: find_task_def queued_row_def)
    moreover obtain rec' where "convert_task_row ?new = Inr rec'" "tr_phase rec' = t_phase ?new"
      by (rule convert_task_row_ok [OF row_ok_queued])
    with rec have "tr_phase rec = Queued" by (simp add: queued_row_def)
    ultimately show ?thesis
      using True run assms(2) rec free new by (auto simp: get_task_def query_task_def)
  next
    case False
    have "\<not> is_ok (fst (enqueue_task_authoritative now t d)) \<and> snd (enqueue_task_authoritative now t d) = d"
    proof (cases "validate_task t")
      case (Inl e)
      then show ?thesis by (simp add: enqueue_task_authoritative_def run_tx_def)
    next
      case (Inr u)
      show ?thesis
      proof (cases "find_task d (nt_agent_id t)")
        case None
        with False Inr show ?thesis
          by (auto simp: enqueue_task_authoritative_def run_tx_def query_task_def)
      next
        case (Some r)
        with query_task_ok(3) [OF core Some] Inr show ?thesis
          by (auto simp: enqueue_task_authoritative_def run_tx_def)
      qed
    qed
    with False assms(2) free new show ?thesis by (cases res) auto
  qed
qed

theorem submission_admits_exactly_witness:
  "\<not> is_ok (fst (enqueue_task_authoritative clk (sample_task\<lparr>nt_agent_id := ''10000002''\<rparr>)
     sample_waiting))"
proof -
  let ?t = "sample_task\<lparr>nt_agent_id := ''10000002''\<rparr>"
  have "\<not> (\<forall>r \<in> set (db_tasks sample_waiting). t_workspace_path r = nt_workspace_path ?t \<longrightarrow>
      t_phase r = Terminal)" by code_simp
  with submission_admits_exactly [OF samples_reachable(4) prod.collapse [symmetric], of clk ?t]
  show ?thesis by blast
qed

section \<open>Opening a store\<close>

text \<open>
  Opening a database file is safe and repeatable: it either refuses the file or ends with
  the current version and exactly the expected tables; a file with tables is never altered, only
  an empty one gets the schema; and opening the result again changes nothing.
\<close>

theorem opening_is_safe_and_repeatable:
  "case initialize_schema f of
     Inl e \<Rightarrow> e = LegacySchemaUnsupported
   | Inr f' \<Rightarrow> f_version f' = schema_version \<and> schema_is_current (f_tables f') \<and>
       initialize_schema f' = Inr f' \<and>
       (f' = f \<or> f_version f = 0 \<and> list_all internal_table (f_tables f) \<and> f_db f' = empty_db)"
proof -
  let ?own = "filter (\<lambda>n. \<not> internal_table n)"
  have keep: "?own expected_tables = expected_tables" by code_simp
  have sorted: "sort expected_tables = expected_tables" by code_simp
  have ne: "expected_tables \<noteq> []" by (simp add: expected_tables_def)
  show ?thesis
  proof (cases "?own (f_tables f) = []")
    case True
    then have new: "?own (f_tables f @ expected_tables) = expected_tables" by (simp add: keep)
    from True have internal: "list_all internal_table (f_tables f)"
      by (simp add: list_all_iff filter_empty_conv)
    show ?thesis
      using internal
      by (simp add: initialize_schema_def schema_is_current_def True new sorted ne del: filter_append)
  next
    case False
    then show ?thesis by (simp add: initialize_schema_def)
  qed
qed

section \<open>The restore after a failed resume\<close>

text \<open>
  Claim C38. A failed resume is not undone completely: when a finished task is requeued with a message
  and the attempt is then rolled back with \<open>restore_terminal_after_resume_failure\<close>, the task is
  terminal again but the message stays queued on it and \<open>claim_next_message\<close> will not deliver
  it, the completion time stays erased, and the ledger's last row still says \<open>QUEUED\<close>.
\<close>

theorem failed_resume_leaves_traces:
  assumes "store_reachable d"
    "requeue_task_for_resume_with_message now i mid content d = (Inr (), d1)"
    "restore_terminal_after_resume_failure digest now' original result d1 = (Inr (), d2)"
    "tr_agent_id original = i"
  shows "(\<exists>r. find_task d2 i = Some r \<and> t_phase r = Terminal \<and> t_completed_at r = None) \<and>
    completion_blockers i d2 = Inr (fst (completion_blockers_tx d2 i), True) \<and>
    (\<exists>m \<in> set (db_messages d2). m_message_id m = mid \<and> m_agent_id m = i \<and> m_state m = MsgQueued) \<and>
    fst (claim_next_message i d2) = Inr None \<and>
    l_agent_id (last (db_ledger d2)) = i \<and> l_to_phase (last (db_ledger d2)) = Queued"
proof -
  note inv = store.reach_inv [OF assms(1)]
  have inv1: "store_inv d1"
    using requeue_keeps [OF inv, of now i mid content] assms(2) by simp
  have inv2: "store_inv d2"
    using restore_keeps [OF inv1, of digest now' original result] assms(3) by simp
  have "core_inv (delete_result i d)" by (rule store_inv_core [OF store_inv_delete_result [OF inv]])
  from requeue_tx_Inr [OF assms(2) this] obtain r e1 e2 where
    r: "find_task d i = Some r" and e1: "e1 = upd_task i requeued_row (delete_result i d)"
    and led: "insert_ledger (now 0) i (word_of_int (t_owner_epoch r)) (Some Terminal) Queued None
       (Some ''RESUME_REQUESTED'') e1 = Inr e2"
    and d1: "d1 = e2\<lparr>db_messages := db_messages e2 @ [queued_message mid i ''queue'' content (now 1)]\<rparr>"
    by metis
  have tasks1: "db_tasks d1 = db_tasks (upd_task i requeued_row d)"
    and msgs1: "db_messages d1 = db_messages d @ [queued_message mid i ''queue'' content (now 1)]"
    using insert_ledger_keeps(3,5) [OF led] by (simp_all add: d1 e1 upd_task_def)
  obtain row where led1: "db_ledger d1 = db_ledger d @ [row]" "l_agent_id row = i"
    "l_to_phase row = Queued"
    using insert_ledger_Inr(1) [OF led] by (simp add: d1 e1 delete_result_def)
  have r1: "find_task d1 i = Some (requeued_row r)"
    using tasks1 r find_task_upd_task [of requeued_row i d i] by (simp add: find_task_def)
  let ?g = "restored_row original (uint (tr_last_event_seq original))"
  have d2: "db_tasks d2 = db_tasks (upd_task i ?g d1)" "db_messages d2 = db_messages d1"
    "db_ledger d2 = db_ledger d1"
    using restore_tx_Inr [OF store_inv_core [OF inv1] assms(3)] assms(4)
    by (auto split: option.splits simp: delete_result_def dest!: insert_result_row_Inr)
  have r2: "find_task d2 i = Some (?g (requeued_row r))"
    using d2(1) r1 find_task_upd_task [of ?g i d1 i] by (simp add: find_task_def)
  have "row_inv (?g (requeued_row r))" by (rule core_inv_row [OF store_inv_core [OF inv2] r2])
  then have "query_guard d2 i = Inr (Terminal, t_outcome (?g (requeued_row r)),
      word_of_int (t_owner_epoch (?g (requeued_row r))), t_close_requested (?g (requeued_row r)),
      t_stop_requested (?g (requeued_row r)))"
    using query_guard_ok [OF r2] by (simp add: row_inv_def restored_row_def)
  then have "fst (claim_next_message i d2) = Inr None"
    by (simp add: claim_next_message_def run_tx_def)
  moreover have "t_completed_at (?g (requeued_row r)) = None"
    by (simp add: restored_row_def requeued_row_def set_identity_def)
  moreover have "t_phase (?g (requeued_row r)) = Terminal" by (simp add: restored_row_def)
  ultimately show ?thesis
    using r2 d2 msgs1 led1
    by (auto simp: completion_blockers_def completion_blockers_tx_def queued_message_def)
qed

definition sample_original :: task_record where
  "sample_original = projr (convert_task_row (hd (db_tasks sample_failed)))"

theorem failed_resume_leaves_traces_witness:
  "\<exists>m \<in> set (db_messages (snd (restore_terminal_after_resume_failure sample_digest clk
      sample_original None (snd (requeue_task_for_resume_with_message clk ''10000000'' ''m9'' ''go''
        sample_failed))))). m_message_id m = ''m9'' \<and> m_state m = MsgQueued"
proof -
  define d1 where "d1 = snd (requeue_task_for_resume_with_message clk ''10000000'' ''m9'' ''go'' sample_failed)"
  define d2 where "d2 = snd (restore_terminal_after_resume_failure sample_digest clk sample_original None d1)"
  have "fst (requeue_task_for_resume_with_message clk ''10000000'' ''m9'' ''go'' sample_failed) = Inr ()"
    and "fst (restore_terminal_after_resume_failure sample_digest clk sample_original None d1) = Inr ()"
    unfolding d1_def by code_simp+
  then have "requeue_task_for_resume_with_message clk ''10000000'' ''m9'' ''go'' sample_failed = (Inr (), d1)"
    and "restore_terminal_after_resume_failure sample_digest clk sample_original None d1 = (Inr (), d2)"
    by (simp_all add: d1_def d2_def prod_eq_iff)
  moreover have "tr_agent_id sample_original = ''10000000''" by code_simp
  ultimately show ?thesis
    unfolding d1_def [symmetric] d2_def [symmetric]
    using failed_resume_leaves_traces [OF samples_reachable(7)] by blast
qed

end
