(* ===== verification/Policy_Path.thy ===== *)
theory Policy_Path
  imports Rust_Base
begin

text \<open>
  Paths as the permission policy inspects them
  (\<open>crates/zcode-agent-preparation/src/policy.rs\<close>): \<open>std::path::Path\<close> on a Unix system and the
  classification of credential and metadata paths.

  A path is its text. \<open>components\<close> is \<open>Path::components\<close>: repeated separators and \<open>.\<close> (except at
  the start) are dropped, \<open>..\<close> is kept; paths are compared by their components.
  \<open>to_string_lossy\<close> only replaces bytes that are not UTF-8, and the names it is compared with
  are ASCII, so the classification is the same on the bytes.
\<close>

datatype component = RootDir | CurDir | ParentDir | Normal string

definition component_of :: "string \<Rightarrow> component" where
  "component_of s = (if s = ''..'' then ParentDir else if s = ''.'' then CurDir else Normal s)"

definition is_absolute :: "string \<Rightarrow> bool" where
  "is_absolute p \<longleftrightarrow> prefix ''/'' p"

text \<open>A leading \<open>.\<close> of a relative path is kept as \<open>CurDir\<close>, every other one is dropped.\<close>

definition components :: "string \<Rightarrow> component list" where
  "components p =
     (let body = map component_of (filter (\<lambda>s. s \<noteq> [] \<and> s \<noteq> ''.'') (split_at CHR ''/'' p))
      in if is_absolute p then RootDir # body
         else if hd (split_at CHR ''/'' p) = ''.'' then CurDir # body
         else body)"

fun component_str :: "component \<Rightarrow> string" where
  "component_str RootDir = ''/''"
| "component_str CurDir = ''.''"
| "component_str ParentDir = ''..''"
| "component_str (Normal s) = s"

fun join_names :: "string list \<Rightarrow> string" where
  "join_names [] = []"
| "join_names [s] = s"
| "join_names (s # t # ts) = s @ ''/'' @ join_names (t # ts)"

text \<open>The text of a component list, for the paths that are cut out of others.\<close>

fun path_text :: "component list \<Rightarrow> string" where
  "path_text (RootDir # cs) = ''/'' @ join_names (map component_str cs)"
| "path_text cs = join_names (map component_str cs)"

definition has_parent_dir :: "string \<Rightarrow> bool" where
  "has_parent_dir p \<longleftrightarrow> ParentDir \<in> set (components p)"

definition path_starts_with :: "string \<Rightarrow> string \<Rightarrow> bool" where
  "path_starts_with p root \<longleftrightarrow> prefix (components root) (components p)"

definition path_eq :: "string \<Rightarrow> string \<Rightarrow> bool" where
  "path_eq p q \<longleftrightarrow> components p = components q"

definition path_strip_prefix :: "string \<Rightarrow> string \<Rightarrow> component list option" where
  "path_strip_prefix p root =
     (if path_starts_with p root then Some (drop (length (components root)) (components p))
      else None)"

definition path_join :: "string \<Rightarrow> string \<Rightarrow> string" where
  "path_join base p =
     (if is_absolute p then p
      else if base = [] \<or> last base = CHR ''/'' then base @ p
      else base @ ''/'' @ p)"

definition path_parent :: "string \<Rightarrow> string option" where
  "path_parent p =
     (let cs = components p
      in if cs = [] \<or> last cs = RootDir then None else Some (path_text (butlast cs)))"

definition path_file_name :: "string \<Rightarrow> string option" where
  "path_file_name p =
     (let cs = components p
      in if cs = [] then None
         else (case last cs of Normal s \<Rightarrow> Some s | _ \<Rightarrow> None))"

section \<open>Classification\<close>

definition credential_names :: "string list" where
  "credential_names = [''.ssh'', ''.git'', ''.env'', ''.env.local'', ''.env.production'', ''.aws'',
     ''.gnupg'', ''.netrc'', ''.npmrc'', ''credentials'', ''credentials.json'', ''auth.json'',
     ''id_rsa'', ''id_ed25519'', ''known_hosts'', ''authorized_keys'']"

definition credential_component :: "string \<Rightarrow> bool" where
  "credential_component name \<longleftrightarrow>
     (let v = to_ascii_lowercase name
      in List.member credential_names v
         \<or> contains_str v ''access_token'' \<or> contains_str v ''api_key''
         \<or> contains_str v ''secret_key'' \<or> ends_with v ''.pem'' \<or> ends_with v ''.key''
         \<or> ends_with v ''.p12'' \<or> ends_with v ''.pfx'' \<or> ends_with v ''.jks''
         \<or> ends_with v ''.kdbx'')"

definition is_credential_path :: "string \<Rightarrow> bool" where
  "is_credential_path p \<longleftrightarrow> list_ex (\<lambda>c. credential_component (component_str c)) (components p)"

definition is_agent_metadata_path :: "string \<Rightarrow> bool" where
  "is_agent_metadata_path p \<longleftrightarrow>
     list_ex (\<lambda>c. c = ''.agent-work'')
       (split_at CHR ''/'' (to_ascii_lowercase
         (map (\<lambda>c. if c = CHR 0x5C then CHR ''/'' else c) p)))"

definition protected_worktree_path :: "string \<Rightarrow> string \<Rightarrow> bool" where
  "protected_worktree_path worktree target \<longleftrightarrow>
     (case path_strip_prefix target worktree of
        None \<Rightarrow> False
      | Some relative \<Rightarrow>
          list_ex (\<lambda>c. List.member [''.git'', ''.agent-work'', ''.gitmodules''] (component_str c)) relative)"

text \<open>
  \<open>PreparationError\<close>. The payload of an I/O or JSON error comes from outside and no code looks at
  it; it is left out.
\<close>

datatype preparation_error =
    InvalidManifest string
  | InvalidPath string string
  | PathEscape string string
  | SymlinkInput string
  | MissingInput string
  | ForbiddenInput string
  | CredentialInput string
  | Policy string
  | Io
  | Json

fun preparation_error_code :: "preparation_error \<Rightarrow> string" where
  "preparation_error_code (InvalidManifest _) = ''INVALID_MANIFEST''"
| "preparation_error_code (InvalidPath _ _) = ''INVALID_PATH''"
| "preparation_error_code (PathEscape _ _) = ''PATH_ESCAPE''"
| "preparation_error_code (SymlinkInput _) = ''SYMLINK_INPUT''"
| "preparation_error_code (MissingInput _) = ''MISSING_INPUT''"
| "preparation_error_code (ForbiddenInput _) = ''FORBIDDEN_INPUT''"
| "preparation_error_code (CredentialInput _) = ''CREDENTIAL_INPUT''"
| "preparation_error_code (Policy _) = ''POLICY_DENIED''"
| "preparation_error_code Io = ''IO_ERROR''"
| "preparation_error_code Json = ''JSON_ERROR''"

definition lexical_confined_path :: "string \<Rightarrow> string \<Rightarrow> preparation_error + string" where
  "lexical_confined_path root v =
     (if is_absolute v \<or> has_parent_dir v
      then Inl (InvalidPath v ''path must be repository-relative and confined'')
      else Inr (path_join root v))"

section \<open>Lemmas\<close>

lemma path_starts_with_refl [simp]: "path_starts_with p p"
  by (simp add: path_starts_with_def)

lemma path_starts_with_trans:
  "path_starts_with p q \<Longrightarrow> path_starts_with q r \<Longrightarrow> path_starts_with p r"
  by (auto simp: path_starts_with_def intro: prefix_order.trans)

lemma split_at_append_delim: "split_at d (s @ d # t) = split_at d s @ split_at d t"
  by (induction s) (auto split: list.splits)

lemma hd_split_at_append: "s \<noteq> [] \<Longrightarrow> hd (split_at d (s @ d # t)) = hd (split_at d s)"
  by (simp add: split_at_append_delim)

lemma is_absolute_append: "s \<noteq> [] \<Longrightarrow> is_absolute (s @ t) \<longleftrightarrow> is_absolute s"
  by (cases s) (auto simp: is_absolute_def)

text \<open>Joining a relative path without a leading \<open>.\<close> appends its components.\<close>

lemma components_join:
  assumes "\<not> is_absolute p" "base \<noteq> []" "last base \<noteq> CHR ''/''"
  shows "components (path_join base p) =
    components base @ filter (\<lambda>c. c \<noteq> CurDir) (components p)"
proof -
  let ?body = "\<lambda>s. map component_of (filter (\<lambda>s. s \<noteq> [] \<and> s \<noteq> ''.'') (split_at CHR ''/'' s))"
  have no_cur: "CurDir \<notin> set (?body s)" for s by (auto simp: component_of_def split: if_splits)
  have keep: "filter (\<lambda>c. c \<noteq> CurDir) (?body s) = ?body s" for s
    by (rule filter_True) (use no_cur [of s] in blast)
  have body: "filter (\<lambda>c. c \<noteq> CurDir) (components p) = ?body p"
    using assms(1) keep [of p] by (simp add: components_def Let_def)
  have join: "path_join base p = base @ CHR ''/'' # p"
    using assms by (simp add: path_join_def)
  show ?thesis
    unfolding body
    using assms(2) by (simp add: join components_def Let_def split_at_append_delim is_absolute_append)
qed

lemma starts_with_join:
  assumes "\<not> is_absolute p" "base \<noteq> []" "last base \<noteq> CHR ''/''"
  shows "path_starts_with (path_join base p) base"
  by (simp add: path_starts_with_def components_join [OF assms])

section \<open>Component lists and their text\<close>

fun plain :: "component \<Rightarrow> bool" where
  "plain ParentDir = True"
| "plain (Normal s) = (s \<noteq> [] \<and> s \<noteq> ''.'' \<and> s \<noteq> ''..'' \<and> CHR ''/'' \<notin> set s)"
| "plain _ = False"

definition wf_components :: "component list \<Rightarrow> bool" where
  "wf_components cs \<longleftrightarrow>
     (case cs of [] \<Rightarrow> True | c # rest \<Rightarrow> (c = RootDir \<or> c = CurDir \<or> plain c) \<and> list_all plain rest)"

lemma split_at_join_names:
  "names \<noteq> [] \<Longrightarrow> (\<And>s. s \<in> set names \<Longrightarrow> CHR ''/'' \<notin> set s) \<Longrightarrow>
   split_at CHR ''/'' (join_names names) = names"
proof (induction names rule: join_names.induct)
  case (2 s)
  have "CHR ''/'' \<notin> set t \<Longrightarrow> split_at CHR ''/'' t = [t]" for t by (induction t) auto
  with 2 show ?case by simp
next
  case (3 s t ts)
  have single: "CHR ''/'' \<notin> set t \<Longrightarrow> split_at CHR ''/'' t = [t]" for t by (induction t) auto
  from 3 show ?case by (simp add: split_at_append_delim single)
qed simp

lemma plain_body:
  assumes "list_all plain cs"
  shows "map component_of (filter (\<lambda>s. s \<noteq> [] \<and> s \<noteq> ''.'')
      (split_at CHR ''/'' (join_names (map component_str cs)))) = cs"
proof (cases "cs = []")
  case True
  then show ?thesis by simp
next
  case False
  have plain: "component_str c \<noteq> [] \<and> component_str c \<noteq> ''.'' \<and> CHR ''/'' \<notin> set (component_str c) \<and>
      component_of (component_str c) = c" if "c \<in> set cs" for c
    using assms that by (cases c) (auto simp: list_all_iff component_of_def)
  then have "split_at CHR ''/'' (join_names (map component_str cs)) = map component_str cs"
    using False by (intro split_at_join_names) auto
  moreover have "filter (\<lambda>s. s \<noteq> [] \<and> s \<noteq> ''.'') (map component_str cs) = map component_str cs"
    using plain by (intro filter_True) auto
  moreover have "map component_of (map component_str cs) = cs"
    using plain by (simp add: map_idI)
  ultimately show ?thesis by simp
qed

lemma join_names_start:
  "names \<noteq> [] \<Longrightarrow> hd names \<noteq> [] \<Longrightarrow> CHR ''/'' \<notin> set (hd names) \<Longrightarrow> \<not> is_absolute (join_names names)"
proof (induction names rule: join_names.induct)
  case (2 s)
  then show ?case by (cases s) (auto simp: is_absolute_def)
next
  case (3 s t ts)
  then show ?case by (cases s) (auto simp: is_absolute_def)
qed simp

text \<open>Reading the text of a well-formed component list gives the list back.\<close>

lemma components_path_text:
  assumes "wf_components cs"
  shows "components (path_text cs) = cs"
proof (cases cs)
  case Nil
  then show ?thesis by (simp add: components_def is_absolute_def)
next
  case (Cons c rest)
  with assms have rest: "list_all plain rest" and c: "c = RootDir \<or> c = CurDir \<or> plain c"
    by (auto simp: wf_components_def)
  from c show ?thesis
  proof (elim disjE)
    assume "c = RootDir"
    with Cons plain_body [OF rest] show ?thesis by (simp add: components_def is_absolute_def Let_def)
  next
    assume cur: "c = CurDir"
    show ?thesis
    proof (cases rest)
      case Nil
      with Cons cur show ?thesis by (simp add: components_def is_absolute_def)
    next
      case (Cons r rs)
      then have shown: "path_text cs = ''.'' @ CHR ''/'' # join_names (map component_str rest)"
        using \<open>cs = c # rest\<close> cur by simp
      show ?thesis
        unfolding shown components_def split_at_append_delim
        using plain_body [OF rest] \<open>cs = c # rest\<close> cur by (simp add: is_absolute_def Let_def)
    qed
  next
    assume c: "plain c"
    then have plain: "list_all plain cs" using Cons rest by simp
    have shown: "path_text cs = join_names (map component_str cs)"
      using Cons c by (cases c) simp_all
    have start: "component_str c \<noteq> []" "CHR ''/'' \<notin> set (component_str c)" "component_str c \<noteq> ''.''"
      using c by (cases c; simp)+
    then have "\<not> is_absolute (path_text cs)" unfolding shown using Cons by (intro join_names_start) auto
    moreover have "hd (split_at CHR ''/'' (path_text cs)) \<noteq> ''.''"
    proof -
      have "CHR ''/'' \<notin> set s" if "s \<in> set (map component_str cs)" for s
      proof -
        from that obtain d where "d \<in> set cs" "s = component_str d" by auto
        with plain show ?thesis by (cases d) (auto simp: list_all_iff)
      qed
      then have "split_at CHR ''/'' (path_text cs) = map component_str cs"
        unfolding shown using Cons by (intro split_at_join_names) auto
      with Cons start show ?thesis by simp
    qed
    ultimately show ?thesis
      using plain_body [OF plain] by (simp add: components_def Let_def shown)
  qed
qed

lemma wf_components [simp]: "wf_components (components p)"
proof -
  have "plain (component_of s)" if "s \<in> set (split_at CHR ''/'' p)" "s \<noteq> []" "s \<noteq> ''.''" for s
    using that split_at_no_delim [OF that(1)] by (simp add: component_of_def)
  then have "list_all plain (map component_of (filter (\<lambda>s. s \<noteq> [] \<and> s \<noteq> ''.'') (split_at CHR ''/'' p)))"
    by (auto simp: list_all_iff)
  then show ?thesis
    by (auto simp: components_def Let_def wf_components_def split: list.splits)
qed

lemma wf_butlast: "wf_components cs \<Longrightarrow> wf_components (butlast cs)"
  by (cases cs) (auto simp: wf_components_def list_all_iff dest: in_set_butlastD)

lemma components_parent: "path_parent p = Some up \<Longrightarrow> components up = butlast (components p)"
  by (auto simp: path_parent_def Let_def components_path_text wf_butlast split: if_splits)

lemma path_parent_shorter: "path_parent p = Some up \<Longrightarrow> length (components up) < length (components p)"
  using components_parent [of p up] by (cases "components p") (auto simp: path_parent_def Let_def)

lemma parent_contains: "path_parent p = Some up \<Longrightarrow> path_starts_with p up"
  using components_parent [of p up]
  by (simp add: path_starts_with_def) (metis append_butlast_last_id append_Nil2 butlast.simps(1) prefixI)

end
