(* ===== verification/Policy_Bash.thy ===== *)
theory Policy_Bash
  imports Policy_Path
begin

text \<open>
  The grammar of the Bash commands the permission policy lets through
  (\<open>crates/zcode-agent-preparation/src/policy.rs\<close>): the tokenizer, the command families, and for
  every family the extraction of the operands that are paths.
\<close>

section \<open>Tokens\<close>

definition shell_meta :: "string list" where
  "shell_meta = ['';'', ''&'', ''|'', ''>'', ''<'', ''$'', [CHR 0x60], ''('', '')'', ''{'', ''}'', ''*'',
     ''?'', ''['', '']'', ''#'', ''!'', [CHR 0x5C]]"

definition is_quote :: "string \<Rightarrow> bool" where
  "is_quote c \<longleftrightarrow> c = [CHR 0x27] \<or> c = [CHR 0x22]"

text \<open>The loop over \<open>command.chars()\<close>, with the open quote, the current word and the words so far.\<close>

fun scan_tokens :: "string list \<Rightarrow> string option \<Rightarrow> string \<Rightarrow> string list \<Rightarrow> string list option" where
  "scan_tokens [] quote current result =
     (if quote \<noteq> None then None
      else Some (if current \<noteq> [] then result @ [current] else result))"
| "scan_tokens (c # cs) quote current result =
     (case quote of
        Some delimiter \<Rightarrow>
          if c = delimiter then scan_tokens cs None current result
          else scan_tokens cs quote (current @ c) result
      | None \<Rightarrow>
          if is_quote c then scan_tokens cs (Some c) current result
          else if is_whitespace c
          then if current \<noteq> [] then scan_tokens cs None [] (result @ [current])
               else scan_tokens cs None current result
          else if List.member shell_meta c then None
          else scan_tokens cs None (current @ c) result)"

definition tokenize_agent_bash :: "string \<Rightarrow> string list option" where
  "tokenize_agent_bash command =
     (if command = [] \<or> 16 * 1024 < length command
         \<or> list_ex (\<lambda>c. c = [nl] \<or> c = [cr]) (chars command)
      then None
      else
        (case scan_tokens (chars command) None [] [] of
           None \<Rightarrow> None
         | Some result \<Rightarrow>
             if 128 < length result then None
             else if result \<noteq> [] then Some result else None))"

definition agent_bash_command_families :: "string list" where
  "agent_bash_command_families = [''pwd'', ''ls'', ''stat'', ''wc'', ''head'', ''tail'', ''cat'',
     ''grep'', ''rg'', ''sed'', ''find'', ''git'', ''shasum'', ''cksum'']"

definition agent_bash_program_allowed :: "string \<Rightarrow> bool" where
  "agent_bash_program_allowed program \<longleftrightarrow> List.member agent_bash_command_families program"

section \<open>Numbers\<close>

definition valid_positive_integer :: "string \<Rightarrow> bool" where
  "valid_positive_integer v \<longleftrightarrow>
     (case parse_unsigned 4294967295 v of None \<Rightarrow> False | Some n \<Rightarrow> 0 < n)"

definition valid_nonnegative_integer :: "string \<Rightarrow> bool" where
  "valid_nonnegative_integer v \<longleftrightarrow> parse_unsigned 65535 v \<noteq> None"

section \<open>Operands\<close>

definition valid_sed_number :: "string \<Rightarrow> bool" where
  "valid_sed_number v \<longleftrightarrow> v \<noteq> [] \<and> list_all is_ascii_digit v \<and>
     (case parse_unsigned 18446744073709551615 v of None \<Rightarrow> False | Some n \<Rightarrow> n \<le> 10000)"

definition valid_agent_sed :: "string list \<Rightarrow> bool" where
  "valid_agent_sed args \<longleftrightarrow>
     (case args of
        a0 # rng # files \<Rightarrow>
          files \<noteq> [] \<and> a0 = ''-n'' \<and>
          (let body = (case strip_suffix rng ''p'' of None \<Rightarrow> [] | Some b \<Rightarrow> b)
           in (case split_at CHR '','' body of
                 [first] \<Rightarrow> valid_sed_number first
               | [first, second] \<Rightarrow> valid_sed_number first \<and> valid_sed_number second
               | _ \<Rightarrow> False)) \<and>
          list_all (\<lambda>arg. \<not> starts_with arg ''-'') files
      | _ \<Rightarrow> False)"

text \<open>\<open>simple_path_operands\<close>: the loop with the flag \<open>options_ended\<close>.\<close>

definition option_assigned :: "string list \<Rightarrow> string \<Rightarrow> bool" where
  "option_assigned options arg \<longleftrightarrow> list_ex (\<lambda>option. starts_with arg (option @ ''='')) options"

fun simple_operands :: "string list \<Rightarrow> string list \<Rightarrow> bool \<Rightarrow> string list \<Rightarrow> string list option" where
  "simple_operands bools vals ended [] = Some []"
| "simple_operands bools vals ended (arg # rest) =
     (if arg = ''-'' then None
      else if \<not> ended \<and> arg = ''--'' then simple_operands bools vals True rest
      else if \<not> ended \<and> (List.member bools arg \<or> option_assigned vals arg)
      then simple_operands bools vals ended rest
      else if \<not> ended \<and> List.member vals arg
      then (case rest of [] \<Rightarrow> None | v # rest' \<Rightarrow> simple_operands bools vals ended rest')
      else if \<not> ended \<and> starts_with arg ''-'' then None
      else map_option (Cons arg) (simple_operands bools vals ended rest))"

definition simple_path_operands :: "string list \<Rightarrow> string list \<Rightarrow> string list \<Rightarrow> string list option" where
  "simple_path_operands args boolean_options value_options =
     simple_operands boolean_options value_options False args"

definition required_path_operands :: "string list \<Rightarrow> string list \<Rightarrow> string list \<Rightarrow> string list option" where
  "required_path_operands args boolean_options value_options =
     (case simple_path_operands args boolean_options value_options of
        None \<Rightarrow> None
      | Some paths \<Rightarrow> if paths \<noteq> [] then Some paths else None)"

definition dash_digits :: "string \<Rightarrow> bool" where
  "dash_digits arg \<longleftrightarrow>
     (case strip_prefix arg ''-'' of None \<Rightarrow> False
      | Some v \<Rightarrow> v \<noteq> [] \<and> list_all is_ascii_digit v)"

fun head_tail_operands :: "string \<Rightarrow> bool \<Rightarrow> string list \<Rightarrow> string list option" where
  "head_tail_operands program ended [] = Some []"
| "head_tail_operands program ended (arg # rest) =
     (if \<not> ended \<and> arg = ''--'' then head_tail_operands program True rest
      else if \<not> ended \<and> List.member [''-q'', ''-v'', ''--quiet'', ''--silent'', ''--verbose''] arg
      then head_tail_operands program ended rest
      else if \<not> ended \<and> program = ''tail''
              \<and> List.member [''-f'', ''-F'', ''--follow'', ''--retry''] arg
      then None
      else if \<not> ended \<and> (dash_digits arg
              \<or> option_assigned [''-n'', ''--lines'', ''-c'', ''--bytes''] arg)
      then head_tail_operands program ended rest
      else if \<not> ended \<and> List.member [''-n'', ''--lines'', ''-c'', ''--bytes''] arg
      then (case rest of [] \<Rightarrow> None | v # rest' \<Rightarrow> head_tail_operands program ended rest')
      else if \<not> ended \<and> starts_with arg ''-'' then None
      else map_option (Cons arg) (head_tail_operands program ended rest))"

definition head_tail_path_operands :: "string \<Rightarrow> string list \<Rightarrow> string list option" where
  "head_tail_path_operands program args =
     (case head_tail_operands program False args of
        None \<Rightarrow> None
      | Some paths \<Rightarrow> if paths \<noteq> [] then Some paths else None)"

section \<open>Searches\<close>

definition grep_boolean_short :: "bool \<Rightarrow> string" where
  "grep_boolean_short ripgrep = (if ripgrep then ''nHhIiSsFUlcvqwo'' else ''HhIiLnqsvEFPowx'')"

definition grep_value_short :: "bool \<Rightarrow> string" where
  "grep_value_short ripgrep = (if ripgrep then ''egtmABC'' else ''efmABC'')"

definition grep_boolean_long :: "bool \<Rightarrow> string list" where
  "grep_boolean_long ripgrep =
     (if ripgrep
      then [''--line-number'', ''--with-filename'', ''--no-filename'', ''--ignore-case'',
        ''--case-sensitive'', ''--smart-case'', ''--fixed-strings'', ''--files'',
        ''--files-with-matches'', ''--files-without-match'', ''--count'', ''--count-matches'',
        ''--only-matching'', ''--word-regexp'', ''--line-regexp'', ''--json'', ''--stats'',
        ''--heading'', ''--no-heading'', ''--column'', ''--pcre2'', ''--color=never'']
      else [''--with-filename'', ''--no-filename'', ''--ignore-case'', ''--no-messages'',
        ''--invert-match'', ''--line-number'', ''--files-with-matches'', ''--files-without-match'',
        ''--count'', ''--only-matching'', ''--word-regexp'', ''--line-regexp'', ''--fixed-strings'',
        ''--extended-regexp'', ''--perl-regexp'', ''--binary-files=without-match'',
        ''--binary-files=text'', ''--color=never''])"

definition grep_value_long :: "bool \<Rightarrow> string list" where
  "grep_value_long ripgrep =
     (if ripgrep
      then [''--regexp'', ''--glob'', ''--type'', ''--type-not'', ''--max-count'',
        ''--after-context'', ''--before-context'', ''--context'', ''--file'', ''--ignore-file'',
        ''--encoding'', ''--sort'', ''--sortr'']
      else [''--regexp'', ''--file'', ''--max-count'', ''--after-context'', ''--before-context'',
        ''--context'', ''--include'', ''--exclude'', ''--exclude-dir'', ''--exclude-from'',
        ''--directories'', ''--devices''])"

record grep_state =
  gs_paths :: "string list"
  gs_pattern_specified :: bool
  gs_files_mode :: bool
  gs_options_ended :: bool

definition rg_denied_option :: "string \<Rightarrow> bool" where
  "rg_denied_option arg \<longleftrightarrow>
     list_ex (\<lambda>option. arg = option \<or> starts_with arg (option @ ''=''))
       [''--pre'', ''--pre-glob'', ''--hostname-bin'', ''--search-zip'', ''--follow'']"

text \<open>The effect of a long option that takes a value, once the value is known.\<close>

definition grep_long_value :: "string \<Rightarrow> string \<Rightarrow> grep_state \<Rightarrow> grep_state" where
  "grep_long_value option v s =
     s\<lparr>gs_pattern_specified := (List.member [''--regexp'', ''--file''] option \<or> gs_pattern_specified s),
       gs_paths := (if List.member [''--file'', ''--ignore-file'', ''--exclude-from''] option
                    then gs_paths s @ [v] else gs_paths s)\<rparr>"

definition grep_short_value :: "string \<Rightarrow> string \<Rightarrow> grep_state \<Rightarrow> grep_state" where
  "grep_short_value cluster v s =
     s\<lparr>gs_pattern_specified := (cluster = ''e'' \<or> cluster = ''f'' \<or> gs_pattern_specified s),
       gs_paths := (if cluster = ''f'' then gs_paths s @ [v] else gs_paths s)\<rparr>"

fun grep_operands :: "bool \<Rightarrow> string list \<Rightarrow> grep_state \<Rightarrow> grep_state option" where
  "grep_operands ripgrep [] s = Some s"
| "grep_operands ripgrep (arg # rest) s =
     (if \<not> gs_options_ended s \<and> arg = ''--''
      then grep_operands ripgrep rest (s\<lparr>gs_options_ended := True\<rparr>)
      else if \<not> gs_options_ended s \<and> ripgrep \<and> rg_denied_option arg then None
      else if \<not> gs_options_ended s \<and> starts_with arg ''--''
      then if List.member (grep_boolean_long ripgrep) arg
           then grep_operands ripgrep rest
                  (s\<lparr>gs_files_mode := (gs_files_mode s \<or> arg = ''--files'')\<rparr>)
           else
             (case split_once CHR ''='' arg of
                Some (option, v) \<Rightarrow>
                  if \<not> List.member (grep_value_long ripgrep) option then None
                  else grep_operands ripgrep rest (grep_long_value option v s)
              | None \<Rightarrow>
                  if \<not> List.member (grep_value_long ripgrep) arg then None
                  else (case rest of
                          [] \<Rightarrow> None
                        | v # rest' \<Rightarrow> grep_operands ripgrep rest' (grep_long_value arg v s)))
      else if \<not> gs_options_ended s \<and> arg = ''-''
      then grep_operands ripgrep rest (s\<lparr>gs_paths := gs_paths s @ [arg]\<rparr>)
      else if \<not> gs_options_ended s \<and> starts_with arg ''-''
      then let cluster = drop 1 arg
           in if length cluster = 1 \<and> List.member (grep_value_short ripgrep) (hd cluster)
              then (case rest of
                      [] \<Rightarrow> None
                    | v # rest' \<Rightarrow> grep_operands ripgrep rest' (grep_short_value cluster v s))
              else if \<not> list_all (List.member (grep_boolean_short ripgrep)) cluster then None
              else grep_operands ripgrep rest s
      else if gs_files_mode s \<or> gs_pattern_specified s
      then grep_operands ripgrep rest (s\<lparr>gs_paths := gs_paths s @ [arg]\<rparr>)
      else grep_operands ripgrep rest (s\<lparr>gs_pattern_specified := True\<rparr>))"

definition grep_like_path_operands :: "string list \<Rightarrow> bool \<Rightarrow> string list option" where
  "grep_like_path_operands args ripgrep =
     (case grep_operands ripgrep args \<lparr>gs_paths = [], gs_pattern_specified = False,
              gs_files_mode = False, gs_options_ended = False\<rparr> of
        None \<Rightarrow> None
      | Some s \<Rightarrow>
          if (\<not> gs_files_mode s \<and> \<not> gs_pattern_specified s) \<or> (\<not> ripgrep \<and> gs_paths s = [])
          then None else Some (gs_paths s))"

section \<open>find\<close>

definition find_denied :: "string list" where
  "find_denied = [''-L'', ''-H'', ''-delete'', ''-exec'', ''-execdir'', ''-ok'', ''-okdir'', ''-prune'',
     ''-ls'', ''-print'', ''-print0'', ''-fprint'', ''-fprint0'', ''-fprintf'', ''-fls'', ''-printf'',
     ''-writable'']"

fun find_expression :: "string list \<Rightarrow> string list option" where
  "find_expression [] = Some []"
| "find_expression (arg # rest) =
     (if List.member find_denied arg then None
      else if List.member [''-maxdepth'', ''-mindepth''] arg
      then (case rest of
              [] \<Rightarrow> None
            | v # rest' \<Rightarrow>
                (case parse_unsigned 255 v of
                   None \<Rightarrow> None
                 | Some n \<Rightarrow> if 50 < n then None else find_expression rest'))
      else if arg = ''-type''
      then (case rest of
              [] \<Rightarrow> None
            | v # rest' \<Rightarrow>
                if List.member [''f'', ''d'', ''l'', ''p'', ''s'', ''b'', ''c''] v
                then find_expression rest' else None)
      else if List.member [''-name'', ''-iname'', ''-path'', ''-ipath'', ''-size'', ''-mtime'',
                           ''-mmin''] arg
      then (case rest of
              [] \<Rightarrow> None
            | v # rest' \<Rightarrow>
                if v = [] \<or> starts_with v ''-'' then None else find_expression rest')
      else if arg = ''-newer''
      then (case rest of
              [] \<Rightarrow> None
            | v # rest' \<Rightarrow>
                if v = [] then None else map_option (Cons v) (find_expression rest'))
      else if List.member [''-empty'', ''-readable'', ''-quit''] arg then find_expression rest
      else None)"

definition valid_agent_find :: "string list \<Rightarrow> string list option" where
  "valid_agent_find args =
     (let paths = takeWhile (\<lambda>arg. \<not> starts_with arg ''-'') args;
          expression = dropWhile (\<lambda>arg. \<not> starts_with arg ''-'') args
      in if paths = [] then None
         else map_option (\<lambda>more. paths @ more) (find_expression expression))"

section \<open>git and the table of families\<close>

definition git_path_operands :: "string list \<Rightarrow> string list option" where
  "git_path_operands args =
     (let command_index = (if list_ex (\<lambda>arg. arg = ''--no-pager'') args then 1 else 0)
      in if length args \<le> command_index then None
         else
           let operands = drop (command_index + 1) args
           in if list_ex (\<lambda>arg. arg = ''--'') operands
              then Some (tl (dropWhile (\<lambda>arg. arg \<noteq> ''--'') operands))
              else Some [])"

definition agent_bash_path_operands :: "string \<Rightarrow> string list \<Rightarrow> string list option" where
  "agent_bash_path_operands program args =
     (if program = ''pwd''
      then if list_all (\<lambda>arg. arg = ''-L'' \<or> arg = ''-P'') args then Some [] else None
      else if program = ''ls''
      then simple_path_operands args
        [''-a'', ''-A'', ''-l'', ''-d'', ''-h'', ''-n'', ''-i'', ''-1'', ''-G'', ''--all'', ''--almost-all'',
         ''--directory'', ''--human-readable'', ''--inode'', ''--numeric-uid-gid'', ''--color=never'',
         ''--group-directories-first'']
        [''--time-style'']
      else if program = ''stat''
      then simple_path_operands args
        [''-L'', ''-x'', ''--dereference'', ''--file-system'', ''--terse'']
        [''-f'', ''-c'', ''--format'', ''--printf'']
      else if program = ''wc''
      then required_path_operands args
        [''-c'', ''-l'', ''-m'', ''-w'', ''-L'', ''--bytes'', ''--chars'', ''--lines'',
         ''--max-line-length'', ''--words'']
        []
      else if program = ''head'' \<or> program = ''tail'' then head_tail_path_operands program args
      else if program = ''cat''
      then required_path_operands args
        [''-A'', ''-b'', ''-E'', ''-n'', ''-s'', ''-t'', ''-T'', ''-u'', ''-v'', ''--number'',
         ''--number-nonblank'', ''--show-all'', ''--show-ends'', ''--show-tabs'', ''--squeeze-blank'']
        []
      else if program = ''grep'' then grep_like_path_operands args False
      else if program = ''rg'' then grep_like_path_operands args True
      else if program = ''sed''
      then if valid_agent_sed args then Some (drop 2 args) else None
      else if program = ''find'' then valid_agent_find args
      else if program = ''git'' then git_path_operands args
      else if program = ''shasum'' \<or> program = ''cksum''
      then required_path_operands args
        [''-b'', ''-p'', ''-t'', ''-U'', ''-0'', ''--tag'', ''-l'']
        [''-a'', ''--algorithm'', ''--length'']
      else None)"

end
