(* ===== verification/Policy_Git.thy ===== *)
theory Policy_Git
  imports Policy_Bash
begin

text \<open>
  The read-only subset of git the permission policy lets through
  (\<open>crates/zcode-agent-preparation/src/policy.rs\<close>): operands and the options of every allowed
  subcommand.
\<close>

definition unsafe_agent_git_object_path :: "string \<Rightarrow> bool" where
  "unsafe_agent_git_object_path arg \<longleftrightarrow>
     (case split_once CHR '':'' arg of
        None \<Rightarrow> False
      | Some (_, object_path) \<Rightarrow>
          object_path = [] \<or> is_absolute object_path \<or> has_parent_dir object_path
          \<or> is_credential_path object_path \<or> is_agent_metadata_path object_path)"

definition safe_agent_git_operand :: "string \<Rightarrow> bool" where
  "safe_agent_git_operand arg \<longleftrightarrow>
     arg \<noteq> [] \<and> \<not> starts_with arg ''/'' \<and> \<not> starts_with arg ''~''
     \<and> \<not> list_ex (\<lambda>component. component = [] \<or> component = ''..'') (split_at CHR ''/'' arg)
     \<and> \<not> is_credential_path arg \<and> \<not> is_agent_metadata_path arg
     \<and> \<not> unsafe_agent_git_object_path arg"

definition git_branch_flags :: "string list" where
  "git_branch_flags = [''--all'', ''--remotes'', ''--verbose'', ''-a'', ''-r'', ''-v'', ''-vv'']"

fun git_branch_args :: "bool \<Rightarrow> string list \<Rightarrow> bool" where
  "git_branch_args list_mode [] = True"
| "git_branch_args list_mode (arg # rest) =
     (if arg = ''--list'' then git_branch_args True rest
      else if List.member git_branch_flags arg
      then git_branch_args list_mode rest
      else if starts_with arg ''-'' then False
      else if list_mode then git_branch_args list_mode rest
      else False)"

definition valid_agent_git_branch :: "string list \<Rightarrow> bool" where
  "valid_agent_git_branch args \<longleftrightarrow>
     args = [] \<or> args = [''--show-current''] \<or> git_branch_args False args"

definition git_status_options :: "string list" where
  "git_status_options = [''--short'', ''-s'', ''--branch'', ''-b'', ''--porcelain'', ''--long'',
          ''--no-ahead-behind'', ''--show-stash'', ''--no-renames'']"

definition valid_agent_git_status :: "string list \<Rightarrow> bool" where
  "valid_agent_git_status args \<longleftrightarrow>
     list_all (\<lambda>arg.
       starts_with arg ''-'' \<and>
       (List.member git_status_options arg
        \<or> List.member [Some ''v1'', Some ''v2''] (strip_prefix arg ''--porcelain='')
        \<or> List.member [Some ''no'', Some ''normal'', Some ''all'']
             (strip_prefix arg ''--untracked-files=''))) args"

definition git_denied_options :: "string list" where
  "git_denied_options = [''--output'', ''--ext-diff'', ''--textconv'', ''--no-index'',
     ''--show-signature'', ''--exec'', ''--stdin'']"

definition git_denied_option :: "string \<Rightarrow> bool" where
  "git_denied_option arg \<longleftrightarrow>
     List.member git_denied_options arg
     \<or> starts_with arg ''--output='' \<or> starts_with arg ''--exec='' \<or> starts_with arg ''--ext-diff=''
     \<or> starts_with arg ''--textconv='' \<or> starts_with arg ''--no-index=''"

definition git_boolean_options :: "string \<Rightarrow> string list" where
  "git_boolean_options subcommand =
     (if subcommand = ''diff''
      then [''--cached'', ''--staged'', ''--stat'', ''--shortstat'', ''--numstat'', ''--name-only'',
        ''--name-status'', ''--check'', ''--binary'', ''--full-index'', ''--no-color'', ''--minimal'',
        ''--patience'', ''--histogram'', ''--ignore-space-change'', ''--ignore-all-space'',
        ''--ignore-blank-lines'', ''--exit-code'', ''--quiet'', ''--find-renames'', ''--find-copies'',
        ''--relative'', ''--merge-base'', ''--no-renames'', ''--word-diff'', ''-p'', ''-s'']
      else if subcommand = ''log''
      then [''--oneline'', ''--graph'', ''--all'', ''--branches'', ''--tags'', ''--remotes'',
        ''--reverse'', ''--topo-order'', ''--date-order'', ''--author-date-order'', ''--first-parent'',
        ''--merges'', ''--no-merges'', ''--name-only'', ''--name-status'', ''--stat'', ''--shortstat'',
        ''--numstat'', ''--patch'', ''--no-patch'', ''--decorate'', ''--no-decorate'',
        ''--full-history'', ''--simplify-merges'', ''--dense'', ''--sparse'', ''--boundary'',
        ''--left-right'', ''--cherry-pick'', ''--cherry-mark'', ''--ancestry-path'', ''--bisect'', ''-p'']
      else if subcommand = ''show''
      then [''--stat'', ''--name-only'', ''--name-status'', ''--no-color'', ''--no-patch'', ''-s'',
        ''--oneline'', ''--decorate'', ''--no-decorate'']
      else [])"

definition git_value_options :: "string \<Rightarrow> string list" where
  "git_value_options subcommand =
     (if subcommand = ''diff''
      then [''--unified'', ''--diff-filter'', ''--submodule'', ''--word-diff'', ''--word-diff-regex'',
        ''--find-renames'', ''--find-copies'', ''--color'', ''--src-prefix'', ''--dst-prefix'',
        ''--line-prefix'', ''--inter-hunk-context'']
      else if subcommand = ''log''
      then [''--max-count'', ''--skip'', ''--since'', ''--until'', ''--after'', ''--before'', ''--author'',
        ''--committer'', ''--grep'', ''--pretty'', ''--format'', ''--date'', ''--decorate'',
        ''--diff-filter'', ''--unified'', ''--color'']
      else if subcommand = ''show'' then [''--format'', ''--pretty'', ''--color'']
      else [])"

definition git_value_ok :: "string \<Rightarrow> string \<Rightarrow> bool" where
  "git_value_ok name v \<longleftrightarrow>
     \<not> (List.member [''--max-count'', ''--skip''] name \<and> \<not> valid_positive_integer v
        \<or> List.member [''--unified'', ''--inter-hunk-context''] name \<and> \<not> valid_nonnegative_integer v)"

fun git_diff_args :: "string \<Rightarrow> bool \<Rightarrow> string list \<Rightarrow> bool" where
  "git_diff_args subcommand paths_mode [] = True"
| "git_diff_args subcommand paths_mode (arg # rest) =
     (if arg = ''--'' then git_diff_args subcommand True rest
      else if paths_mode
      then safe_agent_git_operand arg \<and> git_diff_args subcommand paths_mode rest
      else if git_denied_option arg then False
      else if starts_with arg ''-''
      then if List.member (git_boolean_options subcommand) arg
           then git_diff_args subcommand paths_mode rest
           else if subcommand = ''log'' \<and> starts_with arg ''-n''
           then if drop 2 arg \<noteq> []
                then valid_positive_integer (drop 2 arg) \<and> git_diff_args subcommand paths_mode rest
                else (case rest of
                        [] \<Rightarrow> False
                      | v # rest' \<Rightarrow>
                          valid_positive_integer v \<and> git_diff_args subcommand paths_mode rest')
           else
             (case split_once CHR ''='' arg of
                Some (name, v) \<Rightarrow>
                  List.member (git_value_options subcommand) name \<and> v \<noteq> [] \<and> git_value_ok name v
                  \<and> git_diff_args subcommand paths_mode rest
              | None \<Rightarrow>
                  List.member (git_value_options subcommand) arg \<and>
                  (case rest of
                     [] \<Rightarrow> False
                   | v # rest' \<Rightarrow>
                       \<not> starts_with v ''-'' \<and> v \<noteq> [] \<and> git_value_ok arg v
                       \<and> git_diff_args subcommand paths_mode rest'))
      else safe_agent_git_operand arg \<and> git_diff_args subcommand paths_mode rest)"

declare git_diff_args.simps(2) [simp del]

definition valid_agent_git_diff_like :: "string \<Rightarrow> string list \<Rightarrow> bool" where
  "valid_agent_git_diff_like subcommand args = git_diff_args subcommand False args"

definition git_rev_parse_options :: "string list" where
  "git_rev_parse_options = [''--verify'', ''--quiet'', ''-q'', ''--show-toplevel'', ''--show-prefix'',
              ''--is-inside-work-tree'', ''--is-bare-repository'', ''--is-shallow-repository'',
              ''--show-object-format'']"

definition valid_agent_git_rev_parse :: "string list \<Rightarrow> bool" where
  "valid_agent_git_rev_parse args \<longleftrightarrow>
     args \<noteq> [] \<and>
     list_all (\<lambda>arg.
       if starts_with arg ''-''
       then List.member git_rev_parse_options arg
            \<or> (case strip_prefix arg ''--short='' of
                 None \<Rightarrow> False | Some v \<Rightarrow> list_all is_ascii_digit v)
            \<or> arg = ''--short''
       else safe_agent_git_operand arg) args"

definition valid_agent_git_cat_file :: "string list \<Rightarrow> bool" where
  "valid_agent_git_cat_file args \<longleftrightarrow>
     (case args of
        [a, b] \<Rightarrow> List.member [''-e'', ''-p'', ''-t'', ''-s''] a \<and> safe_agent_git_operand b
      | _ \<Rightarrow> False)"

definition git_ls_files_options :: "string list" where
  "git_ls_files_options = [''--cached'', ''--deleted'', ''--modified'', ''--others'', ''--ignored'',
             ''--stage'', ''--unmerged'', ''--killed'', ''--directory'', ''--empty-directory'',
             ''--full-name'', ''--error-unmatch'', ''--deduplicate'', ''-c'', ''-d'', ''-m'', ''-o'',
             ''-i'', ''-u'', ''-s'', ''-t'', ''-k'']"

fun git_ls_files_args :: "bool \<Rightarrow> string list \<Rightarrow> bool" where
  "git_ls_files_args paths_mode [] = True"
| "git_ls_files_args paths_mode (arg # rest) =
     (if arg = ''--'' then git_ls_files_args True rest
      else if paths_mode then safe_agent_git_operand arg \<and> git_ls_files_args paths_mode rest
      else List.member git_ls_files_options arg
           \<and> git_ls_files_args paths_mode rest)"

definition valid_agent_git_ls_files :: "string list \<Rightarrow> bool" where
  "valid_agent_git_ls_files args = git_ls_files_args False args"

definition valid_agent_git :: "string list \<Rightarrow> bool" where
  "valid_agent_git args =
     (let rest = (case args of [] \<Rightarrow> [] | a # as \<Rightarrow> if a = ''--no-pager'' then as else args)
      in (case rest of
            [] \<Rightarrow> False
          | subcommand # sub_args \<Rightarrow>
              if subcommand = ''status'' then valid_agent_git_status sub_args
              else if List.member [''diff'', ''show'', ''log''] subcommand
              then valid_agent_git_diff_like subcommand sub_args
              else if subcommand = ''rev-parse'' then valid_agent_git_rev_parse sub_args
              else if subcommand = ''cat-file'' then valid_agent_git_cat_file sub_args
              else if subcommand = ''ls-files'' then valid_agent_git_ls_files sub_args
              else if subcommand = ''branch'' then valid_agent_git_branch sub_args
              else False))"

section \<open>What an accepted git command cannot contain\<close>

definition git_read_only :: "string list" where
  "git_read_only = [''status'', ''diff'', ''show'', ''log'', ''rev-parse'', ''cat-file'', ''ls-files'',
     ''branch'']"

lemma denied_option_dash: "git_denied_option a \<Longrightarrow> starts_with a ''--''"
  by (auto simp: git_denied_option_def git_denied_options_def prefix_def)

lemma denied_option_start: "git_denied_option a \<Longrightarrow>
    take 6 a \<in> {''--outp'', ''--ext-'', ''--text'', ''--no-i'', ''--show'', ''--exec'', ''--stdi''}"
  by (auto simp: git_denied_option_def git_denied_options_def prefix_def)

lemma other_start: "prefix p a \<Longrightarrow> 6 \<le> length p \<Longrightarrow> take 6 a = take 6 p"
  by (auto simp: prefix_def)

lemma listed_options_clean:
  "a \<in> set (git_status_options @ git_rev_parse_options @ git_ls_files_options @ git_branch_flags @
     [''--list'', ''--short'']) \<Longrightarrow> \<not> git_denied_option a \<and> a \<noteq> ''--''"
proof -
  have "list_all (\<lambda>a. \<not> git_denied_option a \<and> a \<noteq> ''--'') (git_status_options @ git_rev_parse_options @
      git_ls_files_options @ git_branch_flags @ [''--list'', ''--short''])" by code_simp
  then show "a \<in> set (git_status_options @ git_rev_parse_options @ git_ls_files_options @
      git_branch_flags @ [''--list'', ''--short'']) \<Longrightarrow> \<not> git_denied_option a \<and> a \<noteq> ''--''"
    by (auto simp: list_all_iff)
qed

lemma prefixed_options_clean:
  assumes "prefix p a" "p = ''--porcelain='' \<or> p = ''--untracked-files='' \<or> p = ''--short=''"
  shows "\<not> git_denied_option a \<and> a \<noteq> ''--''"
proof -
  have "take 6 a = take 6 p" using assms by (intro other_start) auto
  with assms(2) have "take 6 a \<in> {''--porc'', ''--untr'', ''--shor''}" by auto
  then show ?thesis using denied_option_start [of a] by auto
qed

lemma strip_prefix_Some: "strip_prefix s p = Some v \<Longrightarrow> prefix p s"
  by (simp add: strip_prefix_def split: if_splits)

text \<open>An argument that does not start with a dash is no option.\<close>

lemma operand_clean: "\<not> starts_with a ''-'' \<Longrightarrow> \<not> git_denied_option a \<and> a \<noteq> ''--''"
  using denied_option_dash [of a] by (auto simp: prefix_def)

text \<open>The arguments before \<open>--\<close> and those after it.\<close>

definition before_separator :: "string list \<Rightarrow> string list" where
  "before_separator args = takeWhile (\<lambda>a. a \<noteq> ''--'') args"

definition after_separator :: "string list \<Rightarrow> string list" where
  "after_separator args = tl (dropWhile (\<lambda>a. a \<noteq> ''--'') args)"

lemma separator_simps [simp]:
  "before_separator [] = []" "after_separator [] = []"
  "before_separator (a # as) = (if a = ''--'' then [] else a # before_separator as)"
  "after_separator (a # as) = (if a = ''--'' then as else after_separator as)"
  by (simp_all add: before_separator_def after_separator_def)

lemma no_separator: "''--'' \<notin> set args \<Longrightarrow> before_separator args = args \<and> after_separator args = []"
  by (induction args) auto

definition separated_ok :: "string list \<Rightarrow> bool" where
  "separated_ok args \<longleftrightarrow> (\<forall>a \<in> set (before_separator args). \<not> git_denied_option a) \<and>
     (\<forall>a \<in> set (after_separator args). a = ''--'' \<or> safe_agent_git_operand a)"

lemma separated_ok_Cons:
  "a \<noteq> ''--'' \<Longrightarrow> \<not> git_denied_option a \<Longrightarrow> separated_ok as \<Longrightarrow> separated_ok (a # as)"
  by (simp add: separated_ok_def)

lemma separated_ok_clean: "(\<And>a. a \<in> set args \<Longrightarrow> \<not> git_denied_option a \<and> a \<noteq> ''--'') \<Longrightarrow> separated_ok args"
proof -
  assume clean: "\<And>a. a \<in> set args \<Longrightarrow> \<not> git_denied_option a \<and> a \<noteq> ''--''"
  then have "''--'' \<notin> set args" by blast
  from no_separator [OF this] clean show ?thesis by (simp add: separated_ok_def)
qed

lemma git_diff_paths: "git_diff_args sub True args \<Longrightarrow> \<forall>a \<in> set args. a = ''--'' \<or> safe_agent_git_operand a"
  by (induction args) (auto simp: git_diff_args.simps(2) split: if_splits)

lemma positive_integer_no_dash: "valid_positive_integer v \<Longrightarrow> \<not> starts_with v ''-''"
  by (cases v) (auto simp: valid_positive_integer_def parse_unsigned_def Let_def is_ascii_digit_def
      byte_def prefix_def split: if_splits option.splits)

text \<open>What one step of the loop over the arguments of \<open>diff\<close>, \<open>show\<close> and \<open>log\<close> has checked.\<close>

lemma git_diff_step:
  assumes "git_diff_args sub False (arg # rest)" "arg \<noteq> ''--''"
  shows "\<not> git_denied_option arg"
    and "git_diff_args sub False rest \<or>
     (\<exists>v rest'. rest = v # rest' \<and> \<not> starts_with v ''-'' \<and> git_diff_args sub False rest')"
proof -
  note body = assms(1) [unfolded git_diff_args.simps(2)] assms(2)
  show clean: "\<not> git_denied_option arg" using body by (simp split: if_splits)
  show "git_diff_args sub False rest \<or>
     (\<exists>v rest'. rest = v # rest' \<and> \<not> starts_with v ''-'' \<and> git_diff_args sub False rest')"
  proof (cases "starts_with arg ''-'' \<and> \<not> List.member (git_boolean_options sub) arg")
    case False
    with body clean show ?thesis by (simp split: if_splits)
  next
    case True
    show ?thesis
    proof (cases "sub = ''log'' \<and> starts_with arg ''-n''")
      case log: True
      with body clean True show ?thesis
        by (cases rest) (auto dest: positive_integer_no_dash split: if_splits)
    next
      case False
      with body clean True show ?thesis
        by (cases rest) (auto split: if_splits option.splits)
    qed
  qed
qed

lemma git_diff_clean: "git_diff_args sub False args \<Longrightarrow> separated_ok args"
proof (induction "length args" arbitrary: args rule: less_induct)
  case less
  show ?case
  proof (cases args)
    case (Cons arg rest)
    show ?thesis
    proof (cases "arg = ''--''")
      case True
      with less.prems Cons have "git_diff_args sub True rest" by (simp add: git_diff_args.simps(2))
      with True Cons git_diff_paths show ?thesis by (simp add: separated_ok_def)
    next
      case False
      note step = git_diff_step [OF less.prems [unfolded Cons] False]
      from step(2) have "separated_ok rest"
      proof (elim disjE exE conjE)
        assume "git_diff_args sub False rest"
        with less.hyps [of rest] Cons show ?thesis by simp
      next
        fix v rest'
        assume rest: "rest = v # rest'" "\<not> starts_with v ''-''" "git_diff_args sub False rest'"
        with less.hyps [of rest'] Cons have "separated_ok rest'" by simp
        with operand_clean [OF rest(2)] rest(1) show ?thesis by (simp add: separated_ok_Cons)
      qed
      with False step(1) Cons show ?thesis by (simp add: separated_ok_Cons)
    qed
  qed (simp add: separated_ok_def)
qed

lemma git_ls_files_paths: "git_ls_files_args True args \<Longrightarrow> \<forall>a \<in> set args. a = ''--'' \<or> safe_agent_git_operand a"
  by (induction args) (auto split: if_splits)

lemma git_ls_files_clean: "git_ls_files_args False args \<Longrightarrow> separated_ok args"
proof (induction args)
  case (Cons arg rest)
  show ?case
  proof (cases "arg = ''--''")
    case True
    with Cons.prems git_ls_files_paths show ?thesis by (simp add: separated_ok_def)
  next
    case False
    with Cons listed_options_clean [of arg] show ?thesis by (auto intro: separated_ok_Cons)
  qed
qed (simp add: separated_ok_def)

lemma git_status_clean: "valid_agent_git_status args \<Longrightarrow> separated_ok args"
proof (rule separated_ok_clean)
  fix a
  assume "valid_agent_git_status args" "a \<in> set args"
  then have "a \<in> set git_status_options \<or> prefix ''--porcelain='' a \<or> prefix ''--untracked-files='' a"
    unfolding valid_agent_git_status_def list_all_iff List.member_iff
    using strip_prefix_Some [of a "''--porcelain=''"] strip_prefix_Some [of a "''--untracked-files=''"]
    by fastforce
  then show "\<not> git_denied_option a \<and> a \<noteq> ''--''"
    using listed_options_clean [of a] prefixed_options_clean [of _ a] by auto
qed

lemma git_branch_clean: "git_branch_args lm args \<Longrightarrow> separated_ok args"
proof (rule separated_ok_clean)
  fix a
  assume "git_branch_args lm args" "a \<in> set args"
  then have "a \<in> set git_branch_flags \<or> a = ''--list'' \<or> \<not> starts_with a ''-''"
    by (induction lm args rule: git_branch_args.induct) (auto split: if_splits)
  then show "\<not> git_denied_option a \<and> a \<noteq> ''--''"
    using listed_options_clean [of a] operand_clean [of a] by auto
qed

lemma git_rev_parse_clean: "valid_agent_git_rev_parse args \<Longrightarrow> separated_ok args"
proof (rule separated_ok_clean)
  fix a
  assume "valid_agent_git_rev_parse args" "a \<in> set args"
  then have "a \<in> set git_rev_parse_options \<or> prefix ''--short='' a \<or> a = ''--short'' \<or> \<not> starts_with a ''-''"
    by (auto simp: valid_agent_git_rev_parse_def list_all_iff strip_prefix_def split: if_splits)
  then show "\<not> git_denied_option a \<and> a \<noteq> ''--''"
    using listed_options_clean [of a] operand_clean [of a] prefixed_options_clean [of _ a] by auto
qed

text \<open>
  An accepted git command is one of the read-only subcommands, has no option that writes or runs
  something before the separator \<open>--\<close>, and only confined operands after it. \<open>cat-file\<close> takes
  one flag and one confined operand.
\<close>

lemma valid_agent_git_cases:
  assumes "valid_agent_git args"
  obtains sub sub_args where "args = sub # sub_args \<or> args = ''--no-pager'' # sub # sub_args"
    "sub \<in> set git_read_only" "sub \<noteq> ''cat-file'' \<Longrightarrow> separated_ok sub_args"
    "sub = ''cat-file'' \<Longrightarrow> valid_agent_git_cat_file sub_args"
proof -
  define rest where "rest = (case args of [] \<Rightarrow> [] | a # as \<Rightarrow> if a = ''--no-pager'' then as else args)"
  from assms obtain sub sub_args where rest: "rest = sub # sub_args"
    by (cases rest) (auto simp: valid_agent_git_def rest_def [symmetric])
  have shape: "args = sub # sub_args \<or> args = ''--no-pager'' # sub # sub_args"
    using rest by (auto simp: rest_def split: list.splits if_splits)
  consider "sub = ''status''" "valid_agent_git_status sub_args"
    | "sub \<in> {''diff'', ''show'', ''log''}" "valid_agent_git_diff_like sub sub_args"
    | "sub = ''rev-parse''" "valid_agent_git_rev_parse sub_args"
    | "sub = ''cat-file''" "valid_agent_git_cat_file sub_args"
    | "sub = ''ls-files''" "valid_agent_git_ls_files sub_args"
    | "sub = ''branch''" "valid_agent_git_branch sub_args"
    using assms unfolding valid_agent_git_def rest_def [symmetric] rest Let_def list.case
    by (auto split: if_splits)
  then have "sub \<in> set git_read_only \<and> (sub \<noteq> ''cat-file'' \<longrightarrow> separated_ok sub_args) \<and>
      (sub = ''cat-file'' \<longrightarrow> valid_agent_git_cat_file sub_args)"
  proof cases
    case 1
    then show ?thesis by (simp add: git_read_only_def git_status_clean)
  next
    case 2
    then have "separated_ok sub_args" by (simp add: valid_agent_git_diff_like_def git_diff_clean)
    with 2(1) show ?thesis by (auto simp: git_read_only_def)
  next
    case 3
    then show ?thesis by (simp add: git_read_only_def git_rev_parse_clean)
  next
    case 4
    then show ?thesis by (simp add: git_read_only_def)
  next
    case 5
    then show ?thesis
      by (simp add: git_read_only_def valid_agent_git_ls_files_def git_ls_files_clean)
  next
    case 6
    have "separated_ok [''--show-current'']" by code_simp
    moreover have "separated_ok []" by (simp add: separated_ok_def)
    ultimately have "separated_ok sub_args"
      using 6(2) git_branch_clean by (auto simp: valid_agent_git_branch_def)
    with 6 show ?thesis by (simp add: git_read_only_def)
  qed
  with shape show ?thesis by (intro that) auto
qed

end
