(* ===== verification/Policy_Launcher.thy ===== *)
theory Policy_Launcher
  imports Policy_Git Json
begin

text \<open>
  The decisions of \<open>PolicyLauncher\<close> (\<open>crates/zcode-agent-preparation/src/policy.rs\<close>): file
  requests, Bash commands and the tool requests of the runtime.

  The file system is a parameter: what \<open>fs::canonicalize\<close>, \<open>fs::symlink_metadata\<close>, \<open>is_file\<close>
  and \<open>is_dir\<close> answer at the time of the decision. A slice index that is out of range panics in
  the code; \<open>Panics\<close> is that outcome.
\<close>

datatype entry_lookup = Found | NotFoundError | OtherError

record file_system =
  canonicalize :: "string \<Rightarrow> string option"
  symlink_metadata :: "string \<Rightarrow> entry_lookup"
  is_file :: "string \<Rightarrow> bool"
  is_dir :: "string \<Rightarrow> bool"

datatype sandbox_enforcement = Unsupported

record policy_capabilities =
  exact_command_allowlist :: bool
  sanitized_environment :: bool
  bounded_time_and_output :: bool
  local_hard_deny :: bool
  source_integrity_diagnostics :: bool
  network_isolation_enforced :: bool
  network_control :: string
  os_sandbox :: sandbox_enforcement

definition capabilities_for_network :: "bool \<Rightarrow> policy_capabilities" where
  "capabilities_for_network network =
     \<lparr>exact_command_allowlist = True, sanitized_environment = True, bounded_time_and_output = True,
      local_hard_deny = True, source_integrity_diagnostics = True,
      network_isolation_enforced = False,
      network_control =
        (if network then ''manifest allows network; no network isolation is enforced''
         else ''known network clients and URL arguments denied; general network isolation unsupported''),
      os_sandbox = Unsupported\<rparr>"

definition default_capabilities :: policy_capabilities where
  "default_capabilities = capabilities_for_network False"

datatype access_mode = ReadOnly | WorkspaceWrite

datatype external_decision = Allow | Deny

datatype permission_request =
    Read string
  | Write string
  | Edit string
  | Delete string
  | Move string string
  | Execute string "string list" string
  | Network string
  | GitRefMutation
  | CredentialRead string

record permission_decision =
  allowed :: bool
  reason :: string

datatype 'a run = Returns 'a | Panics

datatype entry_state = ExistingEntry | MissingEntry

record policy_launcher =
  worktree :: string
  scratch_root :: string
  report_target :: string
  readable_inputs :: "string list"
  network_allowed :: bool
  capabilities :: policy_capabilities
  access_mode_of :: access_mode
  tracked_write_roots :: "string list"
  interactive_bash :: bool

section \<open>Construction\<close>

definition canonicalize_io :: "file_system \<Rightarrow> string \<Rightarrow> preparation_error + string" where
  "canonicalize_io fs p = ok_or Io (canonicalize fs p)"

definition new_launcher ::
  "file_system \<Rightarrow> string \<Rightarrow> string \<Rightarrow> string \<Rightarrow> string list \<Rightarrow> bool \<Rightarrow>
   policy_capabilities \<Rightarrow> preparation_error + policy_launcher"
where
  "new_launcher fs wt scratch report inputs network caps =
     and_then (canonicalize_io fs wt) (\<lambda>wt'.
     and_then (canonicalize_io fs scratch) (\<lambda>scratch'.
     and_then (ok_or (InvalidPath report ''report target has no parent'') (path_parent report))
       (\<lambda>parent.
     and_then (canonicalize_io fs parent) (\<lambda>parent'.
     and_then (ok_or (InvalidPath report ''report target has no file name'')
                 (path_file_name report)) (\<lambda>name.
     and_then (collect_results (canonicalize_io fs) inputs) (\<lambda>inputs'.
     Inr \<lparr>worktree = wt', scratch_root = scratch', report_target = path_join parent' name,
          readable_inputs = inputs', network_allowed = network, capabilities = caps,
          access_mode_of = ReadOnly, tracked_write_roots = [], interactive_bash = False\<rparr>))))))"

definition confine_write_root :: "string \<Rightarrow> string \<Rightarrow> preparation_error + string" where
  "confine_write_root wt root =
     and_then (lexical_confined_path wt root) (\<lambda>p.
     if protected_worktree_path wt p
     then Inl (Policy ''tracked write root targets protected metadata'') else Inr p)"

definition for_general ::
  "file_system \<Rightarrow> string \<Rightarrow> string \<Rightarrow> string \<Rightarrow> string list \<Rightarrow> policy_capabilities \<Rightarrow>
   access_mode \<Rightarrow> string list \<Rightarrow> preparation_error + policy_launcher" where
  "for_general fs wt scratch result_target inputs caps mode roots =
     and_then (new_launcher fs wt scratch result_target inputs False caps) (\<lambda>launcher.
     if mode = WorkspaceWrite
     then and_then (collect_results (confine_write_root (worktree launcher)) roots) (\<lambda>roots'.
          Inr (launcher\<lparr>access_mode_of := mode, tracked_write_roots := roots'\<rparr>))
     else if roots \<noteq> []
     then Inl (Policy ''read-only access cannot define tracked write roots'')
     else Inr (launcher\<lparr>access_mode_of := mode, tracked_write_roots := roots\<rparr>))"

definition set_interactive_bash :: "bool \<Rightarrow> policy_launcher \<Rightarrow> policy_launcher" where
  "set_interactive_bash enabled l = l\<lparr>interactive_bash := enabled\<rparr>"

section \<open>Reads\<close>

definition is_agent_root :: "policy_launcher \<Rightarrow> string \<Rightarrow> bool" where
  "is_agent_root l p \<longleftrightarrow>
     path_starts_with p (worktree l) \<or> list_ex (path_starts_with p) (readable_inputs l)"

definition enters_agent_metadata :: "policy_launcher \<Rightarrow> string \<Rightarrow> bool" where
  "enters_agent_metadata l p \<longleftrightarrow>
     list_ex (\<lambda>root. case path_strip_prefix p root of
                 None \<Rightarrow> False
               | Some relative \<Rightarrow> is_agent_metadata_path (path_text relative))
       (worktree l # readable_inputs l)"

definition agent_path_confined :: "file_system \<Rightarrow> policy_launcher \<Rightarrow> string \<Rightarrow> bool \<Rightarrow> string \<Rightarrow> bool" where
  "agent_path_confined fs l cwd require_file arg \<longleftrightarrow>
     \<not> (arg = ''-'' \<or> starts_with arg ''~'' \<or> has_parent_dir arg \<or> is_credential_path arg
        \<or> is_agent_metadata_path arg) \<and>
     (case canonicalize fs (if is_absolute arg then arg else path_join cwd arg) of
        None \<Rightarrow> False
      | Some real \<Rightarrow>
          \<not> (\<not> is_agent_root l real \<or> is_credential_path real \<or> enters_agent_metadata l real) \<and>
          (\<not> require_file \<or> is_file fs real))"

definition agent_paths_confined ::
  "file_system \<Rightarrow> policy_launcher \<Rightarrow> string list \<Rightarrow> string \<Rightarrow> bool \<Rightarrow> bool" where
  "agent_paths_confined fs l args cwd require_file =
     list_all (agent_path_confined fs l cwd require_file) args"

section \<open>Writes\<close>

definition resolved_write_denial :: "policy_launcher \<Rightarrow> string \<Rightarrow> string option" where
  "resolved_write_denial l target =
     (case path_parent (report_target l) of
        None \<Rightarrow> Some ''write_path_unverifiable''
      | Some report_root \<Rightarrow>
          if path_starts_with target (worktree l)
          then if protected_worktree_path (worktree l) target
               then Some ''protected_worktree_metadata_denied''
               else (case access_mode_of l of
                       WorkspaceWrite \<Rightarrow>
                         if list_ex (path_starts_with target) (tracked_write_roots l) then None
                         else Some ''tracked_path_not_allowlisted''
                     | ReadOnly \<Rightarrow> Some ''tracked_writes_denied_for_access_mode'')
          else if path_starts_with target report_root then Some ''daemon_result_root_denied''
          else if path_eq target (scratch_root l) \<or> path_eq target report_root
                  \<or> (\<not> path_starts_with target (scratch_root l)
                     \<and> \<not> path_starts_with target report_root)
          then Some ''write_outside_result_roots_denied''
          else None)"

definition canonical_parent_entry :: "file_system \<Rightarrow> string \<Rightarrow> string + string" where
  "canonical_parent_entry fs p =
     and_then (ok_or ''write_path_unverifiable'' (path_parent p)) (\<lambda>parent.
     and_then (ok_or ''write_path_unverifiable'' (path_file_name p)) (\<lambda>filename.
     and_then (ok_or ''write_path_unverifiable'' (canonicalize fs parent)) (\<lambda>canonical_parent.
     if \<not> is_dir fs canonical_parent then Inl ''write_path_unverifiable''
     else Inr (path_join canonical_parent filename))))"

definition canonical_write_denial :: "file_system \<Rightarrow> policy_launcher \<Rightarrow> string \<Rightarrow> string option" where
  "canonical_write_denial fs l p =
     (case canonicalize fs p of
        None \<Rightarrow> Some ''write_path_unverifiable''
      | Some canonical \<Rightarrow> resolved_write_denial l canonical)"

text \<open>
  The loop of \<open>resolve_nonexistent_entry\<close> pops one component of \<open>current\<close> per round; \<open>missing\<close>
  holds the popped names, the last one first.
\<close>

function climb_to_existing :: "file_system \<Rightarrow> string \<Rightarrow> string list \<Rightarrow> string option" where
  "climb_to_existing fs current missing =
     (case symlink_metadata fs current of
        Found \<Rightarrow>
          (case canonicalize fs current of
             None \<Rightarrow> None
           | Some canonical \<Rightarrow>
               if \<not> is_dir fs canonical then None
               else Some (foldl path_join canonical (rev missing)))
      | NotFoundError \<Rightarrow>
          (case path_file_name current of
             None \<Rightarrow> None
           | Some name \<Rightarrow>
               (case path_parent current of
                  None \<Rightarrow> None
                | Some up \<Rightarrow> climb_to_existing fs up (missing @ [name])))
      | OtherError \<Rightarrow> None)"
  by pat_completeness auto
termination
  by (relation "measure (\<lambda>(fs, current, missing). length (components current))")
    (auto dest: path_parent_shorter)

declare climb_to_existing.simps [simp del]

definition resolve_nonexistent_entry :: "file_system \<Rightarrow> string \<Rightarrow> string option" where
  "resolve_nonexistent_entry fs p = climb_to_existing fs p []"

definition lexical_entry_state ::
  "file_system \<Rightarrow> policy_launcher \<Rightarrow> string \<Rightarrow> bool \<Rightarrow> string + entry_state" where
  "lexical_entry_state fs l p must_exist =
     (if \<not> is_absolute p \<or> has_parent_dir p then Inl ''write_path_unverifiable''
      else
        (case resolved_write_denial l p of
           Some r \<Rightarrow> Inl r
         | None \<Rightarrow>
             (case symlink_metadata fs p of
                Found \<Rightarrow>
                  and_then (canonical_parent_entry fs p) (\<lambda>candidate.
                  (case resolved_write_denial l candidate of
                     Some r \<Rightarrow> Inl r | None \<Rightarrow> Inr ExistingEntry))
              | NotFoundError \<Rightarrow>
                  if \<not> must_exist
                  then (case resolve_nonexistent_entry fs p of
                          None \<Rightarrow> Inl ''write_path_unverifiable''
                        | Some candidate \<Rightarrow>
                            (case resolved_write_denial l candidate of
                               Some r \<Rightarrow> Inl r | None \<Rightarrow> Inr MissingEntry))
                  else Inl ''write_path_unverifiable''
              | OtherError \<Rightarrow> Inl ''write_path_unverifiable'')))"

definition followed_write_denial ::
  "file_system \<Rightarrow> policy_launcher \<Rightarrow> string \<Rightarrow> bool \<Rightarrow> string option" where
  "followed_write_denial fs l p must_exist =
     (case lexical_entry_state fs l p must_exist of
        Inr ExistingEntry \<Rightarrow> canonical_write_denial fs l p
      | Inr MissingEntry \<Rightarrow> None
      | Inl r \<Rightarrow> Some r)"

definition lexical_entry_denial ::
  "file_system \<Rightarrow> policy_launcher \<Rightarrow> string \<Rightarrow> bool \<Rightarrow> string option" where
  "lexical_entry_denial fs l p must_exist =
     (case lexical_entry_state fs l p must_exist of Inl r \<Rightarrow> Some r | Inr _ \<Rightarrow> None)"

section \<open>Decisions\<close>

fun hard_deny_reason :: "file_system \<Rightarrow> policy_launcher \<Rightarrow> permission_request \<Rightarrow> string option" where
  "hard_deny_reason fs l (Network _) =
     (if \<not> network_allowed l then Some ''network_not_enforced_and_request_denied'' else None)"
| "hard_deny_reason fs l GitRefMutation = Some ''git_ref_mutation_denied''"
| "hard_deny_reason fs l (CredentialRead _) = Some ''credential_read_denied''"
| "hard_deny_reason fs l (Read p) =
     (if is_credential_path p then Some ''credential_read_denied''
      else
        (case canonicalize fs p of
           None \<Rightarrow> Some ''read_path_unverifiable''
         | Some real \<Rightarrow>
             if enters_agent_metadata l real then Some ''agent_metadata_read_denied''
             else if path_starts_with real (worktree l)
                     \<or> list_ex (path_starts_with real) (readable_inputs l)
             then None
             else Some ''read_path_escape_denied''))"
| "hard_deny_reason fs l (Write p) = followed_write_denial fs l p False"
| "hard_deny_reason fs l (Edit p) = followed_write_denial fs l p True"
| "hard_deny_reason fs l (Delete p) = lexical_entry_denial fs l p True"
| "hard_deny_reason fs l (Move source destination) =
     (case lexical_entry_denial fs l source True of
        Some r \<Rightarrow> Some r
      | None \<Rightarrow> lexical_entry_denial fs l destination False)"
| "hard_deny_reason fs l (Execute _ _ _) = None"

abbreviation denied :: "string \<Rightarrow> permission_decision" where
  "denied r \<equiv> \<lparr>allowed = False, reason = r\<rparr>"

definition decide ::
  "file_system \<Rightarrow> policy_launcher \<Rightarrow> permission_request \<Rightarrow> external_decision \<Rightarrow> permission_decision"
where
  "decide fs l request external =
     (case hard_deny_reason fs l request of
        Some r \<Rightarrow> denied r
      | None \<Rightarrow>
          if external = Deny then denied ''external_policy_denied''
          else \<lparr>allowed = True, reason = ''allowed_by_bounded_policy''\<rparr>)"

definition bash_requires_file :: "string \<Rightarrow> bool" where
  "bash_requires_file program \<longleftrightarrow>
     List.member [''cat'', ''wc'', ''head'', ''tail'', ''sed'', ''shasum'', ''cksum''] program"

text \<open>The checks of \<open>decide_agent_bash\<close> on the words of the command.\<close>

definition decide_argv ::
  "file_system \<Rightarrow> policy_launcher \<Rightarrow> string \<Rightarrow> string list \<Rightarrow> permission_decision run" where
  "decide_argv fs l cwd argv =
     (let program = (case argv of [] \<Rightarrow> [] | a # _ \<Rightarrow> a); args = drop 1 argv
      in if \<not> agent_bash_program_allowed program
         then Returns (denied ''command_not_allowlisted'')
         else if program = ''sed'' \<and> \<not> valid_agent_sed args
         then Returns (denied ''sed_form_not_bounded'')
         else if program = ''git'' \<and> length argv < 2 then Panics
         else if program = ''git'' \<and>
                 list_ex (\<lambda>arg. is_credential_path arg \<or> is_agent_metadata_path arg) (drop 2 argv)
         then Returns (denied ''git_sensitive_path_denied'')
         else if program = ''git'' \<and> \<not> valid_agent_git args
         then Returns (denied ''git_option_or_mutation_denied'')
         else
           (case agent_bash_path_operands program args of
              None \<Rightarrow> Returns (denied ''command_option_not_allowlisted'')
            | Some path_args \<Rightarrow>
                if list_ex (\<lambda>p. p = ''-'') path_args
                then Returns (denied ''stdin_input_denied'')
                else if \<not> agent_paths_confined fs l path_args cwd (bash_requires_file program)
                then Returns (denied ''path_outside_agent_roots'')
                else Returns \<lparr>allowed = True, reason = ''agent_bash_allowlisted''\<rparr>))"

definition decide_agent_bash ::
  "file_system \<Rightarrow> policy_launcher \<Rightarrow> json \<Rightarrow> external_decision \<Rightarrow> permission_decision run" where
  "decide_agent_bash fs l input external =
     (if external = Deny then Returns (denied ''external_policy_denied'')
      else
        (case get_str input ''command'' of
           None \<Rightarrow> Returns (denied ''bash_command_missing'')
         | Some command \<Rightarrow>
             (case canonicalize fs (case get_str input ''cwd'' of None \<Rightarrow> worktree l | Some p \<Rightarrow> p) of
                None \<Rightarrow> Returns (denied ''cwd_outside_agent_roots'')
              | Some cwd \<Rightarrow>
                  if \<not> is_agent_root l cwd then Returns (denied ''cwd_outside_agent_roots'')
                  else
                    (case tokenize_agent_bash command of
                       None \<Rightarrow> Returns (denied ''shell_composition_or_expansion_denied'')
                     | Some argv \<Rightarrow> decide_argv fs l cwd argv))))"

definition zcode_file_path :: "json \<Rightarrow> string option" where
  "zcode_file_path input =
     (case (get input ''file_path'', get input ''path'') of
        (Some f, None) \<Rightarrow> as_str f
      | (None, Some p) \<Rightarrow> as_str p
      | (Some f, Some p) \<Rightarrow>
          (case (as_str f, as_str p) of
             (Some a, Some b) \<Rightarrow> if a = b then Some a else None
           | _ \<Rightarrow> None)
      | (None, None) \<Rightarrow> None)"

definition resolve_job_path :: "policy_launcher \<Rightarrow> string \<Rightarrow> string" where
  "resolve_job_path l v = (if is_absolute v then v else path_join (worktree l) v)"

definition tool_request :: "policy_launcher \<Rightarrow> string \<Rightarrow> json \<Rightarrow> permission_request option" where
  "tool_request l tool input =
     (let file = map_option (resolve_job_path l) (zcode_file_path input);
          at = (\<lambda>key. map_option (resolve_job_path l) (get_str input key))
      in if tool = ''read'' then map_option Read file
         else if tool = ''grep'' \<or> tool = ''glob'' then map_option Read (at ''path'')
         else if tool = ''write'' then map_option Write file
         else if tool = ''edit'' then map_option Edit file
         else if tool = ''delete'' then map_option Delete file
         else if tool = ''move''
         then (case (at ''source'', at ''destination'') of
                 (Some source, Some destination) \<Rightarrow> Some (Move source destination)
               | _ \<Rightarrow> None)
         else if tool = ''network'' then map_option Network (get_str input ''target'')
         else if tool = ''git_ref_mutation'' then Some GitRefMutation
         else if tool = ''execute'' \<or> tool = ''terminal''
         then (case (get_str input ''program'',
                     Option.bind (Option.bind (get input ''args'') as_array) (collect_options as_str),
                     at ''cwd'') of
                 (Some program, Some args, Some cwd) \<Rightarrow> Some (Execute program args cwd)
               | _ \<Rightarrow> None)
         else None)"

definition decide_zcode_permission ::
  "file_system \<Rightarrow> policy_launcher \<Rightarrow> json \<Rightarrow> external_decision \<Rightarrow> permission_decision run" where
  "decide_zcode_permission fs l params external =
     (case get_str params ''toolName'' of
        None \<Rightarrow> Returns (denied ''permission_tool_missing'')
      | Some tool_name \<Rightarrow>
          let input = (case get params ''input'' of None \<Rightarrow> JNull | Some v \<Rightarrow> v)
          in if tool_name = ''Bash''
             then if access_mode_of l \<noteq> ReadOnly
                  then if interactive_bash l
                       then if external = Deny then Returns (denied ''external_policy_denied'')
                            else Returns \<lparr>allowed = True, reason = ''interactive_permission_required''\<rparr>
                       else Returns (denied ''permission_request_unrecognized'')
                  else decide_agent_bash fs l input external
             else
               (case tool_request l (to_ascii_lowercase tool_name) input of
                  Some request \<Rightarrow> Returns (decide fs l request external)
                | None \<Rightarrow> Returns (denied ''permission_request_unrecognized'')))"

section \<open>What a built launcher looks like\<close>

text \<open>What \<open>fs::canonicalize\<close> documents: its answers are absolute and end in no separator.\<close>

definition canonical_answers :: "file_system \<Rightarrow> bool" where
  "canonical_answers fs \<longleftrightarrow>
     (\<forall>p real. canonicalize fs p = Some real \<longrightarrow>
        is_absolute real \<and> (real = ''/'' \<or> last real \<noteq> CHR ''/''))"

lemma starts_with_root: "\<not> is_absolute p \<Longrightarrow> path_starts_with (path_join ''/'' p) ''/''"
  by (cases p) (auto simp: path_starts_with_def path_join_def components_def is_absolute_def Let_def)

lemma confine_write_root_Inr:
  assumes "confine_write_root wt root = Inr p" "is_absolute wt" "wt = ''/'' \<or> last wt \<noteq> CHR ''/''"
  shows "path_starts_with p wt \<and> \<not> protected_worktree_path wt p \<and> p = path_join wt root \<and> \<not> has_parent_dir root"
proof -
  have "wt \<noteq> []" using assms(2) by (auto simp: is_absolute_def)
  then have "\<not> is_absolute root \<Longrightarrow> path_starts_with (path_join wt root) wt"
    using assms(3) starts_with_join [of root wt] starts_with_root by blast
  with assms(1) show ?thesis
    by (auto simp: confine_write_root_def lexical_confined_path_def result_simps split: if_splits)
qed

lemma for_general_Inr:
  assumes "for_general fs wt scratch target inputs caps mode roots = Inr l" "canonical_answers fs"
  shows "access_mode_of l = mode \<and> \<not> network_allowed l \<and> \<not> interactive_bash l \<and>
    canonicalize fs wt = Some (worktree l) \<and>
    (\<forall>input \<in> set (readable_inputs l). \<exists>given \<in> set inputs. canonicalize fs given = Some input) \<and>
    (mode = ReadOnly \<longrightarrow> tracked_write_roots l = []) \<and>
    (\<forall>root \<in> set (tracked_write_roots l). path_starts_with root (worktree l) \<and>
       \<not> protected_worktree_path (worktree l) root \<and>
       (\<exists>given \<in> set roots. root = path_join (worktree l) given \<and> \<not> has_parent_dir given))"
proof -
  from assms(1) obtain base where base: "new_launcher fs wt scratch target inputs False caps = Inr base"
    and final: "l = base\<lparr>access_mode_of := mode, tracked_write_roots := tracked_write_roots l\<rparr>"
    and roots: "mode = WorkspaceWrite \<Longrightarrow>
      collect_results (confine_write_root (worktree base)) roots = Inr (tracked_write_roots l)"
      "mode = ReadOnly \<Longrightarrow> tracked_write_roots l = []"
    by (auto simp: for_general_def result_simps split: if_splits)
  from base have wt: "canonicalize fs wt = Some (worktree base)" "\<not> network_allowed base"
    "\<not> interactive_bash base"
    and inputs: "collect_results (canonicalize_io fs) inputs = Inr (readable_inputs base)"
    by (auto simp: new_launcher_def result_simps canonicalize_io_def)
  have same: "worktree l = worktree base" "access_mode_of l = mode" "\<not> network_allowed l"
    "\<not> interactive_bash l" "readable_inputs l = readable_inputs base"
    using wt by (subst final, simp)+
  have "\<exists>given \<in> set inputs. canonicalize fs given = Some input" if "input \<in> set (readable_inputs l)" for input
    using collect_results_set [OF inputs] that by (auto simp: same canonicalize_io_def result_simps)
  moreover have "path_starts_with root (worktree l) \<and> \<not> protected_worktree_path (worktree l) root \<and>
      (\<exists>given \<in> set roots. root = path_join (worktree l) given \<and> \<not> has_parent_dir given)"
    if root: "root \<in> set (tracked_write_roots l)" for root
  proof -
    have "mode = WorkspaceWrite" using root roots(2) by (cases mode) auto
    from collect_results_set [OF roots(1) [OF this], of root] root obtain given
      where "given \<in> set roots" "confine_write_root (worktree l) given = Inr root" by (auto simp: same)
    moreover have "is_absolute (worktree l)" "worktree l = ''/'' \<or> last (worktree l) \<noteq> CHR ''/''"
      using assms(2) wt(1) by (auto simp: canonical_answers_def same)
    ultimately show ?thesis using confine_write_root_Inr by blast
  qed
  ultimately show ?thesis using wt same roots(2) by auto
qed

end
