(* ===== verification/Policy_Denial.thy ===== *)
theory Policy_Denial
  imports Policy_Launcher
begin

text \<open>
  What a denied request is told (\<open>crates/zcode-agent-preparation/src/policy.rs\<close>): the identity of
  a denial, its fingerprint, the retry advice and the feedback text.
\<close>

record denial_semantics =
  program_family :: string
  category :: string
  reason_code :: string
  operand_class :: string
  retry_class :: string
  recommended_action :: string

definition agent_bash_policy_version :: string where
  "agent_bash_policy_version = ''zcode-agent-bash/v1.0.0''"

definition fingerprint :: "denial_semantics \<Rightarrow> string" where
  "fingerprint d = ''family='' @ program_family d @ '';category='' @ category d
     @ '';reason='' @ reason_code d @ '';operand='' @ operand_class d"

definition feedback :: "denial_semantics \<Rightarrow> bool \<Rightarrow> string" where
  "feedback d repeated =
     (if repeated
      then ''DENY[policy_version='' @ agent_bash_policy_version
           @ '';code=REPEATED_DENIED_OPERATION;retry=do_not_retry_equivalent;next=use_read_or_existing_inputs;original_code=''
           @ reason_code d @ '']''
      else ''DENY[policy_version='' @ agent_bash_policy_version @ '';code='' @ reason_code d
           @ '';retry='' @ retry_class d @ '';next='' @ recommended_action d @ '']'')"

type_synonym denial_identity = "string \<times> string \<times> string \<times> string"

definition trim_start_dashes :: "string \<Rightarrow> string" where
  "trim_start_dashes s = dropWhile (\<lambda>c. c = CHR ''-'') s"

fun git_denial_category :: "string list \<Rightarrow> string" where
  "git_denial_category [] = ''unknown''"
| "git_denial_category (v # rest) =
     (if List.member [''-C'', ''-c'', ''--git-dir'', ''--work-tree''] v
      then git_denial_category (drop 1 rest)
      else if starts_with v ''--git-dir='' \<or> starts_with v ''--work-tree='' \<or> starts_with v ''-c''
              \<or> v = ''--no-pager''
      then git_denial_category rest
      else to_ascii_lowercase (trim_start_dashes v))"

definition git_denial_operand_class :: "string list \<Rightarrow> string" where
  "git_denial_operand_class args =
     (if list_ex (\<lambda>v. v = ''-C'') args then ''cwd_override''
      else if list_ex (\<lambda>v. v = ''-c'' \<or> starts_with v ''-c'') args then ''config_override''
      else if list_ex (\<lambda>v. List.member [''--git-dir'', ''--work-tree''] v
                \<or> starts_with v ''--git-dir='' \<or> starts_with v ''--work-tree='') args
      then ''repository_override''
      else if list_ex (\<lambda>v. List.member [''--output'', ''--ext-diff'', ''--textconv'', ''--no-index''] v
                \<or> starts_with v ''--output='') args
      then ''write_option''
      else if list_ex (\<lambda>v. is_credential_path v \<or> is_agent_metadata_path v) args
      then ''sensitive_path''
      else if (case args of [] \<Rightarrow> False
               | v # _ \<Rightarrow> List.member [''add'', ''apply'', ''branch'', ''checkout'', ''clean'', ''commit'',
                   ''merge'', ''mv'', ''rebase'', ''reset'', ''restore'', ''rm'', ''switch'', ''tag''] v)
      then ''mutation''
      else ''option_or_operand'')"

definition file_name_family :: "string option \<Rightarrow> string" where
  "file_name_family program =
     to_ascii_lowercase (case Option.bind program path_file_name of None \<Rightarrow> ''unknown'' | Some n \<Rightarrow> n)"

definition bash_denial_identity :: "string \<Rightarrow> denial_identity" where
  "bash_denial_identity command =
     (case tokenize_agent_bash command of
        None \<Rightarrow>
          (''shell'', ''composition'', ''shell_composition_or_expansion_denied'',
           if nl \<in> set command \<or> cr \<in> set command then ''multiline'' else ''compound_command'')
      | Some argv \<Rightarrow>
          let family = file_name_family (case argv of [] \<Rightarrow> None | a # _ \<Rightarrow> Some a);
              args = drop 1 argv
          in if \<not> agent_bash_program_allowed family
             then (family, ''program'', ''command_not_allowlisted'', ''program'')
             else if family = ''git''
             then let operand = git_denial_operand_class args
                  in (family, git_denial_category args,
                      if operand = ''sensitive_path'' then ''git_sensitive_path_denied''
                      else ''git_option_or_mutation_denied'', operand)
             else
               let credential = list_ex is_credential_path args;
                   metadata = list_ex is_agent_metadata_path args;
                   operand = (if credential \<or> metadata then ''sensitive_path''
                              else if list_ex (\<lambda>v. starts_with v ''-'') args then ''option''
                              else if length argv \<le> 1 then ''missing_path''
                              else ''path'')
               in (family, family,
                   if operand = ''sensitive_path'' \<and> metadata then ''agent_metadata_read_denied''
                   else if operand = ''sensitive_path'' then ''credential_read_denied''
                   else if operand = ''missing_path'' then ''command_option_not_allowlisted''
                   else ''external_policy_denied'', operand))"

definition read_denial_identity :: "string \<Rightarrow> json \<Rightarrow> string \<Rightarrow> denial_identity" where
  "read_denial_identity tool input validated_reason =
     (let p = (if tool = ''read'' then zcode_file_path input else get_str input ''path'')
      in if validated_reason = ''credential_read_denied''
            \<or> (case p of None \<Rightarrow> False | Some q \<Rightarrow> is_credential_path q)
         then (tool, ''path'', ''credential_read_denied'', ''sensitive_path'')
         else if List.member [''read_path_escape_denied'', ''agent_metadata_read_denied'']
                   validated_reason
                 \<or> (case p of None \<Rightarrow> False | Some q \<Rightarrow> has_parent_dir q)
         then (tool, ''path'', ''read_path_escape_denied'', ''outside_scope'')
         else (tool, ''path'', validated_reason,
               if p \<noteq> None then ''unavailable_path'' else ''missing_path''))"

definition denial_recovery :: "string \<Rightarrow> string \<Rightarrow> string \<Rightarrow> string \<Rightarrow> string \<times> string" where
  "denial_recovery tool family code operand =
     (if starts_with code ''shell_'' \<or> contains_str code ''multiline''
         \<or> code = ''shell_composition_or_expansion_denied''
      then (''split_once'', ''split_into_single_commands'')
      else if tool = ''read''
              \<and> List.member [''read_path_unverifiable'', ''permission_request_unrecognized''] code
      then (''simplify_once'', ''correct_read_path_once'')
      else if family = ''git''
              \<and> List.member [''cwd_override'', ''config_override'', ''repository_override''] operand
      then (''simplify_once'', ''remove_denied_option_once'')
      else if contains_str code ''option_not_allowlisted''
              \<and> \<not> List.member [''write_option'', ''mutation'', ''sensitive_path''] operand
      then (''simplify_once'', ''remove_denied_option_once'')
      else if List.member [''command_not_allowlisted'', ''program_not_allowlisted''] code
      then if List.member [''curl'', ''wget'', ''ssh'', ''scp'', ''sftp'', ''nc'', ''ncat'', ''telnet''] family
           then (''do_not_retry_equivalent'', ''stop_evidence_path'')
           else if List.member [''cargo'', ''rustc'', ''npm'', ''npx'', ''pnpm'', ''yarn'', ''bun'', ''docker'',
                     ''make'', ''cmake'', ''pytest'', ''python'', ''python3'', ''go''] family
           then (''use_prepared_inputs'', ''use_prepared_inputs'')
           else (''use_read'', ''use_read_or_prepared_inputs'')
      else if contains_str code ''credential'' \<or> contains_str code ''sensitive''
              \<or> contains_str code ''secret'' \<or> contains_str code ''network''
              \<or> contains_str code ''write'' \<or> contains_str code ''mutation''
              \<or> contains_str code ''outside'' \<or> contains_str code ''escape''
              \<or> contains_str code ''protected'' \<or> contains_str code ''agent_metadata''
              \<or> code = ''external_policy_denied''
              \<or> List.member [''write_option'', ''mutation'', ''sensitive_path'', ''outside_scope''] operand
      then (''do_not_retry_equivalent'', ''stop_evidence_path'')
      else (''use_read'', ''use_read_or_prepared_inputs''))"

definition denial_identity_of :: "string \<Rightarrow> json \<Rightarrow> string \<Rightarrow> denial_identity" where
  "denial_identity_of tool input validated_reason =
     (if tool = ''bash''
      then (case get_str input ''command'' of
              Some command \<Rightarrow> bash_denial_identity command
            | None \<Rightarrow> (''bash'', ''command'', ''bash_command_missing'', ''missing_command''))
      else if List.member [''read'', ''grep'', ''glob''] tool
      then read_denial_identity tool input validated_reason
      else if List.member [''write'', ''edit'', ''delete'', ''move''] tool
      then (tool, ''write'', ''write_denied'', ''mutation'')
      else if List.member [''execute'', ''terminal''] tool
      then (file_name_family (get_str input ''program''), ''execute'', ''command_not_allowlisted'', ''program'')
      else if tool = ''network''
      then (''network'', ''network'', ''network_not_enforced_and_request_denied'', ''network'')
      else if tool = ''git_ref_mutation''
      then (''git'', ''ref_mutation'', ''git_ref_mutation_denied'', ''mutation'')
      else if starts_with tool ''mcp__''
      then (''mcp_tool'', ''mcp_tool'', ''permission_request_unrecognized'', ''unknown'')
      else (tool, ''unknown'', ''permission_request_unrecognized'', ''unknown''))"

definition permission_denial_semantics :: "json \<Rightarrow> string \<Rightarrow> denial_semantics option" where
  "permission_denial_semantics params validated_reason =
     (let tool = to_ascii_lowercase
            (case get_str params ''toolName'' of None \<Rightarrow> ''unknown'' | Some t \<Rightarrow> t);
          input = (case get params ''input'' of None \<Rightarrow> JNull | Some v \<Rightarrow> v)
      in (case denial_identity_of tool input validated_reason of
            (family, cat, inferred, operand) \<Rightarrow>
              let code = (if validated_reason = [] then inferred else validated_reason)
              in (case denial_recovery tool family code operand of
                    (retry, action) \<Rightarrow>
                      Some \<lparr>program_family = family, category = cat, reason_code = code,
                            operand_class = operand, retry_class = retry,
                            recommended_action = action\<rparr>)))"

definition external_zcode_denial :: "json \<Rightarrow> denial_semantics option" where
  "external_zcode_denial params = permission_denial_semantics params ''external_policy_denied''"

definition decide_zcode_permission_validated ::
  "file_system \<Rightarrow> policy_launcher \<Rightarrow> json \<Rightarrow> external_decision \<Rightarrow>
   (permission_decision \<times> denial_semantics option) run" where
  "decide_zcode_permission_validated fs l params external =
     (case decide_zcode_permission fs l params external of
        Panics \<Rightarrow> Panics
      | Returns decision \<Rightarrow>
          Returns (decision,
            if \<not> allowed decision
            then permission_denial_semantics params
                   (if external = Deny then ''external_policy_denied'' else reason decision)
            else None))"

definition validated_zcode_denial ::
  "file_system \<Rightarrow> policy_launcher \<Rightarrow> json \<Rightarrow> external_decision \<Rightarrow> denial_semantics option run" where
  "validated_zcode_denial fs l params external =
     (case decide_zcode_permission_validated fs l params external of
        Panics \<Rightarrow> Panics
      | Returns (_, denial) \<Rightarrow> Returns denial)"

end
