(* ===== verification/Policy_Tokens.thy ===== *)
theory Policy_Tokens
  imports Policy_Bash
begin

text \<open>
  Lemmas on the tokenizer and the operand scanners of the permission policy: what an accepted
  command cannot contain, quoting and reading back, and that no operand is overlooked.
\<close>

section \<open>UTF-8 texts that end at a character boundary\<close>

fun whole_chars :: "string \<Rightarrow> bool" where
  "whole_chars [] = True"
| "whole_chars (b # bs) =
     (utf8_width b - 1 \<le> length bs \<and> whole_chars (drop (utf8_width b - 1) bs))"

lemma chars_append: "whole_chars s \<Longrightarrow> chars (s @ t) = chars s @ chars t"
proof (induction s rule: whole_chars.induct)
  case (2 b bs)
  then have "utf8_width b - 1 \<le> length bs" by simp
  then have "utf8_width b - Suc (length bs) = 0" by linarith
  with 2 show ?case by simp
qed simp

lemma chars_subset: "c \<in> set (chars s) \<Longrightarrow> set c \<subseteq> set s"
  by (induction s rule: chars.induct) (auto dest: in_set_takeD in_set_dropD)

lemma utf8_width_ascii [simp]:
  "utf8_width CHR '' '' = 1" "utf8_width CHR 0x27 = 1" "utf8_width CHR 0x22 = 1"
  by (simp_all add: utf8_width_def byte_def)

section \<open>Unquoted text\<close>

text \<open>The characters of a command outside quotation marks, starting inside or outside of them.\<close>

fun unquoted :: "string option \<Rightarrow> string list \<Rightarrow> string list" where
  "unquoted quote [] = []"
| "unquoted (Some q) (c # cs) = (if c = q then unquoted None cs else unquoted (Some q) cs)"
| "unquoted None (c # cs) = (if is_quote c then unquoted (Some c) cs else c # unquoted None cs)"

lemma scan_tokens_unquoted:
  "scan_tokens cs q cur res = Some out \<Longrightarrow> c \<in> set (unquoted q cs) \<Longrightarrow> c \<notin> set shell_meta \<or> is_whitespace c"
proof (induction cs arbitrary: q cur res)
  case (Cons x xs)
  show ?case
  proof (cases q)
    case (Some d)
    with Cons show ?thesis by (auto split: if_splits)
  next
    case None
    show ?thesis
    proof (cases "is_quote x")
      case True
      with None Cons show ?thesis by simp
    next
      case False
      with None Cons show ?thesis by (auto split: if_splits)
    qed
  qed
qed simp

lemma meta_not_blank: "c \<in> set shell_meta \<Longrightarrow> \<not> is_whitespace c"
proof -
  have "list_all (\<lambda>c. \<not> is_whitespace c) shell_meta" by code_simp
  then show "c \<in> set shell_meta \<Longrightarrow> \<not> is_whitespace c" by (simp add: list_all_iff)
qed

lemma scan_tokens_nonempty:
  "scan_tokens cs q cur res = Some out \<Longrightarrow> [] \<notin> set res \<Longrightarrow> [] \<notin> set out"
  by (induction cs q cur res rule: scan_tokens.induct) (auto split: if_splits option.splits)

lemma tokenize_Some:
  assumes "tokenize_agent_bash command = Some argv"
  shows "scan_tokens (chars command) None [] [] = Some argv" "argv \<noteq> []" "length argv \<le> 128"
    "length command \<le> 16384" "[nl] \<notin> set (chars command)" "[cr] \<notin> set (chars command)"
  using assms
  by (auto simp: tokenize_agent_bash_def list_ex_iff split: if_splits option.splits)

section \<open>Quoting and reading back\<close>

definition quote_word :: "string \<Rightarrow> string" where
  "quote_word w = [CHR 0x27] @ w @ [CHR 0x27]"

fun quote_command :: "string list \<Rightarrow> string" where
  "quote_command [] = []"
| "quote_command [w] = quote_word w"
| "quote_command (w # v # ws) = quote_word w @ '' '' @ quote_command (v # ws)"

definition quotable :: "string \<Rightarrow> bool" where
  "quotable w \<longleftrightarrow> w \<noteq> [] \<and> whole_chars w \<and> CHR 0x27 \<notin> set w \<and> nl \<notin> set w \<and> cr \<notin> set w"

lemma scan_quoted:
  "q \<notin> set cs \<Longrightarrow> scan_tokens (cs @ rest) (Some q) cur res = scan_tokens rest (Some q) (cur @ concat cs) res"
  by (induction cs arbitrary: cur) auto

lemma chars_quote_word:
  assumes "whole_chars w"
  shows "chars (quote_word w @ t) = [CHR 0x27] # chars w @ [CHR 0x27] # chars t"
  using chars_append [OF assms, of "[CHR 0x27] @ t"] by (simp add: quote_word_def)

lemma scan_quote_word:
  assumes "quotable w"
  shows "scan_tokens ([CHR 0x27] # chars w @ [CHR 0x27] # rest) None [] res = scan_tokens rest None w res"
proof -
  have "[CHR 0x27] \<notin> set (chars w)"
    using assms chars_subset [of "[CHR 0x27]" w] by (auto simp: quotable_def)
  from scan_quoted [OF this] show ?thesis by (simp add: is_quote_def)
qed

lemma blank_space: "is_whitespace '' ''"
  by code_simp

lemma scan_quote_command:
  "ws \<noteq> [] \<Longrightarrow> list_all quotable ws \<Longrightarrow>
   scan_tokens (chars (quote_command ws)) None [] res = Some (res @ ws)"
proof (induction ws arbitrary: res rule: quote_command.induct)
  case (2 w)
  then have w: "quotable w" "whole_chars w" "w \<noteq> []" by (auto simp: quotable_def)
  from chars_quote_word [OF w(2), of "[]"] scan_quote_word [OF w(1), of "[]"] w(3) show ?case by simp
next
  case (3 w v ws)
  then have w: "quotable w" "whole_chars w" "w \<noteq> []" by (auto simp: quotable_def)
  have "chars (quote_command (w # v # ws)) =
      [CHR 0x27] # chars w @ [CHR 0x27] # '' '' # chars (quote_command (v # ws))"
    using chars_quote_word [OF w(2), of "'' '' @ quote_command (v # ws)"] by simp
  then have "scan_tokens (chars (quote_command (w # v # ws))) None [] res =
      scan_tokens ('' '' # chars (quote_command (v # ws))) None w res"
    by (simp only: scan_quote_word [OF w(1)])
  also have "\<dots> = scan_tokens (chars (quote_command (v # ws))) None [] (res @ [w])"
    using w(3) by (simp add: is_quote_def blank_space)
  finally show ?case using 3 by simp
qed simp

lemma quote_command_clean:
  "list_all quotable ws \<Longrightarrow> nl \<notin> set (quote_command ws) \<and> cr \<notin> set (quote_command ws)"
  by (induction ws rule: quote_command.induct) (auto simp: quote_word_def quotable_def)

section \<open>Operands\<close>

text \<open>
  The arguments the scanner of simple options treats as paths: those that are not options, not the
  value of an option, and all of them after \<open>--\<close>.
\<close>

lemma simple_operands_step:
  assumes "simple_operands bools vals ended (arg # rest) = Some paths"
  obtains (word) ended' paths' where "simple_operands bools vals ended' rest = Some paths'"
      "set paths' \<subseteq> set paths"
      "arg \<in> set paths \<or> starts_with arg ''-'' \<or> arg \<in> set bools \<or> option_assigned vals arg"
    | (value_option) v rest' where "rest = v # rest'" "arg \<in> set vals"
      "simple_operands bools vals ended rest' = Some paths"
proof (cases "\<not> ended \<and> arg \<noteq> ''--'' \<and> \<not> (arg \<in> set bools \<or> option_assigned vals arg) \<and> arg \<in> set vals")
  case True
  with assms show ?thesis by (cases rest) (auto split: if_splits intro: value_option)
next
  case False
  have "arg \<noteq> ''-''" using assms by auto
  consider "ended" | "\<not> ended" "arg = ''--''"
    | "\<not> ended" "arg \<noteq> ''--''" "arg \<in> set bools \<or> option_assigned vals arg"
    | "\<not> ended" "arg \<noteq> ''--''" "\<not> (arg \<in> set bools \<or> option_assigned vals arg)" "arg \<notin> set vals"
    using False by blast
  then show ?thesis
  proof cases
    case 1
    with assms \<open>arg \<noteq> ''-''\<close> show ?thesis by (auto intro!: word)
  next
    case 2
    with assms show ?thesis by (auto intro!: word)
  next
    case 3
    with assms \<open>arg \<noteq> ''-''\<close> show ?thesis by (intro word [of ended paths]) auto
  next
    case 4
    with assms \<open>arg \<noteq> ''-''\<close> have "\<not> starts_with arg ''-''"
      and "\<exists>z. simple_operands bools vals ended rest = Some z \<and> paths = arg # z"
      by (auto split: if_splits)
    then show ?thesis by (auto intro: word)
  qed
qed

definition dashed :: "string list \<Rightarrow> bool" where
  "dashed options \<longleftrightarrow> list_all (\<lambda>o1. starts_with o1 ''-'') options"

lemma dashed_assigned: "dashed vals \<Longrightarrow> option_assigned vals arg \<Longrightarrow> starts_with arg ''-''"
  by (auto simp: option_assigned_def dashed_def list_all_iff list_ex_iff prefix_def)

lemma dashed_member: "dashed options \<Longrightarrow> a \<in> set options \<Longrightarrow> starts_with a ''-''"
  by (simp add: dashed_def list_all_iff)

lemma simple_operands_complete:
  assumes "dashed bools" "dashed vals"
  shows "simple_operands bools vals ended args = Some paths \<Longrightarrow> k < length args \<Longrightarrow>
   \<not> starts_with (args ! k) ''-'' \<Longrightarrow> args ! k \<in> set paths \<or> (0 < k \<and> args ! (k - 1) \<in> set vals)"
proof (induction "length args" arbitrary: args ended paths k rule: less_induct)
  case less
  then obtain arg rest where args: "args = arg # rest" by (cases args) auto
  from less.prems(1) [unfolded args] show ?case
  proof (cases rule: simple_operands_step)
    case (word ended' paths')
    show ?thesis
    proof (cases k)
      case 0
      with word(3) less.prems(3) dashed_assigned [OF assms(2)] dashed_member [OF assms(1)]
      show ?thesis by (auto simp: args)
    next
      case (Suc n)
      then have "n < length rest" "\<not> starts_with (rest ! n) ''-''" using less.prems(2,3) by (auto simp: args)
      with less.hyps [OF _ word(1), of n] have "rest ! n \<in> set paths' \<or> 0 < n \<and> rest ! (n - 1) \<in> set vals"
        by (simp add: args)
      with Suc word(2) show ?thesis by (cases n) (auto simp: args)
    qed
  next
    case (value_option v rest')
    consider "k = 0" | "k = 1" | n where "k = Suc (Suc n)" by (cases k; cases "k - 1") auto
    then show ?thesis
    proof cases
      case 1
      with value_option(2) less.prems(3) dashed_member [OF assms(2)] show ?thesis by (auto simp: args)
    next
      case 2
      with value_option(2) show ?thesis by (simp add: args)
    next
      case (3 n)
      then have "n < length rest'" "\<not> starts_with (rest' ! n) ''-''"
        using less.prems(2,3) by (auto simp: args value_option(1))
      with less.hyps [OF _ value_option(3), of n]
      have "rest' ! n \<in> set paths \<or> 0 < n \<and> rest' ! (n - 1) \<in> set vals"
        by (simp add: args value_option(1))
      with 3 show ?thesis by (cases n) (auto simp: args value_option(1))
    qed
  qed
qed

section \<open>find\<close>

lemma find_denied_dashed: "a \<in> set find_denied \<Longrightarrow> starts_with a ''-''"
  using dashed_member [of find_denied a] by (simp add: dashed_def find_denied_def)

lemma parse_unsigned_no_dash: "parse_unsigned m v = Some n \<Longrightarrow> \<not> starts_with v ''-''"
  by (cases v) (auto simp: parse_unsigned_def Let_def is_ascii_digit_def byte_def prefix_def
      split: if_splits)

lemma find_expression_step:
  assumes "find_expression (arg # rest) = Some paths"
  shows "arg \<notin> set find_denied"
    and "(\<exists>more. find_expression rest = Some more) \<or>
      (\<exists>v rest' more. rest = v # rest' \<and> find_expression rest' = Some more \<and>
         (v \<in> set find_denied \<longrightarrow> arg = ''-newer''))"
proof -
  show "arg \<notin> set find_denied" using assms by auto
  note body = assms [unfolded find_expression.simps(2)]
  have letters: "v \<notin> set find_denied" if "v \<in> set [''f'', ''d'', ''l'', ''p'', ''s'', ''b'', ''c'']" for v
    using that find_denied_dashed [of v] by auto
  show "(\<exists>more. find_expression rest = Some more) \<or>
      (\<exists>v rest' more. rest = v # rest' \<and> find_expression rest' = Some more \<and>
         (v \<in> set find_denied \<longrightarrow> arg = ''-newer''))"
  proof (cases rest)
    case Nil
    then show ?thesis by simp
  next
    case (Cons v rest')
    show ?thesis
    proof (cases "find_expression rest")
      case (Some more)
      then show ?thesis by blast
    next
      case None
      have "\<exists>more. find_expression rest' = Some more \<and> (v \<in> set find_denied \<longrightarrow> arg = ''-newer'')"
        using body None letters [of v] find_denied_dashed [of v] parse_unsigned_no_dash [of 255 v]
        unfolding Cons list.case by (simp split: if_splits option.splits) blast+
      with Cons show ?thesis by blast
    qed
  qed
qed

lemma find_expression_safe:
  "find_expression args = Some paths \<Longrightarrow> k < length args \<Longrightarrow> args ! k \<in> set find_denied \<Longrightarrow>
   0 < k \<and> args ! (k - 1) = ''-newer''"
proof (induction "length args" arbitrary: args paths k rule: less_induct)
  case less
  then obtain arg rest where args: "args = arg # rest" by (cases args) auto
  note step = find_expression_step [OF less.prems(1) [unfolded args]]
  from step(2) show ?case
  proof (elim disjE exE conjE)
    fix more
    assume rec: "find_expression rest = Some more"
    show ?thesis
    proof (cases k)
      case 0
      with step(1) less.prems(3) show ?thesis by (simp add: args)
    next
      case (Suc n)
      with less.prems(2,3) have "n < length rest" "rest ! n \<in> set find_denied" by (auto simp: args)
      with less.hyps [OF _ rec, of n] have "0 < n \<and> rest ! (n - 1) = ''-newer''" by (simp add: args)
      with Suc show ?thesis by (cases n) (auto simp: args)
    qed
  next
    fix v rest' more
    assume rest: "rest = v # rest'" and rec: "find_expression rest' = Some more"
      and v: "v \<in> set find_denied \<longrightarrow> arg = ''-newer''"
    consider "k = 0" | "k = 1" | n where "k = Suc (Suc n)" by (cases k; cases "k - 1") auto
    then show ?thesis
    proof cases
      case 1
      with step(1) less.prems(3) show ?thesis by (simp add: args)
    next
      case 2
      with v less.prems(3) show ?thesis by (simp add: args rest)
    next
      case (3 n)
      with less.prems(2,3) have "n < length rest'" "rest' ! n \<in> set find_denied"
        by (auto simp: args rest)
      with less.hyps [OF _ rec, of n] have "0 < n \<and> rest' ! (n - 1) = ''-newer''"
        by (simp add: args rest)
      with 3 show ?thesis by (cases n) (auto simp: args rest)
    qed
  qed
qed

end
