(* ===== verification/Policy_Properties.thy ===== *)
theory Policy_Properties
  imports Policy_Denial Policy_Tokens
begin

text \<open>
  The properties of the permission policy: what an allowed Bash command, read or write can touch,
  that an external denial is final, the quoting round trip, and the places where the policy is
  weaker than it means to be.
\<close>

section \<open>Vetoed decisions\<close>

text \<open>A decision procedure over which the external side has a veto.\<close>

locale vetoed =
  fixes judge :: "'r \<Rightarrow> external_decision \<Rightarrow> permission_decision run"
  assumes veto: "judge r Deny = Returns d \<Longrightarrow> \<not> allowed d"
begin

lemma allowed_needs_consent: "judge r e = Returns d \<Longrightarrow> allowed d \<Longrightarrow> e = Allow"
  using veto [of r d] by (cases e) auto

lemma batch_vetoed: "\<forall>r \<in> set rs. \<forall>d. judge r Deny = Returns d \<longrightarrow> \<not> allowed d"
  using veto by blast

end

lemma decide_denied: "\<not> allowed (decide fs l request Deny)"
  by (simp add: decide_def split: option.splits)

lemma bash_denied: "decide_agent_bash fs l input Deny = Returns d \<Longrightarrow> \<not> allowed d"
  by (auto simp: decide_agent_bash_def)

lemma zcode_denied: "decide_zcode_permission fs l params Deny = Returns d \<Longrightarrow> \<not> allowed d"
  by (auto simp: decide_zcode_permission_def Let_def decide_denied split: option.splits if_splits
      dest: bash_denied)

interpretation file_requests: vetoed "\<lambda>request e. Returns (decide fs l request e)" for fs l
  by unfold_locales (auto simp: decide_denied)

interpretation bash_requests: vetoed "decide_agent_bash fs l" for fs l
  by unfold_locales (rule bash_denied)

interpretation tool_requests: vetoed "decide_zcode_permission fs l" for fs l
  by unfold_locales (rule zcode_denied)

section \<open>Bash\<close>

definition path_in_scope :: "file_system \<Rightarrow> policy_launcher \<Rightarrow> string \<Rightarrow> string \<Rightarrow> bool" where
  "path_in_scope fs l cwd p \<longleftrightarrow>
     (case canonicalize fs (if is_absolute p then p else path_join cwd p) of
        None \<Rightarrow> False
      | Some real \<Rightarrow>
          (path_starts_with real (worktree l) \<or> (\<exists>root \<in> set (readable_inputs l). path_starts_with real root))
          \<and> \<not> is_credential_path real \<and> \<not> enters_agent_metadata l real)"

lemma confined_in_scope:
  "agent_path_confined fs l cwd file p \<Longrightarrow> path_in_scope fs l cwd p \<and> \<not> has_parent_dir p"
  unfolding agent_path_confined_def path_in_scope_def
  by (cases "canonicalize fs (if is_absolute p then p else path_join cwd p)")
    (simp_all add: is_agent_root_def list_ex_iff split del: if_split)

lemma decide_argv_allowed:
  assumes "decide_argv fs l cwd argv = Returns d" "allowed d"
  obtains program args paths where "argv = program # args" "agent_bash_program_allowed program"
    "agent_bash_path_operands program args = Some paths"
    "\<forall>p \<in> set paths. agent_path_confined fs l cwd (bash_requires_file program) p"
    "program = ''git'' \<longrightarrow> valid_agent_git args" "program = ''sed'' \<longrightarrow> valid_agent_sed args"
proof (cases argv)
  case Nil
  with assms show ?thesis
    by (auto simp: decide_argv_def agent_bash_program_allowed_def agent_bash_command_families_def)
next
  case (Cons program args)
  note run = assms(1) [unfolded Cons decide_argv_def Let_def list.case]
  have grammar: "agent_bash_program_allowed program" "program = ''git'' \<Longrightarrow> valid_agent_git args"
    "program = ''sed'' \<Longrightarrow> valid_agent_sed args"
    using run assms(2) by (simp_all split: if_splits) auto
  obtain paths where paths: "agent_bash_path_operands program args = Some paths"
    using run assms(2) by (cases "agent_bash_path_operands program args") (auto split: if_splits)
  have "agent_paths_confined fs l paths cwd (bash_requires_file program)"
    using run assms(2) paths by (auto split: if_splits)
  then show ?thesis
    using grammar paths Cons by (intro that [of program args paths])
      (simp_all add: agent_paths_confined_def list_all_iff)
qed

lemma bash_allowed:
  assumes "decide_agent_bash fs l input external = Returns d" "allowed d"
  obtains command cwd argv where "get_str input ''command'' = Some command"
    "tokenize_agent_bash command = Some argv" "is_agent_root l cwd"
    "canonicalize fs (case get_str input ''cwd'' of None \<Rightarrow> worktree l | Some p \<Rightarrow> p) = Some cwd"
    "decide_argv fs l cwd argv = Returns d"
  using assms
  by (auto simp: decide_agent_bash_def split: if_splits option.splits)


text \<open>A small file system and a read-only launcher for the witnesses.\<close>

definition sample_fs :: file_system where
  "sample_fs = \<lparr>canonicalize = (\<lambda>p.
       if List.member [''/work'', ''/work/'', ''/work/.''] p then Some ''/work''
       else if List.member [''/work/README.md'', ''/work/notes'', ''/scratch'', ''/scratch/a''] p
       then Some (if p = ''/work/notes'' then ''/work/.env'' else p)
       else None),
     symlink_metadata = (\<lambda>p.
       if List.member [''/work'', ''/work/README.md'', ''/work/notes'', ''/scratch''] p then Found
       else NotFoundError),
     is_file = (\<lambda>p. p = ''/work/README.md''),
     is_dir = (\<lambda>p. List.member [''/work'', ''/scratch''] p)\<rparr>"

definition sample_launcher :: policy_launcher where
  "sample_launcher = \<lparr>worktree = ''/work'', scratch_root = ''/scratch'',
     report_target = ''/reports/r.json'', readable_inputs = [], network_allowed = False,
     capabilities = default_capabilities, access_mode_of = ReadOnly, tracked_write_roots = [], interactive_bash = False\<rparr>"

definition bash_input :: "string \<Rightarrow> json" where
  "bash_input command = JObject [(''command'', JString command)]"

definition bash_yes :: permission_decision where
  "bash_yes = \<lparr>allowed = True, reason = ''agent_bash_allowlisted''\<rparr>"


text \<open>
  An external denial is final: whatever tool the runtime asks for, in whatever access mode
  and file system, the answer under an external denial is not an allowance, and the denial it is
  told carries the stable reason \<open>external_policy_denied\<close>.
\<close>

theorem external_denial_is_final:
  assumes "decide_zcode_permission_validated fs l params Deny = Returns (d, denial)"
  shows "\<not> allowed d \<and> denial = external_zcode_denial params \<and>
    (\<exists>s. denial = Some s \<and> reason_code s = ''external_policy_denied'')"
proof -
  from assms have d: "decide_zcode_permission fs l params Deny = Returns d"
    and denial: "denial = (if \<not> allowed d then permission_denial_semantics params ''external_policy_denied''
      else None)"
    by (auto simp: decide_zcode_permission_validated_def split: run.splits)
  have "\<not> allowed d" by (rule zcode_denied [OF d])
  with denial show ?thesis
    by (auto simp: external_zcode_denial_def permission_denial_semantics_def Let_def split: prod.splits)
qed

theorem external_denial_is_final_witness:
  "\<exists>d denial. decide_zcode_permission_validated sample_fs sample_launcher
     (JObject [(''toolName'', JString ''Read''), (''input'', JObject [(''path'', JString ''README.md'')])])
     Deny = Returns (d, denial) \<and> \<not> allowed d"
proof -
  let ?p = "JObject [(''toolName'', JString ''Read''), (''input'', JObject [(''path'', JString ''README.md'')])]"
  have "decide_zcode_permission_validated sample_fs sample_launcher ?p Deny =
      Returns (denied ''external_policy_denied'', external_zcode_denial ?p)" by code_simp
  with external_denial_is_final [OF this] show ?thesis by blast
qed

section \<open>Writes\<close>

text \<open>
  The reference definition of where the agent may write: in workspace-write mode below one of the
  tracked write roots of the worktree, outside the protected metadata; outside the worktree only
  strictly below the scratch root and not below the directory of the daemon's report.
\<close>

definition writable :: "policy_launcher \<Rightarrow> string \<Rightarrow> bool" where
  "writable l target \<longleftrightarrow>
     (\<exists>report_root. path_parent (report_target l) = Some report_root \<and>
       (if path_starts_with target (worktree l)
        then access_mode_of l = WorkspaceWrite \<and> \<not> protected_worktree_path (worktree l) target \<and>
             (\<exists>root \<in> set (tracked_write_roots l). path_starts_with target root)
        else path_starts_with target (scratch_root l) \<and> \<not> path_eq target (scratch_root l) \<and>
             \<not> path_starts_with target report_root))"

lemma path_eq_starts: "path_eq p q \<Longrightarrow> path_starts_with p q"
  by (simp add: path_eq_def path_starts_with_def)

lemma resolved_write_denial_iff: "resolved_write_denial l target = None \<longleftrightarrow> writable l target"
  by (auto simp: resolved_write_denial_def writable_def list_ex_iff path_eq_starts
      split: option.splits access_mode.splits if_splits)

text \<open>
  The write check decides exactly the reference definition of a writable place: it raises
  no objection if and only if the target is writable. In particular nothing in the worktree is
  writable in read-only mode, and protected metadata never is.
\<close>

theorem write_check_matches_reference:
  "(resolved_write_denial l target = None) = writable l target"
  by (rule resolved_write_denial_iff)

lemma lexical_entry_state_Inr:
  assumes "lexical_entry_state fs l p must_exist = Inr st"
  shows "is_absolute p" "\<not> has_parent_dir p" "writable l p"
    and "\<exists>candidate. writable l candidate \<and>
      (if st = ExistingEntry then canonical_parent_entry fs p = Inr candidate
       else resolve_nonexistent_entry fs p = Some candidate \<and> \<not> must_exist)"
  using assms
  by (auto simp: lexical_entry_state_def resolved_write_denial_iff result_simps
      split: if_splits option.splits entry_lookup.splits)

lemma followed_write_None:
  assumes "followed_write_denial fs l p must_exist = None"
  shows "writable l p \<and> \<not> has_parent_dir p \<and>
    (\<exists>candidate. writable l candidate \<and>
      (canonicalize fs p = Some candidate \<or> resolve_nonexistent_entry fs p = Some candidate))"
proof -
  from assms obtain st where st: "lexical_entry_state fs l p must_exist = Inr st"
    by (auto simp: followed_write_denial_def split: sum.splits)
  note facts = lexical_entry_state_Inr [OF st]
  show ?thesis
  proof (cases st)
    case ExistingEntry
    with assms st facts show ?thesis
      by (auto simp: followed_write_denial_def canonical_write_denial_def resolved_write_denial_iff
          split: option.splits)
  next
    case MissingEntry
    with facts show ?thesis by auto
  qed
qed

text \<open>
  Claim C18. An allowed write stays where the agent may write, lexically and after following links:
  the path as requested has no \<open>..\<close> and is writable, and so is what it resolves to, the
  canonical path of an existing target or, for a missing one, its canonical existing ancestor
  with the missing names appended.
\<close>

theorem allowed_write_is_confined:
  assumes "allowed (decide fs l request external)"
    "request = Write p \<or> request = Edit p"
  shows "external = Allow \<and> writable l p \<and> \<not> has_parent_dir p \<and>
    (\<exists>target. writable l target \<and>
      (canonicalize fs p = Some target \<or> resolve_nonexistent_entry fs p = Some target))"
proof -
  have "external = Allow"
    using assms(1) decide_denied [of fs l request] by (cases external) auto
  moreover have "\<exists>b. followed_write_denial fs l p b = None"
    using assms by (auto simp: decide_def split: option.splits)
  ultimately show ?thesis using followed_write_None by blast
qed

theorem allowed_write_is_confined_witness:
  "writable sample_launcher ''/scratch/a/b''"
proof -
  have "allowed (decide sample_fs sample_launcher (Write ''/scratch/a/b'') Allow)"
    by (simp add: decide_def followed_write_denial_def lexical_entry_state_def
        resolve_nonexistent_entry_def climb_to_existing.simps [of sample_fs "''/scratch/a/b''"]
        climb_to_existing.simps [of sample_fs "''/scratch/a''"]
        climb_to_existing.simps [of sample_fs "''/scratch''"]) code_simp
  from allowed_write_is_confined [OF this] show ?thesis by simp
qed

text \<open>
  Deleting and moving are confined like writing: an allowed delete has a writable target,
  an allowed move a writable source and a writable destination, each also after resolving the
  directory it lies in.
\<close>

theorem allowed_delete_and_move_are_confined:
  assumes "allowed (decide fs l request external)"
    "request = Delete p \<or> request = Move p q \<or> request = Move q p"
  shows "writable l p \<and> \<not> has_parent_dir p \<and> (\<exists>candidate. writable l candidate \<and>
    (canonical_parent_entry fs p = Inr candidate \<or> resolve_nonexistent_entry fs p = Some candidate))"
proof -
  have "(\<exists>st. lexical_entry_state fs l p True = Inr st) \<or> (\<exists>st. lexical_entry_state fs l p False = Inr st)"
    using assms
    by (auto simp: decide_def lexical_entry_denial_def split: option.splits sum.splits)
  then obtain b st where st: "lexical_entry_state fs l p b = Inr st" by blast
  from lexical_entry_state_Inr [OF st] show ?thesis by (cases st) auto
qed

definition sample_writer :: policy_launcher where
  "sample_writer = sample_launcher\<lparr>access_mode_of := WorkspaceWrite, tracked_write_roots := [''/work'']\<rparr>"

theorem allowed_delete_and_move_are_confined_witness: "writable sample_writer ''/work/README.md''"
proof -
  have "allowed (decide sample_fs sample_writer (Delete ''/work/README.md'') Allow)" by code_simp
  from allowed_delete_and_move_are_confined [OF this] show ?thesis by blast
qed

section \<open>Reads\<close>

text \<open>
  An allowed read stays in the worktree or a readable input: the requested path is not a
  credential path, and what it resolves to lies in one of those roots and is not agent metadata.
\<close>

theorem allowed_read_is_in_scope:
  assumes "allowed (decide fs l (Read p) external)"
  shows "external = Allow \<and> \<not> is_credential_path p \<and>
    (\<exists>real. canonicalize fs p = Some real \<and> is_agent_root l real \<and> \<not> enters_agent_metadata l real)"
  using assms
  by (cases external) (auto simp: decide_def is_agent_root_def split: option.splits if_splits)

theorem allowed_read_is_in_scope_witness:
  "\<exists>real. canonicalize sample_fs ''/work/README.md'' = Some real \<and> is_agent_root sample_launcher real"
proof -
  have "allowed (decide sample_fs sample_launcher (Read ''/work/README.md'') Allow)" by code_simp
  from allowed_read_is_in_scope [OF this] show ?thesis by blast
qed

text \<open>
  A read does not look behind links for credentials: with the same launcher and file system
  the Read tool is allowed for a link in the worktree whose target is a credential file, while
  the Bash command that reads the same link is denied.
\<close>

theorem read_follows_link_to_credential:
  "\<exists>fs l p real. canonicalize fs p = Some real \<and> is_credential_path real \<and>
     allowed (decide fs l (Read p) Allow) \<and>
     (\<exists>d. decide_agent_bash fs l (bash_input (''cat '' @ p)) Allow = Returns d \<and> \<not> allowed d)"
proof (intro exI conjI)
  show "canonicalize sample_fs ''/work/notes'' = Some ''/work/.env''"
    "is_credential_path ''/work/.env''"
    "allowed (decide sample_fs sample_launcher (Read ''/work/notes'') Allow)"
    "decide_agent_bash sample_fs sample_launcher (bash_input (''cat '' @ ''/work/notes'')) Allow =
       Returns (denied ''path_outside_agent_roots'')"
    "\<not> allowed (denied ''path_outside_agent_roots'')"
    by code_simp+
qed

section \<open>The grammar\<close>

text \<open>
  The tokenizer reads back what is quoted: joining any words that are not empty and contain
  neither a single quote nor a line break, each in single quotes and separated by blanks, and
  tokenizing the command gives exactly those words, whatever shell characters they contain.
\<close>

theorem quoted_words_read_back:
  assumes "list_all quotable words" "words \<noteq> []" "length words \<le> 128"
    "length (quote_command words) \<le> 16384"
  shows "tokenize_agent_bash (quote_command words) = Some words"
proof -
  have "quote_command words \<noteq> []"
    using assms(2) by (cases words rule: quote_command.cases) (auto simp: quote_word_def)
  moreover have "[nl] \<notin> set (chars (quote_command words))" "[cr] \<notin> set (chars (quote_command words))"
    using quote_command_clean [OF assms(1)] chars_subset [of "[nl]"] chars_subset [of "[cr]"] by fastforce+
  ultimately show ?thesis
    using scan_quote_command [OF assms(2,1), of "[]"] assms(2-4)
    by (auto simp: tokenize_agent_bash_def list_ex_iff)
qed

theorem quoted_words_read_back_witness:
  "tokenize_agent_bash (quote_command [''grep'', ''a;b|c'', ''README.md'']) =
     Some [''grep'', ''a;b|c'', ''README.md'']"
  by (rule quoted_words_read_back) code_simp+

text \<open>
  The git grammar admits only read-only commands: the subcommand is one of the eight
  read-only ones; before the separator \<open>--\<close> there is none of the options that write a file, run
  a program or leave the repository; everything after it is a relative path without \<open>..\<close> that is
  neither a credential nor agent metadata; and \<open>cat-file\<close> has one such operand.
\<close>

theorem git_grammar_is_read_only:
  assumes "valid_agent_git args"
  shows "\<exists>sub sub_args. (args = sub # sub_args \<or> args = ''--no-pager'' # sub # sub_args) \<and>
    sub \<in> set git_read_only \<and>
    (if sub = ''cat-file''
     then \<exists>flag operand. sub_args = [flag, operand] \<and> safe_agent_git_operand operand
     else (\<forall>a \<in> set (before_separator sub_args). \<not> git_denied_option a) \<and>
          (\<forall>a \<in> set (after_separator sub_args). a = ''--'' \<or> safe_agent_git_operand a))"
proof (rule valid_agent_git_cases [OF assms])
  fix sub sub_args
  assume shape: "args = sub # sub_args \<or> args = ''--no-pager'' # sub # sub_args"
    and sub: "sub \<in> set git_read_only"
    and ok: "sub \<noteq> ''cat-file'' \<Longrightarrow> separated_ok sub_args"
    and cat: "sub = ''cat-file'' \<Longrightarrow> valid_agent_git_cat_file sub_args"
  show ?thesis
  proof (cases "sub = ''cat-file''")
    case True
    with cat have "\<exists>flag operand. sub_args = [flag, operand] \<and> safe_agent_git_operand operand"
      by (auto simp: valid_agent_git_cat_file_def split: list.splits)
    with True shape sub show ?thesis by (intro exI [of _ sub] exI [of _ sub_args]) simp
  next
    case False
    with ok shape sub show ?thesis
      by (intro exI [of _ sub] exI [of _ sub_args]) (simp add: separated_ok_def)
  qed
qed

theorem git_grammar_is_read_only_witness:
  "\<exists>sub sub_args. ([''log'', ''--oneline'', ''--'', ''src''] = sub # sub_args \<or>
      [''log'', ''--oneline'', ''--'', ''src''] = ''--no-pager'' # sub # sub_args) \<and>
      sub \<in> set git_read_only"
proof -
  have "valid_agent_git [''log'', ''--oneline'', ''--'', ''src'']" by code_simp
  from git_grammar_is_read_only [OF this] obtain sub sub_args
    where shape: "[''log'', ''--oneline'', ''--'', ''src''] = sub # sub_args \<or>
      [''log'', ''--oneline'', ''--'', ''src''] = ''--no-pager'' # sub # sub_args"
    and sub: "sub \<in> set git_read_only"
    by (elim exE conjE) (rule that)
  show ?thesis by (rule exI [of _ sub], rule exI [of _ sub_args], rule conjI [OF shape sub])
qed

text \<open>
  The find grammar admits no action: in an accepted argument list no action that executes,
  deletes, prints or follows links stands in the position of a test; such a word can only occur
  as the file that \<open>-newer\<close> compares with, which is checked as a path.
\<close>

theorem find_grammar_has_no_action:
  assumes "valid_agent_find args = Some paths" "k < length args" "args ! k \<in> set find_denied"
  shows "0 < k \<and> args ! (k - 1) = ''-newer''"
proof -
  let ?P = "\<lambda>arg. \<not> starts_with arg ''-''"
  let ?ps = "takeWhile ?P args" and ?expr = "dropWhile ?P args"
  from assms(1) obtain more where more: "find_expression ?expr = Some more"
    by (auto simp: valid_agent_find_def Let_def split: if_splits)
  have split: "args = ?ps @ ?expr" by simp
  have "length ?ps \<le> k"
  proof (rule ccontr)
    assume "\<not> length ?ps \<le> k"
    then have "k < length ?ps" by simp
    then have "args ! k = ?ps ! k" by (metis split nth_append)
    with \<open>k < length ?ps\<close> have "args ! k \<in> set ?ps" by simp
    then have "\<not> starts_with (args ! k) ''-''" by (auto dest: set_takeWhileD)
    with find_denied_dashed [OF assms(3)] show False by simp
  qed
  then obtain n where n: "k = length ?ps + n" by (auto simp: le_iff_add)
  then have at: "args ! k = ?expr ! n" "n < length ?expr"
    using assms(2) split by (metis nth_append_length_plus, metis add_less_cancel_left length_append)
  from find_expression_safe [OF more at(2)] at(1) assms(3) have "0 < n" "?expr ! (n - 1) = ''-newer''"
    by auto
  moreover from this n have "args ! (k - 1) = ?expr ! (n - 1)"
    by (metis (no_types, lifting) Nat.add_diff_assoc One_nat_def Suc_leI split nth_append_length_plus)
  ultimately show ?thesis using n by simp
qed

theorem find_grammar_has_no_action_witness:
  "0 < (3::nat) \<and> [''.'', ''-empty'', ''-newer'', ''-print''] ! (3 - 1) = ''-newer''"
proof -
  have "valid_agent_find [''.'', ''-empty'', ''-newer'', ''-print''] = Some [''.'', ''-print'']" by code_simp
  from find_grammar_has_no_action [OF this, of 3] show ?thesis by (simp add: find_denied_def)
qed

end
