(* ===== verification/Policy_Limits.thy ===== *)
theory Policy_Limits
  imports Policy_Properties
begin

text \<open>
  More properties of the permission policy: how a launcher is built, that the file operands of the simple readers are all
  checked, when the policy panics, which commands slip through its tokenizer, and when two denials
  count as the same operation.
\<close>

section \<open>Construction\<close>

text \<open>
  A launcher is built well-formed: in read-only mode it has no write roots; in
  workspace-write mode every write root was given relative and without \<open>..\<close>, lies in the
  worktree and enters no protected metadata; the network is off, interactive Bash is off, and the
  worktree and the readable inputs are canonical paths.
\<close>

theorem launcher_is_well_formed:
  assumes "for_general fs wt scratch target inputs caps mode roots = Inr l" "canonical_answers fs"
  shows "access_mode_of l = mode \<and> \<not> network_allowed l \<and> \<not> interactive_bash l \<and>
    canonicalize fs wt = Some (worktree l) \<and>
    (\<forall>input \<in> set (readable_inputs l). \<exists>given \<in> set inputs. canonicalize fs given = Some input) \<and>
    (mode = ReadOnly \<longrightarrow> tracked_write_roots l = []) \<and>
    (\<forall>root \<in> set (tracked_write_roots l). path_starts_with root (worktree l) \<and>
       \<not> protected_worktree_path (worktree l) root \<and>
       (\<exists>given \<in> set roots. root = path_join (worktree l) given \<and> \<not> has_parent_dir given))"
  by (rule for_general_Inr [OF assms])

definition writer_setup :: "preparation_error + policy_launcher" where
  "writer_setup = for_general sample_fs ''/work/'' ''/scratch'' ''/scratch/r.json'' [''/work/notes'']
     default_capabilities WorkspaceWrite [''src'']"

theorem launcher_is_well_formed_witness:
  "\<exists>l. writer_setup = Inr l \<and> tracked_write_roots l = [''/work/src''] \<and>
     path_starts_with ''/work/src'' (worktree l)"
proof -
  have "canonical_answers sample_fs" by (simp add: canonical_answers_def sample_fs_def is_absolute_def)
  moreover have "writer_setup = Inr \<lparr>worktree = ''/work'', scratch_root = ''/scratch'',
      report_target = ''/scratch/r.json'', readable_inputs = [''/work/.env''], network_allowed = False,
      capabilities = default_capabilities, access_mode_of = WorkspaceWrite,
      tracked_write_roots = [''/work/src''], interactive_bash = False\<rparr>"
    unfolding writer_setup_def by code_simp
  ultimately show ?thesis
    using launcher_is_well_formed [of sample_fs "''/work/''" "''/scratch''" "''/scratch/r.json''"
      "[''/work/notes'']" default_capabilities WorkspaceWrite "[''src'']"]
    by (auto simp: writer_setup_def)
qed

section \<open>Operands of the simple readers\<close>

text \<open>The options of the commands with a simple option table whose next word is a value.\<close>

definition simple_value_options :: "string \<Rightarrow> string list" where
  "simple_value_options program =
     (if program = ''ls'' then [''--time-style'']
      else if program = ''stat'' then [''-f'', ''-c'', ''--format'', ''--printf'']
      else if program = ''shasum'' \<or> program = ''cksum'' then [''-a'', ''--algorithm'', ''--length'']
      else [])"

definition simple_readers :: "string list" where
  "simple_readers = [''ls'', ''stat'', ''wc'', ''cat'', ''shasum'', ''cksum'']"

lemma required_path_operands_Some:
  "required_path_operands args bools vals = Some paths \<Longrightarrow> simple_operands bools vals False args = Some paths"
  by (auto simp: required_path_operands_def simple_path_operands_def split: option.splits if_splits)

lemma simple_reader_operands:
  assumes "program \<in> set simple_readers" "agent_bash_path_operands program args = Some paths"
    "k < length args" "\<not> starts_with (args ! k) ''-''"
  shows "args ! k \<in> set paths \<or> (0 < k \<and> args ! (k - 1) \<in> set (simple_value_options program))"
proof -
  from assms(1) have "program = ''ls'' \<or> program = ''stat'' \<or> program = ''wc'' \<or> program = ''cat'' \<or>
      program = ''shasum'' \<or> program = ''cksum''"
    by (simp add: simple_readers_def)
  then have "\<exists>bools. simple_operands bools (simple_value_options program) False args = Some paths \<and> dashed bools"
    using assms(2)
    by - (elim disjE; simp add: simple_value_options_def agent_bash_path_operands_def simple_path_operands_def;
        (drule required_path_operands_Some)?; intro exI conjI, assumption, simp add: dashed_def)
  then obtain bools where "dashed bools"
    "simple_operands bools (simple_value_options program) False args = Some paths" by blast
  moreover have "dashed (simple_value_options program)"
    by (simp add: simple_value_options_def dashed_def)
  ultimately show ?thesis using simple_operands_complete assms(3,4) by blast
qed

text \<open>
  No file operand of a simple reader is overlooked: when a command \<open>ls\<close>, \<open>stat\<close>, \<open>wc\<close>,
  \<open>cat\<close>, \<open>shasum\<close> or \<open>cksum\<close> is allowed, every word of it that is not an option and not the
  value of an option with a separate value resolves to a place in the worktree or a readable
  input that is neither a credential nor agent metadata.
\<close>

theorem reader_operands_are_checked:
  assumes "decide_agent_bash fs l input external = Returns d" "allowed d"
    "get_str input ''command'' = Some command"
    "tokenize_agent_bash command = Some (program # args)" "program \<in> set simple_readers"
    "k < length args" "\<not> starts_with (args ! k) ''-''"
    "k = 0 \<or> args ! (k - 1) \<notin> set (simple_value_options program)"
  shows "\<exists>cwd. is_agent_root l cwd \<and> path_in_scope fs l cwd (args ! k)"
proof -
  obtain cwd where cwd: "is_agent_root l cwd" "decide_argv fs l cwd (program # args) = Returns d"
    using bash_allowed [OF assms(1,2)] assms(3,4) by (metis option.inject)
  obtain paths where paths: "agent_bash_path_operands program args = Some paths"
    "\<forall>p \<in> set paths. agent_path_confined fs l cwd (bash_requires_file program) p"
    using decide_argv_allowed [OF cwd(2) assms(2)] by (metis list.inject)
  from simple_reader_operands [OF assms(5) paths(1) assms(6,7)] assms(8)
  have "args ! k \<in> set paths" by auto
  with paths(2) confined_in_scope cwd(1) show ?thesis by blast
qed

theorem reader_operands_are_checked_witness:
  "\<exists>cwd. is_agent_root sample_launcher cwd \<and> path_in_scope sample_fs sample_launcher cwd ''README.md''"
proof -
  have "decide_agent_bash sample_fs sample_launcher (bash_input ''cat -n README.md'') Allow = Returns bash_yes"
    "tokenize_agent_bash ''cat -n README.md'' = Some (''cat'' # [''-n'', ''README.md''])"
    by code_simp+
  from reader_operands_are_checked [OF this(1) _ _ this(2), of 1] show ?thesis
    by (simp add: bash_yes_def bash_input_def get_str_def simple_readers_def simple_value_options_def)
qed

section \<open>Panics\<close>

lemma decide_argv_panics: "decide_argv fs l cwd argv = Panics \<longleftrightarrow> argv = [''git'']"
proof
  assume run: "decide_argv fs l cwd argv = Panics"
  then obtain program args where argv: "argv = program # args"
    by (cases argv) (auto simp: decide_argv_def agent_bash_program_allowed_def agent_bash_command_families_def)
  show "argv = [''git'']"
    using run unfolding argv decide_argv_def Let_def list.case
    by (auto split: if_splits option.splits simp: less_Suc_eq_0_disj)
qed (simp add: decide_argv_def agent_bash_program_allowed_def agent_bash_command_families_def)

text \<open>
  The policy answers every request except one: deciding a tool request panics exactly for
  an externally allowed Bash request in read-only mode, with a working directory in scope, whose
  command is the single word \<open>git\<close>.
\<close>

theorem policy_panics_exactly_on_bare_git:
  "decide_zcode_permission fs l params external = Panics \<longleftrightarrow>
     get_str params ''toolName'' = Some ''Bash'' \<and> access_mode_of l = ReadOnly \<and> external = Allow \<and>
     (\<exists>input command cwd. input = (case get params ''input'' of None \<Rightarrow> JNull | Some v \<Rightarrow> v) \<and>
        get_str input ''command'' = Some command \<and> tokenize_agent_bash command = Some [''git''] \<and>
        canonicalize fs (case get_str input ''cwd'' of None \<Rightarrow> worktree l | Some p \<Rightarrow> p) = Some cwd \<and>
        is_agent_root l cwd)"
proof -
  have bash: "decide_agent_bash fs l input external = Panics \<longleftrightarrow> external = Allow \<and>
      (\<exists>command cwd. get_str input ''command'' = Some command \<and>
        tokenize_agent_bash command = Some [''git''] \<and>
        canonicalize fs (case get_str input ''cwd'' of None \<Rightarrow> worktree l | Some p \<Rightarrow> p) = Some cwd \<and>
        is_agent_root l cwd)" for input
    by (cases external)
      (auto simp: decide_agent_bash_def decide_argv_panics split: option.splits if_splits)
  show ?thesis
  proof (cases "get_str params ''toolName'' = Some ''Bash'' \<and> access_mode_of l = ReadOnly")
    case True
    then show ?thesis by (simp add: decide_zcode_permission_def Let_def bash)
  next
    case False
    then have "decide_zcode_permission fs l params external \<noteq> Panics"
      by (auto simp: decide_zcode_permission_def Let_def split: option.splits)
    with False show ?thesis by blast
  qed
qed

section \<open>What the tokenizer lets through\<close>

definition rg_empty_pattern :: string where
  "rg_empty_pattern = ''rg '' @ [CHR 0x27, CHR 0x27] @ '' /etc/passwd''"

text \<open>
  An empty quoted word is lost: the shell runs \<open>rg '' /etc/passwd\<close> with an empty pattern
  and the file \<open>/etc/passwd\<close>, but the tokenizer drops the empty word, the policy takes the file
  for the pattern, checks no path and allows the command, for every launcher in read-only mode
  and every file system in which the worktree exists.
\<close>

theorem empty_word_hides_a_path:
  assumes "canonicalize fs (worktree l) = Some cwd" "is_agent_root l cwd"
  shows "tokenize_agent_bash rg_empty_pattern = Some [''rg'', ''/etc/passwd''] \<and>
    decide_agent_bash fs l (bash_input rg_empty_pattern) Allow = Returns bash_yes"
proof
  show tokens: "tokenize_agent_bash rg_empty_pattern = Some [''rg'', ''/etc/passwd'']"
    by code_simp
  have operands: "agent_bash_path_operands ''rg'' [''/etc/passwd''] = Some []" by code_simp
  show "decide_agent_bash fs l (bash_input rg_empty_pattern) Allow = Returns bash_yes"
    using assms
    by (simp add: decide_agent_bash_def bash_input_def get_str_def tokens decide_argv_def operands
        agent_bash_program_allowed_def agent_bash_command_families_def agent_paths_confined_def
        bash_yes_def)
qed

theorem empty_word_hides_a_path_witness:
  "decide_agent_bash sample_fs sample_launcher (bash_input rg_empty_pattern) Allow = Returns bash_yes"
proof -
  have "canonicalize sample_fs (worktree sample_launcher) = Some ''/work''"
    "is_agent_root sample_launcher ''/work''" by code_simp+
  from empty_word_hides_a_path [OF this] show ?thesis by blast
qed

definition grep_substitution :: string where
  "grep_substitution = ''grep '' @ [CHR 0x22] @ ''$(touch /work/x)'' @ [CHR 0x22] @ '' README.md''"

text \<open>
  Double quotes hide expansions: inside them the shell still substitutes commands, but the
  tokenizer treats both kinds of quotes alike, so a search whose pattern is a command
  substitution in double quotes is allowed although the same word without quotes is denied.
\<close>

theorem double_quotes_hide_substitution:
  "\<exists>fs l. decide_agent_bash fs l (bash_input grep_substitution) Allow = Returns bash_yes \<and>
     decide_agent_bash fs l (bash_input ''grep $(touch /work/x) README.md'') Allow =
       Returns (denied ''shell_composition_or_expansion_denied'')"
proof (intro exI conjI)
  show "decide_agent_bash sample_fs sample_launcher (bash_input grep_substitution) Allow = Returns bash_yes"
    "decide_agent_bash sample_fs sample_launcher (bash_input ''grep $(touch /work/x) README.md'') Allow =
       Returns (denied ''shell_composition_or_expansion_denied'')"
    by code_simp+
qed

section \<open>Repeated denials\<close>

lemma append_separated:
  "a @ c # x = b @ c # y \<Longrightarrow> c \<notin> set a \<Longrightarrow> c \<notin> set b \<Longrightarrow> a = b \<and> x = y"
  by (induction a arbitrary: b) (case_tac b; auto)+

text \<open>
  A fingerprint identifies a denied operation: for denials whose program family, category
  and reason contain no semicolon, two fingerprints are equal if and only if the denials have the
  same family, category, reason and operand class; the retry advice does not take part.
\<close>

theorem fingerprint_identifies_operation:
  assumes "\<forall>d \<in> {d1, d2}. CHR '';'' \<notin> set (program_family d) \<and> CHR '';'' \<notin> set (category d) \<and>
    CHR '';'' \<notin> set (reason_code d)"
  shows "fingerprint d1 = fingerprint d2 \<longleftrightarrow>
    program_family d1 = program_family d2 \<and> category d1 = category d2 \<and>
    reason_code d1 = reason_code d2 \<and> operand_class d1 = operand_class d2"
proof
  assume "fingerprint d1 = fingerprint d2"
  then have eq: "program_family d1 @ CHR '';'' # ''category='' @ category d1 @ CHR '';'' # ''reason='' @
      reason_code d1 @ CHR '';'' # ''operand='' @ operand_class d1 =
      program_family d2 @ CHR '';'' # ''category='' @ category d2 @ CHR '';'' # ''reason='' @
      reason_code d2 @ CHR '';'' # ''operand='' @ operand_class d2"
    by (simp add: fingerprint_def)
  from append_separated [OF eq] assms
  have family: "program_family d1 = program_family d2"
    and rest: "category d1 @ CHR '';'' # ''reason='' @ reason_code d1 @ CHR '';'' # ''operand='' @ operand_class d1 =
      category d2 @ CHR '';'' # ''reason='' @ reason_code d2 @ CHR '';'' # ''operand='' @ operand_class d2"
    by simp_all
  from append_separated [OF rest] assms
  have cat: "category d1 = category d2"
    and rest: "reason_code d1 @ CHR '';'' # ''operand='' @ operand_class d1 =
      reason_code d2 @ CHR '';'' # ''operand='' @ operand_class d2"
    by simp_all
  from append_separated [OF rest] assms family cat
  show "program_family d1 = program_family d2 \<and> category d1 = category d2 \<and>
    reason_code d1 = reason_code d2 \<and> operand_class d1 = operand_class d2" by simp
qed (simp add: fingerprint_def)

definition sample_denial :: "string \<Rightarrow> denial_semantics" where
  "sample_denial operand = \<lparr>program_family = ''git'', category = ''commit'',
     reason_code = ''git_option_or_mutation_denied'', operand_class = operand,
     retry_class = ''do_not_retry_equivalent'', recommended_action = ''stop_evidence_path''\<rparr>"

theorem fingerprint_identifies_operation_witness:
  "fingerprint (sample_denial ''mutation'') \<noteq> fingerprint (sample_denial ''option_or_operand'')"
proof -
  have "\<forall>d \<in> {sample_denial ''mutation'', sample_denial ''option_or_operand''}.
      CHR '';'' \<notin> set (program_family d) \<and> CHR '';'' \<notin> set (category d) \<and> CHR '';'' \<notin> set (reason_code d)"
    by (simp add: sample_denial_def)
  from fingerprint_identifies_operation [OF this] show ?thesis by (simp add: sample_denial_def)
qed

end
