(* ===== verification/Prep_Hooks.thy ===== *)
theory Prep_Hooks
  imports Policy_Path Json
begin

text \<open>
  The provenance of the installed agent hooks (\<open>crates/zcode-agent-preparation/src/lib.rs\<close>): the
  record is trusted only when every file it names has the recorded digest and the configuration
  registers exactly the expected hooks.

  Reading a file, SHA-256, the JSON parser and the environment variable are parameters (record
  \<open>hook_host\<close>). A text that repeats a member of the record is refused by the derived parser;
  the parameter \<open>parse_json\<close> answers nothing for it.
\<close>

record hook_host =
  read_bytes :: "string \<Rightarrow> string option"
  sha256_bytes :: "string \<Rightarrow> string"
  parse_json :: "string \<Rightarrow> json option"
  provenance_path :: "string option"

definition agent_file_policy_version :: string where
  "agent_file_policy_version = ''zcode-agent-file-policy/v1.0.0''"

record agent_hook_provenance =
  effective_file_policy_version :: "string option"
  effective_file_policy_sha256 :: "string option"
  effective_file_policy_path :: "string option"
  effective_config_path :: "string option"
  effective_config_sha256 :: "string option"
  effective_guard_wrapper_path :: "string option"
  effective_guard_wrapper_sha256 :: "string option"
  effective_audit_wrapper_path :: "string option"
  effective_audit_wrapper_sha256 :: "string option"
  effective_file_wrapper_path :: "string option"
  effective_file_wrapper_sha256 :: "string option"
  hook_activation_verified :: bool
  activation_method :: "string option"
  activation_generation :: "string option"

definition unverified :: agent_hook_provenance where
  "unverified = \<lparr>effective_file_policy_version = None, effective_file_policy_sha256 = None,
     effective_file_policy_path = None, effective_config_path = None, effective_config_sha256 = None,
     effective_guard_wrapper_path = None, effective_guard_wrapper_sha256 = None,
     effective_audit_wrapper_path = None, effective_audit_wrapper_sha256 = None,
     effective_file_wrapper_path = None, effective_file_wrapper_sha256 = None,
     hook_activation_verified = False, activation_method = None, activation_generation = None\<rparr>"

section \<open>Reading the record\<close>

text \<open>An optional text member: absent or null is nothing, anything else must be a text.\<close>

definition text_member :: "json \<Rightarrow> string \<Rightarrow> string option option" where
  "text_member v key =
     (case get v key of
        None \<Rightarrow> Some None
      | Some JNull \<Rightarrow> Some None
      | Some (JString s) \<Rightarrow> Some (Some s)
      | Some _ \<Rightarrow> None)"

definition decode_provenance :: "json \<Rightarrow> agent_hook_provenance option" where
  "decode_provenance v =
     Option.bind (as_object v) (\<lambda>_.
     Option.bind (text_member v ''effective_file_policy_version'') (\<lambda>a.
     Option.bind (text_member v ''effective_file_policy_sha256'') (\<lambda>b.
     Option.bind (text_member v ''effective_file_policy_path'') (\<lambda>c.
     Option.bind (text_member v ''effective_config_path'') (\<lambda>d.
     Option.bind (text_member v ''effective_config_sha256'') (\<lambda>e.
     Option.bind (text_member v ''effective_guard_wrapper_path'') (\<lambda>f.
     Option.bind (text_member v ''effective_guard_wrapper_sha256'') (\<lambda>g.
     Option.bind (text_member v ''effective_audit_wrapper_path'') (\<lambda>i.
     Option.bind (text_member v ''effective_audit_wrapper_sha256'') (\<lambda>j.
     Option.bind (text_member v ''effective_file_wrapper_path'') (\<lambda>k.
     Option.bind (text_member v ''effective_file_wrapper_sha256'') (\<lambda>l.
     Option.bind (Option.bind (get v ''hook_activation_verified'') as_bool) (\<lambda>m.
     Option.bind (text_member v ''activation_method'') (\<lambda>n.
     Option.bind (text_member v ''activation_generation'') (\<lambda>p.
     Some \<lparr>effective_file_policy_version = a, effective_file_policy_sha256 = b,
       effective_file_policy_path = c, effective_config_path = d, effective_config_sha256 = e,
       effective_guard_wrapper_path = f, effective_guard_wrapper_sha256 = g,
       effective_audit_wrapper_path = i, effective_audit_wrapper_sha256 = j,
       effective_file_wrapper_path = k, effective_file_wrapper_sha256 = l,
       hook_activation_verified = m, activation_method = n, activation_generation = p\<rparr>)))))))))))))))"

section \<open>Checks\<close>

definition file_hash_matches :: "hook_host \<Rightarrow> string option \<Rightarrow> string option \<Rightarrow> bool" where
  "file_hash_matches h p expected =
     (case (p, expected) of
        (Some path, Some digest) \<Rightarrow>
          (case read_bytes h path of None \<Rightarrow> False | Some bytes \<Rightarrow> sha256_bytes h bytes = digest)
      | _ \<Rightarrow> False)"

fun pointer :: "json \<Rightarrow> string list \<Rightarrow> json option" where
  "pointer v [] = Some v"
| "pointer v (key # keys) = Option.bind (get v key) (\<lambda>w. pointer w keys)"

definition hook_entry_ok :: "json \<Rightarrow> string \<Rightarrow> bool" where
  "hook_entry_ok entry expected_path =
     (let hook = (case Option.bind (get entry ''hooks'') as_array of Some [x] \<Rightarrow> Some x | _ \<Rightarrow> None);
          member = (\<lambda>key. Option.bind hook (\<lambda>x. get x key))
      in get entry ''description'' = None \<and>
         Option.bind (member ''type'') as_str = Some ''process'' \<and>
         Option.bind (member ''timeoutMs'') as_u64 = Some 5000 \<and>
         Option.bind (member ''command'') as_str = Some ''node'' \<and>
         (case Option.bind (member ''args'') as_array of
            Some [arg] \<Rightarrow> as_str arg = Some expected_path
          | _ \<Rightarrow> False))"

definition config_event_references :: "json \<Rightarrow> string \<Rightarrow> string \<Rightarrow> string \<Rightarrow> bool" where
  "config_event_references config event matcher expected_path =
     (case Option.bind (pointer config [''hooks'', ''events'', event]) as_array of
        None \<Rightarrow> False
      | Some entries \<Rightarrow>
          (case filter (\<lambda>entry. get_str entry ''matcher'' = Some matcher) entries of
             [entry] \<Rightarrow> hook_entry_ok entry expected_path
           | _ \<Rightarrow> False))"

definition file_tools_matcher :: string where
  "file_tools_matcher = ''^(Read|Grep|Glob|Write|Edit|Delete|Move)$''"

definition config_registers_hooks :: "json \<Rightarrow> string \<Rightarrow> string \<Rightarrow> string \<Rightarrow> bool" where
  "config_registers_hooks config guard_path audit_path file_wrapper_path \<longleftrightarrow>
     Option.bind (pointer config [''hooks'', ''enabled'']) as_bool = Some True \<and>
     config_event_references config ''PreToolUse'' ''Bash'' guard_path \<and>
     config_event_references config ''PostToolUse'' ''Bash'' audit_path \<and>
     config_event_references config ''PostToolUseFailure'' ''Bash'' audit_path \<and>
     config_event_references config ''PreToolUse'' file_tools_matcher file_wrapper_path"

definition effective_config_references_hook :: "hook_host \<Rightarrow> agent_hook_provenance \<Rightarrow> bool" where
  "effective_config_references_hook h r =
     (case (effective_config_path r, effective_config_sha256 r, effective_guard_wrapper_path r,
            effective_guard_wrapper_sha256 r, effective_audit_wrapper_path r,
            effective_audit_wrapper_sha256 r, effective_file_policy_path r,
            effective_file_wrapper_path r, effective_file_wrapper_sha256 r) of
        (Some config_path, Some config_sha, Some guard_path, Some guard_sha, Some audit_path,
         Some audit_sha, Some policy_path, Some wrapper_path, Some wrapper_sha) \<Rightarrow>
          if \<not> file_hash_matches h (Some config_path) (Some config_sha)
             \<or> \<not> file_hash_matches h (Some guard_path) (Some guard_sha)
             \<or> \<not> file_hash_matches h (Some audit_path) (Some audit_sha)
             \<or> \<not> file_hash_matches h (Some policy_path) (effective_file_policy_sha256 r)
             \<or> \<not> file_hash_matches h (Some wrapper_path) (Some wrapper_sha)
          then False
          else
            (case Option.bind (path_parent guard_path) path_parent of
               None \<Rightarrow> False
             | Some hook_root \<Rightarrow>
                 if \<not> path_eq audit_path (path_join hook_root ''hooks/audit-bash-result.mjs'')
                    \<or> \<not> path_eq policy_path (path_join hook_root ''lib/agent-file-policy.mjs'')
                    \<or> \<not> path_eq wrapper_path (path_join hook_root ''hooks/check-agent-files.mjs'')
                 then False
                 else
                   (case Option.bind (read_bytes h config_path) (parse_json h) of
                      None \<Rightarrow> False
                    | Some config \<Rightarrow> config_registers_hooks config guard_path audit_path wrapper_path))
      | _ \<Rightarrow> False)"

definition nonempty_text :: "string option \<Rightarrow> bool" where
  "nonempty_text v = (case v of None \<Rightarrow> False | Some s \<Rightarrow> s \<noteq> [])"

definition agent_hook_provenance :: "hook_host \<Rightarrow> agent_hook_provenance" where
  "agent_hook_provenance h =
     (case Option.bind (Option.bind (Option.bind (provenance_path h) (read_bytes h)) (parse_json h))
             decode_provenance of
        None \<Rightarrow> unverified
      | Some r \<Rightarrow>
          if hook_activation_verified r
             \<and> effective_file_policy_version r = Some agent_file_policy_version
             \<and> file_hash_matches h (effective_file_policy_path r) (effective_file_policy_sha256 r)
             \<and> effective_config_references_hook h r
             \<and> nonempty_text (activation_method r) \<and> nonempty_text (activation_generation r)
          then r else unverified)"

end
