(* ===== verification/Prep_Properties.thy ===== *)
theory Prep_Properties
  imports Prep_General Prep_Hooks
begin

text \<open>
  The properties of task preparation: a prepared task is sealed and within its bounds, its seal
  covers every field, its launcher is confined to its workspace, and hook provenance is believed
  only when everything it names is pinned.
\<close>

section \<open>Steps on the disk\<close>

lemma bind_io_Inr [result_simps]:
  "bind_io m f d = (Inr b, d') \<longleftrightarrow> (\<exists>a d1. m d = (Inr a, d1) \<and> f a d1 = (Inr b, d'))"
  by (auto simp: bind_io_def split: prod.splits sum.splits)

lemma return_io_Inr [result_simps]: "return_io r d = (Inr a, d') \<longleftrightarrow> r = Inr a \<and> d' = d"
  by (auto simp: return_io_def)

lemma attempt_io_Inr [result_simps]: "attempt_io action d = (Inr u, d') \<longleftrightarrow> action d = (True, d')"
  by (auto simp: attempt_io_def split: prod.splits if_splits)

lemma allocate_attempts_id:
  "allocate_attempts h dk repository agent_id n nonce d = (Inr (i, root), d') \<Longrightarrow> i = agent_id"
  by (induction n arbitrary: nonce d)
    (auto simp: result_simps Let_def split: prod.splits create_outcome.splits)

lemma allocate_submission_id:
  "allocate_submission h dk nonce repository agent_id d = (Inr (i, root), d') \<Longrightarrow> i = agent_id"
  by (auto simp: allocate_submission_def result_simps dest: allocate_attempts_id)

section \<open>Write manifests\<close>

lemma RootDir_iff: "RootDir \<in> set (components p) \<longleftrightarrow> is_absolute p"
  by (auto simp: components_def Let_def component_of_def split: if_splits)

lemma confined_relative_Inr:
  assumes "confined_relative p = Inr q"
  shows "\<not> is_absolute q \<and> \<not> has_parent_dir q \<and> components q = components p"
proof -
  from assms have q: "q = path_text (components p)" and free: "ParentDir \<notin> set (components p)"
    "RootDir \<notin> set (components p)"
    by (auto simp: confined_relative_def list_ex_iff split: if_splits)
  have same: "components q = components p" unfolding q by (rule components_path_text) simp
  moreover have "\<not> is_absolute q" using free(2) same RootDir_iff [of q] by simp
  moreover have "\<not> has_parent_dir q" using free(1) same by (auto simp: has_parent_dir_def list_ex_iff)
  ultimately show ?thesis by blast
qed

lemma effective_manifest_ok:
  assumes "collect_results confined_relative given = Inr paths"
    "validate_write_scope mode (effective_write_manifest mode paths) = Inr u"
    "w \<in> set (effective_write_manifest mode paths)"
  shows "\<not> is_absolute w \<and> \<not> has_parent_dir w \<and> \<not> names_repository_metadata w"
proof -
  have "\<not> names_repository_metadata w"
    using assms(2,3) by (auto simp: validate_write_scope_def list_ex_iff split: if_splits)
  moreover have "\<not> is_absolute w \<and> \<not> has_parent_dir w"
  proof (cases "mode \<noteq> PlanMode \<and> paths = []")
    case True
    with assms(3) have "w = ''.''" by (simp add: effective_write_manifest_def)
    moreover have "\<not> is_absolute ''.'' \<and> \<not> has_parent_dir ''.''" by code_simp
    ultimately show ?thesis by blast
  next
    case False
    with assms(3) have "w \<in> set paths" by (auto simp: effective_write_manifest_def split: if_splits)
    with collect_results_set [OF assms(1)] confined_relative_Inr show ?thesis by blast
  qed
  ultimately show ?thesis by blast
qed

section \<open>Prepared tasks\<close>

text \<open>
  Claim C37. A prepared task is sealed and within its bounds: its digest verifies; it keeps the task
  id, permission mode and prompt digest of the manifest; the id and the prompt are within their
  bounds; its workspace is the canonical directory of the requested repository; in plan mode it
  has no write manifest and otherwise a non-empty one, whose paths are relative, have no
  \<open>..\<close> component and name none of the repository's metadata.
\<close>

theorem prepared_task_is_sealed:
  assumes "prepare_direct_submission h dk nonce m d = (Inr p, d')"
  shows "validate_digest h p = Inr () \<and> p_agent_id p = m_agent_id m \<and>
    p_permission_mode p = m_permission_mode m \<and> p_prompt_sha256 p = sha256_hex h (m_prompt m) \<and>
    m_agent_id m \<noteq> [] \<and> length (m_agent_id m) \<le> 256 \<and> list_all identifier_byte (m_agent_id m) \<and>
    trim (m_prompt m) \<noteq> [] \<and> length (m_prompt m) \<le> 262144 \<and> nul \<notin> set (m_prompt m) \<and>
    canonicalize (file_view dk d) (m_repository m) = Some (p_repository p) \<and>
    is_dir (file_view dk d) (p_repository p) \<and> pw_path (p_workspace p) = p_repository p \<and>
    (p_write_manifest p = [] \<longleftrightarrow> m_permission_mode m = PlanMode) \<and>
    (\<forall>w \<in> set (p_write_manifest p). \<not> is_absolute w \<and> \<not> has_parent_dir w \<and> \<not> names_repository_metadata w)"
proof -
  obtain repository i scratch paths prompt_path u where
    valid: "validate_manifest m = Inr u"
    and repository: "canonical_general_repository (file_view dk d) (m_repository m) = Inr repository"
    and id: "i = m_agent_id m"
    and paths: "collect_results confined_relative (m_write_manifest m) = Inr paths"
    and scope: "validate_write_scope (m_permission_mode m)
      (effective_write_manifest (m_permission_mode m) paths) = Inr u"
    and digest: "validate_digest h p = Inr u"
    and p: "p = seal h \<lparr>p_schema = m_schema m, p_agent_id = m_agent_id m, p_repository = repository,
           p_workspace = \<lparr>pw_path = repository, pw_scratch_root = scratch\<rparr>,
           p_permission_mode = m_permission_mode m, p_prompt_path = prompt_path,
           p_prompt_sha256 = sha256_hex h (m_prompt m),
           p_write_manifest = effective_write_manifest (m_permission_mode m) paths,
           p_manifest_sha256 = sha256_hex h (print_json h (manifest_value m)),
           p_prepared_sha256 = []\<rparr>"
    using assms
    by (auto simp: prepare_direct_submission_def Let_def result_simps dest!: allocate_submission_id)
  have fields: "p_agent_id p = m_agent_id m" "p_permission_mode p = m_permission_mode m"
    "p_prompt_sha256 p = sha256_hex h (m_prompt m)" "p_repository p = repository"
    "pw_path (p_workspace p) = repository"
    "p_write_manifest p = effective_write_manifest (m_permission_mode m) paths"
    by (simp_all add: p seal_def)
  have "canonicalize (file_view dk d) (m_repository m) = Some repository \<and> is_dir (file_view dk d) repository"
    using repository
    by (auto simp: canonical_general_repository_def canonicalize_io_def result_simps split: if_splits)
  moreover have "p_write_manifest p = [] \<longleftrightarrow> m_permission_mode m = PlanMode"
    using scope unfolding fields
    by (auto simp: effective_write_manifest_def validate_write_scope_def split: if_splits)
  moreover have "m_agent_id m \<noteq> []" "length (m_agent_id m) \<le> 256" "list_all identifier_byte (m_agent_id m)"
    "trim (m_prompt m) \<noteq> []" "length (m_prompt m) \<le> 262144" "nul \<notin> set (m_prompt m)"
    using valid by (auto simp: validate_manifest_def max_prompt_bytes_def split: if_splits)
  moreover have "\<forall>w \<in> set (p_write_manifest p).
      \<not> is_absolute w \<and> \<not> has_parent_dir w \<and> \<not> names_repository_metadata w"
    unfolding fields using effective_manifest_ok [OF paths scope] by blast
  ultimately show ?thesis using digest fields by simp
qed


text \<open>A disk on which every step succeeds, and a manifest for the witnesses.\<close>

definition sample_view :: file_system where
  "sample_view = \<lparr>canonicalize = (\<lambda>p. if is_absolute p \<and> last p \<noteq> CHR ''/'' then Some p else None),
     symlink_metadata = (\<lambda>_. Found), is_file = (\<lambda>_. True), is_dir = (\<lambda>_. True)\<rparr>"

definition sample_disk :: "unit disk" where
  "sample_disk = \<lparr>file_view = (\<lambda>_. sample_view), entry_kind_of = (\<lambda>_ _. Some RegularFile),
     read_file = (\<lambda>_ _. Some ''hi''), file_len = (\<lambda>_ _. Some 2),
     create_dir_all = (\<lambda>_ d. (True, d)), create_dir = (\<lambda>_ d. (Created, d)),
     write_file = (\<lambda>_ _ d. (True, d)), rename_file = (\<lambda>_ _ d. (True, d))\<rparr>"

definition sample_host :: host where
  "sample_host = \<lparr>sha256_hex = (\<lambda>s. s), print_json = (\<lambda>_. ''json''), temp_dir = ''/tmp'',
     submission_bytes = (\<lambda>_ _ _. ''0'')\<rparr>"

definition sample_manifest :: general_task_manifest where
  "sample_manifest = \<lparr>m_schema = general_task_schema, m_agent_id = ''task-1'', m_repository = ''/work'',
     m_permission_mode = EditMode, m_prompt = ''hi'', m_write_manifest = []\<rparr>"

definition sample_prepared :: prepared_general_task where
  "sample_prepared = \<lparr>p_schema = general_task_schema, p_agent_id = ''task-1'', p_repository = ''/work'',
     p_workspace = \<lparr>pw_path = ''/work'', pw_scratch_root = ''/tmp/zcode-as-subagent/task-1-0''\<rparr>,
     p_permission_mode = EditMode, p_prompt_path = ''/tmp/zcode-as-subagent/task-1-0/prompt.txt'',
     p_prompt_sha256 = ''hi'', p_write_manifest = [''.''], p_manifest_sha256 = ''json'',
     p_prepared_sha256 = ''json''\<rparr>"

lemmas first_attempt = allocate_attempts.simps(2) [where n = 31, simplified]

lemma sample_preparation:
  "prepare_direct_submission sample_host sample_disk 0 sample_manifest () = (Inr sample_prepared, ())"
proof -
  have "trim ''hi'' \<noteq> []" "list_all identifier_byte ''task-1''" by code_simp+
  moreover have "is_absolute ''/work''" "path_join ''/tmp'' ''zcode-as-subagent'' = ''/tmp/zcode-as-subagent''"
    "path_join ''/tmp/zcode-as-subagent'' ''task-1-0'' = ''/tmp/zcode-as-subagent/task-1-0''"
    "path_join ''/tmp/zcode-as-subagent/task-1-0'' ''prompt.txt'' = ''/tmp/zcode-as-subagent/task-1-0/prompt.txt''"
    "list_ex names_repository_metadata [''.''] = False"
    by code_simp+
  moreover have "allocate_attempts sample_host sample_disk ''/work'' ''task-1'' 32 0 () =
      (Inr (''task-1'', ''/tmp/zcode-as-subagent/task-1-0''), ())"
    unfolding first_attempt by code_simp
  ultimately show ?thesis
    by (simp add: prepare_direct_submission_def bind_io_def return_io_def attempt_io_def
        validate_manifest_def sample_manifest_def max_prompt_bytes_def sample_disk_def sample_view_def
        canonical_general_repository_def canonicalize_io_def allocate_submission_def sample_host_def
        is_absolute_def effective_write_manifest_def validate_write_scope_def
        atomic_write_def seal_def validate_digest_def prepared_digest_def sample_prepared_def)
qed

theorem prepared_task_is_sealed_witness:
  "validate_digest sample_host sample_prepared = Inr () \<and> p_write_manifest sample_prepared \<noteq> []"
  using prepared_task_is_sealed [OF sample_preparation] by (simp add: sample_manifest_def)

section \<open>The seal\<close>

lemma inj_permission_mode_value: "permission_mode_value a = permission_mode_value b \<Longrightarrow> a = b"
  by (cases a; cases b) auto

lemma inj_JString_map: "map JString xs = map JString ys \<Longrightarrow> xs = ys"
  by (auto intro: map_injective simp: inj_def)

lemma prepared_value_inj:
  assumes "prepared_value p = prepared_value q"
  shows "p = q"
proof -
  have workspace: "v = w" if "workspace_value v = workspace_value w" for v w
    using that by (cases v; cases w) (auto simp: workspace_value_def)
  show ?thesis
    using assms
    by (cases p; cases q)
      (auto simp: prepared_value_def dest: inj_permission_mode_value inj_JString_map workspace)
qed

text \<open>
  The seal covers every field: two prepared tasks that both verify and carry the same digest
  are equal, unless two different texts with the same SHA-256 are known, provided the JSON
  printer gives different texts for the two descriptions when they differ.
\<close>

theorem seal_covers_every_field:
  assumes "validate_digest h p = Inr ()" "validate_digest h q = Inr ()"
    "p_prepared_sha256 p = p_prepared_sha256 q"
    "print_json h (prepared_value (p\<lparr>p_prepared_sha256 := []\<rparr>)) =
       print_json h (prepared_value (q\<lparr>p_prepared_sha256 := []\<rparr>)) \<Longrightarrow>
     prepared_value (p\<lparr>p_prepared_sha256 := []\<rparr>) = prepared_value (q\<lparr>p_prepared_sha256 := []\<rparr>)"
  shows "p = q \<or> (\<exists>a b. a \<noteq> b \<and> sha256_hex h a = sha256_hex h b)"
proof -
  let ?p = "p\<lparr>p_prepared_sha256 := []\<rparr>" and ?q = "q\<lparr>p_prepared_sha256 := []\<rparr>"
  have digests: "sha256_hex h (print_json h (prepared_value ?p)) = sha256_hex h (print_json h (prepared_value ?q))"
    using assms(1-3) by (auto simp: validate_digest_def prepared_digest_def split: if_splits)
  show ?thesis
  proof (cases "print_json h (prepared_value ?p) = print_json h (prepared_value ?q)")
    case True
    then have same: "?p = ?q" using assms(4) by (intro prepared_value_inj)
    have "p = ?p\<lparr>p_prepared_sha256 := p_prepared_sha256 p\<rparr>" by simp
    also have "\<dots> = ?q\<lparr>p_prepared_sha256 := p_prepared_sha256 q\<rparr>" using same assms(3) by simp
    finally have "p = q" by simp
    then show ?thesis ..
  next
    case False
    with digests show ?thesis by blast
  qed
qed

definition weak_host :: host where
  "weak_host = sample_host\<lparr>sha256_hex := (\<lambda>_. ''json''),
     print_json := (\<lambda>v. if v = prepared_value (sample_prepared\<lparr>p_prepared_sha256 := []\<rparr>) then ''a'' else ''b'')\<rparr>"

theorem seal_covers_every_field_witness:
  "\<exists>a b. a \<noteq> b \<and> sha256_hex weak_host a = sha256_hex weak_host b"
proof -
  let ?q = "sample_prepared\<lparr>p_agent_id := ''task-2''\<rparr>"
  have "validate_digest weak_host sample_prepared = Inr ()" "validate_digest weak_host ?q = Inr ()"
    "p_prepared_sha256 sample_prepared = p_prepared_sha256 ?q"
    by (simp_all add: validate_digest_def prepared_digest_def weak_host_def sample_prepared_def)
  moreover have "print_json weak_host (prepared_value (sample_prepared\<lparr>p_prepared_sha256 := []\<rparr>)) =
      print_json weak_host (prepared_value (?q\<lparr>p_prepared_sha256 := []\<rparr>)) \<Longrightarrow>
    prepared_value (sample_prepared\<lparr>p_prepared_sha256 := []\<rparr>) = prepared_value (?q\<lparr>p_prepared_sha256 := []\<rparr>)"
    by (simp add: weak_host_def split: if_splits)
  moreover have "sample_prepared \<noteq> ?q" by (simp add: sample_prepared_def)
  ultimately show ?thesis using seal_covers_every_field [of weak_host sample_prepared ?q] by blast
qed

section \<open>Launchers of prepared tasks\<close>

text \<open>
  The launcher of a prepared task is confined to it: it is only built when the seal and the
  prompt file verify; its worktree is the canonical workspace, its only readable input the
  prompt; in plan mode it is read-only, otherwise every write root is a path of the write
  manifest inside the workspace and outside protected metadata.
\<close>

theorem prepared_launcher_is_confined:
  assumes "launcher h dk d p = Inr l" "canonical_answers (file_view dk d)"
  shows "prepared_digest h p = p_prepared_sha256 p \<and> entry_kind_of dk d (p_prompt_path p) = Some RegularFile \<and>
    (\<exists>bytes. read_file dk d (p_prompt_path p) = Some bytes \<and> sha256_hex h bytes = p_prompt_sha256 p) \<and>
    canonicalize (file_view dk d) (pw_path (p_workspace p)) = Some (worktree l) \<and>
    (\<forall>input \<in> set (readable_inputs l). canonicalize (file_view dk d) (p_prompt_path p) = Some input) \<and>
    (p_permission_mode p = PlanMode \<longleftrightarrow> access_mode_of l = ReadOnly) \<and>
    (p_permission_mode p = PlanMode \<longrightarrow> tracked_write_roots l = []) \<and>
    (\<forall>root \<in> set (tracked_write_roots l). path_starts_with root (worktree l) \<and>
       \<not> protected_worktree_path (worktree l) root \<and>
       (\<exists>given \<in> set (p_write_manifest p). root = path_join (worktree l) given \<and> \<not> has_parent_dir given))"
proof -
  have checks: "validate_digest h p = Inr ()" "validate_prepared_content h dk d p = Inr ()"
    and build: "build_launcher dk d p [p_prompt_path p] = Inr l"
    using assms(1) by (auto simp: launcher_def result_simps)
  note built = for_general_Inr [OF build [unfolded build_launcher_def] assms(2)]
  have mode: "access_mode_for (p_permission_mode p) = ReadOnly \<longleftrightarrow> p_permission_mode p = PlanMode"
    by (cases "p_permission_mode p") auto
  have "prepared_digest h p = p_prepared_sha256 p"
    using checks(1) by (auto simp: validate_digest_def split: if_splits)
  moreover have "entry_kind_of dk d (p_prompt_path p) = Some RegularFile \<and>
      (\<exists>bytes. read_file dk d (p_prompt_path p) = Some bytes \<and> sha256_hex h bytes = p_prompt_sha256 p)"
    using checks(2)
    by (auto simp: validate_prepared_content_def verify_file_def result_simps split: if_splits)
  ultimately show ?thesis using built mode by auto
qed

theorem prepared_launcher_is_confined_witness:
  "\<exists>l. launcher sample_host sample_disk () sample_prepared = Inr l \<and> worktree l = ''/work'' \<and>
     (\<forall>root \<in> set (tracked_write_roots l). path_starts_with root ''/work'')"
proof -
  let ?l = "\<lparr>worktree = ''/work'', scratch_root = ''/tmp/zcode-as-subagent/task-1-0'',
    report_target = ''/tmp/zcode-as-subagent/task-1-0/result.json'',
    readable_inputs = [''/tmp/zcode-as-subagent/task-1-0/prompt.txt''], network_allowed = False,
    capabilities = default_capabilities, access_mode_of = WorkspaceWrite,
    tracked_write_roots = [''/work/.''], interactive_bash = False\<rparr>"
  have built: "launcher sample_host sample_disk () sample_prepared = Inr ?l" by code_simp
  have "canonical_answers (file_view sample_disk ())"
    by (simp add: canonical_answers_def sample_disk_def sample_view_def)
  from prepared_launcher_is_confined [OF built this] built show ?thesis by auto
qed

section \<open>Hooks\<close>

text \<open>
  Hook provenance is believed only when it is pinned: if the record reports verified hooks,
  it is the one on disk, it names the current file policy version, all five files it names have
  the recorded digests, the wrappers lie in one hook directory, and the configuration file
  enables hooks and registers each expected one exactly once. Otherwise the record is the
  unverified one, which names nothing.
\<close>

theorem verified_hooks_are_pinned:
  "agent_hook_provenance h = unverified \<or>
   (\<exists>r config_path guard audit policy wrapper root config. agent_hook_provenance h = r \<and>
      Option.bind (Option.bind (Option.bind (provenance_path h) (read_bytes h)) (parse_json h))
        decode_provenance = Some r \<and>
      effective_file_policy_version r = Some agent_file_policy_version \<and>
      effective_config_path r = Some config_path \<and> effective_guard_wrapper_path r = Some guard \<and>
      effective_audit_wrapper_path r = Some audit \<and> effective_file_policy_path r = Some policy \<and>
      effective_file_wrapper_path r = Some wrapper \<and>
      file_hash_matches h (Some config_path) (effective_config_sha256 r) \<and>
      file_hash_matches h (Some guard) (effective_guard_wrapper_sha256 r) \<and>
      file_hash_matches h (Some audit) (effective_audit_wrapper_sha256 r) \<and>
      file_hash_matches h (Some policy) (effective_file_policy_sha256 r) \<and>
      file_hash_matches h (Some wrapper) (effective_file_wrapper_sha256 r) \<and>
      Option.bind (path_parent guard) path_parent = Some root \<and>
      path_eq audit (path_join root ''hooks/audit-bash-result.mjs'') \<and>
      path_eq policy (path_join root ''lib/agent-file-policy.mjs'') \<and>
      path_eq wrapper (path_join root ''hooks/check-agent-files.mjs'') \<and>
      Option.bind (read_bytes h config_path) (parse_json h) = Some config \<and>
      config_registers_hooks config guard audit wrapper)"
proof (cases "agent_hook_provenance h = unverified")
  case False
  let ?stored = "Option.bind (Option.bind (Option.bind (provenance_path h) (read_bytes h)) (parse_json h))
       decode_provenance"
  obtain r where stored: "?stored = Some r"
    using False unfolding agent_hook_provenance_def by (cases ?stored) simp_all
  from False have r: "agent_hook_provenance h = r" "effective_file_policy_version r = Some agent_file_policy_version"
    "effective_config_references_hook h r"
    unfolding agent_hook_provenance_def stored option.case by (simp_all split: if_splits)
  have pinned: "\<exists>config_path guard audit policy wrapper root config.
      effective_config_path r = Some config_path \<and> effective_guard_wrapper_path r = Some guard \<and>
      effective_audit_wrapper_path r = Some audit \<and> effective_file_policy_path r = Some policy \<and>
      effective_file_wrapper_path r = Some wrapper \<and>
      file_hash_matches h (Some config_path) (effective_config_sha256 r) \<and>
      file_hash_matches h (Some guard) (effective_guard_wrapper_sha256 r) \<and>
      file_hash_matches h (Some audit) (effective_audit_wrapper_sha256 r) \<and>
      file_hash_matches h (Some policy) (effective_file_policy_sha256 r) \<and>
      file_hash_matches h (Some wrapper) (effective_file_wrapper_sha256 r) \<and>
      Option.bind (path_parent guard) path_parent = Some root \<and>
      path_eq audit (path_join root ''hooks/audit-bash-result.mjs'') \<and>
      path_eq policy (path_join root ''lib/agent-file-policy.mjs'') \<and>
      path_eq wrapper (path_join root ''hooks/check-agent-files.mjs'') \<and>
      Option.bind (read_bytes h config_path) (parse_json h) = Some config \<and>
      config_registers_hooks config guard audit wrapper"
    using r(3) unfolding effective_config_references_hook_def
    by (simp split: option.splits if_splits)
  with stored r(1,2) show ?thesis by blast
qed simp

end
