(* ===== verification/Protocol.thy ===== *)
theory Protocol
  imports Json "HOL-Library.List_Lexorder" "HOL-Library.Char_ord"
begin

text \<open>
  The wire protocol of the agent runtime (\<open>crates/zcode-protocol/src/lib.rs\<close>): the envelopes,
  \<open>parse_line\<close>, the projections of a session and of a workspace, and the permission answers.

  The JSON parser and printer are those of \<open>serde_json\<close>: \<open>from_str\<close>, and the texts of its
  errors, are parameters (record \<open>serde\<close>). What \<open>derive(Deserialize)\<close> makes of an envelope
  with \<open>deny_unknown_fields\<close> and of the untagged \<open>WireId\<close> is written out.
\<close>

section \<open>Envelopes\<close>

definition session_event :: string where
  "session_event = ''session/event''"

datatype wire_id = IntegerId int | StringId string

record request_envelope =
  req_id :: wire_id
  req_method :: string
  req_params :: json

record response_envelope =
  resp_id :: wire_id
  resp_result :: "json option"
  resp_error :: "json option"

record event_envelope =
  ev_method :: string
  ev_params :: json

datatype wire_message =
    Request request_envelope
  | Response response_envelope
  | Event event_envelope
  | UnknownEvent string json

datatype parse_error =
    InvalidJson string
  | NotObject
  | MissingKind
  | InvalidEnvelope string
  | ContradictoryResponse

definition new_request :: "wire_id \<Rightarrow> string \<Rightarrow> json \<Rightarrow> request_envelope" where
  "new_request i m p = \<lparr>req_id = i, req_method = m, req_params = p\<rparr>"

definition response_success :: "wire_id \<Rightarrow> json \<Rightarrow> response_envelope" where
  "response_success i r = \<lparr>resp_id = i, resp_result = Some r, resp_error = None\<rparr>"

definition response_failure :: "wire_id \<Rightarrow> json \<Rightarrow> response_envelope" where
  "response_failure i e = \<lparr>resp_id = i, resp_result = None, resp_error = Some e\<rparr>"

section \<open>Reading and writing envelopes\<close>

type_synonym json_map = "(string \<times> json) list"

record serde =
  from_str :: "string \<Rightarrow> string + json"
  from_value_error :: "json \<Rightarrow> string"

definition contains_key :: "json_map \<Rightarrow> string \<Rightarrow> bool" where
  "contains_key obj key \<longleftrightarrow> map_of obj key \<noteq> None"

definition only_fields :: "string list \<Rightarrow> json_map \<Rightarrow> bool" where
  "only_fields names obj \<longleftrightarrow> list_all (\<lambda>(k, v). List.member names k) obj"

fun decode_wire_id :: "json \<Rightarrow> wire_id option" where
  "decode_wire_id (JString s) = Some (StringId s)"
| "decode_wire_id (JNumber (PosInt n)) =
     (if uint n \<le> i64_max then Some (IntegerId (uint n)) else None)"
| "decode_wire_id (JNumber (NegInt i)) = Some (IntegerId i)"
| "decode_wire_id _ = None"

definition or_null :: "json option \<Rightarrow> json" where
  "or_null v = (case v of None \<Rightarrow> JNull | Some x \<Rightarrow> x)"

definition non_null :: "json option \<Rightarrow> json option" where
  "non_null v = (case v of None \<Rightarrow> None | Some x \<Rightarrow> if x = JNull then None else Some x)"

definition decode_request :: "json_map \<Rightarrow> request_envelope option" where
  "decode_request obj =
     (if only_fields [''id'', ''method'', ''params''] obj
      then Option.bind (Option.bind (map_of obj ''id'') decode_wire_id) (\<lambda>i.
           Option.bind (Option.bind (map_of obj ''method'') as_str) (\<lambda>m.
           Some \<lparr>req_id = i, req_method = m, req_params = or_null (map_of obj ''params'')\<rparr>))
      else None)"

definition decode_response :: "json_map \<Rightarrow> response_envelope option" where
  "decode_response obj =
     (if only_fields [''id'', ''result'', ''error''] obj
      then Option.bind (Option.bind (map_of obj ''id'') decode_wire_id) (\<lambda>i.
           Some \<lparr>resp_id = i, resp_result = non_null (map_of obj ''result''),
                 resp_error = non_null (map_of obj ''error'')\<rparr>)
      else None)"

definition decode_event :: "json_map \<Rightarrow> event_envelope option" where
  "decode_event obj =
     (if only_fields [''method'', ''params''] obj
      then Option.bind (Option.bind (map_of obj ''method'') as_str) (\<lambda>m.
           Some \<lparr>ev_method = m, ev_params = or_null (map_of obj ''params'')\<rparr>)
      else None)"

definition is_turn_event :: "json option \<Rightarrow> bool" where
  "is_turn_event params \<longleftrightarrow>
     (case Option.bind params (\<lambda>p. get_str p ''type'') of
        None \<Rightarrow> False
      | Some kind \<Rightarrow> List.member [''turn.started'', ''turn.completed'', ''turn.failed''] kind)"

definition parse_value :: "serde \<Rightarrow> json \<Rightarrow> parse_error + wire_message" where
  "parse_value sd v =
     (case as_object v of
        None \<Rightarrow> Inl NotObject
      | Some obj \<Rightarrow>
          if contains_key obj ''jsonrpc''
          then Inl (InvalidEnvelope ''jsonrpc is not part of the strict ZCode envelope'')
          else if contains_key obj ''id'' \<and> (contains_key obj ''result'' \<or> contains_key obj ''error'')
          then if contains_key obj ''result'' \<and> contains_key obj ''error''
               then Inl ContradictoryResponse
               else if non_null (if contains_key obj ''result'' then map_of obj ''result''
                                 else map_of obj ''error'') = None
               then Inl (InvalidEnvelope ''response requires exactly one non-null result or error'')
               else ok_or (InvalidEnvelope (from_value_error sd v))
                      (map_option Response (decode_response obj))
          else
            (case Option.bind (map_of obj ''method'') as_str of
               None \<Rightarrow> Inl MissingKind
             | Some m \<Rightarrow>
                 if contains_key obj ''id''
                 then let rest = filter (\<lambda>(k, _). k \<noteq> ''trace'') obj
                      in ok_or (InvalidEnvelope (from_value_error sd (JObject rest)))
                           (map_option Request (decode_request rest))
                 else if m = session_event \<and> is_turn_event (map_of obj ''params'')
                 then ok_or (InvalidEnvelope (from_value_error sd v))
                        (map_option Event (decode_event obj))
                 else Inr (UnknownEvent m v)))"

definition parse_line :: "serde \<Rightarrow> string \<Rightarrow> parse_error + wire_message" where
  "parse_line sd line =
     (case from_str sd line of
        Inl e \<Rightarrow> Inl (InvalidJson e)
      | Inr v \<Rightarrow> parse_value sd v)"

text \<open>What \<open>derive(Serialize)\<close> emits, in the order of the fields.\<close>

fun wire_id_value :: "wire_id \<Rightarrow> json" where
  "wire_id_value (IntegerId i) = JNumber (if 0 \<le> i then PosInt (word_of_int i) else NegInt i)"
| "wire_id_value (StringId s) = JString s"

definition request_fields :: "request_envelope \<Rightarrow> json_map" where
  "request_fields r = [(''id'', wire_id_value (req_id r)), (''method'', JString (req_method r)),
     (''params'', req_params r)]"

definition optional_field :: "string \<Rightarrow> json option \<Rightarrow> json_map" where
  "optional_field key v = (case v of None \<Rightarrow> [] | Some x \<Rightarrow> [(key, x)])"

definition response_fields :: "response_envelope \<Rightarrow> json_map" where
  "response_fields r = (''id'', wire_id_value (resp_id r)) #
     optional_field ''result'' (resp_result r) @ optional_field ''error'' (resp_error r)"

definition event_fields :: "event_envelope \<Rightarrow> json_map" where
  "event_fields e = [(''method'', JString (ev_method e)), (''params'', ev_params e)]"

definition event_type :: "event_envelope \<Rightarrow> string option" where
  "event_type e = (if ev_method e = session_event then get_str (ev_params e) ''type'' else None)"

definition turn_id_from_result :: "json \<Rightarrow> string option" where
  "turn_id_from_result result = get_str result ''turnId''"

section \<open>Projections\<close>

datatype projection_error =
    Missing string
  | Invalid string
  | UnobservedAlternate string
  | ModelConflict

record session_create_projection =
  session_id :: string
  requested_model :: "string option"

record workspace_diagnostic_projection =
  current_model :: "string option"
  available_models :: "string list"

definition bounded_text :: "nat \<Rightarrow> string \<Rightarrow> bool" where
  "bounded_text n s \<longleftrightarrow> \<not> (s = [] \<or> n < length s \<or> List.member s nul)"

definition normalized_zai_model :: "string \<Rightarrow> string option" where
  "normalized_zai_model v =
     (if \<not> bounded_text 128 v then None
      else
        (case (case split_once CHR ''/'' v of
                 Some (provider, model) \<Rightarrow> if provider = ''zai'' then Some model else None
               | None \<Rightarrow> Some v) of
           None \<Rightarrow> None
         | Some model \<Rightarrow>
             if model = [] \<or> List.member model CHR ''/'' then None
             else Some (to_ascii_lowercase model)))"

definition reject_alternate :: "json_map \<Rightarrow> string \<Rightarrow> string \<Rightarrow> projection_error + unit" where
  "reject_alternate obj key p =
     (if contains_key obj key then Inl (UnobservedAlternate p) else Inr ())"

definition optional_object :: "json_map \<Rightarrow> string \<Rightarrow> string \<Rightarrow> projection_error + json_map option" where
  "optional_object obj key p = transpose_opt (\<lambda>v. ok_or (Invalid p) (as_object v)) (map_of obj key)"

definition required_bounded_string :: "json option \<Rightarrow> string \<Rightarrow> nat \<Rightarrow> projection_error + string" where
  "required_bounded_string v p max_len =
     and_then (ok_or (Missing p) v) (\<lambda>v.
     and_then (ok_or (Invalid p) (as_str v)) (\<lambda>s.
     if bounded_text max_len s then Inr s else Inl (Invalid p)))"

text \<open>The common tail of the two model lookups: an optional \<open>modelId\<close> that is bounded and normal.\<close>

definition optional_model :: "json_map \<Rightarrow> string \<Rightarrow> projection_error + string option" where
  "optional_model obj p =
     (case map_of obj ''modelId'' of
        None \<Rightarrow> Inr None
      | Some v \<Rightarrow>
          and_then (required_bounded_string (Some v) p 128) (\<lambda>s.
          if normalized_zai_model s = None then Inl (Invalid p) else Inr (Some s)))"

definition settings_current_model :: "json_map \<Rightarrow> projection_error + string option" where
  "settings_current_model root =
     and_then (optional_object root ''settings'' ''result.settings'') (\<lambda>settings.
     case settings of None \<Rightarrow> Inr None | Some settings \<Rightarrow>
     and_then (optional_object settings ''model'' ''result.settings.model'') (\<lambda>model.
     case model of None \<Rightarrow> Inr None | Some model \<Rightarrow>
     and_then (reject_alternate model ''value'' ''result.settings.model.value'') (\<lambda>_.
     and_then (optional_object model ''current'' ''result.settings.model.current'') (\<lambda>current.
     case current of None \<Rightarrow> Inr None | Some current \<Rightarrow>
     and_then (reject_alternate current ''id'' ''result.settings.model.current.id'') (\<lambda>_.
     optional_model current ''result.settings.model.current.modelId'')))))"

definition session_consistency_model :: "json_map \<Rightarrow> projection_error + string option" where
  "session_consistency_model session =
     and_then (optional_object session ''model'' ''result.session.model'') (\<lambda>model.
     case model of None \<Rightarrow> Inr None | Some model \<Rightarrow>
     optional_model model ''result.session.model.modelId'')"

definition session_create_from_result :: "json \<Rightarrow> projection_error + session_create_projection" where
  "session_create_from_result result =
     and_then (ok_or (Invalid ''result'') (as_object result)) (\<lambda>root.
     and_then (reject_alternate root ''sessionId'' ''result.sessionId'') (\<lambda>_.
     and_then (reject_alternate root ''session_id'' ''result.session_id'') (\<lambda>_.
     and_then (reject_alternate root ''modelId'' ''result.modelId'') (\<lambda>_.
     and_then (reject_alternate root ''model'' ''result.model'') (\<lambda>_.
     and_then (ok_or (Missing ''result.session.sessionId'') (map_of root ''session'')) (\<lambda>sv.
     and_then (ok_or (Invalid ''result.session'') (as_object sv)) (\<lambda>session.
     and_then (reject_alternate session ''id'' ''result.session.id'') (\<lambda>_.
     and_then (reject_alternate session ''session_id'' ''result.session.session_id'') (\<lambda>_.
     and_then (reject_alternate session ''modelId'' ''result.session.modelId'') (\<lambda>_.
     and_then (reject_alternate session ''settings'' ''result.session.settings'') (\<lambda>_.
     and_then (required_bounded_string (map_of session ''sessionId'') ''result.session.sessionId'' 512)
       (\<lambda>sid.
     and_then (settings_current_model root) (\<lambda>requested.
     and_then (session_consistency_model session) (\<lambda>observed.
     case (requested, observed) of
       (Some r, Some obs) \<Rightarrow>
         if normalized_zai_model r \<noteq> normalized_zai_model obs then Inl ModelConflict
         else Inr \<lparr>session_id = sid, requested_model = requested\<rparr>
     | (None, Some _) \<Rightarrow> Inl (Missing ''result.settings.model.current.modelId'')
     | _ \<Rightarrow> Inr \<lparr>session_id = sid, requested_model = requested\<rparr>))))))))))))))"

definition catalog_model :: "json \<Rightarrow> projection_error + string" where
  "catalog_model v =
     and_then (ok_or (Invalid ''result.modelCatalog.available[]'') (as_object v)) (\<lambda>item.
     and_then (ok_or (Invalid ''result.modelCatalog.available[].ref'')
                 (Option.bind (map_of item ''ref'') as_object)) (\<lambda>reference.
     required_bounded_string (map_of reference ''modelId'')
       ''result.modelCatalog.available[].ref.modelId'' 128))"

text \<open>\<open>sort\<close> orders strings by their bytes and \<open>dedup\<close> removes adjacent duplicates.\<close>

definition workspace_diagnostic_from_result ::
  "json \<Rightarrow> projection_error + workspace_diagnostic_projection" where
  "workspace_diagnostic_from_result result =
     and_then (ok_or (Invalid ''result'') (as_object result)) (\<lambda>root.
     and_then (settings_current_model root) (\<lambda>current.
     and_then (optional_object root ''modelCatalog'' ''result.modelCatalog'') (\<lambda>catalog.
     and_then
       (case Option.bind catalog (\<lambda>c. map_of c ''available'') of
          None \<Rightarrow> Inr []
        | Some v \<Rightarrow>
            and_then (ok_or (Invalid ''result.modelCatalog.available'') (as_array v)) (\<lambda>items.
            collect_results catalog_model items)) (\<lambda>models.
     Inr \<lparr>current_model = current, available_models = remdups_adj (sort models)\<rparr>))))"

section \<open>Permission answers and the order of turns\<close>

definition offered_permission_response :: "json \<Rightarrow> string \<Rightarrow> json option" where
  "offered_permission_response params decision =
     Option.bind
       (if decision = ''allow'' then Some ''allow_once''
        else if decision = ''deny'' then Some ''deny'' else None) (\<lambda>expected_kind.
     Option.bind (Option.bind (get params ''options'') as_array) (\<lambda>options.
     case filter (\<lambda>option. get_str option ''kind'' = Some expected_kind) options of
       [option] \<Rightarrow>
         Option.bind (Option.bind (get option ''response'') as_object) (\<lambda>response.
         if Option.bind (map_of response ''decision'') as_str = Some decision
         then Some (JObject response) else None)
     | _ \<Rightarrow> None))"

datatype lifecycle_order = NotLifecycle | InOrder | OutOfOrder string

definition classify_lifecycle :: "string \<Rightarrow> bool \<Rightarrow> lifecycle_order" where
  "classify_lifecycle m turn_active =
     (if m = ''turn.started''
      then if turn_active then OutOfOrder ''turn.completed or turn.failed'' else InOrder
      else if m = ''turn.completed'' \<or> m = ''turn.failed''
      then if turn_active then InOrder else OutOfOrder ''turn.started''
      else NotLifecycle)"

section \<open>Request parameters\<close>

record workspace_ref =
  workspace_key :: string
  workspace_path :: string

record mcp_environment_variable =
  env_name :: string
  env_value :: string

record stdio_mcp_server =
  server_name :: string
  server_command :: string
  server_args :: "string list"
  server_env :: "mcp_environment_variable list"

record create_session_params =
  csp_workspace :: workspace_ref
  csp_mode :: "string option"
  csp_mcp_servers :: "stdio_mcp_server list"

record resume_session_params =
  rsp_session_id :: string
  rsp_workspace :: "workspace_ref option"
  rsp_mcp_servers :: "stdio_mcp_server list"

record subscribe_params =
  sub_session_id :: string
  delivery_kind :: string
  include_snapshot :: bool

record send_params =
  send_session_id :: string
  send_content :: string

record runtime_preferences =
  native_search_enhancements_enabled :: bool
  memory_enabled :: bool
  ask_user_question_auto_resolution_enabled :: bool

definition workspace_ref_value :: "workspace_ref \<Rightarrow> json" where
  "workspace_ref_value w = JObject [(''workspaceKey'', JString (workspace_key w)),
     (''workspacePath'', JString (workspace_path w))]"

definition workspace_params_value :: "workspace_ref \<Rightarrow> json" where
  "workspace_params_value w = JObject [(''workspace'', workspace_ref_value w)]"

definition mcp_server_value :: "stdio_mcp_server \<Rightarrow> json" where
  "mcp_server_value s = JObject [(''name'', JString (server_name s)),
     (''command'', JString (server_command s)), (''args'', JArray (map JString (server_args s))),
     (''env'', JArray (map (\<lambda>v. JObject [(''name'', JString (env_name v)),
        (''value'', JString (env_value v))]) (server_env s)))]"

definition mcp_servers_field :: "stdio_mcp_server list \<Rightarrow> json_map" where
  "mcp_servers_field servers =
     (if servers = [] then [] else [(''mcpServers'', JArray (map mcp_server_value servers))])"

definition create_session_params_value :: "create_session_params \<Rightarrow> json" where
  "create_session_params_value p = JObject ((''workspace'', workspace_ref_value (csp_workspace p)) #
     optional_field ''mode'' (map_option JString (csp_mode p)) @ mcp_servers_field (csp_mcp_servers p))"

definition resume_session_params_value :: "resume_session_params \<Rightarrow> json" where
  "resume_session_params_value p = JObject ((''sessionId'', JString (rsp_session_id p)) #
     optional_field ''workspace'' (map_option workspace_ref_value (rsp_workspace p)) @
     mcp_servers_field (rsp_mcp_servers p))"

definition subscribe_params_value :: "subscribe_params \<Rightarrow> json" where
  "subscribe_params_value p = JObject [(''sessionId'', JString (sub_session_id p)),
     (''deliveryKind'', JString (delivery_kind p)), (''includeSnapshot'', JBool (include_snapshot p))]"

definition send_params_value :: "send_params \<Rightarrow> json" where
  "send_params_value p = JObject [(''sessionId'', JString (send_session_id p)),
     (''content'', JString (send_content p))]"

definition session_params_value :: "string \<Rightarrow> json" where
  "session_params_value sid = JObject [(''sessionId'', JString sid)]"

definition runtime_preferences_value :: "runtime_preferences \<Rightarrow> json" where
  "runtime_preferences_value p = JObject
     [(''nativeSearchEnhancementsEnabled'', JBool (native_search_enhancements_enabled p)),
      (''memoryEnabled'', JBool (memory_enabled p)),
      (''askUserQuestionAutoResolutionEnabled'', JBool (ask_user_question_auto_resolution_enabled p))]"

end
