(* ===== verification/Protocol_Properties.thy ===== *)
theory Protocol_Properties
  imports Protocol
begin

text \<open>
  The properties of the wire protocol: envelopes are read back as they were written, every parsed
  message is of exactly one kind, the projections are authoritative and bounded, and a permission
  answer is one the runtime offered.
\<close>

section \<open>Objects as maps\<close>

lemma map_of_remove_key: "map_of (filter (\<lambda>(k, _). k \<noteq> key) obj) = (map_of obj)(key := None)"
  by (induction obj) (auto simp: fun_eq_iff)

lemma only_fields_dom: "only_fields names obj \<longleftrightarrow> dom (map_of obj) \<subseteq> set names"
  by (auto simp: only_fields_def list_all_iff dom_map_of_conv_image_fst)

lemma contains_key_iff [simp]: "contains_key obj key \<longleftrightarrow> (\<exists>v. map_of obj key = Some v)"
  by (auto simp: contains_key_def)

lemma non_null_Some [simp]: "non_null v = Some x \<longleftrightarrow> v = Some x \<and> x \<noteq> JNull"
  by (auto simp: non_null_def split: option.splits)

lemma non_null_None: "non_null v = None \<longleftrightarrow> v = None \<or> v = Some JNull"
  by (auto simp: non_null_def split: option.splits if_splits)

section \<open>Reading back\<close>

fun wf_wire_id :: "wire_id \<Rightarrow> bool" where
  "wf_wire_id (IntegerId i) = in_i64 i"
| "wf_wire_id (StringId _) = True"

lemma decode_wire_id_value: "wf_wire_id i \<Longrightarrow> decode_wire_id (wire_id_value i) = Some i"
proof (cases i)
  case (IntegerId n)
  assume wf: "wf_wire_id i"
  have "uint (word_of_int n :: u64) = n" if "0 \<le> n"
  proof -
    have "n < 2 ^ LENGTH(64)" using wf IntegerId by (simp add: in_i64_def i64_max_def)
    with that show ?thesis by (simp add: uint_word_of_int)
  qed
  with wf IntegerId show ?thesis by (simp add: in_i64_def)
qed simp

fun wf_message :: "wire_message \<Rightarrow> bool" where
  "wf_message (Request r) = wf_wire_id (req_id r)"
| "wf_message (Response r) =
     (wf_wire_id (resp_id r) \<and>
      (\<exists>v. v \<noteq> JNull \<and> (r = response_success (resp_id r) v \<or> r = response_failure (resp_id r) v)))"
| "wf_message (Event e) = (ev_method e = session_event \<and> is_turn_event (Some (ev_params e)))"
| "wf_message (UnknownEvent _ _) = False"

fun message_fields :: "wire_message \<Rightarrow> json_map" where
  "message_fields (Request r) = request_fields r"
| "message_fields (Response r) = response_fields r"
| "message_fields (Event e) = event_fields e"
| "message_fields (UnknownEvent _ raw) = (case as_object raw of None \<Rightarrow> [] | Some obj \<Rightarrow> obj)"

lemma decode_request_fields:
  assumes "map_of obj = map_of (request_fields r)" "wf_wire_id (req_id r)"
  shows "decode_request obj = Some r"
  using decode_wire_id_value [OF assms(2)]
  by (simp add: decode_request_def only_fields_dom assms(1) request_fields_def or_null_def)

lemma wf_response_cases:
  assumes "wf_message (Response r)"
  obtains v where "v \<noteq> JNull" "resp_result r = Some v" "resp_error r = None"
    | v where "v \<noteq> JNull" "resp_result r = None" "resp_error r = Some v"
  using assms unfolding wf_message.simps
  by (metis response_envelope.select_convs(2,3) response_failure_def response_success_def)

lemma decode_response_fields:
  assumes "map_of obj = map_of (response_fields r)" "wf_message (Response r)"
  shows "decode_response obj = Some r"
proof -
  from assms(2) have i: "decode_wire_id (wire_id_value (resp_id r)) = Some (resp_id r)"
    by (intro decode_wire_id_value) simp
  from assms(2) show ?thesis
    by (cases rule: wf_response_cases)
      (use i in \<open>simp_all add: decode_response_def only_fields_dom assms(1) response_fields_def
        optional_field_def non_null_def\<close>)
qed

text \<open>
  What is written is read back: a line whose JSON object has exactly the fields of an
  encoded request, response or turn event, in any order, is parsed to that very message; an
  additional \<open>trace\<close> field of a request is ignored.
\<close>

theorem envelopes_read_back:
  assumes "from_str sd line = Inr (JObject obj)" "wf_message m"
    "map_of obj = (map_of (message_fields m))(''trace'' := t)"
    "t = None \<or> (\<exists>r. m = Request r)"
  shows "parse_line sd line = Inr m"
proof (cases m)
  case (Request r)
  have "map_of (filter (\<lambda>(k, _). k \<noteq> ''trace'') obj) = map_of (request_fields r)"
    using assms(3) Request by (auto simp: map_of_remove_key request_fields_def)
  from decode_request_fields [OF this] assms Request show ?thesis
    by (simp add: parse_line_def parse_value_def request_fields_def Let_def)
next
  case (Response r)
  then have obj: "map_of obj = map_of (response_fields r)"
    using assms(3,4) by (auto simp: response_fields_def optional_field_def fun_eq_iff split: option.splits)
  have wf: "wf_message (Response r)" using assms(2) Response by simp
  then show ?thesis
    by (cases rule: wf_response_cases)
      (use assms(1) Response decode_response_fields [OF obj wf] in
        \<open>simp_all add: parse_line_def parse_value_def obj response_fields_def optional_field_def non_null_def\<close>)
next
  case (Event e)
  then have obj: "map_of obj = map_of (event_fields e)"
    using assms(3,4) by (auto simp: event_fields_def fun_eq_iff)
  with assms(1,2) Event show ?thesis
    by (simp add: parse_line_def parse_value_def decode_event_def only_fields_dom event_fields_def
        or_null_def)
qed (use assms(2) in simp)

definition sample_serde :: "json \<Rightarrow> serde" where
  "sample_serde v = \<lparr>from_str = (\<lambda>line. if line = ''x'' then Inr v else Inl ''expected value''),
     from_value_error = (\<lambda>_. ''unknown field'')\<rparr>"

definition sample_request :: request_envelope where
  "sample_request = new_request (IntegerId 7) ''session/requestRuntimePreferences'' JNull"

theorem envelopes_read_back_witness:
  "parse_line (sample_serde (JObject ((''trace'', JBool True) # rev (request_fields sample_request)))) ''x'' =
     Inr (Request sample_request)"
proof (rule envelopes_read_back)
  show "wf_message (Request sample_request)"
    by (simp add: sample_request_def new_request_def in_i64_def i64_max_def)
  show "map_of ((''trace'', JBool True) # rev (request_fields sample_request)) =
      (map_of (message_fields (Request sample_request)))(''trace'' \<mapsto> JBool True)"
    by (auto simp: request_fields_def fun_eq_iff)
qed (simp_all add: sample_serde_def)

section \<open>Kinds of messages\<close>

text \<open>
  A parsed message is of one kind and as strict as the envelope demands: the line was a
  JSON object without \<open>jsonrpc\<close>; a request carries the id, method and parameters of the line; a
  response carries exactly one of a result and an error and it is not null; an event is one of
  the three turn events; and an unknown event keeps the raw object, has a method and no id.
\<close>

theorem parsed_message_has_one_kind:
  assumes "parse_line sd line = Inr m"
  shows "\<exists>obj. from_str sd line = Inr (JObject obj) \<and> map_of obj ''jsonrpc'' = None \<and>
    (case m of
       Request r \<Rightarrow> Option.bind (map_of obj ''id'') decode_wire_id = Some (req_id r) \<and>
         map_of obj ''method'' = Some (JString (req_method r)) \<and>
         req_params r = or_null (map_of obj ''params'')
     | Response r \<Rightarrow> Option.bind (map_of obj ''id'') decode_wire_id = Some (resp_id r) \<and>
         (\<exists>v. v \<noteq> JNull \<and> (resp_result r = Some v \<and> resp_error r = None \<or>
                         resp_result r = None \<and> resp_error r = Some v))
     | Event e \<Rightarrow> event_type e \<in> Some ` {''turn.started'', ''turn.completed'', ''turn.failed''}
     | UnknownEvent n raw \<Rightarrow> raw = JObject obj \<and> get_str raw ''method'' = Some n \<and> get raw ''id'' = None)"
proof -
  obtain v where v: "from_str sd line = Inr v" "parse_value sd v = Inr m"
    using assms by (auto simp: parse_line_def split: sum.splits)
  obtain obj where obj: "v = JObject obj"
    using v(2) by (cases v) (auto simp: parse_value_def)
  note run = v(2) [unfolded obj parse_value_def as_object.simps option.case Let_def]
  have no_rpc: "map_of obj ''jsonrpc'' = None"
    using run by (auto split: if_splits)
  have str: "as_str w = Some s \<longleftrightarrow> w = JString s" for w s by (cases w) auto
  show ?thesis
    using run no_rpc v(1) obj
    by (auto simp: decode_request_def decode_response_def decode_event_def map_of_remove_key result_simps
        non_null_None event_type_def is_turn_event_def get_str_def or_null_def bind_eq_Some_conv str
        split: if_splits option.splits)
qed

theorem parsed_message_has_one_kind_witness:
  "\<exists>obj. from_str (sample_serde (JObject [(''id'', JString ''a''), (''error'', JBool False)])) ''x'' =
     Inr (JObject obj) \<and> map_of obj ''jsonrpc'' = None"
proof -
  have "parse_line (sample_serde (JObject [(''id'', JString ''a''), (''error'', JBool False)])) ''x'' =
      Inr (Response (response_failure (StringId ''a'') (JBool False)))" by code_simp
  from parsed_message_has_one_kind [OF this] show ?thesis by blast
qed

section \<open>Projections\<close>

lemma as_object_Some [simp]: "as_object v = Some obj \<longleftrightarrow> v = JObject obj"
  by (cases v) auto

lemma as_str_Some [simp]: "as_str v = Some s \<longleftrightarrow> v = JString s"
  by (cases v) auto

lemma as_array_Some [simp]: "as_array v = Some xs \<longleftrightarrow> v = JArray xs"
  by (cases v) auto

lemma reject_alternate_Inr [result_simps]: "reject_alternate obj key p = Inr u \<longleftrightarrow> map_of obj key = None"
  by (auto simp: reject_alternate_def)

lemma required_bounded_string_Inr [result_simps]:
  "required_bounded_string v p n = Inr s \<longleftrightarrow> v = Some (JString s) \<and> bounded_text n s"
  by (auto simp: required_bounded_string_def result_simps split: if_splits)

lemma optional_model_Inr:
  "optional_model obj p = Inr (Some m) \<Longrightarrow> bounded_text 128 m \<and> normalized_zai_model m \<noteq> None"
  by (auto simp: optional_model_def result_simps split: option.splits if_splits)

lemma settings_current_model_Inr:
  "settings_current_model root = Inr (Some m) \<Longrightarrow> bounded_text 128 m \<and> normalized_zai_model m \<noteq> None"
  by (auto simp: settings_current_model_def result_simps split: option.splits dest: optional_model_Inr)

text \<open>
  A session is only taken from the authoritative fields: an accepted result has its session
  id at \<open>result.session.sessionId\<close>, not empty, at most 512 bytes and without NUL, and no
  alternative spelling of it; the requested model is that of the settings, bounded and of the
  expected provider; and a model observed on the session agrees with the requested one up to
  provider prefix and letter case.
\<close>

theorem session_projection_is_authoritative:
  assumes "session_create_from_result result = Inr p"
  shows "\<exists>root session. result = JObject root \<and> map_of root ''session'' = Some (JObject session) \<and>
    map_of session ''sessionId'' = Some (JString (session_id p)) \<and> bounded_text 512 (session_id p) \<and>
    (\<forall>key \<in> {''sessionId'', ''session_id'', ''modelId'', ''model''}. map_of root key = None) \<and>
    (\<forall>key \<in> {''id'', ''session_id'', ''modelId'', ''settings''}. map_of session key = None) \<and>
    settings_current_model root = Inr (requested_model p) \<and>
    (\<forall>m. requested_model p = Some m \<longrightarrow> bounded_text 128 m \<and> normalized_zai_model m \<noteq> None) \<and>
    (\<exists>observed. session_consistency_model session = Inr observed \<and>
      (\<forall>obs. observed = Some obs \<longrightarrow>
        (\<exists>m. requested_model p = Some m \<and> normalized_zai_model m = normalized_zai_model obs)))"
proof -
  obtain root session sid requested observed where run: "result = JObject root"
    "\<forall>key \<in> {''sessionId'', ''session_id'', ''modelId'', ''model''}. map_of root key = None"
    "map_of root ''session'' = Some (JObject session)"
    "\<forall>key \<in> {''id'', ''session_id'', ''modelId'', ''settings''}. map_of session key = None"
    "map_of session ''sessionId'' = Some (JString sid)" "bounded_text 512 sid"
    "settings_current_model root = Inr requested" "session_consistency_model session = Inr observed"
    and final: "(case (requested, observed) of
       (Some r, Some obs) \<Rightarrow>
         if normalized_zai_model r \<noteq> normalized_zai_model obs then Inl ModelConflict
         else Inr \<lparr>session_id = sid, requested_model = requested\<rparr>
     | (None, Some _) \<Rightarrow> Inl (Missing ''result.settings.model.current.modelId'')
     | _ \<Rightarrow> Inr \<lparr>session_id = sid, requested_model = requested\<rparr>) = Inr p"
    using assms unfolding session_create_from_result_def result_simps
    by (elim exE conjE) simp
  have p: "p = \<lparr>session_id = sid, requested_model = requested\<rparr>"
    "observed = Some obs \<Longrightarrow> \<exists>m. requested = Some m \<and> normalized_zai_model m = normalized_zai_model obs" for obs
    using final by (auto split: option.splits if_splits)
  with run settings_current_model_Inr [of root] show ?thesis by auto
qed

definition sample_session :: json where
  "sample_session = JObject [(''session'', JObject [(''sessionId'', JString ''s-1''),
      (''model'', JObject [(''modelId'', JString ''GLM-4'')])]),
     (''settings'', JObject [(''model'', JObject [(''current'', JObject [(''modelId'', JString ''zai/glm-4'')])])])]"

theorem session_projection_is_authoritative_witness:
  "\<exists>root. sample_session = JObject root \<and> settings_current_model root = Inr (Some ''zai/glm-4'')"
proof -
  have "session_create_from_result sample_session =
      Inr \<lparr>session_id = ''s-1'', requested_model = Some ''zai/glm-4''\<rparr>" by code_simp
  from session_projection_is_authoritative [OF this] show ?thesis by auto
qed

lemma distinct_remdups_adj_sorted: "sorted xs \<Longrightarrow> distinct (remdups_adj xs)" for xs :: "'a::linorder list"
  by (induction xs rule: remdups_adj.induct) (auto simp: less_le)

text \<open>
  The catalog of a workspace is listed in order and once: the available models are sorted by
  bytes without duplicates, each is bounded, and they are exactly the model ids of the catalog.
\<close>

theorem catalog_is_sorted_and_complete:
  assumes "workspace_diagnostic_from_result result = Inr w"
    "result = JObject root" "map_of root ''modelCatalog'' = Some (JObject catalog)"
    "map_of catalog ''available'' = Some (JArray items)"
  shows "sorted (available_models w) \<and> distinct (available_models w) \<and>
    (\<forall>m. m \<in> set (available_models w) \<longleftrightarrow> (\<exists>item \<in> set items. catalog_model item = Inr m)) \<and>
    (\<forall>m \<in> set (available_models w). bounded_text 128 m)"
proof -
  from assms obtain models where models: "collect_results catalog_model items = Inr models"
    "available_models w = remdups_adj (sort models)"
    by (auto simp: workspace_diagnostic_from_result_def optional_object_def result_simps)
  have "bounded_text 128 m" if "catalog_model item = Inr m" for item m
    using that by (auto simp: catalog_model_def result_simps)
  with collect_results_set [OF models(1)] show ?thesis
    by (auto simp: models(2) sorted_remdups_adj distinct_remdups_adj_sorted)
qed

definition catalog_item :: "string \<Rightarrow> json" where
  "catalog_item m = JObject [(''ref'', JObject [(''modelId'', JString m)])]"

theorem catalog_is_sorted_and_complete_witness:
  "\<exists>w. workspace_diagnostic_from_result (JObject [(''modelCatalog'', JObject [(''available'',
      JArray [catalog_item ''b'', catalog_item ''a'', catalog_item ''b''])])]) = Inr w \<and>
    sorted (available_models w) \<and> available_models w = [''a'', ''b'']"
proof -
  have "workspace_diagnostic_from_result (JObject [(''modelCatalog'', JObject [(''available'',
      JArray [catalog_item ''b'', catalog_item ''a'', catalog_item ''b''])])]) =
      Inr \<lparr>current_model = None, available_models = [''a'', ''b'']\<rparr>" by code_simp
  with catalog_is_sorted_and_complete [OF this] show ?thesis by simp
qed

lemma to_lower_idem [simp]: "to_lower (to_lower c) = to_lower c"
  by (simp add: to_lower_def)

lemma byte_eq_iff: "byte c = byte d \<longleftrightarrow> c = d"
  by (simp add: byte_def)

lemma to_lower_eq:
  assumes "byte d < 65"
  shows "to_lower c = d \<longleftrightarrow> c = d"
proof (cases "65 \<le> byte c \<and> byte c \<le> 90")
  case True
  then have "byte (to_lower c) = byte c + 32" by (simp add: to_lower_def)
  with True assms show ?thesis by auto
qed (auto simp: to_lower_def)

lemma in_lowercase: "byte d < 65 \<Longrightarrow> d \<in> set (to_ascii_lowercase s) \<longleftrightarrow> d \<in> set s"
  by (auto simp: to_ascii_lowercase_def image_iff) (metis to_lower_eq)+

lemma normalized_zai_model_Some:
  assumes "normalized_zai_model v = Some n"
  obtains model where "v = model \<or> v = ''zai/'' @ model" "n = to_ascii_lowercase model" "model \<noteq> []"
    "CHR ''/'' \<notin> set model" "bounded_text 128 v"
proof (cases "split_once CHR ''/'' v")
  case None
  with assms show ?thesis
    by (intro that [of v]) (auto simp: normalized_zai_model_def split: if_splits)
next
  case (Some pair)
  then obtain provider model where pair: "split_once CHR ''/'' v = Some (provider, model)" by (cases pair) auto
  with assms have "provider = ''zai''" by (auto simp: normalized_zai_model_def split: if_splits)
  with assms pair split_once_Some [OF pair] show ?thesis
    by (intro that [of model]) (auto simp: normalized_zai_model_def split: if_splits)
qed

text \<open>
  The normal form of a model name is stable: normalizing it again changes nothing, and
  neither does adding the provider prefix to it, as long as the name stays within its bound.
\<close>

theorem normal_form_is_stable:
  assumes "normalized_zai_model v = Some n"
  shows "normalized_zai_model n = Some n \<and>
    (length n \<le> 124 \<longrightarrow> normalized_zai_model (''zai/'' @ n) = Some n)"
proof -
  from assms obtain model where model: "v = model \<or> v = ''zai/'' @ model" "n = to_ascii_lowercase model"
    "model \<noteq> []" "CHR ''/'' \<notin> set model" "bounded_text 128 v" by (rule normalized_zai_model_Some)
  have bytes: "byte CHR ''/'' < 65" "byte nul < 65" by (simp_all add: byte_def)
  have n: "n \<noteq> []" "CHR ''/'' \<notin> set n" "nul \<notin> set n" "length n \<le> 128"
    using model in_lowercase [OF bytes(1), of model] in_lowercase [OF bytes(2), of model]
    by (auto simp: bounded_text_def to_ascii_lowercase_def)
  have idem: "to_ascii_lowercase n = n" using model(2) by (simp add: to_ascii_lowercase_def)
  have "normalized_zai_model n = Some n"
    using n idem split_once_None_iff [of "CHR ''/''" n]
    by (simp add: normalized_zai_model_def bounded_text_def)
  moreover have "length n \<le> 124 \<longrightarrow> normalized_zai_model (''zai/'' @ n) = Some n"
    using n idem by (simp add: normalized_zai_model_def bounded_text_def)
  ultimately show ?thesis by blast
qed

theorem normal_form_is_stable_witness: "normalized_zai_model ''zai/glm-4'' = Some ''glm-4''"
proof -
  have "normalized_zai_model ''GLM-4'' = Some ''glm-4''" by code_simp
  from normal_form_is_stable [OF this] show ?thesis by simp
qed

section \<open>Permission answers\<close>

text \<open>
  A permission answer is one the runtime offered: it is the response of the only offered
  option of the kind that belongs to the decision, and it states that decision itself; so an
  allowance is never sent for a denial or the other way round.
\<close>

theorem permission_answer_was_offered:
  assumes "offered_permission_response params decision = Some answer"
  shows "decision \<in> {''allow'', ''deny''} \<and> get_str answer ''decision'' = Some decision \<and>
    (\<exists>options option. get params ''options'' = Some (JArray options) \<and> option \<in> set options \<and>
      get option ''response'' = Some answer \<and>
      (\<forall>other \<in> set options.
         get_str other ''kind'' = Some (if decision = ''allow'' then ''allow_once'' else ''deny'') \<longrightarrow>
         other = option))"
proof -
  let ?kind = "if decision = ''allow'' then ''allow_once'' else ''deny''"
  let ?offers = "\<lambda>options. filter (\<lambda>option. get_str option ''kind'' = Some ?kind) options"
  obtain options where options: "decision \<in> {''allow'', ''deny''}"
    "get params ''options'' = Some (JArray options)"
    and run: "(case ?offers options of
       [option] \<Rightarrow>
         Option.bind (Option.bind (get option ''response'') as_object) (\<lambda>response.
         if Option.bind (map_of response ''decision'') as_str = Some decision
         then Some (JObject response) else None)
     | _ \<Rightarrow> None) = Some answer"
    using assms unfolding offered_permission_response_def bind_eq_Some_conv
    by (auto simp: bind_eq_Some_conv split: if_splits)
  then obtain option where single: "?offers options = [option]"
    by (cases "?offers options" rule: remdups_adj.cases) auto
  from run [unfolded single list.case] obtain response where
    "get option ''response'' = Some (JObject response)"
    "map_of response ''decision'' = Some (JString decision)" "answer = JObject response"
    by (auto simp: bind_eq_Some_conv split: if_splits)
  note offer = options(1,2) single this
  have unique: "{x \<in> set options. get_str x ''kind'' = Some ?kind} = {option}"
    using arg_cong [OF offer(3), of set] by simp
  have "get_str answer ''decision'' = Some decision" using offer(5,6) by (simp add: get_str_def)
  moreover have "get option ''response'' = Some answer" using offer(4,6) by simp
  moreover have "option \<in> set options \<and> (\<forall>other \<in> set options. get_str other ''kind'' = Some ?kind \<longrightarrow> other = option)"
    using unique by blast
  ultimately show ?thesis using offer(1,2) by blast
qed

definition offered_options :: json where
  "offered_options = JObject [(''options'', JArray
     [JObject [(''kind'', JString ''allow_once''), (''response'', JObject [(''decision'', JString ''allow'')])],
      JObject [(''kind'', JString ''deny''), (''response'', JObject [(''decision'', JString ''deny'')])]])]"

theorem permission_answer_was_offered_witness:
  "\<exists>answer. offered_permission_response offered_options ''deny'' = Some answer \<and>
     get_str answer ''decision'' = Some ''deny''"
proof -
  have "offered_permission_response offered_options ''deny'' = Some (JObject [(''decision'', JString ''deny'')])"
    by code_simp
  with permission_answer_was_offered [OF this] show ?thesis by blast
qed

end
