(* ===== verification/Observation.thy ===== *)
theory Observation
  imports Json "HOL-Library.List_Lexorder" "HOL-Library.Char_ord" "HOL-Library.Product_Lexorder"
begin

text \<open>
  The bounded summary of a running session (\<open>crates/zcode-agentd/src/observation.rs\<close>).

  A \<open>HashMap\<close> is the list of its entries in the order its iterator would visit them, a
  \<open>HashSet\<close> the list of its elements; no key occurs twice. The serializer of \<open>serde_json\<close> is
  a parameter, as are the file access and the hash of \<open>runtime_source_verified\<close>.
\<close>

section \<open>Constants and types\<close>

definition verified_event_type :: string where
  "verified_event_type = ''model.streaming''"

definition max_identities :: nat where "max_identities = 65536"
definition max_tool_types :: nat where "max_tool_types = 64"
definition max_recent_calls :: nat where "max_recent_calls = 5"
definition max_reasoning_chars :: nat where "max_reasoning_chars = 200"
definition max_reasoning_bytes :: nat where "max_reasoning_bytes = 64 * 1024"
definition max_id_bytes :: nat where "max_id_bytes = 512"
definition max_argument_bytes :: nat where "max_argument_bytes = 4 * 1024"
definition max_argument_preview_bytes :: nat where "max_argument_preview_bytes = 2000"

lemmas observation_limits = max_identities_def max_tool_types_def max_recent_calls_def
  max_reasoning_chars_def max_reasoning_bytes_def max_id_bytes_def max_argument_bytes_def
  max_argument_preview_bytes_def

type_synonym json_object = "(string \<times> json) list"

record observed_call =
  seq :: u64
  tool_call_id :: string
  arguments :: json_object
  arguments_truncated :: bool
  redacted_fields :: u64

record observed_tool =
  tool_name :: string
  tool_call_count :: u64
  tool_recent_calls :: "observed_call list"

record reasoning_source =
  status :: string
  runtime_version :: string
  event_type :: string
  delta_pointer :: string

definition verified_source :: reasoning_source where
  "verified_source = \<lparr>status = ''VERIFIED_RUNTIME_PUBLIC'', runtime_version = ''3.11.2'',
     event_type = verified_event_type, delta_pointer = ''/params/payload/delta''\<rparr>"

record observed_reasoning =
  shown_text :: string
  char_count :: nat
  truncated :: bool
  source :: reasoning_source

record observation_coverage =
  cov_tool_history_complete :: bool
  cov_reasoning_complete :: bool
  cov_dropped_events :: u64

record observation_snapshot =
  snap_seq :: u64
  snap_tools :: "observed_tool list"
  snap_reasoning :: observed_reasoning
  snap_coverage :: observation_coverage

record tool_group =
  call_count :: u64
  latest_seq :: u64
  recent_calls :: "observed_call list"

record observation_state =
  snapshot_seq :: u64
  next_call_seq :: u64
  seen_source_events :: "string list"
  seen_calls :: "(string \<times> string \<times> u64) list"
  tools :: "(string \<times> tool_group) list"
  reasoning_raw :: string
  reasoning_text :: string
  reasoning_truncated :: bool
  tool_history_complete :: bool
  reasoning_complete :: bool
  dropped_events :: u64

definition default_observation :: observation_state where
  "default_observation = \<lparr>snapshot_seq = 0, next_call_seq = 0, seen_source_events = [], seen_calls = [],
     tools = [], reasoning_raw = [], reasoning_text = [], reasoning_truncated = False,
     tool_history_complete = True, reasoning_complete = True, dropped_events = 0\<rparr>"

definition unavailable_snapshot :: observation_snapshot where
  "unavailable_snapshot = \<lparr>snap_seq = 0, snap_tools = [],
     snap_reasoning = \<lparr>shown_text = [], char_count = 0, truncated = False,
       source = verified_source\<rparr>,
     snap_coverage = \<lparr>cov_tool_history_complete = False, cov_reasoning_complete = False,
       cov_dropped_events = 0\<rparr>\<rparr>"

section \<open>Helpers\<close>

definition valid_id :: "json option \<Rightarrow> string option" where
  "valid_id v =
     (case Option.bind v as_str of
        None \<Rightarrow> None
      | Some s \<Rightarrow>
          if s \<noteq> [] \<and> length s \<le> max_id_bytes \<and> \<not> List.member s nul then Some s else None)"

definition reasoning_tail :: "string \<Rightarrow> string" where
  "reasoning_tail v = concat (rev (take max_reasoning_chars (rev (chars v))))"

definition is_continuation :: "char \<Rightarrow> bool" where
  "is_continuation b \<longleftrightarrow> 128 \<le> byte b \<and> byte b < 192"

definition is_char_boundary :: "string \<Rightarrow> nat \<Rightarrow> bool" where
  "is_char_boundary s i \<longleftrightarrow> i = 0 \<or> i = length s \<or> (i < length s \<and> \<not> is_continuation (s ! i))"

fun exclude_protocol_fields :: "json \<Rightarrow> u64 \<Rightarrow> json \<times> u64"
  and exclude_entries :: "json_object \<Rightarrow> u64 \<Rightarrow> json_object \<times> u64"
  and exclude_items :: "json list \<Rightarrow> u64 \<Rightarrow> json list \<times> u64" where
  "exclude_protocol_fields (JObject entries) n =
     (let (kept, n') = exclude_entries entries n in (JObject kept, n'))"
| "exclude_protocol_fields (JArray items) n =
     (let (kept, n') = exclude_items items n in (JArray kept, n'))"
| "exclude_protocol_fields other n = (other, n)"
| "exclude_entries [] n = ([], n)"
| "exclude_entries ((key, v) # rest) n =
     (if key = ''encrypted_content'' then exclude_entries rest (saturating_add n 1)
      else
        let (v', n') = exclude_protocol_fields v n;
            (rest', n'') = exclude_entries rest n'
        in ((key, v') # rest', n''))"
| "exclude_items [] n = ([], n)"
| "exclude_items (v # rest) n =
     (let (v', n') = exclude_protocol_fields v n;
          (rest', n'') = exclude_items rest n'
      in (v' # rest', n''))"

text \<open>The loop that moves the end of the preview down to a character boundary.\<close>

fun floor_boundary :: "string \<Rightarrow> nat \<Rightarrow> nat" where
  "floor_boundary s 0 = 0"
| "floor_boundary s (Suc n) = (if is_char_boundary s (Suc n) then Suc n else floor_boundary s n)"

definition project_arguments ::
  "(json \<Rightarrow> string) \<Rightarrow> json option \<Rightarrow> json_object \<times> bool \<times> u64" where
  "project_arguments to_string input =
     (let (args, excluded) =
            (case Option.bind input as_object of
               None \<Rightarrow> ([], 0)
             | Some object \<Rightarrow>
                 let (v, n) = exclude_protocol_fields (JObject object) 0
                 in (case as_object v of None \<Rightarrow> ([], n) | Some kept \<Rightarrow> (kept, n)));
          serialized = to_string (JObject args)
      in if length serialized \<le> max_argument_bytes then (args, False, excluded)
         else
           let preview_end =
                 floor_boundary serialized (min (length serialized) max_argument_preview_bytes);
               projected = [(''_truncated_preview'', JString (take preview_end serialized))]
           in (if max_argument_bytes < length (to_string (JObject projected)) then [] else projected,
               True, excluded))"

section \<open>Events\<close>

definition bump_snapshot :: "observation_state \<Rightarrow> observation_state" where
  "bump_snapshot s = s\<lparr>snapshot_seq := saturating_add (snapshot_seq s) 1\<rparr>"

definition count_dropped :: "observation_state \<Rightarrow> observation_state" where
  "count_dropped s = s\<lparr>dropped_events := saturating_add (dropped_events s) 1\<rparr>"

definition drop_event :: "bool \<Rightarrow> observation_state \<Rightarrow> observation_state" where
  "drop_event tool s = bump_snapshot (count_dropped
     (if tool then s\<lparr>tool_history_complete := False\<rparr> else s\<lparr>reasoning_complete := False\<rparr>))"

definition observe_loss :: "observation_state \<Rightarrow> observation_state" where
  "observe_loss s = bump_snapshot (count_dropped
     (s\<lparr>tool_history_complete := False, reasoning_complete := False\<rparr>))"

text \<open>
  The bytes kept of a text that is too long: \<open>start\<close> moves up from the cut to the next character
  boundary, which skips the continuation bytes at the front of the rest.
\<close>

definition keep_tail :: "nat \<Rightarrow> string \<Rightarrow> string" where
  "keep_tail n s = dropWhile is_continuation (drop (length s - n) s)"

definition observe_reasoning :: "string \<Rightarrow> observation_state \<Rightarrow> observation_state" where
  "observe_reasoning delta s =
     (if delta = [] then s
      else
        let combined = reasoning_raw s @ delta;
            s1 = (if max_reasoning_bytes < length combined
                  then count_dropped (s\<lparr>reasoning_raw := keep_tail max_reasoning_bytes combined,
                         reasoning_truncated := True, reasoning_complete := False\<rparr>)
                  else s\<lparr>reasoning_raw := combined\<rparr>)
        in s1\<lparr>reasoning_text := reasoning_tail (reasoning_raw s1),
             reasoning_truncated := (reasoning_truncated s1
               \<or> max_reasoning_chars < length (chars (reasoning_raw s1)))\<rparr>)"

fun replace_call :: "u64 \<Rightarrow> (observed_call \<Rightarrow> observed_call) \<Rightarrow> observed_call list \<Rightarrow> observed_call list" where
  "replace_call n f [] = []"
| "replace_call n f (c # cs) = (if seq c = n then f c # cs else c # replace_call n f cs)"

definition set_arguments :: "json_object \<times> bool \<times> u64 \<Rightarrow> observed_call \<Rightarrow> observed_call" where
  "set_arguments projection call = (case projection of (args, shortened, redacted) \<Rightarrow>
     call\<lparr>arguments := args, arguments_truncated := shortened, redacted_fields := redacted\<rparr>)"

text \<open>A call that was seen before only has its arguments brought up to date.\<close>

definition update_seen_call ::
  "string \<Rightarrow> u64 \<Rightarrow> json_object \<times> bool \<times> u64 \<Rightarrow> observation_state \<Rightarrow> observation_state" where
  "update_seen_call original n projection s =
     (case Option.bind (map_of (tools s) original) (\<lambda>g. List.find (\<lambda>c. seq c = n) (recent_calls g)) of
        None \<Rightarrow> s
      | Some call \<Rightarrow>
          if call \<noteq> set_arguments projection call
          then bump_snapshot (s\<lparr>tools := map (\<lambda>(name, g).
                 if name = original
                 then (name, g\<lparr>recent_calls := replace_call n (set_arguments projection) (recent_calls g)\<rparr>)
                 else (name, g)) (tools s)\<rparr>)
          else s)"

text \<open>\<open>entry(name).or_default()\<close> followed by an update of the entry.\<close>

definition empty_group :: tool_group where
  "empty_group = \<lparr>call_count = 0, latest_seq = 0, recent_calls = []\<rparr>"

definition update_entry ::
  "string \<Rightarrow> (tool_group \<Rightarrow> tool_group) \<Rightarrow> (string \<times> tool_group) list \<Rightarrow> (string \<times> tool_group) list" where
  "update_entry name f m =
     (if list_ex (\<lambda>(k, g). k = name) m
      then map (\<lambda>(k, g). if k = name then (k, f g) else (k, g)) m
      else (name, f empty_group) # m)"

definition record_call :: "observed_call \<Rightarrow> tool_group \<Rightarrow> tool_group" where
  "record_call call g = \<lparr>call_count = saturating_add (call_count g) 1, latest_seq = seq call,
     recent_calls = take max_recent_calls (call # recent_calls g)\<rparr>"

definition add_call ::
  "string \<Rightarrow> string \<Rightarrow> string \<Rightarrow> json_object \<times> bool \<times> u64 \<Rightarrow> observation_state \<Rightarrow> observation_state" where
  "add_call identity name call_id projection s =
     (let n = saturating_add (next_call_seq s) 1;
          call = (case projection of (args, shortened, redacted) \<Rightarrow>
            \<lparr>seq = n, tool_call_id = call_id, arguments = args, arguments_truncated = shortened,
             redacted_fields = redacted\<rparr>)
      in bump_snapshot (s\<lparr>next_call_seq := n,
           seen_calls := (identity, name, n) # seen_calls s,
           tools := update_entry name (record_call call) (tools s)\<rparr>))"

definition call_identity :: "string \<Rightarrow> string \<Rightarrow> string" where
  "call_identity turn_id call_id = turn_id @ nul # call_id"

definition observe_tool ::
  "(json \<Rightarrow> string) \<Rightarrow> json \<Rightarrow> json \<Rightarrow> observation_state \<Rightarrow> observation_state" where
  "observe_tool to_string params payload s =
     (case valid_id (get payload ''toolCallId'') of
        None \<Rightarrow> drop_event True s
      | Some call_id \<Rightarrow>
          (case valid_id (get payload ''toolName'') of
             None \<Rightarrow> drop_event True s
           | Some name \<Rightarrow>
               let turn_id = (case valid_id (get params ''turnId'') of None \<Rightarrow> [] | Some t \<Rightarrow> t);
                   identity = call_identity turn_id call_id;
                   projection = project_arguments to_string (get payload ''input'')
               in (case map_of (seen_calls s) identity of
                     Some (original, n) \<Rightarrow> update_seen_call original n projection s
                   | None \<Rightarrow>
                       if max_identities \<le> length (seen_calls s) then drop_event True s
                       else if map_of (tools s) name = None \<and> max_tool_types \<le> length (tools s)
                       then drop_event True s
                       else add_call identity name call_id projection s)))"

definition observe_message ::
  "(json \<Rightarrow> string) \<Rightarrow> string \<Rightarrow> json \<Rightarrow> observation_state \<Rightarrow> observation_state" where
  "observe_message to_string m params s =
     (if m \<noteq> ''session/event'' \<or> get_str params ''type'' \<noteq> Some verified_event_type then s
      else
        let payload = (case get params ''payload'' of None \<Rightarrow> JNull | Some v \<Rightarrow> v);
            kind = get_str payload ''kind''
        in if kind \<noteq> Some ''reasoning_delta'' \<and> kind \<noteq> Some ''tool_call'' then s
           else
             (case valid_id (get params ''eventId'') of
                None \<Rightarrow> drop_event (kind = Some ''tool_call'') s
              | Some event_id \<Rightarrow>
                  if List.member (seen_source_events s) event_id then s
                  else if max_identities \<le> length (seen_source_events s)
                  then drop_event (kind = Some ''tool_call'') s
                  else
                    let s1 = s\<lparr>seen_source_events := event_id # seen_source_events s\<rparr>
                    in if kind = Some ''reasoning_delta''
                       then (case get_str payload ''delta'' of
                               None \<Rightarrow> bump_snapshot (count_dropped (s1\<lparr>reasoning_complete := False\<rparr>))
                             | Some delta \<Rightarrow> bump_snapshot (observe_reasoning delta s1))
                       else observe_tool to_string params payload s1))"

section \<open>The snapshot\<close>

text \<open>Tools with more calls first, then the most recently used, then by name.\<close>

definition rank :: "string \<times> tool_group \<Rightarrow> int \<times> int \<times> string" where
  "rank entry = (- uint (call_count (snd entry)), - uint (latest_seq (snd entry)), fst entry)"

definition snapshot :: "observation_state \<Rightarrow> observation_snapshot" where
  "snapshot s = \<lparr>snap_seq = snapshot_seq s,
     snap_tools = map (\<lambda>(name, g). \<lparr>tool_name = name, tool_call_count = call_count g,
        tool_recent_calls = recent_calls g\<rparr>) (take 3 (sort_key rank (tools s))),
     snap_reasoning = \<lparr>shown_text = reasoning_text s,
        char_count = length (chars (reasoning_text s)), truncated = reasoning_truncated s,
        source = verified_source\<rparr>,
     snap_coverage = \<lparr>cov_tool_history_complete = tool_history_complete s,
        cov_reasoning_complete = reasoning_complete s, cov_dropped_events = dropped_events s\<rparr>\<rparr>"

definition runtime_source_verified ::
  "(string \<Rightarrow> string option) \<Rightarrow> (string \<Rightarrow> string option) \<Rightarrow> (string \<Rightarrow> string) \<Rightarrow> string option \<Rightarrow> bool" where
  "runtime_source_verified canonicalize_path contents sha256_hex p =
     (case Option.bind p canonicalize_path of
        None \<Rightarrow> False
      | Some canonical \<Rightarrow>
          canonical = ''/Applications/ZCode.app/Contents/Resources/glm/zcode.cjs'' \<and>
          (case contents canonical of
             None \<Rightarrow> False
           | Some bytes \<Rightarrow>
               sha256_hex bytes = ''e9f1868c0fdb863537ed910ee3828b9be96b8c2fd805473f63b439e1113266b8''))"

end
