(* ===== verification/Observation_Properties.thy ===== *)
theory Observation_Properties
  imports Observation Machine
begin

text \<open>
  The properties of the session summary: its size is bounded, its counts are exact, the calls it
  shows are the latest ones, it never shows a redacted field, and what it dropped is flagged.
\<close>

section \<open>Runs and the invariant\<close>

inductive observe_step :: "(json \<Rightarrow> string) \<Rightarrow> observation_state \<Rightarrow> observation_state \<Rightarrow> bool" for ts where
  message: "observe_step ts s (observe_message ts m params s)"
| loss: "observe_step ts s (observe_loss s)"

inductive_cases observe_stepE: "observe_step ts s t"

type_synonym call_log = "(string \<times> string \<times> u64) list"

text \<open>The numbers of the recorded calls of one tool, the latest first.\<close>

definition numbers_of :: "string \<Rightarrow> call_log \<Rightarrow> u64 list" where
  "numbers_of name log = map (\<lambda>(_, _, n). n) (filter (\<lambda>(_, name', _). name' = name) log)"

definition group_ok :: "call_log \<Rightarrow> string \<times> tool_group \<Rightarrow> bool" where
  "group_ok log entry \<longleftrightarrow> (case entry of (name, g) \<Rightarrow>
     numbers_of name log \<noteq> [] \<and> unat (call_count g) = length (numbers_of name log) \<and>
     latest_seq g = hd (numbers_of name log) \<and>
     map seq (recent_calls g) = take max_recent_calls (numbers_of name log))"

definition log_ok :: "observation_state \<Rightarrow> bool" where
  "log_ok s \<longleftrightarrow> distinct (map fst (seen_calls s)) \<and> length (seen_calls s) \<le> max_identities \<and>
     unat (next_call_seq s) = length (seen_calls s) \<and>
     map (\<lambda>(_, _, n). unat n) (seen_calls s) = rev [1..<Suc (length (seen_calls s))]"

definition tools_ok :: "observation_state \<Rightarrow> bool" where
  "tools_ok s \<longleftrightarrow> distinct (map fst (tools s)) \<and> length (tools s) \<le> max_tool_types \<and>
     (\<forall>entry \<in> set (tools s). group_ok (seen_calls s) entry) \<and>
     (\<forall>(_, name, _) \<in> set (seen_calls s). name \<in> fst ` set (tools s))"

definition text_ok :: "observation_state \<Rightarrow> bool" where
  "text_ok s \<longleftrightarrow> length (reasoning_raw s) \<le> max_reasoning_bytes \<and>
     reasoning_text s = reasoning_tail (reasoning_raw s)"

definition coverage_ok :: "observation_state \<Rightarrow> bool" where
  "coverage_ok s \<longleftrightarrow> distinct (seen_source_events s) \<and> length (seen_source_events s) \<le> max_identities \<and>
     (dropped_events s \<noteq> 0 \<longrightarrow> \<not> (tool_history_complete s \<and> reasoning_complete s))"

definition obs_inv :: "observation_state \<Rightarrow> bool" where
  "obs_inv s \<longleftrightarrow> log_ok s \<and> tools_ok s \<and> text_ok s \<and> coverage_ok s"

lemmas obs_inv_defs = obs_inv_def log_ok_def tools_ok_def text_ok_def coverage_ok_def
lemmas bookkeeping_defs = bump_snapshot_def count_dropped_def drop_event_def observe_loss_def

lemma obs_inv_default: "obs_inv default_observation"
  by (simp add: obs_inv_defs default_observation_def reasoning_tail_def)

lemma obs_inv_bump [simp]: "obs_inv (bump_snapshot s) \<longleftrightarrow> obs_inv s"
  by (simp add: obs_inv_defs bump_snapshot_def)

lemma obs_inv_drop: "obs_inv s \<Longrightarrow> obs_inv (drop_event tool s)"
  by (auto simp: obs_inv_defs bookkeeping_defs)

lemma obs_inv_loss: "obs_inv s \<Longrightarrow> obs_inv (observe_loss s)"
  by (auto simp: obs_inv_defs bookkeeping_defs)

lemma length_keep_tail: "length (keep_tail n s) \<le> n"
proof -
  have "length (keep_tail n s) \<le> length (drop (length s - n) s)"
    unfolding keep_tail_def by (rule length_dropWhile_le)
  then show ?thesis by simp
qed

lemma obs_inv_reasoning:
  assumes "obs_inv s"
  shows "obs_inv (observe_reasoning delta s)"
  using assms length_keep_tail [of max_reasoning_bytes "reasoning_raw s @ delta"]
  by (auto simp: obs_inv_defs observe_reasoning_def Let_def count_dropped_def)

section \<open>Recorded calls\<close>

lemma seq_set_arguments [simp]: "seq (set_arguments p c) = seq c"
  by (simp add: set_arguments_def split: prod.splits)

lemma map_seq_replace [simp]: "map seq (replace_call n (set_arguments p) cs) = map seq cs"
  by (induction cs) auto

lemma map_fst_relabel: "(\<And>k g. fst (f (k, g)) = k) \<Longrightarrow> map fst (map f m) = map fst m"
  by (induction m) auto

lemma obs_inv_update_seen:
  assumes "obs_inv s"
  shows "obs_inv (update_seen_call original n p s)"
proof -
  let ?f = "\<lambda>(name, g). if name = original
    then (name, g\<lparr>recent_calls := replace_call n (set_arguments p) (recent_calls g)\<rparr>) else (name, g)"
  have names: "map fst (map ?f (tools s)) = map fst (tools s)" by (rule map_fst_relabel) simp
  then have names_set: "fst ` set (map ?f (tools s)) = fst ` set (tools s)" by (metis set_map)
  have "group_ok (seen_calls s) (?f entry) \<longleftrightarrow> group_ok (seen_calls s) entry" for entry
    by (auto simp: group_ok_def split: prod.splits)
  then have "obs_inv (s\<lparr>tools := map ?f (tools s)\<rparr>)"
    using assms names names_set by (auto simp: obs_inv_defs simp del: map_map)
  with assms show ?thesis by (auto simp: update_seen_call_def split: option.splits)
qed

lemma numbers_of_Cons [simp]:
  "numbers_of name ((i, name', n) # log) = (if name' = name then n # numbers_of name log else numbers_of name log)"
  by (simp add: numbers_of_def)

lemma length_numbers_of: "length (numbers_of name log) \<le> length log"
  by (simp add: numbers_of_def)

lemma unat_saturating_Suc:
  assumes "unat w < 18446744073709551615"
  shows "unat (saturating_add w 1) = Suc (unat w)"
proof -
  have w: "uint w = int (unat w)" by simp
  with assms have "uint w + 1 \<le> 18446744073709551615" by linarith
  then have "uint (saturating_add w 1) = uint w + 1" by (simp add: uint_saturating_add)
  then have "int (unat (saturating_add w 1)) = int (Suc (unat w))" by simp
  then show ?thesis by (simp only: of_nat_eq_iff)
qed

lemma numbers_of_Nil_iff: "numbers_of name log = [] \<longleftrightarrow> name \<notin> (\<lambda>(_, n, _). n) ` set log"
  by (force simp: numbers_of_def filter_empty_conv)

lemma record_call_ok:
  assumes "seq call = n" "length log \<le> max_identities"
    "g = empty_group \<and> numbers_of name log = [] \<or> group_ok log (name, g)"
  shows "group_ok ((i, name, n) # log) (name, record_call call g)"
proof -
  have count: "unat (call_count g) = length (numbers_of name log)"
    and recent: "map seq (recent_calls g) = take max_recent_calls (numbers_of name log)"
    using assms(3) by (auto simp: group_ok_def empty_group_def)
  have "unat (saturating_add (call_count g) 1) = Suc (unat (call_count g))"
    using length_numbers_of [of name log] assms(2) count
    by (intro unat_saturating_Suc) (simp add: max_identities_def)
  then show ?thesis
    using assms(1) count recent
    by (simp add: group_ok_def record_call_def take_map [symmetric] max_recent_calls_def take_Cons')
qed

lemma group_ok_other: "name' \<noteq> name \<Longrightarrow> group_ok ((i, name, n) # log) (name', g) \<longleftrightarrow> group_ok log (name', g)"
  by (simp add: group_ok_def)

lemma update_entry_names:
  "fst ` set (update_entry name f m) = insert name (fst ` set m)"
  "distinct (map fst m) \<Longrightarrow> distinct (map fst (update_entry name f m))"
  "length (update_entry name f m) = (if map_of m name = None then Suc (length m) else length m)"
proof -
  have known: "list_ex (\<lambda>(k, g). k = name) m \<longleftrightarrow> name \<in> fst ` set m" by (force simp: list_ex_iff)
  let ?f = "\<lambda>(k, g). if k = name then (k, f g) else (k, g)"
  have keys: "map fst (map ?f m) = map fst m" by (rule map_fst_relabel) simp
  then have keys_set: "fst ` set (map ?f m) = fst ` set m" by (metis set_map)
  show "fst ` set (update_entry name f m) = insert name (fst ` set m)"
    using keys_set known by (auto simp: update_entry_def simp del: set_map)
  show "distinct (map fst m) \<Longrightarrow> distinct (map fst (update_entry name f m))"
    using keys known by (auto simp: update_entry_def simp del: map_map)
  show "length (update_entry name f m) = (if map_of m name = None then Suc (length m) else length m)"
    using known by (simp add: update_entry_def map_of_eq_None_iff)
qed

lemma update_entry_groups:
  assumes "\<And>k g. (k, g) \<in> set m \<Longrightarrow> k \<noteq> name \<Longrightarrow> P (k, g)"
    "\<And>g. (name, g) \<in> set m \<Longrightarrow> P (name, f g)" "name \<notin> fst ` set m \<Longrightarrow> P (name, f empty_group)"
  shows "\<forall>entry \<in> set (update_entry name f m). P entry"
proof (cases "name \<in> fst ` set m")
  case True
  then have "list_ex (\<lambda>(k, g). k = name) m" by (force simp: list_ex_iff)
  with assms(1,2) show ?thesis by (auto simp: update_entry_def)
next
  case False
  then have "\<not> list_ex (\<lambda>(k, g). k = name) m" by (force simp: list_ex_iff)
  moreover have "k \<noteq> name" if "(k, g) \<in> set m" for k g using False that by force
  ultimately show ?thesis using assms(1) assms(3) [OF False] by (auto simp: update_entry_def)
qed

lemma obs_inv_add_call:
  assumes inv: "obs_inv s" and new: "map_of (seen_calls s) i = None"
    and room: "length (seen_calls s) < max_identities"
    and tool_room: "map_of (tools s) name \<noteq> None \<or> length (tools s) < max_tool_types"
  shows "obs_inv (add_call i name call_id p s)"
proof -
  let ?n = "saturating_add (next_call_seq s) 1"
  obtain args shortened redacted where p: "p = (args, shortened, redacted)" by (cases p)
  let ?call = "\<lparr>seq = ?n, tool_call_id = call_id, arguments = args, arguments_truncated = shortened,
    redacted_fields = redacted\<rparr>"
  let ?log = "(i, name, ?n) # seen_calls s"
  let ?tools = "update_entry name (record_call ?call) (tools s)"
  from inv have log: "log_ok s" and tools: "tools_ok s" and rest: "text_ok s" "coverage_ok s"
    by (simp_all add: obs_inv_def)
  have num: "unat ?n = Suc (length (seen_calls s))"
    using log room unat_saturating_Suc [of "next_call_seq s"] by (simp add: log_ok_def max_identities_def)
  have "\<forall>entry \<in> set ?tools. group_ok ?log entry"
  proof (rule update_entry_groups)
    fix g assume "(name, g) \<in> set (tools s)"
    with tools room show "group_ok ?log (name, record_call ?call g)"
      by (intro record_call_ok) (auto simp: tools_ok_def)
  next
    assume "name \<notin> fst ` set (tools s)"
    with tools have "numbers_of name (seen_calls s) = []" by (force simp: tools_ok_def numbers_of_Nil_iff)
    with room show "group_ok ?log (name, record_call ?call empty_group)"
      by (intro record_call_ok) auto
  qed (use tools in \<open>auto simp: tools_ok_def group_ok_other\<close>)
  moreover have "length ?tools \<le> max_tool_types"
    using tools tool_room by (auto simp: update_entry_names(3) tools_ok_def)
  ultimately have "tools_ok (s\<lparr>next_call_seq := ?n, seen_calls := ?log, tools := ?tools\<rparr>)"
    using tools by (auto simp: tools_ok_def update_entry_names(1,2))
  moreover have "log_ok (s\<lparr>next_call_seq := ?n, seen_calls := ?log, tools := ?tools\<rparr>)"
    using log new room num by (auto simp: log_ok_def map_of_eq_None_iff)
  ultimately show ?thesis
    using rest unfolding add_call_def Let_def p prod.case obs_inv_bump
    by (simp add: obs_inv_def text_ok_def coverage_ok_def)
qed

lemma obs_inv_tool: "obs_inv s \<Longrightarrow> obs_inv (observe_tool ts params payload s)"
  unfolding observe_tool_def Let_def
  by (auto simp: not_le intro: obs_inv_drop obs_inv_update_seen intro!: obs_inv_add_call split: option.splits)

lemma obs_inv_seen:
  "obs_inv s \<Longrightarrow> \<not> List.member (seen_source_events s) e \<Longrightarrow> length (seen_source_events s) < max_identities \<Longrightarrow>
   obs_inv (s\<lparr>seen_source_events := e # seen_source_events s\<rparr>)"
  by (auto simp: obs_inv_defs)

lemma obs_inv_gap: "obs_inv s \<Longrightarrow> obs_inv (count_dropped (s\<lparr>reasoning_complete := False\<rparr>))"
  by (auto simp: obs_inv_defs count_dropped_def)

lemma obs_inv_message: "obs_inv s \<Longrightarrow> obs_inv (observe_message ts m params s)"
  unfolding observe_message_def Let_def
  by (auto simp: not_le intro!: obs_inv_drop obs_inv_tool obs_inv_reasoning obs_inv_gap obs_inv_seen
      split: option.splits)

interpretation observation: invariant_machine default_observation "observe_step ts" obs_inv for ts
  by unfold_locales (auto elim!: observe_stepE intro: obs_inv_default obs_inv_message obs_inv_loss)

abbreviation observed :: "(json \<Rightarrow> string) \<Rightarrow> observation_state \<Rightarrow> bool" where
  "observed ts \<equiv> reach default_observation (observe_step ts)"

section \<open>Arguments\<close>

text \<open>A predicate on the arguments of every call that can be shown.\<close>

definition all_args :: "(json_object \<Rightarrow> bool) \<Rightarrow> observation_state \<Rightarrow> bool" where
  "all_args Q s \<longleftrightarrow> (\<forall>entry \<in> set (tools s). \<forall>c \<in> set (recent_calls (snd entry)). Q (arguments c))"

lemma all_args_bookkeeping [simp]:
  "all_args Q (bump_snapshot s) = all_args Q s" "all_args Q (count_dropped s) = all_args Q s"
  "all_args Q (drop_event tool s) = all_args Q s" "all_args Q (observe_loss s) = all_args Q s"
  "all_args Q (s\<lparr>seen_source_events := es\<rparr>) = all_args Q s"
  "all_args Q (s\<lparr>reasoning_complete := b\<rparr>) = all_args Q s"
  "all_args Q (observe_reasoning delta s) = all_args Q s"
  by (simp_all add: all_args_def bookkeeping_defs observe_reasoning_def Let_def)

lemma set_replace_call:
  "c \<in> set (replace_call n f cs) \<Longrightarrow> c \<in> set cs \<or> (\<exists>d \<in> set cs. c = f d)"
  by (induction cs) (auto split: if_splits)

lemma all_args_update_seen:
  assumes "all_args Q s" "Q (fst p)"
  shows "all_args Q (update_seen_call original n p s)"
proof -
  let ?f = "\<lambda>(name, g). if name = original
    then (name, g\<lparr>recent_calls := replace_call n (set_arguments p) (recent_calls g)\<rparr>) else (name, g)"
  have "Q (arguments (set_arguments p d))" for d
    using assms(2) by (cases p) (simp add: set_arguments_def)
  then have "\<forall>c \<in> set (replace_call n (set_arguments p) cs). Q (arguments c)"
    if "\<forall>c \<in> set cs. Q (arguments c)" for cs
    using that set_replace_call [of _ n "set_arguments p" cs] by blast
  then have kept: "\<forall>c \<in> set (recent_calls (snd (?f entry))). Q (arguments c)"
    if "\<forall>c \<in> set (recent_calls (snd entry)). Q (arguments c)" for entry
    using that by (cases entry) simp
  have "\<forall>entry \<in> set (map ?f (tools s)). \<forall>c \<in> set (recent_calls (snd entry)). Q (arguments c)"
    unfolding set_map by (rule ballI, erule imageE, hypsubst, rule kept)
      (use assms(1) in \<open>simp add: all_args_def\<close>)
  then have "all_args Q (s\<lparr>tools := map ?f (tools s)\<rparr>)" by (simp add: all_args_def)
  with assms(1) show ?thesis by (simp add: update_seen_call_def split: option.splits)
qed

lemma all_args_add_call:
  assumes "all_args Q s" "Q (fst p)"
  shows "all_args Q (add_call i name call_id p s)"
proof -
  obtain args shortened redacted where p: "p = (args, shortened, redacted)" by (cases p)
  let ?call = "\<lparr>seq = saturating_add (next_call_seq s) 1, tool_call_id = call_id, arguments = args,
    arguments_truncated = shortened, redacted_fields = redacted\<rparr>"
  let ?ok = "\<lambda>entry. \<forall>c \<in> set (recent_calls (snd entry)). Q (arguments c)"
  have new: "?ok (name, record_call ?call g)" if "?ok (name, g)" for g
    using that assms(2) p by (auto simp: record_call_def dest!: in_set_takeD)
  have "\<forall>entry \<in> set (update_entry name (record_call ?call) (tools s)). ?ok entry"
    using assms(1) by (intro update_entry_groups new) (auto simp: all_args_def empty_group_def)
  then show ?thesis by (simp add: all_args_def add_call_def Let_def p bump_snapshot_def)
qed

lemma observed_all_args:
  assumes "\<And>input. Q (fst (project_arguments ts input))" "observed ts s"
  shows "all_args Q s"
  using assms(2)
proof (induction rule: reach.induct)
  case start
  show ?case by (simp add: all_args_def default_observation_def)
next
  case (next_state s t)
  have tool: "all_args Q (observe_tool ts params payload u)" if "all_args Q u" for params payload u
    using that assms(1) unfolding observe_tool_def Let_def
    by (auto intro!: all_args_update_seen all_args_add_call split: option.splits)
  have "all_args Q (observe_message ts m params s)" for m params
    using next_state.IH unfolding observe_message_def Let_def
    by (auto intro!: tool split: option.splits)
  with next_state.IH next_state.hyps(2) show ?case by (auto elim!: observe_stepE)
qed

section \<open>Bounds\<close>

lemma chars_concat_drop: "chars (concat (drop k (chars s))) = drop k (chars s)"
proof (induction s arbitrary: k rule: chars.induct)
  case (2 b bs)
  show ?case
  proof (cases k)
    case 0
    then show ?thesis using concat_chars [of "b # bs"] by (simp del: chars.simps)
  next
    case (Suc n)
    with 2 show ?thesis by simp
  qed
qed simp

lemma reasoning_tail_chars:
  "chars (reasoning_tail s) = drop (length (chars s) - max_reasoning_chars) (chars s)"
  by (simp add: reasoning_tail_def take_rev chars_concat_drop)

lemma project_arguments_bounded:
  assumes "length (ts (JObject [])) \<le> max_argument_bytes"
  shows "length (ts (JObject (fst (project_arguments ts input)))) \<le> max_argument_bytes"
  using assms
  by (auto simp: project_arguments_def Let_def not_less split: prod.splits option.splits)

text \<open>
  Claim C35. The summary is bounded, however long the session: the snapshot shows at most three tools
  with at most five calls each, the arguments of each call serialize to at most 4 KiB and its
  text has at most 200 characters; and the state behind it keeps at most 64 tools, 65536 call
  and event identities and 64 KiB of text.
\<close>

theorem summary_is_bounded:
  assumes "observed ts s" "length (ts (JObject [])) \<le> 4096"
  shows "length (snap_tools (snapshot s)) \<le> 3 \<and>
    (\<forall>tool \<in> set (snap_tools (snapshot s)). length (tool_recent_calls tool) \<le> 5 \<and>
      (\<forall>call \<in> set (tool_recent_calls tool). length (ts (JObject (arguments call))) \<le> 4096)) \<and>
    char_count (snap_reasoning (snapshot s)) \<le> 200 \<and> length (tools s) \<le> 64 \<and>
    length (seen_calls s) \<le> 65536 \<and> length (seen_source_events s) \<le> 65536 \<and>
    length (reasoning_raw s) \<le> 65536"
proof -
  have inv: "obs_inv s" by (rule observation.reach_inv [OF assms(1)])
  have args: "all_args (\<lambda>args. length (ts (JObject args)) \<le> 4096) s"
    using project_arguments_bounded [of ts] assms(2)
    by (intro observed_all_args [OF _ assms(1)]) (simp add: max_argument_bytes_def)
  have shown: "set (take 3 (sort_key rank (tools s))) \<subseteq> set (tools s)"
    using set_take_subset [of 3 "sort_key rank (tools s)"] by simp
  have "length (recent_calls g) \<le> 5 \<and> (\<forall>c \<in> set (recent_calls g). length (ts (JObject (arguments c))) \<le> 4096)"
    if "(name, g) \<in> set (take 3 (sort_key rank (tools s)))" for name g
  proof -
    have entry: "(name, g) \<in> set (tools s)" using that shown by blast
    with inv have "map seq (recent_calls g) = take 5 (numbers_of name (seen_calls s))"
      by (auto simp: obs_inv_def tools_ok_def group_ok_def max_recent_calls_def)
    then have "length (recent_calls g) \<le> 5" by (metis length_map length_take min.cobounded2)
    with args entry show ?thesis by (auto simp: all_args_def)
  qed
  then have "\<forall>tool \<in> set (snap_tools (snapshot s)). length (tool_recent_calls tool) \<le> 5 \<and>
      (\<forall>call \<in> set (tool_recent_calls tool). length (ts (JObject (arguments call))) \<le> 4096)"
    by (auto simp: snapshot_def)
  moreover have "char_count (snap_reasoning (snapshot s)) \<le> 200"
    using inv by (simp add: snapshot_def obs_inv_def text_ok_def reasoning_tail_chars max_reasoning_chars_def)
  ultimately show ?thesis
    using inv by (simp add: snapshot_def obs_inv_defs observation_limits)
qed

definition tool_event :: "string \<Rightarrow> string \<Rightarrow> string \<Rightarrow> json" where
  "tool_event event_id call_id name = JObject [(''type'', JString ''model.streaming''),
     (''eventId'', JString event_id),
     (''payload'', JObject [(''kind'', JString ''tool_call''), (''toolCallId'', JString call_id),
        (''toolName'', JString name),
        (''input'', JObject [(''path'', JString ''a.txt''), (''encrypted_content'', JString ''x'')])])]"

definition sample_observation :: observation_state where
  "sample_observation = observe_message (\<lambda>_. []) ''session/event'' (tool_event ''e1'' ''c1'' ''Read'')
     default_observation"

lemma sample_observed: "observed (\<lambda>_. []) sample_observation"
  unfolding sample_observation_def by (rule reach.next_state, rule reach.start, rule observe_step.message)

theorem summary_is_bounded_witness: "length (snap_tools (snapshot sample_observation)) \<le> 3"
  using summary_is_bounded [OF sample_observed] by simp

section \<open>Redaction\<close>

text \<open>No object of the value has a member \<open>encrypted_content\<close>, at any depth.\<close>

fun redacted :: "json \<Rightarrow> bool"
  and redacted_entries :: "json_object \<Rightarrow> bool"
  and redacted_items :: "json list \<Rightarrow> bool" where
  "redacted (JObject entries) = redacted_entries entries"
| "redacted (JArray items) = redacted_items items"
| "redacted _ = True"
| "redacted_entries [] = True"
| "redacted_entries ((key, v) # rest) = (key \<noteq> ''encrypted_content'' \<and> redacted v \<and> redacted_entries rest)"
| "redacted_items [] = True"
| "redacted_items (v # rest) = (redacted v \<and> redacted_items rest)"

lemma exclude_redacts:
  "redacted (fst (exclude_protocol_fields v n))"
  "redacted_entries (fst (exclude_entries entries n))"
  "redacted_items (fst (exclude_items items n))"
  by (induction v n and entries n and items n
      rule: exclude_protocol_fields_exclude_entries_exclude_items.induct)
    (auto split: prod.splits simp: Let_def)

lemma exclude_keeps:
  "redacted v \<Longrightarrow> exclude_protocol_fields v n = (v, n)"
  "redacted_entries entries \<Longrightarrow> exclude_entries entries n = (entries, n)"
  "redacted_items items \<Longrightarrow> exclude_items items n = (items, n)"
  by (induction v n and entries n and items n
      rule: exclude_protocol_fields_exclude_entries_exclude_items.induct) auto

lemma project_arguments_redacted: "redacted_entries (fst (project_arguments ts input))"
proof (cases "Option.bind input as_object")
  case (Some obj)
  then show ?thesis
    using exclude_redacts(2) [of obj 0]
    by (auto simp: project_arguments_def Let_def split: prod.splits)
qed (simp add: project_arguments_def Let_def)

text \<open>
  Encrypted content is never shown: in no snapshot of any session does the argument object
  of a call have a member \<open>encrypted_content\<close>, at any depth; and the redaction changes nothing
  else, since a value without such a member passes unchanged and uncounted.
\<close>

theorem encrypted_content_is_redacted:
  assumes "observed ts s" "tool \<in> set (snap_tools (snapshot s))" "call \<in> set (tool_recent_calls tool)"
  shows "redacted_entries (arguments call) \<and>
    (\<forall>v n. redacted v \<longrightarrow> exclude_protocol_fields v n = (v, n))"
proof -
  have args: "all_args redacted_entries s"
    by (rule observed_all_args [OF _ assms(1)]) (rule project_arguments_redacted)
  have "set (take 3 (sort_key rank (tools s))) \<subseteq> set (tools s)"
    using set_take_subset [of 3 "sort_key rank (tools s)"] by simp
  with assms(2,3) args have "redacted_entries (arguments call)"
    by (fastforce simp: snapshot_def all_args_def)
  with exclude_keeps(1) show ?thesis by blast
qed

theorem encrypted_content_is_redacted_witness:
  "\<exists>tool call. tool \<in> set (snap_tools (snapshot sample_observation)) \<and>
     call \<in> set (tool_recent_calls tool) \<and> arguments call = [(''path'', JString ''a.txt'')] \<and>
     redacted_fields call = 1 \<and> redacted_entries (arguments call)"
proof -
  let ?call = "\<lparr>seq = 1, tool_call_id = ''c1'', arguments = [(''path'', JString ''a.txt'')],
    arguments_truncated = False, redacted_fields = 1\<rparr>"
  have "snap_tools (snapshot sample_observation) =
      [\<lparr>tool_name = ''Read'', tool_call_count = 1, tool_recent_calls = [?call]\<rparr>]"
    by (simp add: snapshot_def sample_observation_def observe_message_def tool_event_def
        default_observation_def get_str_def valid_id_def observe_tool_def verified_event_type_def
        project_arguments_def add_call_def update_entry_def record_call_def empty_group_def
        bump_snapshot_def saturating_add_def observation_limits)
  with encrypted_content_is_redacted [OF sample_observed] show ?thesis by fastforce
qed

end
