(* ===== verification/Observation_Counts.thy ===== *)
theory Observation_Counts
  imports Observation_Properties "HOL-Library.Multiset"
begin

text \<open>
  What the session summary counts: it refines a log of calls keyed by turn and call id, its counts
  and recent calls are those of the log, the ranking does not depend on the order of the hash
  map, an event counts once, and a loss stays flagged.
\<close>

section \<open>The abstract call log\<close>

text \<open>
  The specification is a growing map from the identity of a call to the tool it was made with. A
  step either changes nothing or enters one new call.
\<close>

inductive log_step :: "(string \<rightharpoonup> string) \<Rightarrow> (string \<rightharpoonup> string) \<Rightarrow> bool" where
  enter: "calls i = None \<Longrightarrow> log_step calls (calls(i \<mapsto> name))"

definition call_map :: "observation_state \<Rightarrow> string \<rightharpoonup> string" where
  "call_map s = (\<lambda>i. map_option fst (map_of (seen_calls s) i))"

lemma call_map_bookkeeping [simp]:
  "call_map (bump_snapshot s) = call_map s" "call_map (count_dropped s) = call_map s"
  "call_map (drop_event tool s) = call_map s" "call_map (observe_loss s) = call_map s"
  "call_map (s\<lparr>seen_source_events := es\<rparr>) = call_map s" "call_map (s\<lparr>reasoning_complete := b\<rparr>) = call_map s"
  "call_map (observe_reasoning delta s) = call_map s" "call_map (s\<lparr>tools := m\<rparr>) = call_map s"
  by (simp_all add: call_map_def bookkeeping_defs observe_reasoning_def Let_def)

lemma call_map_update_seen [simp]: "call_map (update_seen_call original n p s) = call_map s"
  by (simp add: update_seen_call_def split: option.splits)

lemma call_map_add: "call_map (add_call i name call_id p s) = (call_map s)(i \<mapsto> name)"
  by (auto simp: call_map_def add_call_def Let_def bump_snapshot_def)

lemma log_step_tool:
  "call_map (observe_tool ts params payload s) = call_map s \<or>
   log_step (call_map s) (call_map (observe_tool ts params payload s))"
proof -
  have "log_step (call_map s) (call_map (add_call i name call_id p s))" if "map_of (seen_calls s) i = None"
    for i name call_id p
    unfolding call_map_add by (rule enter) (simp add: that call_map_def)
  then show ?thesis unfolding observe_tool_def Let_def by (simp split: option.splits)
qed

lemma log_step_message:
  "call_map (observe_message ts m params s) = call_map s \<or>
   log_step (call_map s) (call_map (observe_message ts m params s))"
proof -
  have "call_map (observe_tool ts params payload (s\<lparr>seen_source_events := es\<rparr>)) = call_map s \<or>
      log_step (call_map s) (call_map (observe_tool ts params payload (s\<lparr>seen_source_events := es\<rparr>)))" for payload es
    using log_step_tool [of ts params payload "s\<lparr>seen_source_events := es\<rparr>"] by simp
  then show ?thesis unfolding observe_message_def Let_def by (simp split: option.splits)
qed

interpretation call_log: refined_machine default_observation "observe_step ts" obs_inv call_map log_step for ts
proof unfold_locales
  fix s t
  assume "obs_inv s" "observe_step ts s t"
  then show "call_map t = call_map s \<or> log_step (call_map s) (call_map t)"
    using log_step_message by (auto elim!: observe_stepE)
qed

text \<open>
  The summary refines the call log: every run of the observer projects to a run of the
  abstract log, in which a call identity is entered at most once and never changes its tool.
\<close>

theorem summary_refines_call_log:
  assumes "observed ts s"
  shows "reach Map.empty log_step (call_map s)"
proof -
  have "call_map default_observation = Map.empty" by (simp add: call_map_def default_observation_def)
  with call_log.reach_abs [OF assms] show ?thesis by simp
qed

theorem summary_refines_call_log_witness: "reach Map.empty log_step (call_map sample_observation)"
  by (rule summary_refines_call_log [OF sample_observed])

section \<open>Exact counts\<close>

lemma card_keys:
  "distinct (map fst log) \<Longrightarrow>
   card {i. map_option fst (map_of log i) = Some name} = length (numbers_of name log)"
proof (induction log)
  case Nil
  show ?case by (simp add: numbers_of_def)
next
  case (Cons entry log)
  obtain i n q where entry: "entry = (i, n, q)" by (cases entry)
  let ?K = "{j. map_option fst (map_of log j) = Some name}"
  have fresh: "i \<notin> ?K" using Cons.prems by (auto simp: entry map_of_eq_Some_iff image_iff)
  have "?K \<subseteq> fst ` set log" by (auto dest: map_of_SomeD) (metis fst_conv image_eqI map_of_SomeD)
  then have fin: "finite ?K" by (rule finite_subset) simp
  have "{j. map_option fst (map_of (entry # log) j) = Some name} = (if n = name then insert i ?K else ?K)"
    using fresh by (auto simp: entry)
  with Cons fresh fin show ?case by (simp add: entry)
qed

lemma descending_take:
  "sorted_wrt (>) (xs :: nat list) \<Longrightarrow> x \<in> set xs \<Longrightarrow> x \<notin> set (take k xs) \<Longrightarrow> y \<in> set (take k xs) \<Longrightarrow> x < y"
  by (metis append_take_drop_id set_append sorted_wrt_append UnE)

lemma log_numbers_descending:
  assumes "log_ok s"
  shows "sorted_wrt (>) (map unat (numbers_of name (seen_calls s)))"
proof -
  have "sorted_wrt (>) (map (\<lambda>(_, _, n). unat n) (seen_calls s))"
    using assms by (simp add: log_ok_def sorted_wrt_rev flip: upt_Suc)
  then have "sorted_wrt (\<lambda>a b. unat (snd (snd a)) > unat (snd (snd b))) (seen_calls s)"
    by (simp add: sorted_wrt_map case_prod_beta)
  then have "sorted_wrt (\<lambda>a b. unat (snd (snd a)) > unat (snd (snd b)))
      (filter (\<lambda>(_, name', _). name' = name) (seen_calls s))"
    by (rule sorted_wrt_filter)
  then show ?thesis by (simp add: numbers_of_def sorted_wrt_map case_prod_beta)
qed




section \<open>The ranking\<close>

lemma inj_on_rank: "distinct (map fst m) \<Longrightarrow> inj_on rank (set m)"
  by (force simp: inj_on_def rank_def distinct_map)

lemma rank_le:
  assumes "rank a \<le> rank b"
  shows "uint (call_count (snd b)) < uint (call_count (snd a)) \<or>
    call_count (snd b) = call_count (snd a) \<and> uint (latest_seq (snd b)) \<le> uint (latest_seq (snd a))"
  using assms by (auto simp: rank_def less_eq_prod_def intro: word_uint_eqI)

lemma sort_rank_unique:
  assumes "distinct (map fst m)" "mset m' = mset m"
  shows "sort_key rank m' = sort_key rank m"
proof (rule sort_key_inj_key_eq)
  show "inj_on rank (set m')" using inj_on_rank [OF assms(1)] mset_eq_setD [OF assms(2)] by simp
qed (simp_all add: assms(2))

text \<open>
  The snapshot is determined by the contents: it does not depend on the order in which the
  hash map is iterated; and it shows the top of the ranking: a tool that is not shown was called
  at most as often as every tool that is shown, and was used less recently when it was called
  equally often, and three tools are shown then.
\<close>

theorem snapshot_shows_the_top_tools:
  assumes "observed ts s" "mset m = mset (tools s)"
  shows "snapshot (s\<lparr>tools := m\<rparr>) = snapshot s \<and>
    (\<forall>(name, g) \<in> set (tools s). name \<notin> set (map tool_name (snap_tools (snapshot s))) \<longrightarrow>
      length (snap_tools (snapshot s)) = 3 \<and>
      (\<forall>shown \<in> set (take 3 (sort_key rank (tools s))).
         uint (call_count g) < uint (call_count (snd shown)) \<or>
         call_count g = call_count (snd shown) \<and> uint (latest_seq g) \<le> uint (latest_seq (snd shown))))"
proof -
  have inv: "obs_inv s" by (rule observation.reach_inv [OF assms(1)])
  then have names: "distinct (map fst (tools s))" by (simp add: obs_inv_def tools_ok_def)
  have "snapshot (s\<lparr>tools := m\<rparr>) = snapshot s"
    using sort_rank_unique [OF names assms(2)] by (simp add: snapshot_def)
  moreover have "length (snap_tools (snapshot s)) = 3 \<and>
      (\<forall>shown \<in> set (take 3 (sort_key rank (tools s))).
         uint (call_count g) < uint (call_count (snd shown)) \<or>
         call_count g = call_count (snd shown) \<and> uint (latest_seq g) \<le> uint (latest_seq (snd shown)))"
    if entry: "(name, g) \<in> set (tools s)" and hidden: "name \<notin> set (map tool_name (snap_tools (snapshot s)))" for name g
  proof -
    let ?sorted = "sort_key rank (tools s)"
    have "(name, g) \<notin> set (take 3 ?sorted)" using hidden by (force simp: snapshot_def)
    moreover have "(name, g) \<in> set ?sorted" using entry by simp
    ultimately have rest: "(name, g) \<in> set (drop 3 ?sorted)" by (metis UnE append_take_drop_id set_append)
    then have "3 \<le> length ?sorted" by (metis drop_all empty_iff empty_set nle_le)
    moreover have "rank shown \<le> rank (name, g)" if "shown \<in> set (take 3 ?sorted)" for shown
    proof -
      have "sorted (map rank (take 3 ?sorted @ drop 3 ?sorted))" by simp
      with that rest show ?thesis by (simp only: map_append sorted_append) (auto simp del: append_take_drop_id)
    qed
    ultimately show ?thesis using rank_le [of _ "(name, g)"] by (simp add: snapshot_def)
  qed
  ultimately show ?thesis by auto
qed

theorem snapshot_shows_the_top_tools_witness:
  "snapshot (sample_observation\<lparr>tools := rev (tools sample_observation)\<rparr>) = snapshot sample_observation"
  using snapshot_shows_the_top_tools [OF sample_observed, of "rev (tools sample_observation)"] by simp

section \<open>Once and for all\<close>

lemma seen_source_frame [simp]:
  "seen_source_events (bump_snapshot s) = seen_source_events s"
  "seen_source_events (count_dropped s) = seen_source_events s"
  "seen_source_events (drop_event tool s) = seen_source_events s"
  "seen_source_events (observe_reasoning delta s) = seen_source_events s"
  "seen_source_events (update_seen_call original n p s) = seen_source_events s"
  "seen_source_events (add_call i name call_id p s) = seen_source_events s"
  by (simp_all add: bookkeeping_defs observe_reasoning_def update_seen_call_def add_call_def Let_def
      split: option.splits)

lemma seen_source_tool [simp]: "seen_source_events (observe_tool ts params payload s) = seen_source_events s"
  by (simp add: observe_tool_def Let_def split: option.splits)

lemma seen_event_ignored:
  assumes "valid_id (get params ''eventId'') = Some e" "e \<in> set (seen_source_events s)"
  shows "observe_message ts m params s = s"
  using assms by (simp add: observe_message_def Let_def)

text \<open>
  An event is observed once: as long as there is room for its identity, delivering an event
  with a valid id a second time, directly or after any other events, changes nothing.
\<close>

theorem event_is_observed_once:
  assumes "valid_id (get params ''eventId'') = Some e" "length (seen_source_events s) < max_identities"
    "observe_message ts m params s \<noteq> s"
    "(observe_step ts)\<^sup>*\<^sup>* (observe_message ts m params s) t"
  shows "observe_message ts m params t = t"
proof -
  have first: "e \<in> set (seen_source_events (observe_message ts m params s))"
    using assms(1-3) by (auto simp: observe_message_def Let_def split: if_splits option.splits)
  have grows: "set (seen_source_events a) \<subseteq> set (seen_source_events b)" if "observe_step ts a b" for a b
    using that
    by (auto elim!: observe_stepE simp: observe_loss_def observe_message_def Let_def
        split: if_splits option.splits)
  from assms(4) have "e \<in> set (seen_source_events t)"
    by (induction rule: rtranclp_induct) (use first grows in blast)+
  with assms(1) show ?thesis by (rule seen_event_ignored)
qed

theorem event_is_observed_once_witness:
  "observe_message (\<lambda>_. []) ''session/event'' (tool_event ''e1'' ''c1'' ''Read'') sample_observation =
     sample_observation"
proof (rule event_is_observed_once)
  show "valid_id (get (tool_event ''e1'' ''c1'' ''Read'') ''eventId'') = Some ''e1''"
    by (simp add: valid_id_def tool_event_def max_id_bytes_def)
  show "length (seen_source_events default_observation) < max_identities"
    by (simp add: default_observation_def max_identities_def)
  have "snapshot_seq sample_observation \<noteq> snapshot_seq default_observation"
    by (simp add: sample_observation_def observe_message_def tool_event_def
        default_observation_def get_str_def valid_id_def observe_tool_def verified_event_type_def
        project_arguments_def add_call_def bump_snapshot_def Let_def saturating_add_def observation_limits)
  then show "observe_message (\<lambda>_. []) ''session/event'' (tool_event ''e1'' ''c1'' ''Read'') default_observation \<noteq>
      default_observation" by (auto simp: sample_observation_def)
qed (simp add: sample_observation_def)

definition no_regress :: "observation_state \<Rightarrow> observation_state \<Rightarrow> bool" where
  "no_regress s t \<longleftrightarrow> (tool_history_complete t \<longrightarrow> tool_history_complete s) \<and>
    (reasoning_complete t \<longrightarrow> reasoning_complete s) \<and>
    uint (dropped_events s) \<le> uint (dropped_events t) \<and> uint (snapshot_seq s) \<le> uint (snapshot_seq t)"

lemma saturating_add_mono: "k \<le> uint w \<Longrightarrow> k \<le> uint (saturating_add w 1)"
  using uint_lt2p [of w] by (simp add: uint_saturating_add)

lemma no_regress_steps:
  assumes "no_regress s u"
  shows "no_regress s (bump_snapshot u)" "no_regress s (count_dropped u)" "no_regress s (drop_event tool u)"
    "no_regress s (observe_loss u)" "no_regress s (observe_reasoning delta u)"
    "no_regress s (u\<lparr>reasoning_complete := False\<rparr>)" "no_regress s (u\<lparr>seen_source_events := es\<rparr>)"
    "no_regress s (update_seen_call original n p u)" "no_regress s (add_call i name call_id p u)"
  using assms
  by (auto simp: no_regress_def bookkeeping_defs observe_reasoning_def update_seen_call_def add_call_def
      Let_def saturating_add_mono split: option.splits)

lemma no_regress_tool: "no_regress s u \<Longrightarrow> no_regress s (observe_tool ts params payload u)"
  unfolding observe_tool_def Let_def by (simp add: no_regress_steps split: option.splits)

lemma no_regress_message: "no_regress s (observe_message ts m params s)"
proof -
  have "no_regress s s" by (simp add: no_regress_def)
  then show ?thesis
    unfolding observe_message_def Let_def by (simp add: no_regress_steps no_regress_tool split: option.splits)
qed

text \<open>
  Losses stay flagged: no step turns a completeness flag back on or lowers the number of
  dropped events or the number of the snapshot, and whenever events were dropped at least one of
  the two histories is flagged incomplete.
\<close>

theorem losses_stay_flagged:
  assumes "observed ts s" "observe_step ts s t"
  shows "(tool_history_complete t \<longrightarrow> tool_history_complete s) \<and>
    (reasoning_complete t \<longrightarrow> reasoning_complete s) \<and>
    uint (dropped_events s) \<le> uint (dropped_events t) \<and> uint (snapshot_seq s) \<le> uint (snapshot_seq t) \<and>
    (dropped_events t \<noteq> 0 \<longrightarrow> \<not> (tool_history_complete t \<and> reasoning_complete t))"
proof -
  have "no_regress s t"
    using assms(2) by (cases rule: observe_step.cases)
      (simp_all add: no_regress_message no_regress_steps no_regress_def [of s s])
  moreover have "obs_inv t" by (rule observation.reach_inv [OF reach.next_state [OF assms]])
  ultimately show ?thesis by (simp add: no_regress_def obs_inv_def coverage_ok_def)
qed

theorem losses_stay_flagged_witness:
  "\<not> (tool_history_complete (observe_loss sample_observation) \<and>
      reasoning_complete (observe_loss sample_observation))"
  using losses_stay_flagged [OF sample_observed observe_step.loss]
  by (simp add: observe_loss_def count_dropped_def bump_snapshot_def)

end
