(* ===== verification/Driver_Reader.thy ===== *)
theory Driver_Reader
  imports Protocol
begin

text \<open>
  How the driver reads a runtime process (\<open>crates/zcode-driver/src/lib.rs\<close>): the framing of its
  output into bounded lines, the loop that turns lines into inbound messages, and the bounded
  tail of its diagnostics.

  A pipe is the list of the bytes it still delivers and whether it ends with an error. Sending on
  the channel to the dispatcher succeeds: the dispatcher receives until every sender is gone.
\<close>

definition max_ndjson_line_bytes :: nat where
  "max_ndjson_line_bytes = 1024 * 1024"

datatype child_exit = Exited "int option" | Signaled int | UnknownExit

datatype inbound =
    Message wire_message
  | Lifecycle u64 string lifecycle_order
  | Malformed parse_error
  | OversizedLine nat
  | ChildExited child_exit
  | UnmatchedResponse wire_id string

text \<open>The text of \<open>Malformed\<close> is the debug form of the error; the error itself is kept.\<close>

section \<open>String::from_utf8_lossy\<close>

definition continuation :: "char \<Rightarrow> bool" where
  "continuation b \<longleftrightarrow> 128 \<le> byte b \<and> byte b < 192"

text \<open>The second bytes that may follow a lead byte of three or four.\<close>

definition second_byte_ok :: "char \<Rightarrow> char \<Rightarrow> bool" where
  "second_byte_ok b c \<longleftrightarrow>
     (if byte b = 224 then 160 \<le> byte c \<and> byte c < 192
      else if byte b = 237 then 128 \<le> byte c \<and> byte c < 160
      else if byte b = 240 then 144 \<le> byte c \<and> byte c < 192
      else if byte b = 244 then 128 \<le> byte c \<and> byte c < 144
      else continuation c)"

definition sequence_length :: "char \<Rightarrow> nat" where
  "sequence_length b =
     (if byte b < 128 then 1 else if 194 \<le> byte b \<and> byte b < 224 then 2
      else if 224 \<le> byte b \<and> byte b < 240 then 3 else if 240 \<le> byte b \<and> byte b < 245 then 4 else 0)"

text \<open>
  The number of bytes of a sequence that are well-formed, among those its lead byte announces; an
  impossible lead byte counts as one.
\<close>

definition well_formed_bytes :: "char \<Rightarrow> string \<Rightarrow> nat" where
  "well_formed_bytes b bs =
     (if sequence_length b \<le> 1 then 1
      else
        (case bs of
           [] \<Rightarrow> 1
         | c # rest \<Rightarrow>
             if \<not> second_byte_ok b c then 1
             else 2 + length (takeWhile continuation (take (sequence_length b - 2) rest))))"

definition replacement_character :: string where
  "replacement_character = [CHR 0xEF, CHR 0xBF, CHR 0xBD]"

function from_utf8_lossy :: "string \<Rightarrow> string" where
  "from_utf8_lossy [] = []"
| "from_utf8_lossy (b # bs) =
     (let n = well_formed_bytes b bs
      in (if n = sequence_length b then b # take (n - 1) bs else replacement_character)
         @ from_utf8_lossy (drop (n - 1) bs))"
  by pat_completeness auto
termination by (relation "measure length") auto

declare from_utf8_lossy.simps(2) [simp del]

section \<open>Lines\<close>

datatype line_read = LineEnd | LineError | Line string nat

definition strip_cr :: "string \<Rightarrow> string" where
  "strip_cr line = (if line \<noteq> [] \<and> last line = cr then butlast line else line)"

fun scan_line :: "bool \<Rightarrow> string \<Rightarrow> string \<Rightarrow> nat \<Rightarrow> line_read \<times> string" where
  "scan_line failing [] line count =
     (if failing then LineError else if count = 0 then LineEnd else Line line count, [])"
| "scan_line failing (b # bs) line count =
     (if b = nl then (Line (strip_cr line) (count + 1), bs)
      else if length line < max_ndjson_line_bytes then scan_line failing bs (line @ [b]) (count + 1)
      else (Line [] (max_ndjson_line_bytes + 1), bs))"

definition read_bounded_line :: "bool \<Rightarrow> string \<Rightarrow> line_read \<times> string" where
  "read_bounded_line failing bytes = scan_line failing bytes [] 0"

lemma scan_line_shorter:
  "scan_line failing bytes line count = (Line l n, rest) \<Longrightarrow> bytes \<noteq> [] \<Longrightarrow> length rest < length bytes"
proof (induction failing bytes line count rule: scan_line.induct)
  case (2 failing b bs line count)
  then show ?case by (cases "bs = []") (auto split: if_splits intro: less_SucI)
qed simp

lemma read_bounded_line_shorter:
  assumes "read_bounded_line failing bytes = (Line l n, rest)"
  shows "length rest < length bytes"
proof (cases bytes)
  case Nil
  with assms show ?thesis by (simp add: read_bounded_line_def split: if_splits)
next
  case Cons
  with assms scan_line_shorter show ?thesis unfolding read_bounded_line_def by blast
qed

section \<open>The reader\<close>

definition turn_after :: "string \<Rightarrow> lifecycle_order \<Rightarrow> bool \<Rightarrow> bool" where
  "turn_after kind order active =
     (if kind = ''turn.started'' \<and> order = InOrder then True
      else if (kind = ''turn.completed'' \<or> kind = ''turn.failed'') \<and> order = InOrder then False
      else active)"

definition message_event_type :: "wire_message \<Rightarrow> string option" where
  "message_event_type m = (case m of Event e \<Rightarrow> event_type e | _ \<Rightarrow> None)"

definition line_events :: "serde \<Rightarrow> u64 \<Rightarrow> bool \<Rightarrow> string \<Rightarrow> inbound list \<times> bool" where
  "line_events sd sequence active line =
     (case parse_line sd (from_utf8_lossy line) of
        Inl e \<Rightarrow> ([Malformed e], active)
      | Inr m \<Rightarrow>
          (case message_event_type m of
             None \<Rightarrow> ([Message m], active)
           | Some kind \<Rightarrow>
               let order = classify_lifecycle kind active
               in ([Lifecycle sequence kind order, Message m], turn_after kind order active)))"

function read_loop :: "serde \<Rightarrow> bool \<Rightarrow> string \<Rightarrow> u64 \<Rightarrow> bool \<Rightarrow> inbound list" where
  "read_loop sd failing bytes sequence active =
     (case read_bounded_line failing bytes of
        (Line line n, rest) \<Rightarrow>
          if n \<le> max_ndjson_line_bytes
          then (case line_events sd (sequence + 1) active line of
                  (events, active') \<Rightarrow> events @ read_loop sd failing rest (sequence + 1) active')
          else [OversizedLine n]
      | (LineEnd, _) \<Rightarrow> []
      | (LineError, _) \<Rightarrow> [])"
  by pat_completeness auto
termination
  by (relation "measure (\<lambda>(_, _, bytes, _, _). length bytes)") (auto dest!: sym [of "(Line _ _, _)"] read_bounded_line_shorter)

declare read_loop.simps [simp del]

definition read_stdout :: "serde \<Rightarrow> bool \<Rightarrow> string \<Rightarrow> inbound list" where
  "read_stdout sd failing bytes = read_loop sd failing bytes 0 False"

section \<open>Diagnostics\<close>

definition max_diagnostic_bytes :: nat where
  "max_diagnostic_bytes = 16 * 1024"

text \<open>One chunk that was read is appended and the front is cut to the bound.\<close>

definition retain_diagnostics :: "string \<Rightarrow> string \<Rightarrow> string" where
  "retain_diagnostics retained chunk =
     (let all = retained @ chunk
      in if max_diagnostic_bytes < length all then drop (length all - max_diagnostic_bytes) all else all)"

definition drain_stderr :: "string list \<Rightarrow> string \<Rightarrow> string" where
  "drain_stderr reads retained = foldl retain_diagnostics retained (takeWhile (\<lambda>chunk. chunk \<noteq> []) reads)"

definition diagnostic_tail :: "string \<Rightarrow> string" where
  "diagnostic_tail diagnostics =
     (let tail = from_utf8_lossy diagnostics; start = length tail - 16 * 1024
      in if start = 0 then tail else dropWhile continuation (drop start tail))"

end
