(* ===== verification/Driver_Reader_Properties.thy ===== *)
theory Driver_Reader_Properties
  imports Driver_Reader
begin

text \<open>
  The properties of the driver's reader: framing reads back the lines that were written, in order
  turns alternate, and lines and diagnostics are bounded.
\<close>

section \<open>Framing\<close>

lemma scan_line_terminated:
  assumes "nl \<notin> set l" "length line + length l \<le> max_ndjson_line_bytes"
  shows "scan_line failing (l @ nl # rest) line n = (Line (strip_cr (line @ l)) (n + length l + 1), rest)"
  using assms by (induction l arbitrary: line n) auto

text \<open>Lines as a writer of one JSON text per line produces them.\<close>

definition frame_ok :: "string \<Rightarrow> bool" where
  "frame_ok line \<longleftrightarrow> nl \<notin> set line \<and> length line < max_ndjson_line_bytes \<and> (line = [] \<or> last line \<noteq> cr)"

definition frames :: "string list \<Rightarrow> string" where
  "frames lines = concat (map (\<lambda>line. line @ [nl]) lines)"

text \<open>The reference reader works on lines.\<close>

fun read_lines :: "serde \<Rightarrow> u64 \<Rightarrow> bool \<Rightarrow> string list \<Rightarrow> inbound list" where
  "read_lines sd sequence active [] = []"
| "read_lines sd sequence active (line # lines) =
     (case line_events sd (sequence + 1) active line of
        (events, active') \<Rightarrow> events @ read_lines sd (sequence + 1) active' lines)"

lemma read_frame:
  assumes "frame_ok line"
  shows "read_bounded_line failing (line @ nl # rest) = (Line line (length line + 1), rest)"
  using scan_line_terminated [of line "[]" failing rest 0] assms
  by (auto simp: read_bounded_line_def frame_ok_def strip_cr_def)

lemma read_loop_frames:
  "list_all frame_ok lines \<Longrightarrow>
   read_loop sd False (frames lines) sequence active = read_lines sd sequence active lines"
proof (induction lines arbitrary: sequence active)
  case Nil
  show ?case by (simp add: read_loop.simps frames_def read_bounded_line_def)
next
  case (Cons line lines)
  then have line: "frame_ok line" "length line + 1 \<le> max_ndjson_line_bytes" by (simp_all add: frame_ok_def)
  have "frames (line # lines) = line @ nl # frames lines" by (simp add: frames_def)
  then show ?case
    using Cons line read_frame [OF line(1), of False "frames lines"]
    by (subst read_loop.simps) (simp split: prod.splits)
qed

text \<open>
  Framing is transparent: the byte-level reader, run on the concatenation of lines that
  contain no line feed, do not end in a carriage return and are shorter than 1 MiB, each ended by
  a line feed, delivers exactly what the reference reader delivers for the list of lines.
\<close>

theorem reader_matches_line_reader:
  assumes "list_all frame_ok lines"
  shows "read_stdout sd False (frames lines) = read_lines sd 0 False lines"
  unfolding read_stdout_def by (rule read_loop_frames [OF assms])

theorem reader_matches_line_reader_witness:
  "read_stdout \<lparr>from_str = (\<lambda>_. Inl ''no''), from_value_error = (\<lambda>_. [])\<rparr> False (frames [''a'', []]) =
     [Malformed (InvalidJson ''no''), Malformed (InvalidJson ''no'')]"
proof -
  let ?sd = "\<lparr>from_str = (\<lambda>_. Inl ''no''), from_value_error = (\<lambda>_. [])\<rparr> :: serde"
  have "list_all frame_ok [''a'', []]" by (simp add: frame_ok_def max_ndjson_line_bytes_def)
  from reader_matches_line_reader [OF this, of ?sd] show ?thesis
    by (simp add: line_events_def parse_line_def)
qed

section \<open>The order of turns\<close>

text \<open>The lifecycle records marked as in order alternate between the start and the end of a turn.\<close>

fun turns_alternate :: "bool \<Rightarrow> inbound list \<Rightarrow> bool" where
  "turns_alternate active [] = True"
| "turns_alternate active (Lifecycle n kind InOrder # rest) =
     (if kind = ''turn.started'' then \<not> active \<and> turns_alternate True rest
      else active \<and> kind \<in> {''turn.completed'', ''turn.failed''} \<and> turns_alternate False rest)"
| "turns_alternate active (_ # rest) = turns_alternate active rest"

lemma classify_in_order:
  "classify_lifecycle kind active = InOrder \<Longrightarrow>
   (kind = ''turn.started'' \<and> \<not> active) \<or> (kind \<in> {''turn.completed'', ''turn.failed''} \<and> active)"
  by (auto simp: classify_lifecycle_def split: if_splits)

lemma line_events_alternate:
  assumes "line_events sd sequence active line = (events, active')" "turns_alternate active' rest"
  shows "turns_alternate active (events @ rest)"
proof (cases "parse_line sd (from_utf8_lossy line)")
  case (Inl e)
  with assms show ?thesis by (auto simp: line_events_def)
next
  case (Inr m)
  show ?thesis
  proof (cases "message_event_type m")
    case None
    with assms Inr show ?thesis by (auto simp: line_events_def)
  next
    case (Some kind)
    let ?order = "classify_lifecycle kind active"
    from assms Inr Some have run: "events = [Lifecycle sequence kind ?order, Message m]"
      "active' = turn_after kind ?order active"
      by (auto simp: line_events_def Let_def)
    show ?thesis
      using assms(2) classify_in_order [of kind active]
      by (cases ?order) (auto simp: run turn_after_def)
  qed
qed

lemma read_loop_alternates: "turns_alternate active (read_loop sd failing bytes sequence active)"
proof (induction sd failing bytes sequence active rule: read_loop.induct)
  case (1 sd failing bytes sequence active)
  obtain r rest where read: "read_bounded_line failing bytes = (r, rest)" by (cases "read_bounded_line failing bytes")
  show ?case
  proof (cases r)
    case (Line line n)
    obtain events active' where events: "line_events sd (sequence + 1) active line = (events, active')"
      by (cases "line_events sd (sequence + 1) active line")
    show ?thesis
    proof (cases "n \<le> max_ndjson_line_bytes")
      case True
      from "1.IH" [OF read [symmetric] Line True events [symmetric]] have
        "turns_alternate active' (read_loop sd failing rest (sequence + 1) active')" .
      with events show ?thesis
        by (subst read_loop.simps) (simp add: read Line True line_events_alternate)
    next
      case False
      then show ?thesis by (subst read_loop.simps) (simp add: read Line)
    qed
  qed (subst read_loop.simps, simp add: read)+
qed

text \<open>
  Turns alternate: whatever bytes the runtime writes, the lifecycle records the reader marks as
  in order are alternately the start of a turn and its completion or failure, beginning with a
  start; everything else is marked out of order and does not change the turn.
\<close>

theorem in_order_turns_alternate: "turns_alternate False (read_stdout sd failing bytes)"
  unfolding read_stdout_def by (rule read_loop_alternates)

section \<open>Bounds\<close>

lemma scan_line_bounded:
  "scan_line failing bytes line n = (Line l k, rest) \<Longrightarrow> length line \<le> max_ndjson_line_bytes \<Longrightarrow>
   length l \<le> max_ndjson_line_bytes"
  by (induction failing bytes line n rule: scan_line.induct)
    (auto simp: strip_cr_def split: if_splits)

lemma retain_bounded: "length (retain_diagnostics retained chunk) \<le> max_diagnostic_bytes"
  by (auto simp: retain_diagnostics_def Let_def simp del: drop_append length_append)

lemma drain_stderr_bounded:
  assumes "length retained \<le> max_diagnostic_bytes"
  shows "length (drain_stderr reads retained) \<le> max_diagnostic_bytes"
proof -
  have "length (foldl retain_diagnostics retained chunks) \<le> max_diagnostic_bytes" for chunks
    using assms by (induction chunks arbitrary: retained) (simp_all add: retain_bounded)
  then show ?thesis by (simp add: drain_stderr_def)
qed

text \<open>
  The reader is bounded: a line it hands out has at most 1 MiB, the retained diagnostics have at most
  16 KiB, and so has the tail that is shown of them.
\<close>

theorem reader_is_bounded:
  "(read_bounded_line failing bytes = (Line l k, rest) \<longrightarrow> length l \<le> 1048576) \<and>
   length (drain_stderr reads []) \<le> 16384 \<and> length (diagnostic_tail diagnostics) \<le> 16384"
proof (intro conjI impI)
  assume "read_bounded_line failing bytes = (Line l k, rest)"
  then show "length l \<le> 1048576"
    using scan_line_bounded [of failing bytes "[]" 0 l k rest]
    by (simp add: read_bounded_line_def max_ndjson_line_bytes_def)
next
  show "length (drain_stderr reads []) \<le> 16384"
    using drain_stderr_bounded [of "[]" reads] by (simp add: max_diagnostic_bytes_def)
  let ?tail = "from_utf8_lossy diagnostics"
  have "length (dropWhile continuation (drop (length ?tail - 16 * 1024) ?tail)) \<le>
      length (drop (length ?tail - 16 * 1024) ?tail)" by (rule length_dropWhile_le)
  then show "length (diagnostic_tail diagnostics) \<le> 16384"
    by (auto simp: diagnostic_tail_def Let_def)
qed

end
