(* ===== verification/Driver_Calls.thy ===== *)
theory Driver_Calls
  imports Driver_Reader Machine
begin

text \<open>
  The requests of the driver that are waiting for an answer (\<open>crates/zcode-driver/src/lib.rs\<close>): the
  map from request keys to channels, and the dispatcher that answers them. Callers and dispatcher
  run on different threads; every access to the map is under its lock, so a run is a sequence of
  atomic steps.

  A channel is a number, the position of its request among all that were begun; \<open>issued\<close> has the
  ids of those requests and \<open>answers\<close> what was sent to a channel. The text of a request id is the
  parameter \<open>key_of\<close>, which is what \<open>serde_json\<close> prints for it.
\<close>

datatype request_error =
    Timeout
  | Cancelled
  | ChildExitedError child_exit
  | StreamClosed
  | WriteFailed string
  | Remote json

type_synonym answer = "request_error + response_envelope"

record call_state =
  next_id :: u64
  reserved :: "int list"
  issued :: "int list"
  pending :: "(string \<times> nat) list"
  answers :: "nat \<Rightarrow> answer list"
  broadcasts :: "inbound list"

definition initial_calls :: call_state where
  "initial_calls = \<lparr>next_id = 1, reserved = [], issued = [], pending = [], answers = (\<lambda>_. []),
     broadcasts = []\<rparr>"

definition remove_pending :: "string \<Rightarrow> call_state \<Rightarrow> call_state" where
  "remove_pending key s = s\<lparr>pending := filter (\<lambda>(k, _). k \<noteq> key) (pending s)\<rparr>"

definition send_answer :: "nat \<Rightarrow> answer \<Rightarrow> call_state \<Rightarrow> call_state" where
  "send_answer w a s = s\<lparr>answers := (answers s)(w := answers s w @ [a])\<rparr>"

definition broadcast :: "inbound \<Rightarrow> call_state \<Rightarrow> call_state" where
  "broadcast i s = s\<lparr>broadcasts := broadcasts s @ [i]\<rparr>"

text \<open>
  The steps of \<open>begin_request\<close>: the counter, which wraps at 64 bits and whose upper half is refused;
  the insertion, under the lock, that reports whether the key was taken; and the write, whose
  failure takes the entry out again.
\<close>

definition take_id :: "call_state \<Rightarrow> int option \<times> call_state" where
  "take_id s =
     (let i = uint (next_id s); s' = s\<lparr>next_id := next_id s + 1\<rparr>
      in if i \<le> i64_max then (Some i, s'\<lparr>reserved := i # reserved s\<rparr>) else (None, s'))"

definition register :: "(wire_id \<Rightarrow> string) \<Rightarrow> int \<Rightarrow> call_state \<Rightarrow> bool \<times> call_state" where
  "register key_of i s =
     (let key = key_of (IntegerId i)
      in (map_of (pending s) key = None,
          s\<lparr>reserved := remove1 i (reserved s), issued := issued s @ [i],
            pending := (key, length (issued s)) # pending (remove_pending key s)\<rparr>))"

definition begin_request ::
  "(wire_id \<Rightarrow> string) \<Rightarrow> string option \<Rightarrow> call_state \<Rightarrow> (request_error + string \<times> nat) \<times> call_state" where
  "begin_request key_of written s =
     (case take_id s of
        (None, s1) \<Rightarrow> (Inl StreamClosed, s1)
      | (Some i, s1) \<Rightarrow>
          (case register key_of i s1 of
             (False, s2) \<Rightarrow> (Inl StreamClosed, s2)
           | (True, s2) \<Rightarrow>
               (case written of
                  Some e \<Rightarrow> (Inl (WriteFailed e), remove_pending (key_of (IntegerId i)) s2)
                | None \<Rightarrow> (Inr (key_of (IntegerId i), length (issued s1)), s2))))"

definition accept_response :: "response_envelope \<Rightarrow> answer" where
  "accept_response r = (case resp_error r of Some e \<Rightarrow> Inl (Remote e) | None \<Rightarrow> Inr r)"

datatype received = Received answer | TimedOut | Disconnected

definition wait :: "string \<Rightarrow> received \<Rightarrow> call_state \<Rightarrow> answer \<times> call_state" where
  "wait key got s =
     (case got of
        Received (Inr r) \<Rightarrow> accept_response r
      | Received (Inl e) \<Rightarrow> Inl e
      | TimedOut \<Rightarrow> Inl Timeout
      | Disconnected \<Rightarrow> Inl StreamClosed,
      remove_pending key s)"

definition cancel :: "string \<Rightarrow> call_state \<Rightarrow> call_state" where
  "cancel key s = remove_pending key s"

text \<open>\<open>drop\<close> of a request that was neither awaited nor cancelled.\<close>

definition drop_request :: "bool \<Rightarrow> string \<Rightarrow> call_state \<Rightarrow> call_state" where
  "drop_request finished key s = (if finished then s else remove_pending key s)"

definition fail_all :: "request_error \<Rightarrow> call_state \<Rightarrow> call_state" where
  "fail_all e s = (fold (\<lambda>(_, w). send_answer w (Inl e)) (pending s) s)\<lparr>pending := []\<rparr>"

fun dispatch :: "(wire_id \<Rightarrow> string) \<Rightarrow> inbound \<Rightarrow> call_state \<Rightarrow> call_state" where
  "dispatch key_of (Message (Response r)) s =
     (case map_of (pending s) (key_of (resp_id r)) of
        Some w \<Rightarrow> send_answer w (Inr r) (remove_pending (key_of (resp_id r)) s)
      | None \<Rightarrow> broadcast (UnmatchedResponse (resp_id r)
                  (if resp_error r \<noteq> None then ''error'' else ''result'')) s)"
| "dispatch key_of (ChildExited e) s = broadcast (ChildExited e) (fail_all (ChildExitedError e) s)"
| "dispatch key_of other s = broadcast other s"

definition close_stream :: "call_state \<Rightarrow> call_state" where
  "close_stream s = fail_all StreamClosed s"

text \<open>
  A run interleaves the atomic steps of the callers and of the dispatcher. A write that fails is a
  \<open>cancelled\<close> step, \<open>wait\<close> at its deadline is one too.
\<close>

inductive call_step :: "(wire_id \<Rightarrow> string) \<Rightarrow> call_state \<Rightarrow> call_state \<Rightarrow> bool" for key_of where
  id_taken: "call_step key_of s (snd (take_id s))"
| registered: "i \<in> set (reserved s) \<Longrightarrow> call_step key_of s (snd (register key_of i s))"
| awaited: "call_step key_of s (snd (wait key got s))"
| cancelled: "call_step key_of s (cancel key s)"
| dropped: "call_step key_of s (drop_request finished key s)"
| dispatched: "call_step key_of s (dispatch key_of i s)"
| closed: "call_step key_of s (close_stream s)"

inductive_cases call_stepE: "call_step key_of s t"

section \<open>The invariant\<close>

text \<open>A channel that is still registered has had no answer; a registered key is that of its request.\<close>

definition channel_ok :: "(wire_id \<Rightarrow> string) \<Rightarrow> int list \<Rightarrow> (nat \<Rightarrow> answer list) \<Rightarrow> string \<times> nat \<Rightarrow> bool" where
  "channel_ok key_of iss ans entry \<longleftrightarrow> snd entry < length iss \<and>
     fst entry = key_of (IntegerId (iss ! snd entry)) \<and> ans (snd entry) = []"

definition answer_ok :: "(wire_id \<Rightarrow> string) \<Rightarrow> int list \<Rightarrow> answer list \<Rightarrow> nat \<Rightarrow> bool" where
  "answer_ok key_of iss as w \<longleftrightarrow>
     as = [] \<or> w < length iss \<and>
       (\<exists>a. as = [a] \<and> (\<forall>r. a = Inr r \<longrightarrow> key_of (resp_id r) = key_of (IntegerId (iss ! w))))"

definition calls_inv :: "(wire_id \<Rightarrow> string) \<Rightarrow> call_state \<Rightarrow> bool" where
  "calls_inv key_of s \<longleftrightarrow> distinct (map snd (pending s)) \<and> distinct (map fst (pending s)) \<and>
     (\<forall>entry \<in> set (pending s). channel_ok key_of (issued s) (answers s) entry) \<and>
     (\<forall>w. answer_ok key_of (issued s) (answers s w) w)"

lemma calls_invD:
  assumes "calls_inv key_of s"
  shows "distinct (map snd (pending s))" "distinct (map fst (pending s))"
    "(k, w) \<in> set (pending s) \<Longrightarrow> w < length (issued s) \<and> k = key_of (IntegerId (issued s ! w)) \<and> answers s w = []"
    "answer_ok key_of (issued s) (answers s v) v"
  using assms by (fastforce simp: calls_inv_def channel_ok_def)+

lemma calls_inv_initial: "calls_inv key_of initial_calls"
  by (simp add: calls_inv_def initial_calls_def answer_ok_def)

lemma calls_inv_remove: "calls_inv key_of s \<Longrightarrow> calls_inv key_of (remove_pending key s)"
  by (simp add: calls_inv_def remove_pending_def distinct_map_filter)

lemma calls_inv_frame [simp]:
  "calls_inv key_of (s\<lparr>next_id := n\<rparr>) = calls_inv key_of s"
  "calls_inv key_of (s\<lparr>reserved := l\<rparr>) = calls_inv key_of s"
  "calls_inv key_of (broadcast i s) = calls_inv key_of s"
  by (simp_all add: calls_inv_def broadcast_def)

lemma calls_inv_take_id: "calls_inv key_of s \<Longrightarrow> calls_inv key_of (snd (take_id s))"
  by (simp add: take_id_def Let_def)

lemma answer_ok_nil [simp]: "answer_ok key_of iss [] w"
  by (simp add: answer_ok_def)

lemma answer_ok_issue: "answer_ok key_of iss as w \<Longrightarrow> answer_ok key_of (iss @ [i]) as w"
  by (auto simp: answer_ok_def nth_append)

lemma channel_ok_issue: "channel_ok key_of iss ans e \<Longrightarrow> channel_ok key_of (iss @ [i]) ans e"
  by (auto simp: channel_ok_def nth_append)

lemma calls_inv_register:
  assumes inv: "calls_inv key_of s"
  shows "calls_inv key_of (snd (register key_of i s))"
proof -
  let ?rest = "filter (\<lambda>(k, _). k \<noteq> key_of (IntegerId i)) (pending s)"
  have "distinct (map snd ((key_of (IntegerId i), length (issued s)) # ?rest))"
    using calls_invD(1) [OF inv] by (auto simp: distinct_map_filter dest!: calls_invD(3) [OF inv])
  moreover have "distinct (map fst ((key_of (IntegerId i), length (issued s)) # ?rest))"
    using calls_invD(2) [OF inv] by (auto simp: distinct_map_filter)
  moreover have "answers s (length (issued s)) = []"
    using calls_invD(4) [OF inv, of "length (issued s)"] by (auto simp: answer_ok_def)
  ultimately show ?thesis
    using inv
    by (auto simp: calls_inv_def register_def remove_pending_def Let_def channel_ok_issue answer_ok_issue)
      (auto simp: channel_ok_def)
qed

text \<open>An answer to a registered channel that is taken out of the map.\<close>

lemma calls_inv_answer:
  assumes inv: "calls_inv key_of s" and entry: "(key, w) \<in> set (pending s)"
    and a: "\<And>r. a = Inr r \<Longrightarrow> key_of (resp_id r) = key"
  shows "calls_inv key_of (send_answer w a (remove_pending key s))"
proof -
  note w = calls_invD(3) [OF inv entry]
  have others: "v \<noteq> w" if "(k, v) \<in> set (pending s)" "k \<noteq> key" for k v
    using calls_invD(1) [OF inv] entry that by (metis distinct_map inj_onD snd_conv fst_conv)
  have "channel_ok key_of (issued s) ((answers s)(w := answers s w @ [a])) e"
    if "e \<in> set (pending s)" "fst e \<noteq> key" for e
  proof -
    have "snd e \<noteq> w" using others [of "fst e" "snd e"] that by simp
    with calls_invD(3) [OF inv, of "fst e" "snd e"] that show ?thesis by (simp add: channel_ok_def)
  qed
  moreover have "answer_ok key_of (issued s) (((answers s)(w := answers s w @ [a])) v) v" for v
    using calls_invD(4) [OF inv, of v] w a by (auto simp: answer_ok_def)
  ultimately show ?thesis
    using calls_invD(1,2) [OF inv]
    by (auto simp: calls_inv_def send_answer_def remove_pending_def distinct_map_filter)
qed

text \<open>
  \<open>fail_all\<close> empties the map first and sends afterwards; on the model one entry at a time is taken out
  and answered.
\<close>

lemma send_all_frame [simp]:
  "issued (fold (\<lambda>(_, w). send_answer w a) ps s) = issued s"
  "pending (fold (\<lambda>(_, w). send_answer w a) ps s) = pending s"
  by (induction ps arbitrary: s) (auto simp: send_answer_def)

lemma answers_send_all:
  "distinct (map snd ps) \<Longrightarrow> answers (fold (\<lambda>(_, w). send_answer w a) ps s) v =
     (if v \<in> snd ` set ps then answers s v @ [a] else answers s v)"
  by (induction ps arbitrary: s) (auto simp: send_answer_def image_iff)

lemma fail_all_simps [simp]:
  "pending (fail_all e s) = []" "issued (fail_all e s) = issued s"
  by (simp_all add: fail_all_def)

lemma answers_fail_all:
  assumes "calls_inv key_of s"
  shows "answers (fail_all e s) v = (if v \<in> snd ` set (pending s) then [Inl e] else answers s v)"
  using calls_invD(1) [OF assms]
  by (auto simp: fail_all_def answers_send_all dest: calls_invD(3) [OF assms])

lemma calls_inv_fail_all: "calls_inv key_of s \<Longrightarrow> calls_inv key_of (fail_all e s)"
  by (auto simp: calls_inv_def [of _ "fail_all e s"] answers_fail_all answer_ok_def
      dest: calls_invD(3,4))

lemma calls_inv_dispatch: "calls_inv key_of s \<Longrightarrow> calls_inv key_of (dispatch key_of i s)"
  by (induction key_of i s rule: dispatch.induct)
    (auto simp: calls_inv_fail_all split: option.splits dest: map_of_SomeD intro!: calls_inv_answer)

lemma calls_inv_step: "calls_inv key_of s \<Longrightarrow> call_step key_of s t \<Longrightarrow> calls_inv key_of t"
  by (erule call_stepE)
    (auto simp: wait_def cancel_def drop_request_def close_stream_def
      intro: calls_inv_take_id calls_inv_register calls_inv_remove calls_inv_dispatch calls_inv_fail_all)

interpretation calls: invariant_machine initial_calls "call_step key_of" "calls_inv key_of" for key_of
  by unfold_locales (auto intro: calls_inv_initial calls_inv_step)


text \<open>A call of \<open>begin_request\<close> is a run of steps.\<close>

lemma take_id_reserved: "take_id s = (Some i, s1) \<Longrightarrow> i \<in> set (reserved s1)"
  by (auto simp: take_id_def Let_def split: if_splits)

lemma begin_request_run: "(call_step key_of)\<^sup>*\<^sup>* s (snd (begin_request key_of written s))"
proof (cases "take_id s")
  case (Pair got s1)
  have taken: "call_step key_of s s1" using call_step.id_taken [of key_of s] Pair by simp
  show ?thesis
  proof (cases got)
    case None
    then show ?thesis using taken Pair by (simp add: begin_request_def)
  next
    case (Some i)
    let ?s2 = "snd (register key_of i s1)"
    have reg: "call_step key_of s1 ?s2"
      using take_id_reserved Pair Some by (auto intro: call_step.registered)
    have rem: "call_step key_of ?s2 (remove_pending (key_of (IntegerId i)) ?s2)"
      using call_step.cancelled [of key_of ?s2] by (simp add: cancel_def)
    show ?thesis
      using taken reg rem Pair Some
      by (auto simp: begin_request_def split: prod.splits bool.splits option.splits
          intro: rtranclp.rtrancl_into_rtrancl)
  qed
qed

lemma begin_request_ok:
  assumes "begin_request key_of None s = (Inr (key, w), t)"
  shows "issued t ! w = uint (next_id s) \<and> w < length (issued t) \<and> (key, w) \<in> set (pending t) \<and>
    key = key_of (IntegerId (uint (next_id s)))"
  using assms
  by (auto simp: begin_request_def take_id_def register_def Let_def nth_append split: if_splits bool.splits)

section \<open>Correlation\<close>

text \<open>
  Claim C22. Answers are correlated: in every interleaving of callers and dispatcher, if the printed
  form of an id determines the id, then a waiter that gets a response gets one that carries the id
  its own request was sent with and no error, and its channel has no other answer.
\<close>

theorem answers_are_correlated:
  assumes "reach initial_calls (call_step key_of) s"
    and "\<And>x i. key_of x = key_of (IntegerId i) \<Longrightarrow> x = IntegerId i"
    and "a \<in> set (answers s w)"
    and "fst (wait key (Received a) s) = Inr r"
  shows "answers s w = [a] \<and> w < length (issued s) \<and> resp_id r = IntegerId (issued s ! w) \<and>
    resp_error r = None"
proof -
  have "answer_ok key_of (issued s) (answers s w) w"
    using calls.reach_inv [OF assms(1)] by (rule calls_invD(4))
  moreover have "a = Inr r" "resp_error r = None"
    using assms(4) by (auto simp: wait_def accept_response_def split: sum.splits option.splits)
  ultimately show ?thesis
    using assms(2,3) by (auto simp: answer_ok_def)
qed

definition sample_key :: "wire_id \<Rightarrow> string" where
  "sample_key x = (case x of
     IntegerId i \<Rightarrow> (if i < 0 then CHR ''-'' else CHR ''+'') # replicate (nat \<bar>i\<bar>) CHR ''1''
   | StringId t \<Rightarrow> CHR ''s'' # t)"

lemma sample_key_integer: "sample_key x = sample_key (IntegerId i) \<Longrightarrow> x = IntegerId i"
  by (cases x) (auto simp: sample_key_def split: if_splits dest!: arg_cong [where f = length])

definition sample_response :: response_envelope where
  "sample_response = \<lparr>resp_id = IntegerId 1, resp_result = Some JNull, resp_error = None\<rparr>"

definition sample_calls :: call_state where
  "sample_calls = dispatch sample_key (Message (Response sample_response))
     (snd (begin_request sample_key None initial_calls))"

lemma sample_calls_eval:
  "answers sample_calls 0 = [Inr sample_response]" "pending sample_calls = []"
  by (simp_all add: sample_calls_def sample_response_def begin_request_def take_id_def register_def
      initial_calls_def sample_key_def remove_pending_def send_answer_def Let_def i64_max_def)

lemma reach_begin: "reach initial_calls (call_step key_of) (snd (begin_request key_of w initial_calls))"
  using begin_request_run [of key_of initial_calls w]
  by (induction rule: rtranclp_induct) (auto intro: reach.intros)

lemma sample_calls_reachable: "reach initial_calls (call_step sample_key) sample_calls"
  unfolding sample_calls_def by (rule reach.next_state [OF reach_begin call_step.dispatched])

theorem answers_are_correlated_witness:
  "answers sample_calls 0 = [Inr sample_response] \<and> 0 < length (issued sample_calls) \<and>
   resp_id sample_response = IntegerId (issued sample_calls ! 0) \<and> resp_error sample_response = None"
proof (rule answers_are_correlated [OF sample_calls_reachable, where key = "''+1''"])
  show "x = IntegerId i" if "sample_key x = sample_key (IntegerId i)" for x i
    using that by (rule sample_key_integer)
  show "Inr sample_response \<in> set (answers sample_calls 0)" by (simp add: sample_calls_eval)
  show "fst (wait ''+1'' (Received (Inr sample_response)) sample_calls) = Inr sample_response"
    by (simp add: wait_def accept_response_def sample_response_def)
qed

text \<open>
  The end of the runtime strands nobody: when the dispatcher learns that the child has
  exited, or its stream ends, every request that is still registered gets exactly one answer, which
  is that error, every other channel keeps what it had, and no request stays registered. The exit
  is broadcast after the waiters were told.
\<close>

theorem exit_fails_all_waiters:
  assumes "reach initial_calls (call_step key_of) s"
  shows "pending (dispatch key_of (ChildExited e) s) = [] \<and> pending (close_stream s) = [] \<and>
    answers (dispatch key_of (ChildExited e) s) =
      (\<lambda>w. if w \<in> snd ` set (pending s) then [Inl (ChildExitedError e)] else answers s w) \<and>
    answers (close_stream s) =
      (\<lambda>w. if w \<in> snd ` set (pending s) then [Inl StreamClosed] else answers s w) \<and>
    broadcasts (dispatch key_of (ChildExited e) s) = broadcasts (fail_all (ChildExitedError e) s) @ [ChildExited e]"
  by (auto simp: broadcast_def close_stream_def answers_fail_all [OF calls.reach_inv [OF assms]])

theorem exit_fails_all_waiters_witness:
  "answers (close_stream (snd (begin_request sample_key None initial_calls))) 0 = [Inl StreamClosed]"
  using exit_fails_all_waiters [OF reach_begin [of sample_key None], of UnknownExit]
  by (simp add: begin_request_def take_id_def register_def initial_calls_def Let_def i64_max_def)

end
