(* ===== verification/Driver_Process.thy ===== *)
theory Driver_Process
  imports Driver_Reader
begin

text \<open>
  How the driver identifies, signals and reaps the process group it owns
  (\<open>crates/zcode-driver/src/lib.rs\<close>): the checks on identities, the observation of a process group
  with its retries, the loops that wait for a group to die, and the two procedures that send
  signals, \<open>perform_stop\<close> for an owned child and \<open>stop_and_reap_persisted_process_group\<close> for one a
  former daemon left behind.

  The operating system is a parameter: a record of calls on a state of its own. A world is that
  state, the clock in milliseconds and the trace of what was observed and signalled.
\<close>

type_synonym i32 = "32 word"

record process_identity =
  pid :: u32
  pgid :: i32
  uid :: u32
  start_token :: string

datatype io_kind = NotFound | WouldBlock | InvalidInput | TimedOut | OtherKind | OsKind string

type_synonym io_error = "io_kind \<times> string"

text \<open>A \<open>std::process::ExitStatus\<close> is read through \<open>signal\<close> and \<open>code\<close>.\<close>

datatype exit_status = ExitStatus "int option" "int option"

datatype event = ProcessSeen u32 | GroupSeen i32 "process_identity list" | Signalled i32 i32

record 'o os =
  os_try_wait :: "'o \<Rightarrow> (io_error + exit_status option) \<times> 'o"
  os_process :: "u32 \<Rightarrow> 'o \<Rightarrow> (io_error + process_identity) \<times> 'o"
  os_group :: "i32 \<Rightarrow> 'o \<Rightarrow> (io_error + process_identity list) \<times> 'o"
  os_kill :: "i32 \<Rightarrow> i32 \<Rightarrow> 'o \<Rightarrow> io_error option \<times> 'o"
  os_delay :: "'o \<Rightarrow> nat"
  os_last_instant :: nat
  os_esrch :: "io_error \<Rightarrow> bool"

record 'o world =
  outside :: 'o
  clock :: nat
  events :: "event list"

type_synonym ('o, 'a) io = "'o world \<Rightarrow> (io_error + 'a) \<times> 'o world"

text \<open>Operations on a state that may fail, and the \<open>?\<close> operator.\<close>

type_synonym ('s, 'e, 'a) action = "'s \<Rightarrow> ('e + 'a) \<times> 's"

definition return_ok :: "'a \<Rightarrow> ('s, 'e, 'a) action" where
  "return_ok a w = (Inr a, w)"

definition fail_with :: "'e \<Rightarrow> ('s, 'e, 'a) action" where
  "fail_with e w = (Inl e, w)"

definition bindE :: "('s, 'e, 'a) action \<Rightarrow> ('a \<Rightarrow> ('s, 'e, 'b) action) \<Rightarrow> ('s, 'e, 'b) action" where
  "bindE m f w = (case m w of (Inl e, w') \<Rightarrow> (Inl e, w') | (Inr a, w') \<Rightarrow> f a w')"

lemma bindE_okE:
  assumes "bindE m f w = (Inr b, w')"
  obtains a w1 where "m w = (Inr a, w1)" "f a w1 = (Inr b, w')"
  using assms by (auto simp: bindE_def split: prod.splits sum.splits)

definition lift_result :: "'e + 'a \<Rightarrow> ('s, 'e, 'a) action" where
  "lift_result r w = (r, w)"

text \<open>A call to the operating system takes the time it takes.\<close>

definition os_call :: "'o os \<Rightarrow> ('o \<Rightarrow> 'a \<times> 'o) \<Rightarrow> 'o world \<Rightarrow> 'a \<times> 'o world" where
  "os_call os call w =
     (case call (outside w) of (a, o') \<Rightarrow> (a, w\<lparr>outside := o', clock := clock w + os_delay os o'\<rparr>))"

definition log_event :: "event \<Rightarrow> 'o world \<Rightarrow> 'o world" where
  "log_event e w = w\<lparr>events := events w @ [e]\<rparr>"

definition sleep_10ms :: "'o os \<Rightarrow> 'o world \<Rightarrow> 'o world" where
  "sleep_10ms os w = w\<lparr>clock := clock w + 10 + os_delay os (outside w)\<rparr>"

section \<open>Checks\<close>

definition other_error :: "string \<Rightarrow> io_error" where
  "other_error m = (OtherKind, m)"

definition i32_min :: i32 where "i32_min = - (2 ^ 31)"

definition validate_spawn_identity :: "u32 \<Rightarrow> process_identity \<Rightarrow> io_error + unit" where
  "validate_spawn_identity child_pid identity =
     (if pid identity \<noteq> child_pid \<or> uint (pid identity) \<le> 1 \<or> sint (pgid identity) \<le> 1 \<or>
         pgid identity \<noteq> child_pid \<or> start_token identity = []
      then Inl (other_error ''spawned child identity is incomplete or not group-isolated'')
      else Inr ())"

definition validate_group_target :: "i32 \<Rightarrow> io_error + i32" where
  "validate_group_target g =
     (if sint g \<le> 1 \<or> g = i32_min then Inl (InvalidInput, ''process-group id is not signal-safe'')
      else Inr (- g))"

definition validate_same_identity :: "process_identity \<Rightarrow> process_identity \<Rightarrow> io_error + unit" where
  "validate_same_identity expected observed =
     (if expected \<noteq> observed then Inl (other_error ''process identity changed; refusing to signal'')
      else map_sum id (\<lambda>_. ()) (validate_group_target (pgid expected)))"

definition member_ok :: "process_identity \<Rightarrow> process_identity \<Rightarrow> bool" where
  "member_ok leader member \<longleftrightarrow> \<not> (uint (pid member) \<le> 1 \<or> pgid member \<noteq> pgid leader \<or>
     uid member \<noteq> uid leader \<or> start_token member = [])"

definition validate_live_group_after_term ::
  "process_identity \<Rightarrow> process_identity list \<Rightarrow> io_error + unit" where
  "validate_live_group_after_term leader members =
     (case validate_group_target (pgid leader) of
        Inl e \<Rightarrow> Inl e
      | Inr _ \<Rightarrow> if list_all (member_ok leader) members then Inr ()
                else Inl (other_error ''process-group membership is ambiguous; refusing to signal''))"

definition validate_owned_group :: "process_identity \<Rightarrow> process_identity list \<Rightarrow> io_error + unit" where
  "validate_owned_group leader members =
     (if members = [] \<or> leader \<notin> set members
      then Inl (other_error ''owned process-group membership does not contain the leader'')
      else validate_live_group_after_term leader members)"

section \<open>Observation and signals\<close>

definition observe_process :: "'o os \<Rightarrow> u32 \<Rightarrow> ('o, process_identity) io" where
  "observe_process os p w =
     (if uint p \<le> 1 \<or> uint p > 2147483647 then (Inl (InvalidInput, ''process id is not signal-safe''), w)
      else os_call os (os_process os p) (log_event (ProcessSeen p) w))"

fun observe_group_retry :: "'o os \<Rightarrow> i32 \<Rightarrow> nat \<Rightarrow> io_error option \<Rightarrow> ('o, process_identity list) io" where
  "observe_group_retry os g 0 last_error w =
     (Inl (case last_error of Some e \<Rightarrow> e | None \<Rightarrow> other_error ''process-group observation failed''), w)"
| "observe_group_retry os g (Suc n) last_error w =
     (case os_call os (os_group os g) w of
        (Inr members, w') \<Rightarrow> (Inr members, log_event (GroupSeen g members) w')
      | (Inl e, w') \<Rightarrow> if fst e = WouldBlock then observe_group_retry os g n (Some e) w' else (Inl e, w'))"

definition member_observation_retries :: nat where "member_observation_retries = 4"

definition observe_process_group :: "'o os \<Rightarrow> i32 \<Rightarrow> ('o, process_identity list) io" where
  "observe_process_group os g =
     bindE (lift_result (validate_group_target g))
       (\<lambda>_. observe_group_retry os g member_observation_retries None)"

text \<open>A group that is already gone is not an error.\<close>

definition signal_group :: "'o os \<Rightarrow> i32 \<Rightarrow> i32 \<Rightarrow> ('o, unit) io" where
  "signal_group os g signal =
     bindE (lift_result (validate_group_target g)) (\<lambda>target w.
       case os_call os (os_kill os target signal) (log_event (Signalled target signal) w) of
         (None, w') \<Rightarrow> (Inr (), w')
       | (Some e, w') \<Rightarrow> if os_esrch os e then (Inr (), w') else (Inl e, w'))"

definition ensure_group_empty :: "'o os \<Rightarrow> i32 \<Rightarrow> ('o, unit) io" where
  "ensure_group_empty os g =
     bindE (observe_process_group os g) (\<lambda>members.
       if members = [] then return_ok ()
       else fail_with (other_error ''process leader exited while descendants remain; refusing unproven cleanup''))"

definition exit_class :: "exit_status \<Rightarrow> child_exit" where
  "exit_class status = (case status of ExitStatus (Some signal) _ \<Rightarrow> Signaled signal
     | ExitStatus None code \<Rightarrow> Exited code)"

definition deadline_after :: "'o os \<Rightarrow> nat \<Rightarrow> 'o world \<Rightarrow> nat" where
  "deadline_after os timeout w =
     (if clock w + timeout \<le> os_last_instant os then clock w + timeout else clock w)"


section \<open>Waiting for a group to die\<close>

lemma clock_os_call: "os_call os call w = (a, w') \<Longrightarrow> clock w \<le> clock w'"
  by (auto simp: os_call_def split: prod.splits)

lemma clock_observe_group_retry: "observe_group_retry os g n e w = (r, w') \<Longrightarrow> clock w \<le> clock w'"
proof (induction n arbitrary: e w)
  case 0
  then show ?case by simp
next
  case (Suc n)
  then show ?case
    by (auto simp: log_event_def split: prod.splits sum.splits if_splits dest!: clock_os_call
        intro: order_trans)
qed

lemma clock_observe_process_group: "observe_process_group os g w = (r, w') \<Longrightarrow> clock w \<le> clock w'"
  by (auto simp: observe_process_group_def bindE_def lift_result_def split: sum.splits
      dest: clock_observe_group_retry)

text \<open>What a round learns: an observation that would block counts as a group that is still there.\<close>

definition group_gone :: "io_error + process_identity list \<Rightarrow> io_error + bool" where
  "group_gone r = (case r of Inr members \<Rightarrow> Inr (members = [])
     | Inl e \<Rightarrow> if fst e = WouldBlock then Inr False else Inl e)"

text \<open>
  The rounds of a loop are at least ten milliseconds apart, so the distance of the clock to the
  deadline bounds their number.
\<close>

function await_group :: "'o os \<Rightarrow> i32 \<Rightarrow> nat \<Rightarrow> ('o, bool) io" where
  "await_group os g deadline w =
     (case observe_process_group os g w of (r, w1) \<Rightarrow>
       (case group_gone r of
          Inl e \<Rightarrow> (Inl e, w1)
        | Inr gone \<Rightarrow>
            if gone then (Inr True, w1)
            else if deadline \<le> clock w1 then (Inr False, w1)
            else await_group os g deadline (sleep_10ms os w1)))"
  by pat_completeness auto
termination
  by (relation "measure (\<lambda>(os, g, deadline, w). deadline - clock w)")
    (auto simp: sleep_10ms_def dest!: clock_observe_process_group [OF sym])

definition wait_for_persisted_group_death :: "'o os \<Rightarrow> i32 \<Rightarrow> nat \<Rightarrow> ('o, bool) io" where
  "wait_for_persisted_group_death os g timeout w = await_group os g (deadline_after os timeout w) w"

definition leader_status :: "'o os \<Rightarrow> child_exit option \<Rightarrow> ('o, child_exit option) io" where
  "leader_status os leader w =
     (case leader of
        Some exit \<Rightarrow> (Inr (Some exit), w)
      | None \<Rightarrow> (case os_call os (os_try_wait os) w of
                  (Inl e, w') \<Rightarrow> (Inl e, w')
                | (Inr status, w') \<Rightarrow> (Inr (map_option exit_class status), w')))"

lemma clock_leader_status: "leader_status os leader w = (r, w') \<Longrightarrow> clock w \<le> clock w'"
  by (auto simp: leader_status_def split: option.splits prod.splits sum.splits dest: clock_os_call)

function await_child :: "'o os \<Rightarrow> i32 \<Rightarrow> nat \<Rightarrow> child_exit option \<Rightarrow> ('o, child_exit option) io" where
  "await_child os g deadline leader w =
     (case leader_status os leader w of
        (Inl e, w1) \<Rightarrow> (Inl e, w1)
      | (Inr leader', w1) \<Rightarrow>
          (case observe_process_group os g w1 of (r, w2) \<Rightarrow>
            (case group_gone r of
               Inl e \<Rightarrow> (Inl e, w2)
             | Inr gone \<Rightarrow>
                 if gone \<and> leader' \<noteq> None then (Inr leader', w2)
                 else if deadline \<le> clock w2 then (Inr None, w2)
                 else await_child os g deadline leader' (sleep_10ms os w2))))"
  by pat_completeness auto
termination
  by (relation "measure (\<lambda>(os, g, deadline, leader, w). deadline - clock w)")
    (auto simp: sleep_10ms_def dest!: clock_observe_process_group [OF sym] clock_leader_status [OF sym])

declare await_group.simps [simp del] await_child.simps [simp del]

definition wait_for_group_death :: "'o os \<Rightarrow> i32 \<Rightarrow> nat \<Rightarrow> ('o, child_exit option) io" where
  "wait_for_group_death os g timeout w = await_child os g (deadline_after os timeout w) None w"

section \<open>Stopping\<close>

definition term_signal :: i32 where "term_signal = 15"
definition kill_signal :: i32 where "kill_signal = 9"

datatype stop_outcome = AlreadyExited child_exit | Terminated child_exit

text \<open>\<open>try_wait\<close> on the owned child.\<close>

definition child_status :: "'o os \<Rightarrow> ('o, child_exit option) io" where
  "child_status os = leader_status os None"

text \<open>The second signal, for members that survived the first.\<close>

definition kill_survivors :: "'o os \<Rightarrow> process_identity \<Rightarrow> ('o, unit) io" where
  "kill_survivors os identity =
     bindE (observe_process_group os (pgid identity)) (\<lambda>members.
     bindE (lift_result (validate_live_group_after_term identity members)) (\<lambda>_.
     signal_group os (pgid identity) kill_signal))"

definition terminate_child :: "'o os \<Rightarrow> process_identity \<Rightarrow> nat \<Rightarrow> ('o, stop_outcome) io" where
  "terminate_child os identity timeout =
     bindE (signal_group os (pgid identity) term_signal) (\<lambda>_.
     bindE (wait_for_group_death os (pgid identity) timeout) (\<lambda>exited.
     case exited of
       Some exit \<Rightarrow> return_ok (Terminated exit)
     | None \<Rightarrow>
         bindE (kill_survivors os identity) (\<lambda>_.
         bindE (wait_for_group_death os (pgid identity) timeout) (\<lambda>killed.
         case killed of
           Some exit \<Rightarrow> return_ok (Terminated exit)
         | None \<Rightarrow> fail_with (TimedOut, ''process group survived SIGKILL'')))))"

text \<open>The leader that cannot be observed any more has exited or is about to be reaped.\<close>

definition leader_not_found :: "'o os \<Rightarrow> process_identity \<Rightarrow> nat \<Rightarrow> io_error \<Rightarrow> ('o, stop_outcome) io" where
  "leader_not_found os identity timeout e =
     bindE (child_status os) (\<lambda>status.
     case status of
       Some exit \<Rightarrow> bindE (ensure_group_empty os (pgid identity)) (\<lambda>_. return_ok (AlreadyExited exit))
     | None \<Rightarrow>
         bindE (wait_for_group_death os (pgid identity) timeout) (\<lambda>exited.
         case exited of
           Some exit \<Rightarrow> return_ok (AlreadyExited exit)
         | None \<Rightarrow> fail_with e))"

text \<open>\<open>child\<close> is the id of the owned child, if the handle is still there.\<close>

definition perform_stop ::
  "'o os \<Rightarrow> u32 option \<Rightarrow> process_identity \<Rightarrow> nat \<Rightarrow> ('o, stop_outcome) io" where
  "perform_stop os child identity timeout =
     (case child of
        None \<Rightarrow> fail_with (other_error ''Driver lost its owned Child handle'')
      | Some child_pid \<Rightarrow>
          bindE (child_status os) (\<lambda>status.
          case status of
            Some exit \<Rightarrow> bindE (ensure_group_empty os (pgid identity)) (\<lambda>_. return_ok (AlreadyExited exit))
          | None \<Rightarrow>
              bindE (lift_result (validate_spawn_identity child_pid identity)) (\<lambda>_ w.
              case observe_process os child_pid w of
                (Inl e, w') \<Rightarrow>
                  if fst e = NotFound then leader_not_found os identity timeout e w' else (Inl e, w')
              | (Inr observed, w') \<Rightarrow>
                  bindE (lift_result (validate_same_identity identity observed)) (\<lambda>_.
                  bindE (observe_process_group os (pgid identity)) (\<lambda>members.
                  bindE (lift_result (validate_owned_group identity members)) (\<lambda>_.
                  terminate_child os identity timeout))) w')))"

definition terminate_persisted :: "'o os \<Rightarrow> process_identity \<Rightarrow> nat \<Rightarrow> ('o, unit) io" where
  "terminate_persisted os identity timeout =
     bindE (signal_group os (pgid identity) term_signal) (\<lambda>_.
     bindE (wait_for_persisted_group_death os (pgid identity) timeout) (\<lambda>died.
     if died then return_ok ()
     else
       bindE (kill_survivors os identity) (\<lambda>_.
       bindE (wait_for_persisted_group_death os (pgid identity) timeout) (\<lambda>killed.
       if killed then return_ok ()
       else fail_with (TimedOut, ''persisted process group survived SIGKILL'')))))"

definition stop_and_reap_persisted_process_group ::
  "'o os \<Rightarrow> process_identity \<Rightarrow> nat \<Rightarrow> ('o, unit) io" where
  "stop_and_reap_persisted_process_group os identity timeout =
     bindE (lift_result (validate_spawn_identity (pid identity) identity)) (\<lambda>_ w.
     case observe_process os (pid identity) w of
       (Inr observed, w') \<Rightarrow>
         bindE (lift_result (validate_same_identity identity observed)) (\<lambda>_.
         bindE (observe_process_group os (pgid identity)) (\<lambda>members.
         bindE (lift_result (validate_owned_group identity members)) (\<lambda>_.
         terminate_persisted os identity timeout))) w'
     | (Inl e, w') \<Rightarrow>
         if fst e \<noteq> NotFound then (Inl e, w')
         else
           bindE (observe_process_group os (pgid identity)) (\<lambda>members.
           if members = [] then return_ok ()
           else
             bindE (lift_result (validate_live_group_after_term identity members)) (\<lambda>_.
             terminate_persisted os identity timeout)) w')"

end
