(* ===== verification/Driver_Process_Properties.thy ===== *)
theory Driver_Process_Properties
  imports Driver_Process "HOL-Library.Sublist"
begin

text \<open>
  The properties of stopping a process group: which signals are sent, after which observation, what
  a successful stop has seen, and how long a wait can last.
\<close>

section \<open>Signals\<close>

fun signals :: "event list \<Rightarrow> (i32 \<times> i32) list" where
  "signals [] = []"
| "signals (Signalled target s # es) = (target, s) # signals es"
| "signals (_ # es) = signals es"

lemma signals_append [simp]: "signals (a @ b) = signals a @ signals b"
  by (induction a rule: signals.induct) auto

text \<open>
  A trace is guarded when the event right before every signal is an observation of the group all of
  whose members passed the checks, and the signal goes to that group, whose id is above one.
\<close>

definition valid_target :: "process_identity \<Rightarrow> event option \<Rightarrow> i32 \<Rightarrow> bool" where
  "valid_target identity prev target \<longleftrightarrow> target = - pgid identity \<and> 1 < sint (pgid identity) \<and>
     (case prev of Some (GroupSeen g members) \<Rightarrow> g = pgid identity \<and> list_all (member_ok identity) members
      | _ \<Rightarrow> False)"

fun guarded :: "process_identity \<Rightarrow> event option \<Rightarrow> event list \<Rightarrow> bool" where
  "guarded identity prev [] = True"
| "guarded identity prev (e # es) =
     ((case e of Signalled target _ \<Rightarrow> valid_target identity prev target | _ \<Rightarrow> True) \<and>
      guarded identity (Some e) es)"

lemma guarded_weaken: "guarded identity None es \<Longrightarrow> guarded identity prev es"
  by (cases es) (auto simp: valid_target_def split: event.splits)

lemma guarded_append: "guarded identity prev a \<Longrightarrow> guarded identity None b \<Longrightarrow> guarded identity prev (a @ b)"
  by (induction a arbitrary: prev) (auto intro: guarded_weaken)

text \<open>
  The contract of a procedure that starts right after the event \<open>prev\<close>: its part of the trace is
  guarded and its signals are at most \<open>l\<close>; when it \<open>emits\<close> \<open>l\<close>, success means all of them were sent.
\<close>

definition within :: "process_identity \<Rightarrow> event option \<Rightarrow> ('o, 'a) io \<Rightarrow> (i32 \<times> i32) list \<Rightarrow> bool" where
  "within identity prev m l \<longleftrightarrow> (\<forall>w r w'. m w = (r, w') \<longrightarrow>
     (\<exists>new. events w' = events w @ new \<and> guarded identity prev new \<and> prefix (signals new) l))"

definition emits :: "process_identity \<Rightarrow> event option \<Rightarrow> ('o, 'a) io \<Rightarrow> (i32 \<times> i32) list \<Rightarrow> bool" where
  "emits identity prev m l \<longleftrightarrow> (\<forall>w r w'. m w = (r, w') \<longrightarrow>
     (\<exists>new. events w' = events w @ new \<and> guarded identity prev new \<and> prefix (signals new) l \<and>
       (is_ok r \<longrightarrow> signals new = l)))"

lemma emits_within: "emits identity prev m l \<Longrightarrow> within identity prev m l"
  unfolding emits_def within_def by blast

lemma withinD:
  "within identity prev m l \<Longrightarrow> m w = (r, w') \<Longrightarrow>
   \<exists>new. events w' = events w @ new \<and> guarded identity prev new \<and> prefix (signals new) l"
  unfolding within_def by blast

lemma emitsD:
  "emits identity prev m l \<Longrightarrow> m w = (r, w') \<Longrightarrow>
   \<exists>new. events w' = events w @ new \<and> guarded identity prev new \<and> prefix (signals new) l \<and>
     (is_ok r \<longrightarrow> signals new = l)"
  unfolding emits_def by blast

lemma emits_none: "emits identity None m l \<Longrightarrow> emits identity prev m l"
  unfolding emits_def using guarded_weaken by blast

lemma within_bind:
  assumes m: "emits identity prev m l" and f: "\<And>a. within identity None (f a) l'"
  shows "within identity prev (bindE m f) (l @ l')"
  unfolding within_def
proof (intro allI impI)
  fix w r w' assume run: "bindE m f w = (r, w')"
  obtain q w1 where q: "m w = (q, w1)" by (cases "m w")
  then obtain new where new: "events w1 = events w @ new" "guarded identity prev new"
      "prefix (signals new) l" "is_ok q \<longrightarrow> signals new = l"
    using emitsD [OF m] by blast
  show "\<exists>new. events w' = events w @ new \<and> guarded identity prev new \<and> prefix (signals new) (l @ l')"
  proof (cases q)
    case (Inl e)
    with run q new show ?thesis by (auto simp: bindE_def intro: prefix_order.trans)
  next
    case (Inr a)
    then have "f a w1 = (r, w')" using run q by (simp add: bindE_def)
    from withinD [OF f this] obtain new' where
      "events w' = events w1 @ new'" "guarded identity None new'" "prefix (signals new') l'" by blast
    with new Inr show ?thesis
      by (intro exI [of _ "new @ new'"]) (auto simp: is_ok_def guarded_append)
  qed
qed

lemma within_lift:
  "(\<And>a. x = Inr a \<Longrightarrow> within identity prev (f a) l) \<Longrightarrow> within identity prev (bindE (lift_result x) f) l"
  by (cases x) (auto simp: within_def bindE_def lift_result_def)

lemma within_return [simp]: "within identity prev (return_ok a) l" "within identity prev (fail_with e) l"
  by (auto simp: within_def return_ok_def fail_with_def)

lemma events_os_call [simp]: "os_call os call w = (a, w') \<Longrightarrow> events w' = events w"
  by (auto simp: os_call_def split: prod.splits)

lemma observe_group_retry_events:
  "observe_group_retry os g n e w = (r, w') \<Longrightarrow>
   events w' = events w @ (case r of Inr members \<Rightarrow> [GroupSeen g members] | Inl _ \<Rightarrow> [])"
  by (induction n arbitrary: e w) (auto simp: log_event_def split: prod.splits sum.splits if_splits)

lemma observe_process_group_events:
  "observe_process_group os g w = (r, w') \<Longrightarrow>
   events w' = events w @ (case r of Inr members \<Rightarrow> [GroupSeen g members] | Inl _ \<Rightarrow> [])"
  by (auto simp: observe_process_group_def bindE_def lift_result_def split: sum.splits
      dest: observe_group_retry_events)

lemma within_observed:
  assumes f: "\<And>members. within identity (Some (GroupSeen g members)) (f members) l"
  shows "within identity prev (bindE (observe_process_group os g) f) l"
  unfolding within_def
proof (intro allI impI)
  fix w r w' assume run: "bindE (observe_process_group os g) f w = (r, w')"
  obtain q w1 where q: "observe_process_group os g w = (q, w1)" by (cases "observe_process_group os g w")
  note seen = observe_process_group_events [OF q]
  show "\<exists>new. events w' = events w @ new \<and> guarded identity prev new \<and> prefix (signals new) l"
  proof (cases q)
    case (Inl e)
    with run q seen show ?thesis by (auto simp: bindE_def)
  next
    case (Inr members)
    then have "f members w1 = (r, w')" using run q by (simp add: bindE_def)
    from withinD [OF f this] obtain new where "events w' = events w1 @ new"
      "guarded identity (Some (GroupSeen g members)) new" "prefix (signals new) l" by blast
    with seen Inr show ?thesis by (intro exI [of _ "GroupSeen g members # new"]) auto
  qed
qed

text \<open>The loops observe and send nothing.\<close>

lemma emits_quiet:
  assumes "\<And>w r w'. m w = (r, w') \<Longrightarrow> \<exists>new. events w' = events w @ new \<and> guarded identity None new \<and> signals new = []"
  shows "emits identity prev m []"
  unfolding emits_def using assms guarded_weaken by fastforce

definition sees :: "i32 \<Rightarrow> event list \<Rightarrow> bool" where
  "sees g es \<longleftrightarrow> (\<forall>e \<in> set es. \<exists>members. e = GroupSeen g members)"

lemma sees_quiet: "sees g es \<Longrightarrow> guarded identity prev es \<and> signals es = []"
  by (induction es arbitrary: prev) (auto simp: sees_def)

lemma observe_process_group_sees:
  "observe_process_group os g w = (r, w') \<Longrightarrow> \<exists>new. events w' = events w @ new \<and> sees g new"
  by (auto dest!: observe_process_group_events simp: sees_def split: sum.splits)

lemma leader_status_events: "leader_status os leader w = (r, w') \<Longrightarrow> events w' = events w"
  by (auto simp: leader_status_def split: option.splits prod.splits sum.splits)

lemma await_group_sees:
  "await_group os g deadline w = (r, w') \<Longrightarrow> \<exists>new. events w' = events w @ new \<and> sees g new"
proof (induction os g deadline w rule: await_group.induct)
  case (1 os g deadline w)
  obtain q w1 where q: "observe_process_group os g w = (q, w1)" by (cases "observe_process_group os g w")
  obtain new where new: "events w1 = events w @ new" "sees g new"
    using observe_process_group_sees [OF q] by blast
  show ?case
  proof (cases "group_gone q = Inr False \<and> clock w1 < deadline")
    case False
    with "1.prems" q new show ?thesis
      by (auto simp: await_group.simps [of os g deadline w] split: sum.splits if_splits)
  next
    case True
    with "1.prems" q have "await_group os g deadline (sleep_10ms os w1) = (r, w')"
      by (simp add: await_group.simps [of os g deadline w])
    then obtain new' where "events w' = events (sleep_10ms os w1) @ new'" "sees g new'"
      using "1.IH" [OF q [symmetric]] True by auto
    with new show ?thesis
      by (intro exI [of _ "new @ new'"]) (auto simp: sleep_10ms_def sees_def)
  qed
qed

lemma await_child_sees:
  "await_child os g deadline leader w = (r, w') \<Longrightarrow> \<exists>new. events w' = events w @ new \<and> sees g new"
proof (induction os g deadline leader w rule: await_child.induct)
  case (1 os g deadline leader w)
  obtain s w0 where s: "leader_status os leader w = (s, w0)" by (cases "leader_status os leader w")
  obtain q w1 where q: "observe_process_group os g w0 = (q, w1)" by (cases "observe_process_group os g w0")
  obtain new where new: "events w1 = events w @ new" "sees g new"
    using observe_process_group_sees [OF q] leader_status_events [OF s] by auto
  have stay: "events w0 = events w @ [] \<and> sees g []"
    using leader_status_events [OF s] by (simp add: sees_def)
  show ?case
  proof (cases s)
    case (Inl e)
    with "1.prems" s stay show ?thesis by (auto simp: await_child.simps [of os g deadline leader w])
  next
    case (Inr l')
    show ?thesis
    proof (cases "\<exists>gone. group_gone q = Inr gone \<and> \<not> (gone \<and> l' \<noteq> None) \<and> clock w1 < deadline")
      case False
      with "1.prems" s q Inr new show ?thesis
        by (auto simp: await_child.simps [of os g deadline leader w] split: sum.splits if_splits)
    next
      case True
      with "1.prems" s q Inr have rec: "await_child os g deadline l' (sleep_10ms os w1) = (r, w')"
        by (auto simp: await_child.simps [of os g deadline leader w])
      obtain gone where "group_gone q = Inr gone" "\<not> (gone \<and> l' \<noteq> None)" "\<not> deadline \<le> clock w1"
        using True by auto
      from "1.IH" [OF s [symmetric] Inr q [symmetric] this rec]
      obtain new' where "events w' = events (sleep_10ms os w1) @ new'" "sees g new'" by blast
      with new show ?thesis
        by (intro exI [of _ "new @ new'"]) (auto simp: sleep_10ms_def sees_def)
    qed
  qed
qed

lemma emits_waits:
  "emits identity prev (wait_for_persisted_group_death os g timeout) []"
  "emits identity prev (wait_for_group_death os g timeout) []"
  "emits identity prev (leader_status os leader) []"
proof -
  show "emits identity prev (wait_for_persisted_group_death os g timeout) []"
    by (rule emits_quiet)
      (metis wait_for_persisted_group_death_def await_group_sees sees_quiet)
  show "emits identity prev (wait_for_group_death os g timeout) []"
    by (rule emits_quiet) (metis wait_for_group_death_def await_child_sees sees_quiet)
  show "emits identity prev (leader_status os leader) []"
    by (rule emits_quiet) (auto dest: leader_status_events)
qed

lemma emits_signal:
  assumes "valid_target identity prev (- pgid identity)"
  shows "emits identity prev (signal_group os (pgid identity) s) [(- pgid identity, s)]"
  using assms unfolding emits_def
  by (auto simp: signal_group_def bindE_def lift_result_def validate_group_target_def log_event_def is_ok_def
      split: prod.splits option.splits if_splits)

lemma valid_target_observed:
  assumes "validate_live_group_after_term identity members = Inr u"
  shows "valid_target identity (Some (GroupSeen (pgid identity) members)) (- pgid identity)"
  using assms
  by (auto simp: validate_live_group_after_term_def validate_group_target_def valid_target_def
      split: if_splits)

lemma validate_owned_group_live:
  "validate_owned_group identity members = Inr u \<Longrightarrow> validate_live_group_after_term identity members = Inr u"
  by (simp add: validate_owned_group_def split: if_splits)

abbreviation term_of :: "process_identity \<Rightarrow> i32 \<times> i32" where
  "term_of identity \<equiv> (- pgid identity, term_signal)"

abbreviation kill_of :: "process_identity \<Rightarrow> i32 \<times> i32" where
  "kill_of identity \<equiv> (- pgid identity, kill_signal)"

text \<open>The composition of a quiet step, and of a signal that nothing follows.\<close>

lemma within_quiet:
  "emits identity None m [] \<Longrightarrow> (\<And>a. within identity None (f a) l) \<Longrightarrow> within identity prev (bindE m f) l"
  using within_bind [of identity prev m "[]" f l] emits_none by fastforce

lemma emits_kill_survivors: "emits identity prev (kill_survivors os identity) [kill_of identity]"
  unfolding emits_def
proof (intro allI impI)
  fix w r w' assume run: "kill_survivors os identity w = (r, w')"
  obtain q w1 where q: "observe_process_group os (pgid identity) w = (q, w1)"
    by (cases "observe_process_group os (pgid identity) w")
  note seen = observe_process_group_events [OF q]
  show "\<exists>new. events w' = events w @ new \<and> guarded identity prev new \<and> prefix (signals new) [kill_of identity] \<and>
    (is_ok r \<longrightarrow> signals new = [kill_of identity])"
  proof (cases "\<exists>members. q = Inr members \<and> validate_live_group_after_term identity members = Inr ()")
    case False
    then show ?thesis
      using run q seen
      by (auto simp: kill_survivors_def bindE_def lift_result_def is_ok_def split: sum.splits)
  next
    case True
    then obtain members where members: "q = Inr members" "validate_live_group_after_term identity members = Inr ()"
      by blast
    then have "signal_group os (pgid identity) kill_signal w1 = (r, w')"
      using run q by (simp add: kill_survivors_def bindE_def lift_result_def)
    from emitsD [OF emits_signal [OF valid_target_observed [OF members(2)]] this]
    obtain new where "events w' = events w1 @ new"
      "guarded identity (Some (GroupSeen (pgid identity) members)) new" "prefix (signals new) [kill_of identity]"
      "is_ok r \<longrightarrow> signals new = [kill_of identity]" by blast
    with seen members show ?thesis
      by (intro exI [of _ "GroupSeen (pgid identity) members # new"]) auto
  qed
qed

lemma within_terminate:
  assumes "valid_target identity prev (- pgid identity)"
  shows "within identity prev (terminate_child os identity timeout) [term_of identity, kill_of identity]"
    and "within identity prev (terminate_persisted os identity timeout) [term_of identity, kill_of identity]"
proof -
  have "within identity None
      (bindE (kill_survivors os identity) (\<lambda>_.
         bindE (wait_for_group_death os (pgid identity) timeout) (\<lambda>killed.
         case killed of Some exit \<Rightarrow> return_ok (Terminated exit)
         | None \<Rightarrow> fail_with (TimedOut, ''process group survived SIGKILL'')))) ([kill_of identity] @ [])"
    by (intro within_bind emits_kill_survivors within_quiet emits_waits) (simp split: option.splits)
  then have "within identity prev (terminate_child os identity timeout) ([term_of identity] @ [kill_of identity])"
    unfolding terminate_child_def
    by (intro within_bind emits_signal assms within_quiet emits_waits) (simp split: option.splits)
  then show "within identity prev (terminate_child os identity timeout) [term_of identity, kill_of identity]"
    by simp
  have "within identity None
      (bindE (kill_survivors os identity) (\<lambda>_.
         bindE (wait_for_persisted_group_death os (pgid identity) timeout) (\<lambda>killed.
         if killed then return_ok ()
         else fail_with (TimedOut, ''persisted process group survived SIGKILL'')))) ([kill_of identity] @ [])"
    by (intro within_bind emits_kill_survivors within_quiet emits_waits) simp
  then have "within identity prev (terminate_persisted os identity timeout) ([term_of identity] @ [kill_of identity])"
    unfolding terminate_persisted_def
    by (intro within_bind emits_signal assms within_quiet emits_waits) simp
  then show "within identity prev (terminate_persisted os identity timeout) [term_of identity, kill_of identity]"
    by simp
qed

lemma within_empty_check: "within identity prev (bindE (ensure_group_empty os g) (\<lambda>_. return_ok a)) l"
proof -
  have "emits identity None (ensure_group_empty os g) []"
    by (rule emits_quiet)
      (auto simp: ensure_group_empty_def bindE_def return_ok_def fail_with_def
        dest!: observe_process_group_events split: prod.splits sum.splits if_splits)
  then show ?thesis by (rule within_quiet) simp
qed

lemma within_leader_not_found: "within identity prev (leader_not_found os identity timeout e) l"
  unfolding leader_not_found_def child_status_def
  by (rule within_quiet [OF emits_waits(3)])
    (auto split: option.splits intro!: within_empty_check within_quiet [OF emits_waits(2)])

text \<open>An observation of one process adds its event and then the procedure goes on.\<close>

lemma observe_process_events:
  "observe_process os p w = (r, w') \<Longrightarrow> \<exists>new. events w' = events w @ new \<and> set new \<subseteq> {ProcessSeen p}"
  by (auto simp: observe_process_def log_event_def split: if_splits dest!: events_os_call)

lemma process_seen_quiet: "set new \<subseteq> {ProcessSeen p} \<Longrightarrow> guarded identity prev new \<and> signals new = []"
  by (induction new arbitrary: prev) auto

lemma within_process:
  assumes "\<And>r. within identity None (f r) l"
  shows "within identity prev (\<lambda>w. case observe_process os p w of (r, w1) \<Rightarrow> f r w1) l"
  unfolding within_def
proof (intro allI impI)
  fix w r w' assume run: "(case observe_process os p w of (r, w1) \<Rightarrow> f r w1) = (r, w')"
  obtain q w1 where q: "observe_process os p w = (q, w1)" by (cases "observe_process os p w")
  from observe_process_events [OF q] obtain new where new: "events w1 = events w @ new" "set new \<subseteq> {ProcessSeen p}"
    by blast
  from run q have "f q w1 = (r, w')" by simp
  from withinD [OF assms this] obtain new' where "events w' = events w1 @ new'" "guarded identity None new'"
    "prefix (signals new') l" by blast
  with new process_seen_quiet [OF new(2)]
  show "\<exists>new. events w' = events w @ new \<and> guarded identity prev new \<and> prefix (signals new) l"
    by (intro exI [of _ "new @ new'"]) (auto simp: guarded_append)
qed


lemma within_fail [simp]: "within identity prev (\<lambda>w. (Inl e, w)) l"
  by (auto simp: within_def)

lemma within_perform_stop:
  "within identity None (perform_stop os child identity timeout) [term_of identity, kill_of identity]"
proof (cases child)
  case None
  then show ?thesis by (simp add: perform_stop_def)
next
  case (Some child_pid)
  let ?l = "[term_of identity, kill_of identity]"
  have go: "within identity prev
      (bindE (lift_result (validate_same_identity identity observed)) (\<lambda>_.
       bindE (observe_process_group os (pgid identity)) (\<lambda>members.
       bindE (lift_result (validate_owned_group identity members)) (\<lambda>_.
       terminate_child os identity timeout)))) ?l" for prev observed
    by (intro within_lift within_observed within_terminate valid_target_observed validate_owned_group_live)
  have "within identity None (\<lambda>w. case r of
        Inl e \<Rightarrow> if fst e = NotFound then leader_not_found os identity timeout e w else (Inl e, w)
      | Inr observed \<Rightarrow>
          bindE (lift_result (validate_same_identity identity observed)) (\<lambda>_.
          bindE (observe_process_group os (pgid identity)) (\<lambda>members.
          bindE (lift_result (validate_owned_group identity members)) (\<lambda>_.
          terminate_child os identity timeout))) w) ?l" for r
  proof (cases r)
    case (Inl e)
    then show ?thesis by (cases "fst e = NotFound") (simp_all add: within_leader_not_found)
  next
    case (Inr observed)
    with go show ?thesis by simp
  qed
  note observed = within_process [OF this]
  show ?thesis
    unfolding perform_stop_def Some option.case child_status_def
    by (rule within_quiet [OF emits_waits(3)])
      (auto split: option.splits intro!: within_empty_check within_lift observed)
qed

lemma within_persisted:
  "within identity None (stop_and_reap_persisted_process_group os identity timeout)
     [term_of identity, kill_of identity]"
proof -
  let ?l = "[term_of identity, kill_of identity]"
  have go: "within identity None
      (bindE (lift_result (validate_same_identity identity observed)) (\<lambda>_.
       bindE (observe_process_group os (pgid identity)) (\<lambda>members.
       bindE (lift_result (validate_owned_group identity members)) (\<lambda>_.
       terminate_persisted os identity timeout)))) ?l" for observed
    by (intro within_lift within_observed within_terminate valid_target_observed validate_owned_group_live)
  have orphans: "within identity None
      (bindE (observe_process_group os (pgid identity)) (\<lambda>members.
       if members = [] then return_ok ()
       else bindE (lift_result (validate_live_group_after_term identity members)) (\<lambda>_.
            terminate_persisted os identity timeout))) ?l"
  proof (rule within_observed)
    fix members
    have "within identity (Some (GroupSeen (pgid identity) members))
       (bindE (lift_result (validate_live_group_after_term identity members)) (\<lambda>_.
            terminate_persisted os identity timeout)) ?l"
      by (intro within_lift within_terminate valid_target_observed)
    then show "within identity (Some (GroupSeen (pgid identity) members))
       (if members = [] then return_ok ()
        else bindE (lift_result (validate_live_group_after_term identity members)) (\<lambda>_.
             terminate_persisted os identity timeout)) ?l" by simp
  qed
  have "within identity None (\<lambda>w. case r of
        Inl e \<Rightarrow> if fst e \<noteq> NotFound then (Inl e, w)
          else bindE (observe_process_group os (pgid identity)) (\<lambda>members.
             if members = [] then return_ok ()
             else bindE (lift_result (validate_live_group_after_term identity members)) (\<lambda>_.
                  terminate_persisted os identity timeout)) w
      | Inr observed \<Rightarrow>
          bindE (lift_result (validate_same_identity identity observed)) (\<lambda>_.
          bindE (observe_process_group os (pgid identity)) (\<lambda>members.
          bindE (lift_result (validate_owned_group identity members)) (\<lambda>_.
          terminate_persisted os identity timeout))) w) ?l" for r
  proof (cases r)
    case (Inl e)
    with orphans show ?thesis by (cases "fst e = NotFound") simp_all
  next
    case (Inr observed)
    with go show ?thesis by simp
  qed
  note observed = within_process [OF this]
  show ?thesis
    unfolding stop_and_reap_persisted_process_group_def
    by (rule within_lift) (rule observed)
qed

text \<open>
  Claim C7. No signal leaves without proof of ownership: whatever the operating system reports, both
  procedures that stop a process group send at most a termination and then a kill, both to the
  group of the identity they were given, whose id is above one; and the event right before each
  signal is an observation of that group in which every member has an id above one, that group,
  the owner's user id and a start token.
\<close>

theorem signals_follow_validation:
  "(\<exists>new. events (snd (perform_stop os child identity timeout w)) = events w @ new \<and>
      guarded identity None new \<and>
      prefix (signals new) [(- pgid identity, term_signal), (- pgid identity, kill_signal)]) \<and>
   (\<exists>new. events (snd (stop_and_reap_persisted_process_group os identity timeout w)) = events w @ new \<and>
      guarded identity None new \<and>
      prefix (signals new) [(- pgid identity, term_signal), (- pgid identity, kill_signal)])"
  using withinD [OF within_perform_stop [of identity os child timeout], of w]
    withinD [OF within_persisted [of identity os timeout], of w]
  by (metis prod.collapse)


section \<open>Success\<close>

lemma return_ok_iff [simp]:
  "return_ok a w = (Inr b, w') \<longleftrightarrow> a = b \<and> w' = w"
  "fail_with e w \<noteq> (Inr b, w')"
  by (auto simp: return_ok_def fail_with_def)

definition saw_empty :: "i32 \<Rightarrow> 'o world \<Rightarrow> bool" where
  "saw_empty g w \<longleftrightarrow> events w \<noteq> [] \<and> last (events w) = GroupSeen g []"

lemma observed_empty: "observe_process_group os g w = (Inr [], w') \<Longrightarrow> saw_empty g w'"
  by (auto simp: saw_empty_def dest: observe_process_group_events)

lemma group_gone_True: "group_gone r = Inr True \<longleftrightarrow> r = Inr []"
  by (auto simp: group_gone_def split: sum.splits if_splits)

lemma await_group_empty: "await_group os g deadline w = (Inr True, w') \<Longrightarrow> saw_empty g w'"
proof (induction os g deadline w rule: await_group.induct)
  case (1 os g deadline w)
  then show ?case
    by (subst (asm) (2) await_group.simps)
      (auto simp: group_gone_True intro: observed_empty split: prod.splits sum.splits if_splits)
qed

lemma await_child_empty: "await_child os g deadline leader w = (Inr (Some exit), w') \<Longrightarrow> saw_empty g w'"
proof (induction os g deadline leader w rule: await_child.induct)
  case (1 os g deadline leader w)
  then show ?case
    by (subst (asm) (2) await_child.simps)
      (auto simp: group_gone_True intro: observed_empty split: prod.splits sum.splits if_splits)
qed

lemma ensure_group_empty_empty: "ensure_group_empty os g w = (Inr u, w') \<Longrightarrow> saw_empty g w'"
  by (auto simp: ensure_group_empty_def elim!: bindE_okE split: if_splits intro: observed_empty)

lemma wait_for_persisted_empty:
  "wait_for_persisted_group_death os g timeout w = (Inr True, w') \<Longrightarrow> saw_empty g w'"
  unfolding wait_for_persisted_group_death_def by (rule await_group_empty)

lemma wait_for_group_empty:
  "wait_for_group_death os g timeout w = (Inr (Some exit), w') \<Longrightarrow> saw_empty g w'"
  unfolding wait_for_group_death_def by (rule await_child_empty)

lemmas empty_intros =
  wait_for_persisted_empty wait_for_group_empty ensure_group_empty_empty observed_empty

lemma terminate_child_empty: "terminate_child os identity timeout w = (Inr a, w') \<Longrightarrow> saw_empty (pgid identity) w'"
  by (auto simp: terminate_child_def elim!: bindE_okE split: option.splits) (erule empty_intros)+

lemma terminate_persisted_empty:
  "terminate_persisted os identity timeout w = (Inr a, w') \<Longrightarrow> saw_empty (pgid identity) w'"
  by (auto simp: terminate_persisted_def elim!: bindE_okE split: if_splits) (erule empty_intros)+

lemma leader_not_found_empty:
  "leader_not_found os identity timeout e w = (Inr a, w') \<Longrightarrow> saw_empty (pgid identity) w'"
  by (auto simp: leader_not_found_def elim!: bindE_okE split: option.splits) (erule empty_intros)+

text \<open>
  Claim C36. A stop that succeeds has proved the group gone: whenever \<open>perform_stop\<close> or the stop of a
  persisted group returns without an error, the last thing observed is the group of the identity,
  with no members. No branch reports success on a process that merely was sent a signal.
\<close>

theorem stop_success_means_group_gone:
  "(perform_stop os child identity timeout w = (Inr outcome, w1) \<longrightarrow> saw_empty (pgid identity) w1) \<and>
   (stop_and_reap_persisted_process_group os identity timeout w = (Inr (), w2) \<longrightarrow>
      saw_empty (pgid identity) w2)"
proof (intro conjI impI)
  assume "perform_stop os child identity timeout w = (Inr outcome, w1)"
  then show "saw_empty (pgid identity) w1"
    by (auto simp: perform_stop_def elim!: bindE_okE split: option.splits prod.splits sum.splits if_splits)
      (erule empty_intros terminate_child_empty leader_not_found_empty)+
next
  assume "stop_and_reap_persisted_process_group os identity timeout w = (Inr (), w2)"
  then show "saw_empty (pgid identity) w2"
    by (auto simp: stop_and_reap_persisted_process_group_def elim!: bindE_okE
        split: prod.splits sum.splits if_splits) (erule empty_intros terminate_persisted_empty)+
qed

definition sample_identity :: process_identity where
  "sample_identity = \<lparr>pid = 5, pgid = 5, uid = 501, start_token = ''linux:7''\<rparr>"

text \<open>A system on which the child has exited and its group is empty.\<close>

definition sample_os :: "unit os" where
  "sample_os = \<lparr>os_try_wait = (\<lambda>o'. (Inr (Some (ExitStatus None (Some 0))), o')),
     os_process = (\<lambda>_ o'. (Inl (NotFound, ''''), o')), os_group = (\<lambda>_ o'. (Inr [], o')),
     os_kill = (\<lambda>_ _ o'. (None, o')), os_delay = (\<lambda>_. 0), os_last_instant = 1000, os_esrch = (\<lambda>_. False)\<rparr>"

definition sample_world :: "unit world" where
  "sample_world = \<lparr>outside = (), clock = 0, events = []\<rparr>"

lemma sample_group:
  "observe_process_group sample_os 5 w = (Inr [], w\<lparr>events := events w @ [GroupSeen 5 []]\<rparr>)"
proof -
  have target: "validate_group_target 5 = Inr (- 5)"
    by (simp add: validate_group_target_def i32_min_def)
  have "observe_group_retry sample_os 5 (Suc n) None w = (Inr [], w\<lparr>events := events w @ [GroupSeen 5 []]\<rparr>)" for n
    by (simp add: os_call_def sample_os_def log_event_def)
  moreover have "member_observation_retries = Suc 3" by (simp add: member_observation_retries_def)
  ultimately have "observe_group_retry sample_os 5 member_observation_retries None w =
      (Inr [], w\<lparr>events := events w @ [GroupSeen 5 []]\<rparr>)"
    by metis
  with target show ?thesis by (simp add: observe_process_group_def bindE_def lift_result_def)
qed

lemma sample_perform_stop:
  "perform_stop sample_os (Some 5) sample_identity 10 sample_world =
     (Inr (AlreadyExited (Exited (Some 0))), sample_world\<lparr>events := [GroupSeen 5 []]\<rparr>)"
proof -
  have "child_status sample_os w = (Inr (Some (Exited (Some 0))), w)" for w
    by (simp add: child_status_def leader_status_def os_call_def sample_os_def exit_class_def)
  then show ?thesis
    using sample_group
    by (simp add: perform_stop_def bindE_def ensure_group_empty_def return_ok_def sample_identity_def
        sample_world_def)
qed

lemma sample_stop_persisted:
  "stop_and_reap_persisted_process_group sample_os sample_identity 10 sample_world =
     (Inr (), sample_world\<lparr>events := [ProcessSeen 5, GroupSeen 5 []]\<rparr>)"
proof -
  have "observe_process sample_os 5 sample_world = (Inl (NotFound, []), sample_world\<lparr>events := [ProcessSeen 5]\<rparr>)"
    by (simp add: observe_process_def os_call_def sample_os_def log_event_def sample_world_def)
  moreover have "validate_spawn_identity 5 sample_identity = Inr ()"
    by (simp add: validate_spawn_identity_def sample_identity_def)
  ultimately show ?thesis
    using sample_group
    by (simp add: stop_and_reap_persisted_process_group_def bindE_def lift_result_def return_ok_def
        sample_identity_def)
qed

theorem stop_success_means_group_gone_witness:
  "saw_empty 5 (snd (perform_stop sample_os (Some 5) sample_identity 10 sample_world)) \<and>
   saw_empty 5 (snd (stop_and_reap_persisted_process_group sample_os sample_identity 10 sample_world))"
  using stop_success_means_group_gone [of sample_os "Some 5" sample_identity 10 sample_world]
  by (simp add: sample_perform_stop sample_stop_persisted) (simp add: sample_identity_def)

section \<open>Waiting\<close>

definition rounds :: "nat \<Rightarrow> nat" where
  "rounds d = (d + 9) div 10 + 1"

lemma rounds_step: "c + 10 \<le> c' \<Longrightarrow> c < d \<Longrightarrow> Suc (rounds (d - c')) \<le> rounds (d - c)"
proof (cases "c' < d")
  case True
  assume "c + 10 \<le> c'" "c < d"
  with True have "(d - c' + 9) + 10 \<le> d - c + 9" by linarith
  then have "(d - c' + 9 + 10) div 10 \<le> (d - c + 9) div 10" by (rule div_le_mono)
  then show ?thesis by (simp only: rounds_def div_add_self2)
next
  case False
  assume "c < d"
  then have "10 \<le> d - c + 9" by linarith
  from div_le_mono [OF this, of 10] False show ?thesis by (simp add: rounds_def)
qed

lemma rounds_pos: "Suc 0 \<le> rounds d" by (simp add: rounds_def)

lemma observe_process_group_count:
  "observe_process_group os g w = (r, w') \<Longrightarrow> length (events w') \<le> Suc (length (events w)) \<and> clock w \<le> clock w'"
  using observe_process_group_events [of os g w r w'] clock_observe_process_group [of os g w r w']
  by (simp split: sum.splits)

text \<open>What the recursive call of either loop starts from.\<close>

lemma next_round:
  assumes "clock w \<le> clock w1" "length (events w1) \<le> Suc (length (events w))" "clock w1 < deadline"
    and "n \<le> length (events (sleep_10ms os w1)) + rounds (deadline - clock (sleep_10ms os w1))"
  shows "n \<le> length (events w) + rounds (deadline - clock w)"
  using assms rounds_step [of "clock w" "clock (sleep_10ms os w1)" deadline]
  by (simp add: sleep_10ms_def)

lemma await_group_count:
  "length (events (snd (await_group os g deadline w))) \<le> length (events w) + rounds (deadline - clock w)"
proof (induction os g deadline w rule: await_group.induct)
  case (1 os g deadline w)
  obtain q w1 where q: "observe_process_group os g w = (q, w1)" by (cases "observe_process_group os g w")
  note seen = observe_process_group_count [OF q]
  have once: "length (events w1) \<le> length (events w) + rounds (deadline - clock w)"
    using seen rounds_pos [of "deadline - clock w"] by linarith
  show ?case
  proof (cases "group_gone q = Inr False \<and> clock w1 < deadline")
    case False
    with q have "snd (await_group os g deadline w) = w1"
      by (subst await_group.simps) (auto split: sum.splits)
    with once show ?thesis by simp
  next
    case True
    then have go: "group_gone q = Inr False" "\<not> False" "\<not> deadline \<le> clock w1" by simp_all
    have "await_group os g deadline w = await_group os g deadline (sleep_10ms os w1)"
      using q go by (subst await_group.simps) simp
    then show ?thesis
      using next_round [of w w1 deadline _ os, OF _ _ _ "1.IH" [OF q [symmetric] go]] seen go(3) by simp
  qed
qed

lemma await_child_count:
  "length (events (snd (await_child os g deadline leader w))) \<le> length (events w) + rounds (deadline - clock w)"
proof (induction os g deadline leader w rule: await_child.induct)
  case (1 os g deadline leader w)
  obtain s w0 where s: "leader_status os leader w = (s, w0)" by (cases "leader_status os leader w")
  obtain q w1 where q: "observe_process_group os g w0 = (q, w1)" by (cases "observe_process_group os g w0")
  have seen: "length (events w1) \<le> Suc (length (events w))" "clock w \<le> clock w1"
    using observe_process_group_count [OF q] leader_status_events [OF s] clock_leader_status [OF s] by auto
  have once: "length (events w1) \<le> length (events w) + rounds (deadline - clock w)"
    using seen rounds_pos [of "deadline - clock w"] by linarith
  show ?case
  proof (cases s)
    case (Inl e)
    with s have "snd (await_child os g deadline leader w) = w0" by (subst await_child.simps) simp
    with leader_status_events [OF s] show ?thesis by simp
  next
    case (Inr l')
    show ?thesis
    proof (cases "\<exists>gone. group_gone q = Inr gone \<and> \<not> (gone \<and> l' \<noteq> None) \<and> \<not> deadline \<le> clock w1")
      case False
      with s q Inr have "snd (await_child os g deadline leader w) = w1"
        by (subst await_child.simps) (auto split: sum.splits)
      with once show ?thesis by simp
    next
      case True
      then obtain gone where gone: "group_gone q = Inr gone" "\<not> (gone \<and> l' \<noteq> None)" "\<not> deadline \<le> clock w1"
        by blast
      note IH = "1.IH" [OF s [symmetric] Inr q [symmetric] gone]
      have "await_child os g deadline leader w = await_child os g deadline l' (sleep_10ms os w1)"
        using s q Inr gone by (subst await_child.simps) auto
      then show ?thesis
        using next_round [OF seen(2,1) _ IH] gone(3) by simp
    qed
  qed
qed

lemma deadline_after_le: "deadline_after os timeout w - clock w \<le> timeout"
  by (simp add: deadline_after_def)

lemma rounds_mono: "a \<le> b \<Longrightarrow> rounds a \<le> rounds b"
  by (simp add: rounds_def div_le_mono)

text \<open>
  Waiting for a group to die ends: for every timeout in milliseconds, and however the
  operating system answers, either wait returns after at most one observation of the group for
  every ten milliseconds begun, and one more, even when the clock cannot represent the deadline.
\<close>

theorem group_wait_is_bounded:
  "length (events (snd (wait_for_group_death os g timeout w)))
     \<le> length (events w) + (timeout + 9) div 10 + 1 \<and>
   length (events (snd (wait_for_persisted_group_death os g timeout w)))
     \<le> length (events w) + (timeout + 9) div 10 + 1"
  using await_child_count [of os g "deadline_after os timeout w" None w]
    await_group_count [of os g "deadline_after os timeout w" w]
    rounds_mono [OF deadline_after_le [of os timeout w]]
  by (simp add: wait_for_group_death_def wait_for_persisted_group_death_def rounds_def)

end
