(* ===== verification/Driver_Stop.thy ===== *)
theory Driver_Stop
  imports Driver_Process Machine
begin

text \<open>
  Concurrent callers of \<open>Driver::stop_and_reap\<close> (\<open>crates/zcode-driver/src/lib.rs\<close>). One of them performs
  the stop; the others wait on a condition variable for its outcome. Everything between two waits is
  under the lock, so a run is a sequence of the atomic steps below.

  A caller is a thread; a thread that sleeps on the condition variable carries a flag that tells
  whether it was notified since. Threads may also wake without a notification. The generation counts
  attempts; waiters are a \<open>usize\<close>, and a process has fewer threads than that.
\<close>

record stop_failure =
  fail_kind :: io_kind
  fail_message :: string

definition from_error :: "io_error \<Rightarrow> stop_failure" where
  "from_error e = \<lparr>fail_kind = fst e, fail_message = snd e\<rparr>"

definition to_error :: "stop_failure \<Rightarrow> io_error" where
  "to_error f = (fail_kind f, fail_message f)"

datatype stop_state =
    Running u64
  | Stopping u64 nat
  | Stopped stop_outcome
  | Failed u64 stop_failure nat

datatype caller =
    Idle
  | WaitingFor u64 bool
  | WaitingRetry bool
  | Performing u64
  | Returned "io_error + stop_outcome"

record stopping =
  stop_state :: stop_state
  callers :: "caller list"

definition initial_stop :: "nat \<Rightarrow> stopping" where
  "initial_stop threads = \<lparr>stop_state = Running 0, callers = replicate threads Idle\<rparr>"

text \<open>The outer loop of \<open>begin_stop\<close>, up to its next wait.\<close>

fun enter :: "stop_state \<Rightarrow> stop_state \<times> caller" where
  "enter (Stopped outcome) = (Stopped outcome, Returned (Inr outcome))"
| "enter (Running g) = (Stopping (saturating_add g 1) 0, Performing (saturating_add g 1))"
| "enter (Failed g f 0) = (Stopping (saturating_add g 1) 0, Performing (saturating_add g 1))"
| "enter (Failed g f waiters) = (Failed g f waiters, WaitingRetry False)"
| "enter (Stopping g waiters) = (Stopping g (waiters + 1), WaitingFor g False)"

definition notified :: "caller \<Rightarrow> caller" where
  "notified c = (case c of WaitingFor g _ \<Rightarrow> WaitingFor g True | WaitingRetry _ \<Rightarrow> WaitingRetry True | _ \<Rightarrow> c)"

text \<open>The inner loop, after a wait for generation \<open>g\<close>. The flag tells whether the others are notified.\<close>

fun woken :: "u64 \<Rightarrow> stop_state \<Rightarrow> stop_state \<times> caller \<times> bool" where
  "woken g (Stopped outcome) = (Stopped outcome, Returned (Inr outcome), False)"
| "woken g (Failed h f waiters) =
     (if h = g then (Failed h f (waiters - 1), Returned (Inl (to_error f)), waiters - 1 = 0)
      else (case enter (Failed h f waiters) of (st, c) \<Rightarrow> (st, c, False)))"
| "woken g (Stopping h waiters) =
     (if h = g then (Stopping h waiters, WaitingFor g False, False)
      else (case enter (Stopping h waiters) of (st, c) \<Rightarrow> (st, c, False)))"
| "woken g (Running h) = (case enter (Running h) of (st, c) \<Rightarrow> (st, c, False))"

definition set_caller :: "nat \<Rightarrow> caller \<Rightarrow> stopping \<Rightarrow> stopping" where
  "set_caller i c s = s\<lparr>callers := (callers s)[i := c]\<rparr>"

definition notify_all :: "stopping \<Rightarrow> stopping" where
  "notify_all s = s\<lparr>callers := map notified (callers s)\<rparr>"

definition enter_caller :: "nat \<Rightarrow> stopping \<Rightarrow> stopping" where
  "enter_caller i s = (case enter (stop_state s) of (st, c) \<Rightarrow> (set_caller i c s)\<lparr>stop_state := st\<rparr>)"

definition wake_caller :: "nat \<Rightarrow> u64 \<Rightarrow> stopping \<Rightarrow> stopping" where
  "wake_caller i g s =
     (case woken g (stop_state s) of (st, c, all) \<Rightarrow>
        let s' = (set_caller i c s)\<lparr>stop_state := st\<rparr> in if all then notify_all s' else s')"

definition finish_stop :: "u64 \<Rightarrow> stop_failure + stop_outcome \<Rightarrow> stop_state \<Rightarrow> stop_state" where
  "finish_stop g result st =
     (let waiters = (case st of Stopping active waiters \<Rightarrow> if active = g then waiters else 0 | _ \<Rightarrow> 0)
      in case result of Inr outcome \<Rightarrow> Stopped outcome | Inl f \<Rightarrow> Failed g f waiters)"

text \<open>\<open>stop_and_reap\<close> of the performer, once \<open>perform_stop\<close> is done.\<close>

definition finish_caller :: "nat \<Rightarrow> u64 \<Rightarrow> io_error + stop_outcome \<Rightarrow> stopping \<Rightarrow> stopping" where
  "finish_caller i g r s =
     (let result = map_sum from_error id r
      in notify_all ((set_caller i (Returned (map_sum to_error id result)) s)
           \<lparr>stop_state := finish_stop g result (stop_state s)\<rparr>))"

inductive stop_step :: "stopping \<Rightarrow> stopping \<Rightarrow> bool" where
  call: "i < length (callers s) \<Longrightarrow> callers s ! i = Idle \<or> (\<exists>r. callers s ! i = Returned r) \<Longrightarrow>
    stop_step s (enter_caller i s)"
| retry: "i < length (callers s) \<Longrightarrow> callers s ! i = WaitingRetry n \<Longrightarrow> stop_step s (enter_caller i s)"
| wake: "i < length (callers s) \<Longrightarrow> callers s ! i = WaitingFor g n \<Longrightarrow> stop_step s (wake_caller i g s)"
| finish: "i < length (callers s) \<Longrightarrow> callers s ! i = Performing g \<Longrightarrow>
    stop_step s (finish_caller i g r s)"

inductive_cases stop_stepE: "stop_step s t"

lemma error_round_trip [simp]: "to_error (from_error e) = e"
  by (simp add: to_error_def from_error_def)

section \<open>The invariant\<close>

definition performing :: "caller \<Rightarrow> bool" where "performing c \<longleftrightarrow> (\<exists>g. c = Performing g)"
definition waiting :: "caller \<Rightarrow> bool" where "waiting c \<longleftrightarrow> (\<exists>g n. c = WaitingFor g n)"
definition asleep :: "caller \<Rightarrow> bool" where
  "asleep c \<longleftrightarrow> (\<exists>g. c = WaitingFor g False) \<or> c = WaitingRetry False"

text \<open>The number of callers with a property, and how it changes with one of them.\<close>

definition count :: "(caller \<Rightarrow> bool) \<Rightarrow> caller list \<Rightarrow> nat" where
  "count P cs = length (filter P cs)"

lemma count_update:
  "i < length cs \<Longrightarrow> count P (cs[i := c]) + (if P (cs ! i) then 1 else 0) = count P cs + (if P c then 1 else 0)"
proof (induction cs arbitrary: i)
  case (Cons a cs)
  then show ?case by (cases i) (auto simp: count_def)
qed simp

lemma count_zero: "count P cs = 0 \<longleftrightarrow> (\<forall>c \<in> set cs. \<not> P c)"
  by (simp add: count_def filter_empty_conv)

lemma count_pos: "i < length cs \<Longrightarrow> P (cs ! i) \<Longrightarrow> 0 < count P cs"
  by (metis count_zero nth_mem gr0I)

lemma count_map: "(\<And>c. P (f c) = P c) \<Longrightarrow> count P (map f cs) = count P cs"
  by (simp add: count_def filter_map comp_def)

lemma notified_simps [simp]:
  "performing (notified c) = performing c" "waiting (notified c) = waiting c" "\<not> asleep (notified c)"
  "notified c = Performing g \<longleftrightarrow> c = Performing g" "notified c = Returned r \<longleftrightarrow> c = Returned r"
  by (auto simp: notified_def performing_def waiting_def asleep_def split: caller.splits)

text \<open>What each caller may know in a state of the stop.\<close>

definition caller_ok :: "stop_state \<Rightarrow> caller \<Rightarrow> bool" where
  "caller_ok st c \<longleftrightarrow> (case c of
     Idle \<Rightarrow> True
   | Performing g \<Rightarrow> (\<exists>w. st = Stopping g w)
   | WaitingFor g n \<Rightarrow> (\<exists>w. st = Stopping g w) \<or> (\<exists>f w. st = Failed g f w \<and> n) \<or> (\<exists>out. st = Stopped out \<and> n)
   | WaitingRetry n \<Rightarrow> (case st of Running g \<Rightarrow> False | Stopping g w \<Rightarrow> True | Failed g f w \<Rightarrow> n \<or> 0 < w | Stopped out \<Rightarrow> n)
   | Returned r \<Rightarrow> (\<forall>out. r = Inr out \<longrightarrow> st = Stopped out))"

definition stop_inv :: "stopping \<Rightarrow> bool" where
  "stop_inv s \<longleftrightarrow> list_all (caller_ok (stop_state s)) (callers s) \<and>
     (case stop_state s of
        Running g \<Rightarrow> count performing (callers s) = 0 \<and> count waiting (callers s) = 0
      | Stopping g w \<Rightarrow> count performing (callers s) = 1 \<and> count waiting (callers s) = w
      | Failed g f w \<Rightarrow> count performing (callers s) = 0 \<and> count waiting (callers s) = w
      | Stopped out \<Rightarrow> count performing (callers s) = 0)"

lemma role_simps [simp]:
  "performing (Performing g)" "\<not> performing Idle" "\<not> performing (WaitingFor g n)"
  "\<not> performing (WaitingRetry n)" "\<not> performing (Returned r)"
  "waiting (WaitingFor g n)" "\<not> waiting Idle" "\<not> waiting (Performing g)"
  "\<not> waiting (WaitingRetry n)" "\<not> waiting (Returned r)"
  by (simp_all add: performing_def waiting_def)

lemma stop_inv_initial: "stop_inv (initial_stop threads)"
  by (simp add: stop_inv_def initial_stop_def list_all_length caller_ok_def count_zero)

lemma all_update:
  "list_all P cs \<Longrightarrow> (\<And>d. d \<in> set cs \<Longrightarrow> P d \<Longrightarrow> Q d) \<Longrightarrow> Q c \<Longrightarrow> list_all Q (cs[i := c])"
  by (auto simp: list_all_iff dest!: set_update_subset_insert [THEN subsetD])

lemma count_changes:
  assumes "i < length cs"
  shows "P (cs ! i) = P c \<Longrightarrow> count P (cs[i := c]) = count P cs"
    and "\<not> P (cs ! i) \<Longrightarrow> P c \<Longrightarrow> count P (cs[i := c]) = Suc (count P cs)"
    and "P (cs ! i) \<Longrightarrow> \<not> P c \<Longrightarrow> count P (cs[i := c]) = count P cs - 1"
  using count_update [OF assms, of P c] by (simp_all split: if_splits)

lemma stop_invD:
  assumes "stop_inv s"
  shows "list_all (caller_ok (stop_state s)) (callers s)"
    "stop_state s = Running g \<Longrightarrow> count performing (callers s) = 0 \<and> count waiting (callers s) = 0"
    "stop_state s = Stopping g w \<Longrightarrow> count performing (callers s) = 1 \<and> count waiting (callers s) = w"
    "stop_state s = Failed g f w \<Longrightarrow> count performing (callers s) = 0 \<and> count waiting (callers s) = w"
    "stop_state s = Stopped out \<Longrightarrow> count performing (callers s) = 0"
  using assms by (simp_all add: stop_inv_def)

text \<open>A new attempt is only begun when no caller has a stake in an earlier one.\<close>

lemma new_attempt_ok:
  assumes "caller_ok st c" "\<not> performing c" "\<not> waiting c" "st = Running g \<or> st = Failed g f w"
  shows "caller_ok (Stopping h v) c"
  using assms by (cases c) (auto simp: caller_ok_def)

lemma stop_inv_attempt:
  assumes inv: "stop_inv s" and i: "i < length (callers s)"
    and st: "stop_state s = Running g \<or> stop_state s = Failed g f 0"
  shows "stop_inv ((set_caller i (Performing h) s)\<lparr>stop_state := Stopping h 0\<rparr>)"
proof -
  have none: "count performing (callers s) = 0" "count waiting (callers s) = 0"
    using st stop_invD(2) [OF inv, of g] stop_invD(4) [OF inv, of g f 0] by auto
  then have idle: "\<not> performing c" "\<not> waiting c" if "c \<in> set (callers s)" for c
    using that by (simp_all add: count_zero)
  have "\<not> performing (callers s ! i)" "\<not> waiting (callers s ! i)" using idle i by simp_all
  moreover have "list_all (caller_ok (Stopping h 0)) ((callers s)[i := Performing h])"
    using stop_invD(1) [OF inv] idle st
    by (intro all_update [of "caller_ok (stop_state s)"])
      (auto intro: new_attempt_ok simp: caller_ok_def [of _ "Performing h"])
  ultimately show ?thesis
    using none i by (simp add: stop_inv_def set_caller_def count_changes)
qed

lemma stop_inv_enter:
  assumes inv: "stop_inv s" and i: "i < length (callers s)"
    and old: "\<not> performing (callers s ! i)" "\<not> waiting (callers s ! i)"
  shows "stop_inv (enter_caller i s)"
proof (cases "stop_state s")
  case (Running g)
  with stop_inv_attempt [OF inv i] show ?thesis by (simp add: enter_caller_def)
next
  case (Stopping g w)
  have "list_all (caller_ok (Stopping g (Suc w))) ((callers s)[i := WaitingFor g False])"
    using stop_invD(1) [OF inv] Stopping
    by (intro all_update [of "caller_ok (stop_state s)"]) (auto simp: caller_ok_def split: caller.splits)
  then show ?thesis
    using Stopping stop_invD(3) [OF inv Stopping] i old
    by (simp add: stop_inv_def enter_caller_def set_caller_def count_changes)
next
  case (Stopped out)
  have "list_all (caller_ok (Stopped out)) ((callers s)[i := Returned (Inr out)])"
    using stop_invD(1) [OF inv] Stopped
    by (intro all_update [of "caller_ok (stop_state s)"]) (auto simp: caller_ok_def split: caller.splits)
  then show ?thesis
    using Stopped stop_invD(5) [OF inv Stopped] i old
    by (simp add: stop_inv_def enter_caller_def set_caller_def count_changes)
next
  case (Failed g f w)
  show ?thesis
  proof (cases w)
    case 0
    with Failed stop_inv_attempt [OF inv i, of g f] show ?thesis by (simp add: enter_caller_def)
  next
    case (Suc v)
    have "list_all (caller_ok (Failed g f w)) ((callers s)[i := WaitingRetry False])"
      using stop_invD(1) [OF inv] Failed Suc
      by (intro all_update [of "caller_ok (stop_state s)"]) (auto simp: caller_ok_def split: caller.splits)
    then show ?thesis
      using Failed Suc stop_invD(4) [OF inv Failed] i old
      by (simp add: stop_inv_def enter_caller_def set_caller_def count_changes)
  qed
qed

lemma caller_ok_waiting:
  "caller_ok st (WaitingFor g n) \<longleftrightarrow>
    (\<exists>w. st = Stopping g w) \<or> (\<exists>f w. st = Failed g f w \<and> n) \<or> (\<exists>out. st = Stopped out \<and> n)"
  by (simp add: caller_ok_def)

lemma stop_inv_wake:
  assumes inv: "stop_inv s" and i: "i < length (callers s)" and old: "callers s ! i = WaitingFor g n"
  shows "stop_inv (wake_caller i g s)"
proof -
  have "caller_ok (stop_state s) (WaitingFor g n)"
    using stop_invD(1) [OF inv] i old by (metis list_all_length)
  then consider (stopping) w where "stop_state s = Stopping g w"
    | (failed) f w where "stop_state s = Failed g f w" | (stopped) out where "stop_state s = Stopped out"
    by (auto simp: caller_ok_waiting)
  then show ?thesis
  proof cases
    case stopping
    have "list_all (caller_ok (Stopping g w)) ((callers s)[i := WaitingFor g False])"
      using stop_invD(1) [OF inv] stopping
      by (intro all_update [of "caller_ok (stop_state s)"]) (auto simp: caller_ok_def split: caller.splits)
    then show ?thesis
      using stopping stop_invD(3) [OF inv stopping] i old
      by (simp add: stop_inv_def wake_caller_def set_caller_def count_changes)
  next
    case stopped
    have "list_all (caller_ok (Stopped out)) ((callers s)[i := Returned (Inr out)])"
      using stop_invD(1) [OF inv] stopped
      by (intro all_update [of "caller_ok (stop_state s)"]) (auto simp: caller_ok_def split: caller.splits)
    then show ?thesis
      using stopped stop_invD(5) [OF inv stopped] i old
      by (simp add: stop_inv_def wake_caller_def set_caller_def count_changes)
  next
    case failed
    let ?cs = "(callers s)[i := Returned (Inl (to_error f))]"
    have counts: "count performing ?cs = 0" "count waiting ?cs = w - 1"
      using stop_invD(4) [OF inv failed] i old by (simp_all add: count_changes)
    show ?thesis
    proof (cases "w - 1 = 0")
      case False
      have "list_all (caller_ok (Failed g f (w - 1))) ?cs"
        using stop_invD(1) [OF inv] failed False
        by (intro all_update [of "caller_ok (stop_state s)"]) (auto simp: caller_ok_def split: caller.splits)
      with counts failed False show ?thesis
        by (simp add: stop_inv_def wake_caller_def set_caller_def)
    next
      case True
      have "list_all (\<lambda>c. caller_ok (Failed g f 0) (notified c)) ?cs"
        using stop_invD(1) [OF inv] failed
        by (intro all_update [of "caller_ok (stop_state s)"])
          (auto simp: caller_ok_def notified_def split: caller.splits)
      with counts failed True show ?thesis
        by (simp add: stop_inv_def wake_caller_def set_caller_def notify_all_def Let_def count_map
            list.pred_map comp_def)
    qed
  qed
qed

text \<open>The end of an attempt wakes everybody who has waited for it.\<close>

lemma caller_ok_finish:
  assumes "caller_ok (Stopping g w) c" "\<not> performing c"
  shows "caller_ok (Failed g f v) (notified c)" "caller_ok (Stopped out) (notified c)"
  using assms by (cases c; auto simp: caller_ok_def notified_def)+

lemma stop_inv_finish:
  assumes inv: "stop_inv s" and i: "i < length (callers s)" and old: "callers s ! i = Performing g"
  shows "stop_inv (finish_caller i g r s)"
proof -
  have "caller_ok (stop_state s) (Performing g)"
    using stop_invD(1) [OF inv] i old by (metis list_all_length)
  then obtain w where st: "stop_state s = Stopping g w" by (auto simp: caller_ok_def)
  let ?c = "Returned (map_sum to_error id (map_sum from_error id r))"
  let ?cs = "(callers s)[i := ?c]"
  let ?st = "finish_stop g (map_sum from_error id r) (stop_state s)"
  have counts: "count performing ?cs = 0" "count waiting ?cs = w"
    using stop_invD(3) [OF inv st] i old by (simp_all add: count_changes)
  have "caller_ok ?st (notified c)" if "c \<in> set ?cs" for c
  proof (cases "c = ?c")
    case True
    then show ?thesis by (cases r) (simp_all add: caller_ok_def notified_def finish_stop_def)
  next
    case False
    with that have "c \<in> set (callers s)" using set_update_subset_insert [of "callers s" i ?c] by blast
    then have "caller_ok (Stopping g w) c" using stop_invD(1) [OF inv] st by (simp add: list_all_iff)
    moreover have "\<not> performing c" using that counts(1) by (simp add: count_zero)
    ultimately show ?thesis using caller_ok_finish st by (cases r) (simp_all add: finish_stop_def)
  qed
  then have "list_all (caller_ok ?st) (map notified ?cs)" by (simp add: list_all_iff)
  moreover have "count performing (map notified ?cs) = 0" "count waiting (map notified ?cs) = w"
    using counts by (simp_all add: count_map)
  ultimately show ?thesis
    using st by (cases r) (simp_all add: stop_inv_def finish_caller_def finish_stop_def set_caller_def
        notify_all_def Let_def)
qed

lemma stop_inv_step: "stop_inv s \<Longrightarrow> stop_step s t \<Longrightarrow> stop_inv t"
  by (erule stop_stepE) (auto intro: stop_inv_enter stop_inv_wake stop_inv_finish)

interpretation stop: invariant_machine "initial_stop threads" stop_step stop_inv for threads
  by unfold_locales (auto intro: stop_inv_initial stop_inv_step)

section \<open>One performer, one outcome, no lost wakeup\<close>

text \<open>Two callers: the first performs the stop, the second waits for it and is then woken.\<close>

definition two_callers :: stopping where
  "two_callers = enter_caller 1 (enter_caller 0 (initial_stop 2))"

definition both_returned :: stopping where
  "both_returned = wake_caller 1 1 (finish_caller 0 1 (Inr (Terminated (Signaled 15))) two_callers)"

lemma two_callers_eval: "two_callers = \<lparr>stop_state = Stopping 1 1, callers = [Performing 1, WaitingFor 1 False]\<rparr>"
  by (simp add: two_callers_def enter_caller_def initial_stop_def set_caller_def saturating_add_def numeral_2_eq_2)

lemma both_returned_eval:
  "both_returned = \<lparr>stop_state = Stopped (Terminated (Signaled 15)),
     callers = [Returned (Inr (Terminated (Signaled 15))), Returned (Inr (Terminated (Signaled 15)))]\<rparr>"
  by (simp add: both_returned_def two_callers_eval finish_caller_def wake_caller_def finish_stop_def
      set_caller_def notify_all_def notified_def Let_def)

lemma two_callers_reachable: "reach (initial_stop 2) stop_step two_callers"
proof -
  have "stop_step (initial_stop 2) (enter_caller 0 (initial_stop 2))"
    by (rule stop_step.call) (simp_all add: initial_stop_def)
  moreover have "stop_step (enter_caller 0 (initial_stop 2)) two_callers"
    unfolding two_callers_def
    by (rule stop_step.call) (simp_all add: enter_caller_def initial_stop_def set_caller_def numeral_2_eq_2)
  ultimately show ?thesis by (blast intro: reach.intros)
qed

lemma both_returned_reachable: "reach (initial_stop 2) stop_step both_returned"
proof -
  have "stop_step two_callers (finish_caller 0 1 (Inr (Terminated (Signaled 15))) two_callers)"
    by (rule stop_step.finish) (simp_all add: two_callers_eval)
  moreover have "stop_step (finish_caller 0 1 (Inr (Terminated (Signaled 15))) two_callers) both_returned"
    unfolding both_returned_def
    by (rule stop_step.wake [where n = True])
      (simp_all add: two_callers_eval finish_caller_def set_caller_def notify_all_def notified_def Let_def)
  ultimately show ?thesis using two_callers_reachable by (blast intro: reach.next_state)
qed

text \<open>
  Claim C25. A stop has at most one performer: in every interleaving of any number of callers exactly
  one caller performs the stop while its state is \<open>Stopping\<close>, with that generation, and none in any
  other state; and the waiters counted in the state are the callers that wait for this attempt.
\<close>

theorem stop_is_exclusive:
  assumes "reach (initial_stop threads) stop_step s"
  shows "case stop_state s of
      Stopping g w \<Rightarrow> count performing (callers s) = 1 \<and> w = count waiting (callers s) \<and>
        list_all (\<lambda>c. \<forall>h. c = Performing h \<or> (\<exists>n. c = WaitingFor h n) \<longrightarrow> h = g) (callers s)
    | Failed g f w \<Rightarrow> count performing (callers s) = 0 \<and> w = count waiting (callers s)
    | _ \<Rightarrow> count performing (callers s) = 0"
proof -
  note inv = stop.reach_inv [OF assms]
  show ?thesis
    using stop_invD [OF inv]
    by (auto simp: list_all_iff caller_ok_def split: stop_state.splits)
qed

theorem stop_is_exclusive_witness: "count performing (callers two_callers) = 1 \<and> 1 = count waiting (callers two_callers)"
  using stop_is_exclusive [OF two_callers_reachable] by (simp add: two_callers_eval)

text \<open>
  Callers of a stop agree: every caller that was told an outcome was told the one that is
  recorded, and once an outcome is recorded no step changes it, so all successes are the same.
\<close>

theorem stop_outcomes_agree:
  assumes "reach (initial_stop threads) stop_step s" and "i < length (callers s)"
    and "callers s ! i = Returned (Inr out)" and "stop_step\<^sup>*\<^sup>* s t"
  shows "stop_state t = Stopped out \<and> (\<forall>c \<in> set (callers t). \<forall>out'. c = Returned (Inr out') \<longrightarrow> out' = out)"
proof -
  have told: "stop_state u = Stopped out'" if "stop_inv u" "Returned (Inr out') \<in> set (callers u)" for u out'
    using stop_invD(1) [OF that(1)] that(2) by (auto simp: list_all_iff caller_ok_def)
  note inv = stop.reach_inv [OF assms(1)]
  from assms(4) have "stop_state t = Stopped out \<and> stop_inv t"
  proof (induction rule: rtranclp_induct)
    case base
    show ?case using told [OF inv] inv assms(2,3) by (metis nth_mem)
  next
    case (step t u)
    have "stop_state u = Stopped out"
      using step.hyps(2) step.IH stop_invD(1) [of t]
      by (cases rule: stop_step.cases)
        (auto simp: enter_caller_def wake_caller_def set_caller_def Let_def list_all_length caller_ok_def)
    with step show ?case using stop_inv_step by blast
  qed
  then show ?thesis using told by auto
qed

theorem stop_outcomes_agree_witness:
  "callers both_returned ! 0 = Returned (Inr (Terminated (Signaled 15))) \<and>
   stop_state both_returned = Stopped (Terminated (Signaled 15))"
  using stop_outcomes_agree [OF both_returned_reachable, of 0 "Terminated (Signaled 15)" both_returned]
  by (simp add: both_returned_eval)

text \<open>
  No wakeup is lost: whenever a caller sleeps that was not notified, either the performer
  is at work, whose end notifies all, or there are waiters of the failed attempt, all notified, the
  last of which notifies all when it leaves.
\<close>

theorem no_lost_wakeup:
  assumes "reach (initial_stop threads) stop_step s" and "i < length (callers s)" and "asleep (callers s ! i)"
  shows "count performing (callers s) = 1 \<or>
    (\<exists>g f w. stop_state s = Failed g f w \<and> 0 < w \<and> w = count waiting (callers s) \<and>
       list_all (\<lambda>c. waiting c \<longrightarrow> \<not> asleep c) (callers s))"
proof -
  note inv = stop.reach_inv [OF assms(1)]
  have ok: "caller_ok (stop_state s) (callers s ! i)"
    using stop_invD(1) [OF inv] assms(2) by (metis list_all_length)
  show ?thesis
  proof (cases "stop_state s")
    case (Stopping g w)
    with stop_invD(3) [OF inv] show ?thesis by simp
  next
    case (Failed g f w)
    have "list_all (\<lambda>c. waiting c \<longrightarrow> \<not> asleep c) (callers s)"
      using stop_invD(1) [OF inv] Failed
      by (auto simp: list_all_iff waiting_def asleep_def caller_ok_def)
    moreover have "0 < w"
      using ok assms(3) Failed by (auto simp: caller_ok_def asleep_def)
    ultimately show ?thesis using Failed stop_invD(4) [OF inv Failed] by simp
  qed (use ok assms(3) in \<open>auto simp: caller_ok_def asleep_def\<close>)
qed

theorem no_lost_wakeup_witness: "asleep (callers two_callers ! 1) \<and> count performing (callers two_callers) = 1"
  using no_lost_wakeup [OF two_callers_reachable, of 1]
  by (simp add: two_callers_eval asleep_def)

end
