(* ===== verification/Runtime_Turns.thy ===== *)
theory Runtime_Turns
  imports Driver_Process Machine
begin

text \<open>
  What the daemon keeps about one runtime (\<open>crates/zcode-agentd/src/lib.rs\<close>): the turn tracker, the
  publisher that hands records to the sink, the classification of the exit of a child and of a
  process that a former daemon left behind.

  An instant is a natural number; nothing here depends on its unit. The records the sink was given are kept in order.
\<close>

section \<open>Outcomes of a runtime\<close>

datatype runtime_loss =
    InvalidIdentity
  | UnsupportedIdentity
  | MissingLeader
  | IdentityMismatch
  | UnknownMembership
  | SessionLost
  | StopFailed string
  | EventStreamLost

datatype runtime_terminal =
    TerminalStopped stop_outcome
  | TerminalCompleted stop_outcome
  | TerminalFailedTurn stop_outcome
  | TerminalExited child_exit
  | FailedRuntimeLost runtime_loss
  | Orphaned runtime_loss

fun terminal_proves_process_group_reaped :: "runtime_terminal \<Rightarrow> bool" where
  "terminal_proves_process_group_reaped (TerminalStopped _) = True"
| "terminal_proves_process_group_reaped (TerminalCompleted _) = True"
| "terminal_proves_process_group_reaped (TerminalFailedTurn _) = True"
| "terminal_proves_process_group_reaped _ = False"

section \<open>The turn tracker\<close>

datatype turn_boundary = BoundaryCompleted | BoundaryFailed

record turn_snapshot =
  turn_generation :: u64
  turn_active :: bool
  turn_boundary :: "turn_boundary option"

record turn_tracker =
  generation :: u64
  active :: bool
  boundary :: "turn_boundary option"
  model_request_started_at :: "nat option"
  last_stream_activity_at :: "nat option"

definition new_turn_tracker :: turn_tracker where
  "new_turn_tracker = \<lparr>generation = 0, active = False, boundary = None,
     model_request_started_at = None, last_stream_activity_at = None\<rparr>"

text \<open>The kind of a turn event that an inbound message carries.\<close>

definition inbound_event_type :: "inbound \<Rightarrow> string option" where
  "inbound_event_type i = (case i of Message (Event e) \<Rightarrow> event_type e | _ \<Rightarrow> None)"

definition start_turn :: "nat \<Rightarrow> turn_tracker \<Rightarrow> turn_tracker" where
  "start_turn now t = t\<lparr>generation := saturating_add (generation t) 1, active := True, boundary := None,
     model_request_started_at := Some now, last_stream_activity_at := Some now\<rparr>"

definition end_turn :: "turn_boundary \<Rightarrow> turn_tracker \<Rightarrow> turn_tracker" where
  "end_turn b t = t\<lparr>active := False, boundary := Some b,
     model_request_started_at := None, last_stream_activity_at := None\<rparr>"

definition observe_turn :: "nat \<Rightarrow> inbound \<Rightarrow> turn_tracker \<Rightarrow> turn_tracker" where
  "observe_turn now i t =
     (let t1 = (if active t then t\<lparr>last_stream_activity_at := Some now\<rparr> else t)
      in case inbound_event_type i of
           None \<Rightarrow> t1
         | Some kind \<Rightarrow>
             if kind = ''turn.started'' then start_turn now t1
             else if kind = ''turn.completed'' \<and> active t1 then end_turn BoundaryCompleted t1
             else if kind = ''turn.failed'' \<and> active t1 then end_turn BoundaryFailed t1
             else t1)"

definition snapshot_of :: "turn_tracker \<Rightarrow> turn_snapshot" where
  "snapshot_of t = \<lparr>turn_generation = generation t, turn_active = active t, turn_boundary = boundary t\<rparr>"

record runtime_activity_snapshot =
  activity_turn :: turn_snapshot
  model_request_elapsed :: "nat option"
  transport_idle_elapsed :: "nat option"

definition since :: "nat \<Rightarrow> nat \<Rightarrow> nat option" where
  "since now t = (if t \<le> now then Some (now - t) else None)"

definition activity_snapshot :: "nat \<Rightarrow> turn_tracker \<Rightarrow> runtime_activity_snapshot" where
  "activity_snapshot now t = \<lparr>activity_turn = snapshot_of t,
     model_request_elapsed = Option.bind (model_request_started_at t) (since now),
     transport_idle_elapsed = Option.bind (last_stream_activity_at t) (since now)\<rparr>"

text \<open>
  A wait looks at the tracker when it begins and after every wakeup until its deadline, and once
  more when the deadline has passed; \<open>looks\<close> has the early looks, \<open>final\<close> is the last one.
\<close>

datatype command_error =
    CommandUnsupported
  | CommandTimeout
  | Transport string
  | RemoteRejected json
  | InvalidSession string

fun wait_until :: "(turn_tracker \<Rightarrow> bool) \<Rightarrow> turn_tracker list \<Rightarrow> turn_tracker \<Rightarrow> command_error + turn_snapshot" where
  "wait_until accepted [] final = (if accepted final then Inr (snapshot_of final) else Inl CommandTimeout)"
| "wait_until accepted (t # looks) final =
     (if accepted t then Inr (snapshot_of t) else wait_until accepted looks final)"

definition started_after :: "u64 \<Rightarrow> turn_tracker \<Rightarrow> bool" where
  "started_after previous t \<longleftrightarrow> previous < generation t"

definition boundary_after :: "u64 \<Rightarrow> turn_tracker \<Rightarrow> bool" where
  "boundary_after g t \<longleftrightarrow> g \<le> generation t \<and> \<not> active t \<and> boundary t \<noteq> None"

definition wait_started_after :: "u64 \<Rightarrow> turn_tracker list \<Rightarrow> turn_tracker \<Rightarrow> command_error + turn_snapshot" where
  "wait_started_after previous = wait_until (started_after previous)"

definition wait_boundary_after :: "u64 \<Rightarrow> turn_tracker list \<Rightarrow> turn_tracker \<Rightarrow> command_error + turn_snapshot" where
  "wait_boundary_after g = wait_until (boundary_after g)"

section \<open>The publisher\<close>

datatype runtime_event = DriverEvent inbound | TerminalEvent runtime_terminal

record lifecycle_record =
  record_sequence :: u64
  record_event :: runtime_event

datatype owner_state = OwnerRunning | OwnerStopping | OwnerTerminal runtime_terminal

record publisher =
  next_sequence :: u64
  owner :: owner_state
  exit_boundary_delivered :: bool
  sink_records :: "lifecycle_record list"

definition new_publisher :: publisher where
  "new_publisher = \<lparr>next_sequence = 1, owner = OwnerRunning, exit_boundary_delivered = False, sink_records = []\<rparr>"

definition emit_locked :: "runtime_event \<Rightarrow> publisher \<Rightarrow> publisher" where
  "emit_locked e p = p\<lparr>next_sequence := saturating_add (next_sequence p) 1,
     sink_records := sink_records p @ [\<lparr>record_sequence = next_sequence p, record_event = e\<rparr>]\<rparr>"

definition publish_terminal_locked :: "runtime_terminal \<Rightarrow> publisher \<Rightarrow> publisher" where
  "publish_terminal_locked t p = emit_locked (TerminalEvent t) (p\<lparr>owner := OwnerTerminal t\<rparr>)"

definition is_exit :: "inbound \<Rightarrow> bool" where
  "is_exit i = (case i of ChildExited _ \<Rightarrow> True | _ \<Rightarrow> False)"

definition emit_driver :: "inbound \<Rightarrow> runtime_terminal option \<Rightarrow> publisher \<Rightarrow> publisher" where
  "emit_driver i exit_terminal p =
     (case owner p of
        OwnerTerminal _ \<Rightarrow> p
      | _ \<Rightarrow>
          let p1 = emit_locked (DriverEvent i) p;
              p2 = (if is_exit i then p1\<lparr>exit_boundary_delivered := True\<rparr> else p1)
          in case exit_terminal of
               Some t \<Rightarrow> if owner p2 = OwnerRunning then publish_terminal_locked t p2 else p2
             | None \<Rightarrow> p2)"

definition begin_stopping :: "publisher \<Rightarrow> runtime_terminal option \<times> publisher" where
  "begin_stopping p =
     (case owner p of
        OwnerTerminal t \<Rightarrow> (Some t, p)
      | OwnerRunning \<Rightarrow> (None, p\<lparr>owner := OwnerStopping\<rparr>)
      | OwnerStopping \<Rightarrow> (None, p))"

definition publish_terminal :: "runtime_terminal \<Rightarrow> publisher \<Rightarrow> runtime_terminal \<times> publisher" where
  "publish_terminal t p =
     (case owner p of OwnerTerminal existing \<Rightarrow> (existing, p) | _ \<Rightarrow> (t, publish_terminal_locked t p))"

text \<open>
  \<open>wait_for_exit_boundary\<close> and \<open>wait_terminal\<close>, by the looks at the publisher as above. A wait for the
  exit boundary that times out while it sleeps does not look at the owner again.
\<close>

fun wait_for_exit_boundary :: "publisher list \<Rightarrow> bool \<Rightarrow> publisher \<Rightarrow> runtime_terminal option" where
  "wait_for_exit_boundary [] slept final =
     (if exit_boundary_delivered final then None
      else case owner final of
             OwnerTerminal t \<Rightarrow> Some (if slept then FailedRuntimeLost EventStreamLost else t)
           | _ \<Rightarrow> Some (FailedRuntimeLost EventStreamLost))"
| "wait_for_exit_boundary (p # looks) slept final =
     (if exit_boundary_delivered p then None
      else case owner p of
             OwnerTerminal t \<Rightarrow> Some t
           | _ \<Rightarrow> wait_for_exit_boundary looks slept final)"

fun wait_terminal :: "publisher list \<Rightarrow> publisher \<Rightarrow> runtime_terminal option" where
  "wait_terminal [] final = (case owner final of OwnerTerminal t \<Rightarrow> Some t | _ \<Rightarrow> None)"
| "wait_terminal (p # looks) final =
     (case owner p of OwnerTerminal t \<Rightarrow> Some t | _ \<Rightarrow> wait_terminal looks final)"

section \<open>The exit of the child\<close>

definition exit_terminal :: "io_error + process_identity list \<Rightarrow> turn_tracker \<Rightarrow> child_exit \<Rightarrow> runtime_terminal" where
  "exit_terminal members t exit =
     (if members = Inr []
      then
        (if exit = Exited (Some 0)
         then if \<not> active t \<and> boundary t = Some BoundaryCompleted
              then TerminalCompleted (AlreadyExited exit)
              else FailedRuntimeLost EventStreamLost
         else TerminalExited exit)
      else Orphaned UnknownMembership)"

text \<open>What a stop of the process publishes; \<open>waited\<close> is the answer of \<open>wait_for_exit_boundary\<close>.\<close>

definition stop_terminal ::
  "io_error + stop_outcome \<Rightarrow> runtime_terminal option \<Rightarrow> turn_boundary option \<Rightarrow> runtime_terminal" where
  "stop_terminal stopped waited b =
     (case stopped of
        Inl e \<Rightarrow> FailedRuntimeLost (StopFailed (snd e))
      | Inr out \<Rightarrow>
          (case waited of
             Some t \<Rightarrow> t
           | None \<Rightarrow>
               (case b of
                  Some BoundaryCompleted \<Rightarrow> TerminalCompleted out
                | Some BoundaryFailed \<Rightarrow> TerminalFailedTurn out
                | None \<Rightarrow> TerminalStopped out)))"

section \<open>A process of a former daemon\<close>

text \<open>\<open>macos\<close> is the target of the build; elsewhere no identity is trusted.\<close>

definition restart_members_unknown :: "process_identity \<Rightarrow> process_identity list \<Rightarrow> bool" where
  "restart_members_unknown identity members \<longleftrightarrow>
     members = [] \<or> identity \<notin> set members \<or>
     list_ex (\<lambda>member. pgid member \<noteq> pgid identity \<or> uid member \<noteq> uid identity \<or> start_token member = []) members"

definition classify_restart :: "bool \<Rightarrow> 'o os \<Rightarrow> process_identity \<Rightarrow> 'o world \<Rightarrow> runtime_terminal \<times> 'o world" where
  "classify_restart macos os identity w =
     (if uint (pid identity) \<le> 1 \<or> sint (pgid identity) \<le> 1 \<or> pid identity \<noteq> pgid identity \<or> start_token identity = []
      then (Orphaned InvalidIdentity, w)
      else if \<not> macos then (Orphaned UnsupportedIdentity, w)
      else
        (case observe_process os (pid identity) w of
           (Inl e, w1) \<Rightarrow> (Orphaned (if fst e = NotFound then MissingLeader else UnsupportedIdentity), w1)
         | (Inr first, w1) \<Rightarrow>
             if first \<noteq> identity then (Orphaned IdentityMismatch, w1)
             else
               (case observe_process_group os (pgid identity) w1 of
                  (Inl e, w2) \<Rightarrow> (Orphaned UnknownMembership, w2)
                | (Inr members, w2) \<Rightarrow>
                    if restart_members_unknown identity members then (Orphaned UnknownMembership, w2)
                    else
                      (case observe_process os (pid identity) w2 of
                         (Inr second, w3) \<Rightarrow>
                           (if second = first then FailedRuntimeLost SessionLost else Orphaned IdentityMismatch, w3)
                       | (Inl e, w3) \<Rightarrow>
                           (Orphaned (if fst e = NotFound then MissingLeader else UnsupportedIdentity), w3)))))"

end
