(* ===== verification/Runtime_Owner.thy ===== *)
theory Runtime_Owner
  imports Runtime_Turns Driver_Calls Policy_Denial
begin

text \<open>
  The owner of one runtime process (\<open>crates/zcode-agentd/src/lib.rs\<close>): the cache of the permission
  answers that the runtime offered, the pump that consumes the driver's messages, and the commands
  of a session (create, resume, send, stop, respond, close) over the driver.

  The driver is a parameter: a state with the reply to a request and the clock. The commands that
  were sent are kept in order.
\<close>

definition session_create :: string where "session_create = ''session/create''"
definition session_resume :: string where "session_resume = ''session/resume''"
definition session_subscribe :: string where "session_subscribe = ''session/subscribe''"
definition session_send :: string where "session_send = ''session/send''"
definition session_stop :: string where "session_stop = ''session/stop''"
definition session_close :: string where "session_close = ''session/close''"
definition session_request_runtime_preferences :: string where
  "session_request_runtime_preferences = ''session/requestRuntimePreferences''"
definition interaction_request_permission :: string where
  "interaction_request_permission = ''interaction/requestPermission''"
definition interaction_request_user_input :: string where
  "interaction_request_user_input = ''interaction/requestUserInput''"

section \<open>The offered permission answers\<close>

record permission_responses =
  allow_response :: json
  deny_response :: json
  offered_params :: json

definition max_pending_permission_responses :: nat where
  "max_pending_permission_responses = 128"

record permission_cache =
  cached_requests :: "(string \<times> permission_responses) list"
  denied_fingerprints :: "string list"

definition empty_cache :: permission_cache where
  "empty_cache = \<lparr>cached_requests = [], denied_fingerprints = []\<rparr>"

definition remove_key :: "string \<Rightarrow> (string \<times> 'a) list \<Rightarrow> (string \<times> 'a) list" where
  "remove_key key entries = filter (\<lambda>(k, _). k \<noteq> key) entries"

definition offered_responses :: "json \<Rightarrow> permission_responses option" where
  "offered_responses params =
     (case (offered_permission_response params ''allow'', offered_permission_response params ''deny'') of
        (Some a, Some d) \<Rightarrow> Some \<lparr>allow_response = a, deny_response = d, offered_params = params\<rparr>
      | _ \<Rightarrow> None)"

definition observe_permission :: "string \<Rightarrow> json \<Rightarrow> permission_cache \<Rightarrow> permission_cache" where
  "observe_permission key params c =
     (let reused = (map_of (cached_requests c) key \<noteq> None);
          rest = remove_key key (cached_requests c)
      in c\<lparr>cached_requests :=
           (if \<not> reused \<and> length rest < max_pending_permission_responses
            then (case offered_responses params of Some offered \<Rightarrow> (key, offered) # rest | None \<Rightarrow> rest)
            else rest)\<rparr>)"

definition insert_field :: "string \<Rightarrow> json \<Rightarrow> json_map \<Rightarrow> json_map" where
  "insert_field key v entries = (key, v) # remove_key key entries"

definition repeated_suffix :: string where
  "repeated_suffix = '' Stop this evidence path; use Read, prepared inputs, or record a coverage gap.''"

definition effective_denial :: "denial_semantics option \<Rightarrow> json \<Rightarrow> denial_semantics option" where
  "effective_denial validated params =
     (case validated of Some d \<Rightarrow> Some d | None \<Rightarrow> external_zcode_denial params)"

definition cached_response ::
  "string \<Rightarrow> string \<Rightarrow> denial_semantics option \<Rightarrow> permission_cache \<Rightarrow> json option" where
  "cached_response key decision validated c =
     Option.bind (map_of (cached_requests c) key) (\<lambda>offered.
     if decision = ''allow'' then Some (allow_response offered)
     else if decision = ''deny'' then
       Option.bind (effective_denial validated (offered_params offered)) (\<lambda>denial.
       let repeated = (fingerprint denial \<in> set (denied_fingerprints c));
           text = feedback denial repeated
       in Option.bind (as_object (deny_response offered)) (\<lambda>response.
          Some (JObject (insert_field ''reason''
            (JString (if repeated then text @ repeated_suffix else text)) response))))
     else None)"

definition complete_permission :: "string \<Rightarrow> permission_cache \<Rightarrow> permission_cache" where
  "complete_permission key c = c\<lparr>cached_requests := remove_key key (cached_requests c)\<rparr>"

definition record_denial :: "string \<Rightarrow> denial_semantics option \<Rightarrow> permission_cache \<Rightarrow> permission_cache" where
  "record_denial key validated c =
     (case Option.bind (map_of (cached_requests c) key)
             (\<lambda>responses. map_option fingerprint (effective_denial validated (offered_params responses))) of
        Some fp \<Rightarrow>
          if length (denied_fingerprints c) < max_pending_permission_responses
          then c\<lparr>denied_fingerprints := List.insert fp (denied_fingerprints c)\<rparr>
          else c
      | None \<Rightarrow> c)"

definition clear_cache :: "permission_cache \<Rightarrow> permission_cache" where
  "clear_cache c = empty_cache"

section \<open>The pump\<close>

definition default_preferences :: runtime_preferences where
  "default_preferences = \<lparr>native_search_enhancements_enabled = False, memory_enabled = False,
     ask_user_question_auto_resolution_enabled = False\<rparr>"

record runtime_owner =
  publisher_of :: publisher
  tracker :: turn_tracker
  permissions :: permission_cache
  answered :: "(wire_id \<times> json) list"

definition new_runtime_owner :: runtime_owner where
  "new_runtime_owner = \<lparr>publisher_of = new_publisher, tracker = new_turn_tracker,
     permissions = empty_cache, answered = []\<rparr>"

text \<open>
  What the pump does with a request of the runtime before anything else. \<open>responded\<close> tells whether
  the driver could write an answer; without one the pump ends.
\<close>

definition answer_request ::
  "(wire_id \<Rightarrow> string) \<Rightarrow> bool \<Rightarrow> request_envelope \<Rightarrow> runtime_owner \<Rightarrow> runtime_owner option" where
  "answer_request key_of responded r s =
     (if req_method r = session_request_runtime_preferences then
        (if responded
         then Some (s\<lparr>answered := answered s @ [(req_id r, runtime_preferences_value default_preferences)]\<rparr>)
         else None)
      else if req_method r = interaction_request_permission then
        Some (s\<lparr>permissions := observe_permission (key_of (req_id r)) (req_params r) (permissions s)\<rparr>)
      else Some s)"

definition lose_stream :: "runtime_owner \<Rightarrow> runtime_owner" where
  "lose_stream s = s\<lparr>publisher_of := snd (publish_terminal (FailedRuntimeLost EventStreamLost) (publisher_of s))\<rparr>"

definition pump_message ::
  "nat \<Rightarrow> io_error + process_identity list \<Rightarrow> inbound \<Rightarrow> runtime_owner \<Rightarrow> runtime_owner \<times> bool" where
  "pump_message now members i s =
     (let t = observe_turn now i (tracker s);
          terminal = (case i of ChildExited e \<Rightarrow> Some (exit_terminal members t e) | _ \<Rightarrow> None);
          s1 = s\<lparr>tracker := t, publisher_of := emit_driver i terminal (publisher_of s)\<rparr>
      in if is_exit i then (s1\<lparr>permissions := clear_cache (permissions s1)\<rparr>, False) else (s1, True))"

text \<open>One message; the flag tells whether the pump goes on.\<close>

definition pump_event ::
  "(wire_id \<Rightarrow> string) \<Rightarrow> nat \<Rightarrow> bool \<Rightarrow> io_error + process_identity list \<Rightarrow> inbound \<Rightarrow>
   runtime_owner \<Rightarrow> runtime_owner \<times> bool" where
  "pump_event key_of now responded members i s =
     (case i of
        Message (Request r) \<Rightarrow>
          (case answer_request key_of responded r s of
             None \<Rightarrow> (lose_stream s, False)
           | Some s1 \<Rightarrow> pump_message now members i s1)
      | _ \<Rightarrow> pump_message now members i s)"

definition pump_disconnected :: "runtime_owner \<Rightarrow> runtime_owner" where
  "pump_disconnected s = lose_stream (s\<lparr>permissions := clear_cache (permissions s)\<rparr>)"

text \<open>
  \<open>finish_process\<close>: \<open>stopped\<close> is the result of the driver's stop and \<open>waited\<close> of the wait for the
  exit boundary.
\<close>

definition finish_process ::
  "io_error + stop_outcome \<Rightarrow> runtime_terminal option \<Rightarrow> turn_boundary option \<Rightarrow>
   runtime_owner \<Rightarrow> runtime_terminal \<times> runtime_owner" where
  "finish_process stopped waited b s =
     (case begin_stopping (publisher_of s) of
        (Some t, p) \<Rightarrow> (t, s\<lparr>publisher_of := p\<rparr>)
      | (None, p) \<Rightarrow>
          (case publish_terminal (stop_terminal stopped waited b) p of (t, p') \<Rightarrow>
             (t, s\<lparr>publisher_of := p', permissions := clear_cache (permissions s)\<rparr>)))"

end
