(* ===== verification/Runtime_Session.thy ===== *)
theory Runtime_Session
  imports Runtime_Owner
begin

text \<open>
  The commands of a session over the driver (\<open>crates/zcode-agentd/src/lib.rs\<close>): create, resume,
  send, stop, respond, close. Each is a sequence of requests with one deadline.

  The driver is a parameter: a state of its own with the reply to a request, the result of writing
  an answer, the clock, and what a wait for the turn tracker sees. Requests and answers that were
  handed to the driver are kept in order.
\<close>

record 'd driver =
  drv_request :: "string \<Rightarrow> json \<Rightarrow> nat \<Rightarrow> 'd \<Rightarrow> (request_error + response_envelope) \<times> 'd"
  drv_respond :: "wire_id \<Rightarrow> json \<Rightarrow> nat \<Rightarrow> 'd \<Rightarrow> (request_error + unit) \<times> 'd"
  drv_now :: "'d \<Rightarrow> nat \<times> 'd"
  drv_tracker :: "'d \<Rightarrow> turn_tracker"
  drv_looks :: "nat \<Rightarrow> 'd \<Rightarrow> (turn_tracker list \<times> turn_tracker) \<times> 'd"
  drv_last_instant :: nat

record 'd session =
  driver_state :: 'd
  sent :: "(string \<times> json) list"
  responses :: "(wire_id \<times> json) list"
  owned_session_id :: "string option"
  diagnostic_session_id :: "string option"
  session_permissions :: permission_cache
  stop_boundaries :: u64

type_synonym ('d, 'a) command = "('d session, command_error, 'a) action"

fun show_option :: "('a \<Rightarrow> string) \<Rightarrow> 'a option \<Rightarrow> string" where
  "show_option f None = ''None''"
| "show_option f (Some x) = ''Some('' @ f x @ '')''"

definition show_int :: "int \<Rightarrow> string" where
  "show_int i = (if i < 0 then CHR ''-'' # show_nat (nat (- i)) else show_nat (nat i))"

fun child_exit_debug :: "child_exit \<Rightarrow> string" where
  "child_exit_debug (Exited code) = ''Exited('' @ show_option show_int code @ '')''"
| "child_exit_debug (Signaled signal) = ''Signaled('' @ show_int signal @ '')''"
| "child_exit_debug UnknownExit = ''Unknown''"

fun request_error_text :: "request_error \<Rightarrow> string" where
  "request_error_text Timeout = ''request deadline elapsed''"
| "request_error_text Cancelled = ''request was cancelled''"
| "request_error_text (ChildExitedError exit) = ''runtime exited while request was pending: '' @ child_exit_debug exit"
| "request_error_text StreamClosed = ''runtime response stream closed''"
| "request_error_text (WriteFailed _) = ''runtime request write failed''"
| "request_error_text (Remote _) = ''runtime returned an application error''"

fun from_request_error :: "request_error \<Rightarrow> command_error" where
  "from_request_error Timeout = CommandTimeout"
| "from_request_error (Remote v) = RemoteRejected v"
| "from_request_error e = Transport (request_error_text e)"

fun command_error_text :: "command_error \<Rightarrow> string" where
  "command_error_text CommandUnsupported = ''runtime command plane is unsupported''"
| "command_error_text CommandTimeout = ''runtime command deadline elapsed''"
| "command_error_text (Transport _) = ''runtime command transport failed''"
| "command_error_text (RemoteRejected _) = ''runtime command was rejected''"
| "command_error_text (InvalidSession m) = ''invalid session response: '' @ m"

fun control_failure_code :: "command_error \<Rightarrow> string" where
  "control_failure_code CommandTimeout = ''CONTROL_DEADLINE_EXCEEDED''"
| "control_failure_code _ = ''CONTROL_RUNTIME_FAILED''"

section \<open>Deadlines and requests\<close>

definition read_clock :: "'d driver \<Rightarrow> 'd session \<Rightarrow> nat \<times> 'd session" where
  "read_clock drv s = (case drv_now drv (driver_state s) of (now, d) \<Rightarrow> (now, s\<lparr>driver_state := d\<rparr>))"

definition deadline_in :: "'d driver \<Rightarrow> nat \<Rightarrow> ('d, nat) command" where
  "deadline_in drv timeout s =
     (case read_clock drv s of (now, s1) \<Rightarrow>
        (if now + timeout \<le> drv_last_instant drv then Inr (now + timeout) else Inl CommandTimeout, s1))"

definition remaining_runtime_time :: "'d driver \<Rightarrow> nat \<Rightarrow> ('d, nat) command" where
  "remaining_runtime_time drv deadline s =
     (case read_clock drv s of (now, s1) \<Rightarrow>
        (if now < deadline then Inr (deadline - now) else Inl CommandTimeout, s1))"

definition send_request :: "'d driver \<Rightarrow> string \<Rightarrow> json \<Rightarrow> nat \<Rightarrow> ('d, response_envelope) command" where
  "send_request drv m params timeout s =
     (case drv_request drv m params timeout (driver_state s) of (r, d) \<Rightarrow>
        (map_sum from_request_error id r, s\<lparr>driver_state := d, sent := sent s @ [(m, params)]\<rparr>))"

definition request_before :: "'d driver \<Rightarrow> string \<Rightarrow> json \<Rightarrow> nat \<Rightarrow> ('d, response_envelope) command" where
  "request_before drv m params deadline =
     bindE (remaining_runtime_time drv deadline) (send_request drv m params)"

definition watch_tracker ::
  "'d driver \<Rightarrow> (turn_tracker \<Rightarrow> bool) \<Rightarrow> nat \<Rightarrow> ('d, turn_snapshot) command" where
  "watch_tracker drv accepted timeout s =
     (case drv_looks drv timeout (driver_state s) of
        ((looks, final), d) \<Rightarrow> (wait_until accepted looks final, s\<lparr>driver_state := d\<rparr>))"

section \<open>Models and modes\<close>

definition validate_requested_model :: "string option \<Rightarrow> string option \<Rightarrow> string + unit" where
  "validate_requested_model requested observed =
     (case requested of
        None \<Rightarrow> Inr ()
      | Some r \<Rightarrow>
          (case normalized_zai_model r of
             None \<Rightarrow> Inl ''MODEL_REQUEST_INVALID''
           | Some r' \<Rightarrow>
               (case Option.bind observed normalized_zai_model of
                  None \<Rightarrow> Inl ''MODEL_NOT_OBSERVED''
                | Some o' \<Rightarrow> if r' \<noteq> o' then Inl ''MODEL_MISMATCH'' else Inr ())))"

text \<open>\<open>parse_json\<close> is \<open>serde_json::from_str\<close>.\<close>

definition requested_model_from_prepared_launch :: "(string \<Rightarrow> json option) \<Rightarrow> string option \<Rightarrow> string option" where
  "requested_model_from_prepared_launch parse_json prepared =
     Option.bind (Option.bind prepared parse_json) (\<lambda>v. get_str v ''model'')"

definition permission_mode_from_task :: "(string \<Rightarrow> json option) \<Rightarrow> string \<Rightarrow> string option" where
  "permission_mode_from_task parse_json prepared =
     Option.bind (parse_json prepared) (\<lambda>v.
       case get_str v ''permission_mode'' of
         Some m \<Rightarrow>
           if m = ''plan'' then Some ''plan''
           else if m = ''build'' then Some ''build''
           else if m = ''edit'' then Some ''build''
           else if m = ''yolo'' then Some ''yolo''
           else None
       | None \<Rightarrow> None)"

section \<open>Session commands\<close>

record session_ready =
  ready_session_id :: string
  initial_turn_id :: "string option"
  configured_model :: "string option"

definition subscription :: "string \<Rightarrow> json" where
  "subscription sid = subscribe_params_value \<lparr>sub_session_id = sid, delivery_kind = ''desktop-continuous'',
     include_snapshot = True\<rparr>"

definition set_session :: "string \<Rightarrow> ('d, unit) command" where
  "set_session sid s = (Inr (), s\<lparr>owned_session_id := Some sid\<rparr>)"

definition set_diagnostic_session :: "string \<Rightarrow> ('d, unit) command" where
  "set_diagnostic_session sid s = (Inr (), s\<lparr>diagnostic_session_id := Some sid\<rparr>)"

definition validate_session :: "string \<Rightarrow> ('d, unit) command" where
  "validate_session sid s =
     (if owned_session_id s = Some sid then Inr ()
      else Inl (InvalidSession ''session id does not belong to this runtime''), s)"

definition send_turn_before :: "'d driver \<Rightarrow> string \<Rightarrow> string \<Rightarrow> nat \<Rightarrow> ('d, string option) command" where
  "send_turn_before drv sid content deadline =
     bindE (validate_session sid) (\<lambda>_ s.
     let previous = generation (drv_tracker drv (driver_state s));
         params = send_params_value \<lparr>send_session_id = sid, send_content = content\<rparr>
     in bindE (request_before drv session_send params deadline) (\<lambda>response.
        bindE (remaining_runtime_time drv deadline) (\<lambda>timeout.
        bindE (watch_tracker drv (started_after previous) timeout) (\<lambda>_.
        return_ok (Option.bind (resp_result response) turn_id_from_result)))) s)"

definition send_turn :: "'d driver \<Rightarrow> string \<Rightarrow> string \<Rightarrow> nat \<Rightarrow> ('d, string option) command" where
  "send_turn drv sid content timeout =
     bindE (deadline_in drv timeout) (send_turn_before drv sid content)"

definition workspace_at :: "string \<Rightarrow> workspace_ref" where
  "workspace_at path = \<lparr>workspace_key = path, workspace_path = path\<rparr>"

text \<open>\<open>projection_text\<close> is how a projection error is printed.\<close>

definition bootstrap_session_with_mcp_for_requested_model ::
  "(projection_error \<Rightarrow> string) \<Rightarrow> 'd driver \<Rightarrow> string \<Rightarrow> string \<Rightarrow> stdio_mcp_server list \<Rightarrow>
   string option \<Rightarrow> string option \<Rightarrow> nat \<Rightarrow> ('d, session_ready) command" where
  "bootstrap_session_with_mcp_for_requested_model projection_text drv workspace prompt servers requested mode timeout =
     bindE (deadline_in drv timeout) (\<lambda>deadline.
     bindE (request_before drv session_create
       (create_session_params_value \<lparr>csp_workspace = workspace_at workspace, csp_mode = mode,
          csp_mcp_servers = servers\<rparr>) deadline) (\<lambda>created.
     case resp_result created of
       None \<Rightarrow> fail_with (InvalidSession ''session/create result is missing'')
     | Some result \<Rightarrow>
         (case session_create_from_result result of
            Inl e \<Rightarrow> fail_with (InvalidSession (''session/create projection is invalid: '' @ projection_text e))
          | Inr projection \<Rightarrow>
              let sid = session_id projection in
              bindE (set_diagnostic_session sid) (\<lambda>_.
              bindE (lift_result (map_sum InvalidSession id
                (validate_requested_model requested (requested_model projection)))) (\<lambda>_.
              bindE (request_before drv session_subscribe (subscription sid) deadline) (\<lambda>_.
              bindE (set_session sid) (\<lambda>_.
              bindE (send_turn_before drv sid prompt deadline) (\<lambda>turn.
              return_ok \<lparr>ready_session_id = sid, initial_turn_id = turn,
                configured_model = requested_model projection\<rparr>))))))))"

definition bootstrap_session ::
  "(projection_error \<Rightarrow> string) \<Rightarrow> 'd driver \<Rightarrow> string \<Rightarrow> string \<Rightarrow> nat \<Rightarrow> ('d, session_ready) command" where
  "bootstrap_session projection_text drv workspace prompt =
     bootstrap_session_with_mcp_for_requested_model projection_text drv workspace prompt [] None None"

definition bootstrap_session_with_mcp ::
  "(projection_error \<Rightarrow> string) \<Rightarrow> 'd driver \<Rightarrow> string \<Rightarrow> string \<Rightarrow> stdio_mcp_server list \<Rightarrow> nat \<Rightarrow>
   ('d, session_ready) command" where
  "bootstrap_session_with_mcp projection_text drv workspace prompt servers =
     bootstrap_session_with_mcp_for_requested_model projection_text drv workspace prompt servers None None"

definition bootstrap_prepared_session ::
  "(string \<Rightarrow> json option) \<Rightarrow> (projection_error \<Rightarrow> string) \<Rightarrow> 'd driver \<Rightarrow> string \<Rightarrow> string \<Rightarrow> string \<Rightarrow>
   stdio_mcp_server list \<Rightarrow> nat \<Rightarrow> ('d, session_ready) command" where
  "bootstrap_prepared_session parse_json projection_text drv workspace prompt prepared servers =
     bootstrap_session_with_mcp_for_requested_model projection_text drv workspace prompt servers
       (requested_model_from_prepared_launch parse_json (Some prepared))
       (permission_mode_from_task parse_json prepared)"

definition resume_session_with_mcp ::
  "'d driver \<Rightarrow> string option \<Rightarrow> string \<Rightarrow> stdio_mcp_server list \<Rightarrow> nat \<Rightarrow> ('d, session_ready) command" where
  "resume_session_with_mcp drv persisted workspace servers timeout =
     (case persisted of
        None \<Rightarrow> fail_with (InvalidSession ''task has no persisted session id'')
      | Some sid \<Rightarrow>
          bindE (set_diagnostic_session sid) (\<lambda>_.
          bindE (deadline_in drv timeout) (\<lambda>deadline.
          bindE (request_before drv session_resume
            (resume_session_params_value \<lparr>rsp_session_id = sid, rsp_workspace = Some (workspace_at workspace),
               rsp_mcp_servers = servers\<rparr>) deadline) (\<lambda>_.
          bindE (request_before drv session_subscribe (subscription sid) deadline) (\<lambda>_.
          bindE (set_session sid) (\<lambda>_.
          return_ok \<lparr>ready_session_id = sid, initial_turn_id = None, configured_model = None\<rparr>))))))"

definition count_stop_boundary :: "('d, unit) command" where
  "count_stop_boundary s = (Inr (), s\<lparr>stop_boundaries := stop_boundaries s + 1\<rparr>)"

definition stop_turn :: "'d driver \<Rightarrow> string \<Rightarrow> nat \<Rightarrow> ('d, turn_snapshot) command" where
  "stop_turn drv sid timeout s =
     (case read_clock drv s of (now, s0) \<Rightarrow>
        bindE (validate_session sid) (\<lambda>_ s1.
        let current = snapshot_of (drv_tracker drv (driver_state s1))
        in if \<not> turn_active current then (Inr current, s1)
           else
             bindE (request_before drv session_stop (session_params_value sid) (now + timeout)) (\<lambda>_.
             bindE (remaining_runtime_time drv (now + timeout)) (\<lambda>left.
             bindE (watch_tracker drv (boundary_after (turn_generation current)) left) (\<lambda>b.
             bindE count_stop_boundary (\<lambda>_. return_ok b)))) s1) s0)"

definition close_session :: "'d driver \<Rightarrow> string \<Rightarrow> nat \<Rightarrow> ('d, unit) command" where
  "close_session drv sid timeout =
     bindE (validate_session sid) (\<lambda>_.
     bindE (send_request drv session_close (session_params_value sid) timeout) (\<lambda>_. return_ok ()))"

definition update_permissions :: "(permission_cache \<Rightarrow> permission_cache) \<Rightarrow> ('d, unit) command" where
  "update_permissions f s = (Inr (), s\<lparr>session_permissions := f (session_permissions s)\<rparr>)"

definition respond_before :: "'d driver \<Rightarrow> wire_id \<Rightarrow> json \<Rightarrow> nat \<Rightarrow> ('d, unit) command" where
  "respond_before drv i answer deadline s =
     (case drv_respond drv i answer deadline (driver_state s) of (r, d) \<Rightarrow>
        (map_sum from_request_error id r,
         s\<lparr>driver_state := d, responses := responses s @ (if is_ok r then [(i, answer)] else [])\<rparr>))"

text \<open>\<open>parse_id\<close> reads a printed id, \<open>key_of\<close> prints one.\<close>

definition respond_request ::
  "(string \<Rightarrow> wire_id option) \<Rightarrow> (wire_id \<Rightarrow> string) \<Rightarrow> 'd driver \<Rightarrow> string \<Rightarrow> string \<Rightarrow>
   denial_semantics option \<Rightarrow> nat \<Rightarrow> ('d, unit) command" where
  "respond_request parse_id key_of drv correlation decision validated deadline s =
     (case parse_id correlation of
        None \<Rightarrow> (Inl (InvalidSession ''stored request correlation is invalid''), s)
      | Some i \<Rightarrow>
          if decision \<notin> {''allow'', ''deny''} then (Inl CommandUnsupported, s)
          else
            (case cached_response (key_of i) decision validated (session_permissions s) of
               None \<Rightarrow> (Inl (InvalidSession ''runtime offered no matching permission response''), s)
             | Some answer \<Rightarrow>
                 bindE (respond_before drv i answer deadline) (\<lambda>_.
                 bindE (update_permissions (if decision = ''deny'' then record_denial (key_of i) validated else id)) (\<lambda>_.
                 update_permissions (complete_permission (key_of i)))) s))"

end
