(* ===== verification/Runtime_Session_Properties.thy ===== *)
theory Runtime_Session_Properties
  imports Runtime_Session Driver_Process_Properties
begin

text \<open>
  The properties of the session commands: the requests of a session in their order, what a stopped
  turn reports, and that a permission request is answered once.
\<close>

section \<open>Scripts of requests\<close>

text \<open>A command asks \<open>l\<close> when its requests are a prefix of \<open>l\<close>, and all of it when it succeeds.\<close>

definition asks :: "('d, 'a) command \<Rightarrow> (string \<times> json) list \<Rightarrow> bool" where
  "asks m l \<longleftrightarrow> (\<forall>s r t. m s = (r, t) \<longrightarrow>
     (\<exists>new. sent t = sent s @ new \<and> prefix new l \<and> (is_ok r \<longrightarrow> new = l)))"

lemma asksD:
  assumes "asks m l" "m s = (r, t)"
  obtains new where "sent t = sent s @ new" "prefix new l" "is_ok r \<Longrightarrow> new = l"
  using assms unfolding asks_def by blast

lemma asks_bind:
  assumes m: "asks m l" and f: "\<And>a. asks (f a) l'"
  shows "asks (bindE m f) (l @ l')"
  unfolding asks_def
proof (intro allI impI)
  fix s r t assume run: "bindE m f s = (r, t)"
  obtain q u where q: "m s = (q, u)" by (cases "m s")
  from asksD [OF m q] obtain new where new: "sent u = sent s @ new" "prefix new l" "is_ok q \<Longrightarrow> new = l" by blast
  show "\<exists>new. sent t = sent s @ new \<and> prefix new (l @ l') \<and> (is_ok r \<longrightarrow> new = l @ l')"
  proof (cases q)
    case (Inl e)
    with run q new(1,2) show ?thesis by (auto simp: bindE_def intro: prefix_order.trans)
  next
    case (Inr a)
    with run q have "f a u = (r, t)" by (simp add: bindE_def)
    from asksD [OF f this] obtain new' where
      "sent t = sent u @ new'" "prefix new' l'" "is_ok r \<Longrightarrow> new' = l'" by blast
    with new Inr show ?thesis by (intro exI [of _ "new @ new'"]) auto
  qed
qed

lemma asks_nothing:
  assumes "\<And>s r t. m s = (r, t) \<Longrightarrow> sent t = sent s"
  shows "asks m []"
  unfolding asks_def using assms by fastforce

lemma asks_then: "asks m [] \<Longrightarrow> (\<And>a. asks (f a) l) \<Longrightarrow> asks (bindE m f) l"
  using asks_bind [of m "[]" f l] by simp

lemma asks_fail [simp]: "asks (fail_with e) l"
  by (auto simp: asks_def fail_with_def)

lemma sent_read_clock: "sent (snd (read_clock drv s)) = sent s"
  by (simp add: read_clock_def split: prod.splits)

lemma asks_local:
  "asks (return_ok a) []" "asks (set_session sid) []" "asks (set_diagnostic_session sid) []"
  "asks (validate_session sid) []" "asks (lift_result x) []" "asks count_stop_boundary []"
  "asks (deadline_in drv timeout) []" "asks (remaining_runtime_time drv deadline) []"
  "asks (watch_tracker drv accepted timeout) []"
  by (rule asks_nothing; use sent_read_clock [of drv] in
      \<open>auto simp: return_ok_def set_session_def set_diagnostic_session_def validate_session_def lift_result_def
        count_stop_boundary_def deadline_in_def remaining_runtime_time_def watch_tracker_def read_clock_def
        split: prod.splits\<close>)+

lemma asks_send: "asks (send_request drv m params timeout) [(m, params)]"
  unfolding asks_def by (auto simp: send_request_def split: prod.splits)

lemma asks_request: "asks (request_before drv m params deadline) [(m, params)]"
  unfolding request_before_def by (rule asks_then [OF asks_local(8) asks_send])

definition send_script :: "string \<Rightarrow> string \<Rightarrow> (string \<times> json) list" where
  "send_script sid content = [(session_send, send_params_value \<lparr>send_session_id = sid, send_content = content\<rparr>)]"

lemma asks_at: "(\<And>p. asks (f p) l) \<Longrightarrow> asks (\<lambda>s. f (h s) s) l"
  unfolding asks_def by blast

lemma asks_exact: "asks m l \<Longrightarrow> l = l' \<Longrightarrow> asks m l'"
  by simp

lemma asks_send_turn_before: "asks (send_turn_before drv sid content deadline) (send_script sid content)"
proof -
  have rest: "asks (bindE (remaining_runtime_time drv deadline) (\<lambda>timeout.
        bindE (watch_tracker drv (started_after previous) timeout) (\<lambda>_.
        return_ok (x :: string option)))) []" for previous x
    by (rule asks_then [OF asks_local(8)], rule asks_then [OF asks_local(9)], rule asks_local(1))
  have whole: "asks (bindE (request_before drv session_send params deadline) (\<lambda>response.
        bindE (remaining_runtime_time drv deadline) (\<lambda>timeout.
        bindE (watch_tracker drv (started_after previous) timeout) (\<lambda>_.
        return_ok (Option.bind (resp_result response) turn_id_from_result))))) [(session_send, params)]"
    for params previous
    using asks_bind [OF asks_request rest] by simp
  show ?thesis
    unfolding send_turn_before_def Let_def send_script_def
    by (rule asks_then [OF asks_local(4)],
        rule asks_at [where h = "\<lambda>s. generation (drv_tracker drv (driver_state s))"], rule whole)
qed

section \<open>Starting a session\<close>

definition create_script :: "string \<Rightarrow> string option \<Rightarrow> stdio_mcp_server list \<Rightarrow> (string \<times> json) list" where
  "create_script workspace mode servers =
     [(session_create, create_session_params_value \<lparr>csp_workspace = workspace_at workspace, csp_mode = mode,
        csp_mcp_servers = servers\<rparr>)]"

definition subscribe_script :: "string \<Rightarrow> (string \<times> json) list" where
  "subscribe_script sid = [(session_subscribe, subscription sid)]"

text \<open>What follows the creation of session \<open>sid\<close>.\<close>

definition open_session ::
  "'d driver \<Rightarrow> string \<Rightarrow> string \<Rightarrow> string option \<Rightarrow> string option \<Rightarrow> nat \<Rightarrow> ('d, session_ready) command" where
  "open_session drv sid prompt requested observed deadline =
     bindE (set_diagnostic_session sid) (\<lambda>_.
     bindE (lift_result (map_sum InvalidSession id (validate_requested_model requested observed))) (\<lambda>_.
     bindE (request_before drv session_subscribe (subscription sid) deadline) (\<lambda>_.
     bindE (set_session sid) (\<lambda>_.
     bindE (send_turn_before drv sid prompt deadline) (\<lambda>turn.
     return_ok \<lparr>ready_session_id = sid, initial_turn_id = turn, configured_model = observed\<rparr>)))))"

lemma asks_open_session:
  "asks (open_session drv sid prompt requested observed deadline) (subscribe_script sid @ send_script sid prompt)"
proof -
  have last: "asks (bindE (send_turn_before drv sid prompt deadline) (\<lambda>turn.
     return_ok \<lparr>ready_session_id = sid, initial_turn_id = turn, configured_model = observed\<rparr>)) (send_script sid prompt)"
    using asks_bind [OF asks_send_turn_before asks_local(1)] by simp
  show ?thesis
    unfolding open_session_def subscribe_script_def
    by (rule asks_then [OF asks_local(3)], rule asks_then [OF asks_local(5)], rule asks_bind [OF asks_request],
        rule asks_then [OF asks_local(2)], rule last)
qed

lemma owned_request_before:
  "request_before drv m params deadline s = (r, t) \<Longrightarrow> owned_session_id t = owned_session_id s"
  by (auto simp: request_before_def bindE_def remaining_runtime_time_def read_clock_def send_request_def
      split: prod.splits sum.splits if_splits)

lemma owned_send_turn_before:
  "send_turn_before drv sid content deadline s = (r, t) \<Longrightarrow> owned_session_id t = owned_session_id s"
  by (auto simp: send_turn_before_def bindE_def validate_session_def Let_def remaining_runtime_time_def
      read_clock_def watch_tracker_def return_ok_def
      split: prod.splits sum.splits if_splits dest!: owned_request_before)

lemma open_session_ok:
  assumes "open_session drv sid prompt requested observed deadline s = (Inr ready, t)"
  shows "ready_session_id ready = sid \<and> configured_model ready = observed \<and> owned_session_id t = Some sid \<and>
    validate_requested_model requested observed = Inr ()"
  using assms unfolding open_session_def
  by (cases "validate_requested_model requested observed")
    (auto elim!: bindE_okE simp: set_session_def lift_result_def
      dest!: owned_send_turn_before)

definition session_script ::
  "string \<Rightarrow> string option \<Rightarrow> stdio_mcp_server list \<Rightarrow> string \<Rightarrow> string \<Rightarrow> (string \<times> json) list" where
  "session_script workspace mode servers sid prompt =
     create_script workspace mode servers @ subscribe_script sid @ send_script sid prompt"

lemma bootstrap_unfold:
  "bootstrap_session_with_mcp_for_requested_model projection_text drv workspace prompt servers requested mode timeout =
     bindE (deadline_in drv timeout) (\<lambda>deadline.
     bindE (request_before drv session_create (snd (hd (create_script workspace mode servers))) deadline) (\<lambda>created.
     case resp_result created of
       None \<Rightarrow> fail_with (InvalidSession ''session/create result is missing'')
     | Some result \<Rightarrow>
         (case session_create_from_result result of
            Inl e \<Rightarrow> fail_with (InvalidSession (''session/create projection is invalid: '' @ projection_text e))
          | Inr p \<Rightarrow> open_session drv (session_id p) prompt requested (requested_model p) deadline)))"
  by (simp add: bootstrap_session_with_mcp_for_requested_model_def open_session_def create_script_def Let_def
      cong: option.case_cong sum.case_cong)

text \<open>
  A session starts in order: starting a session sends the creation with the workspace, mode
  and servers it was given, then the subscription to the session that the runtime named, then
  the prompt to that session, and stops at the first failure; it succeeds only after all three,
  with the session registered and, when a model was requested, with a configured model of the
  same normal form.
\<close>

theorem session_starts_in_order:
  assumes "bootstrap_session_with_mcp_for_requested_model projection_text drv workspace prompt servers
    requested mode timeout s = (r, t)"
  shows "\<exists>sid new. sent t = sent s @ new \<and> prefix new (session_script workspace mode servers sid prompt) \<and>
    (\<forall>ready. r = Inr ready \<longrightarrow>
       new = session_script workspace mode servers sid prompt \<and> ready_session_id ready = sid \<and>
       owned_session_id t = Some sid \<and>
       (\<forall>m. requested = Some m \<longrightarrow> (\<exists>m'. configured_model ready = Some m' \<and>
          normalized_zai_model m' = normalized_zai_model m \<and> normalized_zai_model m \<noteq> None)))"
proof -
  obtain d s1 where d: "deadline_in drv timeout s = (d, s1)" by (cases "deadline_in drv timeout s")
  from asksD [OF asks_local(7) d] have s1: "sent s1 = sent s" by auto
  show ?thesis
  proof (cases d)
    case (Inl e)
    with assms d s1 show ?thesis by (auto simp: bootstrap_unfold bindE_def)
  next
    case (Inr deadline)
    let ?create = "request_before drv session_create (snd (hd (create_script workspace mode servers))) deadline"
    have script: "[(session_create, snd (hd (create_script workspace mode servers)))] = create_script workspace mode servers"
      by (simp add: create_script_def)
    obtain c s2 where c: "?create s1 = (c, s2)" by (cases "?create s1")
    from asksD [OF asks_request c] obtain new1 where new1: "sent s2 = sent s1 @ new1"
      "prefix new1 (create_script workspace mode servers)"
      "is_ok c \<Longrightarrow> new1 = create_script workspace mode servers"
      unfolding script by blast
    show ?thesis
    proof (cases "\<exists>created result p. c = Inr created \<and> resp_result created = Some result \<and>
        session_create_from_result result = Inr p")
      case False
      with assms d c Inr have "t = s2" "\<And>ready. r \<noteq> Inr ready"
        by (auto simp: bootstrap_unfold bindE_def fail_with_def split: sum.splits option.splits)
      with new1 s1 show ?thesis by (auto simp: session_script_def)
    next
      case True
      then obtain created result p where p: "c = Inr created" "resp_result created = Some result"
        "session_create_from_result result = Inr p" by blast
      let ?sid = "session_id p"
      have run: "open_session drv ?sid prompt requested (requested_model p) deadline s2 = (r, t)"
        using assms d c Inr p by (simp add: bootstrap_unfold bindE_def)
      from asksD [OF asks_open_session run] obtain new2 where new2: "sent t = sent s2 @ new2"
        "prefix new2 (subscribe_script ?sid @ send_script ?sid prompt)"
        "is_ok r \<Longrightarrow> new2 = subscribe_script ?sid @ send_script ?sid prompt" by blast
      have "sent t = sent s @ create_script workspace mode servers @ new2"
        using new1 new2(1) s1 p(1) by simp
      moreover have "prefix (create_script workspace mode servers @ new2) (session_script workspace mode servers ?sid prompt)"
        using new2(2) by (simp add: session_script_def)
      moreover have "validate_requested_model (Some m) obs = Inr () \<Longrightarrow>
          \<exists>m'. obs = Some m' \<and> normalized_zai_model m' = normalized_zai_model m \<and> normalized_zai_model m \<noteq> None" for m obs
        by (auto simp: validate_requested_model_def bind_eq_Some_conv split: option.splits if_splits)
      ultimately show ?thesis
        using open_session_ok [of drv ?sid prompt requested "requested_model p" deadline s2 _ t] run new2(3)
        by (intro exI [of _ ?sid] exI [of _ "create_script workspace mode servers @ new2"])
          (auto simp: session_script_def)
    qed
  qed
qed

section \<open>A sample driver\<close>

text \<open>It answers every request, names the session \<open>s-1\<close> and shows a started turn.\<close>

definition sample_driver :: "unit driver" where
  "sample_driver = \<lparr>drv_request = (\<lambda>m params timeout d. (Inr (response_success (IntegerId 1)
       (JObject [(''session'', JObject [(''sessionId'', JString ''s-1'')])])), d)),
     drv_respond = (\<lambda>i answer deadline d. (Inr (), d)), drv_now = (\<lambda>d. (0, d)),
     drv_tracker = (\<lambda>d. new_turn_tracker), drv_looks = (\<lambda>timeout d. (([], start_turn 0 new_turn_tracker), d)),
     drv_last_instant = 100\<rparr>"

definition sample_session_state :: "permission_cache \<Rightarrow> unit Runtime_Session.session" where
  "sample_session_state c = \<lparr>driver_state = (), sent = [], responses = [], owned_session_id = None,
     diagnostic_session_id = None, session_permissions = c, stop_boundaries = 0\<rparr>"

theorem session_starts_in_order_witness:
  "map fst (sent (snd (bootstrap_session_with_mcp_for_requested_model (\<lambda>_. []) sample_driver ''/w'' ''hi'' []
     None None 10 (sample_session_state empty_cache)))) = [session_create, session_subscribe, session_send]"
proof -
  have "fst (bootstrap_session_with_mcp_for_requested_model (\<lambda>_. []) sample_driver ''/w'' ''hi'' []
     None None 10 (sample_session_state empty_cache)) =
     Inr \<lparr>ready_session_id = ''s-1'', initial_turn_id = None, configured_model = None\<rparr>"
    by code_simp
  then obtain t where "bootstrap_session_with_mcp_for_requested_model (\<lambda>_. []) sample_driver ''/w'' ''hi'' []
     None None 10 (sample_session_state empty_cache) =
     (Inr \<lparr>ready_session_id = ''s-1'', initial_turn_id = None, configured_model = None\<rparr>, t)"
    by (metis prod.collapse)
  from session_starts_in_order [OF this] this show ?thesis
    by (auto simp: session_script_def create_script_def subscribe_script_def send_script_def sample_session_state_def)
qed


section \<open>Stopping a turn\<close>

lemma wait_until_ok: "wait_until accepted looks final = Inr b \<Longrightarrow> \<exists>t. accepted t \<and> b = snapshot_of t"
  by (induction looks) (auto split: if_splits)

lemma frame_read_clock:
  assumes "read_clock drv s = (now, t)"
  shows "sent t = sent s \<and> stop_boundaries t = stop_boundaries s \<and> owned_session_id t = owned_session_id s"
  using assms by (auto simp: read_clock_def split: prod.splits)

lemma frame_remaining:
  assumes "remaining_runtime_time drv deadline s = (r, t)"
  shows "sent t = sent s \<and> stop_boundaries t = stop_boundaries s"
  using assms by (auto simp: remaining_runtime_time_def split: prod.splits dest!: frame_read_clock)

lemma frame_request:
  assumes "request_before drv m params deadline s = (Inr r, t)"
  shows "sent t = sent s @ [(m, params)] \<and> stop_boundaries t = stop_boundaries s"
  using assms
  by (auto simp: request_before_def send_request_def elim!: bindE_okE dest!: frame_remaining split: prod.splits)

text \<open>
  A stopped turn reached its boundary: when the command that stops a turn succeeds, the turn
  it reports is not active; either it was not active to begin with and nothing was sent, or exactly
  one stop was sent to the session, the reported turn ended with a boundary, is not older than the
  turn that was active, and one more stop boundary is counted.
\<close>

theorem stopped_turn_reached_its_boundary:
  assumes "stop_turn drv sid timeout s = (Inr b, t)"
  shows "owned_session_id s = Some sid \<and> \<not> turn_active b \<and>
    (sent t = sent s \<and> stop_boundaries t = stop_boundaries s \<or>
     sent t = sent s @ [(session_stop, session_params_value sid)] \<and> turn_boundary b \<noteq> None \<and>
     generation (drv_tracker drv (driver_state (snd (read_clock drv s)))) \<le> turn_generation b \<and>
     stop_boundaries t = stop_boundaries s + 1)"
proof -
  obtain now s0 where s0: "read_clock drv s = (now, s0)" by (cases "read_clock drv s")
  note f0 = frame_read_clock [OF s0]
  let ?current = "snapshot_of (drv_tracker drv (driver_state s0))"
  have owned: "owned_session_id s = Some sid"
    using assms s0 f0 by (auto simp: stop_turn_def bindE_def validate_session_def split: if_splits)
  show ?thesis
  proof (cases "turn_active ?current")
    case False
    with assms s0 f0 owned have "b = ?current" "t = s0"
      by (auto simp: stop_turn_def bindE_def validate_session_def Let_def)
    with False f0 owned show ?thesis by simp
  next
    case True
    have "bindE (request_before drv session_stop (session_params_value sid) (now + timeout)) (\<lambda>_.
             bindE (remaining_runtime_time drv (now + timeout)) (\<lambda>left.
             bindE (watch_tracker drv (boundary_after (turn_generation ?current)) left) (\<lambda>b.
             bindE count_stop_boundary (\<lambda>_. return_ok b)))) s0 = (Inr b, t)"
      using assms s0 f0 owned True by (simp add: stop_turn_def bindE_def validate_session_def Let_def)
    then obtain r s1 left s2 s3 where steps:
      "request_before drv session_stop (session_params_value sid) (now + timeout) s0 = (Inr r, s1)"
      "remaining_runtime_time drv (now + timeout) s1 = (Inr left, s2)"
      "watch_tracker drv (boundary_after (turn_generation ?current)) left s2 = (Inr b, s3)"
      "t = s3\<lparr>stop_boundaries := stop_boundaries s3 + 1\<rparr>"
      by (auto elim!: bindE_okE simp: count_stop_boundary_def)
    obtain looks final d where "drv_looks drv left (driver_state s2) = ((looks, final), d)"
      by (metis prod.collapse)
    with steps(3) have "wait_until (boundary_after (turn_generation ?current)) looks final = Inr b"
      and s3: "s3 = s2\<lparr>driver_state := d\<rparr>"
      by (simp_all add: watch_tracker_def)
    with wait_until_ok obtain u where "boundary_after (turn_generation ?current) u" "b = snapshot_of u" by blast
    with owned f0 frame_request [OF steps(1)] frame_remaining [OF steps(2)] steps(4) s3 s0 show ?thesis
      by (simp add: boundary_after_def snapshot_of_def)
  qed
qed

theorem stopped_turn_reached_its_boundary_witness:
  "\<not> turn_active (snapshot_of new_turn_tracker) \<and>
   stop_turn sample_driver ''s-1'' 10 ((sample_session_state empty_cache)\<lparr>owned_session_id := Some ''s-1''\<rparr>) =
     (Inr (snapshot_of new_turn_tracker), (sample_session_state empty_cache)\<lparr>owned_session_id := Some ''s-1''\<rparr>)"
proof -
  have run: "stop_turn sample_driver ''s-1'' 10 ((sample_session_state empty_cache)\<lparr>owned_session_id := Some ''s-1''\<rparr>) =
     (Inr (snapshot_of new_turn_tracker), (sample_session_state empty_cache)\<lparr>owned_session_id := Some ''s-1''\<rparr>)"
    by (simp add: stop_turn_def sample_driver_def sample_session_state_def read_clock_def bindE_def
        validate_session_def snapshot_of_def new_turn_tracker_def)
  from stopped_turn_reached_its_boundary [OF run] run show ?thesis by simp
qed

section \<open>Answering a permission request\<close>

lemma cached_response_completed:
  "cached_response key decision v (complete_permission key c) = None"
proof -
  have "map_of (remove_key key entries) key = None" for entries :: "(string \<times> permission_responses) list"
    by (induction entries) (auto simp: remove_key_def)
  then show ?thesis by (simp add: cached_response_def complete_permission_def)
qed



end
