(* ===== verification/Runtime_Activity.thy ===== *)
theory Runtime_Activity
  imports Runtime_Owner Observation
begin

text \<open>
  The passive activity tracker of a runtime (\<open>crates/zcode-agentd/src/lib.rs\<close>): what the daemon
  reads off the event stream without asking the runtime.

  An instant is a number of nanoseconds, a wall time one of milliseconds. A \<open>HashMap\<close> is the list
  of its entries, in which no key occurs twice.
\<close>

definition activity_window_nanos :: nat where "activity_window_nanos = 60 * 1000000000"
definition max_activity_identities :: nat where "max_activity_identities = 65536"
definition max_latest_text_bytes :: nat where "max_latest_text_bytes = 8 * 1024"
definition max_activity_id_bytes :: nat where "max_activity_id_bytes = 512"

section \<open>Data\<close>

datatype passive_tool_kind = ReadTool | BashTool | OtherTool

record passive_active_tool =
  pat_tool_call_id :: string
  pat_kind :: passive_tool_kind

record passive_activity_window =
  reasoning_delta_events :: u64
  reasoning_delta_bytes :: u64
  text_delta_events :: u64
  text_delta_bytes :: u64
  tool_calls_started :: u64
  tool_calls_completed :: u64
  tool_calls_failed :: u64
  read_calls :: u64
  bash_calls :: u64
  other_tool_calls :: u64

record passive_activity_snapshot =
  snap_revision :: u64
  snap_last_runtime_event_at :: "u64 option"
  snap_last_activity_age_ms :: "u64 option"
  snap_model_request_active :: bool
  snap_model_request_age_ms :: "u64 option"
  snap_model_last_delta_age_ms :: "u64 option"
  snap_latest_text_tail :: string
  snap_latest_text_updated_at :: "u64 option"
  snap_latest_text_truncated :: bool
  snap_latest_progress :: "string option"
  snap_active_tools :: "passive_active_tool list"
  snap_oldest_active_tool_age_ms :: "u64 option"
  snap_window_60s :: passive_activity_window
  snap_telemetry_degraded :: bool

datatype activity_source = SessionSource | TelemetrySource | RuntimeSource

datatype activity_sample_kind =
    ReasoningDelta u64
  | TextDelta u64
  | SampleToolStarted passive_tool_kind
  | SampleToolCompleted
  | SampleToolFailed

record activity_sample =
  sample_source :: activity_source
  observed_at :: nat
  sample_kind :: activity_sample_kind

datatype activity_transition =
    ModelStarted
  | ModelCompleted
  | ToolScheduled
  | ToolStarted
  | ToolCompleted
  | ToolFailed
  | PermissionRequested
  | PermissionResolved
  | TurnStarted
  | TurnCompleted
  | TurnFailed

record parsed_activity =
  pa_source :: activity_source
  pa_identity :: "string option"
  pa_stream_key :: "string option"
  pa_sample :: "activity_sample_kind option"
  pa_text_delta :: "string option"
  pa_transition :: "activity_transition option"
  pa_request_id :: "string option"
  pa_tool_call_id :: "string option"
  pa_tool_kind :: passive_tool_kind
  pa_telemetry_known :: bool
  pa_assistant_message_id :: "string option"
  pa_message_finished :: bool
  pa_terminal_response :: "string option"

definition runtime_parsed :: parsed_activity where
  "runtime_parsed = \<lparr>pa_source = RuntimeSource, pa_identity = None, pa_stream_key = None, pa_sample = None,
     pa_text_delta = None, pa_transition = None, pa_request_id = None, pa_tool_call_id = None,
     pa_tool_kind = OtherTool, pa_telemetry_known = True, pa_assistant_message_id = None,
     pa_message_finished = False, pa_terminal_response = None\<rparr>"

record passive_activity_state =
  revision :: u64
  last_runtime_event_at :: "(nat \<times> u64) option"
  active_model_requests :: "(string \<times> nat) list"
  last_model_delta_at :: "nat option"
  latest_text_tail :: string
  latest_text_updated_at :: "u64 option"
  latest_text_truncated :: bool
  assistant_buffers :: "(string \<times> string) list"
  latest_progress :: "string option"
  terminal_text :: string
  active_tools :: "(string \<times> passive_tool_kind \<times> nat) list"
  activity_samples :: "(string \<times> activity_sample) list"
  sample_order :: "string list"
  telemetry_degraded :: bool
  observation :: observation_state

definition new_activity :: passive_activity_state where
  "new_activity = \<lparr>revision = 0, last_runtime_event_at = None, active_model_requests = [],
     last_model_delta_at = None, latest_text_tail = [], latest_text_updated_at = None,
     latest_text_truncated = False, assistant_buffers = [], latest_progress = None, terminal_text = [],
     active_tools = [], activity_samples = [], sample_order = [], telemetry_degraded = False,
     observation = default_observation\<rparr>"

section \<open>Reading an event\<close>

definition activity_id :: "json option \<Rightarrow> string option" where
  "activity_id v =
     (case Option.bind v as_str of
        None \<Rightarrow> None
      | Some s \<Rightarrow>
          if s \<noteq> [] \<and> length s \<le> max_activity_id_bytes \<and> \<not> List.member s nul then Some s else None)"

definition classify_passive_tool :: "json option \<Rightarrow> passive_tool_kind" where
  "classify_passive_tool v =
     (case Option.bind v as_str of
        None \<Rightarrow> OtherTool
      | Some name \<Rightarrow>
          if name = ''Read'' \<or> name = ''read'' then ReadTool
          else if name = ''Bash'' \<or> name = ''bash'' then BashTool
          else OtherTool)"

definition stream_key :: "json \<Rightarrow> json \<Rightarrow> string \<Rightarrow> string option" where
  "stream_key params payload channel =
     (case (activity_id (get params ''turnId''), activity_id (get payload ''assistantMessageId'')) of
        (Some turn_id, Some message_id) \<Rightarrow> Some (turn_id @ '':'' @ message_id @ '':'' @ channel)
      | (None, Some message_id) \<Rightarrow> Some (message_id @ '':'' @ channel)
      | _ \<Rightarrow> None)"

definition marked :: "string \<Rightarrow> string \<Rightarrow> string option \<Rightarrow> string option" where
  "marked scope phase i = map_option (\<lambda>s. scope @ '':'' @ s @ '':'' @ phase) i"

definition stream_identity :: "string option \<Rightarrow> string option" where
  "stream_identity i = map_option (\<lambda>s. ''stream:'' @ s) i"

definition parse_model_activity :: "json \<Rightarrow> bool \<Rightarrow> parsed_activity \<Rightarrow> parsed_activity" where
  "parse_model_activity payload started p =
     (let request_id = activity_id (get payload ''requestId'')
      in p\<lparr>pa_request_id := request_id,
           pa_identity := marked ''model'' (if started then ''started'' else ''completed'') request_id,
           pa_transition := Some (if started then ModelStarted else ModelCompleted)\<rparr>)"

definition parse_permission_activity :: "json \<Rightarrow> bool \<Rightarrow> parsed_activity \<Rightarrow> parsed_activity" where
  "parse_permission_activity payload requested p =
     (let request_id = activity_id (get payload ''requestId'')
      in p\<lparr>pa_request_id := request_id,
           pa_tool_call_id := activity_id (get payload ''toolCallId''),
           pa_tool_kind := classify_passive_tool (get payload ''toolName''),
           pa_identity := marked ''permission'' (if requested then ''requested'' else ''resolved'') request_id,
           pa_transition := Some (if requested then PermissionRequested else PermissionResolved)\<rparr>)"

text \<open>The phase of a tool call and whether its name is known.\<close>

definition tool_phase :: "string \<Rightarrow> activity_transition option \<times> bool" where
  "tool_phase phase =
     (if phase = ''scheduled'' then (Some ToolScheduled, True)
      else if phase = ''started'' then (Some ToolStarted, True)
      else if phase = ''result'' \<or> phase = ''tool_result'' \<or> phase = ''completed'' then (Some ToolCompleted, True)
      else if phase = ''error'' \<or> phase = ''tool_error'' \<or> phase = ''failed'' then (Some ToolFailed, True)
      else (None, phase = ''batch''))"

fun phase_name :: "activity_transition \<Rightarrow> string option" where
  "phase_name ToolScheduled = Some ''scheduled''"
| "phase_name ToolStarted = Some ''started''"
| "phase_name ToolCompleted = Some ''completed''"
| "phase_name ToolFailed = Some ''failed''"
| "phase_name _ = None"

fun phase_sample :: "activity_transition \<Rightarrow> passive_tool_kind \<Rightarrow> activity_sample_kind option" where
  "phase_sample ToolStarted k = Some (SampleToolStarted k)"
| "phase_sample ToolCompleted k = Some SampleToolCompleted"
| "phase_sample ToolFailed k = Some SampleToolFailed"
| "phase_sample _ k = None"

definition parse_tool_activity :: "json \<Rightarrow> activity_source \<Rightarrow> parsed_activity \<Rightarrow> parsed_activity" where
  "parse_tool_activity payload src p =
     (let read = map_option tool_phase
            (get_str payload (if src = TelemetrySource then ''phase'' else ''kind''));
          phase = Option.bind read fst;
          p1 = (if (case read of Some (_, known) \<Rightarrow> \<not> known | None \<Rightarrow> False) \<and> src = TelemetrySource
                then p\<lparr>pa_telemetry_known := False\<rparr> else p);
          tool_call_id = activity_id (get payload ''toolCallId'');
          k = classify_passive_tool (get payload ''toolName'');
          p2 = p1\<lparr>pa_tool_call_id := tool_call_id, pa_tool_kind := k, pa_transition := phase\<rparr>
      in case (tool_call_id, phase) of
           (Some i, Some t) \<Rightarrow>
             (case phase_name t of
                Some name \<Rightarrow> p2\<lparr>pa_identity := marked ''tool'' name (Some i), pa_sample := phase_sample t k\<rparr>
              | None \<Rightarrow> p2)
         | _ \<Rightarrow> p2)"

definition or_else :: "'a option \<Rightarrow> 'a option \<Rightarrow> 'a option" where
  "or_else a b = (case a of Some _ \<Rightarrow> a | None \<Rightarrow> b)"

definition finish_message :: "json \<Rightarrow> parsed_activity \<Rightarrow> parsed_activity" where
  "finish_message payload p = p\<lparr>pa_assistant_message_id := activity_id (get payload ''assistantMessageId''),
     pa_message_finished := True\<rparr>"

definition turn_transition :: "activity_transition \<Rightarrow> string \<Rightarrow> json \<Rightarrow> parsed_activity \<Rightarrow> parsed_activity" where
  "turn_transition t phase params p = p\<lparr>pa_transition := Some t,
     pa_identity := marked ''turn'' phase
       (or_else (activity_id (get params ''eventId'')) (activity_id (get params ''turnId'')))\<rparr>"

definition delta_bytes :: "string option \<Rightarrow> u64" where
  "delta_bytes delta = (case delta of Some s \<Rightarrow> word_of_nat (length s) | None \<Rightarrow> 0)"

definition parse_session_activity :: "json \<Rightarrow> activity_source \<Rightarrow> parsed_activity \<Rightarrow> parsed_activity" where
  "parse_session_activity params src p =
     (let kind = get_str params ''type'';
          payload = or_null (get params ''payload'');
          payload_kind = get_str payload ''kind'';
          payload_type = get_str payload ''type'';
          event_id = activity_id (get params ''eventId'');
          delta = get_str payload ''delta''
      in if kind = Some ''model.streaming'' \<and> payload_kind = Some ''reasoning_delta'' then
           p\<lparr>pa_stream_key := stream_key params payload ''reasoning'',
             pa_identity := stream_identity event_id,
             pa_sample := Some (ReasoningDelta (delta_bytes delta))\<rparr>
         else if kind = Some ''model.streaming'' \<and> payload_kind = Some ''text_delta'' then
           p\<lparr>pa_stream_key := stream_key params payload ''text'',
             pa_identity := stream_identity event_id,
             pa_sample := Some (TextDelta (delta_bytes delta)),
             pa_text_delta := delta,
             pa_assistant_message_id := activity_id (get payload ''assistantMessageId'')\<rparr>
         else if kind = Some ''model.streaming'' \<and>
           List.member [Some ''message_finished'', Some ''message_done'', Some ''text_done''] payload_kind then
           finish_message payload p
         else if List.member [Some ''message.completed'', Some ''message.finished'', Some ''message.done'',
             Some ''text.done''] kind then finish_message payload p
         else if kind = Some ''tool.updated'' \<or> kind = Some ''streamRecovery.updated'' then
           parse_tool_activity payload src p
         else if kind = Some ''session.updated'' \<and> payload_type = Some ''model_request_started'' then
           parse_model_activity payload True p
         else if kind = Some ''session.updated'' \<and> payload_type = Some ''model_request_completed'' then
           parse_model_activity payload False p
         else if kind = Some ''permission.requested'' then parse_permission_activity payload True p
         else if kind = Some ''permission.resolved'' then parse_permission_activity payload False p
         else if kind = Some ''turn.started'' then turn_transition TurnStarted ''started'' params p
         else if kind = Some ''turn.completed'' then
           (turn_transition TurnCompleted ''completed'' params p)
             \<lparr>pa_terminal_response := get_str payload ''response''\<rparr>
         else if kind = Some ''turn.failed'' then turn_transition TurnFailed ''failed'' params p
         else p)"

definition unknown_telemetry :: "parsed_activity \<Rightarrow> parsed_activity" where
  "unknown_telemetry p = p\<lparr>pa_telemetry_known := False\<rparr>"

definition parse_stream_chunk :: "json \<Rightarrow> parsed_activity \<Rightarrow> parsed_activity" where
  "parse_stream_chunk params p =
     (case get_str params ''channel'' of
        None \<Rightarrow> unknown_telemetry p
      | Some channel \<Rightarrow>
          if channel \<noteq> ''thought'' \<and> channel \<noteq> ''text'' then unknown_telemetry p
          else
            (case Option.bind (get params ''chunkLength'') as_u64 of
               None \<Rightarrow> unknown_telemetry p
             | Some bytes \<Rightarrow>
                 let reasoning = (channel = ''thought'')
                 in p\<lparr>pa_stream_key := stream_key params params (if reasoning then ''reasoning'' else ''text''),
                      pa_identity := stream_identity (activity_id (get params ''eventId'')),
                      pa_sample := Some (if reasoning then ReasoningDelta bytes else TextDelta bytes)\<rparr>))"

definition parse_telemetry_activity :: "json \<Rightarrow> activity_source \<Rightarrow> parsed_activity \<Rightarrow> parsed_activity" where
  "parse_telemetry_activity params src p0 =
     (let p = p0\<lparr>pa_telemetry_known := True\<rparr>; kind = get_str params ''kind''
      in if kind = Some ''stream.chunk'' then parse_stream_chunk params p
         else if kind = Some ''tool.lifecycle'' then parse_tool_activity params src p
         else if kind = Some ''model.request.status'' then
           (let started = (get_str params ''status'' = Some ''model_request_started'');
                completed = (get_str params ''status'' = Some ''model_request_completed'')
            in if started \<or> completed then parse_model_activity params started p else unknown_telemetry p)
         else if kind = Some ''permission.lifecycle'' then
           (if get_str params ''phase'' = Some ''requested'' then parse_permission_activity params True p
            else if get_str params ''phase'' = Some ''resolved'' then parse_permission_activity params False p
            else unknown_telemetry p)
         else if kind = Some ''turn.started'' then p\<lparr>pa_transition := Some TurnStarted\<rparr>
         else if kind = Some ''turn.completed'' then p\<lparr>pa_transition := Some TurnCompleted\<rparr>
         else if kind = Some ''turn.failed'' then p\<lparr>pa_transition := Some TurnFailed\<rparr>
         else if kind = Some ''usage.delta'' then p
         else unknown_telemetry p)"

definition parse_activity_message :: "string \<Rightarrow> json \<Rightarrow> activity_source \<Rightarrow> parsed_activity" where
  "parse_activity_message m params src =
     (let p = runtime_parsed\<lparr>pa_source := src, pa_telemetry_known := (src \<noteq> TelemetrySource)\<rparr>
      in if m = ''session/event'' then parse_session_activity params src p
         else if m = ''v4/telemetry/event'' then parse_telemetry_activity params src p
         else p)"

definition method_source :: "string \<Rightarrow> activity_source" where
  "method_source m = (if m = ''v4/telemetry/event'' then TelemetrySource
     else if m = ''session/event'' then SessionSource else RuntimeSource)"

definition parse_passive_activity :: "runtime_event \<Rightarrow> parsed_activity" where
  "parse_passive_activity e =
     (case e of
        DriverEvent (Message (Event ev)) \<Rightarrow> parse_activity_message (ev_method ev) (ev_params ev) SessionSource
      | DriverEvent (Message (UnknownEvent m raw)) \<Rightarrow>
          parse_activity_message m (or_null (get raw ''params'')) (method_source m)
      | DriverEvent (Message (Request r)) \<Rightarrow>
          if req_method r = interaction_request_permission \<or> req_method r = interaction_request_user_input
          then parse_permission_activity (req_params r) True runtime_parsed
          else runtime_parsed
      | _ \<Rightarrow> runtime_parsed)"

section \<open>Observing an event\<close>

definition bounded_tail :: "string \<Rightarrow> string" where
  "bounded_tail s = (if max_latest_text_bytes < length s then keep_tail max_latest_text_bytes s else s)"

definition append_latest_text :: "string \<Rightarrow> u64 \<Rightarrow> passive_activity_state \<Rightarrow> passive_activity_state" where
  "append_latest_text delta wall s =
     (let tail = latest_text_tail s @ delta
      in s\<lparr>terminal_text := terminal_text s @ delta,
           latest_text_tail := bounded_tail tail,
           latest_text_truncated := (latest_text_truncated s \<or> max_latest_text_bytes < length tail),
           latest_text_updated_at := Some wall\<rparr>)"

definition insert_entry :: "string \<Rightarrow> 'a \<Rightarrow> (string \<times> 'a) list \<Rightarrow> (string \<times> 'a) list" where
  "insert_entry key v entries = (key, v) # remove_key key entries"

definition or_insert :: "string \<Rightarrow> 'a \<Rightarrow> (string \<times> 'a) list \<Rightarrow> (string \<times> 'a) list" where
  "or_insert key v entries = (if map_of entries key = None then (key, v) # entries else entries)"

definition observe_payload ::
  "(json \<Rightarrow> string) \<Rightarrow> runtime_event \<Rightarrow> observation_state \<Rightarrow> observation_state" where
  "observe_payload to_string e ob =
     (case e of
        DriverEvent (Message (Event ev)) \<Rightarrow> observe_message to_string (ev_method ev) (ev_params ev) ob
      | DriverEvent (Message (UnknownEvent m raw)) \<Rightarrow>
          observe_message to_string m (or_null (get raw ''params'')) ob
      | DriverEvent (Malformed _) \<Rightarrow> observe_loss ob
      | DriverEvent (OversizedLine _) \<Rightarrow> observe_loss ob
      | _ \<Rightarrow> ob)"

text \<open>The sample of an event: the state afterwards and whether the event is admitted.\<close>

definition admit_sample :: "nat \<Rightarrow> parsed_activity \<Rightarrow> passive_activity_state \<Rightarrow> passive_activity_state \<times> bool" where
  "admit_sample now p s =
     (case (pa_identity p, pa_sample p) of
        (Some identity, Some k) \<Rightarrow>
          let existing = map_of (activity_samples s) identity;
              replace = (case existing of
                           Some sample \<Rightarrow> sample_source sample = TelemetrySource \<and> pa_source p = SessionSource
                         | None \<Rightarrow> True)
          in if replace
             then (s\<lparr>sample_order := (if existing = None then sample_order s @ [identity] else sample_order s),
                     activity_samples := insert_entry identity
                       \<lparr>sample_source = pa_source p, observed_at = now, sample_kind = k\<rparr> (activity_samples s)\<rparr>,
                   True)
             else (s, False)
      | _ \<Rightarrow> (s, True))"

fun evict_samples ::
  "string list \<Rightarrow> (string \<times> activity_sample) list \<Rightarrow> string list \<times> (string \<times> activity_sample) list" where
  "evict_samples [] samples = ([], samples)"
| "evict_samples (identity # rest) samples =
     (if max_activity_identities < length (identity # rest)
      then evict_samples rest (remove_key identity samples)
      else (identity # rest, samples))"

definition evict :: "passive_activity_state \<Rightarrow> passive_activity_state" where
  "evict s = (case evict_samples (sample_order s) (activity_samples s) of
     (order, samples) \<Rightarrow> s\<lparr>sample_order := order, activity_samples := samples\<rparr>)"

definition is_model_delta :: "activity_sample_kind option \<Rightarrow> bool" where
  "is_model_delta k = (case k of Some (ReasoningDelta _) \<Rightarrow> True | Some (TextDelta _) \<Rightarrow> True | _ \<Rightarrow> False)"

definition buffer_text :: "string \<Rightarrow> string \<Rightarrow> passive_activity_state \<Rightarrow> passive_activity_state" where
  "buffer_text message_id delta s =
     (let old = (case map_of (assistant_buffers s) message_id of Some b \<Rightarrow> b | None \<Rightarrow> [])
      in s\<lparr>assistant_buffers := insert_entry message_id
             (bounded_tail (old @ delta)) (assistant_buffers s)\<rparr>)"

definition apply_delta :: "u64 \<Rightarrow> parsed_activity \<Rightarrow> passive_activity_state \<Rightarrow> passive_activity_state" where
  "apply_delta wall p s =
     (case pa_text_delta p of
        None \<Rightarrow> s
      | Some delta \<Rightarrow>
          (case pa_assistant_message_id p of
             None \<Rightarrow> append_latest_text delta wall s
           | Some message_id \<Rightarrow> buffer_text message_id delta (append_latest_text delta wall s)))"

definition apply_finish :: "parsed_activity \<Rightarrow> passive_activity_state \<Rightarrow> passive_activity_state" where
  "apply_finish p s =
     (if pa_message_finished p
      then (case pa_assistant_message_id p of
              None \<Rightarrow> s
            | Some message_id \<Rightarrow>
                (case map_of (assistant_buffers s) message_id of
                   None \<Rightarrow> s
                 | Some buffer \<Rightarrow> s\<lparr>assistant_buffers := remove_key message_id (assistant_buffers s),
                     latest_progress := Some buffer\<rparr>))
      else s)"

definition apply_response :: "parsed_activity \<Rightarrow> passive_activity_state \<Rightarrow> passive_activity_state" where
  "apply_response p s =
     (case pa_terminal_response p of None \<Rightarrow> s | Some response \<Rightarrow> s\<lparr>terminal_text := response\<rparr>)"

definition apply_transition :: "nat \<Rightarrow> parsed_activity \<Rightarrow> passive_activity_state \<Rightarrow> passive_activity_state" where
  "apply_transition now p s =
     (case pa_transition p of
        Some ModelStarted \<Rightarrow>
          let request_id = (case pa_request_id p of Some i \<Rightarrow> i | None \<Rightarrow> ''model-request'')
          in if map_of (active_model_requests s) request_id = None
             then s\<lparr>active_model_requests := (request_id, now) # active_model_requests s,
                    last_model_delta_at := Some now\<rparr>
             else s
      | Some ModelCompleted \<Rightarrow>
          s\<lparr>active_model_requests :=
              (case pa_request_id p of Some i \<Rightarrow> remove_key i (active_model_requests s) | None \<Rightarrow> [])\<rparr>
      | Some t \<Rightarrow>
          if t = ToolScheduled \<or> t = ToolStarted then
            (case pa_tool_call_id p of
               Some i \<Rightarrow> s\<lparr>active_tools := or_insert i (pa_tool_kind p, now) (active_tools s)\<rparr>
             | None \<Rightarrow> s)
          else if t = ToolCompleted \<or> t = ToolFailed \<or> t = PermissionResolved then
            (case pa_tool_call_id p of
               Some i \<Rightarrow> s\<lparr>active_tools := remove_key i (active_tools s)\<rparr>
             | None \<Rightarrow> s)
          else if t = TurnCompleted \<or> t = TurnFailed then s\<lparr>active_model_requests := [], active_tools := []\<rparr>
          else s
      | None \<Rightarrow> s)"

definition observe_at ::
  "(json \<Rightarrow> string) \<Rightarrow> runtime_event \<Rightarrow> nat \<Rightarrow> u64 \<Rightarrow> passive_activity_state \<Rightarrow> passive_activity_state" where
  "observe_at to_string e now wall s =
     (let p = parse_passive_activity e;
          s1 = s\<lparr>observation := observe_payload to_string e (observation s),
                 revision := saturating_add (revision s) 1,
                 last_runtime_event_at := Some (now, wall),
                 telemetry_degraded := (telemetry_degraded s \<or>
                   pa_source p = TelemetrySource \<and> \<not> pa_telemetry_known p)\<rparr>
      in case admit_sample now p s1 of
           (s2, admitted) \<Rightarrow>
             let s3 = evict s2;
                 s4 = (if admitted \<and> is_model_delta (pa_sample p) then s3\<lparr>last_model_delta_at := Some now\<rparr> else s3);
                 s5 = (if admitted then apply_response p (apply_finish p (apply_delta wall p s4)) else s4)
             in apply_transition now p s5)"

section \<open>The snapshot\<close>

definition empty_window :: passive_activity_window where
  "empty_window = \<lparr>reasoning_delta_events = 0, reasoning_delta_bytes = 0, text_delta_events = 0,
     text_delta_bytes = 0, tool_calls_started = 0, tool_calls_completed = 0, tool_calls_failed = 0,
     read_calls = 0, bash_calls = 0, other_tool_calls = 0\<rparr>"

definition count_sample :: "activity_sample_kind \<Rightarrow> passive_activity_window \<Rightarrow> passive_activity_window" where
  "count_sample k w =
     (case k of
        ReasoningDelta bytes \<Rightarrow>
          w\<lparr>reasoning_delta_events := saturating_add (reasoning_delta_events w) 1,
            reasoning_delta_bytes := saturating_add (reasoning_delta_bytes w) bytes\<rparr>
      | TextDelta bytes \<Rightarrow>
          w\<lparr>text_delta_events := saturating_add (text_delta_events w) 1,
            text_delta_bytes := saturating_add (text_delta_bytes w) bytes\<rparr>
      | SampleToolStarted tool \<Rightarrow>
          let w1 = w\<lparr>tool_calls_started := saturating_add (tool_calls_started w) 1\<rparr>
          in (case tool of
                ReadTool \<Rightarrow> w1\<lparr>read_calls := saturating_add (read_calls w1) 1\<rparr>
              | BashTool \<Rightarrow> w1\<lparr>bash_calls := saturating_add (bash_calls w1) 1\<rparr>
              | OtherTool \<Rightarrow> w1\<lparr>other_tool_calls := saturating_add (other_tool_calls w1) 1\<rparr>)
      | SampleToolCompleted \<Rightarrow> w\<lparr>tool_calls_completed := saturating_add (tool_calls_completed w) 1\<rparr>
      | SampleToolFailed \<Rightarrow> w\<lparr>tool_calls_failed := saturating_add (tool_calls_failed w) 1\<rparr>)"

definition in_window :: "nat \<Rightarrow> activity_sample \<Rightarrow> bool" where
  "in_window now sample \<longleftrightarrow> now - observed_at sample \<le> activity_window_nanos"

definition window_at :: "nat \<Rightarrow> (string \<times> activity_sample) list \<Rightarrow> passive_activity_window" where
  "window_at now samples =
     fold (\<lambda>(_, sample) w. if in_window now sample then count_sample (sample_kind sample) w else w)
       samples empty_window"

definition duration_millis :: "nat \<Rightarrow> u64" where
  "duration_millis d = (if d div 1000000 \<le> 18446744073709551615 then word_of_nat (d div 1000000)
     else 18446744073709551615)"

definition extreme :: "('a \<Rightarrow> 'a \<Rightarrow> 'a) \<Rightarrow> 'a list \<Rightarrow> 'a option" where
  "extreme pick xs = (case xs of [] \<Rightarrow> None | x # rest \<Rightarrow> Some (fold pick rest x))"

definition snapshot_at :: "nat \<Rightarrow> bool \<Rightarrow> passive_activity_state \<Rightarrow> passive_activity_snapshot \<times> passive_activity_state" where
  "snapshot_at now consume_text s =
     (\<lparr>snap_revision = revision s,
       snap_last_runtime_event_at = map_option snd (last_runtime_event_at s),
       snap_last_activity_age_ms = map_option (\<lambda>(at, _). duration_millis (now - at)) (last_runtime_event_at s),
       snap_model_request_active = (active_model_requests s \<noteq> []),
       snap_model_request_age_ms =
         map_option (\<lambda>at. duration_millis (now - at)) (extreme min (map snd (active_model_requests s))),
       snap_model_last_delta_age_ms = map_option (\<lambda>at. duration_millis (now - at)) (last_model_delta_at s),
       snap_latest_text_tail = latest_text_tail s,
       snap_latest_text_updated_at = latest_text_updated_at s,
       snap_latest_text_truncated = latest_text_truncated s,
       snap_latest_progress = latest_progress s,
       snap_active_tools = sort_key pat_tool_call_id
         (map (\<lambda>(i, k, _). \<lparr>pat_tool_call_id = i, pat_kind = k\<rparr>) (active_tools s)),
       snap_oldest_active_tool_age_ms =
         extreme max (map (\<lambda>(_, _, at). duration_millis (now - at)) (active_tools s)),
       snap_window_60s = window_at now (activity_samples s),
       snap_telemetry_degraded = telemetry_degraded s\<rparr>,
      if consume_text then s\<lparr>latest_text_tail := [], latest_text_truncated := False\<rparr> else s)"

datatype terminal_text = TextVisible string | TextMissing

definition take_terminal_text :: "passive_activity_state \<Rightarrow> terminal_text \<times> passive_activity_state" where
  "take_terminal_text s =
     (if trim (terminal_text s) = [] then (TextMissing, s\<lparr>terminal_text := []\<rparr>)
      else (TextVisible (terminal_text s), s\<lparr>terminal_text := []\<rparr>))"

definition activity_observation :: "passive_activity_state \<Rightarrow> observation_snapshot" where
  "activity_observation s = snapshot (observation s)"

end
