(* ===== verification/Runtime_Owner_Properties.thy ===== *)
theory Runtime_Owner_Properties
  imports Runtime_Owner
begin

text \<open>
  The properties of a runtime owner over every interleaving of the pump with the callers that stop
  the process or answer a permission: one terminal record, success only after a completed turn, and
  permission answers that the runtime offered.
\<close>

section \<open>Runs\<close>

inductive owner_step :: "(wire_id \<Rightarrow> string) \<Rightarrow> runtime_owner \<Rightarrow> runtime_owner \<Rightarrow> bool" for key_of where
  pumped: "owner_step key_of s (fst (pump_event key_of now responded members i s))"
| disconnected: "owner_step key_of s (pump_disconnected s)"
| stopping: "owner_step key_of s (s\<lparr>publisher_of := snd (begin_stopping (publisher_of s))\<rparr>)"
| stopped: "owner_step key_of s (s\<lparr>publisher_of := snd (publish_terminal t (publisher_of s)),
    permissions := clear_cache (permissions s)\<rparr>)"
| completed: "owner_step key_of s (s\<lparr>permissions := complete_permission key (permissions s)\<rparr>)"
| denied: "owner_step key_of s (s\<lparr>permissions := record_denial key v (permissions s)\<rparr>)"

inductive_cases owner_stepE: "owner_step key_of s t"

text \<open>A whole stop is a run of two steps.\<close>

lemma finish_process_run: "(owner_step key_of)\<^sup>*\<^sup>* s (snd (finish_process stopped waited b s))"
proof (cases "\<exists>t. owner (publisher_of s) = OwnerTerminal t")
  case True
  then have "snd (finish_process stopped waited b s) = s"
    by (auto simp: finish_process_def begin_stopping_def)
  then show ?thesis by simp
next
  case False
  let ?u = "s\<lparr>publisher_of := snd (begin_stopping (publisher_of s))\<rparr>"
  have "owner_step key_of s ?u" by (rule owner_step.stopping)
  moreover have "snd (finish_process stopped waited b s) =
      ?u\<lparr>publisher_of := snd (publish_terminal (stop_terminal stopped waited b) (publisher_of ?u)),
        permissions := clear_cache (permissions ?u)\<rparr>"
    using False by (auto simp: finish_process_def begin_stopping_def split_beta split: owner_state.splits)
  then have "owner_step key_of ?u (snd (finish_process stopped waited b s))"
    using owner_step.stopped [of key_of ?u "stop_terminal stopped waited b"] by (simp only:)
  ultimately show ?thesis by (meson converse_rtranclp_into_rtranclp r_into_rtranclp)
qed

section \<open>The publisher\<close>

definition is_terminal_record :: "lifecycle_record \<Rightarrow> bool" where
  "is_terminal_record r \<longleftrightarrow> (\<exists>t. record_event r = TerminalEvent t)"

definition max_u64 :: int where "max_u64 = 18446744073709551615"

definition publisher_ok :: "publisher \<Rightarrow> bool" where
  "publisher_ok p \<longleftrightarrow>
     uint (next_sequence p) = min (int (length (sink_records p)) + 1) max_u64 \<and>
     (\<forall>k < length (sink_records p). uint (record_sequence (sink_records p ! k)) = min (int k + 1) max_u64) \<and>
     (case owner p of
        OwnerTerminal t \<Rightarrow> \<exists>before n. sink_records p = before @ [\<lparr>record_sequence = n, record_event = TerminalEvent t\<rparr>] \<and>
          \<not> list_ex is_terminal_record before
      | _ \<Rightarrow> \<not> list_ex is_terminal_record (sink_records p))"

lemma publisher_ok_new: "publisher_ok new_publisher"
  by (simp add: publisher_ok_def new_publisher_def max_u64_def)

lemma min_saturate: "min (min (a + 1) max_u64 + 1) max_u64 = min (a + 1 + 1) max_u64" for a :: int
  by simp

lemma emit_locked_sequences:
  assumes "uint (next_sequence p) = min (int (length (sink_records p)) + 1) max_u64"
    and "\<forall>k < length (sink_records p). uint (record_sequence (sink_records p ! k)) = min (int k + 1) max_u64"
  shows "uint (next_sequence (emit_locked e p)) = min (int (length (sink_records (emit_locked e p))) + 1) max_u64"
    and "\<forall>k < length (sink_records (emit_locked e p)).
      uint (record_sequence (sink_records (emit_locked e p) ! k)) = min (int k + 1) max_u64"
proof -
  show "uint (next_sequence (emit_locked e p)) = min (int (length (sink_records (emit_locked e p))) + 1) max_u64"
    using assms(1) min_saturate [of "int (length (sink_records p))"]
    by (simp add: emit_locked_def uint_saturating_add max_u64_def)
  show "\<forall>k < length (sink_records (emit_locked e p)).
      uint (record_sequence (sink_records (emit_locked e p) ! k)) = min (int k + 1) max_u64"
    using assms by (auto simp: emit_locked_def nth_append less_Suc_eq)
qed

lemma publisher_okD:
  assumes "publisher_ok p"
  shows "uint (next_sequence p) = min (int (length (sink_records p)) + 1) max_u64"
    "\<forall>k < length (sink_records p). uint (record_sequence (sink_records p ! k)) = min (int k + 1) max_u64"
  using assms by (simp_all add: publisher_ok_def)

lemma publisher_ok_open:
  assumes "publisher_ok p" "\<And>t. owner p \<noteq> OwnerTerminal t"
  shows "\<not> list_ex is_terminal_record (sink_records p)"
  using assms by (auto simp: publisher_ok_def split: owner_state.splits)

lemma publisher_ok_emit:
  assumes "publisher_ok p" "\<And>t. owner p \<noteq> OwnerTerminal t"
  shows "publisher_ok (emit_locked (DriverEvent i) p)"
  unfolding publisher_ok_def
  using emit_locked_sequences [OF publisher_okD [OF assms(1)]] publisher_ok_open [OF assms] assms(2)
  by (auto simp: emit_locked_def is_terminal_record_def split: owner_state.splits)

lemma publisher_ok_publish:
  assumes "publisher_ok p" "\<And>t. owner p \<noteq> OwnerTerminal t"
  shows "publisher_ok (publish_terminal_locked t p)"
proof -
  let ?p = "p\<lparr>owner := OwnerTerminal t\<rparr>"
  have "uint (next_sequence ?p) = min (int (length (sink_records ?p)) + 1) max_u64"
    "\<forall>k < length (sink_records ?p). uint (record_sequence (sink_records ?p ! k)) = min (int k + 1) max_u64"
    using publisher_okD [OF assms(1)] by simp_all
  from emit_locked_sequences [OF this] publisher_ok_open [OF assms] show ?thesis
    unfolding publisher_ok_def publish_terminal_locked_def by (auto simp: emit_locked_def)
qed

lemma publisher_ok_frame:
  "publisher_ok (p\<lparr>exit_boundary_delivered := b\<rparr>) = publisher_ok p"
  by (cases "owner p") (simp_all add: publisher_ok_def)

lemma publisher_ok_publish_terminal: "publisher_ok p \<Longrightarrow> publisher_ok (snd (publish_terminal t p))"
  by (auto simp: publish_terminal_def intro: publisher_ok_publish split: owner_state.splits)

lemma publisher_ok_begin: "publisher_ok p \<Longrightarrow> publisher_ok (snd (begin_stopping p))"
  by (auto simp: begin_stopping_def publisher_ok_def split: owner_state.splits)

lemma owner_emit [simp]: "owner (emit_locked e p) = owner p"
  by (simp add: emit_locked_def)

lemma publisher_ok_emit_driver: "publisher_ok p \<Longrightarrow> publisher_ok (emit_driver i terminal p)"
proof (cases "\<exists>t. owner p = OwnerTerminal t")
  case True
  assume "publisher_ok p"
  with True show ?thesis by (auto simp: emit_driver_def)
next
  case False
  assume "publisher_ok p"
  let ?p = "if is_exit i then (emit_locked (DriverEvent i) p)\<lparr>exit_boundary_delivered := True\<rparr>
    else emit_locked (DriverEvent i) p"
  have ok: "publisher_ok ?p" using \<open>publisher_ok p\<close> False by (simp add: publisher_ok_frame publisher_ok_emit)
  have "owner ?p = owner p" by simp
  then have "publisher_ok (publish_terminal_locked t ?p)" if "owner ?p = OwnerRunning" for t
    using ok that by (intro publisher_ok_publish) simp_all
  with ok False show ?thesis
    by (auto simp: emit_driver_def Let_def split: owner_state.splits option.splits)
qed

section \<open>The turns that were recorded\<close>

definition turn_kind :: "inbound \<Rightarrow> string option" where
  "turn_kind i =
     (case inbound_event_type i of
        Some k \<Rightarrow> if k \<in> {''turn.started'', ''turn.completed'', ''turn.failed''} then Some k else None
      | None \<Rightarrow> None)"

fun turn_kinds :: "lifecycle_record list \<Rightarrow> string list" where
  "turn_kinds [] = []"
| "turn_kinds (r # rs) =
     (case record_event r of
        DriverEvent i \<Rightarrow> (case turn_kind i of Some k \<Rightarrow> k # turn_kinds rs | None \<Rightarrow> turn_kinds rs)
      | TerminalEvent _ \<Rightarrow> turn_kinds rs)"

lemma turn_kinds_append [simp]: "turn_kinds (a @ b) = turn_kinds a @ turn_kinds b"
  by (induction a) (auto split: runtime_event.splits option.splits)

fun boundary_kind :: "turn_boundary \<Rightarrow> string" where
  "boundary_kind BoundaryCompleted = ''turn.completed''"
| "boundary_kind BoundaryFailed = ''turn.failed''"

definition tracker_ok :: "string list \<Rightarrow> turn_tracker \<Rightarrow> bool" where
  "tracker_ok kinds t \<longleftrightarrow>
     (active t \<longrightarrow> boundary t = None \<and> (\<exists>before. kinds = before @ [''turn.started''])) \<and>
     (\<forall>b. boundary t = Some b \<longrightarrow>
        (\<exists>before after. kinds = before @ [''turn.started'', boundary_kind b] @ after \<and>
           ''turn.started'' \<notin> set after))"

lemma tracker_ok_new: "tracker_ok [] new_turn_tracker"
  by (simp add: tracker_ok_def new_turn_tracker_def)

lemma tracker_ok_other:
  "turn_kind i = None \<Longrightarrow> tracker_ok kinds t \<Longrightarrow> tracker_ok kinds (observe_turn now i t)"
  by (auto simp: tracker_ok_def observe_turn_def turn_kind_def Let_def split: option.splits if_splits)

lemma tracker_ok_started:
  assumes "turn_kind i = Some ''turn.started''"
  shows "tracker_ok (kinds @ [''turn.started'']) (observe_turn now i t)"
  using assms
  by (auto simp: tracker_ok_def observe_turn_def turn_kind_def start_turn_def Let_def split: option.splits if_splits)

lemma tracker_ok_ended:
  assumes "turn_kind i = Some k" "k = boundary_kind b" and ok: "tracker_ok kinds t"
  shows "tracker_ok (kinds @ [k]) (observe_turn now i t)"
proof (cases "active t")
  case True
  with ok obtain before where "kinds = before @ [''turn.started'']" by (auto simp: tracker_ok_def)
  then have "kinds @ [k] = before @ [''turn.started'', boundary_kind b] @ []" using assms(2) by simp
  moreover have "active (observe_turn now i t) = False" "boundary (observe_turn now i t) = Some b"
    using assms True
    by (cases b; auto simp: observe_turn_def turn_kind_def end_turn_def Let_def split: option.splits if_splits)+
  ultimately show ?thesis unfolding tracker_ok_def by (metis empty_iff list.set(1) option.inject)
next
  case False
  have "observe_turn now i t = t"
    using assms(1,2) False
    by (cases b; auto simp: observe_turn_def turn_kind_def Let_def split: option.splits if_splits)
  moreover have "tracker_ok (kinds @ [k]) t"
    using ok False assms(2) unfolding tracker_ok_def
    by (cases b) (fastforce intro: exI [of _ "_ @ [k]"])+
  ultimately show ?thesis by simp
qed

lemma tracker_ok_observe:
  assumes "tracker_ok kinds t"
  shows "tracker_ok (kinds @ (case turn_kind i of Some k \<Rightarrow> [k] | None \<Rightarrow> [])) (observe_turn now i t)"
proof (cases "turn_kind i")
  case None
  with tracker_ok_other [OF None assms] show ?thesis by simp
next
  case (Some k)
  then consider "k = ''turn.started''" | b where "k = boundary_kind b"
    by (auto simp: turn_kind_def split: option.splits if_splits) (metis boundary_kind.simps)+
  then show ?thesis
    using Some tracker_ok_started tracker_ok_ended [OF Some _ assms] by cases auto
qed

section \<open>The offered answers\<close>

definition cache_ok :: "permission_cache \<Rightarrow> bool" where
  "cache_ok c \<longleftrightarrow> length (cached_requests c) \<le> max_pending_permission_responses \<and>
     length (denied_fingerprints c) \<le> max_pending_permission_responses \<and>
     (\<forall>(k, offered) \<in> set (cached_requests c). offered_responses (offered_params offered) = Some offered)"

lemma offered_params_self: "offered_responses params = Some offered \<Longrightarrow> offered_params offered = params"
  by (auto simp: offered_responses_def split: option.splits)

lemma length_remove_key: "length (remove_key key entries) \<le> length entries"
  by (simp add: remove_key_def)

lemma remove_key_absent: "map_of entries key = None \<Longrightarrow> remove_key key entries = entries"
  by (induction entries) (auto simp: remove_key_def split: if_splits)

lemma cache_ok_steps:
  assumes "cache_ok c"
  shows "cache_ok (observe_permission key params c)" "cache_ok (complete_permission key c)"
    "cache_ok (record_denial key v c)" "cache_ok (clear_cache c)"
proof -
  have offers: "\<forall>(k, offered) \<in> set (remove_key key (cached_requests c)).
      offered_responses (offered_params offered) = Some offered"
    using assms by (auto simp: cache_ok_def remove_key_def)
  have size: "length (remove_key key (cached_requests c)) \<le> max_pending_permission_responses"
    using assms length_remove_key [of key "cached_requests c"] by (simp add: cache_ok_def)
  show "cache_ok (observe_permission key params c)"
    using assms offers size
    by (auto simp: cache_ok_def observe_permission_def Let_def offered_params_self split: option.splits)
  show "cache_ok (complete_permission key c)"
    using assms offers size by (simp add: cache_ok_def complete_permission_def)
  show "cache_ok (record_denial key v c)"
    using assms by (auto simp: cache_ok_def record_denial_def List.insert_def split: option.splits)
  show "cache_ok (clear_cache c)"
    by (simp add: cache_ok_def clear_cache_def empty_cache_def)
qed

section \<open>The invariant of an owner\<close>

definition owner_inv :: "runtime_owner \<Rightarrow> bool" where
  "owner_inv s \<longleftrightarrow> publisher_ok (publisher_of s) \<and> cache_ok (permissions s) \<and>
     ((\<forall>t. owner (publisher_of s) \<noteq> OwnerTerminal t) \<longrightarrow>
        tracker_ok (turn_kinds (sink_records (publisher_of s))) (tracker s))"

lemma owner_inv_new: "owner_inv new_runtime_owner"
  using publisher_ok_new tracker_ok_new
  by (simp add: owner_inv_def new_runtime_owner_def cache_ok_def empty_cache_def new_publisher_def)

lemma owner_inv_cache: "owner_inv s \<Longrightarrow> cache_ok c \<Longrightarrow> owner_inv (s\<lparr>permissions := c\<rparr>)"
  by (simp add: owner_inv_def)

lemma owner_inv_answered [simp]: "owner_inv (s\<lparr>answered := l\<rparr>) = owner_inv s"
  by (simp add: owner_inv_def)

lemma published_is_terminal: "\<exists>t'. owner (snd (publish_terminal t p)) = OwnerTerminal t'"
  by (auto simp: publish_terminal_def publish_terminal_locked_def split: owner_state.splits)

lemma owner_inv_published:
  "owner_inv s \<Longrightarrow> owner_inv (s\<lparr>publisher_of := snd (publish_terminal t (publisher_of s))\<rparr>)"
  using published_is_terminal [of t "publisher_of s"]
  by (auto simp: owner_inv_def intro: publisher_ok_publish_terminal)

lemma owner_inv_lost: "owner_inv s \<Longrightarrow> owner_inv (lose_stream s)"
  unfolding lose_stream_def by (rule owner_inv_published)

lemma owner_inv_begin: "owner_inv s \<Longrightarrow> owner_inv (s\<lparr>publisher_of := snd (begin_stopping (publisher_of s))\<rparr>)"
  by (auto simp: owner_inv_def publisher_ok_begin) (auto simp: begin_stopping_def split: owner_state.splits)

text \<open>A message that does not end the owner adds its turn event, if it has one.\<close>

lemma emit_driver_kinds:
  assumes "\<forall>t. owner (emit_driver i terminal p) \<noteq> OwnerTerminal t"
  shows "turn_kinds (sink_records (emit_driver i terminal p)) =
      turn_kinds (sink_records p) @ (case turn_kind i of Some k \<Rightarrow> [k] | None \<Rightarrow> [])"
    and "\<forall>t. owner p \<noteq> OwnerTerminal t"
proof -
  show still: "\<forall>t. owner p \<noteq> OwnerTerminal t"
    using assms by (auto simp: emit_driver_def)
  show "turn_kinds (sink_records (emit_driver i terminal p)) =
      turn_kinds (sink_records p) @ (case turn_kind i of Some k \<Rightarrow> [k] | None \<Rightarrow> [])"
    using still assms
    by (auto simp: emit_driver_def Let_def emit_locked_def publish_terminal_locked_def
        split: owner_state.splits option.splits if_splits)
qed

lemma owner_inv_message: "owner_inv s \<Longrightarrow> owner_inv (fst (pump_message now members i s))"
proof -
  assume inv: "owner_inv s"
  let ?terminal = "case i of ChildExited e \<Rightarrow> Some (exit_terminal members (observe_turn now i (tracker s)) e) | _ \<Rightarrow> None"
  let ?s = "s\<lparr>tracker := observe_turn now i (tracker s), publisher_of := emit_driver i ?terminal (publisher_of s)\<rparr>"
  have "owner_inv ?s"
    using inv emit_driver_kinds [of i ?terminal "publisher_of s"] tracker_ok_observe [of _ "tracker s" i now]
      publisher_ok_emit_driver [of "publisher_of s" i ?terminal]
    unfolding owner_inv_def by simp
  then show ?thesis
    using cache_ok_steps(4) [of "permissions s"] inv
    by (simp add: pump_message_def Let_def owner_inv_def)
qed

lemma owner_inv_pump: "owner_inv s \<Longrightarrow> owner_inv (fst (pump_event key_of now responded members i s))"
proof -
  assume inv: "owner_inv s"
  have "owner_inv s1" if "answer_request key_of responded r s = Some s1" for r s1
    using that inv cache_ok_steps(1) [of "permissions s"]
    by (auto simp: answer_request_def owner_inv_cache owner_inv_def split: if_splits)
  then show ?thesis
    using inv owner_inv_lost owner_inv_message
    by (auto simp: pump_event_def split: inbound.splits wire_message.splits option.splits)
qed

lemma owner_inv_step: "owner_inv s \<Longrightarrow> owner_step key_of s t \<Longrightarrow> owner_inv t"
proof (erule owner_stepE)
  assume inv: "owner_inv s"
  have cache: "cache_ok (permissions s)" using inv by (simp add: owner_inv_def)
  note steps = cache_ok_steps [OF cache]
  { fix now responded members i assume "t = fst (pump_event key_of now responded members i s)"
    with owner_inv_pump [OF inv] show ?thesis by simp }
  { assume "t = pump_disconnected s"
    with inv steps(4) show ?thesis by (simp add: pump_disconnected_def owner_inv_lost owner_inv_cache) }
  { assume "t = s\<lparr>publisher_of := snd (begin_stopping (publisher_of s))\<rparr>"
    with owner_inv_begin [OF inv] show ?thesis by simp }
  { fix x assume "t = s\<lparr>publisher_of := snd (publish_terminal x (publisher_of s)), permissions := clear_cache (permissions s)\<rparr>"
    with owner_inv_published [OF inv] steps(4) show ?thesis by (simp add: owner_inv_def) }
  { fix key assume "t = s\<lparr>permissions := complete_permission key (permissions s)\<rparr>"
    with inv steps(2) show ?thesis by (simp add: owner_inv_cache) }
  { fix key v assume "t = s\<lparr>permissions := record_denial key v (permissions s)\<rparr>"
    with inv steps(3) show ?thesis by (simp add: owner_inv_cache) }
qed

interpretation runtime: invariant_machine new_runtime_owner "owner_step key_of" owner_inv for key_of
  by unfold_locales (auto intro: owner_inv_new owner_inv_step)


section \<open>What holds of every run\<close>

lemma one_terminal:
  assumes "\<not> list_ex P before"
  shows "filter P before = []"
  using assms by (induction before) auto

lemma closed_publisher_is_final:
  assumes "owner_step key_of s u" "owner (publisher_of s) = OwnerTerminal t"
  shows "publisher_of u = publisher_of s"
  using assms
  by (elim owner_stepE)
    (auto simp: pump_event_def pump_message_def pump_disconnected_def lose_stream_def answer_request_def
      publish_terminal_def begin_stopping_def emit_driver_def Let_def
      split: inbound.splits wire_message.splits option.splits if_splits)

text \<open>
  Claim C16. A runtime ends once: over every interleaving of the event pump with callers that stop the
  process, the sink gets at most one terminal record, which is the last record, is the state of
  the owner and is never followed by another; and the records are numbered 1, 2, 3 and on.
\<close>

theorem terminal_is_published_once:
  assumes "reach new_runtime_owner (owner_step key_of) s"
  shows "(case owner (publisher_of s) of
       OwnerTerminal t \<Rightarrow> filter is_terminal_record (sink_records (publisher_of s)) = [last (sink_records (publisher_of s))] \<and>
         record_event (last (sink_records (publisher_of s))) = TerminalEvent t \<and>
         (\<forall>u. owner_step key_of s u \<longrightarrow> publisher_of u = publisher_of s)
     | _ \<Rightarrow> filter is_terminal_record (sink_records (publisher_of s)) = []) \<and>
    (\<forall>k < length (sink_records (publisher_of s)).
       uint (record_sequence (sink_records (publisher_of s) ! k)) = min (int k + 1) max_u64)"
proof -
  have ok: "publisher_ok (publisher_of s)"
    using runtime.reach_inv [OF assms] by (simp add: owner_inv_def)
  show ?thesis
  proof (cases "owner (publisher_of s)")
    case (OwnerTerminal t)
    with ok obtain before n where
      "sink_records (publisher_of s) = before @ [\<lparr>record_sequence = n, record_event = TerminalEvent t\<rparr>]"
      "\<not> list_ex is_terminal_record before"
      by (auto simp: publisher_ok_def)
    moreover have "publisher_of u = publisher_of s" if "owner_step key_of s u" for u
      using closed_publisher_is_final [OF that OwnerTerminal] .
    ultimately show ?thesis
      using OwnerTerminal publisher_okD(2) [OF ok]
      by (simp add: one_terminal is_terminal_record_def [of "\<lparr>record_sequence = n, record_event = TerminalEvent t\<rparr>"])
  qed (use ok publisher_okD(2) [OF ok] publisher_ok_open [OF ok] one_terminal in simp_all)
qed

text \<open>
  Claim C29. Success needs a completed turn: the pump only declares a runtime completed when its child
  exits with code zero, its process group is observed to be empty, and the last turn that the
  recorded events started was completed.
\<close>

theorem success_needs_completed_turn:
  assumes "reach new_runtime_owner (owner_step key_of) s"
    and "\<forall>t. owner (publisher_of s) \<noteq> OwnerTerminal t"
    and "owner (publisher_of (fst (pump_event key_of now responded members (ChildExited e) s))) =
      OwnerTerminal (TerminalCompleted out)"
  shows "members = Inr [] \<and> e = Exited (Some 0) \<and>
    (\<exists>before after. turn_kinds (sink_records (publisher_of s)) =
       before @ [''turn.started'', ''turn.completed''] @ after \<and> ''turn.started'' \<notin> set after)"
proof -
  let ?t = "observe_turn now (ChildExited e) (tracker s)"
  have "exit_terminal members ?t e = TerminalCompleted out"
    using assms(2,3)
    by (auto simp: pump_event_def pump_message_def emit_driver_def publish_terminal_locked_def emit_locked_def
        Let_def is_exit_def split: owner_state.splits if_splits)
  then have exit: "members = Inr []" "e = Exited (Some 0)" "boundary ?t = Some BoundaryCompleted"
    by (auto simp: exit_terminal_def split: if_splits)
  have "tracker_ok (turn_kinds (sink_records (publisher_of s))) (tracker s)"
    using runtime.reach_inv [OF assms(1)] assms(2) by (simp add: owner_inv_def)
  then have "tracker_ok (turn_kinds (sink_records (publisher_of s))) ?t"
    by (rule tracker_ok_other [rotated]) (simp add: turn_kind_def inbound_event_type_def)
  with exit show ?thesis unfolding tracker_ok_def by fastforce
qed

text \<open>
  Claim C24. A permission answer was offered: whatever the interleaving, an answer that the cache gives
  for a request is the response the runtime itself offered for that decision in the request that is
  pending under that key, with a reason added to a denial; and at most 128 requests are pending.
\<close>

theorem cached_answer_was_offered:
  assumes "reach new_runtime_owner (owner_step key_of) s"
    and "cached_response key decision validated (permissions s) = Some answer"
  shows "length (cached_requests (permissions s)) \<le> 128 \<and>
    (\<exists>offered. (key, offered) \<in> set (cached_requests (permissions s)) \<and>
       (decision = ''allow'' \<and> offered_permission_response (offered_params offered) ''allow'' = Some answer \<or>
        decision = ''deny'' \<and>
          (\<exists>fields text. offered_permission_response (offered_params offered) ''deny'' = Some (JObject fields) \<and>
             answer = JObject (insert_field ''reason'' (JString text) fields))))"
proof -
  have ok: "cache_ok (permissions s)"
    using runtime.reach_inv [OF assms(1)] by (simp add: owner_inv_def)
  obtain offered where entry: "map_of (cached_requests (permissions s)) key = Some offered"
    using assms(2) by (auto simp: cached_response_def bind_eq_Some_conv)
  then have mem: "(key, offered) \<in> set (cached_requests (permissions s))" by (rule map_of_SomeD)
  then have self: "offered_responses (offered_params offered) = Some offered"
    using ok by (auto simp: cache_ok_def)
  then have offers: "offered_permission_response (offered_params offered) ''allow'' = Some (allow_response offered)"
    "offered_permission_response (offered_params offered) ''deny'' = Some (deny_response offered)"
    by (auto simp: offered_responses_def split: option.splits) (metis permission_responses.select_convs)+
  have bound: "length (cached_requests (permissions s)) \<le> 128"
    using ok by (simp add: cache_ok_def max_pending_permission_responses_def)
  consider (allow) "decision = ''allow''" "answer = allow_response offered"
    | (deny) entries why where "decision = ''deny''" "as_object (deny_response offered) = Some entries"
        "answer = JObject (insert_field ''reason'' (JString why) entries)"
    using assms(2) entry
    by (auto simp: cached_response_def bind_eq_Some_conv Let_def split: if_splits)
  then show ?thesis
  proof cases
    case allow
    with offers(1) mem bound show ?thesis by auto
  next
    case deny
    then have "deny_response offered = JObject entries" by (cases "deny_response offered") auto
    with deny offers(2) mem bound show ?thesis by auto
  qed
qed


section \<open>Sample runs\<close>

definition turn_message :: "string \<Rightarrow> inbound" where
  "turn_message kind = Message (Event \<lparr>ev_method = session_event, ev_params = JObject [(''type'', JString kind)]\<rparr>)"

definition offer :: "string \<Rightarrow> string \<Rightarrow> json" where
  "offer kind decision = JObject [(''kind'', JString kind),
     (''response'', JObject [(''decision'', JString decision)])]"

definition permission_message :: inbound where
  "permission_message = Message (Request \<lparr>req_id = IntegerId 7, req_method = interaction_request_permission,
     req_params = JObject [(''options'', JArray [offer ''allow_once'' ''allow'', offer ''deny'' ''deny''])]\<rparr>)"

text \<open>A turn that completed, and a permission request that is pending.\<close>

definition after_turn :: runtime_owner where
  "after_turn = fst (pump_event sample_key 2 True (Inr []) (turn_message ''turn.completed'')
     (fst (pump_event sample_key 1 True (Inr []) (turn_message ''turn.started'') new_runtime_owner)))"

definition after_request :: runtime_owner where
  "after_request = fst (pump_event sample_key 1 True (Inr []) permission_message new_runtime_owner)"

lemma sample_owners_reachable:
  "reach new_runtime_owner (owner_step sample_key) after_turn"
  "reach new_runtime_owner (owner_step sample_key) after_request"
  "reach new_runtime_owner (owner_step sample_key) (pump_disconnected new_runtime_owner)"
  unfolding after_turn_def after_request_def
  by (blast intro: reach.intros owner_step.intros)+

lemma after_turn_eval:
  "owner (publisher_of after_turn) = OwnerRunning"
  "active (tracker after_turn) = False" "boundary (tracker after_turn) = Some BoundaryCompleted"
  by (simp_all add: after_turn_def pump_event_def pump_message_def turn_message_def new_runtime_owner_def
      new_publisher_def new_turn_tracker_def emit_driver_def emit_locked_def is_exit_def observe_turn_def
      inbound_event_type_def event_type_def get_str_def start_turn_def end_turn_def Let_def)

theorem terminal_is_published_once_witness:
  "filter is_terminal_record (sink_records (publisher_of (pump_disconnected new_runtime_owner))) =
     [last (sink_records (publisher_of (pump_disconnected new_runtime_owner)))] \<and>
   record_event (last (sink_records (publisher_of (pump_disconnected new_runtime_owner)))) =
     TerminalEvent (FailedRuntimeLost EventStreamLost)"
proof -
  have "owner (publisher_of (pump_disconnected new_runtime_owner)) = OwnerTerminal (FailedRuntimeLost EventStreamLost)"
    by (simp add: pump_disconnected_def lose_stream_def new_runtime_owner_def new_publisher_def
        publish_terminal_def publish_terminal_locked_def)
  with terminal_is_published_once [OF sample_owners_reachable(3)] show ?thesis by simp
qed

theorem success_needs_completed_turn_witness:
  "\<exists>before after. turn_kinds (sink_records (publisher_of after_turn)) =
     before @ [''turn.started'', ''turn.completed''] @ after \<and> ''turn.started'' \<notin> set after"
proof -
  have "owner (publisher_of (fst (pump_event sample_key 3 True (Inr []) (ChildExited (Exited (Some 0))) after_turn)))
      = OwnerTerminal (TerminalCompleted (AlreadyExited (Exited (Some 0))))"
    using after_turn_eval
    by (simp add: pump_event_def pump_message_def emit_driver_def is_exit_def exit_terminal_def observe_turn_def
        inbound_event_type_def publish_terminal_locked_def Let_def)
  with success_needs_completed_turn [OF sample_owners_reachable(1)] after_turn_eval(1)
  show ?thesis by fastforce
qed

theorem cached_answer_was_offered_witness:
  "cached_response (sample_key (IntegerId 7)) ''allow'' None (permissions after_request) =
     Some (JObject [(''decision'', JString ''allow'')]) \<and>
   (\<exists>offered. (sample_key (IntegerId 7), offered) \<in> set (cached_requests (permissions after_request)) \<and>
     offered_permission_response (offered_params offered) ''allow'' = Some (JObject [(''decision'', JString ''allow'')]))"
proof -
  have "cached_response (sample_key (IntegerId 7)) ''allow'' None (permissions after_request) =
     Some (JObject [(''decision'', JString ''allow'')])"
    by (simp add: after_request_def pump_event_def permission_message_def answer_request_def pump_message_def
        interaction_request_permission_def session_request_runtime_preferences_def new_runtime_owner_def
        empty_cache_def observe_permission_def remove_key_def max_pending_permission_responses_def
        offered_responses_def offered_permission_response_def offer_def get_str_def is_exit_def
        cached_response_def Let_def)
  with cached_answer_was_offered [OF sample_owners_reachable(2) this] show ?thesis by auto
qed

end
