(* ===== verification/Runtime_Activity_Properties.thy ===== *)
theory Runtime_Activity_Properties
  imports Runtime_Activity Runtime_Owner_Properties "HOL-Library.Multiset"
begin

text \<open>
  The passive activity tracker keeps within its bounds, counts its window exactly and hands every
  piece of text out once.
\<close>

section \<open>Bounds\<close>

inductive activity_step :: "(json \<Rightarrow> string) \<Rightarrow> passive_activity_state \<Rightarrow> passive_activity_state \<Rightarrow> bool"
  for to_string where
  observed: "activity_step to_string s (observe_at to_string e now wall s)"
| looked: "activity_step to_string s (snd (snapshot_at now consume s))"
| text_taken: "activity_step to_string s (snd (take_terminal_text s))"

definition samples_ok :: "passive_activity_state \<Rightarrow> bool" where
  "samples_ok s \<longleftrightarrow> distinct (sample_order s) \<and> distinct (map fst (activity_samples s)) \<and>
     set (sample_order s) = fst ` set (activity_samples s) \<and> length (sample_order s) \<le> max_activity_identities"

definition texts_ok :: "passive_activity_state \<Rightarrow> bool" where
  "texts_ok s \<longleftrightarrow> length (latest_text_tail s) \<le> max_latest_text_bytes \<and>
     (\<forall>b \<in> snd ` set (assistant_buffers s). length b \<le> max_latest_text_bytes) \<and>
     (\<forall>b. latest_progress s = Some b \<longrightarrow> length b \<le> max_latest_text_bytes)"

definition activity_ok :: "passive_activity_state \<Rightarrow> bool" where
  "activity_ok s \<longleftrightarrow> samples_ok s \<and> texts_ok s"

lemma length_keep_tail_le: "length (keep_tail n s) \<le> n"
  using length_dropWhile_le [of is_continuation "drop (length s - n) s"] by (simp add: keep_tail_def)

lemma length_bounded_tail: "length (bounded_tail s) \<le> max_latest_text_bytes"
  using length_keep_tail_le [of max_latest_text_bytes s] by (simp add: bounded_tail_def)

lemma set_remove_key: "set (remove_key key m) = {e \<in> set m. fst e \<noteq> key}"
  by (auto simp: remove_key_def)

lemma keys_remove_key: "fst ` set (remove_key key m) = fst ` set m - {key}"
  by (auto simp: set_remove_key)

lemma distinct_remove_key: "distinct (map fst m) \<Longrightarrow> distinct (map fst (remove_key key m))"
  unfolding remove_key_def by (induction m) auto

lemma texts_ok_append: "texts_ok s \<Longrightarrow> texts_ok (append_latest_text delta wall s)"
  by (simp add: texts_ok_def append_latest_text_def Let_def length_bounded_tail)

lemma texts_ok_buffer: "texts_ok s \<Longrightarrow> texts_ok (buffer_text message_id delta s)"
  by (auto simp: texts_ok_def buffer_text_def Let_def length_bounded_tail insert_entry_def set_remove_key)

lemma texts_ok_delta: "texts_ok s \<Longrightarrow> texts_ok (apply_delta wall p s)"
  by (simp add: apply_delta_def texts_ok_append texts_ok_buffer split: option.split)

lemma texts_ok_finish: "texts_ok s \<Longrightarrow> texts_ok (apply_finish p s)"
  by (auto simp: apply_finish_def texts_ok_def set_remove_key split: option.split dest!: map_of_SomeD)

lemma texts_ok_response: "texts_ok s \<Longrightarrow> texts_ok (apply_response p s)"
  by (simp add: apply_response_def texts_ok_def split: option.split)

text \<open>What the transitions and the texts leave alone.\<close>

lemma apply_transition_frame:
  "activity_samples (apply_transition now p s) = activity_samples s"
  "sample_order (apply_transition now p s) = sample_order s"
  "latest_text_tail (apply_transition now p s) = latest_text_tail s"
  "latest_text_truncated (apply_transition now p s) = latest_text_truncated s"
  "assistant_buffers (apply_transition now p s) = assistant_buffers s"
  "latest_progress (apply_transition now p s) = latest_progress s"
  by (auto simp: apply_transition_def Let_def split: option.split activity_transition.split)

lemma texts_frame:
  "activity_samples (apply_delta wall p s) = activity_samples s"
  "sample_order (apply_delta wall p s) = sample_order s"
  "activity_samples (apply_finish p s) = activity_samples s"
  "sample_order (apply_finish p s) = sample_order s"
  "activity_samples (apply_response p s) = activity_samples s"
  "sample_order (apply_response p s) = sample_order s"
  by (auto simp: apply_delta_def apply_finish_def apply_response_def append_latest_text_def buffer_text_def
      Let_def split: option.split)

lemma tail_frame:
  "latest_text_tail (apply_finish p s) = latest_text_tail s"
  "latest_text_truncated (apply_finish p s) = latest_text_truncated s"
  "latest_text_tail (apply_response p s) = latest_text_tail s"
  "latest_text_truncated (apply_response p s) = latest_text_truncated s"
  by (auto simp: apply_finish_def apply_response_def split: option.split)

definition after_texts :: "nat \<Rightarrow> u64 \<Rightarrow> parsed_activity \<Rightarrow> bool \<Rightarrow> passive_activity_state \<Rightarrow> passive_activity_state" where
  "after_texts now wall p admitted s =
     (let s4 = (if admitted \<and> is_model_delta (pa_sample p) then s\<lparr>last_model_delta_at := Some now\<rparr> else s)
      in if admitted then apply_response p (apply_finish p (apply_delta wall p s4)) else s4)"

definition received ::
  "(json \<Rightarrow> string) \<Rightarrow> runtime_event \<Rightarrow> nat \<Rightarrow> u64 \<Rightarrow> passive_activity_state \<Rightarrow> passive_activity_state" where
  "received to_string e now wall s =
     s\<lparr>observation := observe_payload to_string e (observation s),
       revision := saturating_add (revision s) 1,
       last_runtime_event_at := Some (now, wall),
       telemetry_degraded := (telemetry_degraded s \<or>
         pa_source (parse_passive_activity e) = TelemetrySource \<and>
         \<not> pa_telemetry_known (parse_passive_activity e))\<rparr>"

lemma observe_at_unfold:
  "observe_at to_string e now wall s =
     (let p = parse_passive_activity e; (s2, admitted) = admit_sample now p (received to_string e now wall s)
      in apply_transition now p (after_texts now wall p admitted (evict s2)))"
  by (simp add: observe_at_def received_def after_texts_def Let_def split: prod.split)

lemma received_frame:
  "activity_samples (received to_string e now wall s) = activity_samples s"
  "sample_order (received to_string e now wall s) = sample_order s"
  "latest_text_tail (received to_string e now wall s) = latest_text_tail s"
  "latest_text_truncated (received to_string e now wall s) = latest_text_truncated s"
  "texts_ok (received to_string e now wall s) = texts_ok s"
  by (simp_all add: received_def texts_ok_def)

lemma after_texts_samples:
  "activity_samples (after_texts now wall p admitted s) = activity_samples s"
  "sample_order (after_texts now wall p admitted s) = sample_order s"
  by (simp_all add: after_texts_def Let_def texts_frame)

lemma texts_ok_after: "texts_ok s \<Longrightarrow> texts_ok (after_texts now wall p admitted s)"
proof -
  assume "texts_ok s"
  then have "texts_ok (s\<lparr>last_model_delta_at := Some now\<rparr>)" by (simp add: texts_ok_def)
  with \<open>texts_ok s\<close> show ?thesis
    by (simp add: after_texts_def Let_def texts_ok_response texts_ok_finish texts_ok_delta)
qed

lemma evict_samples_ok:
  "distinct order \<Longrightarrow> distinct (map fst samples) \<Longrightarrow> set order = fst ` set samples \<Longrightarrow>
   evict_samples order samples = (order', samples') \<Longrightarrow>
   distinct order' \<and> distinct (map fst samples') \<and> set order' = fst ` set samples' \<and>
   length order' \<le> max_activity_identities"
proof (induction order samples rule: evict_samples.induct)
  case (1 samples)
  then show ?case by simp
next
  case (2 identity rest samples)
  show ?case
  proof (cases "max_activity_identities < length (identity # rest)")
    case True
    moreover have "set rest = fst ` set (remove_key identity samples)"
      using "2.prems"(1,3) by (auto simp: keys_remove_key)
    ultimately show ?thesis
      using 2 by (simp add: distinct_remove_key)
  next
    case False
    with "2.prems"(4) have "order' = identity # rest" "samples' = samples" by simp_all
    with False "2.prems"(1-3) show ?thesis by simp
  qed
qed

lemma evict_noop: "length (sample_order s) \<le> max_activity_identities \<Longrightarrow> evict s = s"
  by (cases "sample_order s") (simp_all add: evict_def)

lemma insert_in_order:
  assumes "distinct order" "distinct (map fst m)" "set order = fst ` set m"
  shows "distinct (if map_of m i = None then order @ [i] else order) \<and>
    distinct (map fst (insert_entry i x m)) \<and>
    set (if map_of m i = None then order @ [i] else order) = fst ` set (insert_entry i x m)"
proof -
  have new: "map_of m i = None \<longleftrightarrow> i \<notin> set order" using assms(3) by (simp add: map_of_eq_None_iff)
  have "fst ` set (insert_entry i x m) = insert i (set order)"
    unfolding insert_entry_def list.set image_insert keys_remove_key assms(3) by simp
  moreover have "distinct (map fst (insert_entry i x m))"
    using assms(2) keys_remove_key [of i m] by (simp add: insert_entry_def distinct_remove_key)
  ultimately show ?thesis
    using assms(1) unfolding new by (cases "i \<in> set order") (simp_all add: insert_absorb)
qed

lemma samples_ok_admit:
  "samples_ok s \<Longrightarrow> admit_sample now p s = (s', admitted) \<Longrightarrow> samples_ok (evict s')"
proof -
  assume ok: "samples_ok s" and step: "admit_sample now p s = (s', admitted)"
  have "distinct (sample_order s') \<and> distinct (map fst (activity_samples s')) \<and>
      set (sample_order s') = fst ` set (activity_samples s')"
  proof (cases "s' = s")
    case True
    with ok show ?thesis by (simp add: samples_ok_def)
  next
    case False
    with step obtain i k where ik: "pa_identity p = Some i" "pa_sample p = Some k"
      by (auto simp: admit_sample_def split: option.splits)
    from False step have
      order: "sample_order s' = (if map_of (activity_samples s) i = None then sample_order s @ [i] else sample_order s)"
      and samples: "activity_samples s' = insert_entry i
        \<lparr>sample_source = pa_source p, observed_at = now, sample_kind = k\<rparr> (activity_samples s)"
      by (auto simp: admit_sample_def ik Let_def split: if_splits)
    have "distinct (sample_order s)" "distinct (map fst (activity_samples s))"
      "set (sample_order s) = fst ` set (activity_samples s)"
      using ok by (simp_all add: samples_ok_def)
    from insert_in_order [OF this] show ?thesis unfolding order samples .
  qed
  moreover obtain order samples where "evict_samples (sample_order s') (activity_samples s') = (order, samples)"
    by fastforce
  ultimately show ?thesis
    using evict_samples_ok [of "sample_order s'" "activity_samples s'" order samples]
    by (simp add: evict_def samples_ok_def)
qed

lemma texts_ok_admit: "admit_sample now p s = (s', admitted) \<Longrightarrow> texts_ok s \<Longrightarrow> texts_ok (evict s')"
  by (auto simp: admit_sample_def Let_def evict_def texts_ok_def split: option.splits if_splits prod.split)

lemma activity_ok_observe: "activity_ok s \<Longrightarrow> activity_ok (observe_at to_string e now wall s)"
proof -
  assume ok: "activity_ok s"
  let ?p = "parse_passive_activity e" and ?s1 = "received to_string e now wall s"
  obtain s2 admitted where step: "admit_sample now ?p ?s1 = (s2, admitted)"
    by (cases "admit_sample now ?p ?s1")
  have "samples_ok ?s1" "texts_ok ?s1"
    using ok by (simp_all add: activity_ok_def samples_ok_def received_frame)
  then have "samples_ok (evict s2)" "texts_ok (after_texts now wall ?p admitted (evict s2))"
    using step by (auto intro: samples_ok_admit texts_ok_admit texts_ok_after)
  then show ?thesis
    using step by (simp add: observe_at_unfold Let_def activity_ok_def samples_ok_def texts_ok_def
        apply_transition_frame after_texts_samples)
qed

lemma activity_ok_step: "activity_ok s \<Longrightarrow> activity_step to_string s t \<Longrightarrow> activity_ok t"
  by (erule activity_step.cases)
    (simp_all add: activity_ok_observe,
     simp_all add: activity_ok_def samples_ok_def texts_ok_def snapshot_at_def take_terminal_text_def)

lemma activity_ok_new: "activity_ok new_activity"
  by (simp add: activity_ok_def samples_ok_def texts_ok_def new_activity_def)

interpretation activity: invariant_machine new_activity "activity_step to_string" activity_ok for to_string
  by unfold_locales (rule activity_ok_new, rule activity_ok_step)


section \<open>The window\<close>

definition weigh :: "bool \<Rightarrow> int" where "weigh b = (if b then 1 else 0)"

fun reasoning_weight :: "activity_sample_kind \<Rightarrow> int" where
  "reasoning_weight (ReasoningDelta bytes) = uint bytes"
| "reasoning_weight _ = 0"

fun text_weight :: "activity_sample_kind \<Rightarrow> int" where
  "text_weight (TextDelta bytes) = uint bytes"
| "text_weight _ = 0"

fun is_reasoning :: "activity_sample_kind \<Rightarrow> bool" where
  "is_reasoning (ReasoningDelta _) = True" | "is_reasoning _ = False"

fun is_text :: "activity_sample_kind \<Rightarrow> bool" where
  "is_text (TextDelta _) = True" | "is_text _ = False"

fun is_tool_start :: "activity_sample_kind \<Rightarrow> bool" where
  "is_tool_start (SampleToolStarted _) = True" | "is_tool_start _ = False"

text \<open>Each counter of the window with what a sample is to add to it.\<close>

definition counters :: "((passive_activity_window \<Rightarrow> u64) \<times> (activity_sample_kind \<Rightarrow> int)) list" where
  "counters =
    [(reasoning_delta_events, \<lambda>k. weigh (is_reasoning k)), (reasoning_delta_bytes, reasoning_weight),
     (text_delta_events, \<lambda>k. weigh (is_text k)), (text_delta_bytes, text_weight),
     (tool_calls_started, \<lambda>k. weigh (is_tool_start k)),
     (tool_calls_completed, \<lambda>k. weigh (k = SampleToolCompleted)),
     (tool_calls_failed, \<lambda>k. weigh (k = SampleToolFailed)),
     (read_calls, \<lambda>k. weigh (k = SampleToolStarted ReadTool)),
     (bash_calls, \<lambda>k. weigh (k = SampleToolStarted BashTool)),
     (other_tool_calls, \<lambda>k. weigh (k = SampleToolStarted OtherTool))]"

definition added :: "nat \<Rightarrow> (activity_sample_kind \<Rightarrow> int) \<Rightarrow> string \<times> activity_sample \<Rightarrow> int" where
  "added now weight e = (if in_window now (snd e) then weight (sample_kind (snd e)) else 0)"

lemma uint_max: "min (uint (x :: u64)) max_u64 = uint x"
  using uint_lt2p [of x] by (simp add: max_u64_def)

lemma count_sample_counts:
  "(c, weight) \<in> set counters \<Longrightarrow> 0 \<le> weight k \<and> uint (c (count_sample k w)) = min (uint (c w) + weight k) max_u64"
  unfolding counters_def
  by (cases k) (auto simp: count_sample_def Let_def weigh_def uint_saturating_add max_u64_def
      uint_max [unfolded max_u64_def] split: passive_tool_kind.split)

lemma window_counts:
  assumes "(c, weight) \<in> set counters"
  shows "uint (c (fold (\<lambda>(_, sample) w. if in_window now sample then count_sample (sample_kind sample) w else w)
      samples w)) = min (uint (c w) + (\<Sum>e \<leftarrow> samples. added now weight e)) max_u64"
proof (induction samples arbitrary: w)
  case Nil
  show ?case by (simp add: uint_max)
next
  case (Cons e samples)
  obtain key sample where e: "e = (key, sample)" by fastforce
  have sum: "0 \<le> (\<Sum>e \<leftarrow> samples. added now weight e)"
    using count_sample_counts [OF assms] by (auto simp: added_def intro!: sum_list_nonneg)
  note step = count_sample_counts [OF assms, of "sample_kind sample" w]
  show ?case
  proof (cases "in_window now sample")
    case True
    with Cons [of "count_sample (sample_kind sample) w"] sum step show ?thesis
      by (simp add: e added_def)
  next
    case False
    with Cons [of w] show ?thesis by (simp add: e added_def)
  qed
qed

lemma window_by_counters:
  "list_all (\<lambda>counter. counter v = counter w) (map fst counters) \<Longrightarrow> v = (w :: passive_activity_window)"
  by (intro passive_activity_window.equality) (simp_all add: counters_def)


section \<open>Texts\<close>

datatype activity_command = ObserveEvent runtime_event nat u64 | TakeSnapshot nat

fun run_activity ::
  "(json \<Rightarrow> string) \<Rightarrow> activity_command list \<Rightarrow> passive_activity_state \<Rightarrow>
   passive_activity_snapshot list \<times> passive_activity_state" where
  "run_activity to_string [] s = ([], s)"
| "run_activity to_string (ObserveEvent e now wall # rest) s =
     run_activity to_string rest (observe_at to_string e now wall s)"
| "run_activity to_string (TakeSnapshot now # rest) s =
     (case snapshot_at now True s of (shown, s1) \<Rightarrow>
        (case run_activity to_string rest s1 of (others, s2) \<Rightarrow> (shown # others, s2)))"

text \<open>
  The reference: an event counts unless an earlier one had its identity, but a session event counts
  after telemetry events alone. \<open>earlier\<close> has the earlier events, the latest first.
\<close>

definition sampled_as :: "string \<Rightarrow> parsed_activity list \<Rightarrow> parsed_activity list" where
  "sampled_as i earlier = filter (\<lambda>q. pa_identity q = Some i \<and> pa_sample q \<noteq> None) earlier"

definition counts_after :: "parsed_activity list \<Rightarrow> parsed_activity \<Rightarrow> bool" where
  "counts_after earlier p =
     (case (pa_identity p, pa_sample p) of
        (Some i, Some _) \<Rightarrow> sampled_as i earlier = [] \<or>
          pa_source p = SessionSource \<and> list_all (\<lambda>q. pa_source q = TelemetrySource) (sampled_as i earlier)
      | _ \<Rightarrow> True)"

fun reference_text :: "parsed_activity list \<Rightarrow> activity_command list \<Rightarrow> string" where
  "reference_text earlier [] = []"
| "reference_text earlier (TakeSnapshot now # rest) = reference_text earlier rest"
| "reference_text earlier (ObserveEvent e now wall # rest) =
     (let p = parse_passive_activity e
      in (if counts_after earlier p then (case pa_text_delta p of Some delta \<Rightarrow> delta | None \<Rightarrow> []) else []) @
         reference_text (p # earlier) rest)"

definition samples_match :: "parsed_activity list \<Rightarrow> passive_activity_state \<Rightarrow> bool" where
  "samples_match earlier s \<longleftrightarrow>
     (\<forall>i. case map_of (activity_samples s) i of
            None \<Rightarrow> sampled_as i earlier = []
          | Some sample \<Rightarrow> sampled_as i earlier \<noteq> [] \<and>
              (sample_source sample = TelemetrySource \<longleftrightarrow>
                list_all (\<lambda>q. pa_source q = TelemetrySource) (sampled_as i earlier)))"

lemma map_of_without_key: "map_of (remove_key k m) i = (if i = k then None else map_of m i)"
  unfolding remove_key_def by (induction m) auto

lemma parsed_source:
  "pa_source (parse_model_activity payload started p) = pa_source p"
  "pa_source (parse_permission_activity payload started p) = pa_source p"
  "pa_source (parse_tool_activity payload src p) = pa_source p"
  "pa_source (parse_session_activity params src p) = pa_source p"
  "pa_source (parse_telemetry_activity params src p) = pa_source p"
proof -
  show m: "pa_source (parse_model_activity payload started p) = pa_source p"
    "pa_source (parse_permission_activity payload started p) = pa_source p"
    "pa_source (parse_tool_activity payload src p) = pa_source p" for payload started src p
    by (auto simp: parse_model_activity_def parse_permission_activity_def parse_tool_activity_def Let_def
        split: option.split prod.split)
  show "pa_source (parse_session_activity params src p) = pa_source p"
    by (simp add: parse_session_activity_def Let_def m finish_message_def turn_transition_def)
  show "pa_source (parse_telemetry_activity params src p) = pa_source p"
    by (simp add: parse_telemetry_activity_def Let_def m parse_stream_chunk_def unknown_telemetry_def
        split: option.split)
qed

lemma parsed_message_source: "pa_source (parse_activity_message m params src) = src"
  by (simp add: parse_activity_message_def Let_def parsed_source runtime_parsed_def)

lemma sampled_source:
  "pa_sample (parse_passive_activity e) = None \<or> pa_source (parse_passive_activity e) \<noteq> RuntimeSource"
proof -
  have "pa_sample (parse_activity_message m params (method_source m)) = None \<or> method_source m \<noteq> RuntimeSource" for m params
    by (simp add: parse_activity_message_def method_source_def Let_def runtime_parsed_def)
  then show ?thesis
    by (simp add: parse_passive_activity_def runtime_parsed_def parse_permission_activity_def Let_def
        parsed_message_source split: runtime_event.split inbound.split wire_message.split)
qed

lemma admitted_matches:
  assumes "samples_match earlier s" "admit_sample now p s = (s', admitted)"
    and src: "pa_sample p = None \<or> pa_source p \<noteq> RuntimeSource"
  shows "admitted = counts_after earlier p"
    and "samples_match (p # earlier) s'"
    and "length (sample_order s') \<le> length (sample_order s) + 1"
    and "latest_text_tail s' = latest_text_tail s" "latest_text_truncated s' = latest_text_truncated s"
proof -
  show "latest_text_tail s' = latest_text_tail s" "latest_text_truncated s' = latest_text_truncated s"
    "length (sample_order s') \<le> length (sample_order s) + 1"
    using assms(2) by (auto simp: admit_sample_def Let_def split: option.splits if_splits)
  consider (no) "pa_identity p = None \<or> pa_sample p = None"
    | (yes) i k where "pa_identity p = Some i" "pa_sample p = Some k"
    by (cases "pa_identity p"; cases "pa_sample p") auto
  note by_case = this
  have at: "case map_of (activity_samples s) i of
      None \<Rightarrow> sampled_as i earlier = []
    | Some sample \<Rightarrow> sampled_as i earlier \<noteq> [] \<and> (sample_source sample = TelemetrySource \<longleftrightarrow>
        list_all (\<lambda>q. pa_source q = TelemetrySource) (sampled_as i earlier))" for i
    using assms(1) by (simp add: samples_match_def)
  show "admitted = counts_after earlier p"
  proof (cases rule: by_case)
    case no
    with assms(2) show ?thesis by (auto simp: admit_sample_def counts_after_def split: option.splits)
  next
    case (yes i k)
    with assms(2) at [of i] show ?thesis
      by (cases "map_of (activity_samples s) i") (auto simp: admit_sample_def counts_after_def split: if_splits)
  qed
  show "samples_match (p # earlier) s'"
  proof (cases rule: by_case)
    case no
    then have same: "sampled_as i (p # earlier) = sampled_as i earlier" for i by (auto simp: sampled_as_def)
    have "s' = s" using no assms(2) by (auto simp: admit_sample_def split: option.splits)
    with assms(1) show ?thesis unfolding samples_match_def same by simp
  next
    case (yes i k)
    then have new: "sampled_as j (p # earlier) = (if j = i then p # sampled_as i earlier else sampled_as j earlier)" for j
      by (auto simp: sampled_as_def)
    show ?thesis
      unfolding samples_match_def
    proof
      fix j
      show "case map_of (activity_samples s') j of
          None \<Rightarrow> sampled_as j (p # earlier) = []
        | Some sample \<Rightarrow> sampled_as j (p # earlier) \<noteq> [] \<and> (sample_source sample = TelemetrySource \<longleftrightarrow>
            list_all (\<lambda>q. pa_source q = TelemetrySource) (sampled_as j (p # earlier)))"
        using at [of j] assms(2) src yes unfolding new
        by (cases "pa_source p"; cases "map_of (activity_samples s) i"; cases "j = i")
          (auto simp: admit_sample_def insert_entry_def map_of_without_key split: if_splits)
    qed
  qed
qed

lemma apply_delta_tail:
  "\<not> latest_text_truncated (apply_delta wall p s) \<Longrightarrow> \<not> latest_text_truncated s \<and>
     latest_text_tail (apply_delta wall p s) =
       latest_text_tail s @ (case pa_text_delta p of Some delta \<Rightarrow> delta | None \<Rightarrow> [])"
  by (auto simp: apply_delta_def append_latest_text_def bounded_tail_def buffer_text_def Let_def split: option.splits)

lemma observe_tail:
  assumes "samples_match earlier s" "length (sample_order s) < max_activity_identities"
    and "\<not> latest_text_truncated (observe_at to_string e now wall s)"
  defines "p \<equiv> parse_passive_activity e"
  shows "samples_match (p # earlier) (observe_at to_string e now wall s)"
    and "length (sample_order (observe_at to_string e now wall s)) \<le> length (sample_order s) + 1"
    and "\<not> latest_text_truncated s"
    and "latest_text_tail (observe_at to_string e now wall s) = latest_text_tail s @
      (if counts_after earlier p then (case pa_text_delta p of Some delta \<Rightarrow> delta | None \<Rightarrow> []) else [])"
proof -
  let ?s1 = "received to_string e now wall s"
  obtain s2 admitted where step: "admit_sample now p ?s1 = (s2, admitted)" by (cases "admit_sample now p ?s1")
  have "samples_match earlier ?s1" using assms(1) by (simp add: samples_match_def received_frame)
  note m = admitted_matches [OF this step sampled_source [of e, folded p_def]]
  have keep: "evict s2 = s2" using m(3) assms(2) by (intro evict_noop) (simp add: received_frame)
  have obs: "observe_at to_string e now wall s = apply_transition now p (after_texts now wall p admitted s2)"
    using step keep by (simp add: observe_at_unfold Let_def p_def)
  show "samples_match (p # earlier) (observe_at to_string e now wall s)"
    using m(2) by (simp add: obs samples_match_def apply_transition_frame after_texts_samples)
  show "length (sample_order (observe_at to_string e now wall s)) \<le> length (sample_order s) + 1"
    using m(3) by (simp add: obs apply_transition_frame after_texts_samples received_frame)
  let ?s4 = "if admitted \<and> is_model_delta (pa_sample p) then s2\<lparr>last_model_delta_at := Some now\<rparr> else s2"
  have s4: "latest_text_tail ?s4 = latest_text_tail s" "latest_text_truncated ?s4 = latest_text_truncated s"
    using m(4,5) by (simp_all add: received_frame)
  have "\<not> latest_text_truncated (if admitted then apply_delta wall p ?s4 else ?s4)"
    using assms(3) by (simp add: obs apply_transition_frame after_texts_def Let_def tail_frame split: if_splits)
  then show "\<not> latest_text_truncated s"
    "latest_text_tail (observe_at to_string e now wall s) = latest_text_tail s @
      (if counts_after earlier p then (case pa_text_delta p of Some delta \<Rightarrow> delta | None \<Rightarrow> []) else [])"
    using s4 apply_delta_tail [of wall p ?s4] unfolding m(1) [symmetric]
    by (auto simp: obs apply_transition_frame after_texts_def Let_def tail_frame split: if_splits)
qed

lemma observe_keeps_truncation:
  "latest_text_truncated s \<Longrightarrow> latest_text_truncated (observe_at to_string e now wall s)"
proof -
  assume cut: "latest_text_truncated s"
  let ?p = "parse_passive_activity e"
  obtain s2 admitted where step: "admit_sample now ?p (received to_string e now wall s) = (s2, admitted)"
    by fastforce
  have "latest_text_truncated s2"
    using step cut by (auto simp: admit_sample_def Let_def received_frame split: option.splits if_splits)
  then have "latest_text_truncated (evict s2)" by (simp add: evict_def split: prod.split)
  then have "latest_text_truncated (apply_delta wall ?p (if b then evict s2\<lparr>last_model_delta_at := Some now\<rparr> else evict s2))" for b
    by (auto simp: apply_delta_def append_latest_text_def buffer_text_def Let_def split: option.split)
  note this [of True] this [of False]
  with \<open>latest_text_truncated (evict s2)\<close> step show ?thesis
    by (simp add: observe_at_unfold Let_def apply_transition_frame after_texts_def tail_frame)
qed

lemma run_keeps_truncation:
  "run_activity to_string cmds s = (shown, t) \<Longrightarrow> latest_text_truncated s \<Longrightarrow>
   latest_text_truncated t \<or> \<not> list_all (\<lambda>snap. \<not> snap_latest_text_truncated snap) shown"
proof (induction cmds arbitrary: s shown)
  case (Cons c cmds)
  then show ?case
    by (cases c) (auto simp: observe_keeps_truncation snapshot_at_def split: prod.splits)
qed simp

lemma run_delivers:
  assumes "run_activity to_string cmds s = (shown, t)"
    and "samples_match earlier s" "length (sample_order s) + length cmds \<le> max_activity_identities"
    and "\<not> latest_text_truncated t" "list_all (\<lambda>snap. \<not> snap_latest_text_truncated snap) shown"
  shows "\<not> latest_text_truncated s \<and>
    concat (map snap_latest_text_tail shown) @ latest_text_tail t = latest_text_tail s @ reference_text earlier cmds"
  using assms
proof (induction cmds arbitrary: s earlier shown)
  case Nil
  then show ?case by simp
next
  case (Cons c cmds)
  show ?case
  proof (cases c)
    case (ObserveEvent e now wall)
    let ?s = "observe_at to_string e now wall s" and ?p = "parse_passive_activity e"
    have run: "run_activity to_string cmds ?s = (shown, t)" using Cons.prems(1) ObserveEvent by simp
    show ?thesis
    proof (cases "latest_text_truncated ?s")
      case True
      have "latest_text_truncated t \<or> \<not> list_all (\<lambda>snap. \<not> snap_latest_text_truncated snap) shown"
        using run_keeps_truncation [OF run True] .
      with Cons.prems(4,5) show ?thesis by simp
    next
      case False
      have room: "length (sample_order s) < max_activity_identities" using Cons.prems(3) by simp
      note o = observe_tail [OF Cons.prems(2) room False]
      have "length (sample_order ?s) + length cmds \<le> max_activity_identities"
        using o(2) Cons.prems(3) by simp
      from Cons.IH [OF run o(1) this Cons.prems(4,5)] o(3,4) show ?thesis
        by (simp add: ObserveEvent Let_def)
    qed
  next
    case (TakeSnapshot now)
    obtain first s1 where look: "snapshot_at now True s = (first, s1)" by fastforce
    obtain others where run: "run_activity to_string cmds s1 = (others, t)" and shown: "shown = first # others"
      using Cons.prems(1) TakeSnapshot look by (auto split: prod.splits)
    have s1: "s1 = s\<lparr>latest_text_tail := [], latest_text_truncated := False\<rparr>"
      "snap_latest_text_tail first = latest_text_tail s" "snap_latest_text_truncated first = latest_text_truncated s"
      using look by (auto simp: snapshot_at_def)
    have "samples_match earlier s1" "length (sample_order s1) + length cmds \<le> max_activity_identities"
      using Cons.prems(2,3) by (simp_all add: s1 samples_match_def)
    from Cons.IH [OF run this Cons.prems(4)] Cons.prems(5) s1 show ?thesis
      by (simp add: TakeSnapshot shown)
  qed
qed

text \<open>
  Claim C20. Text is delivered exactly once: over any run of events and snapshots with at most 65536
  steps, as long as no snapshot reports a truncation, the texts of the snapshots in order and the
  text that is still undelivered make up exactly the text of the events that count, where an event
  counts unless an earlier event had its identity (a session event still counts after telemetry).
\<close>

theorem text_is_delivered_once:
  assumes "run_activity to_string cmds new_activity = (shown, s)" and "length cmds \<le> 65536"
    and "list_all (\<lambda>snap. \<not> snap_latest_text_truncated snap) shown" and "\<not> latest_text_truncated s"
  shows "concat (map snap_latest_text_tail shown) @ latest_text_tail s = reference_text [] cmds"
proof -
  have "samples_match [] new_activity" "latest_text_tail new_activity = []"
    by (simp_all add: samples_match_def new_activity_def sampled_as_def)
  moreover have "length (sample_order new_activity) + length cmds \<le> max_activity_identities"
    using assms(2) by (simp add: new_activity_def max_activity_identities_def)
  ultimately show ?thesis using run_delivers [OF assms(1) _ _ assms(4,3), of "[]"] by simp
qed

section \<open>Instances\<close>

definition delta_event :: "string \<Rightarrow> string \<Rightarrow> runtime_event" where
  "delta_event i delta = DriverEvent (Message (UnknownEvent ''session/event'' (JObject [(''params'',
     JObject [(''type'', JString ''model.streaming''), (''eventId'', JString i),
       (''payload'', JObject [(''kind'', JString ''text_delta''), (''delta'', JString delta)])])])))"

definition sample_commands :: "activity_command list" where
  "sample_commands = [ObserveEvent (delta_event ''a'' ''one '') 5 1, TakeSnapshot 6,
     ObserveEvent (delta_event ''a'' ''one '') 7 1, ObserveEvent (delta_event ''b'' ''two'') 8 1, TakeSnapshot 9,
     ObserveEvent (delta_event ''c'' ''!'') 10 2]"

definition sample_activity :: passive_activity_state where
  "sample_activity = snd (run_activity (\<lambda>_. []) sample_commands new_activity)"

definition parsed_delta :: "string \<Rightarrow> string \<Rightarrow> parsed_activity" where
  "parsed_delta i delta = runtime_parsed\<lparr>pa_source := SessionSource, pa_identity := Some (''stream:'' @ i),
     pa_sample := Some (TextDelta (word_of_nat (length delta))), pa_text_delta := Some delta\<rparr>"

lemma parse_delta:
  "activity_id (Some (JString i)) = Some i \<Longrightarrow> parse_passive_activity (delta_event i delta) = parsed_delta i delta"
  by (simp add: parse_passive_activity_def delta_event_def parse_activity_message_def method_source_def Let_def
      parse_session_activity_def get_str_def or_null_def runtime_parsed_def parsed_delta_def stream_identity_def
      stream_key_def activity_id_def delta_bytes_def)

lemma delta_ids: "activity_id (Some (JString ''a'')) = Some ''a''" "activity_id (Some (JString ''b'')) = Some ''b''"
  "activity_id (Some (JString ''c'')) = Some ''c''"
  by (simp_all add: activity_id_def max_activity_id_bytes_def)

lemma observe_delta:
  fixes to_string :: "json \<Rightarrow> string" and now :: nat and wall :: u64
  assumes "activity_id (Some (JString i)) = Some i" "length (sample_order s) < max_activity_identities"
    "length (latest_text_tail s @ delta) \<le> max_latest_text_bytes"
  defines "s1 \<equiv> received to_string (delta_event i delta) now wall s"
  shows "map_of (activity_samples s) (''stream:'' @ i) = None \<Longrightarrow> observe_at to_string (delta_event i delta) now wall s =
      s1\<lparr>sample_order := sample_order s @ [''stream:'' @ i],
        activity_samples := insert_entry (''stream:'' @ i) \<lparr>sample_source = SessionSource, observed_at = now,
          sample_kind = TextDelta (word_of_nat (length delta))\<rparr> (activity_samples s),
        last_model_delta_at := Some now, terminal_text := terminal_text s @ delta,
        latest_text_tail := latest_text_tail s @ delta, latest_text_updated_at := Some wall\<rparr>"
    and "map_of (activity_samples s) (''stream:'' @ i) = Some \<lparr>sample_source = SessionSource, observed_at = t,
      sample_kind = k\<rparr> \<Longrightarrow> observe_at to_string (delta_event i delta) now wall s = s1"
proof -
  note parsed = parse_delta [OF assms(1), of delta]
  have run: "observe_at to_string (delta_event i delta) now wall s =
     (let p = parsed_delta i delta; (s2, admitted) = admit_sample now p s1
      in apply_transition now p (after_texts now wall p admitted (evict s2)))"
    unfolding s1_def observe_at_unfold parsed ..
  show "observe_at to_string (delta_event i delta) now wall s =
      s1\<lparr>sample_order := sample_order s @ [''stream:'' @ i],
        activity_samples := insert_entry (''stream:'' @ i) \<lparr>sample_source = SessionSource, observed_at = now,
          sample_kind = TextDelta (word_of_nat (length delta))\<rparr> (activity_samples s),
        last_model_delta_at := Some now, terminal_text := terminal_text s @ delta,
        latest_text_tail := latest_text_tail s @ delta, latest_text_updated_at := Some wall\<rparr>"
    if "map_of (activity_samples s) (''stream:'' @ i) = None"
    using that assms(2,3) unfolding run
    by (simp add: admit_sample_def parsed_delta_def runtime_parsed_def s1_def received_def Let_def evict_noop
        after_texts_def is_model_delta_def apply_delta_def append_latest_text_def bounded_tail_def
        apply_finish_def apply_response_def apply_transition_def)
  show "observe_at to_string (delta_event i delta) now wall s = s1"
    if "map_of (activity_samples s) (''stream:'' @ i) = Some \<lparr>sample_source = SessionSource, observed_at = t,
      sample_kind = k\<rparr>"
    using that assms(2) unfolding run
    by (simp add: admit_sample_def parsed_delta_def runtime_parsed_def s1_def received_def Let_def evict_noop
        after_texts_def apply_transition_def)
qed

lemma sample_run:
  "map snap_latest_text_tail (fst (run_activity (\<lambda>_. []) sample_commands new_activity)) = [''one '', ''two'']"
  "map snap_latest_text_truncated (fst (run_activity (\<lambda>_. []) sample_commands new_activity)) = [False, False]"
  "latest_text_truncated sample_activity = False"
  "activity_samples sample_activity =
     [(''stream:c'', \<lparr>sample_source = SessionSource, observed_at = 10, sample_kind = TextDelta 1\<rparr>),
      (''stream:b'', \<lparr>sample_source = SessionSource, observed_at = 8, sample_kind = TextDelta 3\<rparr>),
      (''stream:a'', \<lparr>sample_source = SessionSource, observed_at = 5, sample_kind = TextDelta 4\<rparr>)]"
  unfolding sample_activity_def sample_commands_def
  by (simp_all add: observe_delta delta_ids new_activity_def received_def max_activity_identities_def
      max_latest_text_bytes_def snapshot_at_def insert_entry_def remove_key_def)

lemma sample_reference: "reference_text [] sample_commands = ''one two!''"
  by (simp add: sample_commands_def Let_def parse_delta delta_ids counts_after_def parsed_delta_def
      runtime_parsed_def sampled_as_def)

theorem text_is_delivered_once_witness:
  "concat (map snap_latest_text_tail (fst (run_activity (\<lambda>_. []) sample_commands new_activity))) @
     latest_text_tail sample_activity = ''one two!''"
proof -
  have "run_activity (\<lambda>_. []) sample_commands new_activity =
      (fst (run_activity (\<lambda>_. []) sample_commands new_activity), sample_activity)"
    by (simp add: sample_activity_def)
  moreover have "length sample_commands \<le> 65536" by (simp add: sample_commands_def)
  moreover have "list_all (\<lambda>snap. \<not> snap_latest_text_truncated snap)
      (fst (run_activity (\<lambda>_. []) sample_commands new_activity))"
    using sample_run(2) by (auto simp: list_all_iff map_eq_Cons_conv)
  moreover have "\<not> latest_text_truncated sample_activity" using sample_run(3) by simp
  ultimately show ?thesis
    using text_is_delivered_once [of "\<lambda>_. []" sample_commands
        "fst (run_activity (\<lambda>_. []) sample_commands new_activity)" sample_activity] sample_reference by simp
qed



end
