(* ===== verification/Task_World.thy ===== *)
theory Task_World
  imports Store_Machine Runtime_Activity Runtime_Session Prep_General
begin

text \<open>
  What the threads of one task share in the daemon (\<open>crates/zcode-agentd/src/lib.rs\<close>): the store,
  the lifecycle of the runtime, the activity tracker, the state of the sink and the latest failures.

  The store is shared with every other thread of the daemon, so an access to it is a point where
  others may have run: the world carries a schedule, and each access first applies to the database
  what the others did meanwhile and reads its own clock. All theorems about the daemon hold for
  every schedule whose entries are runs of store methods.
\<close>

section \<open>The lifecycle of a runtime\<close>

datatype runtime_lifecycle_phase =
    LifecycleRunning | StopRequested | StopAcknowledged | ForceTerminating | LifecycleTerminal

record runtime_lifecycle =
  rl_phase :: runtime_lifecycle_phase
  rl_runtime_generation :: u64
  rl_turn_generation :: u64
  rl_stop_requested_at :: "nat option"
  rl_observed_boundary :: "turn_boundary option"
  rl_force_termination_count :: u64
  rl_late_event_count :: u64

definition max_bounded_late_event_diagnostics :: u64 where
  "max_bounded_late_event_diagnostics = 64"

definition new_lifecycle :: "u64 \<Rightarrow> runtime_lifecycle" where
  "new_lifecycle runtime_generation = \<lparr>rl_phase = LifecycleRunning,
     rl_runtime_generation = runtime_generation, rl_turn_generation = 0, rl_stop_requested_at = None,
     rl_observed_boundary = None, rl_force_termination_count = 0, rl_late_event_count = 0\<rparr>"

definition note_stop :: "nat \<Rightarrow> turn_snapshot \<Rightarrow> runtime_lifecycle \<Rightarrow> runtime_lifecycle" where
  "note_stop now turn l =
     (if rl_phase l = LifecycleRunning
      then l\<lparr>rl_phase := StopRequested, rl_turn_generation := turn_generation turn,
             rl_stop_requested_at := Some now\<rparr>
      else l)"

definition acknowledge_boundary :: "turn_snapshot \<Rightarrow> runtime_lifecycle \<Rightarrow> bool \<times> runtime_lifecycle" where
  "acknowledge_boundary turn l =
     (if (rl_phase l = StopRequested \<or> rl_phase l = StopAcknowledged) \<and>
         turn_generation turn = rl_turn_generation l \<and>
         \<not> turn_active turn \<and> turn_boundary turn \<noteq> None
      then (True, l\<lparr>rl_phase := StopAcknowledged, rl_observed_boundary := turn_boundary turn\<rparr>)
      else (False, l))"

definition force_terminating :: "runtime_lifecycle \<Rightarrow> runtime_lifecycle" where
  "force_terminating l =
     (if rl_phase l \<noteq> ForceTerminating \<and> rl_phase l \<noteq> LifecycleTerminal
      then l\<lparr>rl_phase := ForceTerminating,
             rl_force_termination_count := saturating_add (rl_force_termination_count l) 1\<rparr>
      else l)"

definition terminalize :: "runtime_lifecycle \<Rightarrow> runtime_lifecycle" where
  "terminalize l = l\<lparr>rl_phase := LifecycleTerminal\<rparr>"

definition ingress_reason :: "runtime_lifecycle \<Rightarrow> string option" where
  "ingress_reason l =
     (case rl_phase l of
        LifecycleRunning \<Rightarrow> None
      | LifecycleTerminal \<Rightarrow> Some ''LATE_AFTER_STOP''
      | _ \<Rightarrow> Some ''TASK_STOPPING'')"

definition admit_event :: "runtime_lifecycle \<Rightarrow> bool \<times> runtime_lifecycle" where
  "admit_event l =
     (if rl_phase l = LifecycleRunning then (True, l)
      else (False, l\<lparr>rl_late_event_count :=
             (let n = saturating_add (rl_late_event_count l) 1
              in if n \<le> max_bounded_late_event_diagnostics then n else max_bounded_late_event_diagnostics)\<rparr>))"

text \<open>
  A cooperative stop; \<open>current\<close> is the turn that is observed and \<open>stopped\<close> the answer of
  \<open>stop_turn\<close>, which is only asked for when the turn is active. The result is the control error.
\<close>

definition request_cooperative_stop ::
  "nat \<Rightarrow> turn_snapshot \<Rightarrow> (command_error + turn_snapshot) \<Rightarrow> runtime_lifecycle \<Rightarrow>
   string option \<times> runtime_lifecycle" where
  "request_cooperative_stop now current stopped l =
     (case acknowledge_boundary current (note_stop now current l) of
        (True, l1) \<Rightarrow> (None, l1)
      | (False, l1) \<Rightarrow>
          if turn_active current then
            (case stopped of
               Inr b \<Rightarrow>
                 (case acknowledge_boundary b l1 of
                    (True, l2) \<Rightarrow> (None, l2)
                  | (False, l2) \<Rightarrow>
                      (Some ''session/stop returned without a matching turn boundary'', force_terminating l2))
             | Inl e \<Rightarrow> (Some (command_error_text e), force_terminating l1))
          else (Some ''active turn had no matching stop boundary'', force_terminating l1))"

section \<open>The world of a task\<close>

record sink_write_state =
  first_error :: "string option"
  last_source_sequence :: u64
  pending_terminal_sequence :: "u64 option"
  terminal_written :: bool

definition new_sink :: sink_write_state where
  "new_sink = \<lparr>first_error = None, last_source_sequence = 0, pending_terminal_sequence = None,
     terminal_written = False\<rparr>"

text \<open>The calls to the runtime, in order; the answers are arguments of what makes the calls.\<close>

datatype runtime_call =
    CallSpawn
  | CallStartSession
  | CallSendTurn string string
  | CallRespond string string
  | CallCloseSession string
  | CallStopTurn string
  | CallFinishTurn turn_boundary
  | CallStop

record task_world =
  w_db :: db
  w_schedule :: "(clock \<times> (db \<Rightarrow> db)) list"
  w_interrupts :: "(runtime_lifecycle \<Rightarrow> runtime_lifecycle) list"
  w_lifecycle :: runtime_lifecycle
  w_activity :: passive_activity_state
  w_sink :: sink_write_state
  w_failures :: "(string \<times> string) list"
  w_active_epoch :: "u64 option"
  w_check_cancelled :: bool
  w_calls :: "runtime_call list"
  w_clock :: "nat list"

datatype scheduler_error =
    StoreFailure store_error
  | InvalidConfig string
  | RuntimeSpawn string string
  | LifecycleSinkFailed string string
  | RuntimeCommand string string

fun store_error_text :: "(sqlite_error \<Rightarrow> string) \<Rightarrow> store_error \<Rightarrow> string" where
  "store_error_text sqlite (Sqlite e) = ''SQLite store error: '' @ sqlite e"
| "store_error_text sqlite LegacySchemaUnsupported =
     ''STORE_SCHEMA_VERSION_UNSUPPORTED: existing Store must be backed up and recreated''"
| "store_error_text sqlite (InvalidState m) = ''invalid store state: '' @ m"
| "store_error_text sqlite (Conflict m) = ''store conflict: '' @ m"

fun scheduler_error_text :: "(sqlite_error \<Rightarrow> string) \<Rightarrow> scheduler_error \<Rightarrow> string" where
  "scheduler_error_text sqlite (StoreFailure e) = store_error_text sqlite e"
| "scheduler_error_text sqlite (InvalidConfig m) = ''invalid scheduler config: '' @ m"
| "scheduler_error_text sqlite (RuntimeSpawn i m) = ''runtime spawn failed for '' @ i @ '': '' @ m"
| "scheduler_error_text sqlite (LifecycleSinkFailed i m) = ''lifecycle sink failed for '' @ i @ '': '' @ m"
| "scheduler_error_text sqlite (RuntimeCommand i m) = ''runtime command failed for '' @ i @ '': '' @ m"

text \<open>One access to the store.\<close>

definition others_run :: "task_world \<Rightarrow> clock \<times> task_world" where
  "others_run w =
     (case w_schedule w of
        [] \<Rightarrow> ((\<lambda>_. 0), w)
      | (now, f) # rest \<Rightarrow> (now, w\<lparr>w_db := f (w_db w), w_schedule := rest\<rparr>))"

definition store_call :: "(clock \<Rightarrow> 'a op) \<Rightarrow> (task_world, store_error, 'a) action" where
  "store_call method w =
     (case others_run w of (now, w1) \<Rightarrow>
        (case method now (w_db w1) of (r, d) \<Rightarrow> (r, w1\<lparr>w_db := d\<rparr>)))"

definition store_read :: "(db \<Rightarrow> 'a store_result) \<Rightarrow> (task_world, store_error, 'a) action" where
  "store_read query = store_call (\<lambda>_ d. (query d, d))"

definition from_store :: "(task_world, store_error, 'a) action \<Rightarrow> (task_world, scheduler_error, 'a) action" where
  "from_store m w = (case m w of (r, w1) \<Rightarrow> (map_sum StoreFailure id r, w1))"

text \<open>A reading of the monotonic clock and a call to the runtime.\<close>

definition read_time :: "(task_world, 'e, nat) action" where
  "read_time w = (case w_clock w of [] \<Rightarrow> (Inr 0, w) | t # ts \<Rightarrow> (Inr t, w\<lparr>w_clock := ts\<rparr>))"

definition call_runtime :: "runtime_call \<Rightarrow> (task_world, 'e, unit) action" where
  "call_runtime c w = (Inr (), w\<lparr>w_calls := w_calls w @ [c]\<rparr>)"

text \<open>A look at the lifecycle, which a control operation may have changed since the last one.\<close>

definition look_lifecycle :: "(task_world, 'e, runtime_lifecycle) action" where
  "look_lifecycle w =
     (case w_interrupts w of
        [] \<Rightarrow> (Inr (w_lifecycle w), w)
      | f # rest \<Rightarrow>
          (Inr (f (w_lifecycle w)), w\<lparr>w_lifecycle := f (w_lifecycle w), w_interrupts := rest\<rparr>))"

text \<open>An error that is handled: \<open>handler\<close> gets the result.\<close>

definition catch ::
  "('s, 'e, 'a) action \<Rightarrow> ('e \<Rightarrow> ('s, 'f, 'b) action) \<Rightarrow> ('a \<Rightarrow> ('s, 'f, 'b) action) \<Rightarrow> ('s, 'f, 'b) action" where
  "catch m handler continue w = (case m w of (Inl e, w1) \<Rightarrow> handler e w1 | (Inr a, w1) \<Rightarrow> continue a w1)"

definition modify :: "('s \<Rightarrow> 's) \<Rightarrow> ('s, 'e, unit) action" where
  "modify f w = (Inr (), f w)"

definition inspect :: "('s \<Rightarrow> 'a) \<Rightarrow> ('s, 'e, 'a) action" where
  "inspect f w = (Inr (f w), w)"

section \<open>Properties of the database that every schedule keeps\<close>

definition runs_of :: "(db \<Rightarrow> db \<Rightarrow> bool) \<Rightarrow> (clock \<times> (db \<Rightarrow> db)) list \<Rightarrow> bool" where
  "runs_of step schedule \<longleftrightarrow> (\<forall>(now, f) \<in> set schedule. \<forall>d. step\<^sup>*\<^sup>* d (f d))"

lemma runs_of_simps [simp]: "runs_of step []" "runs_of step ((now, f) # rest) \<longleftrightarrow>
    (\<forall>d. step\<^sup>*\<^sup>* d (f d)) \<and> runs_of step rest"
  by (auto simp: runs_of_def)

text \<open>A predicate that no store method invalidates, whoever calls it.\<close>

locale stable_predicate =
  fixes P :: "db \<Rightarrow> bool" and step :: "db \<Rightarrow> db \<Rightarrow> bool"
  assumes stable: "P d \<Longrightarrow> step d d' \<Longrightarrow> P d'"
begin

definition keeps :: "(task_world, 'e, 'a) action \<Rightarrow> bool" where
  "keeps m \<longleftrightarrow> (\<forall>w. runs_of step (w_schedule w) \<longrightarrow> P (w_db w) \<longrightarrow>
     runs_of step (w_schedule (snd (m w))) \<and> P (w_db (snd (m w))))"

lemma stable_run: "step\<^sup>*\<^sup>* d d' \<Longrightarrow> P d \<Longrightarrow> P d'"
  by (induction rule: rtranclp_induct) (auto intro: stable)

lemma keepsD:
  "keeps m \<Longrightarrow> m w = (r, w') \<Longrightarrow> runs_of step (w_schedule w) \<Longrightarrow> P (w_db w) \<Longrightarrow>
   runs_of step (w_schedule w') \<and> P (w_db w')"
  by (metis keeps_def snd_conv)

lemma keeps_others: "runs_of step (w_schedule w) \<Longrightarrow> P (w_db w) \<Longrightarrow>
   runs_of step (w_schedule (snd (others_run w))) \<and> P (w_db (snd (others_run w)))"
  by (auto simp: others_run_def split: list.split) (metis stable_run)

lemma keeps_call: "(\<And>now d. step\<^sup>*\<^sup>* d (snd (method now d))) \<Longrightarrow> keeps (store_call method)"
  unfolding keeps_def store_call_def
  using keeps_others by (auto split: prod.split) (metis snd_conv, metis snd_conv stable_run)

lemma keeps_method: "(\<And>now d. P d \<Longrightarrow> P (snd (method now d))) \<Longrightarrow> keeps (store_call method)"
  unfolding keeps_def store_call_def
  using keeps_others by (auto split: prod.split) (metis snd_conv)+

lemma keeps_read: "keeps (store_read query)"
  unfolding store_read_def by (rule keeps_call) simp

lemma keeps_step: "(\<And>now d. step d (snd (method now d))) \<Longrightarrow> keeps (store_call method)"
  by (rule keeps_call) blast

lemma keeps_bind: "keeps m \<Longrightarrow> (\<And>a. keeps (f a)) \<Longrightarrow> keeps (bindE m f)"
  unfolding keeps_def bindE_def by (auto split: prod.split sum.split)

lemma keeps_catch: "keeps m \<Longrightarrow> (\<And>e. keeps (h e)) \<Longrightarrow> (\<And>a. keeps (f a)) \<Longrightarrow> keeps (catch m h f)"
  unfolding keeps_def catch_def by (auto split: prod.split sum.split)

lemma keeps_from_store: "keeps m \<Longrightarrow> keeps (from_store m)"
  unfolding keeps_def from_store_def by (auto split: prod.split)

lemma keeps_pure: "keeps (return_ok a)" "keeps (fail_with e)" "keeps (lift_result r)" "keeps (inspect g)"
  by (simp_all add: keeps_def return_ok_def fail_with_def lift_result_def inspect_def)

lemma keeps_time: "keeps read_time" "keeps (call_runtime c)"
  by (auto simp: keeps_def read_time_def call_runtime_def split: list.split)

lemma keeps_look: "keeps look_lifecycle"
  by (auto simp: keeps_def look_lifecycle_def split: list.split)

lemma keeps_modify: "(\<And>w. w_db (f w) = w_db w \<and> w_schedule (f w) = w_schedule w) \<Longrightarrow> keeps (modify f)"
  by (simp add: keeps_def modify_def)

end

end
