(* ===== verification/Task_Sink.thy ===== *)
theory Task_Sink
  imports Task_World Store_Commands
begin

text \<open>
  The sink of one task (\<open>crates/zcode-agentd/src/lib.rs\<close>): what it writes to the event log for a
  record of the runtime, when it admits a natural completion, and how a result is stored.

  The printer of \<open>serde_json\<close>, the text of an SQLite error and the SHA-256 of a result are
  parameters.
\<close>

record sink_host =
  sk_print :: "json \<Rightarrow> string"
  sk_sqlite_text :: "sqlite_error \<Rightarrow> string"
  sk_digest :: "task_result \<Rightarrow> string"

record sink_identity =
  sk_agent_id :: string
  sk_runtime_agent_id :: string
  sk_owner_epoch :: u64

section \<open>The projection of an event\<close>

record lifecycle_projection =
  proj_event_type :: string
  proj_payload :: json
  proj_redaction_level :: string

fun lifecycle_order_name :: "lifecycle_order \<Rightarrow> string" where
  "lifecycle_order_name NotLifecycle = ''not_lifecycle''"
| "lifecycle_order_name InOrder = ''in_order''"
| "lifecycle_order_name (OutOfOrder _) = ''out_of_order''"

fun child_exit_name :: "child_exit \<Rightarrow> string" where
  "child_exit_name (Exited None) = ''exited_unknown''"
| "child_exit_name (Exited (Some code)) = (if code = 0 then ''exited_success'' else ''exited_failure'')"
| "child_exit_name (Signaled _) = ''signaled''"
| "child_exit_name UnknownExit = ''unknown''"

fun stop_outcome_name :: "stop_outcome \<Rightarrow> string" where
  "stop_outcome_name (AlreadyExited _) = ''already_exited''"
| "stop_outcome_name (Terminated _) = ''terminated''"

fun runtime_loss_name :: "runtime_loss \<Rightarrow> string" where
  "runtime_loss_name InvalidIdentity = ''invalid_identity''"
| "runtime_loss_name UnsupportedIdentity = ''unsupported_identity''"
| "runtime_loss_name MissingLeader = ''missing_leader''"
| "runtime_loss_name IdentityMismatch = ''identity_mismatch''"
| "runtime_loss_name UnknownMembership = ''unknown_membership''"
| "runtime_loss_name SessionLost = ''session_lost''"
| "runtime_loss_name (StopFailed _) = ''stop_failed''"
| "runtime_loss_name EventStreamLost = ''event_stream_lost''"

fun runtime_loss_redaction :: "runtime_loss \<Rightarrow> string" where
  "runtime_loss_redaction (StopFailed _) = ''redacted''"
| "runtime_loss_redaction _ = ''allowlisted''"

definition optional_str :: "string option \<Rightarrow> json" where
  "optional_str v = (case v of None \<Rightarrow> JNull | Some s \<Rightarrow> JString s)"

definition projected :: "string \<Rightarrow> (string \<times> json) list \<Rightarrow> string \<Rightarrow> lifecycle_projection" where
  "projected kind entries level = \<lparr>proj_event_type = kind, proj_payload = JObject entries, proj_redaction_level = level\<rparr>"

fun driver_projection :: "inbound \<Rightarrow> string option \<Rightarrow> lifecycle_projection" where
  "driver_projection (Message (Request r)) request_id = projected ''driver.message''
     [(''kind'', JString ''request''), (''method'', JString (req_method r)), (''request_id'', optional_str request_id)]
     ''redacted''"
| "driver_projection (Message (Response r)) request_id = projected ''driver.message''
     [(''kind'', JString ''response''),
      (''outcome'', JString (if resp_error r \<noteq> None then ''error'' else ''result''))] ''redacted''"
| "driver_projection (Message (Event e)) request_id = projected ''driver.message''
     [(''kind'', JString ''event''), (''method'', JString (ev_method e)), (''type'', optional_str (Protocol.event_type e))]
     ''redacted''"
| "driver_projection (Message (UnknownEvent _ _)) request_id = projected ''raw.unknown''
     [(''kind'', JString ''unknown_event''), (''raw'', JString ''[REDACTED]'')] ''redacted''"
| "driver_projection (Lifecycle sequence m order) request_id = projected ''driver.lifecycle''
     [(''kind'', JString ''lifecycle''), (''sequence'', JNumber (PosInt sequence)), (''method'', JString m),
      (''order'', JString (lifecycle_order_name order))] ''allowlisted''"
| "driver_projection (Malformed _) request_id = projected ''driver.malformed''
     [(''kind'', JString ''malformed''), (''detail'', JString ''[REDACTED]'')] ''redacted''"
| "driver_projection (OversizedLine bytes) request_id = projected ''driver.oversized_line''
     [(''kind'', JString ''oversized_line''), (''bytes'', JNumber (PosInt (word_of_nat bytes)))] ''allowlisted''"
| "driver_projection (ChildExited e) request_id = projected ''driver.child_exited''
     [(''kind'', JString ''child_exited''), (''outcome'', JString (child_exit_name e))] ''allowlisted''"
| "driver_projection (UnmatchedResponse _ out) request_id = projected ''driver.unmatched_response''
     [(''kind'', JString ''unmatched_response''), (''outcome'', JString out)] ''redacted''"

fun terminal_projection :: "runtime_terminal \<Rightarrow> lifecycle_projection" where
  "terminal_projection (TerminalStopped out) = projected ''runtime.stopped''
     [(''kind'', JString ''stopped''), (''outcome'', JString (stop_outcome_name out))] ''allowlisted''"
| "terminal_projection (TerminalCompleted out) = projected ''runtime.completed''
     [(''kind'', JString ''completed''), (''outcome'', JString (stop_outcome_name out))] ''allowlisted''"
| "terminal_projection (TerminalFailedTurn out) = projected ''runtime.turn_failed''
     [(''kind'', JString ''turn_failed''), (''outcome'', JString (stop_outcome_name out))] ''allowlisted''"
| "terminal_projection (TerminalExited e) = projected ''runtime.exited''
     [(''kind'', JString ''exited''), (''outcome'', JString (child_exit_name e))] ''allowlisted''"
| "terminal_projection (FailedRuntimeLost loss) = projected ''runtime.failed_runtime_lost''
     [(''kind'', JString ''failed_runtime_lost''), (''reason'', JString (runtime_loss_name loss))]
     (runtime_loss_redaction loss)"
| "terminal_projection (Orphaned loss) = projected ''runtime.orphaned''
     [(''kind'', JString ''orphaned''), (''reason'', JString (runtime_loss_name loss))]
     (runtime_loss_redaction loss)"

definition lifecycle_projection :: "runtime_event \<Rightarrow> string option \<Rightarrow> lifecycle_projection" where
  "lifecycle_projection e request_id =
     (case e of
        DriverEvent i \<Rightarrow> driver_projection i request_id
      | TerminalEvent t \<Rightarrow> terminal_projection t)"

section \<open>Emitting a record\<close>

definition set_first_error :: "string \<Rightarrow> task_world \<Rightarrow> task_world" where
  "set_first_error m w = w\<lparr>w_sink := (w_sink w)\<lparr>first_error := Some m\<rparr>\<rparr>"

definition is_input_request :: "request_envelope \<Rightarrow> bool" where
  "is_input_request r \<longleftrightarrow>
     req_method r = interaction_request_permission \<or> req_method r = interaction_request_user_input"

definition request_kind :: "request_envelope \<Rightarrow> string" where
  "request_kind r = (if req_method r = interaction_request_permission then ''permission'' else ''unsupported_input'')"

definition record_request ::
  "sink_host \<Rightarrow> sink_identity \<Rightarrow> lifecycle_record \<Rightarrow> (task_world, store_error, string option) action" where
  "record_request h k r =
     (case record_event r of
        DriverEvent (Message (Request q)) \<Rightarrow>
          if is_input_request q then
            (let request_id = sk_agent_id k @ '':request:'' @ show_nat (unat (record_sequence r))
             in bindE (store_call (\<lambda>now. insert_pending_request now request_id (sk_agent_id k)
                  (sk_print h (wire_id_value (req_id q))) (request_kind q) (sk_print h (req_params q)))) (\<lambda>_.
                return_ok (Some request_id)))
          else return_ok None
      | _ \<Rightarrow> return_ok None)"

definition event_turn_state :: "runtime_event \<Rightarrow> Store_Types.turn_state option" where
  "event_turn_state e =
     (case e of
        DriverEvent (Lifecycle _ m _) \<Rightarrow>
          if m = ''turn.started'' then Some turn_state.TurnActive
          else if m = ''turn.completed'' then Some turn_state.TurnIdle
          else if m = ''turn.failed'' then Some turn_state.TurnFailed
          else None
      | _ \<Rightarrow> None)"

definition lifecycle_write_of ::
  "sink_host \<Rightarrow> sink_identity \<Rightarrow> u64 \<Rightarrow> runtime_event \<Rightarrow> string option \<Rightarrow> lifecycle_write" where
  "lifecycle_write_of h k sequence e request_id =
     (let p = lifecycle_projection e request_id
      in \<lparr>lw_agent_id = sk_agent_id k, lw_runtime_agent_id = sk_runtime_agent_id k,
          lw_owner_epoch = sk_owner_epoch k, lw_source_sequence = sequence,
          lw_event_type = proj_event_type p, lw_turn_id = None, lw_payload_json = sk_print h (proj_payload p),
          lw_redaction_level = proj_redaction_level p, lw_terminal = None,
          lw_turn_state = event_turn_state e\<rparr>)"

definition write_record :: "sink_host \<Rightarrow> sink_identity \<Rightarrow> lifecycle_record \<Rightarrow> (task_world, store_error, unit) action" where
  "write_record h k r =
     bindE (record_request h k r) (\<lambda>request_id.
     bindE (store_call (\<lambda>now. append_lifecycle now
       (lifecycle_write_of h k (record_sequence r) (record_event r) request_id))) (\<lambda>_. return_ok ()))"

definition is_terminal_event :: "runtime_event \<Rightarrow> bool" where
  "is_terminal_event e = (case e of TerminalEvent _ \<Rightarrow> True | _ \<Rightarrow> False)"

definition note_sequence :: "u64 \<Rightarrow> task_world \<Rightarrow> task_world" where
  "note_sequence n w = w\<lparr>w_sink := (w_sink w)\<lparr>last_source_sequence := max (last_source_sequence (w_sink w)) n\<rparr>\<rparr>"

definition emit ::
  "sink_host \<Rightarrow> sink_identity \<Rightarrow> nat \<Rightarrow> u64 \<Rightarrow> lifecycle_record \<Rightarrow> task_world \<Rightarrow> task_world" where
  "emit h k now wall r w =
     (case admit_event (w_lifecycle w) of
        (False, l) \<Rightarrow> w\<lparr>w_lifecycle := l\<rparr>
      | (True, l) \<Rightarrow>
          let w1 = w\<lparr>w_activity := observe_at (sk_print h) (record_event r) now wall (w_activity w)\<rparr>
          in if first_error (w_sink w1) \<noteq> None then w1
             else
               let w2 = note_sequence (record_sequence r) w1
               in if is_terminal_event (record_event r)
                  then w2\<lparr>w_sink := (w_sink w2)\<lparr>pending_terminal_sequence := Some (record_sequence r)\<rparr>\<rparr>
                  else
                    (case write_record h k r w2 of
                       (Inl e, w3) \<Rightarrow> set_first_error (store_error_text (sk_sqlite_text h) e) w3
                     | (Inr _, w3) \<Rightarrow> w3))"

section \<open>Results\<close>

fun task_outcome_of :: "completion_outcome \<Rightarrow> task_outcome" where
  "task_outcome_of completion_outcome.Completed = task_outcome.Completed"
| "task_outcome_of completion_outcome.Failed = task_outcome.Failed"
| "task_outcome_of completion_outcome.Cancelled = task_outcome.Cancelled"
| "task_outcome_of completion_outcome.TimedOut = task_outcome.TimedOut"
| "task_outcome_of completion_outcome.RuntimeLost = task_outcome.RuntimeLost"
| "task_outcome_of completion_outcome.ResultInvalid = task_outcome.ResultInvalid"

fun completion_outcome_debug :: "completion_outcome \<Rightarrow> string" where
  "completion_outcome_debug completion_outcome.Completed = ''Completed''"
| "completion_outcome_debug completion_outcome.Failed = ''Failed''"
| "completion_outcome_debug completion_outcome.Cancelled = ''Cancelled''"
| "completion_outcome_debug completion_outcome.TimedOut = ''TimedOut''"
| "completion_outcome_debug completion_outcome.RuntimeLost = ''RuntimeLost''"
| "completion_outcome_debug completion_outcome.ResultInvalid = ''ResultInvalid''"

definition task_result :: "general_completion \<Rightarrow> task_result" where
  "task_result c =
     \<lparr>res_outcome = task_outcome_of (gc_outcome c),
      res_final_text =
        (if trim (gc_summary c) = []
         then (case gc_reason_code c of
                 Some code \<Rightarrow> code
               | None \<Rightarrow> ''general task ended with '' @ completion_outcome_debug (gc_outcome c))
         else gc_summary c),
      res_partial = (gc_outcome c \<noteq> completion_outcome.Completed)\<rparr>"

definition minimal_task_result :: "completion_outcome \<Rightarrow> string \<Rightarrow> string \<Rightarrow> task_result" where
  "minimal_task_result out summary code =
     \<lparr>res_outcome = task_outcome_of out, res_final_text = (if trim summary = [] then code else summary),
      res_partial = (out \<noteq> completion_outcome.Completed)\<rparr>"

definition bounded_cancelled_task_result :: task_result where
  "bounded_cancelled_task_result =
     \<lparr>res_outcome = task_outcome.Cancelled, res_final_text = ''task cancelled'', res_partial = True\<rparr>"

definition bounded_result_invalid_task_result :: task_result where
  "bounded_result_invalid_task_result =
     \<lparr>res_outcome = task_outcome.ResultInvalid, res_final_text = ''result unavailable'', res_partial = True\<rparr>"

definition store_result :: "sink_host \<Rightarrow> string \<Rightarrow> task_result \<Rightarrow> (task_world, store_error, unit) action" where
  "store_result h i res = store_call (\<lambda>now. store_task_result (sk_digest h) now i res)"

definition require_task :: "string \<Rightarrow> string \<Rightarrow> (task_world, store_error, task_record) action" where
  "require_task i missing =
     bindE (store_read (get_task i)) (\<lambda>found. lift_result (ok_or (InvalidState missing) found))"

definition store_result_with_cancel_precedence ::
  "sink_host \<Rightarrow> string \<Rightarrow> task_result \<Rightarrow> (task_world, store_error, unit) action" where
  "store_result_with_cancel_precedence h i res =
     catch (store_result h i res)
       (\<lambda>e. case e of
          Conflict m \<Rightarrow>
            bindE (require_task i ''terminal result task disappeared'') (\<lambda>task.
            if (tr_stop_requested task \<or> tr_close_requested task) \<and> res_outcome res \<noteq> task_outcome.Cancelled
            then bindE (store_read (task_result_of i)) (\<lambda>stored.
                 if stored = None then store_result h i bounded_cancelled_task_result
                 else fail_with (Conflict m))
            else fail_with (Conflict m))
        | _ \<Rightarrow> fail_with e)
       return_ok"

definition persist_general_result ::
  "sink_host \<Rightarrow> string \<Rightarrow> general_completion \<Rightarrow> (task_world, store_error, unit) action" where
  "persist_general_result h i c = store_result_with_cancel_precedence h i (task_result c)"

section \<open>The end of a task\<close>

datatype natural_completion_admission = Ready | Deferred bool bool | Bypass

definition begin_natural_completion ::
  "string \<Rightarrow> (task_world, store_error, natural_completion_admission) action" where
  "begin_natural_completion i w =
     (if rl_phase (w_lifecycle w) \<noteq> LifecycleRunning then (Inr Bypass, w)
      else
        bindE (store_read (completion_blockers i)) (\<lambda>(asked, queued).
        if asked \<or> queued then return_ok (Deferred asked queued)
        else bindE (modify (\<lambda>w. w\<lparr>w_lifecycle := terminalize (w_lifecycle w)\<rparr>)) (\<lambda>_. return_ok Ready)) w)"

definition final_phase :: "string \<Rightarrow> string \<Rightarrow> (task_world, store_error, task_phase) action" where
  "final_phase i missing = bindE (require_task i missing) (\<lambda>task. return_ok (tr_phase task))"

definition terminal_sequence :: "sink_write_state \<Rightarrow> u64" where
  "terminal_sequence s =
     (case pending_terminal_sequence s of Some n \<Rightarrow> n | None \<Rightarrow> saturating_add (last_source_sequence s) 1)"

definition set_terminal_written :: "task_world \<Rightarrow> task_world" where
  "set_terminal_written w = w\<lparr>w_sink := (w_sink w)\<lparr>terminal_written := True\<rparr>\<rparr>"

definition finish_general ::
  "sink_host \<Rightarrow> sink_identity \<Rightarrow> runtime_terminal \<Rightarrow> general_completion \<Rightarrow>
   (task_world, store_error, task_phase) action" where
  "finish_general h k t c =
     bindE (inspect w_sink) (\<lambda>s.
     case first_error s of
       Some e \<Rightarrow> fail_with (InvalidState e)
     | None \<Rightarrow>
         if terminal_written s then final_phase (sk_agent_id k) ''terminal task disappeared''
         else
           bindE (store_call (\<lambda>now. append_lifecycle now
             (lifecycle_write_of h k (terminal_sequence s) (TerminalEvent t) None))) (\<lambda>_.
           bindE (persist_general_result h (sk_agent_id k) c) (\<lambda>_.
           bindE (if gc_cleaned c \<and> terminal_proves_process_group_reaped t
                  then bindE (store_call (\<lambda>now. reap_task now (sk_agent_id k))) (\<lambda>_. return_ok ())
                  else return_ok ()) (\<lambda>_.
           bindE (modify set_terminal_written) (\<lambda>_.
           final_phase (sk_agent_id k) ''terminal task disappeared'')))))"

section \<open>Completions\<close>

definition finalized_general ::
  "host \<Rightarrow> prepared_general_task \<Rightarrow> completion_outcome \<Rightarrow> string \<Rightarrow> string \<Rightarrow> general_completion" where
  "finalized_general h p out code m =
     (let c = finalize h p out;
          c1 = (if trim (gc_summary c) = []
                then c\<lparr>gc_summary := (if trim m = [] then code else m)\<rparr> else c)
      in if gc_reason_code c1 = None \<and> out \<noteq> completion_outcome.Completed
         then c1\<lparr>gc_reason_code := Some code\<rparr> else c1)"

definition unreaped_general :: "completion_outcome \<Rightarrow> string \<Rightarrow> string \<Rightarrow> general_completion" where
  "unreaped_general out code m =
     \<lparr>gc_outcome = out,
      gc_reason_code = (if out \<noteq> completion_outcome.Completed then Some code else None),
      gc_summary = (if trim m = [] then code else m), gc_residual_gaps = [], gc_cleaned = False\<rparr>"

end
