(* ===== verification/Diagnostics.thy ===== *)
theory Diagnostics
  imports Observation "HOL-Library.Multiset"
begin

text \<open>
  The failure records of the daemon and the file they are appended to
  (\<open>crates/zcode-agentd/src/lib.rs\<close>): every variable field is cut before it is printed, so that a
  line always fits the queue of the diagnostic writer, and the file is rotated in place.

  \<open>render_json\<close> is the compact printer of \<open>serde_json\<close>, with the escapes it writes.
\<close>

section \<open>The printer\<close>

definition hex_digit :: "nat \<Rightarrow> char" where
  "hex_digit n = (if n < 10 then char_of (48 + n) else char_of (87 + n))"

definition escape_byte :: "char \<Rightarrow> string" where
  "escape_byte c =
     (if c = CHR 0x22 then [CHR 0x5C, CHR 0x22]
      else if c = CHR 0x5C then [CHR 0x5C, CHR 0x5C]
      else if c = CHR 0x08 then [CHR 0x5C, CHR ''b'']
      else if c = CHR 0x0C then [CHR 0x5C, CHR ''f'']
      else if c = CHR 0x0A then [CHR 0x5C, CHR ''n'']
      else if c = CHR 0x0D then [CHR 0x5C, CHR ''r'']
      else if c = CHR 0x09 then [CHR 0x5C, CHR ''t'']
      else if byte c < 32
      then [CHR 0x5C, CHR ''u'', CHR ''0'', CHR ''0'', hex_digit (byte c div 16), hex_digit (byte c mod 16)]
      else [c])"

definition quote_string :: "string \<Rightarrow> string" where
  "quote_string s = CHR 0x22 # concat (map escape_byte s) @ [CHR 0x22]"

definition show_integer :: "int \<Rightarrow> string" where
  "show_integer i = (if i < 0 then CHR ''-'' # show_nat (nat (- i)) else show_nat (nat i))"

fun render_number :: "json_number \<Rightarrow> string" where
  "render_number (PosInt n) = show_nat (unat n)"
| "render_number (NegInt i) = show_integer i"
| "render_number (Float s) = s"

fun intersperse :: "string \<Rightarrow> string list \<Rightarrow> string" where
  "intersperse sep [] = []"
| "intersperse sep [x] = x"
| "intersperse sep (x # y # rest) = x @ sep @ intersperse sep (y # rest)"

fun render_json :: "json \<Rightarrow> string" where
  "render_json JNull = ''null''"
| "render_json (JBool b) = (if b then ''true'' else ''false'')"
| "render_json (JNumber n) = render_number n"
| "render_json (JString s) = quote_string s"
| "render_json (JArray items) = ''['' @ intersperse '','' (map render_json items) @ '']''"
| "render_json (JObject entries) =
     ''{'' @ intersperse '','' (map (\<lambda>(k, v). quote_string k @ '':'' @ render_json v) entries) @ ''}''"

section \<open>Cut texts\<close>

definition marker :: string where "marker = [CHR 0xE2, CHR 0x80, CHR 0xA6]"

definition char_starts :: "string \<Rightarrow> nat list" where
  "char_starts s = filter (\<lambda>k. \<not> is_continuation (s ! k)) [0..<length s]"

definition last_or :: "nat \<Rightarrow> nat list \<Rightarrow> nat" where
  "last_or n xs = (if xs = [] then n else last xs)"

definition bounded_prefix :: "string \<Rightarrow> nat \<Rightarrow> string" where
  "bounded_prefix s max_bytes =
     (if length s \<le> max_bytes then s
      else let limit = max_bytes - length marker
           in take (last_or 0 (takeWhile (\<lambda>k. k \<le> limit) (char_starts s))) s @ marker)"

definition bounded_error :: "string \<Rightarrow> string" where
  "bounded_error s = bounded_prefix s 4096"

section \<open>The record\<close>

fun as_i64 :: "json \<Rightarrow> int option" where
  "as_i64 (JNumber (PosInt n)) = (if uint n \<le> i64_max then Some (uint n) else None)"
| "as_i64 (JNumber (NegInt i)) = (if in_i64 i then Some i else None)"
| "as_i64 _ = None"

definition integer_json :: "int \<Rightarrow> json" where
  "integer_json i = JNumber (if 0 \<le> i then PosInt (word_of_int i) else NegInt i)"

definition stderr_tail_bytes :: nat where "stderr_tail_bytes = 16 * 1024"

definition latest_stderr :: "string \<Rightarrow> string" where
  "latest_stderr s = (if stderr_tail_bytes < length s then keep_tail stderr_tail_bytes s else s)"

definition detail_field :: "string \<Rightarrow> json \<Rightarrow> (string \<times> json) list" where
  "detail_field key detail =
     (case get_str detail key of None \<Rightarrow> [] | Some v \<Rightarrow> [(key, JString (bounded_prefix v 1024))])"

definition detail_fields :: "json \<Rightarrow> (string \<times> json) list" where
  "detail_fields detail =
     detail_field ''operation'' detail @ detail_field ''remote_message'' detail @ detail_field ''cleanup_result'' detail"

definition remote_code :: "json \<Rightarrow> (string \<times> json) list" where
  "remote_code detail =
     (case Option.bind (get detail ''remote_code'') as_i64 of None \<Rightarrow> [] | Some i \<Rightarrow> [(''remote_code'', integer_json i)])"

text \<open>An object keeps its entries in the order of their keys.\<close>

definition json_object :: "(string \<times> json) list \<Rightarrow> json" where
  "json_object entries = JObject (sort_key fst entries)"

text \<open>\<open>parse_json\<close> is \<open>serde_json::from_str\<close>.\<close>

definition failure_entries ::
  "(string \<Rightarrow> json option) \<Rightarrow> string \<Rightarrow> string option \<Rightarrow> string \<Rightarrow> string \<Rightarrow> string \<Rightarrow> string \<Rightarrow> (string \<times> json) list" where
  "failure_entries parse_json i session stage error_code m stderr_tail =
     (let detail = parse_json m;
          shown = (case Option.bind detail (\<lambda>v. get_str v ''message'') of Some s \<Rightarrow> s | None \<Rightarrow> m)
      in [(''agent_id'', JString (bounded_error i)),
          (''session_id'', case session of Some s \<Rightarrow> JString (bounded_error s) | None \<Rightarrow> JNull),
          (''stage'', JString (bounded_prefix stage 128)),
          (''error_code'', JString (bounded_prefix error_code 128)),
          (''message'', JString (bounded_error shown)),
          (''stderr_tail'', JString (latest_stderr stderr_tail))] @
         (case detail of Some v \<Rightarrow> detail_fields v @ remote_code v | None \<Rightarrow> []))"

definition runtime_failure_record ::
  "(string \<Rightarrow> json option) \<Rightarrow> string \<Rightarrow> string option \<Rightarrow> string \<Rightarrow> string \<Rightarrow> string \<Rightarrow> string \<Rightarrow> string" where
  "runtime_failure_record parse_json i session stage error_code m stderr_tail =
     render_json (json_object (failure_entries parse_json i session stage error_code m stderr_tail))"

definition failure_line :: "string \<Rightarrow> string \<Rightarrow> string" where
  "failure_line i r = ''[zcode-agentd] failure agent='' @ bounded_error i @ '': '' @ r @ [nl]"

definition update_latest_failure :: "string \<Rightarrow> string \<Rightarrow> (string \<times> string) list \<Rightarrow> (string \<times> string) list" where
  "update_latest_failure i m failures = (i, m) # filter (\<lambda>(k, _). k \<noteq> i) failures"

section \<open>The writer\<close>

definition diagnostic_queue_capacity :: nat where "diagnostic_queue_capacity = 32"
definition diagnostic_record_bytes :: nat where "diagnostic_record_bytes = 192 * 1024"
definition diagnostic_file_bytes :: nat where "diagnostic_file_bytes = 1024 * 1024"

record diagnostic_logger =
  queued_lines :: "string list"
  dropped_lines :: nat

definition submit_line :: "string \<Rightarrow> diagnostic_logger \<Rightarrow> diagnostic_logger" where
  "submit_line line g =
     (if diagnostic_record_bytes < length line \<or> diagnostic_queue_capacity \<le> length (queued_lines g)
      then g\<lparr>dropped_lines := dropped_lines g + 1\<rparr>
      else g\<lparr>queued_lines := queued_lines g @ [line]\<rparr>)"

text \<open>The three files of the writer: the log and its two rotations, absent until they are written.\<close>

record diagnostic_files =
  log_file :: "string option"
  first_rotation :: "string option"
  second_rotation :: "string option"

definition last_bytes :: "nat \<Rightarrow> string \<Rightarrow> string" where
  "last_bytes n s = drop (length s - n) s"

definition copy_tail :: "string option \<Rightarrow> string option \<Rightarrow> string option" where
  "copy_tail from_file to_file =
     (case from_file of None \<Rightarrow> to_file | Some s \<Rightarrow> Some (take diagnostic_file_bytes (last_bytes diagnostic_file_bytes s)))"

definition opened :: "string option \<Rightarrow> string" where
  "opened file = (case file of None \<Rightarrow> [] | Some s \<Rightarrow> s)"

text \<open>\<open>write\<close> for a disk on which every operation succeeds; None is its error.\<close>

definition write_diagnostic :: "string \<Rightarrow> diagnostic_files \<Rightarrow> diagnostic_files option" where
  "write_diagnostic bytes f =
     (if diagnostic_file_bytes < length bytes then None
      else
        let output = opened (log_file f);
            f1 = f\<lparr>log_file := Some output\<rparr>
        in Some
             (if diagnostic_file_bytes < length output + length bytes
              then
                let f2 = f1\<lparr>second_rotation := copy_tail (first_rotation f1) (second_rotation f1)\<rparr>;
                    f3 = f2\<lparr>first_rotation := copy_tail (log_file f2) (first_rotation f2)\<rparr>
                in f3\<lparr>log_file := Some bytes\<rparr>
              else f1\<lparr>log_file := Some (output @ bytes)\<rparr>))"

section \<open>A failure line always fits\<close>

definition weight :: "json \<Rightarrow> nat" where
  "weight v = length (render_json v)"

lemma escape_bound: "length (escape_byte c) \<le> 6"
  by (simp add: escape_byte_def)

lemma quote_bound: "length (quote_string s) \<le> 6 * length s + 2"
proof -
  have "length (concat (map escape_byte s)) \<le> 6 * length s"
  proof (induction s)
    case (Cons c s)
    then show ?case using escape_bound [of c] by simp
  qed simp
  then show ?thesis by (simp add: quote_string_def)
qed

lemma length_intersperse: "length (intersperse '','' xs) \<le> sum_list (map length xs) + length xs"
  by (induction "'',''" xs rule: intersperse.induct) auto

lemma takeWhile_last: "xs \<noteq> [] \<Longrightarrow> xs = takeWhile P ys \<Longrightarrow> P (last xs)"
  by (metis last_in_set set_takeWhileD)

lemma bounded_prefix_length: "3 \<le> n \<Longrightarrow> length (bounded_prefix s n) \<le> n"
proof (cases "length s \<le> n")
  case False
  assume n: "3 \<le> n"
  let ?starts = "takeWhile (\<lambda>k. k \<le> n - length marker) (char_starts s)"
  have "last_or 0 ?starts \<le> n - length marker"
    using takeWhile_last [of ?starts "\<lambda>k. k \<le> n - length marker" "char_starts s"] by (simp add: last_or_def)
  then have "length (take (last_or 0 ?starts) s) \<le> n - length marker" by simp
  moreover have "length marker = 3" by (simp add: marker_def)
  ultimately have "length (take (last_or 0 ?starts) s @ marker) \<le> n" using n unfolding length_append by linarith
  with False show ?thesis by (simp add: bounded_prefix_def Let_def)
qed (simp add: bounded_prefix_def)

lemma latest_stderr_length: "length (latest_stderr s) \<le> 16384"
proof -
  have "length (keep_tail 16384 s) \<le> length (drop (length s - 16384) s)"
    unfolding keep_tail_def by (rule length_dropWhile_le)
  then show ?thesis by (auto simp: latest_stderr_def stderr_tail_bytes_def)
qed

lemma show_nat_length: "n < 10 ^ k \<Longrightarrow> 0 < k \<Longrightarrow> length (show_nat n) \<le> k"
proof (induction k arbitrary: n)
  case (Suc k)
  show ?case
  proof (cases "n < 10")
    case True
    then show ?thesis by (subst show_nat.simps) simp
  next
    case False
    with Suc.prems have "0 < k" by (cases k) auto
    moreover from Suc.prems have "n div 10 < 10 ^ k" by (simp add: less_mult_imp_div_less mult.commute)
    ultimately have "length (show_nat (n div 10)) \<le> k" using Suc.IH by blast
    with False show ?thesis by (subst show_nat.simps) simp
  qed
qed simp

text \<open>The room an entry takes, with its separator.\<close>

definition room :: "string \<times> json \<Rightarrow> nat" where
  "room e = (case e of (k, v) \<Rightarrow> length (quote_string k) + 2 + length (render_json v))"

lemma render_object_length: "length (render_json (JObject entries)) \<le> 2 + (\<Sum>e \<leftarrow> entries. room e)"
proof -
  let ?items = "map (\<lambda>(k, v). quote_string k @ '':'' @ render_json v) entries"
  have "sum_list (map length ?items) + length ?items = (\<Sum>e \<leftarrow> entries. room e)"
    by (induction entries) (auto simp: room_def)
  with length_intersperse [of ?items] show ?thesis by simp
qed

lemma json_object_length: "length (render_json (json_object entries)) \<le> 2 + (\<Sum>e \<leftarrow> entries. room e)"
proof -
  have "(\<Sum>e \<leftarrow> sort_key fst entries. room e) = (\<Sum>e \<leftarrow> entries. room e)"
    by (metis mset_map mset_sort sum_mset_sum_list)
  with render_object_length [of "sort_key fst entries"] show ?thesis unfolding json_object_def by linarith
qed

lemma room_string: "length s \<le> n \<Longrightarrow> room (k, JString s) \<le> length (quote_string k) + 4 + 6 * n"
  using quote_bound [of s] by (simp add: room_def)

lemma integer_room: "as_i64 v = Some i \<Longrightarrow> length (render_json (integer_json i)) \<le> 20"
proof -
  assume "as_i64 v = Some i"
  then have "in_i64 i"
    by (cases v rule: as_i64.cases)
      (auto simp: in_i64_def i64_max_def intro: order.trans [OF _ uint_ge_0] split: if_splits)
  then have range: "- (10 ^ 19) < i" "i < 10 ^ 19" by (auto simp: in_i64_def i64_max_def)
  show ?thesis
  proof (cases "0 \<le> i")
    case True
    then have "unat (word_of_int i :: u64) \<le> nat i"
      by (simp add: unat_eq_nat_uint uint_word_of_int nat_mono zmod_le_nonneg_dividend)
    moreover have "nat i < 10 ^ 19" using True range(2) by (simp add: nat_less_iff)
    ultimately have "unat (word_of_int i :: u64) < 10 ^ 19" by linarith
    from show_nat_length [OF this] True show ?thesis by (simp add: integer_json_def)
  next
    case False
    with range(1) have "nat (- i) < 10 ^ 19" by (simp add: nat_less_iff)
    from show_nat_length [OF this] False show ?thesis by (simp add: integer_json_def show_integer_def)
  qed
qed

lemma key_lengths:
  "length (quote_string ''agent_id'') = 10" "length (quote_string ''session_id'') = 12"
  "length (quote_string ''stage'') = 7" "length (quote_string ''error_code'') = 12"
  "length (quote_string ''message'') = 9" "length (quote_string ''stderr_tail'') = 13"
  "length (quote_string ''operation'') = 11" "length (quote_string ''remote_message'') = 16"
  "length (quote_string ''cleanup_result'') = 16" "length (quote_string ''remote_code'') = 13"
  by (simp_all add: quote_string_def escape_byte_def byte_def)

lemma field_room: "length (quote_string k) \<le> n \<Longrightarrow> (\<Sum>e \<leftarrow> detail_field k v. room e) \<le> n + 4 + 6144"
proof (cases "get_str v k")
  case (Some s)
  assume "length (quote_string k) \<le> n"
  with Some room_string [OF bounded_prefix_length [of 1024 s], of k] show ?thesis
    by (simp add: detail_field_def)
qed (simp add: detail_field_def)

lemma detail_room: "(\<Sum>e \<leftarrow> detail_fields v. room e) \<le> 18487"
  using field_room [of "''operation''" 11 v] field_room [of "''remote_message''" 16 v]
    field_room [of "''cleanup_result''" 16 v]
  by (simp add: detail_fields_def key_lengths)

lemma remote_room: "(\<Sum>e \<leftarrow> remote_code v. room e) \<le> 35"
proof (cases "Option.bind (get v ''remote_code'') as_i64")
  case None
  then show ?thesis by (simp add: remote_code_def)
next
  case (Some i)
  then have "length (render_json (integer_json i)) \<le> 20"
    using integer_room by (auto simp: bind_eq_Some_conv)
  with Some show ?thesis by (simp add: remote_code_def room_def key_lengths)
qed

lemma entries_room:
  "(\<Sum>e \<leftarrow> failure_entries parse_json i session stage error_code m tail. room e) \<le> 192250"
proof -
  let ?shown = "case Option.bind (parse_json m) (\<lambda>v. get_str v ''message'') of Some s \<Rightarrow> s | None \<Rightarrow> m"
  let ?session = "case session of Some s \<Rightarrow> JString (bounded_error s) | None \<Rightarrow> JNull"
  let ?extra = "case parse_json m of Some v \<Rightarrow> detail_fields v @ remote_code v | None \<Rightarrow> []"
  have agent: "room (''agent_id'', JString (bounded_error i)) \<le> 24590"
    using room_string [OF bounded_prefix_length [of 4096 i], of "''agent_id''"]
    by (simp add: bounded_error_def key_lengths)
  have shown: "room (''message'', JString (bounded_error ?shown)) \<le> 24589"
    using room_string [OF bounded_prefix_length [of 4096 ?shown], of "''message''"]
    unfolding bounded_error_def key_lengths by simp
  have stage: "room (''stage'', JString (bounded_prefix stage 128)) \<le> 779"
    using room_string [OF bounded_prefix_length [of 128 stage], of "''stage''"] by (simp add: key_lengths)
  have code: "room (''error_code'', JString (bounded_prefix error_code 128)) \<le> 784"
    using room_string [OF bounded_prefix_length [of 128 error_code], of "''error_code''"] by (simp add: key_lengths)
  have tail: "room (''stderr_tail'', JString (latest_stderr tail)) \<le> 98321"
    using room_string [OF latest_stderr_length [of tail], of "''stderr_tail''"] by (simp add: key_lengths)
  have session: "room (''session_id'', ?session) \<le> 24592"
  proof (cases session)
    case None
    then show ?thesis by (simp add: room_def key_lengths)
  next
    case (Some s)
    then show ?thesis
      using room_string [OF bounded_prefix_length [of 4096 s], of "''session_id''"]
      by (simp add: bounded_error_def key_lengths)
  qed
  have extra: "(\<Sum>e \<leftarrow> ?extra. room e) \<le> 18522"
  proof (cases "parse_json m")
    case (Some v)
    then show ?thesis using detail_room [of v] remote_room [of v] by simp
  qed simp
  have "(\<Sum>e \<leftarrow> failure_entries parse_json i session stage error_code m tail. room e) =
      room (''agent_id'', JString (bounded_error i)) + (room (''session_id'', ?session) +
      (room (''stage'', JString (bounded_prefix stage 128)) + (room (''error_code'', JString (bounded_prefix error_code 128)) +
      (room (''message'', JString (bounded_error ?shown)) + (room (''stderr_tail'', JString (latest_stderr tail)) +
      (\<Sum>e \<leftarrow> ?extra. room e))))))"
    unfolding failure_entries_def Let_def by (simp only: append_Cons append_Nil list.map sum_list.Cons)
  then show ?thesis using agent session stage code shown tail extra by linarith
qed

text \<open>
  A failure line always fits: whatever texts a failure carries, and although a byte may take
  six bytes when it is printed, the record stays below 192 KiB, and so does the whole line; so the
  queue of the diagnostic writer drops a line only when it is full.
\<close>

theorem failure_line_fits:
  "length (runtime_failure_record parse_json i session stage error_code m tail) < 192 * 1024 \<and>
   length (failure_line i (runtime_failure_record parse_json i session stage error_code m tail)) \<le> diagnostic_record_bytes \<and>
   (length (queued_lines g) < 32) =
     (submit_line (failure_line i (runtime_failure_record parse_json i session stage error_code m tail)) g =
       g\<lparr>queued_lines := queued_lines g @
         [failure_line i (runtime_failure_record parse_json i session stage error_code m tail)]\<rparr>)"
proof -
  let ?r = "runtime_failure_record parse_json i session stage error_code m tail"
  have r: "length ?r \<le> 192252"
    using json_object_length [of "failure_entries parse_json i session stage error_code m tail"]
      entries_room [of parse_json i session stage error_code m tail]
    unfolding runtime_failure_record_def by linarith
  have "length (bounded_error i) \<le> 4096" by (simp add: bounded_error_def bounded_prefix_length)
  with r have line: "length (failure_line i ?r) \<le> 192 * 1024" by (simp add: failure_line_def)
  with r show ?thesis
    by (auto simp: diagnostic_record_bytes_def submit_line_def diagnostic_queue_capacity_def
        dest: arg_cong [where f = dropped_lines])
qed

section \<open>Rotation loses only the oldest bytes\<close>

definition all_bytes :: "diagnostic_files \<Rightarrow> string" where
  "all_bytes f = opened (second_rotation f) @ opened (first_rotation f) @ opened (log_file f)"

definition within_cap :: "diagnostic_files \<Rightarrow> bool" where
  "within_cap f \<longleftrightarrow> length (opened (log_file f)) \<le> 1048576 \<and> length (opened (first_rotation f)) \<le> 1048576 \<and>
     length (opened (second_rotation f)) \<le> 1048576"

text \<open>
  Rotation keeps the latest diagnostics: a write of at most one mebibyte succeeds, no file
  grows beyond one mebibyte, the bytes written are the end of the log, and what the three files hold
  together is the end of what they held before followed by the new bytes, of which at least the
  current log and the new bytes are kept.
\<close>

theorem rotation_keeps_latest:
  assumes "within_cap f" "length bytes \<le> 1048576"
  shows "case write_diagnostic bytes f of None \<Rightarrow> False
    | Some f' \<Rightarrow> within_cap f' \<and> suffix bytes (opened (log_file f')) \<and>
        suffix (all_bytes f') (all_bytes f @ bytes) \<and>
        suffix (opened (log_file f) @ bytes) (all_bytes f')"
proof (cases "diagnostic_file_bytes < length (opened (log_file f)) + length bytes")
  case False
  with assms show ?thesis
    by (auto simp: write_diagnostic_def diagnostic_file_bytes_def within_cap_def all_bytes_def opened_def Let_def
        suffix_def split: option.splits)
next
  case True
  have copied: "copy_tail (Some s) t = Some s" if "length s \<le> 1048576" for s t
    using that by (simp add: copy_tail_def last_bytes_def diagnostic_file_bytes_def)
  have f: "write_diagnostic bytes f = Some (f\<lparr>log_file := Some bytes,
      first_rotation := Some (opened (log_file f)),
      second_rotation := (case first_rotation f of None \<Rightarrow> second_rotation f | Some s \<Rightarrow> Some s)\<rparr>)"
    using assms True copied
    by (auto simp: write_diagnostic_def diagnostic_file_bytes_def within_cap_def Let_def opened_def copy_tail_def
        split: option.splits)
  have "suffix (all_bytes f) (opened (second_rotation f) @ opened (first_rotation f) @ opened (log_file f))"
    by (simp add: all_bytes_def)
  show ?thesis
    unfolding f option.case
    using assms by (auto simp: within_cap_def all_bytes_def opened_def suffix_def split: option.splits)
qed

theorem rotation_keeps_latest_witness:
  "case write_diagnostic ''b'' \<lparr>log_file = Some ''a'', first_rotation = None, second_rotation = None\<rparr> of None \<Rightarrow> False
    | Some f' \<Rightarrow> suffix ''ab'' (all_bytes f')"
  using rotation_keeps_latest [of "\<lparr>log_file = Some ''a'', first_rotation = None, second_rotation = None\<rparr>" "''b''"]
  by (auto simp: within_cap_def opened_def split: option.splits)

end
