(* ===== verification/Task_Finish.thy ===== *)
theory Task_Finish
  imports Task_Sink Diagnostics
begin

text \<open>
  The end of a task (\<open>crates/zcode-agentd/src/lib.rs\<close>): from the terminal state of its runtime to its
  stored result, the ways a task ends before its runtime runs, and the recovery of the tasks that a
  former daemon left behind.

  What the runtime answers (its turn, the terminal state a stop returns, its diagnostics) are
  arguments; so are the JSON parser, the decoder of a prepared task and the debug form of a terminal
  state.
\<close>

record finish_host =
  fh_sink :: sink_host
  fh_prep :: host
  fh_parse :: "string \<Rightarrow> json option"
  fh_decode :: "json \<Rightarrow> prepared_general_task option"
  fh_debug :: "runtime_terminal \<Rightarrow> string"
  fh_tail :: string
  fh_known_session :: "string option"
  fh_prompt_is_file :: bool

section \<open>Routes\<close>

definition task_route :: "finish_host \<Rightarrow> task_record \<Rightarrow> string + prepared_general_task" where
  "task_route fh task =
     (case fh_parse fh (tr_prepared_launch_json task) of
        None \<Rightarrow> Inl ''stored prepared launch is invalid''
      | Some v \<Rightarrow>
          (case get_str v ''schema'' of
             None \<Rightarrow> Inl ''stored prepared launch omitted task schema''
           | Some schema \<Rightarrow>
               if schema \<noteq> general_task_schema then Inl ''stored prepared launch uses an unknown task schema''
               else
                 (case fh_decode fh v of
                    None \<Rightarrow> Inl ''stored general preparation is invalid''
                  | Some p \<Rightarrow>
                      (case validate_digest (fh_prep fh) p of
                         Inl _ \<Rightarrow> Inl ''stored general preparation digest is invalid''
                       | Inr _ \<Rightarrow>
                           if tr_prepared_launch_sha256 task \<noteq> p_prepared_sha256 p \<or>
                              tr_workspace_path task \<noteq> pw_path (p_workspace p)
                           then Inl ''stored task does not match its general preparation''
                           else Inr p))))"

section \<open>Failures\<close>

definition record_failure :: "string \<Rightarrow> string \<Rightarrow> (task_world, 'e, unit) action" where
  "record_failure i m = modify (\<lambda>w. w\<lparr>w_failures := update_latest_failure i m (w_failures w)\<rparr>)"

definition record_runtime_failure ::
  "finish_host \<Rightarrow> bool \<Rightarrow> string \<Rightarrow> string option \<Rightarrow> string \<Rightarrow> string \<Rightarrow> string \<Rightarrow> (task_world, 'e, unit) action" where
  "record_runtime_failure fh has_runtime i session stage error_code m =
     (let known = (if has_runtime then fh_known_session fh else None);
          stderr = (if has_runtime then fh_tail fh else [])
      in record_failure i (runtime_failure_record (fh_parse fh) i (or_else known session) stage error_code m stderr))"

section \<open>Persisting a completion\<close>

definition note_store_failure :: "finish_host \<Rightarrow> string \<Rightarrow> store_error \<Rightarrow> (task_world, 'e, unit) action" where
  "note_store_failure fh i e = record_failure i (store_error_text (sk_sqlite_text (fh_sink fh)) e)"

definition persist_general_completion ::
  "finish_host \<Rightarrow> string \<Rightarrow> general_completion \<Rightarrow> bool \<Rightarrow> (task_world, store_error, task_phase) action" where
  "persist_general_completion fh i c reap_after_persist =
     bindE (catch (persist_general_result (fh_sink fh) i c)
       (\<lambda>e. bindE (note_store_failure fh i e) (\<lambda>_.
            bindE (store_read (task_result_of i)) (\<lambda>stored.
            if stored = None
            then store_result_with_cancel_precedence (fh_sink fh) i bounded_result_invalid_task_result
            else return_ok ())))
       return_ok) (\<lambda>_.
     bindE (if reap_after_persist
            then bindE (store_call (\<lambda>now. reap_task now i)) (\<lambda>_. return_ok ()) else return_ok ()) (\<lambda>_.
     final_phase i ''terminal general task disappeared''))"

record unstarted_terminal =
  un_outcome :: completion_outcome
  un_reason_code :: string
  un_message :: string

definition finish_unstarted_route ::
  "finish_host \<Rightarrow> string \<Rightarrow> prepared_general_task \<Rightarrow> unstarted_terminal \<Rightarrow> bool \<Rightarrow>
   (task_world, store_error, task_phase) action" where
  "finish_unstarted_route fh i p t resources_reaped =
     (let c = (if resources_reaped
               then finalized_general (fh_prep fh) p (un_outcome t) (un_reason_code t) (un_message t)
               else unreaped_general (un_outcome t) (un_reason_code t) (un_message t))
      in persist_general_completion fh i c (resources_reaped \<and> gc_cleaned c))"

section \<open>The terminal state of a runtime\<close>

fun routed_outcome :: "runtime_terminal \<Rightarrow> bool \<Rightarrow> completion_outcome" where
  "routed_outcome (TerminalCompleted _) natural =
     (if natural then completion_outcome.Completed else completion_outcome.Failed)"
| "routed_outcome (TerminalStopped _) natural = completion_outcome.Cancelled"
| "routed_outcome (FailedRuntimeLost _) natural = completion_outcome.RuntimeLost"
| "routed_outcome (Orphaned _) natural = completion_outcome.RuntimeLost"
| "routed_outcome (TerminalFailedTurn _) natural = completion_outcome.Failed"
| "routed_outcome (TerminalExited _) natural = completion_outcome.RuntimeLost"

definition is_completed_terminal :: "runtime_terminal \<Rightarrow> bool" where
  "is_completed_terminal t = (case t of TerminalCompleted _ \<Rightarrow> True | _ \<Rightarrow> False)"

definition natural_completion ::
  "host \<Rightarrow> prepared_general_task \<Rightarrow> bool \<Rightarrow> terminal_text \<Rightarrow> general_completion" where
  "natural_completion h p resumed shown =
     (case shown of
        TextVisible s \<Rightarrow>
          finish_cleanup ((if resumed then finalize_resumed h p completion_outcome.Completed
                           else finalize_completed_tree h p)\<lparr>gc_summary := s\<rparr>)
      | TextMissing \<Rightarrow>
          (let c = (if resumed then finalize_resumed h p completion_outcome.ResultInvalid
                    else finalize h p completion_outcome.ResultInvalid);
               c1 = c\<lparr>gc_summary := ''runtime completed without visible final text''\<rparr>
           in finish_cleanup
                (if gc_reason_code c1 = None then c1\<lparr>gc_reason_code := Some ''FINAL_TEXT_MISSING''\<rparr>
                 else c1\<lparr>gc_residual_gaps := gc_residual_gaps c1 @ [''FINAL_TEXT_MISSING'']\<rparr>)))"

definition settled_completion :: "string \<Rightarrow> general_completion \<Rightarrow> general_completion" where
  "settled_completion why c =
     (let c1 = (if trim (gc_summary c) = [] then c\<lparr>gc_summary := why\<rparr> else c)
      in if gc_reason_code c1 = None \<and> gc_outcome c1 \<noteq> completion_outcome.Completed
         then c1\<lparr>gc_reason_code := Some why\<rparr> else c1)"

definition routed_completion ::
  "host \<Rightarrow> prepared_general_task \<Rightarrow> bool \<Rightarrow> runtime_terminal \<Rightarrow> completion_outcome \<Rightarrow> string \<Rightarrow>
   terminal_text option \<Rightarrow> general_completion" where
  "routed_completion h p resumed t out why natural_text =
     settled_completion why
       (case natural_text of
          Some shown \<Rightarrow> natural_completion h p resumed shown
        | None \<Rightarrow>
            if terminal_proves_process_group_reaped t
            then (if resumed then finalize_resumed h p out else finalize h p out)
            else unreaped_general out why why)"

definition take_text :: "(task_world, 'e, terminal_text) action" where
  "take_text w = (case take_terminal_text (w_activity w) of (shown, a) \<Rightarrow> (Inr shown, w\<lparr>w_activity := a\<rparr>))"

definition terminalize_runtime :: "(task_world, 'e, unit) action" where
  "terminalize_runtime = modify (\<lambda>w. w\<lparr>w_lifecycle := terminalize (w_lifecycle w)\<rparr>)"

definition failure_detail :: "finish_host \<Rightarrow> runtime_terminal \<Rightarrow> string option \<Rightarrow> string" where
  "failure_detail fh t failure_message =
     (case failure_message of
        None \<Rightarrow> fh_debug fh t
      | Some cause \<Rightarrow>
          (let entries = (case Option.bind (fh_parse fh cause) as_object of
                            Some entries \<Rightarrow> entries
                          | None \<Rightarrow> [(''message'', JString (bounded_error cause))])
           in sk_print (fh_sink fh) (JObject (insert_field ''cleanup_result'' (JString (fh_debug fh t)) entries))))"

record terminal_decision =
  td_terminal :: runtime_terminal
  td_natural :: bool
  td_forced :: "(completion_outcome \<times> string) option"
  td_failure_message :: "string option"

definition decided :: "terminal_decision \<Rightarrow> completion_outcome \<times> string" where
  "decided t = (case td_forced t of Some f \<Rightarrow> f
     | None \<Rightarrow> (routed_outcome (td_terminal t) (td_natural t), ''RUNTIME_TERMINAL''))"

text \<open>\<open>active_session\<close> is the session of the active entry, if there is one.\<close>

definition finish_routed_terminal ::
  "finish_host \<Rightarrow> sink_identity \<Rightarrow> prepared_general_task \<Rightarrow> string option \<Rightarrow> terminal_decision \<Rightarrow>
   (task_world, store_error, task_phase) action" where
  "finish_routed_terminal fh k p active_session t =
     (let i = sk_agent_id k; resumed = (\<not> fh_prompt_is_file fh);
          (out, why) = decided t;
          reaped = terminal_proves_process_group_reaped (td_terminal t)
      in
     bindE terminalize_runtime (\<lambda>_.
     bindE (if out = completion_outcome.Completed \<or> out = completion_outcome.Cancelled then return_ok ()
            else record_runtime_failure fh True i active_session ''runtime_terminal'' why
                   (failure_detail fh (td_terminal t) (td_failure_message t))) (\<lambda>_.
     bindE (if td_natural t \<and> is_completed_terminal (td_terminal t)
            then bindE take_text (\<lambda>shown. return_ok (Some shown)) else return_ok None) (\<lambda>natural_text.
     let c = routed_completion (fh_prep fh) p resumed (td_terminal t) out why natural_text
     in catch (finish_general (fh_sink fh) k (td_terminal t) c)
          (\<lambda>e. bindE (note_store_failure fh i e) (\<lambda>_.
               persist_general_completion fh i c (gc_cleaned c \<and> reaped)))
          return_ok))))"

text \<open>
  The end that the monitor decides with the operation lock held; \<open>turn\<close> and \<open>stopped\<close> are what the
  runtime answers when the task is cancelled.
\<close>

definition force_stop :: "nat \<Rightarrow> turn_snapshot \<Rightarrow> (task_world, 'e, unit) action" where
  "force_stop at turn = bindE (modify (\<lambda>w. w\<lparr>w_lifecycle := force_terminating (note_stop at turn (w_lifecycle w))\<rparr>))
     (\<lambda>_. call_runtime CallStop)"

definition finish_locked_monitor_terminal ::
  "finish_host \<Rightarrow> sink_identity \<Rightarrow> prepared_general_task \<Rightarrow> string option \<Rightarrow> turn_snapshot \<Rightarrow> runtime_terminal \<Rightarrow>
   runtime_terminal \<Rightarrow> bool \<Rightarrow> (completion_outcome \<times> string) option \<Rightarrow> (task_world, store_error, task_phase) action" where
  "finish_locked_monitor_terminal fh k p active_session turn stopped t natural forced =
     bindE (require_task (sk_agent_id k) ''active monitor task disappeared'') (\<lambda>current.
     if is_terminal (tr_phase current) \<or> tr_owner_epoch current \<noteq> sk_owner_epoch k
     then return_ok (tr_phase current)
     else if tr_stop_requested current \<or> tr_close_requested current
     then bindE read_time (\<lambda>at. bindE (force_stop at turn) (\<lambda>_.
          finish_routed_terminal fh k p active_session
            \<lparr>td_terminal = stopped, td_natural = False,
             td_forced = Some (completion_outcome.Cancelled, ''CANCELLED''), td_failure_message = None\<rparr>))
     else bindE (inspect (\<lambda>w. first_error (w_sink w))) (\<lambda>failed.
          if forced = None \<and> failed \<noteq> None
          then finish_routed_terminal fh k p active_session
                 \<lparr>td_terminal = t, td_natural = False,
                  td_forced = Some (completion_outcome.RuntimeLost, ''LIFECYCLE_SINK_FAILED''), td_failure_message = None\<rparr>
          else finish_routed_terminal fh k p active_session
                 \<lparr>td_terminal = t, td_natural = natural, td_forced = forced, td_failure_message = None\<rparr>))"

section \<open>Cleaning up a registered runtime\<close>

definition released :: "u64 \<Rightarrow> task_world \<Rightarrow> task_world" where
  "released epoch w =
     (if w_active_epoch w = Some epoch
      then w\<lparr>w_lifecycle := terminalize (w_lifecycle w), w_active_epoch := None\<rparr> else w)"

definition ensuring :: "('s, 'e, 'a) action \<Rightarrow> ('s \<Rightarrow> 's) \<Rightarrow> ('s, 'e, 'a) action" where
  "ensuring m f w = (case m w of (r, w1) \<Rightarrow> (r, f w1))"

definition cancel_check :: "u64 \<Rightarrow> (task_world, 'e, unit) action" where
  "cancel_check epoch = modify (\<lambda>w.
     if w_active_epoch w = Some epoch then w\<lparr>w_check_cancelled := True\<rparr> else w)"

definition entered_runtime_phase :: "task_record option \<Rightarrow> bool" where
  "entered_runtime_phase current =
     (case current of None \<Rightarrow> False
      | Some task \<Rightarrow> tr_phase task \<in> {task_phase.Running, task_phase.Cancelling, task_phase.Terminal})"

definition cleanup_decision :: "bool \<Rightarrow> (string \<times> string) option \<Rightarrow> runtime_terminal \<Rightarrow> terminal_decision" where
  "cleanup_decision cancellation_wins failure stopped =
     \<lparr>td_terminal = stopped, td_natural = False,
      td_forced = (if cancellation_wins then Some (completion_outcome.Cancelled, ''CANCELLED'')
        else (case failure of
                Some (code, _) \<Rightarrow> Some (completion_outcome.Failed, code)
              | None \<Rightarrow> Some (completion_outcome.Cancelled, ''CANCELLED''))),
      td_failure_message = map_option snd failure\<rparr>"

definition cleanup_unstarted :: "bool \<Rightarrow> (string \<times> string) option \<Rightarrow> unstarted_terminal" where
  "cleanup_unstarted cancellation_wins failure =
     (let (code, m) = (case failure of Some f \<Rightarrow> f
         | None \<Rightarrow> (''GENERAL_START_CANCELLED'', ''general task stopped before entering its runtime phase''));
          out = (if cancellation_wins then completion_outcome.Cancelled else completion_outcome.Failed)
      in \<lparr>un_outcome = out, un_reason_code = (if out = completion_outcome.Cancelled then ''CANCELLED'' else code),
          un_message = m\<rparr>)"

definition cleanup_finish ::
  "finish_host \<Rightarrow> sink_identity \<Rightarrow> prepared_general_task \<Rightarrow> string option \<Rightarrow> runtime_terminal \<Rightarrow> bool \<Rightarrow>
   (string \<times> string) option \<Rightarrow> task_record option \<Rightarrow> (task_world, store_error, task_phase) action" where
  "cleanup_finish fh k p active_session stopped cancellation_wins failure current =
     (if entered_runtime_phase current
      then finish_routed_terminal fh k p active_session (cleanup_decision cancellation_wins failure stopped)
      else finish_unstarted_route fh (sk_agent_id k) p (cleanup_unstarted cancellation_wins failure)
             (terminal_proves_process_group_reaped stopped))"

definition cleanup_registered_runtime_with_grace ::
  "finish_host \<Rightarrow> sink_identity \<Rightarrow> prepared_general_task \<Rightarrow> string option \<Rightarrow> turn_snapshot \<Rightarrow> runtime_terminal \<Rightarrow>
   (string \<times> string) option \<Rightarrow> (task_world, scheduler_error, task_phase) action" where
  "cleanup_registered_runtime_with_grace fh k p active_session turn stopped failure =
     bindE (from_store (store_call (\<lambda>now. request_runtime_stop now (sk_agent_id k)))) (\<lambda>decision.
     bindE (cancel_check (sk_owner_epoch k)) (\<lambda>_.
     bindE (inspect w_active_epoch) (\<lambda>active.
     if active \<noteq> Some (sk_owner_epoch k)
     then fail_with (InvalidConfig ''active generic route disappeared during cleanup'')
     else
       bindE read_time (\<lambda>at.
       bindE (force_stop at turn) (\<lambda>_.
       bindE (from_store (store_read (get_task (sk_agent_id k)))) (\<lambda>current.
       ensuring
         (from_store (cleanup_finish fh k p active_session stopped
            (cd_prior_stop_or_close decision \<or> failure = None) failure current))
         (released (sk_owner_epoch k))))))))"

section \<open>Recovery at startup\<close>

definition persisted_identity :: "Store_Types.process_identity \<Rightarrow> Driver_Process.process_identity" where
  "persisted_identity s = \<lparr>pid = pi_pid s, pgid = pi_process_group_id s, uid = pi_uid s,
     start_token = pi_start_token s\<rparr>"

text \<open>
  \<open>stop_group\<close> stops the process group of a former daemon, as
  \<open>stop_and_reap_persisted_process_group\<close> does.
\<close>

definition stop_former_runtime ::
  "(Driver_Process.process_identity \<Rightarrow> io_error + stop_outcome) \<Rightarrow> task_record \<Rightarrow> scheduler_error + unit" where
  "stop_former_runtime stop_group task =
     (case (tr_runtime_agent_id task, tr_process_identity task) of
        (Some _, Some identity) \<Rightarrow>
          (case stop_group (persisted_identity identity) of
             Inr _ \<Rightarrow> Inr ()
           | Inl e \<Rightarrow> Inl (RuntimeCommand (tr_agent_id task) (''startup process-group recovery failed: '' @ snd e)))
      | (None, None) \<Rightarrow>
          if tr_phase task \<in> {task_phase.Preparing, task_phase.Terminal} then Inr ()
          else Inl (RuntimeCommand (tr_agent_id task)
                 ''startup runtime identity is incomplete; refusing unverified reap'')
      | _ \<Rightarrow> Inl (RuntimeCommand (tr_agent_id task)
                 ''startup runtime identity is incomplete; refusing unverified reap''))"

definition recover_startup_task ::
  "finish_host \<Rightarrow> (Driver_Process.process_identity \<Rightarrow> io_error + stop_outcome) \<Rightarrow> task_record \<Rightarrow>
   (task_world, scheduler_error, unit) action" where
  "recover_startup_task fh stop_group task =
     (let i = tr_agent_id task in
     bindE (lift_result (stop_former_runtime stop_group task)) (\<lambda>_.
     bindE (lift_result (map_sum InvalidConfig id (task_route fh task))) (\<lambda>p.
     if tr_phase task = task_phase.Terminal then
       bindE (from_store (store_read (task_result_of i))) (\<lambda>stored.
       if stored = None
       then fail_with (RuntimeCommand i ''terminal startup recovery task has no immutable result'')
       else if \<not> gc_cleaned (finalize (fh_prep fh) p completion_outcome.RuntimeLost)
       then fail_with (RuntimeCommand i ''terminal startup worktree recovery did not prove cleanup'')
       else bindE (from_store (store_call (\<lambda>now. reap_task now i))) (\<lambda>_. return_ok ()))
     else
       (let (out, code, m) =
          (if tr_stop_requested task \<or> tr_close_requested task
           then (completion_outcome.Cancelled, ''CANCELLED'', ''task cancellation was recovered after daemon restart'')
           else (completion_outcome.RuntimeLost, ''DAEMON_RESTART_RUNTIME_LOST'',
                 ''daemon restarted while task runtime was active''));
            c = finalized_general (fh_prep fh) p out code m
        in if \<not> gc_cleaned c
           then fail_with (RuntimeCommand i ''startup worktree recovery did not prove cleanup'')
           else bindE (from_store (persist_general_result (fh_sink fh) i c)) (\<lambda>_.
                bindE (from_store (store_call (\<lambda>now. reap_task now i))) (\<lambda>_. return_ok ()))))))"

fun recover_all ::
  "finish_host \<Rightarrow> (Driver_Process.process_identity \<Rightarrow> io_error + stop_outcome) \<Rightarrow> task_record list \<Rightarrow>
   (task_world, scheduler_error, (string \<times> task_outcome) list) action" where
  "recover_all fh stop_group [] = return_ok []"
| "recover_all fh stop_group (task # tasks) =
     bindE (recover_startup_task fh stop_group task) (\<lambda>_.
     bindE (from_store (require_task (tr_agent_id task) ''startup recovery task disappeared'')) (\<lambda>ended.
     bindE (lift_result (ok_or (StoreFailure (InvalidState ''startup recovery did not terminalize the task''))
              (tr_outcome ended))) (\<lambda>out.
     bindE (recover_all fh stop_group tasks) (\<lambda>rest. return_ok ((tr_agent_id task, out) # rest)))))"

definition reconcile_startup ::
  "finish_host \<Rightarrow> (Driver_Process.process_identity \<Rightarrow> io_error + stop_outcome) \<Rightarrow>
   (task_world, scheduler_error, (string \<times> task_outcome) list) action" where
  "reconcile_startup fh stop_group =
     bindE (inspect w_active_epoch) (\<lambda>active.
     if active \<noteq> None
     then fail_with (InvalidConfig ''startup reconciliation requires an empty active set'')
     else bindE (from_store (store_read startup_recovery_tasks)) (recover_all fh stop_group))"

end
