(* ===== verification/Task_Control.thy ===== *)
theory Task_Control
  imports Task_Finish
begin

text \<open>
  The control operations of the scheduler (\<open>crates/zcode-agentd/src/lib.rs\<close>): deadlines, the delivery
  of a queued message, messages and answers from outside, stop and close.

  What the runtime answers is a record of arguments; a lock that is held is the number of attempts
  that find it held; starting the tasks that are ready (\<open>start_ready\<close> of \<open>Task_Start\<close>), which several
  operations do at their end, is an argument, so what is proved holds whatever is started.
\<close>

section \<open>Deadlines\<close>

text \<open>An instant is a number of nanoseconds; \<open>expires\<close> is the end of the whole operation.\<close>

definition remaining_at :: "nat \<Rightarrow> nat \<Rightarrow> nat option" where
  "remaining_at expires now = (if now < expires then Some (expires - now) else None)"

definition remaining :: "nat \<Rightarrow> (task_world, 'e, nat option) action" where
  "remaining expires = bindE read_time (\<lambda>now. return_ok (remaining_at expires now))"

definition phase_end :: "nat \<Rightarrow> nat \<Rightarrow> nat \<Rightarrow> nat" where
  "phase_end expires stop_grace left = expires - min (3 * stop_grace) (left div 2)"

definition runtime_phase_deadline :: "nat \<Rightarrow> nat \<Rightarrow> (task_world, 'e, nat option) action" where
  "runtime_phase_deadline expires stop_grace =
     bindE (remaining expires) (\<lambda>left.
     case left of
       None \<Rightarrow> return_ok None
     | Some r \<Rightarrow> bindE read_time (\<lambda>now.
         return_ok (if now < phase_end expires stop_grace r then Some (phase_end expires stop_grace r) else None)))"

definition runtime_phase :: "nat \<Rightarrow> nat \<Rightarrow> (task_world, 'e, nat option) action" where
  "runtime_phase expires stop_grace =
     bindE (runtime_phase_deadline expires stop_grace) (\<lambda>at.
     case at of None \<Rightarrow> return_ok None | Some t \<Rightarrow> remaining t)"

definition cleanup_grace :: "nat \<Rightarrow> nat \<Rightarrow> (task_world, 'e, nat) action" where
  "cleanup_grace expires configured =
     bindE (remaining expires) (\<lambda>left.
     return_ok (case left of None \<Rightarrow> 0 | Some r \<Rightarrow> min configured (r div 3)))"

record control_host =
  ch_finish :: finish_host
  ch_stop_grace :: nat
  ch_control_timeout :: nat

definition control_deadline :: "control_host \<Rightarrow> (task_world, 'e, nat) action" where
  "control_deadline ch = bindE read_time (\<lambda>now. return_ok (now + ch_control_timeout ch))"

definition control_timeout_error :: "string \<Rightarrow> scheduler_error" where
  "control_timeout_error i = RuntimeCommand i ''control operation deadline elapsed''"

definition require_remaining :: "string \<Rightarrow> nat \<Rightarrow> (task_world, scheduler_error, nat) action" where
  "require_remaining i expires =
     bindE (remaining expires) (\<lambda>left. lift_result (ok_or (control_timeout_error i) left))"

definition runtime_phase_timeout :: "control_host \<Rightarrow> string \<Rightarrow> nat \<Rightarrow> (task_world, scheduler_error, nat) action" where
  "runtime_phase_timeout ch i expires =
     bindE (runtime_phase expires (ch_stop_grace ch)) (\<lambda>left. lift_result (ok_or (control_timeout_error i) left))"

definition response_deadline :: "control_host \<Rightarrow> string \<Rightarrow> nat \<Rightarrow> (task_world, scheduler_error, nat) action" where
  "response_deadline ch i expires =
     bindE (runtime_phase_deadline expires (ch_stop_grace ch)) (\<lambda>at. lift_result (ok_or (control_timeout_error i) at))"

primrec lock_operation :: "string \<Rightarrow> nat \<Rightarrow> nat \<Rightarrow> (task_world, scheduler_error, unit) action" where
  "lock_operation i expires 0 = return_ok ()"
| "lock_operation i expires (Suc held) =
     bindE (require_remaining i expires) (\<lambda>_. lock_operation i expires held)"

section \<open>Delivery of a message\<close>

text \<open>What the runtime answers during one operation.\<close>

record runtime_answers =
  an_turn :: "nat \<Rightarrow> turn_snapshot"
  an_send :: "command_error + string option"
  an_respond :: "command_error + unit"
  an_stop_turn :: "command_error + turn_snapshot"
  an_close :: "command_error + unit"
  an_stop :: runtime_terminal

definition late_ingress_error :: "string \<Rightarrow> string \<Rightarrow> scheduler_error" where
  "late_ingress_error i why = RuntimeCommand i why"

definition require_runtime_ingress :: "string \<Rightarrow> (task_world, scheduler_error, unit) action" where
  "require_runtime_ingress i =
     bindE look_lifecycle (\<lambda>l.
     case ingress_reason l of Some why \<Rightarrow> fail_with (late_ingress_error i why) | None \<Rightarrow> return_ok ())"

definition remote_detail :: "json \<Rightarrow> (string \<times> json) list" where
  "remote_detail v =
     [(''remote_code'', case Option.bind (get v ''code'') as_i64 of Some n \<Rightarrow> integer_json n | None \<Rightarrow> JNull),
      (''remote_message'', case get_str v ''message'' of Some m \<Rightarrow> JString (bounded_prefix m 1024) | None \<Rightarrow> JNull)]"

definition command_diagnostic :: "string \<Rightarrow> command_error \<Rightarrow> string" where
  "command_diagnostic operation e =
     render_json (json_object
       ([(''operation'', JString operation), (''message'', JString (bounded_error (command_error_text e)))] @
        (case e of RemoteRejected v \<Rightarrow> remote_detail v | _ \<Rightarrow> [])))"

definition send_claimed ::
  "control_host \<Rightarrow> runtime_answers \<Rightarrow> string \<Rightarrow> string \<Rightarrow> message_row \<Rightarrow>
   (task_world, scheduler_error, message_row option) action" where
  "send_claimed ch an i session m =
     bindE (call_runtime (CallSendTurn session (m_content m))) (\<lambda>_.
     case an_send an of
       Inr turn \<Rightarrow>
         bindE (from_store (store_call (\<lambda>now. complete_message now (m_message_id m) turn))) (\<lambda>completed.
         if \<not> completed
         then fail_with (StoreFailure (Conflict (''message '' @ m_message_id m @ '' lost its delivery claim'')))
         else from_store (store_read (message (m_message_id m))))
     | Inl e \<Rightarrow>
         let detail = command_diagnostic ''session/send'' e in
         bindE (record_runtime_failure (ch_finish ch) True i (Some session) ''message_delivery''
                  ''SESSION_SEND_FAILED'' detail) (\<lambda>_.
         bindE (from_store (store_call (\<lambda>_. fail_message (m_message_id m) ''SESSION_SEND_FAILED'' detail))) (\<lambda>_.
         fail_with (RuntimeCommand i detail))))"

definition deliver_next_message ::
  "control_host \<Rightarrow> runtime_answers \<Rightarrow> string \<Rightarrow> string \<Rightarrow> nat \<Rightarrow>
   (task_world, scheduler_error, message_row option) action" where
  "deliver_next_message ch an i session expires =
     bindE (require_runtime_ingress i) (\<lambda>_.
     bindE (from_store (store_call (\<lambda>_. claim_next_message i))) (\<lambda>claimed.
     case claimed of
       None \<Rightarrow> return_ok None
     | Some m \<Rightarrow>
         catch (require_runtime_ingress i)
           (\<lambda>e. bindE (from_store (store_call (\<lambda>_. fail_message (m_message_id m) ''LATE_AFTER_STOP''
                  ''runtime_lifecycle stopped before message delivery''))) (\<lambda>_. fail_with e))
           (\<lambda>_. bindE (runtime_phase_timeout ch i expires) (\<lambda>_. send_claimed ch an i session m))))"


section \<open>A message from outside\<close>

datatype message_disposition = DispQueued | DispDelivered | DispAlreadyDelivered | DispFailed

fun existing_disposition :: "message_state \<Rightarrow> message_disposition" where
  "existing_disposition MsgDelivered = DispAlreadyDelivered"
| "existing_disposition MsgFailed = DispFailed"
| "existing_disposition _ = DispQueued"

text \<open>
  The resume of a finished task: the task is queued again and started; when that fails the task is
  put back as it was. \<open>start\<close> starts the tasks that are ready.
\<close>

type_synonym start_tasks = "(task_world, scheduler_error, string list) action"

definition restore_original ::
  "control_host \<Rightarrow> task_record \<Rightarrow> stored_task_result option \<Rightarrow> (task_world, scheduler_error, unit) action" where
  "restore_original ch original stored =
     from_store (store_call (\<lambda>now. restore_terminal_after_resume_failure (sk_digest (fh_sink (ch_finish ch))) now
       original (map_option st_result stored)))"

definition is_terminal_task :: "task_record option \<Rightarrow> bool" where
  "is_terminal_task t = (case t of None \<Rightarrow> False | Some r \<Rightarrow> tr_phase r = task_phase.Terminal)"

definition resume_with_message ::
  "control_host \<Rightarrow> start_tasks \<Rightarrow> string \<Rightarrow> string \<Rightarrow> string \<Rightarrow>
   (task_world, scheduler_error, message_disposition) action" where
  "resume_with_message ch start i mid content =
     bindE (from_store (store_read (get_task i))) (\<lambda>found.
     bindE (lift_result (ok_or (StoreFailure (InvalidState ''resume task disappeared'')) found)) (\<lambda>original.
     bindE (from_store (store_read (task_result_of i))) (\<lambda>original_result.
     bindE (from_store (store_call (\<lambda>now. requeue_task_for_resume_with_message now i mid content))) (\<lambda>_.
     catch start
       (\<lambda>e. bindE (from_store (store_read (get_task i))) (\<lambda>task.
            bindE (if is_terminal_task task then restore_original ch original original_result else return_ok ())
              (\<lambda>_. fail_with e)))
       (\<lambda>started.
          if i \<notin> set started
          then bindE (restore_original ch original original_result) (\<lambda>_.
               fail_with (RuntimeCommand i ''session resume was not started''))
          else return_ok DispQueued)))))"

definition message_refused :: "task_record option \<Rightarrow> bool" where
  "message_refused t = (case t of None \<Rightarrow> False
     | Some r \<Rightarrow> tr_phase r \<noteq> task_phase.Running \<or> tr_stop_requested r \<or> tr_close_requested r)"

definition queue_message ::
  "control_host \<Rightarrow> start_tasks \<Rightarrow> nat \<Rightarrow> string \<Rightarrow> string \<Rightarrow> string \<Rightarrow> string \<Rightarrow>
   (task_world, scheduler_error, message_disposition) action" where
  "queue_message ch start held i mid mode content =
     (if mode \<noteq> ''queue'' then fail_with (InvalidConfig ''generic agent messages must use queue mode'')
      else
     bindE (control_deadline ch) (\<lambda>expires.
     bindE (from_store (store_read (message mid))) (\<lambda>existing.
     case existing of
       Some m \<Rightarrow>
         if message_row.m_agent_id m = i \<and> m_mode m = mode \<and> m_content m = content
         then return_ok (existing_disposition (m_state m))
         else fail_with (StoreFailure (Conflict ''MESSAGE_ID_CONFLICT''))
     | None \<Rightarrow>
         bindE (from_store (store_read (get_task i))) (\<lambda>task.
         if is_terminal_task task then resume_with_message ch start i mid content
         else
         bindE (inspect w_active_epoch) (\<lambda>active_epoch.
         bindE (if active_epoch \<noteq> None then lock_operation i expires held else return_ok ()) (\<lambda>_.
         bindE (if active_epoch \<noteq> None then require_runtime_ingress i
                else bindE (from_store (store_read (get_task i))) (\<lambda>current.
                     if message_refused current then fail_with (late_ingress_error i ''LATE_AFTER_STOP'')
                     else return_ok ())) (\<lambda>_.
         bindE (require_remaining i expires) (\<lambda>_.
         bindE (from_store (store_call (\<lambda>now. insert_message now mid i mode content))) (\<lambda>created.
         if created then return_ok DispQueued
         else bindE (from_store (store_read (message mid))) (\<lambda>found.
              return_ok (case found of None \<Rightarrow> DispQueued | Some m \<Rightarrow> existing_disposition (m_state m))))))))))))"

section \<open>Failing closed\<close>

text \<open>\<open>epoch\<close> is the owner epoch of the runtime the caller holds.\<close>

definition fail_closed_control ::
  "control_host \<Rightarrow> runtime_answers \<Rightarrow> start_tasks \<Rightarrow> sink_identity \<Rightarrow> prepared_general_task \<Rightarrow> string \<Rightarrow> nat \<Rightarrow>
   string \<Rightarrow> string \<Rightarrow> (task_world, scheduler_error, unit) action" where
  "fail_closed_control ch an start k p session expires code m =
     bindE (inspect w_active_epoch) (\<lambda>active_epoch.
     if active_epoch \<noteq> Some (sk_owner_epoch k)
     then fail_with (RuntimeCommand (sk_agent_id k) ''active runtime disappeared during fail-closed control cleanup'')
     else
       bindE (cleanup_grace expires (ch_stop_grace ch)) (\<lambda>_.
       bindE (cleanup_registered_runtime_with_grace (ch_finish ch) k p (Some session) (an_turn an 0) (an_stop an)
                (Some (code, m))) (\<lambda>_.
       catch start
         (\<lambda>e. record_failure (sk_agent_id k)
                (scheduler_error_text (sk_sqlite_text (fh_sink (ch_finish ch))) e))
         (\<lambda>_. return_ok ()))))"


section \<open>An answer to a request\<close>

datatype response_disposition = Answered | AlreadyAnswered | AnswerInFlight

record response_outcome =
  ro_disposition :: response_disposition
  ro_requested_decision :: string
  ro_effective_decision :: string
  ro_policy_overrode :: bool
  ro_policy_reason_code :: "string option"

definition decision_fits :: "request_row \<Rightarrow> string \<Rightarrow> bool" where
  "decision_fits q decision \<longleftrightarrow> p_request_type q = ''permission'' \<and> decision \<in> {''allow'', ''deny''}"

definition unfit_decision :: "request_row \<Rightarrow> scheduler_error" where
  "unfit_decision q = InvalidConfig
     (if p_request_type q = ''unsupported_input''
      then ''user-input response is unsupported by the pinned app-server seam''
      else ''response decision does not match the pending request type'')"

definition persisted_outcome :: "request_row \<Rightarrow> string \<Rightarrow> scheduler_error + response_outcome" where
  "persisted_outcome q decision =
     (case p_response_decision q of
        None \<Rightarrow> Inl (InvalidConfig ''persisted response outcome is incomplete'')
      | Some effective \<Rightarrow> Inr
          \<lparr>ro_disposition = (if p_state q = ReqResponded then AlreadyAnswered else AnswerInFlight),
           ro_requested_decision = decision, ro_effective_decision = effective,
           ro_policy_overrode = (effective \<noteq> decision),
           ro_policy_reason_code = (if effective \<noteq> decision then p_response_content q else None)\<rparr>)"

definition caller_outcome :: "response_disposition \<Rightarrow> string \<Rightarrow> response_outcome" where
  "caller_outcome disposition decision =
     \<lparr>ro_disposition = disposition, ro_requested_decision = decision, ro_effective_decision = decision,
      ro_policy_overrode = False, ro_policy_reason_code = None\<rparr>"

definition accepts_answers :: "u64 \<Rightarrow> task_record option \<Rightarrow> bool" where
  "accepts_answers epoch t = (case t of None \<Rightarrow> False
     | Some r \<Rightarrow> tr_owner_epoch r = epoch \<and> tr_phase r \<in> {task_phase.Running, task_phase.WaitingInput} \<and>
         \<not> tr_stop_requested r \<and> \<not> tr_close_requested r)"

definition inactive_reason :: "task_record option \<Rightarrow> string" where
  "inactive_reason t = (case t of None \<Rightarrow> ''runtime is not active''
     | Some r \<Rightarrow> if tr_phase r \<notin> {task_phase.Running, task_phase.WaitingInput} \<or> tr_stop_requested r \<or> tr_close_requested r
         then ''LATE_AFTER_STOP'' else ''runtime is not active'')"

definition release_claim :: "string \<Rightarrow> string \<Rightarrow> (task_world, scheduler_error, unit) action" where
  "release_claim i rid =
     bindE (from_store (store_call (\<lambda>_. release_pending_response i rid))) (\<lambda>_. return_ok ())"

text \<open>What follows a claim of the request: the answer goes to the runtime, or the claim is released.\<close>

definition answer_claimed ::
  "control_host \<Rightarrow> runtime_answers \<Rightarrow> start_tasks \<Rightarrow> sink_identity \<Rightarrow> prepared_general_task \<Rightarrow> string \<Rightarrow> nat \<Rightarrow>
   request_row \<Rightarrow> string \<Rightarrow> string \<Rightarrow> (task_world, scheduler_error, response_outcome) action" where
  "answer_claimed ch an start k p session expires q rid decision =
     (let i = sk_agent_id k in
     catch (require_runtime_ingress i) (\<lambda>e. bindE (release_claim i rid) (\<lambda>_. fail_with e)) (\<lambda>_.
     bindE (from_store (store_read (get_task i))) (\<lambda>current.
     if \<not> accepts_answers (sk_owner_epoch k) current
     then bindE (release_claim i rid) (\<lambda>_. fail_with (late_ingress_error i ''TASK_STOPPING''))
     else
     catch (response_deadline ch i expires) (\<lambda>e. bindE (release_claim i rid) (\<lambda>_. fail_with e)) (\<lambda>_.
     bindE (call_runtime (CallRespond (p_correlation_id q) decision)) (\<lambda>_.
     case an_respond an of
       Inl e \<Rightarrow>
         bindE (release_claim i rid) (\<lambda>_.
         bindE (fail_closed_control ch an start k p session expires (control_failure_code e) (command_error_text e)) (\<lambda>_.
         fail_with (RuntimeCommand i (command_error_text e))))
     | Inr _ \<Rightarrow>
         bindE (remaining expires) (\<lambda>left.
         if left = None then
           bindE (release_claim i rid) (\<lambda>_.
           bindE (fail_closed_control ch an start k p session expires ''CONTROL_DEADLINE_EXCEEDED''
                    (scheduler_error_text (sk_sqlite_text (fh_sink (ch_finish ch))) (control_timeout_error i))) (\<lambda>_.
           fail_with (control_timeout_error i)))
         else
           bindE (from_store (store_call (\<lambda>now. complete_pending_response now i rid))) (\<lambda>completed.
           if \<not> completed
           then fail_with (StoreFailure (Conflict (''request '' @ rid @ '' lost its response claim'')))
           else return_ok (caller_outcome Answered decision))))))))"

text \<open>\<open>k\<close> is the identity of the active runtime, when there is one.\<close>

definition respond_pending ::
  "control_host \<Rightarrow> runtime_answers \<Rightarrow> start_tasks \<Rightarrow> sink_identity \<Rightarrow> prepared_general_task \<Rightarrow> string \<Rightarrow> nat \<Rightarrow> nat \<Rightarrow>
   request_row \<Rightarrow> string \<Rightarrow> string \<Rightarrow> string option \<Rightarrow> (task_world, scheduler_error, response_outcome) action" where
  "respond_pending ch an start k p session held expires q rid decision content =
     (let i = sk_agent_id k in
     bindE (lock_operation i expires held) (\<lambda>_.
     bindE (require_runtime_ingress i) (\<lambda>_.
     bindE (from_store (store_read (get_task i))) (\<lambda>current.
     if \<not> accepts_answers (sk_owner_epoch k) current then fail_with (late_ingress_error i ''TASK_STOPPING'')
     else
     bindE (require_remaining i expires) (\<lambda>_.
     bindE (from_store (store_call (\<lambda>_. claim_pending_response_if_accepting i rid decision content))) (\<lambda>claim.
     case claim of
       Claimed \<Rightarrow> answer_claimed ch an start k p session expires q rid decision
     | TaskStopping \<Rightarrow> fail_with (late_ingress_error i ''TASK_STOPPING'')
     | pending_response_claim.NotFound \<Rightarrow> fail_with (StoreFailure (InvalidState (''unknown request '' @ rid)))
     | NotPending ReqSending \<Rightarrow> return_ok (caller_outcome AnswerInFlight decision)
     | NotPending ReqResponded \<Rightarrow> return_ok (caller_outcome AlreadyAnswered decision)
     | NotPending ReqPending \<Rightarrow>
         fail_with (StoreFailure (Conflict (''request '' @ rid @ '' claim did not change pending state'')))))))))"

definition scheduler_respond_request ::
  "control_host \<Rightarrow> runtime_answers \<Rightarrow> start_tasks \<Rightarrow> string \<Rightarrow> prepared_general_task \<Rightarrow> string \<Rightarrow> nat \<Rightarrow>
   string \<Rightarrow> string \<Rightarrow> string option \<Rightarrow> (task_world, scheduler_error, response_outcome) action" where
  "scheduler_respond_request ch an start i p session held rid decision content =
     bindE (control_deadline ch) (\<lambda>expires.
     bindE (from_store (store_read (pending_request i rid))) (\<lambda>found.
     bindE (lift_result (ok_or (StoreFailure (InvalidState (''unknown request '' @ rid))) found)) (\<lambda>q.
     if \<not> decision_fits q decision then fail_with (unfit_decision q)
     else if p_state q \<noteq> ReqPending then lift_result (persisted_outcome q decision)
     else
     bindE (inspect w_active_epoch) (\<lambda>active_epoch.
     case active_epoch of
       None \<Rightarrow>
         bindE (from_store (store_read (get_task i))) (\<lambda>task. fail_with (RuntimeCommand i (inactive_reason task)))
     | Some epoch \<Rightarrow>
         respond_pending ch an start \<lparr>sk_agent_id = i, sk_runtime_agent_id = i @ '':'' @ show_nat (unat epoch), sk_owner_epoch = epoch\<rparr> p
           session held expires q rid decision content))))"


section \<open>Stop and close\<close>

definition cancel_any_check :: "(task_world, 'e, unit) action" where
  "cancel_any_check = modify (\<lambda>w. if w_active_epoch w \<noteq> None then w\<lparr>w_check_cancelled := True\<rparr> else w)"

definition note_stop_now :: "turn_snapshot \<Rightarrow> (task_world, 'e, unit) action" where
  "note_stop_now turn = bindE read_time (\<lambda>at. modify (\<lambda>w. w\<lparr>w_lifecycle := note_stop at turn (w_lifecycle w)\<rparr>))"

text \<open>A task that is cancelled before its runtime is registered.\<close>

definition cancel_unstarted ::
  "control_host \<Rightarrow> string \<Rightarrow> (task_world, scheduler_error, task_phase) action" where
  "cancel_unstarted ch i =
     bindE (from_store (require_task i (''unknown task '' @ i))) (\<lambda>job.
     bindE (from_store (require_task i ''converging V2 task metadata disappeared'')) (\<lambda>_.
     case task_route (ch_finish ch) job of
       Inr p \<Rightarrow>
         from_store (finish_unstarted_route (ch_finish ch) i p
           \<lparr>un_outcome = completion_outcome.Cancelled, un_reason_code = ''CANCELLED'',
            un_message = ''task cancelled before runtime launch''\<rparr> True)
     | Inl m \<Rightarrow>
         bindE (from_store (store_result (fh_sink (ch_finish ch)) i
           (minimal_task_result completion_outcome.Cancelled ''task cancelled with invalid prepared metadata''
              ''CANCELLED_PREPARED_INVALID''))) (\<lambda>_.
         bindE (record_failure i m) (\<lambda>_.
         from_store (final_phase i ''cancelled task must remain durable'')))))"

definition record_optional_failure :: "string \<Rightarrow> string option \<Rightarrow> (task_world, 'e, unit) action" where
  "record_optional_failure i m = (case m of None \<Rightarrow> return_ok () | Some t \<Rightarrow> record_failure i t)"

definition cooperative_stop ::
  "control_host \<Rightarrow> runtime_answers \<Rightarrow> string \<Rightarrow> string \<Rightarrow> nat \<Rightarrow> (task_world, scheduler_error, string option) action" where
  "cooperative_stop ch an i session expires =
     catch (runtime_phase_timeout ch i expires)
       (\<lambda>e. bindE (modify (\<lambda>w. w\<lparr>w_lifecycle := force_terminating (w_lifecycle w)\<rparr>)) (\<lambda>_.
            return_ok (Some (scheduler_error_text (sk_sqlite_text (fh_sink (ch_finish ch))) e))))
       (\<lambda>_. bindE read_time (\<lambda>at.
            bindE (inspect (\<lambda>w. request_cooperative_stop at (an_turn an 1) (an_stop_turn an) (w_lifecycle w))) (\<lambda>(e, l).
            bindE (modify (\<lambda>w. w\<lparr>w_lifecycle := l\<rparr>)) (\<lambda>_.
            bindE (if turn_active (an_turn an 1) then call_runtime (CallStopTurn session) else return_ok ()) (\<lambda>_.
            return_ok e)))))"

definition close_runtime_session ::
  "control_host \<Rightarrow> runtime_answers \<Rightarrow> string \<Rightarrow> string \<Rightarrow> nat \<Rightarrow> (task_world, scheduler_error, string option) action" where
  "close_runtime_session ch an i session expires =
     catch (runtime_phase_timeout ch i expires)
       (\<lambda>e. return_ok (Some (scheduler_error_text (sk_sqlite_text (fh_sink (ch_finish ch))) e)))
       (\<lambda>_. bindE (call_runtime (CallCloseSession session)) (\<lambda>_.
            return_ok (case an_close an of Inr _ \<Rightarrow> None | Inl e \<Rightarrow> Some (command_error_text e))))"

definition stop_registered ::
  "control_host \<Rightarrow> runtime_answers \<Rightarrow> sink_identity \<Rightarrow> prepared_general_task \<Rightarrow> string \<Rightarrow> nat \<Rightarrow> bool \<Rightarrow> u64 \<Rightarrow>
   (task_world, scheduler_error, task_phase) action" where
  "stop_registered ch an k p session expires closing epoch =
     (let i = sk_agent_id k in
     bindE (cooperative_stop ch an i session expires) (\<lambda>control_error.
     bindE (if closing then close_runtime_session ch an i session expires else return_ok None) (\<lambda>close_error.
     bindE (cleanup_grace expires (ch_stop_grace ch)) (\<lambda>_.
     bindE (call_runtime CallStop) (\<lambda>_.
     ensuring
       (from_store (finish_routed_terminal (ch_finish ch) k p (Some session)
          \<lparr>td_terminal = an_stop an, td_natural = False,
           td_forced = Some (completion_outcome.Cancelled, ''CANCELLED''), td_failure_message = None\<rparr>))
       (\<lambda>w. snd (bindE (record_optional_failure i close_error) (\<lambda>_. record_optional_failure i control_error)
              (released epoch w) :: (scheduler_error + unit) \<times> task_world)))))))"

definition request_stop_or_close ::
  "control_host \<Rightarrow> runtime_answers \<Rightarrow> start_tasks \<Rightarrow> sink_identity \<Rightarrow> prepared_general_task \<Rightarrow> string \<Rightarrow> nat \<Rightarrow> bool \<Rightarrow>
   (task_world, scheduler_error, task_phase) action" where
  "request_stop_or_close ch an start k p session held closing =
     (let i = sk_agent_id k in
     bindE (control_deadline ch) (\<lambda>expires.
     bindE (inspect w_active_epoch) (\<lambda>active_epoch.
     bindE (require_remaining i expires) (\<lambda>_.
     bindE (from_store (store_call (\<lambda>now. if closing then request_close now i else request_stop now i))) (\<lambda>decision.
     bindE cancel_any_check (\<lambda>_.
     bindE (if active_epoch \<noteq> None then note_stop_now (an_turn an 0) else return_ok ()) (\<lambda>_.
     if \<not> cd_needs_runtime_stop decision then
       (if cd_phase decision = task_phase.Cancelling \<and> active_epoch = None then cancel_unstarted ch i
        else return_ok (cd_phase decision))
     else if active_epoch \<noteq> Some (cd_owner_epoch decision) then return_ok (cd_phase decision)
     else
     catch (lock_operation i expires held)
       (\<lambda>e. bindE (fail_closed_control ch an start k p session expires ''CONTROL_DEADLINE_EXCEEDED''
              (scheduler_error_text (sk_sqlite_text (fh_sink (ch_finish ch))) e)) (\<lambda>_. fail_with e))
       (\<lambda>_. bindE (inspect w_active_epoch) (\<lambda>still.
            if still = None
            then bindE (from_store (store_read (get_task i))) (\<lambda>job.
                 return_ok (case job of None \<Rightarrow> cd_phase decision | Some r \<Rightarrow> tr_phase r))
            else stop_registered ch an k p session expires closing (cd_owner_epoch decision))))))))))"

end
