(* ===== verification/Rust_Text.thy ===== *)
theory Rust_Text
  imports Rust_Base
begin

text \<open>
  The parts of \<open>str\<close> that distinguish text from bytes: what \<open>String::from_utf8\<close> accepts and where a
  string may be cut (\<open>str::is_char_boundary\<close>).
\<close>

definition continuation :: "char \<Rightarrow> bool" where
  "continuation b \<longleftrightarrow> 128 \<le> byte b \<and> byte b < 192"

text \<open>The bytes that may follow the first byte of an encoded character.\<close>

fun second_byte_fits :: "char \<Rightarrow> char \<Rightarrow> bool" where
  "second_byte_fits a b =
     (continuation b \<and>
      (byte a = 224 \<longrightarrow> 160 \<le> byte b) \<and> (byte a = 237 \<longrightarrow> byte b < 160) \<and>
      (byte a = 240 \<longrightarrow> 144 \<le> byte b) \<and> (byte a = 244 \<longrightarrow> byte b < 144))"

fun valid_utf8 :: "string \<Rightarrow> bool" where
  "valid_utf8 [] = True"
| "valid_utf8 (a # bs) =
     (if byte a < 128 then valid_utf8 bs
      else if 194 \<le> byte a \<and> byte a < 224
      then (case bs of b # rest \<Rightarrow> continuation b \<and> valid_utf8 rest | [] \<Rightarrow> False)
      else if 224 \<le> byte a \<and> byte a < 240
      then (case bs of b # c # rest \<Rightarrow> second_byte_fits a b \<and> continuation c \<and> valid_utf8 rest | _ \<Rightarrow> False)
      else if 240 \<le> byte a \<and> byte a < 245
      then (case bs of b # c # d # rest \<Rightarrow>
              second_byte_fits a b \<and> continuation c \<and> continuation d \<and> valid_utf8 rest | _ \<Rightarrow> False)
      else False)"

definition char_boundary :: "string \<Rightarrow> nat \<Rightarrow> bool" where
  "char_boundary s n \<longleftrightarrow> n = 0 \<or> n = length s \<or> (n < length s \<and> \<not> continuation (s ! n))"

text \<open>\<open>while !s.is_char_boundary(n) { n -= 1 }\<close>\<close>

fun floor_boundary :: "string \<Rightarrow> nat \<Rightarrow> nat" where
  "floor_boundary s 0 = 0"
| "floor_boundary s (Suc n) = (if char_boundary s (Suc n) then Suc n else floor_boundary s n)"

lemma floor_boundary_le: "floor_boundary s n \<le> n"
  by (induction n) auto

lemma floor_boundary_boundary [simp]: "char_boundary s (floor_boundary s n)"
  by (induction n) (auto simp: char_boundary_def)

lemma floor_boundary_greatest: "char_boundary s m \<Longrightarrow> m \<le> n \<Longrightarrow> m \<le> floor_boundary s n"
  by (induction n) (auto simp: le_Suc_eq)

text \<open>A character takes at most four bytes, so a cut loses at most three.\<close>

lemma valid_utf8_head:
  assumes "valid_utf8 (a # bs)"
  shows "\<not> continuation a" and "\<exists>w. 1 \<le> w \<and> w \<le> 4 \<and> w \<le> length (a # bs) \<and> valid_utf8 (drop w (a # bs))"
proof -
  show "\<not> continuation a" using assms by (auto simp: continuation_def split: if_splits)
  have "valid_utf8 bs \<or> (\<exists>b rest. bs = b # rest \<and> valid_utf8 rest) \<or>
    (\<exists>b c rest. bs = b # c # rest \<and> valid_utf8 rest) \<or> (\<exists>b c d rest. bs = b # c # d # rest \<and> valid_utf8 rest)"
    using assms unfolding valid_utf8.simps(2)
    by (simp del: second_byte_fits.simps split: if_split_asm list.split_asm)
  then consider "valid_utf8 bs" | b rest where "bs = b # rest" "valid_utf8 rest"
    | b c rest where "bs = b # c # rest" "valid_utf8 rest"
    | b c d rest where "bs = b # c # d # rest" "valid_utf8 rest"
    by blast
  then show "\<exists>w. 1 \<le> w \<and> w \<le> 4 \<and> w \<le> length (a # bs) \<and> valid_utf8 (drop w (a # bs))"
  proof cases
    case 1 then show ?thesis by (intro exI [of _ 1]) simp
  next
    case 2 then show ?thesis by (intro exI [of _ 2]) simp
  next
    case 3 then show ?thesis by (intro exI [of _ 3]) (simp add: numeral_3_eq_3)
  next
    case 4 then show ?thesis by (intro exI [of _ 4]) (simp add: eval_nat_numeral)
  qed
qed

lemma valid_utf8_run:
  assumes "valid_utf8 s" "n + 4 \<le> length s"
  shows "\<exists>k < 4. \<not> continuation (s ! (n + k))"
  using assms
proof (induction "length s" arbitrary: s n rule: less_induct)
  case less
  then obtain a bs where s: "s = a # bs" by (cases s) auto
  note head = valid_utf8_head [OF less.prems(1) [unfolded s]]
  obtain w where w: "1 \<le> w" "w \<le> 4" "w \<le> length s" "valid_utf8 (drop w s)"
    using head(2) unfolding s by blast
  show ?case
  proof (cases "w \<le> n")
    case True
    then have "\<exists>k < 4. \<not> continuation (drop w s ! ((n - w) + k))"
      using w less.prems(2) by (intro less.hyps) auto
    with True w(3) less.prems(2) show ?thesis by (auto simp: add.assoc)
  next
    case False
    show ?thesis
    proof (cases "n = 0")
      case True
      with head(1) show ?thesis by (intro exI [of _ 0]) (simp add: s)
    next
      case False
      with \<open>\<not> w \<le> n\<close> w(2) less.prems(2) have len: "w < length s" "w - n < 4" "n + (w - n) = w" by auto
      then obtain b cs where "drop w s = b # cs" by (cases "drop w s") auto
      with w(4) have "\<not> continuation b" using valid_utf8_head(1) by metis
      moreover have "s ! w = b" using \<open>drop w s = b # cs\<close> len(1) by (simp add: nth_via_drop)
      ultimately show ?thesis using len by (intro exI [of _ "w - n"]) simp
    qed
  qed
qed

lemma floor_boundary_near:
  assumes "valid_utf8 s" "n \<le> length s"
  shows "n \<le> floor_boundary s n + 3"
proof (rule ccontr)
  assume far: "\<not> n \<le> floor_boundary s n + 3"
  then have n: "4 \<le> n" by simp
  then obtain k where k: "k < 4" "\<not> continuation (s ! (n - 4 + k))"
    using valid_utf8_run [OF assms(1), of "n - 4"] assms(2) by auto
  have later: "\<not> char_boundary s m" if "floor_boundary s n < m" "m \<le> n" for m
    using floor_boundary_greatest [of s m n] that by auto
  have "\<not> char_boundary s n" using far by (intro later) auto
  then have "n < length s" using assms(2) by (auto simp: char_boundary_def)
  show False
  proof (cases "n - 4 + k \<le> floor_boundary s n")
    case False
    then have "\<not> char_boundary s (n - 4 + k)" using k(1) n by (intro later) auto
    with k \<open>n < length s\<close> n show False by (auto simp: char_boundary_def)
  next
    case True
    with far n have "k = 0" "floor_boundary s n = n - 4" by auto
    obtain k' where k': "k' < 4" "\<not> continuation (s ! (n - 3 + k'))"
      using valid_utf8_run [OF assms(1), of "n - 3"] \<open>n < length s\<close> n by auto
    then have "\<not> char_boundary s (n - 3 + k')"
      using n \<open>floor_boundary s n = n - 4\<close> by (intro later) auto
    with k' \<open>n < length s\<close> n show False by (auto simp: char_boundary_def)
  qed
qed

end
