(* ===== verification/Task_Start.thy ===== *)
theory Task_Start
  imports Task_Control Rust_Text
begin

text \<open>
  The submission of a task, the start of a claimed task and the monitor of its runtime
  (\<open>crates/zcode-agentd/src/lib.rs\<close>).

  The disk is the parameter of \<open>Prep_General\<close>; the outcome of the spawn, of the session start and
  of every other call to the runtime are arguments. Whether the files of the runtime are the released
  ones, which the activity tracker shows to readers, is left out.
\<close>

section \<open>Submission\<close>

record 'd start_host =
  st_control :: control_host
  st_disk :: "'d disk"
  st_error_text :: "preparation_error \<Rightarrow> string"
  st_io_text :: string

definition st_prep :: "'d start_host \<Rightarrow> host" where
  "st_prep sh = fh_prep (ch_finish (st_control sh))"

text \<open>\<open>std::fs::read_to_string\<close>: the contents must be UTF-8.\<close>

definition read_to_string :: "'d disk \<Rightarrow> 'd \<Rightarrow> string \<Rightarrow> string option" where
  "read_to_string dk d path = Option.bind (read_file dk d path) (\<lambda>s. if valid_utf8 s then Some s else None)"

definition general_initial_prompt :: "'d start_host \<Rightarrow> 'd \<Rightarrow> prepared_general_task \<Rightarrow> scheduler_error + string" where
  "general_initial_prompt sh d p =
     map_sum InvalidConfig id
       (and_then (map_sum (st_error_text sh) id (validate_prepared_content (st_prep sh) (st_disk sh) d p)) (\<lambda>_.
        and_then (ok_or (st_io_text sh) (read_to_string (st_disk sh) d (p_prompt_path p))) (\<lambda>caller_prompt.
        map_sum (st_error_text sh) id (general_launch_prompt (st_prep sh) (st_disk sh) d p caller_prompt))))"

definition new_task_of :: "'d start_host \<Rightarrow> prepared_general_task \<Rightarrow> string \<Rightarrow> new_task" where
  "new_task_of sh p prompt =
     \<lparr>nt_agent_id = p_agent_id p, nt_repository = p_repository p, nt_workspace_path = pw_path (p_workspace p),
      nt_runtime_hash = None, nt_prepared_launch_json = print_json (st_prep sh) (prepared_value p),
      nt_prepared_launch_sha256 = p_prepared_sha256 p, nt_initial_prompt = prompt\<rparr>"

text \<open>The state of a submission is the world and the disk.\<close>

definition on_world :: "('w, 'e, 'a) action \<Rightarrow> ('w \<times> 'd, 'e, 'a) action" where
  "on_world m = (\<lambda>(w, d). case m w of (r, w1) \<Rightarrow> (r, w1, d))"

definition on_disk :: "('d \<Rightarrow> ('e + 'a) \<times> 'd) \<Rightarrow> ('w \<times> 'd, 'e, 'a) action" where
  "on_disk m = (\<lambda>(w, d). case m d of (r, d1) \<Rightarrow> (r, w, d1))"

definition enqueue_general ::
  "'d start_host \<Rightarrow> u64 \<Rightarrow> general_task_manifest \<Rightarrow>
   (task_world \<times> 'd, scheduler_error, task_record \<times> submission_disposition) action" where
  "enqueue_general sh nonce manifest =
     bindE (on_world (from_store (store_call (\<lambda>_. reserve_task_id)))) (\<lambda>i.
     bindE (on_disk (\<lambda>d. map_prod (map_sum (\<lambda>e. InvalidConfig (st_error_text sh e)) id) id
        (prepare_direct_submission (st_prep sh) (st_disk sh) nonce (manifest\<lparr>m_agent_id := i\<rparr>) d))) (\<lambda>p.
     bindE (on_disk (\<lambda>d. (general_initial_prompt sh d p, d))) (\<lambda>prompt.
     on_world (from_store (store_call (\<lambda>now. enqueue_task_authoritative now (new_task_of sh p prompt)))))))"

section \<open>What a runtime is given\<close>

definition validate_task_route :: "task_record option \<Rightarrow> string + unit" where
  "validate_task_route task = (if task = None then Inl ''prepared task metadata is missing'' else Inr ())"

definition route_policy ::
  "'d start_host \<Rightarrow> prepared_general_task \<Rightarrow> bool \<Rightarrow> 'd \<Rightarrow> (preparation_error + policy_launcher) \<times> 'd" where
  "route_policy sh p resumed =
     (let interactive = set_interactive_bash (p_permission_mode p = EditMode)
      in if resumed
         then bind_io (resume_launcher (st_prep sh) (st_disk sh) p) (\<lambda>l. return_io (Inr (interactive l)))
         else bind_io (\<lambda>d. (launcher (st_prep sh) (st_disk sh) d p, d)) (\<lambda>l. return_io (Inr (interactive l))))"

definition max_agent_write_manifest_entries :: nat where "max_agent_write_manifest_entries = 256"
definition max_agent_write_manifest_bytes :: nat where "max_agent_write_manifest_bytes = 65536"

fun permission_mode_variable :: "permission_mode \<Rightarrow> string" where
  "permission_mode_variable BuildMode = ''build''"
| "permission_mode_variable EditMode = ''edit''"
| "permission_mode_variable PlanMode = ''plan''"
| "permission_mode_variable YoloMode = ''yolo''"

text \<open>The variables a runtime gets, or the text of the refusal.\<close>

definition apply_agent_policy_environment ::
  "finish_host \<Rightarrow> task_record \<Rightarrow> string + (string \<times> string) list" where
  "apply_agent_policy_environment fh task =
     (if \<not> is_absolute (tr_workspace_path task) then Inl ''runtime workspace path must be absolute''
      else
        and_then (task_route fh task) (\<lambda>p.
        let serialized = print_json (fh_prep fh) (JArray (map JString (p_write_manifest p)))
        in if length (p_write_manifest p) > max_agent_write_manifest_entries \<or>
              length serialized > max_agent_write_manifest_bytes
           then Inl ''write manifest exceeds runtime policy bounds''
           else Inr [(''ZCODE_AGENT_POLICY'', ''1''),
             (''ZCODE_AGENT_PERMISSION_MODE'', permission_mode_variable (p_permission_mode p)),
             (''ZCODE_AGENT_WORKSPACE_ROOT'', tr_workspace_path task),
             (''ZCODE_AGENT_BOOTSTRAP_ROOTS'', ''/Applications/ZCode.app''),
             (''ZCODE_AGENT_WRITE_MANIFEST'', serialized)]))"

text \<open>
  \<open>CommandRuntimeFactory::spawn\<close>: \<open>command\<close> builds the command of a task and \<open>launch\<close> starts it with
  the variables.
\<close>

definition spawn_runtime ::
  "'d start_host \<Rightarrow> bool \<Rightarrow> (task_record \<Rightarrow> string + 'c) \<Rightarrow> ('c \<Rightarrow> (string \<times> string) list \<Rightarrow> string + 'r) \<Rightarrow>
   task_record \<Rightarrow> 'd \<Rightarrow> string + 'r" where
  "spawn_runtime sh require_prepared command launch task d =
     (let fh = ch_finish (st_control sh) in
     and_then (if require_prepared
               then and_then (task_route fh task) (\<lambda>p.
                    map_sum (st_error_text sh) (\<lambda>_. ()) (launcher (st_prep sh) (st_disk sh) d p))
               else Inr ()) (\<lambda>_.
     and_then (command task) (\<lambda>c.
     and_then (apply_agent_policy_environment fh task) (\<lambda>variables. launch c variables))))"

section \<open>The start of a claimed task\<close>

text \<open>
  What the outside answers during a start: the preparation, the factory (an error is its text), the
  session and the runtime.
\<close>

record start_answers =
  sa_policy :: "prepared_general_task \<Rightarrow> bool \<Rightarrow> preparation_error + policy_launcher"
  sa_spawn :: "string + unit"
  sa_session :: "command_error + session_ready"
  sa_identity :: "Driver_Process.process_identity option"
  sa_turn :: turn_snapshot
  sa_stop :: runtime_terminal
  sa_runtime :: runtime_answers

definition store_identity :: "Driver_Process.process_identity \<Rightarrow> Store_Types.process_identity" where
  "store_identity p = \<lparr>pi_pid = pid p, pi_process_group_id = pgid p, pi_uid = uid p,
     pi_start_token = start_token p\<rparr>"

definition ready_turn_state :: "turn_snapshot \<Rightarrow> Store_Types.turn_state" where
  "ready_turn_state t =
     (if turn_active t then turn_state.TurnActive
      else if turn_boundary t = Some BoundaryFailed then turn_state.TurnFailed
      else turn_state.TurnIdle)"

text \<open>A claim whose stored preparation is refused.\<close>

definition refuse_claim ::
  "control_host \<Rightarrow> task_record option \<Rightarrow> string \<Rightarrow> u64 \<Rightarrow> string \<Rightarrow> string \<Rightarrow> (task_world, scheduler_error, bool) action" where
  "refuse_claim ch task i epoch code m =
     bindE (if task \<noteq> None
            then from_store (store_result (fh_sink (ch_finish ch)) i
                   (minimal_task_result completion_outcome.ResultInvalid m code))
            else bindE (from_store (store_call (\<lambda>now. fail_claim now i epoch code m))) (\<lambda>_. return_ok ())) (\<lambda>_.
     fail_with (InvalidConfig m))"

text \<open>A start that fails before the runtime is registered.\<close>

definition note_store_error :: "control_host \<Rightarrow> string \<Rightarrow> (task_world, store_error, 'a) action \<Rightarrow>
   (task_world, scheduler_error, unit) action" where
  "note_store_error ch i m =
     catch (from_store m) (\<lambda>e. record_failure i (scheduler_error_text (sk_sqlite_text (fh_sink (ch_finish ch))) e))
       (\<lambda>_. return_ok ())"

definition abort_start ::
  "control_host \<Rightarrow> string \<Rightarrow> prepared_general_task \<Rightarrow> bool \<Rightarrow> string option \<Rightarrow> string \<Rightarrow> string \<Rightarrow> string \<Rightarrow> bool \<Rightarrow>
   scheduler_error \<Rightarrow> (task_world, scheduler_error, bool) action" where
  "abort_start ch i p has_runtime session stage code m reaped e =
     bindE (record_runtime_failure (ch_finish ch) has_runtime i session stage code m) (\<lambda>_.
     bindE (note_store_error ch i (finish_unstarted_route (ch_finish ch) i p
        \<lparr>un_outcome = completion_outcome.Failed, un_reason_code = code, un_message = m\<rparr> reaped)) (\<lambda>_.
     fail_with e))"

text \<open>The end of a start whose runtime is registered; \<open>ignoring\<close> drops the result of the cleanup.\<close>

definition cleanup_registered_runtime ::
  "control_host \<Rightarrow> start_answers \<Rightarrow> sink_identity \<Rightarrow> prepared_general_task \<Rightarrow> string \<Rightarrow> (string \<times> string) option \<Rightarrow>
   (task_world, scheduler_error, task_phase) action" where
  "cleanup_registered_runtime ch sa k p session failure =
     cleanup_registered_runtime_with_grace (ch_finish ch) k p (Some session) (an_turn (sa_runtime sa) 0)
       (sa_stop sa) failure"

definition ignoring :: "('w, 'e, 'a) action \<Rightarrow> ('w, 'e, unit) action" where
  "ignoring m = catch m (\<lambda>_. return_ok ()) (\<lambda>_. return_ok ())"

definition register_runtime :: "u64 \<Rightarrow> (task_world, 'e, unit) action" where
  "register_runtime epoch = modify (\<lambda>w. w\<lparr>w_active_epoch := Some epoch, w_check_cancelled := False\<rparr>)"

definition start_cancelled :: "task_record \<Rightarrow> bool" where
  "start_cancelled r \<longleftrightarrow> tr_stop_requested r \<or> tr_close_requested r \<or> tr_phase r = task_phase.Cancelling \<or>
     is_terminal (tr_phase r)"

definition start_superseded :: "task_record \<Rightarrow> bool" where
  "start_superseded r \<longleftrightarrow> tr_stop_requested r \<or> tr_close_requested r \<or> tr_phase r \<noteq> task_phase.Running"

definition error_message :: "control_host \<Rightarrow> scheduler_error \<Rightarrow> string" where
  "error_message ch e = (case e of RuntimeCommand _ m \<Rightarrow> m
     | _ \<Rightarrow> scheduler_error_text (sk_sqlite_text (fh_sink (ch_finish ch))) e)"

text \<open>The read of the task after its runtime is registered, and what a failed read leads to.\<close>

definition read_registered ::
  "control_host \<Rightarrow> start_answers \<Rightarrow> sink_identity \<Rightarrow> prepared_general_task \<Rightarrow> string \<Rightarrow>
   (task_record option \<Rightarrow> (task_world, scheduler_error, bool) action) \<Rightarrow> (task_world, scheduler_error, bool) action" where
  "read_registered ch sa k p session continue =
     catch (store_read (get_task (sk_agent_id k)))
       (\<lambda>e. bindE (ignoring (cleanup_registered_runtime ch sa k p session
              (Some (''POST_REGISTRATION_READ_FAILED'', store_error_text (sk_sqlite_text (fh_sink (ch_finish ch))) e)))) (\<lambda>_.
            fail_with (StoreFailure e)))
       continue"

definition not_marked ::
  "control_host \<Rightarrow> start_answers \<Rightarrow> sink_identity \<Rightarrow> prepared_general_task \<Rightarrow> string \<Rightarrow> task_record option \<Rightarrow>
   (task_world, scheduler_error, bool) action" where
  "not_marked ch sa k p session current =
     bindE (cleanup_registered_runtime ch sa k p session
       (if (case current of None \<Rightarrow> False | Some r \<Rightarrow> start_cancelled r) then None
        else Some (''RUNTIME_START_RACE'', ''running transition was not applied''))) (\<lambda>_. return_ok False)"

definition run_registered ::
  "control_host \<Rightarrow> start_answers \<Rightarrow> sink_identity \<Rightarrow> prepared_general_task \<Rightarrow> string \<Rightarrow> bool \<Rightarrow> task_record option \<Rightarrow>
   (task_world, scheduler_error, bool) action" where
  "run_registered ch sa k p session resumed current =
     (if (case current of None \<Rightarrow> False | Some r \<Rightarrow> start_superseded r)
      then bindE (cleanup_registered_runtime ch sa k p session None) (\<lambda>_. return_ok False)
      else if resumed
      then catch (bindE (control_deadline ch) (deliver_next_message ch (sa_runtime sa) (sk_agent_id k) session))
             (\<lambda>e. bindE (cleanup_registered_runtime ch sa k p session (Some (''SESSION_SEND_FAILED'', error_message ch e))) (\<lambda>_.
                  fail_with e))
             (\<lambda>_. return_ok True)
      else return_ok True)"

definition register_and_run ::
  "control_host \<Rightarrow> start_answers \<Rightarrow> sink_identity \<Rightarrow> prepared_general_task \<Rightarrow> string \<Rightarrow> bool \<Rightarrow>
   (task_world, scheduler_error, bool) action" where
  "register_and_run ch sa k p session resumed =
     bindE (register_runtime (sk_owner_epoch k)) (\<lambda>_.
     catch (store_call (\<lambda>now. mark_session_running now (sk_agent_id k) (sk_owner_epoch k) (sk_runtime_agent_id k)
              (map_option store_identity (sa_identity sa)) (Some session) (Some (ready_turn_state (sa_turn sa)))))
       (\<lambda>e. bindE (ignoring (cleanup_registered_runtime ch sa k p session
              (Some (''STORE_START_FAILED'', store_error_text (sk_sqlite_text (fh_sink (ch_finish ch))) e)))) (\<lambda>_.
            fail_with (StoreFailure e)))
       (\<lambda>marked. read_registered ch sa k p session
          (if marked then run_registered ch sa k p session resumed else not_marked ch sa k p session)))"

text \<open>The objects of a new runtime.\<close>

definition fresh_runtime :: "u64 \<Rightarrow> (task_world, 'e, unit) action" where
  "fresh_runtime epoch = modify (\<lambda>w. w\<lparr>w_lifecycle := new_lifecycle epoch, w_sink := new_sink,
     w_activity := new_activity\<rparr>)"

definition model_refused :: string where
  "model_refused = ''runtime model did not match the prepared request''"

definition session_started ::
  "control_host \<Rightarrow> start_answers \<Rightarrow> sink_identity \<Rightarrow> prepared_general_task \<Rightarrow> task_record \<Rightarrow> session_ready \<Rightarrow>
   (task_world, scheduler_error, bool) action" where
  "session_started ch sa k p rec session =
     (let i = sk_agent_id k; sid = ready_session_id session in
     case validate_requested_model
            (requested_model_from_prepared_launch (fh_parse (ch_finish ch)) (Some (tr_prepared_launch_json rec)))
            (configured_model session) of
       Inl code \<Rightarrow>
         bindE (call_runtime CallStop) (\<lambda>_.
         abort_start ch i p True (Some sid) ''session_start'' code model_refused
           (terminal_proves_process_group_reaped (sa_stop sa)) (RuntimeCommand i model_refused))
     | Inr _ \<Rightarrow> register_and_run ch sa k p sid (tr_zcode_session_id rec \<noteq> None))"

definition spawn_and_run ::
  "control_host \<Rightarrow> start_answers \<Rightarrow> sink_identity \<Rightarrow> prepared_general_task \<Rightarrow> task_record \<Rightarrow>
   (task_world, scheduler_error, bool) action" where
  "spawn_and_run ch sa k p rec =
     (let i = sk_agent_id k in
     bindE (fresh_runtime (sk_owner_epoch k)) (\<lambda>_.
     case sa_spawn sa of
       Inl m \<Rightarrow> abort_start ch i p False (tr_zcode_session_id rec) ''spawn'' ''RUNTIME_SPAWN_FAILED'' m True (RuntimeSpawn i m)
     | Inr _ \<Rightarrow>
         bindE (call_runtime CallSpawn) (\<lambda>_.
         bindE (call_runtime CallStartSession) (\<lambda>_.
         case sa_session sa of
           Inl e \<Rightarrow>
             bindE (call_runtime CallStop) (\<lambda>_.
             abort_start ch i p True (tr_zcode_session_id rec) ''session_start'' ''SESSION_START_FAILED''
               (command_error_text e) (terminal_proves_process_group_reaped (sa_stop sa))
               (RuntimeCommand i (command_error_text e)))
         | Inr session \<Rightarrow> session_started ch sa k p rec session))))"

definition claim_identity :: "string \<Rightarrow> u64 \<Rightarrow> sink_identity" where
  "claim_identity i epoch = \<lparr>sk_agent_id = i, sk_runtime_agent_id = i @ '':'' @ show_nat (unat epoch),
     sk_owner_epoch = epoch\<rparr>"

definition start_claim ::
  "control_host \<Rightarrow> (preparation_error \<Rightarrow> string) \<Rightarrow> start_answers \<Rightarrow> task_record \<times> u64 \<Rightarrow>
   (task_world, scheduler_error, bool) action" where
  "start_claim ch prep_text sa = (\<lambda>(rec, epoch).
     let i = tr_agent_id rec in
     bindE (from_store (store_read (get_task i))) (\<lambda>task.
     case task_route (ch_finish ch) rec of
       Inl m \<Rightarrow> refuse_claim ch task i epoch ''PREPARED_LAUNCH_INVALID'' m
     | Inr p \<Rightarrow>
         (case validate_task_route task of
            Inl m \<Rightarrow> refuse_claim ch task i epoch ''TASK_ROUTE_INVALID'' m
          | Inr _ \<Rightarrow>
              (case sa_policy sa p (tr_zcode_session_id rec \<noteq> None) of
                 Inl e \<Rightarrow>
                   bindE (from_store (finish_unstarted_route (ch_finish ch) i p
                     \<lparr>un_outcome = completion_outcome.ResultInvalid, un_reason_code = ''PREPARED_CONTENT_INVALID'',
                      un_message = prep_text e\<rparr> True)) (\<lambda>_.
                   fail_with (InvalidConfig (prep_text e)))
               | Inr _ \<Rightarrow> spawn_and_run ch sa (claim_identity i epoch) p rec))))"

text \<open>
  The claims that are started one after the other until the queue has none for this daemon: \<open>start\<close> is
  \<open>start_claim\<close> on the runtime of the claimed task. \<open>None\<close> means that \<open>n\<close> claims were not enough.
\<close>

primrec start_ready ::
  "nat \<Rightarrow> string \<Rightarrow> u64 \<Rightarrow> (task_record \<times> u64 \<Rightarrow> (task_world, scheduler_error, bool) action) \<Rightarrow>
   (task_world, scheduler_error, string list option) action" where
  "start_ready 0 daemon per_workspace start = return_ok None"
| "start_ready (Suc n) daemon per_workspace start =
     bindE (from_store (store_call (\<lambda>now. claim_next now daemon (- 1) per_workspace))) (\<lambda>claim.
     case claim of
       None \<Rightarrow> return_ok (Some [])
     | Some c \<Rightarrow>
         bindE (start c) (\<lambda>ok.
         bindE (start_ready n daemon per_workspace start) (\<lambda>rest.
         return_ok (map_option (\<lambda>is. if ok then tr_agent_id (fst c) # is else is) rest))))"

section \<open>The monitor of a runtime\<close>

text \<open>What one turn of the loop of \<open>spawn_monitor\<close> sees.\<close>

record monitor_view =
  mv_terminal :: "runtime_terminal option"
  mv_turn :: turn_snapshot
  mv_again :: turn_snapshot
  mv_finished :: "turn_boundary \<Rightarrow> runtime_terminal"
  mv_answers :: runtime_answers

text \<open>It goes on with the generation that is handled, or ends.\<close>

datatype monitor_next = Watch u64 | Ended

definition cancel_own_check :: "(task_world, 'e, unit) action" where
  "cancel_own_check = modify (\<lambda>w. w\<lparr>w_check_cancelled := True\<rparr>)"

definition release_active :: "u64 \<Rightarrow> (task_world, 'e, unit) action" where
  "release_active epoch = modify (released epoch)"

definition start_or_note :: "control_host \<Rightarrow> start_tasks \<Rightarrow> string \<Rightarrow> (task_world, 'e, unit) action" where
  "start_or_note ch start i =
     catch start (\<lambda>e. record_failure i (scheduler_error_text (sk_sqlite_text (fh_sink (ch_finish ch))) e))
       (\<lambda>_. return_ok ())"

definition finish_monitored ::
  "control_host \<Rightarrow> monitor_view \<Rightarrow> sink_identity \<Rightarrow> prepared_general_task \<Rightarrow> string \<Rightarrow> runtime_terminal \<Rightarrow> bool \<Rightarrow>
   (completion_outcome \<times> string) option \<Rightarrow> (task_world, 'e, unit) action" where
  "finish_monitored ch mv k p session t natural forced =
     catch (from_store (finish_locked_monitor_terminal (ch_finish ch) k p (Some session) (an_turn (mv_answers mv) 0)
              (an_stop (mv_answers mv)) t natural forced))
       (\<lambda>e. record_failure (sk_agent_id k) (scheduler_error_text (sk_sqlite_text (fh_sink (ch_finish ch))) e))
       (\<lambda>_. return_ok ())"

definition deliver_now ::
  "control_host \<Rightarrow> monitor_view \<Rightarrow> sink_identity \<Rightarrow> string \<Rightarrow> (task_world, scheduler_error, message_row option) action" where
  "deliver_now ch mv k session =
     bindE (control_deadline ch) (deliver_next_message ch (mv_answers mv) (sk_agent_id k) session)"

definition monitor_end ::
  "control_host \<Rightarrow> start_tasks \<Rightarrow> monitor_view \<Rightarrow> sink_identity \<Rightarrow> prepared_general_task \<Rightarrow> string \<Rightarrow> runtime_terminal \<Rightarrow>
   bool \<Rightarrow> (task_world, 'e, monitor_next) action" where
  "monitor_end ch start mv k p session t natural =
     bindE (finish_monitored ch mv k p session t natural None) (\<lambda>_.
     bindE cancel_own_check (\<lambda>_.
     bindE (release_active (sk_owner_epoch k)) (\<lambda>_.
     bindE (start_or_note ch start (sk_agent_id k)) (\<lambda>_.
     return_ok Ended))))"

definition deliver_after_end ::
  "control_host \<Rightarrow> monitor_view \<Rightarrow> sink_identity \<Rightarrow> string \<Rightarrow> u64 \<Rightarrow> (task_world, 'e, monitor_next) action" where
  "deliver_after_end ch mv k session handled =
     catch (deliver_now ch mv k session)
       (\<lambda>e. bindE (record_runtime_failure (ch_finish ch) True (sk_agent_id k) (Some session) ''message_delivery''
              ''SESSION_SEND_FAILED'' (error_message ch e)) (\<lambda>_. return_ok (Watch handled)))
       (\<lambda>_. return_ok (Watch handled))"

text \<open>
  The runtime has ended: a natural end waits for the requests and messages that are open. (A deferral
  has a blocker, lemma \<open>deferral_has_blocker\<close>; the code panics otherwise.)
\<close>

definition monitor_terminal ::
  "control_host \<Rightarrow> start_tasks \<Rightarrow> monitor_view \<Rightarrow> sink_identity \<Rightarrow> prepared_general_task \<Rightarrow> string \<Rightarrow> u64 \<Rightarrow>
   runtime_terminal \<Rightarrow> (task_world, 'e, monitor_next) action" where
  "monitor_terminal ch start mv k p session handled t =
     bindE look_lifecycle (\<lambda>l.
     if \<not> is_completed_terminal t \<and> ingress_reason l = Some ''LATE_AFTER_STOP'' then return_ok Ended
     else if is_completed_terminal t
     then catch (begin_natural_completion (sk_agent_id k)) (\<lambda>_. return_ok (Watch handled))
            (\<lambda>admission. case admission of
               Deferred asked queued \<Rightarrow>
                 if asked then return_ok (Watch handled) else deliver_after_end ch mv k session handled
             | _ \<Rightarrow> monitor_end ch start mv k p session t True)
     else bindE cancel_own_check (\<lambda>_. monitor_end ch start mv k p session t False))"

text \<open>The sink could not write: the runtime is stopped.\<close>

definition monitor_sink_failure ::
  "control_host \<Rightarrow> monitor_view \<Rightarrow> sink_identity \<Rightarrow> prepared_general_task \<Rightarrow> string \<Rightarrow> string \<Rightarrow>
   (task_world, 'e, monitor_next) action" where
  "monitor_sink_failure ch mv k p session m =
     bindE cancel_own_check (\<lambda>_.
     bindE read_time (\<lambda>at.
     bindE (force_stop at (an_turn (mv_answers mv) 0)) (\<lambda>_.
     bindE (finish_monitored ch mv k p session (an_stop (mv_answers mv)) False
              (Some (completion_outcome.RuntimeLost, ''LIFECYCLE_SINK_FAILED''))) (\<lambda>_.
     bindE (record_failure (sk_agent_id k) m) (\<lambda>_.
     bindE (release_active (sk_owner_epoch k)) (\<lambda>_. return_ok Ended))))))"

text \<open>A turn has ended: the next message goes to the runtime, or the task ends.\<close>

definition saturating_pred :: "u64 \<Rightarrow> u64" where
  "saturating_pred n = (if n = 0 then 0 else n - 1)"

definition try_delivery ::
  "control_host \<Rightarrow> monitor_view \<Rightarrow> sink_identity \<Rightarrow> string \<Rightarrow> nat \<Rightarrow>
   (task_world, 'e, (scheduler_error + message_row option) option) action" where
  "try_delivery ch mv k session expires =
     catch (deliver_next_message ch (mv_answers mv) (sk_agent_id k) session expires)
       (\<lambda>e. return_ok (Some (Inl e))) (\<lambda>m. return_ok (Some (Inr m)))"

definition turn_delivery ::
  "control_host \<Rightarrow> monitor_view \<Rightarrow> sink_identity \<Rightarrow> string \<Rightarrow> turn_boundary \<Rightarrow> nat \<Rightarrow>
   (task_world, 'e, (scheduler_error + message_row option) option) action" where
  "turn_delivery ch mv k session b expires =
     (if b = BoundaryCompleted
      then catch (begin_natural_completion (sk_agent_id k)) (\<lambda>_. return_ok None)
             (\<lambda>admission. case admission of
                Deferred asked queued \<Rightarrow>
                  if \<not> asked \<and> queued then try_delivery ch mv k session expires else return_ok None
              | _ \<Rightarrow> return_ok (Some (Inr None)))
      else try_delivery ch mv k session expires)"

definition monitor_delivery_failed ::
  "control_host \<Rightarrow> start_tasks \<Rightarrow> monitor_view \<Rightarrow> sink_identity \<Rightarrow> prepared_general_task \<Rightarrow> string \<Rightarrow> nat \<Rightarrow>
   scheduler_error \<Rightarrow> (task_world, 'e, monitor_next) action" where
  "monitor_delivery_failed ch start mv k p session expires e =
     (let t = mv_finished mv BoundaryFailed in
     bindE cancel_own_check (\<lambda>_.
     bindE (cleanup_grace expires (ch_stop_grace ch)) (\<lambda>_.
     bindE (call_runtime (CallFinishTurn BoundaryFailed)) (\<lambda>_.
     bindE (finish_monitored ch mv k p session t False
              (Some (completion_outcome.Failed, ''MESSAGE_DELIVERY_FAILED''))) (\<lambda>_.
     bindE (record_runtime_failure (ch_finish ch) True (sk_agent_id k) (Some session) ''message_delivery''
              ''SESSION_SEND_FAILED'' (failure_detail (ch_finish ch) t (Some (error_message ch e)))) (\<lambda>_.
     bindE (release_active (sk_owner_epoch k)) (\<lambda>_.
     bindE (start_or_note ch start (sk_agent_id k)) (\<lambda>_. return_ok Ended))))))))"

definition monitor_turn ::
  "control_host \<Rightarrow> start_tasks \<Rightarrow> monitor_view \<Rightarrow> sink_identity \<Rightarrow> prepared_general_task \<Rightarrow> string \<Rightarrow> u64 \<Rightarrow>
   (task_world, 'e, monitor_next) action" where
  "monitor_turn ch start mv k p session handled =
     (let turn = mv_turn mv; generation = turn_generation turn in
     if turn_active turn \<or> generation \<le> handled then return_ok (Watch handled)
     else
       (case turn_boundary turn of
          None \<Rightarrow> return_ok (Watch handled)
        | Some b \<Rightarrow>
            bindE look_lifecycle (\<lambda>l.
            if b \<noteq> BoundaryCompleted \<and> ingress_reason l \<noteq> None then return_ok Ended
            else if turn_active (mv_again mv) \<or> turn_generation (mv_again mv) \<noteq> generation \<or>
                    turn_boundary (mv_again mv) \<noteq> Some b
            then return_ok (Watch handled)
            else
              bindE (control_deadline ch) (\<lambda>expires.
              bindE (turn_delivery ch mv k session b expires) (\<lambda>delivery.
              case delivery of
                None \<Rightarrow> return_ok (Watch (saturating_pred generation))
              | Some (Inr (Some _)) \<Rightarrow> return_ok (Watch generation)
              | Some (Inr None) \<Rightarrow>
                  bindE (if b \<noteq> BoundaryCompleted then cancel_own_check else return_ok ()) (\<lambda>_.
                  bindE (cleanup_grace expires (ch_stop_grace ch)) (\<lambda>_.
                  bindE (call_runtime (CallFinishTurn b)) (\<lambda>_.
                  monitor_end ch start mv k p session (mv_finished mv b) (b = BoundaryCompleted))))
              | Some (Inl e) \<Rightarrow> monitor_delivery_failed ch start mv k p session expires e)))))"

definition monitor_pass ::
  "control_host \<Rightarrow> start_tasks \<Rightarrow> sink_identity \<Rightarrow> prepared_general_task \<Rightarrow> string \<Rightarrow> monitor_view \<Rightarrow> u64 \<Rightarrow>
   (task_world, 'e, monitor_next) action" where
  "monitor_pass ch start k p session mv handled =
     (case mv_terminal mv of
        Some t \<Rightarrow> monitor_terminal ch start mv k p session handled t
      | None \<Rightarrow>
          bindE (inspect (\<lambda>w. first_error (w_sink w))) (\<lambda>failed.
          case failed of
            Some m \<Rightarrow> monitor_sink_failure ch mv k p session m
          | None \<Rightarrow> monitor_turn ch start mv k p session handled))"

text \<open>The passes of the loop while it is given views; \<open>True\<close> when it ended.\<close>

fun monitor_run ::
  "control_host \<Rightarrow> start_tasks \<Rightarrow> sink_identity \<Rightarrow> prepared_general_task \<Rightarrow> string \<Rightarrow> u64 \<Rightarrow> monitor_view list \<Rightarrow>
   (task_world, 'e, bool) action" where
  "monitor_run ch start k p session handled [] = return_ok False"
| "monitor_run ch start k p session handled (mv # views) =
     bindE (monitor_pass ch start k p session mv handled) (\<lambda>step.
     case step of Ended \<Rightarrow> return_ok True | Watch g \<Rightarrow> monitor_run ch start k p session g views)"

lemma deferral_has_blocker:
  "begin_natural_completion i w = (Inr (Deferred asked queued), w') \<Longrightarrow> asked \<or> queued"
  by (auto simp: begin_natural_completion_def bindE_def return_ok_def modify_def split: if_splits prod.splits sum.splits)

end
