(* ===== verification/Rpc_Types.thy ===== *)
theory Rpc_Types
  imports Task_Start Observation
begin

text \<open>
  The values of the RPC interface (\<open>crates/zcode-agentd/src/rpc.rs\<close>): limits, errors, validation,
  and the views of tasks, results, activity and permission requests that answers carry.
\<close>

section \<open>Limits\<close>

definition rpc_version :: nat where "rpc_version = 13"
definition max_request_frame_bytes :: nat where "max_request_frame_bytes = 512 * 1024"
definition max_response_frame_bytes :: nat where "max_response_frame_bytes = 2 * 1024 * 1024"
definition max_request_id_bytes :: nat where "max_request_id_bytes = 128"
definition max_list_tasks :: nat where "max_list_tasks = 100"
definition max_pending_requests :: u64 where "max_pending_requests = 100"
definition max_result_chunk_bytes :: nat where "max_result_chunk_bytes = 256 * 1024"
definition max_wait_secs :: nat where "max_wait_secs = 299"
definition default_wait_time :: nat where "default_wait_time = 290"
definition default_result_limit :: nat where "default_result_limit = max_result_chunk_bytes"

section \<open>Errors\<close>

datatype rpc_error_code =
    ErrMalformed | ErrOversized | ErrUnsupportedVersion | ErrUnknownMethod | ErrValidation | ErrNotFound
  | ErrConflict | ErrPersistence | ErrTimeout | ErrRuntimeLost | ErrResultInvalid | ErrUnavailable | ErrInternal

record rpc_error =
  err_code :: rpc_error_code
  err_message :: string
  err_active_agent_id :: "string option"

text \<open>
  The failures of a request: an error for the caller, or a panic of the thread that serves it.
  \<open>String::truncate\<close> panics when the cut is inside a character.
\<close>

datatype rpc_fault = Fault rpc_error | Panic

definition rpc_error_new :: "rpc_error_code \<Rightarrow> string \<Rightarrow> rpc_fault" where
  "rpc_error_new code m =
     (if length m \<le> 512 then Fault \<lparr>err_code = code, err_message = m, err_active_agent_id = None\<rparr>
      else if char_boundary m 512
      then Fault \<lparr>err_code = code, err_message = take 512 m, err_active_agent_id = None\<rparr>
      else Panic)"

text \<open>The display text of a preparation error; the texts of I/O and JSON errors are parameters.\<close>

fun preparation_error_text :: "string \<Rightarrow> string \<Rightarrow> preparation_error \<Rightarrow> string" where
  "preparation_error_text io_text json_text (InvalidManifest m) = ''invalid manifest: '' @ m"
| "preparation_error_text io_text json_text (InvalidPath p why) = ''invalid path '' @ p @ '': '' @ why"
| "preparation_error_text io_text json_text (PathEscape p root) = ''path '' @ p @ '' escapes allowed root '' @ root"
| "preparation_error_text io_text json_text (SymlinkInput p) = ''symlink input is forbidden: '' @ p"
| "preparation_error_text io_text json_text (MissingInput p) = ''input is missing: '' @ p"
| "preparation_error_text io_text json_text (ForbiddenInput p) =
     ''forbidden agent metadata input is forbidden: '' @ p"
| "preparation_error_text io_text json_text (CredentialInput p) = ''credential input is forbidden: '' @ p"
| "preparation_error_text io_text json_text (Policy m) = ''policy denied request: '' @ m"
| "preparation_error_text io_text json_text Io = ''I/O error: '' @ io_text"
| "preparation_error_text io_text json_text Json = ''JSON error: '' @ json_text"

definition workspace_busy_error :: "string \<Rightarrow> rpc_fault" where
  "workspace_busy_error m = Fault \<lparr>err_code = ErrConflict, err_message = ''WORKSPACE_BUSY'',
     err_active_agent_id = strip_prefix m ''WORKSPACE_BUSY active_agent_id=''\<rparr>"

definition is_message_conflict :: "string \<Rightarrow> bool" where
  "is_message_conflict m \<longleftrightarrow> m = ''message id is already bound to different content'' \<or>
     m = ''MESSAGE_ID_CONFLICT'' \<or> (starts_with m ''message '' \<and> ends_with m '' already exists'')"

fun map_store :: "store_error \<Rightarrow> rpc_fault" where
  "map_store LegacySchemaUnsupported = rpc_error_new ErrPersistence ''STORE_SCHEMA_VERSION_UNSUPPORTED''"
| "map_store (Sqlite _) = rpc_error_new ErrPersistence ''durable store operation failed''"
| "map_store (Conflict m) =
     (if starts_with m ''WORKSPACE_BUSY'' then workspace_busy_error m
      else if is_message_conflict m then rpc_error_new ErrConflict ''MESSAGE_ID_CONFLICT''
      else rpc_error_new ErrConflict ''durable state conflict'')"
| "map_store (InvalidState _) = rpc_error_new ErrValidation ''durable state rejected the operation''"

fun map_scheduler :: "scheduler_error \<Rightarrow> rpc_fault" where
  "map_scheduler (StoreFailure e) = map_store e"
| "map_scheduler (InvalidConfig m) = rpc_error_new ErrValidation (''scheduler rejected the operation: '' @ m)"
| "map_scheduler (RuntimeSpawn _ _) = rpc_error_new ErrRuntimeLost ''runtime operation failed''"
| "map_scheduler (LifecycleSinkFailed _ _) = rpc_error_new ErrRuntimeLost ''runtime operation failed''"
| "map_scheduler (RuntimeCommand _ _) = rpc_error_new ErrUnavailable ''RUNTIME_COMMAND_FAILED''"

section \<open>Validation\<close>

definition validate_text :: "string \<Rightarrow> string \<Rightarrow> nat \<Rightarrow> rpc_fault + unit" where
  "validate_text v field limit =
     (if v = [] \<or> limit < length v \<or> List.member v nul
      then Inl (rpc_error_new ErrValidation (field @ '' is invalid'')) else Inr ())"

definition validate_id :: "string \<Rightarrow> string \<Rightarrow> rpc_fault + unit" where
  "validate_id v field = validate_text v field 256"

definition valid_request_id :: "string \<Rightarrow> bool" where
  "valid_request_id v \<longleftrightarrow> v \<noteq> [] \<and> length v \<le> max_request_id_bytes \<and> \<not> List.member v nul"

text \<open>\<open>u64::from_str\<close> admits a leading plus sign.\<close>

definition parse_task_cursor :: "string \<Rightarrow> rpc_fault + u64" where
  "parse_task_cursor cursor =
     (case Option.bind (strip_prefix cursor ''task:'') (parse_unsigned 18446744073709551615) of
        Some n \<Rightarrow> if 0 < n then Inr (word_of_nat n) else Inl (rpc_error_new ErrValidation ''task cursor is invalid'')
      | None \<Rightarrow> Inl (rpc_error_new ErrValidation ''task cursor is invalid''))"

definition format_task_cursor :: "u64 \<Rightarrow> string" where
  "format_task_cursor cursor = ''task:'' @ show_nat (unat cursor)"

section \<open>Pages of a result\<close>

text \<open>\<open>while end > offset && !text.is_char_boundary(end) { end -= 1 }\<close>\<close>

fun page_end :: "string \<Rightarrow> nat \<Rightarrow> nat \<Rightarrow> nat" where
  "page_end t offset 0 = 0"
| "page_end t offset (Suc e) = (if offset < Suc e \<and> \<not> char_boundary t (Suc e) then page_end t offset e else Suc e)"

definition result_page_bounds :: "string \<Rightarrow> nat \<Rightarrow> nat \<Rightarrow> rpc_fault + nat \<times> nat option" where
  "result_page_bounds t offset limit =
     (let all_bytes = length t in
     if all_bytes < offset \<or> \<not> char_boundary t offset
     then Inl (rpc_error_new ErrValidation ''result offset is outside the result'')
     else
       (let e = page_end t offset (min (offset + limit) all_bytes) in
       if e = offset \<and> offset < all_bytes
       then Inl (rpc_error_new ErrValidation ''result limit does not include a complete UTF-8 character'')
       else Inr (e, if e < all_bytes then Some e else None)))"

record task_result_view =
  trv_outcome :: task_outcome
  trv_final_text :: string
  trv_partial :: bool
  trv_result_sha256 :: string
  trv_offset :: nat
  trv_total_bytes :: nat
  trv_next_offset :: "nat option"
  trv_complete :: bool

definition task_result_page :: "stored_task_result \<Rightarrow> nat \<Rightarrow> nat \<Rightarrow> rpc_fault + task_result_view" where
  "task_result_page stored offset limit =
     (let t = res_final_text (st_result stored) in
     and_then (result_page_bounds t offset limit) (\<lambda>(e, next_offset).
     Inr \<lparr>trv_outcome = res_outcome (st_result stored), trv_final_text = drop offset (take e t),
        trv_partial = res_partial (st_result stored), trv_result_sha256 = st_result_sha256 stored,
        trv_offset = offset, trv_total_bytes = length t, trv_next_offset = next_offset,
        trv_complete = (next_offset = None)\<rparr>))"

definition whole_result_view :: "stored_task_result \<Rightarrow> task_result_view" where
  "whole_result_view stored =
     \<lparr>trv_outcome = res_outcome (st_result stored), trv_final_text = res_final_text (st_result stored),
      trv_partial = res_partial (st_result stored), trv_result_sha256 = st_result_sha256 stored, trv_offset = 0,
      trv_total_bytes = length (res_final_text (st_result stored)), trv_next_offset = None, trv_complete = True\<rparr>"

section \<open>Views\<close>

record input_identity_view =
  iiv_workspace_path :: "string option"
  iiv_permission_mode :: "string option"
  iiv_caller_prompt_sha256 :: "string option"

record task_view =
  tv_agent_id :: string
  tv_session_id :: "string option"
  tv_turn_id :: "string option"
  tv_phase :: string
  tv_outcome :: "task_outcome option"
  tv_reason_code :: "string option"
  tv_stop_requested :: bool
  tv_close_requested :: bool
  tv_closed :: bool
  tv_reaped :: bool
  tv_input_identity :: input_identity_view

fun phase_view :: "task_phase \<Rightarrow> string" where
  "phase_view task_phase.Queued = ''QUEUED''"
| "phase_view task_phase.Preparing = ''PREPARING''"
| "phase_view task_phase.Running = ''RUNNING''"
| "phase_view task_phase.WaitingInput = ''WAITING_INPUT''"
| "phase_view task_phase.Cancelling = ''CANCELLING''"
| "phase_view task_phase.Terminal = ''TERMINAL''"

text \<open>\<open>parse\<close> is \<open>serde_json::from_str\<close>.\<close>

definition task_view_of :: "(string \<Rightarrow> json option) \<Rightarrow> task_record \<Rightarrow> task_view" where
  "task_view_of parse t =
     (let prepared = parse (tr_prepared_launch_json t) in
     \<lparr>tv_agent_id = tr_agent_id t, tv_session_id = tr_zcode_session_id t, tv_turn_id = None,
      tv_phase = phase_view (tr_phase t), tv_outcome = tr_outcome t, tv_reason_code = tr_failure_code t,
      tv_stop_requested = tr_stop_requested t, tv_close_requested = tr_close_requested t,
      tv_closed = (tr_closed_at t \<noteq> None), tv_reaped = (tr_reaped_at t \<noteq> None),
      tv_input_identity = \<lparr>iiv_workspace_path = Some (tr_workspace_path t),
        iiv_permission_mode = Option.bind prepared (\<lambda>v. get_str v ''permission_mode''),
        iiv_caller_prompt_sha256 = Option.bind prepared (\<lambda>v. get_str v ''prompt_sha256'')\<rparr>\<rparr>)"

datatype task_activity_state_view =
    ViewQueued | ViewPreparing | ViewActive | ViewWaitingInput | ViewCancelling | ViewIdle | ViewTerminal

datatype telemetry_status_view = Healthy | Degraded | Unavailable

record activity_window_view =
  wv_reasoning_delta_events :: u64
  wv_reasoning_delta_bytes :: u64
  wv_text_delta_events :: u64
  wv_text_delta_bytes :: u64
  wv_tool_calls_started :: u64
  wv_tool_calls_completed :: u64
  wv_tool_calls_failed :: u64
  wv_read_calls :: u64
  wv_bash_calls :: u64
  wv_other_tool_calls :: u64

definition activity_window_view_of :: "passive_activity_window \<Rightarrow> activity_window_view" where
  "activity_window_view_of w =
     \<lparr>wv_reasoning_delta_events = reasoning_delta_events w, wv_reasoning_delta_bytes = reasoning_delta_bytes w,
      wv_text_delta_events = text_delta_events w, wv_text_delta_bytes = text_delta_bytes w,
      wv_tool_calls_started = tool_calls_started w, wv_tool_calls_completed = tool_calls_completed w,
      wv_tool_calls_failed = tool_calls_failed w, wv_read_calls = read_calls w, wv_bash_calls = bash_calls w,
      wv_other_tool_calls = other_tool_calls w\<rparr>"

definition default_window_view :: activity_window_view where
  "default_window_view =
     \<lparr>wv_reasoning_delta_events = 0, wv_reasoning_delta_bytes = 0, wv_text_delta_events = 0,
      wv_text_delta_bytes = 0, wv_tool_calls_started = 0, wv_tool_calls_completed = 0, wv_tool_calls_failed = 0,
      wv_read_calls = 0, wv_bash_calls = 0, wv_other_tool_calls = 0\<rparr>"

record task_activity_view =
  av_state :: task_activity_state_view
  av_last_runtime_event_at :: "u64 option"
  av_last_activity_age_ms :: "u64 option"
  av_model_request_active :: bool
  av_model_request_age_ms :: "u64 option"
  av_model_last_delta_age_ms :: "u64 option"
  av_latest_text_tail :: string
  av_latest_text_updated_at :: "u64 option"
  av_latest_text_truncated :: bool
  av_latest_progress :: "string option"
  av_active_tools :: "passive_active_tool list"
  av_window_60s :: activity_window_view
  av_telemetry_status :: telemetry_status_view

fun activity_state_view :: "task_phase \<Rightarrow> task_activity_state_view" where
  "activity_state_view task_phase.Queued = ViewQueued"
| "activity_state_view task_phase.Preparing = ViewPreparing"
| "activity_state_view task_phase.Running = ViewActive"
| "activity_state_view task_phase.WaitingInput = ViewWaitingInput"
| "activity_state_view task_phase.Cancelling = ViewCancelling"
| "activity_state_view task_phase.Terminal = ViewTerminal"

definition task_activity_view_of :: "task_phase \<Rightarrow> passive_activity_snapshot option \<Rightarrow> task_activity_view" where
  "task_activity_view_of phase found =
     (let ended = (phase = task_phase.Terminal); state = activity_state_view phase in
     case found of
       None \<Rightarrow>
         \<lparr>av_state = state, av_last_runtime_event_at = None, av_last_activity_age_ms = None,
          av_model_request_active = False, av_model_request_age_ms = None, av_model_last_delta_age_ms = None,
          av_latest_text_tail = [], av_latest_text_updated_at = None, av_latest_text_truncated = False,
          av_latest_progress = None, av_active_tools = [], av_window_60s = default_window_view,
          av_telemetry_status = Unavailable\<rparr>
     | Some s \<Rightarrow>
         \<lparr>av_state = state, av_last_runtime_event_at = snap_last_runtime_event_at s,
          av_last_activity_age_ms = snap_last_activity_age_ms s,
          av_model_request_active = (\<not> ended \<and> snap_model_request_active s),
          av_model_request_age_ms = (if ended then None else snap_model_request_age_ms s),
          av_model_last_delta_age_ms = snap_model_last_delta_age_ms s,
          av_latest_text_tail = snap_latest_text_tail s, av_latest_text_updated_at = snap_latest_text_updated_at s,
          av_latest_text_truncated = snap_latest_text_truncated s, av_latest_progress = snap_latest_progress s,
          av_active_tools = snap_active_tools s, av_window_60s = activity_window_view_of (snap_window_60s s),
          av_telemetry_status = (if snap_telemetry_degraded s then Degraded else Healthy)\<rparr>)"

section \<open>Requests for permission\<close>

record pending_request_view =
  prv_request_id :: string
  prv_kind :: string
  prv_state :: pending_request_state
  prv_respondable :: bool
  prv_tool_name :: "string option"
  prv_operation :: string
  prv_summary :: string
  prv_policy_preview :: string

definition operation_category :: "string \<Rightarrow> string" where
  "operation_category tool =
     (let t = to_ascii_lowercase tool in
     if t \<in> {''read'', ''grep'', ''glob''} then ''read''
     else if t \<in> {''write'', ''edit'', ''delete'', ''move''} then ''write''
     else if t \<in> {''bash'', ''execute'', ''terminal''} then ''command''
     else if t = ''network'' then ''network''
     else if t = ''git_ref_mutation'' then ''git_ref_mutation''
     else ''unknown'')"

definition take_chars :: "nat \<Rightarrow> string \<Rightarrow> string" where
  "take_chars n s = concat (take n (chars s))"

definition input_leaf :: "json \<Rightarrow> string \<Rightarrow> string option" where
  "input_leaf params name =
     (let input = (case get params ''input'' of Some v \<Rightarrow> v | None \<Rightarrow> JNull) in
     map_option (take_chars 96) (Option.bind (get_str input name) path_file_name))"

definition argument_count :: "json \<Rightarrow> nat" where
  "argument_count params =
     (let input = (case get params ''input'' of Some v \<Rightarrow> v | None \<Rightarrow> JNull) in
     case Option.bind (get input ''args'') as_array of Some xs \<Rightarrow> length xs | None \<Rightarrow> 0)"

definition sanitized_permission_summary :: "json \<Rightarrow> string" where
  "sanitized_permission_summary params =
     (case input_leaf params ''program'' of
        Some program \<Rightarrow> ''command '' @ program @ '' with '' @ show_nat (argument_count params) @ '' arguments''
      | None \<Rightarrow>
          (case or_else (input_leaf params ''path'')
                  (or_else (input_leaf params ''destination'') (input_leaf params ''source'')) of
             Some path \<Rightarrow> ''target '' @ path
           | None \<Rightarrow>
               (case get_str params ''toolName'' of
                  Some name \<Rightarrow> if to_ascii_lowercase name = ''git_ref_mutation'' then ''Git reference mutation''
                               else ''permission request''
                | None \<Rightarrow> ''permission request'')))"

definition pending_request_view_of :: "(string \<Rightarrow> json option) \<Rightarrow> request_row \<Rightarrow> pending_request_view" where
  "pending_request_view_of parse q =
     (if p_request_type q \<noteq> ''permission'' then
        \<lparr>prv_request_id = p_request_id q, prv_kind = ''unsupported_input'', prv_state = p_state q,
         prv_respondable = False, prv_tool_name = None, prv_operation = ''user_input'',
         prv_summary = ''unsupported user input request'', prv_policy_preview = ''unknown''\<rparr>
      else
        (let params = parse (p_payload_json q);
             tool_name = map_option (take_chars 64) (Option.bind params (\<lambda>v. get_str v ''toolName''))
         in
        \<lparr>prv_request_id = p_request_id q, prv_kind = ''permission'', prv_state = p_state q,
         prv_respondable = True, prv_tool_name = tool_name,
         prv_operation = (case tool_name of Some t \<Rightarrow> operation_category t | None \<Rightarrow> ''unknown''),
         prv_summary = (case params of Some v \<Rightarrow> sanitized_permission_summary v
           | None \<Rightarrow> ''unrecognized permission request''),
         prv_policy_preview = ''official_permission_request''\<rparr>))"

definition respondable_pending_request :: "pending_request_view \<Rightarrow> bool" where
  "respondable_pending_request v \<longleftrightarrow> prv_state v = ReqPending \<and> prv_respondable v"

end
