(* ===== verification/Rpc_Service.thy ===== *)
theory Rpc_Service
  imports Rpc_Types
begin

text \<open>
  The service behind the RPC interface (\<open>crates/zcode-agentd/src/rpc.rs\<close>): a frame is classified,
  decoded and dispatched, and the operations of the scheduler and the store become answers.

  The state is the world of the task a request names, and the disk. What serde derives (the decoding of
  a request, the length of an encoded answer) and what the runtime answers are parameters; the clock is
  read through the world. A wait looks at its task as often as its list of interruptions says, and
  \<open>None\<close> means that it is still waiting then.
\<close>

section \<open>Requests and answers\<close>

record task_list_query =
  tlq_repository :: "string option"
  tlq_phase :: "task_phase option"
  tlq_outcome :: "task_outcome option"
  tlq_cursor :: "string option"
  tlq_limit :: nat

record task_wait_query =
  twq_agent_id :: string
  twq_after_revision :: u64
  twq_wait_time :: nat
  twq_message_id :: "string option"

record message_input =
  mi_agent_id :: string
  mi_message_id :: string
  mi_mode :: string
  mi_content :: string

datatype response_decision = DecideAllow | DecideDeny | DecideAnswer

fun decision_text :: "response_decision \<Rightarrow> string" where
  "decision_text DecideAllow = ''allow''"
| "decision_text DecideDeny = ''deny''"
| "decision_text DecideAnswer = ''answer''"

record respond_input =
  ri_agent_id :: string
  ri_request_id :: string
  ri_decision :: response_decision
  ri_content :: "string option"

datatype rpc_method =
    SystemStatus
  | SubmitGeneral general_task_manifest
  | TaskList task_list_query
  | TaskWait task_wait_query
  | TaskMessage message_input
  | TaskRespond respond_input
  | TaskCancel string
  | TaskResult string nat nat
  | TaskClose string
  | TaskObserve string

definition known_methods :: "string list" where
  "known_methods = [''system_status'', ''submit_general'', ''task_list'', ''task_wait'', ''task_message'',
     ''task_respond'', ''task_cancel'', ''task_result'', ''task_close'', ''task_observe'']"

definition is_known_method :: "string \<Rightarrow> bool" where
  "is_known_method name = List.member known_methods name"

record rpc_request =
  rq_request_id :: string
  rq_method :: rpc_method

record message_receipt_view =
  mrv_message_id :: string
  mrv_state :: string
  mrv_target_turn_id :: "string option"
  mrv_failure_code :: "string option"
  mrv_created_at_ms :: i64
  mrv_delivered_at_ms :: "i64 option"

record wait_view =
  wv_task :: task_view
  wv_revision :: u64
  wv_next_revision :: u64
  wv_pending_requests :: "pending_request_view list"
  wv_command_pending_approval :: bool
  wv_result_available :: bool
  wv_activity :: task_activity_view
  wv_latest_progress :: "string option"
  wv_result :: "task_result_view option"
  wv_instruction :: "string option"
  wv_timed_out :: bool
  wv_message_receipt :: "message_receipt_view option"

record task_observation_view =
  ov_schema :: string
  ov_agent_id :: string
  ov_service_generation :: string
  ov_snapshot_seq :: u64
  ov_count_scope :: string
  ov_tools :: "observed_tool list"
  ov_reasoning :: observed_reasoning
  ov_coverage :: observation_coverage

datatype component_state_view = ComponentReady | ComponentDegraded | ComponentUnavailable | ComponentUnknown

record artifact_identity_view =
  ai_path :: "string option"
  ai_sha256 :: "string option"
  ai_source :: string
  ai_captured_at_ms :: u64

record component_identity_view =
  ci_component :: string
  ci_version :: string
  ci_source_revision :: "string option"
  ci_source_dirty :: "bool option"
  ci_artifact :: artifact_identity_view

record runtime_identity_view =
  ru_configured_path :: "string option"
  ru_configured_path_source :: string
  ru_observed_version :: "string option"
  ru_observed_version_source :: string

record model_identity_fact_view =
  mf_value :: string
  mf_source :: string

record model_identity_view =
  mo_configured :: "model_identity_fact_view option"
  mo_observed_response :: "model_identity_fact_view option"

record daemon_identity_view =
  di_daemon :: component_identity_view
  di_runtime :: runtime_identity_view
  di_models :: model_identity_view

datatype capability_maturity_view = BetaReady | ExperimentalUnverifiedRuntime

record agent_capabilities_view =
  ac_max_rpc_request_frame_bytes :: nat
  ac_max_rpc_response_frame_bytes :: nat
  ac_max_wait_ms :: nat
  ac_maturity :: "(string \<times> capability_maturity_view) list"
  ac_protocol :: string
  ac_public_reasoning_default :: bool
  ac_runtime_source_verified :: bool
  ac_top_tools :: nat
  ac_recent_calls_per_tool :: nat
  ac_reasoning_chars :: nat

record system_status_view =
  ss_api_surface :: string
  ss_protocol_version :: nat
  ss_service_generation :: string
  ss_components :: "(string \<times> component_state_view) list"
  ss_capabilities :: agent_capabilities_view
  ss_identity :: "daemon_identity_view option"

datatype rpc_success =
    StatusAnswer system_status_view
  | SubmittedAnswer task_view submission_disposition
  | ListedAnswer "task_view list" "string option"
  | WaitAnswer wait_view
  | ResultAnswer task_view "task_result_view option"
  | MessageAnswer string message_disposition task_view
  | RespondAnswer response_outcome task_view
  | StoppedAnswer task_view
  | ClosedAnswer task_view
  | ObservedAnswer task_observation_view

record rpc_response =
  rr_version :: nat
  rr_request_id :: "string option"
  rr_outcome :: "rpc_error + rpc_success"

definition success_response :: "string \<Rightarrow> rpc_success \<Rightarrow> rpc_response" where
  "success_response rid result = \<lparr>rr_version = rpc_version, rr_request_id = Some rid, rr_outcome = Inr result\<rparr>"

definition error_response :: "string option \<Rightarrow> rpc_error \<Rightarrow> rpc_response" where
  "error_response rid e = \<lparr>rr_version = rpc_version, rr_request_id = rid, rr_outcome = Inl e\<rparr>"

section \<open>The service\<close>

record 'd rpc_host =
  rh_start :: "'d start_host"
  rh_answers :: runtime_answers
  rh_start_tasks :: start_tasks
  rh_identity :: sink_identity
  rh_prepared :: prepared_general_task
  rh_session :: string
  rh_held :: nat
  rh_nonce :: u64
  rh_decode :: "json \<Rightarrow> rpc_request option"
  rh_encoded :: "rpc_response \<Rightarrow> nat option"
  rh_generation :: string
  rh_has_activity :: bool
  rh_source_verified :: bool
  rh_journal_mode :: "store_error + string"
  rh_daemon :: component_identity_view
  rh_runtime_path :: "string option"

definition rh_parse :: "'d rpc_host \<Rightarrow> string \<Rightarrow> json option" where
  "rh_parse rh = fh_parse (ch_finish (st_control (rh_start rh)))"

definition rh_task_view :: "'d rpc_host \<Rightarrow> task_record \<Rightarrow> task_view" where
  "rh_task_view rh = task_view_of (rh_parse rh)"

type_synonym ('d, 'a) service = "(task_world \<times> 'd, rpc_fault, 'a) action"

definition mapping_error :: "('e \<Rightarrow> 'f) \<Rightarrow> ('w, 'e, 'a) action \<Rightarrow> ('w, 'f, 'a) action" where
  "mapping_error f m w = (case m w of (r, w1) \<Rightarrow> (map_sum f id r, w1))"

definition on_scheduler :: "(task_world, scheduler_error, 'a) action \<Rightarrow> ('d, 'a) service" where
  "on_scheduler m = on_world (mapping_error map_scheduler m)"

definition on_store :: "(db \<Rightarrow> 'a store_result) \<Rightarrow> ('d, 'a) service" where
  "on_store query = on_world (mapping_error map_store (store_read query))"

definition refuse :: "rpc_error_code \<Rightarrow> string \<Rightarrow> ('d, 'a) service" where
  "refuse code m = fail_with (rpc_error_new code m)"

definition find_rpc_task :: "'d rpc_host \<Rightarrow> string \<Rightarrow> ('d, task_record) service" where
  "find_rpc_task rh i =
     bindE (lift_result (validate_id i ''agent_id'')) (\<lambda>_.
     bindE (on_store (get_task i)) (\<lambda>found.
     case found of
       None \<Rightarrow> refuse ErrNotFound ''task was not found''
     | Some task \<Rightarrow>
         (case Option.bind (rh_parse rh (tr_prepared_launch_json task))
                 (fh_decode (ch_finish (st_control (rh_start rh)))) of
            None \<Rightarrow> refuse ErrNotFound ''task was not found''
          | Some p \<Rightarrow>
              if p_repository p \<noteq> tr_repository task then refuse ErrNotFound ''task was not found''
              else return_ok task)))"

section \<open>Status\<close>

definition observation_schema :: string where "observation_schema = ''zas-observation/1.1''"

definition agent_capabilities :: "bool \<Rightarrow> agent_capabilities_view" where
  "agent_capabilities verified =
     \<lparr>ac_max_rpc_request_frame_bytes = max_request_frame_bytes,
      ac_max_rpc_response_frame_bytes = max_response_frame_bytes, ac_max_wait_ms = 1000 * max_wait_secs, ac_maturity = [],
      ac_protocol = observation_schema, ac_public_reasoning_default = True, ac_runtime_source_verified = verified,
      ac_top_tools = 3, ac_recent_calls_per_tool = 5, ac_reasoning_chars = 200\<rparr>"

definition configured_runtime_identity :: "string option \<Rightarrow> runtime_identity_view" where
  "configured_runtime_identity path =
     \<lparr>ru_configured_path = path,
      ru_configured_path_source = (if path \<noteq> None then ''daemon_configuration'' else ''unknown''),
      ru_observed_version = None, ru_observed_version_source = ''unknown''\<rparr>"

text \<open>\<open>hash\<close> reads a file and hashes it; \<open>captured\<close> is the time in milliseconds since the epoch.\<close>

definition running_component_identity_from ::
  "(string \<Rightarrow> string option) \<Rightarrow> string \<Rightarrow> string \<Rightarrow> string option \<Rightarrow> string option \<Rightarrow> string option \<Rightarrow> int \<Rightarrow>
   component_identity_view" where
  "running_component_identity_from hash component version revision_text dirty executable captured =
     \<lparr>ci_component = component, ci_version = version,
      ci_source_revision = (case revision_text of None \<Rightarrow> None
        | Some r \<Rightarrow> if r \<noteq> ''unknown'' \<and> r \<noteq> [] then Some r else None),
      ci_source_dirty = (if dirty = Some ''true'' then Some True
        else if dirty = Some ''false'' then Some False else None),
      ci_artifact = \<lparr>ai_path = executable, ai_sha256 = Option.bind executable hash,
        ai_source = ''running_executable'',
        ai_captured_at_ms = (if captured < 0 then 0
          else if captured < 18446744073709551616 then word_of_int captured else - 1)\<rparr>\<rparr>"

definition store_state :: "store_error + string \<Rightarrow> component_state_view" where
  "store_state mode = (case mode of Inl _ \<Rightarrow> ComponentUnavailable
     | Inr m \<Rightarrow> if to_ascii_lowercase m = ''wal'' then ComponentReady else ComponentDegraded)"

definition system_status :: "'d rpc_host \<Rightarrow> system_status_view" where
  "system_status rh =
     \<lparr>ss_api_surface = ''generic_agent'', ss_protocol_version = rpc_version, ss_service_generation = rh_generation rh,
      ss_components = [(''daemon'', ComponentReady), (''driver'', ComponentUnknown), (''facade'', ComponentUnknown),
        (''model_auth'', ComponentUnknown), (''runtime'', ComponentUnknown), (''scheduler'', ComponentReady),
        (''store'', store_state (rh_journal_mode rh))],
      ss_capabilities = agent_capabilities (rh_source_verified rh),
      ss_identity = Some \<lparr>di_daemon = rh_daemon rh, di_runtime = configured_runtime_identity (rh_runtime_path rh),
        di_models = \<lparr>mo_configured = None, mo_observed_response = None\<rparr>\<rparr>\<rparr>"

section \<open>Operations\<close>

definition serve_submit :: "'d rpc_host \<Rightarrow> general_task_manifest \<Rightarrow> ('d, rpc_success) service" where
  "serve_submit rh manifest =
     bindE (mapping_error map_scheduler (enqueue_general (rh_start rh) (rh_nonce rh) manifest)) (\<lambda>(task, disposition).
     return_ok (SubmittedAnswer (rh_task_view rh task) disposition))"

definition optional_text :: "string option \<Rightarrow> string \<Rightarrow> nat \<Rightarrow> rpc_fault + unit" where
  "optional_text v field limit = (case v of None \<Rightarrow> Inr () | Some t \<Rightarrow> validate_text t field limit)"

definition canonical_scope :: "'d rpc_host \<Rightarrow> string \<Rightarrow> 'd \<Rightarrow> rpc_fault + string" where
  "canonical_scope rh repository d =
     (case canonical_general_repository (file_view (st_disk (rh_start rh)) d) repository of
        Inl _ \<Rightarrow> Inl (rpc_error_new ErrValidation ''repository scope is invalid'')
      | Inr r \<Rightarrow> Inr r)"

definition serve_list :: "'d rpc_host \<Rightarrow> task_list_query \<Rightarrow> ('d, rpc_success) service" where
  "serve_list rh q =
     (if tlq_limit q = 0 \<or> max_list_tasks < tlq_limit q
      then refuse ErrValidation ''task list limit is outside the allowed range''
      else
     bindE (lift_result (optional_text (tlq_repository q) ''repository'' 4096)) (\<lambda>_.
     bindE (lift_result (optional_text (tlq_cursor q) ''cursor'' 64)) (\<lambda>_.
     case tlq_repository q of
       None \<Rightarrow> refuse ErrValidation ''at least one task list scope is required''
     | Some repository \<Rightarrow>
         bindE (on_disk (\<lambda>d. (canonical_scope rh repository d, d))) (\<lambda>canonical.
         bindE (lift_result (transpose_opt parse_task_cursor (tlq_cursor q))) (\<lambda>cursor.
         bindE (on_store (list_task_page (Some canonical)
                  \<lparr>pf_phase = tlq_phase q, pf_outcome = tlq_outcome q\<rparr> cursor (word_of_nat (tlq_limit q))))
           (\<lambda>(tasks, next_cursor).
         return_ok (ListedAnswer (map (rh_task_view rh) tasks) (map_option format_task_cursor next_cursor))))))))"

definition serve_message :: "'d rpc_host \<Rightarrow> message_input \<Rightarrow> ('d, rpc_success) service" where
  "serve_message rh m =
     bindE (find_rpc_task rh (mi_agent_id m)) (\<lambda>task.
     bindE (lift_result (validate_id (mi_message_id m) ''message_id'')) (\<lambda>_.
     if mi_mode m \<noteq> ''queue'' then refuse ErrValidation ''generic agent messages must use queue mode''
     else
     bindE (lift_result (validate_text (mi_content m) ''content'' (16 * 1024))) (\<lambda>_.
     bindE (on_scheduler (queue_message (st_control (rh_start rh)) (rh_start_tasks rh) (rh_held rh) (tr_agent_id task)
              (mi_message_id m) (mi_mode m) (mi_content m))) (\<lambda>disposition.
     bindE (find_rpc_task rh (mi_agent_id m)) (\<lambda>task.
     return_ok (MessageAnswer (mi_message_id m) disposition (rh_task_view rh task)))))))"

definition serve_respond :: "'d rpc_host \<Rightarrow> respond_input \<Rightarrow> ('d, rpc_success) service" where
  "serve_respond rh r =
     bindE (find_rpc_task rh (ri_agent_id r)) (\<lambda>task.
     bindE (lift_result (validate_id (ri_request_id r) ''request_id'')) (\<lambda>_.
     bindE (lift_result (optional_text (ri_content r) ''response content'' (16 * 1024))) (\<lambda>_.
     bindE (on_scheduler (scheduler_respond_request (st_control (rh_start rh)) (rh_answers rh) (rh_start_tasks rh)
              (tr_agent_id task) (rh_prepared rh) (rh_session rh) (rh_held rh) (ri_request_id r)
              (decision_text (ri_decision r)) (ri_content r))) (\<lambda>out.
     bindE (find_rpc_task rh (ri_agent_id r)) (\<lambda>task.
     return_ok (RespondAnswer out (rh_task_view rh task)))))))"

definition stop_or_close :: "'d rpc_host \<Rightarrow> bool \<Rightarrow> string \<Rightarrow> ('d, task_view) service" where
  "stop_or_close rh closing i =
     bindE (find_rpc_task rh i) (\<lambda>task.
     bindE (on_scheduler (request_stop_or_close (st_control (rh_start rh)) (rh_answers rh) (rh_start_tasks rh)
              ((rh_identity rh)\<lparr>sk_agent_id := tr_agent_id task\<rparr>) (rh_prepared rh) (rh_session rh) (rh_held rh) closing)) (\<lambda>_.
     bindE (find_rpc_task rh i) (\<lambda>task. return_ok (rh_task_view rh task))))"

definition serve_result :: "'d rpc_host \<Rightarrow> string \<Rightarrow> nat \<Rightarrow> nat \<Rightarrow> ('d, rpc_success) service" where
  "serve_result rh i offset limit =
     bindE (find_rpc_task rh i) (\<lambda>task.
     if limit = 0 \<or> max_result_chunk_bytes < limit
     then refuse ErrValidation (''result limit must be between 1 and '' @ show_nat max_result_chunk_bytes @
            '' bytes; received '' @ show_nat limit)
     else
     bindE (on_store (task_result_of (tr_agent_id task))) (\<lambda>stored.
     bindE (lift_result (transpose_opt (\<lambda>s. task_result_page s offset limit) stored)) (\<lambda>view.
     return_ok (ResultAnswer (rh_task_view rh task) view))))"

definition serve_observe :: "'d rpc_host \<Rightarrow> string \<Rightarrow> ('d, rpc_success) service" where
  "serve_observe rh i =
     bindE (find_rpc_task rh i) (\<lambda>task.
     bindE (on_world (inspect (\<lambda>w. if rh_has_activity rh then activity_observation (w_activity w)
              else unavailable_snapshot))) (\<lambda>s.
     if \<not> rh_source_verified rh then refuse ErrUnavailable ''observation runtime source is not verified''
     else return_ok (ObservedAnswer
       \<lparr>ov_schema = observation_schema, ov_agent_id = tr_agent_id task, ov_service_generation = rh_generation rh,
        ov_snapshot_seq = snap_seq s, ov_count_scope = ''agent_lifetime'', ov_tools = snap_tools s,
        ov_reasoning = snap_reasoning s, ov_coverage = snap_coverage s\<rparr>)))"

section \<open>Waiting\<close>

definition longest_request_id :: string where
  "longest_request_id = replicate max_request_id_bytes (CHR 0x01)"

definition fits_frame :: "'d rpc_host \<Rightarrow> rpc_success \<Rightarrow> rpc_fault + bool" where
  "fits_frame rh answer =
     (case rh_encoded rh (success_response longest_request_id answer) of
        None \<Rightarrow> Inl (rpc_error_new ErrOversized ''response encoding failed'')
      | Some n \<Rightarrow> Inr (n + 1 \<le> max_response_frame_bytes))"

definition first_page :: "task_result_view \<Rightarrow> rpc_fault + task_result_view" where
  "first_page v =
     and_then (result_page_bounds (trv_final_text v) 0 max_result_chunk_bytes) (\<lambda>(e, next_offset).
     Inr (v\<lparr>trv_final_text := take e (trv_final_text v), trv_next_offset := next_offset,
            trv_complete := (next_offset = None)\<rparr>))"

definition bound_wait_result :: "'d rpc_host \<Rightarrow> wait_view \<Rightarrow> rpc_fault + wait_view" where
  "bound_wait_result rh v =
     and_then (fits_frame rh (WaitAnswer v)) (\<lambda>fits.
     if fits then Inr v
     else
       and_then (transpose_opt first_page (wv_result v)) (\<lambda>page.
       let v1 = v\<lparr>wv_result := page\<rparr> in
       case rh_encoded rh (success_response longest_request_id (WaitAnswer v1)) of
         None \<Rightarrow> Inl (rpc_error_new ErrOversized ''response frame exceeds cap'')
       | Some n \<Rightarrow> if max_response_frame_bytes < n + 1
                   then Inl (rpc_error_new ErrOversized ''response frame exceeds cap'') else Inr v1))"

fun message_state_text :: "message_state \<Rightarrow> string" where
  "message_state_text MsgQueued = ''queued''"
| "message_state_text MsgSending = ''sending''"
| "message_state_text MsgDelivered = ''delivered''"
| "message_state_text MsgFailed = ''failed''"

definition receipt_of :: "message_row \<Rightarrow> message_receipt_view" where
  "receipt_of m = \<lparr>mrv_message_id = m_message_id m, mrv_state = message_state_text (m_state m),
     mrv_target_turn_id = m_target_turn_id m, mrv_failure_code = message_row.m_failure_code m,
     mrv_created_at_ms = m_created_at m, mrv_delivered_at_ms = m_delivered_at m\<rparr>"

definition message_receipt :: "task_wait_query \<Rightarrow> ('d, message_receipt_view option) service" where
  "message_receipt q =
     (case twq_message_id q of
        None \<Rightarrow> return_ok None
      | Some mid \<Rightarrow>
          bindE (on_store (message mid)) (\<lambda>found.
          return_ok (case found of None \<Rightarrow> None
            | Some m \<Rightarrow> if message_row.m_agent_id m = twq_agent_id q then Some (receipt_of m) else None)))"

text \<open>\<open>taking\<close> hands out the latest text, which is gone afterwards.\<close>

definition activity_snapshot :: "'d rpc_host \<Rightarrow> bool \<Rightarrow> ('d, passive_activity_snapshot option) service" where
  "activity_snapshot rh taking =
     (if rh_has_activity rh
      then on_world (bindE read_time (\<lambda>now w. case snapshot_at now taking (w_activity w) of
             (s, a) \<Rightarrow> (Inr (Some s), w\<lparr>w_activity := a\<rparr>)))
      else return_ok None)"

definition wait_instruction :: "bool \<Rightarrow> bool \<Rightarrow> string option" where
  "wait_instruction result_available ended =
     (if result_available then Some ''Result now available''
      else if \<not> ended then Some (''Not finished yet, call wait again; use observe only if latest_text_tail may ''
        @ ''indicate subagent runs into a meaningless loop'')
      else None)"

definition wait_answer ::
  "'d rpc_host \<Rightarrow> task_record \<Rightarrow> message_receipt_view option \<Rightarrow> pending_request_view list \<Rightarrow>
   stored_task_result option \<Rightarrow> u64 \<Rightarrow> bool \<Rightarrow> ('d, rpc_success) service" where
  "wait_answer rh task receipt asked stored at_revision late =
     (let approval = list_ex respondable_pending_request asked; ended = (tr_phase task = task_phase.Terminal) in
     bindE (activity_snapshot rh True) (\<lambda>taken.
     bindE (activity_snapshot rh False) (\<lambda>shown.
     bindE (lift_result (bound_wait_result rh
       \<lparr>wv_task = rh_task_view rh task, wv_revision = at_revision, wv_next_revision = at_revision,
        wv_pending_requests = asked, wv_command_pending_approval = approval,
        wv_result_available = (stored \<noteq> None), wv_activity = task_activity_view_of (tr_phase task) taken,
        wv_latest_progress = Option.bind shown snap_latest_progress,
        wv_result = (if ended then map_option whole_result_view stored else None),
        wv_instruction = wait_instruction (stored \<noteq> None) ended,
        wv_timed_out = (\<not> approval \<and> \<not> ended \<and> late), wv_message_receipt = receipt\<rparr>)) (\<lambda>v.
     return_ok (WaitAnswer v)))))"

definition wait_look :: "'d rpc_host \<Rightarrow> task_wait_query \<Rightarrow> nat \<Rightarrow> ('d, rpc_success option) service" where
  "wait_look rh q deadline =
     bindE (find_rpc_task rh (twq_agent_id q)) (\<lambda>task.
     bindE (message_receipt q) (\<lambda>receipt.
     bindE (on_store (pending_requests_bounded (tr_agent_id task) max_pending_requests)) (\<lambda>rows.
     bindE (on_store (task_result_of (tr_agent_id task))) (\<lambda>stored.
     bindE (activity_snapshot rh False) (\<lambda>observed.
     bindE (on_world read_time) (\<lambda>now.
     let asked = map (pending_request_view_of (rh_parse rh)) rows;
         at_revision = max (case observed of None \<Rightarrow> 0 | Some s \<Rightarrow> snap_revision s) (tr_last_event_seq task)
     in if list_ex respondable_pending_request asked \<or> tr_phase task = task_phase.Terminal \<or> deadline \<le> now
        then bindE (wait_answer rh task receipt asked stored at_revision (deadline \<le> now)) (\<lambda>a. return_ok (Some a))
        else return_ok None))))))"

fun task_wait :: "'d rpc_host \<Rightarrow> task_wait_query \<Rightarrow> nat \<Rightarrow> bool list \<Rightarrow> ('d, rpc_success option) service" where
  "task_wait rh q deadline [] = return_ok None"
| "task_wait rh q deadline (interrupted # looks) =
     (if interrupted then refuse ErrUnavailable ''wait interrupted''
      else bindE (wait_look rh q deadline) (\<lambda>answer.
           case answer of Some a \<Rightarrow> return_ok (Some a) | None \<Rightarrow> task_wait rh q deadline looks))"

text \<open>Seconds on the clock of the world.\<close>

definition nanos_per_sec :: nat where "nanos_per_sec = 1000000000"

definition serve_wait :: "'d rpc_host \<Rightarrow> task_wait_query \<Rightarrow> bool list \<Rightarrow> ('d, rpc_success option) service" where
  "serve_wait rh q looks =
     (if max_wait_secs < twq_wait_time q
      then refuse ErrValidation ''wait_time must be between 0 and 299 seconds''
      else bindE (on_world read_time) (\<lambda>now. task_wait rh q (now + twq_wait_time q * nanos_per_sec) looks))"

section \<open>Dispatch\<close>

definition answering :: "('d, rpc_success) service \<Rightarrow> ('d, rpc_success option) service" where
  "answering m = bindE m (\<lambda>a. return_ok (Some a))"

fun dispatch :: "'d rpc_host \<Rightarrow> bool list \<Rightarrow> rpc_method \<Rightarrow> ('d, rpc_success option) service" where
  "dispatch rh looks SystemStatus = return_ok (Some (StatusAnswer (system_status rh)))"
| "dispatch rh looks (SubmitGeneral manifest) = answering (serve_submit rh manifest)"
| "dispatch rh looks (TaskList q) = answering (serve_list rh q)"
| "dispatch rh looks (TaskWait q) = serve_wait rh q looks"
| "dispatch rh looks (TaskMessage m) = answering (serve_message rh m)"
| "dispatch rh looks (TaskRespond r) = answering (serve_respond rh r)"
| "dispatch rh looks (TaskCancel i) = answering (bindE (stop_or_close rh False i) (\<lambda>t. return_ok (StoppedAnswer t)))"
| "dispatch rh looks (TaskResult i offset limit) = answering (serve_result rh i offset limit)"
| "dispatch rh looks (TaskClose i) = answering (bindE (stop_or_close rh True i) (\<lambda>t. return_ok (ClosedAnswer t)))"
| "dispatch rh looks (TaskObserve i) = answering (serve_observe rh i)"

section \<open>Frames\<close>

definition echoed_id :: "json \<Rightarrow> string option" where
  "echoed_id v = (case get_str v ''request_id'' of None \<Rightarrow> None
     | Some rid \<Rightarrow> if valid_request_id rid then Some rid else None)"

definition request_fields :: "string list" where
  "request_fields = [''version'', ''request_id'', ''method'', ''params'']"

definition has_only_request_fields :: "json \<Rightarrow> bool" where
  "has_only_request_fields v =
     (case as_object v of None \<Rightarrow> False | Some entries \<Rightarrow> list_all (\<lambda>(key, _). List.member request_fields key) entries)"

definition names_unknown_method :: "json \<Rightarrow> bool" where
  "names_unknown_method v = (case get_str v ''method'' of None \<Rightarrow> False | Some m \<Rightarrow> \<not> is_known_method m)"

text \<open>What a frame asks for, or the id to echo and the error.\<close>

definition classify_frame ::
  "'d rpc_host \<Rightarrow> string \<Rightarrow> (string option \<times> rpc_error_code \<times> string) + rpc_request" where
  "classify_frame rh frame =
     (if max_request_frame_bytes < length frame + 1
      then Inl (None, ErrOversized, ''request frame exceeds the RPC cap'')
      else
        (case rh_parse rh frame of
           None \<Rightarrow> Inl (None, ErrMalformed, ''request is not valid JSON'')
         | Some v \<Rightarrow>
             (let rid = echoed_id v in
             if Option.bind (get v ''version'') as_u64 \<noteq> Some (of_nat rpc_version)
             then Inl (rid, ErrUnsupportedVersion, ''unsupported RPC protocol version'')
             else if \<not> has_only_request_fields v then Inl (rid, ErrValidation, ''request fields are invalid'')
             else if names_unknown_method v then Inl (rid, ErrUnknownMethod, ''unknown RPC method'')
             else
               (case rh_decode rh v of
                  None \<Rightarrow> Inl (rid, ErrValidation, ''request fields are invalid'')
                | Some r \<Rightarrow>
                    if \<not> valid_request_id (rq_request_id r) then Inl (None, ErrValidation, ''request_id is invalid'')
                    else Inr r))))"

definition fault_response :: "string option \<Rightarrow> rpc_fault \<Rightarrow> rpc_response run" where
  "fault_response rid f = (case f of Fault e \<Rightarrow> Returns (error_response rid e) | Panic \<Rightarrow> Panics)"

definition handle_bytes ::
  "'d rpc_host \<Rightarrow> bool list \<Rightarrow> string \<Rightarrow> task_world \<times> 'd \<Rightarrow> rpc_response run option \<times> task_world \<times> 'd" where
  "handle_bytes rh looks frame s =
     (case classify_frame rh frame of
        Inl (rid, code, m) \<Rightarrow> (Some (fault_response rid (rpc_error_new code m)), s)
      | Inr r \<Rightarrow>
          (case dispatch rh looks (rq_method r) s of
             (Inl f, s1) \<Rightarrow> (Some (fault_response (Some (rq_request_id r)) f), s1)
           | (Inr None, s1) \<Rightarrow> (None, s1)
           | (Inr (Some a), s1) \<Rightarrow> (Some (Returns (success_response (rq_request_id r) a)), s1)))"

end
