(* ===== verification/Mcp_Types.thy ===== *)
theory Mcp_Types
  imports Rpc_Service
begin

text \<open>
  The public values of the MCP tools (\<open>crates/zcode-agentd/src/mcp.rs\<close>): errors, identifiers, the
  validation of inputs, and the projections of the views of the RPC interface.
\<close>

section \<open>Errors\<close>

record tool_error_body =
  te_code :: string
  te_message :: string
  te_component :: "string option"
  te_operation :: "string option"
  te_request_id :: "string option"
  te_agent_id :: "u64 option"
  te_cleanup :: "string option"

record tool_error =
  te_body :: tool_error_body
  te_legacy_text :: string

definition tool_error_new :: "string \<Rightarrow> string \<Rightarrow> string \<Rightarrow> string \<Rightarrow> tool_error" where
  "tool_error_new code m legacy_text part =
     \<lparr>te_body = \<lparr>te_code = code, te_message = m, te_component = Some part, te_operation = None,
        te_request_id = None, te_agent_id = None, te_cleanup = None\<rparr>,
      te_legacy_text = legacy_text\<rparr>"

definition validation_error :: "string \<Rightarrow> tool_error" where
  "validation_error detail =
     tool_error_new ''validation'' ''request validation failed'' (''validation: '' @ detail) ''facade''"

definition protocol_error :: tool_error where
  "protocol_error = tool_error_new ''protocol_error'' ''unexpected daemon response''
     ''protocol_error: unexpected daemon response'' ''facade''"

definition version_error :: tool_error where
  "version_error = tool_error_new ''protocol_version_mismatch'' ''incompatible agent daemon''
     ''protocol_version_mismatch: incompatible agent daemon'' ''daemon''"

section \<open>Identifiers\<close>

definition min_public_task_id :: u64 where "min_public_task_id = 10000000"
definition max_public_task_id :: u64 where "max_public_task_id = 99999999"

definition public_id_range :: "u64 \<Rightarrow> bool" where
  "public_id_range n \<longleftrightarrow> min_public_task_id \<le> n \<and> n \<le> max_public_task_id"

text \<open>\<open>str::parse::<u64>\<close> admits a leading plus sign and leading zeros.\<close>

definition public_task_id :: "string \<Rightarrow> tool_error + u64" where
  "public_task_id v =
     (case parse_unsigned 18446744073709551615 v of
        None \<Rightarrow> Inl (validation_error ''agent_id is invalid'')
      | Some k \<Rightarrow>
          (let n = word_of_nat k in
          if \<not> public_id_range n then Inl (validation_error ''agent_id is outside the allowed range'') else Inr n))"

definition internal_task_id :: "u64 \<Rightarrow> tool_error + string" where
  "internal_task_id n =
     (if \<not> public_id_range n then Inl (validation_error ''agent_id is outside the allowed range'')
      else Inr (show_nat (unat n)))"

section \<open>What an error is about\<close>

definition with_operation :: "string \<Rightarrow> tool_error \<Rightarrow> tool_error" where
  "with_operation operation e = e\<lparr>te_body := (te_body e)\<lparr>te_operation := Some operation\<rparr>\<rparr>"

definition with_request_id :: "string \<Rightarrow> tool_error \<Rightarrow> tool_error" where
  "with_request_id rid e = e\<lparr>te_body := (te_body e)\<lparr>te_request_id := Some rid\<rparr>\<rparr>"

definition with_agent_id :: "string option \<Rightarrow> tool_error \<Rightarrow> tool_error" where
  "with_agent_id i e =
     (if te_agent_id (te_body e) = None
      then e\<lparr>te_body := (te_body e)\<lparr>te_agent_id :=
             Option.bind i (\<lambda>v. case public_task_id v of Inl _ \<Rightarrow> None | Inr n \<Rightarrow> Some n)\<rparr>\<rparr>
      else e)"

section \<open>Errors of the daemon\<close>

definition public_code :: "rpc_error \<Rightarrow> string \<times> string" where
  "public_code e =
     (case err_code e of
        ErrMalformed \<Rightarrow> (''validation'', ''request validation failed'')
      | ErrValidation \<Rightarrow> (''validation'', ''request validation failed'')
      | ErrOversized \<Rightarrow> (''oversized'', ''bounded response or request was too large'')
      | ErrUnsupportedVersion \<Rightarrow> (''protocol_version_mismatch'', ''incompatible subagent daemon'')
      | ErrUnknownMethod \<Rightarrow> (''protocol_error'', ''daemon method is unavailable'')
      | ErrNotFound \<Rightarrow> (''not_found'', ''agent task was not found'')
      | ErrConflict \<Rightarrow> (''conflict'',
          if err_message e = ''WORKSPACE_BUSY'' then ''WORKSPACE_BUSY''
          else if err_message e = ''MESSAGE_ID_CONFLICT'' then ''MESSAGE_ID_CONFLICT''
          else ''durable state conflict'')
      | ErrTimeout \<Rightarrow> (''timeout'', ''daemon operation timed out'')
      | ErrRuntimeLost \<Rightarrow> (''runtime_lost'', ''agent runtime was lost'')
      | ErrResultInvalid \<Rightarrow> (''result_invalid'', ''stored task result failed verification'')
      | ErrPersistence \<Rightarrow> (''persistence'', ''durable store operation failed'')
      | ErrInternal \<Rightarrow> (''internal'', ''daemon operation failed'')
      | ErrUnavailable \<Rightarrow>
          if err_message e = ''RUNTIME_COMMAND_FAILED''
          then (''runtime_command_failed'', ''runtime could not complete the command'')
          else (''unavailable'', ''subagent daemon could not complete the operation''))"

definition legacy_text_of :: "rpc_error \<Rightarrow> string \<Rightarrow> string \<Rightarrow> string" where
  "legacy_text_of e code m =
     (case err_active_agent_id e of
        Some i \<Rightarrow> code @ '': '' @ m @ '' (active_agent_id='' @ i @ '')''
      | None \<Rightarrow>
          if (err_code e = ErrValidation \<or> err_code e = ErrMalformed) \<and> err_message e \<noteq> m \<and> length (err_message e) \<le> 512
          then code @ '': '' @ m @ '': '' @ err_message e
          else code @ '': '' @ m)"

definition public_error :: "rpc_error \<Rightarrow> tool_error" where
  "public_error e =
     (case public_code e of (code, m) \<Rightarrow>
        with_agent_id (err_active_agent_id e) (tool_error_new code m (legacy_text_of e code m) ''daemon''))"

datatype transport_error_kind = TransportTimedOut | TransportWouldBlock | TransportInvalidData | TransportOther

definition transport_error :: "string \<Rightarrow> string \<Rightarrow> tool_error" where
  "transport_error code m = tool_error_new code m (code @ '': '' @ m) ''daemon_transport''"

fun public_transport_error :: "transport_error_kind \<Rightarrow> tool_error" where
  "public_transport_error TransportTimedOut = transport_error ''timeout'' ''daemon call exceeded its bound''"
| "public_transport_error TransportWouldBlock = transport_error ''timeout'' ''daemon call exceeded its bound''"
| "public_transport_error TransportInvalidData =
     transport_error ''protocol_error'' ''daemon returned an invalid or oversized frame''"
| "public_transport_error TransportOther = transport_error ''daemon_unavailable'' ''subagent daemon is unavailable''"

section \<open>Inputs\<close>

definition max_path_bytes :: nat where "max_path_bytes = 4096"
definition facade_prompt_bytes :: nat where "facade_prompt_bytes = 256 * 1024"
definition max_message_bytes :: nat where "max_message_bytes = 16 * 1024"
definition max_reason_bytes :: nat where "max_reason_bytes = 2048"

definition check_text :: "string \<Rightarrow> string \<Rightarrow> nat \<Rightarrow> tool_error + unit" where
  "check_text v field limit =
     (if trim v = [] \<or> limit < length v \<or> List.member v nul then Inl (validation_error (field @ '' is invalid''))
      else Inr ())"

definition check_path :: "string \<Rightarrow> string \<Rightarrow> tool_error + unit" where
  "check_path v field = check_text v field max_path_bytes"

text \<open>\<open>PublicPermissionMode\<close> has the four modes of \<open>PermissionMode\<close>; a missing one is \<open>build\<close>.\<close>

record agent_spawn_input =
  as_repository :: string
  as_permission_mode :: permission_mode
  as_prompt :: string
  as_write_manifest :: "string list"

definition check_manifest_path :: "string \<Rightarrow> tool_error + string" where
  "check_manifest_path v =
     and_then (check_path v ''write_manifest'') (\<lambda>_.
     if is_absolute v \<or> list_ex (\<lambda>c. c = ParentDir \<or> c = RootDir) (components v)
     then Inl (validation_error ''write_manifest paths must be relative to repository'')
     else Inr v)"

definition general_manifest :: "agent_spawn_input \<Rightarrow> tool_error + general_task_manifest" where
  "general_manifest input =
     and_then (check_text (as_repository input) ''repository'' max_path_bytes) (\<lambda>_.
     and_then (check_text (as_prompt input) ''prompt'' facade_prompt_bytes) (\<lambda>_.
     if \<not> is_absolute (as_repository input) then Inl (validation_error ''repository must be absolute'')
     else
       and_then (collect_results check_manifest_path (as_write_manifest input)) (\<lambda>paths.
       if as_permission_mode input = PlanMode \<and> paths \<noteq> []
       then Inl (validation_error ''write_manifest is only valid for write permission modes'')
       else Inr \<lparr>m_schema = general_task_schema, m_agent_id = ''daemon-prepared'',
          m_repository = as_repository input, m_permission_mode = as_permission_mode input,
          m_prompt = as_prompt input, m_write_manifest = paths\<rparr>)))"

section \<open>Requests for permission\<close>

datatype public_pending_kind = PermissionRequest | UnsupportedInput
datatype public_pending_state = PendingState | SendingState | RespondedState
datatype public_policy_preview = ExternallyDecidable | HardDeny | UnknownPreview
datatype public_operation =
    ReadOperation | WriteOperation | CommandOperation | NetworkOperation | GitRefMutation | UserInputOperation
  | UnknownOperation

record public_pending_request =
  pp_request_id :: string
  pp_kind :: public_pending_kind
  pp_state :: public_pending_state
  pp_respondable :: bool
  pp_tool_name :: "string option"
  pp_operation :: public_operation
  pp_summary :: string
  pp_policy_preview :: public_policy_preview

fun public_state :: "pending_request_state \<Rightarrow> public_pending_state" where
  "public_state ReqPending = PendingState"
| "public_state ReqSending = SendingState"
| "public_state ReqResponded = RespondedState"

definition public_operation_of :: "string \<Rightarrow> public_operation" where
  "public_operation_of v =
     (if v = ''read'' then ReadOperation
      else if v = ''write'' then WriteOperation
      else if v = ''command'' then CommandOperation
      else if v = ''network'' then NetworkOperation
      else if v = ''git_ref_mutation'' then GitRefMutation
      else if v = ''user_input'' then UserInputOperation
      else UnknownOperation)"

definition public_preview_of :: "string \<Rightarrow> public_policy_preview" where
  "public_preview_of v =
     (if v = ''externally_decidable'' then ExternallyDecidable
      else if v = ''hard_deny'' then HardDeny
      else UnknownPreview)"

definition public_pending :: "pending_request_view \<Rightarrow> public_pending_request" where
  "public_pending v =
     \<lparr>pp_request_id = prv_request_id v,
      pp_kind = (if prv_kind v = ''permission'' then PermissionRequest else UnsupportedInput),
      pp_state = public_state (prv_state v), pp_respondable = prv_respondable v, pp_tool_name = prv_tool_name v,
      pp_operation = public_operation_of (prv_operation v), pp_summary = prv_summary v,
      pp_policy_preview = public_preview_of (prv_policy_preview v)\<rparr>"

section \<open>Tasks and results\<close>

text \<open>\<open>PublicOutcome\<close>, \<open>PublicComponentState\<close> and \<open>PublicActivityState\<close> have the cases of the types
  they are made from, which the model uses for both.\<close>

record public_input_identity =
  pi_workspace_path :: "string option"
  pi_permission_mode :: "string option"

record public_task =
  pt_agent_id :: u64
  pt_phase :: string
  pt_outcome :: "task_outcome option"
  pt_reason_code :: "string option"
  pt_cancel_requested :: bool
  pt_close_requested :: bool
  pt_closed :: bool
  pt_resources_reaped :: bool
  pt_input_identity :: "public_input_identity option"

definition public_task_of :: "task_view \<Rightarrow> tool_error + public_task" where
  "public_task_of v =
     and_then (public_task_id (tv_agent_id v)) (\<lambda>n.
     Inr \<lparr>pt_agent_id = n, pt_phase = tv_phase v, pt_outcome = tv_outcome v, pt_reason_code = tv_reason_code v,
        pt_cancel_requested = tv_stop_requested v, pt_close_requested = tv_close_requested v, pt_closed = tv_closed v,
        pt_resources_reaped = tv_reaped v,
        pt_input_identity = Some \<lparr>pi_workspace_path = iiv_workspace_path (tv_input_identity v),
          pi_permission_mode = iiv_permission_mode (tv_input_identity v)\<rparr>\<rparr>)"

record public_result =
  pr_outcome :: task_outcome
  pr_final_text :: string
  pr_partial :: bool
  pr_offset :: nat
  pr_total_bytes :: nat
  pr_next_offset :: "nat option"
  pr_complete :: bool

definition public_result_of :: "task_result_view \<Rightarrow> public_result" where
  "public_result_of v =
     \<lparr>pr_outcome = trv_outcome v, pr_final_text = trv_final_text v, pr_partial = trv_partial v,
      pr_offset = trv_offset v, pr_total_bytes = trv_total_bytes v, pr_next_offset = trv_next_offset v,
      pr_complete = trv_complete v\<rparr>"

section \<open>Activity\<close>

record public_activity_window =
  pw_reasoning_delta_events :: u64
  pw_text_delta_events :: u64
  pw_tool_calls_started :: u64
  pw_tool_calls_completed :: u64
  pw_tool_calls_failed :: u64
  pw_read_calls :: u64
  pw_bash_calls :: u64
  pw_other_tool_calls :: u64

record public_activity =
  pa_state :: task_activity_state_view
  pa_last_runtime_event_at :: "u64 option"
  pa_last_activity_age_ms :: "u64 option"
  pa_model_request_active :: bool
  pa_model_request_age_ms :: "u64 option"
  pa_model_last_delta_age_ms :: "u64 option"
  pa_latest_text_tail :: string
  pa_latest_text_updated_at :: "u64 option"
  pa_latest_text_truncated :: bool
  pa_active_tools :: "passive_active_tool list"
  pa_window_60s :: public_activity_window
  pa_telemetry_status :: telemetry_status_view

definition public_activity_of :: "task_activity_view \<Rightarrow> public_activity" where
  "public_activity_of v =
     (let w = av_window_60s v in
     \<lparr>pa_state = av_state v, pa_last_runtime_event_at = av_last_runtime_event_at v,
      pa_last_activity_age_ms = av_last_activity_age_ms v, pa_model_request_active = av_model_request_active v,
      pa_model_request_age_ms = av_model_request_age_ms v,
      pa_model_last_delta_age_ms = av_model_last_delta_age_ms v, pa_latest_text_tail = av_latest_text_tail v,
      pa_latest_text_updated_at = av_latest_text_updated_at v,
      pa_latest_text_truncated = av_latest_text_truncated v, pa_active_tools = av_active_tools v,
      pa_window_60s = \<lparr>pw_reasoning_delta_events = wv_reasoning_delta_events w,
        pw_text_delta_events = wv_text_delta_events w, pw_tool_calls_started = wv_tool_calls_started w,
        pw_tool_calls_completed = wv_tool_calls_completed w, pw_tool_calls_failed = wv_tool_calls_failed w,
        pw_read_calls = wv_read_calls w, pw_bash_calls = wv_bash_calls w,
        pw_other_tool_calls = wv_other_tool_calls w\<rparr>,
      pa_telemetry_status = av_telemetry_status v\<rparr>)"

section \<open>Observation\<close>

record public_observed_tool =
  po_tool_name :: string
  po_call_count :: u64
  po_recent_calls :: "observed_call list"

record agent_observe_output =
  ao_tools :: "public_observed_tool list"
  ao_reasoning_text :: string
  ao_reasoning_truncated :: bool
  ao_coverage :: observation_coverage

definition observation_is_known :: "task_observation_view \<Rightarrow> bool" where
  "observation_is_known v \<longleftrightarrow>
     (let from = Observation.source (ov_reasoning v) in
     ov_schema v = ''zas-observation/1.1'' \<and> ov_count_scope v = ''agent_lifetime'' \<and>
     Observation.status from = ''VERIFIED_RUNTIME_PUBLIC'' \<and> Observation.runtime_version from = ''3.11.2'' \<and>
     Observation.event_type from = ''model.streaming'' \<and> Observation.delta_pointer from = ''/params/payload/delta'')"

definition agent_observe_output_of :: "task_observation_view \<Rightarrow> tool_error + agent_observe_output" where
  "agent_observe_output_of v =
     (if \<not> observation_is_known v then Inl protocol_error
      else Inr
        \<lparr>ao_tools = map (\<lambda>t. \<lparr>po_tool_name = Observation.tool_name t, po_call_count = tool_call_count t,
             po_recent_calls = tool_recent_calls t\<rparr>) (ov_tools v),
         ao_reasoning_text = shown_text (ov_reasoning v), ao_reasoning_truncated = Observation.truncated (ov_reasoning v),
         ao_coverage = ov_coverage v\<rparr>)"

section \<open>Status\<close>

record public_agent_capabilities =
  pc_max_rpc_request_frame_bytes :: nat
  pc_max_rpc_response_frame_bytes :: nat
  pc_max_wait_ms :: nat
  pc_maturity :: "(string \<times> capability_maturity_view) list"
  pc_public_reasoning_default :: bool
  pc_top_tools :: nat
  pc_recent_calls_per_tool :: nat
  pc_reasoning_chars :: nat

definition public_capabilities_of :: "agent_capabilities_view \<Rightarrow> public_agent_capabilities" where
  "public_capabilities_of v =
     \<lparr>pc_max_rpc_request_frame_bytes = ac_max_rpc_request_frame_bytes v,
      pc_max_rpc_response_frame_bytes = ac_max_rpc_response_frame_bytes v, pc_max_wait_ms = ac_max_wait_ms v,
      pc_maturity = ac_maturity v, pc_public_reasoning_default = ac_public_reasoning_default v,
      pc_top_tools = ac_top_tools v, pc_recent_calls_per_tool = ac_recent_calls_per_tool v,
      pc_reasoning_chars = ac_reasoning_chars v\<rparr>"

text \<open>\<open>PublicComponentIdentity\<close> is the path of the executable.\<close>

record system_status_output =
  so_components :: "(string \<times> component_state_view) list"
  so_capabilities :: public_agent_capabilities
  so_daemon_path :: "string option option"
  so_facade_path :: "string option"
  so_configured_model :: "model_identity_fact_view option"

definition system_status_output_of :: "system_status_view \<Rightarrow> string option \<Rightarrow> system_status_output" where
  "system_status_output_of v facade_path =
     \<lparr>so_components = ss_components v, so_capabilities = public_capabilities_of (ss_capabilities v),
      so_daemon_path = map_option (\<lambda>i. ai_path (ci_artifact (di_daemon i))) (ss_identity v),
      so_facade_path = facade_path,
      so_configured_model = Option.bind (ss_identity v) (\<lambda>i. mo_configured (di_models i))\<rparr>"

end
