(* ===== verification/Mcp_Tools.thy ===== *)
theory Mcp_Tools
  imports Mcp_Types
begin

text \<open>
  The MCP tools (\<open>crates/zcode-agentd/src/mcp.rs\<close>): each checks its input, makes one RPC call and
  projects the answer.

  The encoder of requests is a parameter, and so is the transport: a socket, or the service of the same
  process (\<open>embedded\<close>). The state is the number of the next request and the state of the transport.
\<close>

section \<open>The call\<close>

datatype transport_failure = TransportFailed transport_error_kind | TransportUnwinds | TransportWaits

record 's facade =
  fa_encode :: "rpc_request \<Rightarrow> string option"
  fa_transport :: "rpc_request \<Rightarrow> string \<Rightarrow> ('s, transport_failure, rpc_response) action"
  fa_uuid :: string
  fa_path :: "string option"

text \<open>A call that fails gives an error; it may also unwind or be waiting still.\<close>

datatype tool_fault = ToolFailed tool_error | Unwinds | Waits

type_synonym ('s, 'a) tool_call = "(u64 \<times> 's, tool_fault, 'a) action"

fun rpc_context :: "rpc_method \<Rightarrow> string \<times> string option" where
  "rpc_context SystemStatus = (''status'', None)"
| "rpc_context (SubmitGeneral _) = (''spawn'', None)"
| "rpc_context (TaskList _) = (''list'', None)"
| "rpc_context (TaskWait q) = (''wait'', Some (twq_agent_id q))"
| "rpc_context (TaskMessage m) = (''send'', Some (mi_agent_id m))"
| "rpc_context (TaskRespond r) = (''respond'', Some (ri_agent_id r))"
| "rpc_context (TaskCancel i) = (''cancel'', Some i)"
| "rpc_context (TaskResult i _ _) = (''result'', Some i)"
| "rpc_context (TaskClose i) = (''close'', Some i)"
| "rpc_context (TaskObserve i) = (''observe'', Some i)"

definition in_context :: "rpc_method \<Rightarrow> string \<Rightarrow> tool_error \<Rightarrow> tool_error" where
  "in_context method rid e =
     (case rpc_context method of (operation, i) \<Rightarrow> with_agent_id i (with_request_id rid (with_operation operation e)))"

definition request_number :: "u64 \<Rightarrow> string" where
  "request_number n = ''subagent-mcp-'' @ show_nat (unat n)"

definition read_response :: "rpc_method \<Rightarrow> string \<Rightarrow> rpc_response \<Rightarrow> tool_fault + rpc_success" where
  "read_response method rid response =
     (if rr_version response \<noteq> rpc_version then Inl (ToolFailed (in_context method rid version_error))
      else
        (case rr_outcome response of
           Inr result \<Rightarrow> Inr result
         | Inl e \<Rightarrow> Inl (ToolFailed (in_context method rid (public_error e)))))"

definition rpc_interruptible :: "'s facade \<Rightarrow> rpc_method \<Rightarrow> ('s, rpc_success) tool_call" where
  "rpc_interruptible fa method = (\<lambda>(n, s).
     let rid = request_number n; request = \<lparr>rq_request_id = rid, rq_method = method\<rparr> in
     case fa_encode fa request of
       None \<Rightarrow> (Inl (ToolFailed (in_context method rid (validation_error ''request encoding failed''))), n + 1, s)
     | Some encoded \<Rightarrow>
         if 512 * 1024 < length encoded + 1
         then (Inl (ToolFailed (in_context method rid (validation_error ''encoded RPC request exceeds frame cap''))), n + 1, s)
         else
           (case fa_transport fa request encoded s of
              (Inl (TransportFailed k), s1) \<Rightarrow>
                (Inl (ToolFailed (in_context method rid (public_transport_error k))), n + 1, s1)
            | (Inl TransportUnwinds, s1) \<Rightarrow> (Inl Unwinds, n + 1, s1)
            | (Inl TransportWaits, s1) \<Rightarrow> (Inl Waits, n + 1, s1)
            | (Inr response, s1) \<Rightarrow> (read_response method rid response, n + 1, s1)))"

text \<open>\<open>rpc_wait\<close> runs the call in a task of its own, whose panic is an error.\<close>

definition rpc_wait :: "'s facade \<Rightarrow> task_wait_query \<Rightarrow> ('s, rpc_success) tool_call" where
  "rpc_wait fa q s =
     (case rpc_interruptible fa (TaskWait q) s of
        (Inl Unwinds, s1) \<Rightarrow> (Inl (ToolFailed (with_operation ''wait'' protocol_error)), s1)
      | out \<Rightarrow> out)"

text \<open>The service of the same process.\<close>

definition embedded ::
  "'d rpc_host \<Rightarrow> bool list \<Rightarrow> rpc_request \<Rightarrow> string \<Rightarrow> (task_world \<times> 'd, transport_failure, rpc_response) action" where
  "embedded rh looks request frame s =
     (case handle_bytes rh looks frame s of
        (None, s1) \<Rightarrow> (Inl TransportWaits, s1)
      | (Some Panics, s1) \<Rightarrow> (Inl TransportUnwinds, s1)
      | (Some (Returns response), s1) \<Rightarrow> (Inr response, s1))"

section \<open>Errors of a tool\<close>

definition tool_fails :: "tool_error \<Rightarrow> ('s, 'a) tool_call" where
  "tool_fails e = fail_with (ToolFailed e)"

text \<open>\<open>result.map_err(wrap)?\<close>\<close>

definition tool_try :: "(tool_error \<Rightarrow> tool_error) \<Rightarrow> tool_error + 'a \<Rightarrow> ('s, 'a) tool_call" where
  "tool_try wrap r = lift_result (map_sum (\<lambda>e. ToolFailed (wrap e)) id r)"

definition unexpected :: "string \<Rightarrow> string option \<Rightarrow> ('s, 'a) tool_call" where
  "unexpected operation i = tool_fails (with_agent_id i (with_operation operation protocol_error))"

definition tool_agent :: "string \<Rightarrow> u64 \<Rightarrow> ('s, string) tool_call" where
  "tool_agent operation n = tool_try (with_operation operation) (internal_task_id n)"

section \<open>Tools\<close>

definition tool_status :: "'s facade \<Rightarrow> ('s, system_status_output) tool_call" where
  "tool_status fa =
     bindE (rpc_interruptible fa SystemStatus) (\<lambda>answer.
     case answer of
       StatusAnswer v \<Rightarrow> return_ok (system_status_output_of v (fa_path fa))
     | _ \<Rightarrow> tool_fails (with_operation ''status'' protocol_error))"

record agent_spawn_output =
  sp_agent_id :: u64
  sp_submission_disposition :: submission_disposition
  sp_phase :: string

definition tool_spawn :: "'s facade \<Rightarrow> agent_spawn_input \<Rightarrow> ('s, agent_spawn_output) tool_call" where
  "tool_spawn fa input =
     bindE (tool_try (with_operation ''spawn'') (general_manifest input)) (\<lambda>manifest.
     bindE (rpc_interruptible fa (SubmitGeneral manifest)) (\<lambda>answer.
     case answer of
       SubmittedAnswer task disposition \<Rightarrow>
         bindE (tool_try (with_operation ''spawn'') (public_task_id (tv_agent_id task))) (\<lambda>n.
         return_ok \<lparr>sp_agent_id = n, sp_submission_disposition = disposition, sp_phase = tv_phase task\<rparr>)
     | _ \<Rightarrow> tool_fails (with_operation ''spawn'' protocol_error)))"

record agent_wait_input =
  aw_agent_id :: u64
  aw_after_revision :: u64
  aw_wait_time :: nat
  aw_message_id :: "string option"

record agent_wait_output =
  wo_task :: public_task
  wo_revision :: u64
  wo_next_revision :: u64
  wo_pending_requests :: "public_pending_request list"
  wo_command_pending_approval :: bool
  wo_result_available :: bool
  wo_activity :: public_activity
  wo_latest_progress :: "string option"
  wo_result :: "public_result option"
  wo_instruction :: "string option"
  wo_timed_out :: bool
  wo_message_receipt :: "message_receipt_view option"

definition agent_wait_output_of :: "wait_view \<Rightarrow> tool_error + agent_wait_output" where
  "agent_wait_output_of v =
     and_then (public_task_of (wv_task v)) (\<lambda>task.
     Inr \<lparr>wo_task = task, wo_revision = wv_revision v, wo_next_revision = wv_next_revision v,
        wo_pending_requests = map public_pending (wv_pending_requests v),
        wo_command_pending_approval = wv_command_pending_approval v, wo_result_available = wv_result_available v,
        wo_activity = public_activity_of (wv_activity v), wo_latest_progress = wv_latest_progress v,
        wo_result = map_option public_result_of (wv_result v), wo_instruction = wv_instruction v,
        wo_timed_out = wv_timed_out v, wo_message_receipt = wv_message_receipt v\<rparr>)"

definition tool_wait :: "'s facade \<Rightarrow> agent_wait_input \<Rightarrow> ('s, agent_wait_output) tool_call" where
  "tool_wait fa input =
     bindE (tool_agent ''wait'' (aw_agent_id input)) (\<lambda>i.
     if 299 < aw_wait_time input
     then tool_fails (with_agent_id (Some i) (with_operation ''wait'' (validation_error ''wait_time must be between 0 and 299'')))
     else
       bindE (rpc_wait fa \<lparr>twq_agent_id = i, twq_after_revision = aw_after_revision input,
                twq_wait_time = aw_wait_time input, twq_message_id = aw_message_id input\<rparr>) (\<lambda>answer.
       case answer of
         WaitAnswer v \<Rightarrow> tool_try id (agent_wait_output_of v)
       | _ \<Rightarrow> tool_fails (with_operation ''wait'' protocol_error)))"

definition tool_observe :: "'s facade \<Rightarrow> u64 \<Rightarrow> ('s, agent_observe_output) tool_call" where
  "tool_observe fa n =
     bindE (tool_agent ''observe'' n) (\<lambda>i.
     bindE (rpc_interruptible fa (TaskObserve i)) (\<lambda>answer.
     case answer of
       ObservedAnswer v \<Rightarrow> tool_try (\<lambda>e. with_agent_id (Some i) (with_operation ''observe'' e)) (agent_observe_output_of v)
     | _ \<Rightarrow> unexpected ''observe'' (Some i)))"

record agent_list_input =
  al_repository :: "string option"
  al_phase :: "task_phase option"
  al_outcome :: "task_outcome option"
  al_cursor :: "string option"
  al_limit :: nat

definition tool_list :: "'s facade \<Rightarrow> agent_list_input \<Rightarrow> ('s, public_task list \<times> string option) tool_call" where
  "tool_list fa input =
     (if \<not> (1 \<le> al_limit input \<and> al_limit input \<le> 100)
      then tool_fails (with_operation ''list'' (validation_error ''limit must be between 1 and 100''))
      else if al_repository input = None
      then tool_fails (with_operation ''list'' (validation_error ''at least one list scope is required''))
      else
        bindE (rpc_interruptible fa (TaskList \<lparr>tlq_repository = al_repository input, tlq_phase = al_phase input,
                 tlq_outcome = al_outcome input, tlq_cursor = al_cursor input, tlq_limit = al_limit input\<rparr>)) (\<lambda>answer.
        case answer of
          ListedAnswer tasks next_cursor \<Rightarrow>
            bindE (tool_try id (collect_results public_task_of tasks)) (\<lambda>shown. return_ok (shown, next_cursor))
        | _ \<Rightarrow> tool_fails (with_operation ''list'' protocol_error)))"

definition generated_message_id :: "'s facade \<Rightarrow> string" where
  "generated_message_id fa = ''subagent-message-'' @ fa_uuid fa"

definition tool_send ::
  "'s facade \<Rightarrow> u64 \<Rightarrow> string option \<Rightarrow> string \<Rightarrow> ('s, string \<times> message_disposition) tool_call" where
  "tool_send fa n message_id content =
     bindE (tool_agent ''send'' n) (\<lambda>i.
     bindE (tool_try (\<lambda>e. with_agent_id (Some i) (with_operation ''send'' e)) (check_text content ''content'' max_message_bytes)) (\<lambda>_.
     bindE (rpc_interruptible fa (TaskMessage \<lparr>mi_agent_id = i,
              mi_message_id = (case message_id of Some m \<Rightarrow> m | None \<Rightarrow> generated_message_id fa),
              mi_mode = ''queue'', mi_content = content\<rparr>)) (\<lambda>answer.
     case answer of
       MessageAnswer m disposition _ \<Rightarrow> return_ok (m, disposition)
     | _ \<Rightarrow> unexpected ''send'' (Some i))))"

datatype public_decision = PublicAllow | PublicDeny

record agent_respond_output =
  ro_public_disposition :: response_disposition
  ro_public_requested :: public_decision
  ro_public_effective :: public_decision
  ro_public_overrode :: bool
  ro_public_reason_code :: "string option"

definition public_decision_of :: "string \<Rightarrow> public_decision" where
  "public_decision_of v = (if v = ''allow'' then PublicAllow else PublicDeny)"

definition project_response :: "response_outcome \<Rightarrow> agent_respond_output" where
  "project_response out =
     \<lparr>ro_public_disposition = ro_disposition out,
      ro_public_requested = public_decision_of (ro_requested_decision out),
      ro_public_effective = public_decision_of (ro_effective_decision out),
      ro_public_overrode = ro_policy_overrode out, ro_public_reason_code = ro_policy_reason_code out\<rparr>"

definition reason_refused :: "string option \<Rightarrow> bool" where
  "reason_refused v = (case v of None \<Rightarrow> False | Some t \<Rightarrow> t = [] \<or> max_reason_bytes < length t \<or> List.member t nul)"

fun daemon_decision :: "public_decision \<Rightarrow> response_decision" where
  "daemon_decision PublicAllow = DecideAllow"
| "daemon_decision PublicDeny = DecideDeny"

definition tool_respond ::
  "'s facade \<Rightarrow> u64 \<Rightarrow> string \<Rightarrow> public_decision \<Rightarrow> string option \<Rightarrow> ('s, agent_respond_output) tool_call" where
  "tool_respond fa n request_id decision why =
     bindE (tool_agent ''respond'' n) (\<lambda>i.
     if reason_refused why
     then tool_fails (with_agent_id (Some i) (with_operation ''respond'' (validation_error ''reason is invalid'')))
     else
       bindE (rpc_interruptible fa (TaskRespond \<lparr>ri_agent_id = i, ri_request_id = request_id,
                ri_decision = daemon_decision decision, ri_content = why\<rparr>)) (\<lambda>answer.
       case answer of
         RespondAnswer out _ \<Rightarrow> return_ok (project_response out)
       | _ \<Rightarrow> unexpected ''respond'' (Some i)))"

definition tool_cancel :: "'s facade \<Rightarrow> u64 \<Rightarrow> ('s, public_task) tool_call" where
  "tool_cancel fa n =
     bindE (tool_agent ''cancel'' n) (\<lambda>i.
     bindE (rpc_interruptible fa (TaskCancel i)) (\<lambda>answer.
     case answer of StoppedAnswer task \<Rightarrow> tool_try id (public_task_of task) | _ \<Rightarrow> unexpected ''cancel'' (Some i)))"

definition tool_close :: "'s facade \<Rightarrow> u64 \<Rightarrow> ('s, public_task) tool_call" where
  "tool_close fa n =
     bindE (tool_agent ''close'' n) (\<lambda>i.
     bindE (rpc_interruptible fa (TaskClose i)) (\<lambda>answer.
     case answer of ClosedAnswer task \<Rightarrow> tool_try id (public_task_of task) | _ \<Rightarrow> unexpected ''close'' (Some i)))"

definition facade_result ::
  "'s facade \<Rightarrow> string \<Rightarrow> nat \<Rightarrow> nat \<Rightarrow> ('s, public_task \<times> public_result option) tool_call" where
  "facade_result fa i offset limit =
     bindE (rpc_interruptible fa (TaskResult i offset limit)) (\<lambda>answer.
     case answer of
       ResultAnswer task result \<Rightarrow>
         bindE (tool_try id (public_task_of task)) (\<lambda>shown.
         return_ok (shown, map_option public_result_of result))
     | _ \<Rightarrow> unexpected ''result'' (Some i))"

definition tool_result ::
  "'s facade \<Rightarrow> u64 \<Rightarrow> nat \<Rightarrow> nat \<Rightarrow> ('s, public_task \<times> public_result option) tool_call" where
  "tool_result fa n offset limit =
     bindE (tool_agent ''result'' n) (\<lambda>i. facade_result fa i offset limit)"

end
