(* ===== verification/Rpc_Socket.thy ===== *)
theory Rpc_Socket
  imports Rpc_Service
begin

text \<open>
  The socket side of the RPC interface (\<open>crates/zcode-agentd/src/rpc/unix.rs\<close>): the frame that is
  read from a connection, the answer that is written, the worker threads that are counted, and the
  sockets of former daemons that are removed.

  A connection is the list of chunks \<open>fill_buf\<close> returns, with an error for a failed read; a socket file
  is its kind and identity.
\<close>

section \<open>Frames\<close>

datatype frame_error = EmptyFrame | FrameExceedsCap | ReadFailed

text \<open>The first line of a chunk with what follows it, if it holds one.\<close>

definition newline_position :: "string \<Rightarrow> nat option" where
  "newline_position s = (if nl \<in> set s then Some (length (takeWhile (\<lambda>c. c \<noteq> nl) s)) else None)"

fun read_limited_frame :: "nat \<Rightarrow> string \<Rightarrow> (unit + string) list \<Rightarrow> frame_error + string" where
  "read_limited_frame cap frame [] = (if frame = [] then Inl EmptyFrame else Inr frame)"
| "read_limited_frame cap frame (Inl _ # chunks) = Inl ReadFailed"
| "read_limited_frame cap frame (Inr available # chunks) =
     (if available = [] then (if frame = [] then Inl EmptyFrame else Inr frame)
      else
        (let newline = newline_position available;
             taken = (case newline of None \<Rightarrow> length available | Some n \<Rightarrow> n)
         in if cap < length frame + taken then Inl FrameExceedsCap
            else if newline \<noteq> None then Inr (frame @ take taken available)
            else read_limited_frame cap (frame @ take taken available) chunks))"

section \<open>Answers\<close>

text \<open>
  \<open>encoded\<close> is \<open>serde_json::to_vec\<close>. An answer that does not fit is replaced by an error; \<open>None\<close> means
  that nothing is written.
\<close>

definition oversized_response :: "rpc_response \<Rightarrow> rpc_response" where
  "oversized_response r =
     \<lparr>rr_version = rpc_version,
      rr_request_id = (case rr_request_id r of None \<Rightarrow> None
        | Some rid \<Rightarrow> if rid \<noteq> [] \<and> length rid \<le> 128 then Some rid else None),
      rr_outcome = Inl \<lparr>err_code = ErrOversized, err_message = ''response frame exceeds cap'',
        err_active_agent_id = None\<rparr>\<rparr>"

definition write_response :: "(rpc_response \<Rightarrow> string option) \<Rightarrow> rpc_response \<Rightarrow> string option" where
  "write_response encoded r =
     (case encoded r of
        None \<Rightarrow> None
      | Some frame \<Rightarrow>
          if length frame + 1 \<le> max_response_frame_bytes then Some (frame @ [nl])
          else
            (case encoded (oversized_response r) of
               None \<Rightarrow> None
             | Some fallback \<Rightarrow>
                 if length fallback + 1 \<le> max_response_frame_bytes then Some (fallback @ [nl]) else None))"

text \<open>The answer of the accept loop to a connection it turns away.\<close>

definition write_busy :: "(rpc_response \<Rightarrow> string option) \<Rightarrow> string option" where
  "write_busy encoded = write_response encoded (error_response None
     \<lparr>err_code = ErrConflict, err_message = ''server connection limit reached'', err_active_agent_id = None\<rparr>)"

text \<open>What a worker does with a connection: the bytes it writes, or a panic.\<close>

definition handle_connection ::
  "(rpc_response \<Rightarrow> string option) \<Rightarrow> (string \<Rightarrow> rpc_response run) \<Rightarrow> (unit + string) list \<Rightarrow> string option run" where
  "handle_connection encoded handle chunks =
     (case read_limited_frame (max_request_frame_bytes - 1) [] chunks of
        Inr frame \<Rightarrow>
          (case handle frame of Panics \<Rightarrow> Panics | Returns r \<Rightarrow> Returns (write_response encoded r))
      | Inl FrameExceedsCap \<Rightarrow>
          Returns (write_response encoded (error_response None
            \<lparr>err_code = ErrOversized, err_message = ''request frame exceeds cap'', err_active_agent_id = None\<rparr>))
      | Inl _ \<Rightarrow> Returns None)"

section \<open>The server\<close>

text \<open>
  The accept loop: a connection is turned away while \<open>max_connections\<close> workers are counted; a worker is
  counted when it is spawned and discounted after it has handled its connection. A worker that panics is
  unwound before the decrement.
\<close>

record server_state =
  sv_active :: nat
  sv_running :: nat

datatype server_event = Connects | WorkerReturns | WorkerPanics

definition server_init :: server_state where
  "server_init = \<lparr>sv_active = 0, sv_running = 0\<rparr>"

inductive server_step :: "nat \<Rightarrow> server_state \<Rightarrow> server_event \<Rightarrow> server_state \<Rightarrow> bool" for max_connections where
  admitted: "sv_active s < max_connections \<Longrightarrow>
     server_step max_connections s Connects (s\<lparr>sv_active := sv_active s + 1, sv_running := sv_running s + 1\<rparr>)"
| turned_away: "max_connections \<le> sv_active s \<Longrightarrow> server_step max_connections s Connects s"
| returns: "0 < sv_running s \<Longrightarrow>
     server_step max_connections s WorkerReturns (s\<lparr>sv_active := sv_active s - 1, sv_running := sv_running s - 1\<rparr>)"
| panics: "0 < sv_running s \<Longrightarrow>
     server_step max_connections s WorkerPanics (s\<lparr>sv_running := sv_running s - 1\<rparr>)"

inductive server_run :: "nat \<Rightarrow> server_state \<Rightarrow> server_event list \<Rightarrow> server_state \<Rightarrow> bool" for max_connections where
  rests: "server_run max_connections s [] s"
| moves: "server_step max_connections s e s1 \<Longrightarrow> server_run max_connections s1 es s2 \<Longrightarrow>
     server_run max_connections s (e # es) s2"

section \<open>Sockets of former daemons\<close>

record socket_identity =
  so_device :: u64
  so_inode :: u64

datatype path_entry = SocketEntry socket_identity | OtherFile

datatype connect_result = Accepted | ConnectionRefused | OtherConnectError

datatype stale_error = PathIsNotASocket | SocketHasListener | ConnectError | IdentityChanged | PathUnreadable

text \<open>
  \<open>look\<close> is what \<open>symlink_metadata\<close> says before and after the connection attempt (\<open>Inr None\<close>: nothing is
  there); the result says whether the file is removed.
\<close>

definition remove_stale_socket_with ::
  "(unit + path_entry option) \<Rightarrow> connect_result \<Rightarrow> (unit + path_entry option) \<Rightarrow> stale_error + bool" where
  "remove_stale_socket_with before connect after =
     (case before of
        Inl _ \<Rightarrow> Inl PathUnreadable
      | Inr None \<Rightarrow> Inr False
      | Inr (Some OtherFile) \<Rightarrow> Inl PathIsNotASocket
      | Inr (Some (SocketEntry expected)) \<Rightarrow>
          (case connect of
             Accepted \<Rightarrow> Inl SocketHasListener
           | OtherConnectError \<Rightarrow> Inl ConnectError
           | ConnectionRefused \<Rightarrow>
               (case after of
                  Inr (Some (SocketEntry current)) \<Rightarrow>
                    if current = expected then Inr True else Inl IdentityChanged
                | Inr (Some OtherFile) \<Rightarrow> Inl IdentityChanged
                | _ \<Rightarrow> Inl PathUnreadable)))"

definition remove_matching_socket :: "(unit + path_entry option) \<Rightarrow> socket_identity \<Rightarrow> stale_error + bool" where
  "remove_matching_socket found expected =
     (case found of
        Inl _ \<Rightarrow> Inl PathUnreadable
      | Inr None \<Rightarrow> Inr False
      | Inr (Some OtherFile) \<Rightarrow> Inr False
      | Inr (Some (SocketEntry current)) \<Rightarrow> Inr (current = expected))"

section \<open>The client\<close>

text \<open>
  \<open>read_limited_frame_until\<close> on the reads of a non-blocking socket, each with the interruption and the
  time left that the loop sees before it: data, nothing yet, the end, or an error.
\<close>

datatype client_read = GotBytes string | NothingYet | PeerClosed | BrokenRead

datatype client_error = ReadInterrupted | DeadlineElapsed | PeerClosedBeforeFrame | ResponseExceedsCap | ClientReadFailed

fun read_frame_until :: "nat \<Rightarrow> string \<Rightarrow> (bool \<times> bool \<times> client_read) list \<Rightarrow> client_error + string option" where
  "read_frame_until limit frame [] = Inr None"
| "read_frame_until limit frame ((interrupted, in_time, got) # looks) =
     (if interrupted then Inl ReadInterrupted
      else if \<not> in_time then Inl DeadlineElapsed
      else
        (case got of
           PeerClosed \<Rightarrow> Inl PeerClosedBeforeFrame
         | NothingYet \<Rightarrow> read_frame_until limit frame looks
         | BrokenRead \<Rightarrow> Inl ClientReadFailed
         | GotBytes buffer \<Rightarrow>
             (case newline_position buffer of
                Some n \<Rightarrow>
                  if limit < length (frame @ take n buffer) then Inl ResponseExceedsCap
                  else Inr (Some (frame @ take n buffer))
              | None \<Rightarrow>
                  if limit < length (frame @ buffer) then Inl ResponseExceedsCap
                  else read_frame_until limit (frame @ buffer) looks)))"

end
