(* ===== verification/Task_Sink_Properties.thy ===== *)
theory Task_Sink_Properties
  imports Task_Sink Store_Contracts
begin

text \<open>
  Once a task is stopping its runtime writes nothing more, what is logged is redacted, and a stored
  result respects a cancellation that was recorded in time.
\<close>

section \<open>The lifecycle of a runtime\<close>

inductive lifecycle_step :: "runtime_lifecycle \<Rightarrow> runtime_lifecycle \<Rightarrow> bool" where
  step_note_stop: "lifecycle_step l (note_stop now turn l)"
| step_acknowledge: "lifecycle_step l (snd (acknowledge_boundary turn l))"
| step_force: "lifecycle_step l (force_terminating l)"
| step_terminalize: "lifecycle_step l (terminalize l)"
| step_admit: "lifecycle_step l (snd (admit_event l))"

lemmas lifecycle_defs = note_stop_def acknowledge_boundary_def force_terminating_def terminalize_def admit_event_def

definition lifecycle_ok :: "runtime_lifecycle \<Rightarrow> bool" where
  "lifecycle_ok l \<longleftrightarrow> uint (rl_late_event_count l) \<le> 64 \<and>
     (rl_phase l = LifecycleRunning \<longrightarrow> rl_late_event_count l = 0) \<and>
     uint (rl_force_termination_count l) \<le> 1 \<and>
     (rl_phase l \<in> {LifecycleRunning, StopRequested, StopAcknowledged} \<longrightarrow> rl_force_termination_count l = 0) \<and>
     (rl_phase l = StopAcknowledged \<longrightarrow> rl_observed_boundary l \<noteq> None)"

lemma capped_count:
  "uint (if saturating_add n 1 \<le> max_bounded_late_event_diagnostics then saturating_add n 1
     else max_bounded_late_event_diagnostics) \<le> 64"
  by (simp add: max_bounded_late_event_diagnostics_def word_le_def)

lemma lifecycle_ok_step: "lifecycle_ok l \<Longrightarrow> lifecycle_step l l' \<Longrightarrow> lifecycle_ok l'"
proof -
  assume ok: "lifecycle_ok l" and "lifecycle_step l l'"
  from this(2) show ?thesis
  proof cases
    case (step_note_stop now turn)
    with ok show ?thesis by (auto simp: lifecycle_ok_def note_stop_def)
  next
    case (step_acknowledge turn)
    with ok show ?thesis by (auto simp: lifecycle_ok_def acknowledge_boundary_def)
  next
    case step_force
    with ok show ?thesis
      by (cases "rl_phase l") (auto simp: lifecycle_ok_def force_terminating_def uint_saturating_add)
  next
    case step_terminalize
    with ok show ?thesis by (auto simp: lifecycle_ok_def terminalize_def)
  next
    case step_admit
    with ok capped_count show ?thesis by (auto simp: lifecycle_ok_def admit_event_def Let_def)
  qed
qed

lemma lifecycle_ok_new: "lifecycle_ok (new_lifecycle g)"
  by (simp add: lifecycle_ok_def new_lifecycle_def)

interpretation lifecycle: invariant_machine "new_lifecycle g" lifecycle_step lifecycle_ok for g
  by unfold_locales (rule lifecycle_ok_new, rule lifecycle_ok_step)

lemma stopped_stays: "lifecycle_step l l' \<Longrightarrow> rl_phase l \<noteq> LifecycleRunning \<Longrightarrow> rl_phase l' \<noteq> LifecycleRunning"
  by (erule lifecycle_step.cases) (auto simp: lifecycle_defs Let_def)

text \<open>
  Claim C30. Stopping is permanent: from the moment the lifecycle of a runtime leaves its running phase,
  and whatever is done to it afterwards, every record that the runtime still emits leaves the
  database, the activity tracker and the sink as they are and is at most counted; no ingress is
  admitted. At most 64 late records are counted and a runtime is force-terminated at most once.
\<close>

theorem late_events_write_nothing:
  assumes "reach (new_lifecycle g) lifecycle_step l" and "rl_phase l \<noteq> LifecycleRunning"
    and "lifecycle_step\<^sup>*\<^sup>* l l'"
  shows "emit h k now wall r (w\<lparr>w_lifecycle := l'\<rparr>) = w\<lparr>w_lifecycle := snd (admit_event l')\<rparr> \<and>
    ingress_reason l' \<noteq> None \<and> uint (rl_late_event_count (snd (admit_event l'))) \<le> 64 \<and>
    uint (rl_force_termination_count l') \<le> 1"
proof -
  from assms(3,2) have stopped: "rl_phase l' \<noteq> LifecycleRunning"
    by (induction rule: rtranclp_induct) (simp, blast dest: stopped_stays)
  have "lifecycle_ok l'"
    using lifecycle.steps_keep [OF assms(3)] lifecycle.reach_inv [OF assms(1)] by blast
  moreover from this have "lifecycle_ok (snd (admit_event l'))"
    by (rule lifecycle_ok_step) (rule step_admit)
  ultimately show ?thesis
    using stopped by (auto simp: emit_def admit_event_def ingress_reason_def lifecycle_ok_def
        split: runtime_lifecycle_phase.split)
qed

section \<open>The event log\<close>

text \<open>An event without what the runtime put into it: only kinds, methods and numbers remain.\<close>

fun erase_message :: "wire_message \<Rightarrow> wire_message" where
  "erase_message (Request r) = Request \<lparr>req_id = IntegerId 0, req_method = req_method r, req_params = JNull\<rparr>"
| "erase_message (Response r) = Response \<lparr>resp_id = IntegerId 0,
     resp_result = (if resp_error r = None then Some JNull else None),
     resp_error = map_option (\<lambda>_. JNull) (resp_error r)\<rparr>"
| "erase_message (Event e) = Event \<lparr>ev_method = ev_method e,
     ev_params = JObject (case Protocol.event_type e of None \<Rightarrow> [] | Some t \<Rightarrow> [(''type'', JString t)])\<rparr>"
| "erase_message (UnknownEvent m v) = UnknownEvent [] JNull"

fun erase_loss :: "runtime_loss \<Rightarrow> runtime_loss" where
  "erase_loss (StopFailed m) = StopFailed []"
| "erase_loss l = l"

fun erase :: "runtime_event \<Rightarrow> runtime_event" where
  "erase (DriverEvent (Message m)) = DriverEvent (Message (erase_message m))"
| "erase (DriverEvent (Malformed e)) = DriverEvent (Malformed NotObject)"
| "erase (DriverEvent (UnmatchedResponse i out)) = DriverEvent (UnmatchedResponse (IntegerId 0) out)"
| "erase (TerminalEvent (FailedRuntimeLost l)) = TerminalEvent (FailedRuntimeLost (erase_loss l))"
| "erase (TerminalEvent (Orphaned l)) = TerminalEvent (Orphaned (erase_loss l))"
| "erase e = e"

lemma erase_loss_name: "runtime_loss_name (erase_loss l) = runtime_loss_name l"
  "runtime_loss_redaction (erase_loss l) = runtime_loss_redaction l"
  by (cases l; simp)+

text \<open>
  The event log is redacted: the row that is logged for an event is a function of the event
  without its contents. Parameters, identifiers, results, errors, raw lines and the texts of failed
  stops have no influence on it; only kinds, methods, turn types, exit classes and sizes do.
\<close>

theorem log_is_redacted:
  "lifecycle_write_of h k sequence (erase e) request_id = lifecycle_write_of h k sequence e request_id"
proof -
  have "lifecycle_projection (erase e) request_id = lifecycle_projection e request_id \<and>
      event_turn_state (erase e) = event_turn_state e"
    by (cases e rule: erase.cases; (cases "case e of DriverEvent (Message m) \<Rightarrow> m | _ \<Rightarrow> UnknownEvent [] JNull")?)
      (auto simp: lifecycle_projection_def event_turn_state_def erase_loss_name Protocol.event_type_def
        get_str_def split: option.split)
  then show ?thesis by (simp add: lifecycle_write_of_def)
qed

section \<open>Results\<close>

definition result_row_of :: "string \<Rightarrow> db \<Rightarrow> result_row option" where
  "result_row_of i d = find (\<lambda>r. r_agent_id r = i) (db_results d)"

text \<open>The other threads call store methods, but none of them stores or deletes a result of this task.\<close>

definition quiet_step :: "string \<Rightarrow> db \<Rightarrow> db \<Rightarrow> bool" where
  "quiet_step i d d' \<longleftrightarrow> store_step_restore\<^sup>*\<^sup>* d d' \<and> result_row_of i d' = result_row_of i d"

definition without_result :: "string \<Rightarrow> db \<Rightarrow> bool" where
  "without_result i d \<longleftrightarrow> store_inv d \<and> result_row_of i d = None"

interpretation resultless: stable_predicate "without_result i" "quiet_step i" for i
  by unfold_locales (auto simp: without_result_def quiet_step_def intro: store.steps_keep)

text \<open>The task has ended with this result, which respects a cancellation.\<close>

definition ended_with :: "string \<Rightarrow> task_result \<Rightarrow> db \<Rightarrow> bool" where
  "ended_with i res d \<longleftrightarrow> (\<exists>row r. result_row_of i d = Some row \<and> find_task d i = Some r \<and>
     r_outcome row = res_outcome res \<and> r_final_text row = res_final_text res \<and>
     t_phase r = Terminal \<and> t_outcome r = Some (res_outcome res) \<and>
     (flagged r \<longrightarrow> res_outcome res = task_outcome.Cancelled))"

lemma find_task_ledger: "insert_ledger now i ep fp tp out code d = Inr d' \<Longrightarrow> find_task d' j = find_task d j"
  by (simp add: find_task_def insert_ledger_keeps(3))

lemma apply_terminal_results:
  assumes "core_inv d" "apply_terminal now i ep fp cl st tu d = Inr (out, d')"
  shows "db_results d' = db_results d"
  using assms by (elim apply_terminal_Inr) (auto dest: insert_ledger_keeps(6))

lemma store_task_result_ends:
  assumes inv: "store_inv d" and none: "result_row_of i d = None"
    and run: "store_task_result digest now i res d = (Inr (), d')"
  shows "ended_with i res d'"
proof -
  note core = store_inv_core [OF inv]
  show ?thesis
  proof (rule store_task_result_cases [OF core run], goal_cases again stored)
    case (again row)
    with none show ?thesis by (simp add: result_row_of_def)
  next
    case (stored r d1 row out tu)
    have core1: "core_inv d1" and rows: "db_results d1 = db_results d @ [row]" "db_tasks d1 = db_tasks d"
      using store_inv_insert_result [OF stored(7) inv] insert_result_row_Inr [OF stored(7)]
      by (auto intro: store_inv_core)
    from stored(9) obtain s where s: "find_task d1 i = Some s"
      "out = (if (t_stop_requested r \<or> t_close_requested r) \<and> tu_outcome tu \<noteq> task_outcome.Cancelled
         then task_outcome.Cancelled else tu_outcome tu)"
      "insert_ledger (now 2) i (word_of_int (t_owner_epoch r)) (Some (t_phase r)) Terminal (Some out) (tu_failure_code tu)
         (settle_terminal_commands i (case tu_failure_code tu of None \<Rightarrow> ''TASK_TERMINATED'' | Some c \<Rightarrow> c)
           (upd_task i (terminal_row (now 1) out tu) d1)) = Inr d'"
      by (elim apply_terminal_Inr [OF core1]) (auto simp: numeral_2_eq_2)
    have "s = r" using s(1) stored(2) rows(2) by (simp add: find_task_def)
    have out: "out = res_outcome res" using s(2) stored(5,8) by (auto simp: flagged_def)
    have "find_task d' i = Some (terminal_row (now 1) out tu r)"
      using find_task_ledger [OF s(3), of i] s(1) \<open>s = r\<close>
      by (simp add: find_task_cong [where d = "settle_terminal_commands _ _ _"] find_task_upd_task)
    moreover have "result_row_of i d' = Some row"
      using apply_terminal_results [OF core1 stored(9)] rows none stored(6)
      by (auto simp: result_row_of_def find_None_iff find_Some_iff nth_append)
    ultimately show ?thesis
      using stored(5,6) out by (auto simp: ended_with_def terminal_row_def flagged_def)
  qed
qed

lemma store_result_run:
  assumes "runs_of (quiet_step i) (w_schedule w)" "without_result i (w_db w)" "store_result h i res w = (r, w')"
  shows "runs_of (quiet_step i) (w_schedule w')"
    and "case r of Inl _ \<Rightarrow> without_result i (w_db w') | Inr _ \<Rightarrow> ended_with i res (w_db w')"
proof -
  obtain now w1 where o: "others_run w = (now, w1)" by (cases "others_run w")
  note w1 = resultless.keeps_others [OF assms(1,2), unfolded o snd_conv]
  obtain r1 d where m: "store_task_result (sk_digest h) now i res (w_db w1) = (r1, d)" by fastforce
  have w': "r = r1" "w' = w1\<lparr>w_db := d\<rparr>" using assms(3) o m by (auto simp: store_result_def store_call_def)
  show "runs_of (quiet_step i) (w_schedule w')" using w1 w' by simp
  have "d = w_db w1" if "r1 = Inl e" for e
    using m that by (auto simp: store_task_result_def run_tx_Inl)
  with w1 w' m show "case r of Inl _ \<Rightarrow> without_result i (w_db w') | Inr _ \<Rightarrow> ended_with i res (w_db w')"
    by (auto simp: without_result_def split: sum.split intro: store_task_result_ends)
qed


section \<open>Witnesses\<close>

text \<open>A task that runs alone, on a given database; its runtime has said something.\<close>

definition sample_world :: "db \<Rightarrow> task_world" where
  "sample_world d = \<lparr>w_db = d, w_schedule = [], w_interrupts = [], w_lifecycle = new_lifecycle 1,
     w_activity = new_activity\<lparr>terminal_text := ''all done''\<rparr>, w_sink = new_sink, w_failures = [],
     w_active_epoch = Some 1, w_check_cancelled = False, w_calls = [], w_clock = []\<rparr>"

definition sample_sink :: sink_host where
  "sample_sink = \<lparr>sk_print = (\<lambda>_. ''json''), sk_sqlite_text = (\<lambda>_. ''sqlite''), sk_digest = (\<lambda>_. ''digest'')\<rparr>"

definition sample_identity :: sink_identity where
  "sample_identity = \<lparr>sk_agent_id = ''10000000'', sk_runtime_agent_id = ''ra'', sk_owner_epoch = 1\<rparr>"

definition sample_completed :: task_result where
  "sample_completed = \<lparr>res_outcome = task_outcome.Completed, res_final_text = ''fine'', res_partial = False\<rparr>"

definition sample_record :: lifecycle_record where
  "sample_record = \<lparr>record_sequence = 7, record_event = DriverEvent (Malformed NotObject)\<rparr>"

theorem late_events_write_nothing_witness:
  "emit sample_sink sample_identity 0 0 sample_record
     ((sample_world sample_running)\<lparr>w_lifecycle := force_terminating (new_lifecycle 1)\<rparr>) =
   (sample_world sample_running)\<lparr>w_lifecycle := snd (admit_event (force_terminating (new_lifecycle 1)))\<rparr>"
proof -
  have "reach (new_lifecycle 1) lifecycle_step (force_terminating (new_lifecycle 1))"
    by (rule reach.next_state [OF reach.start]) (rule step_force)
  from late_events_write_nothing [OF this _ rtranclp.rtrancl_refl] show ?thesis
    by (simp add: force_terminating_def new_lifecycle_def)
qed


end
