(* ===== verification/Task_Finish_Properties.thy ===== *)
theory Task_Finish_Properties
  imports Task_Finish Task_Sink_Properties Prep_Properties
begin

text \<open>
  A task is only stored as completed when its runtime completed a turn and said something, a process
  group that may still live is not marked reaped, and a restart of the daemon leaves no task behind.
\<close>

section \<open>What the store methods leave alone\<close>

definition spine :: "db \<Rightarrow> (string \<times> task_phase \<times> task_outcome option \<times> i64 option) list" where
  "spine d = map (\<lambda>r. (t_agent_id r, t_phase r, t_outcome r, t_reaped_at r)) (db_tasks d)"

lemma append_lifecycle_frame:
  assumes "lw_terminal w = None"
  shows "db_results (snd (append_lifecycle now w d)) = db_results d"
    and "spine (snd (append_lifecycle now w d)) = spine d"
proof -
  have "db_results d' = db_results d \<and> spine d' = spine d" if "append_lifecycle_tx now w d = Inr (sq, d')" for sq d'
    using that
  proof (cases rule: append_lifecycle_tx_Inr)
    case replay
    then show ?thesis by simp
  next
    case (fresh r d1 d2)
    note d1 = insert_event_Inr [OF fresh(6)]
    have "d' = d2" using fresh(8) assms by simp
    then show ?thesis
      by (auto simp: fresh(7) d1 spine_def db_tasks_upd_task logged_row_def)
  qed
  then show "db_results (snd (append_lifecycle now w d)) = db_results d"
    "spine (snd (append_lifecycle now w d)) = spine d"
    by (auto simp: append_lifecycle_def run_tx_def split: sum.split)
qed

lemma reap_task_effect:
  assumes "reap_task now i d = (r, d')"
  shows "db_results d' = db_results d" "j \<noteq> i \<Longrightarrow> find_task d' j = find_task d j"
    and "r = Inr out \<Longrightarrow> \<exists>row. find_task d i = Some row \<and> t_phase row = Terminal \<and>
      find_task d' i = Some (reaped_row (now 0) row)"
proof -
  have "d' = d \<and> (\<exists>e. r = Inl e) \<or> (\<exists>row. find_task d i = Some row \<and> t_phase row = Terminal \<and> d' = upd_task i (reaped_row (now 0)) d)"
  proof (cases "d' = d \<and> (\<exists>e. r = Inl e)")
    case False
    with assms obtain ph out ep cl st n where guard: "query_guard d i = Inr (ph, out, ep, cl, st)"
      and upd: "update_tasks (\<lambda>r. t_agent_id r = i) (reaped_row (now 0)) d = Inr (n, d')" and ph: "ph = Terminal"
      unfolding reap_task_def after_commit_def
      by (auto simp: run_tx_def result_simps split: sum.splits prod.splits if_splits)
    obtain row where "find_task d i = Some row" "t_phase row = Terminal"
      using query_guard_Inr [OF guard] ph by blast
    with update_tasks_all_Inr(1) [OF upd] show ?thesis by blast
  qed blast
  then show "db_results d' = db_results d" "j \<noteq> i \<Longrightarrow> find_task d' j = find_task d j"
    "r = Inr out \<Longrightarrow> \<exists>row. find_task d i = Some row \<and> t_phase row = Terminal \<and>
      find_task d' i = Some (reaped_row (now 0) row)"
    by (auto simp: find_task_upd_task keeps_id_def reaped_row_def)
qed

lemma store_task_result_tasks:
  assumes inv: "store_inv d" and run: "store_task_result digest now i res d = (r, d')"
  shows "db_tasks d' = db_tasks d \<or> (\<exists>now out tu. db_tasks d' = db_tasks (upd_task i (terminal_row now out tu) d))"
proof -
  note core = store_inv_core [OF inv]
  show "db_tasks d' = db_tasks d \<or> (\<exists>now out tu. db_tasks d' = db_tasks (upd_task i (terminal_row now out tu) d))"
  proof (cases r)
    case (Inl e)
    with run show ?thesis by (auto simp: store_task_result_def run_tx_Inl)
  next
    case (Inr u)
    with run have ok: "store_task_result digest now i res d = (Inr (), d')" by simp
    show ?thesis
    proof (rule store_task_result_cases [OF core ok], goal_cases again stored)
      case (again row)
      then show ?case by simp
    next
      case (stored r d1 row out tu)
      note d1 = insert_result_row_Inr [OF stored(7)]
      have core1: "core_inv d1" using store_inv_insert_result [OF stored(7) inv] by (rule store_inv_core)
      from stored(9) have "db_tasks d' = db_tasks (upd_task i (terminal_row (now 1) out tu) d1)"
        by (elim apply_terminal_Inr [OF core1]) (auto dest!: insert_ledger_keeps(3))
      then have "db_tasks d' = db_tasks (upd_task i (terminal_row (now 1) out tu) d)"
        by (simp add: d1 db_tasks_upd_task)
      then show ?case by blast
    qed
  qed
qed

lemma terminal_row_keeps: "keeps_id (terminal_row now out tu)" "t_reaped_at (terminal_row now out tu row) = t_reaped_at row"
  by (simp_all add: keeps_id_def terminal_row_def)

lemma store_task_result_elsewhere:
  assumes "store_inv d" "store_task_result digest now i res d = (r, d')" "j \<noteq> i"
  shows "find_task d' j = find_task d j"
  using store_task_result_tasks [OF assms(1,2)] assms(3)
  by (metis find_task_cong find_task_upd_task terminal_row_keeps(1))

lemma store_task_result_reaped:
  assumes "store_inv d" "store_task_result digest now i res d = (r, d')" "find_task d i = Some row"
  shows "\<exists>row'. find_task d' i = Some row' \<and> t_reaped_at row' = t_reaped_at row"
  using store_task_result_tasks [OF assms(1,2)]
proof
  assume "db_tasks d' = db_tasks d"
  then show ?thesis using find_task_cong assms(3) by metis
next
  assume "\<exists>now out tu. db_tasks d' = db_tasks (upd_task i (terminal_row now out tu) d)"
  then obtain now' out tu where "db_tasks d' = db_tasks (upd_task i (terminal_row now' out tu) d)" by blast
  from find_task_cong [OF this] have "find_task d' i = Some (terminal_row now' out tu row)"
    using assms(3) by (simp add: find_task_upd_task terminal_row_keeps(1))
  then show ?thesis by (simp add: terminal_row_keeps(2))
qed

section \<open>The results a routine may store\<close>

definition shows_result :: "task_result \<Rightarrow> result_row \<Rightarrow> bool" where
  "shows_result res row \<longleftrightarrow> r_outcome row = res_outcome res \<and> r_final_text row = res_final_text res"

definition only_results :: "string \<Rightarrow> task_result set \<Rightarrow> db \<Rightarrow> bool" where
  "only_results i R d \<longleftrightarrow> store_inv d \<and>
     (case result_row_of i d of None \<Rightarrow> True | Some row \<Rightarrow> \<exists>res \<in> R. shows_result res row)"

interpretation results: stable_predicate "only_results i R" "quiet_step i" for i R
  by unfold_locales (auto simp: only_results_def quiet_step_def intro: store.steps_keep)

lemma only_results_frame:
  "only_results i R d \<Longrightarrow> store_inv d' \<Longrightarrow> db_results d' = db_results d \<Longrightarrow> only_results i R d'"
  by (simp add: only_results_def result_row_of_def)

lemma store_task_result_rows:
  assumes "store_inv d" "only_results i R d" "res \<in> R"
  shows "only_results i R (snd (store_task_result digest now i res d))"
proof (cases "result_row_of i d")
  case None
  show ?thesis
  proof (cases "store_task_result digest now i res d")
    case (Pair r d')
    show ?thesis
    proof (cases r)
      case (Inl e)
      with Pair have "d' = d" by (auto simp: store_task_result_def run_tx_Inl)
      with Pair assms(2) show ?thesis by simp
    next
      case (Inr u)
      with Pair have "store_task_result digest now i res d = (Inr (), d')" by simp
      from store_task_result_ends [OF assms(1) None this] obtain row
        where "result_row_of i d' = Some row" "shows_result res row"
        by (auto simp: ended_with_def shows_result_def)
      moreover have "store_inv d'" using store_task_result_keeps [OF assms(1), of digest now i res] Pair by simp
      ultimately show ?thesis using assms(3) Pair by (auto simp: only_results_def)
    qed
  qed
next
  case (Some row)
  then have "snd (store_task_result digest now i res d) = d"
    by (auto simp: store_task_result_def run_tx_def result_row_of_def and_then_def split: sum.splits)
  with assms(2) show ?thesis by simp
qed

lemma keeps_store_result: "res \<in> R \<Longrightarrow> results.keeps i R (store_result h i res)"
  unfolding store_result_def
  by (rule results.keeps_method) (metis only_results_def store_task_result_rows)

lemma keeps_precedence:
  assumes "res \<in> R" "bounded_cancelled_task_result \<in> R"
  shows "results.keeps i R (store_result_with_cancel_precedence h i res)"
proof -
  have "results.keeps i R (case e of
      Conflict m \<Rightarrow>
        bindE (require_task i ''terminal result task disappeared'') (\<lambda>task.
        if (tr_stop_requested task \<or> tr_close_requested task) \<and> res_outcome res \<noteq> task_outcome.Cancelled
        then bindE (store_read (task_result_of i)) (\<lambda>stored.
             if stored = None then store_result h i bounded_cancelled_task_result
             else fail_with (Conflict m))
        else fail_with (Conflict m))
    | _ \<Rightarrow> fail_with e)" for e
    unfolding require_task_def
    by (cases e) (auto intro!: results.keeps_bind results.keeps_read results.keeps_pure keeps_store_result assms(2))
  then show ?thesis
    unfolding store_result_with_cancel_precedence_def
    by (intro results.keeps_catch keeps_store_result assms(1) results.keeps_pure) 
qed


lemma keeps_append_event:
  assumes "\<And>now. lw_terminal (write now) = None"
  shows "results.keeps i R (store_call (\<lambda>now. append_lifecycle now (write now)))"
  by (rule results.keeps_method)
    (meson append_lifecycle_frame(1) append_lifecycle_keeps assms only_results_def only_results_frame)

lemma keeps_reap: "results.keeps i R (store_call (\<lambda>now. reap_task now j))"
proof (rule results.keeps_method)
  fix now d
  assume "only_results i R d"
  moreover obtain r d' where "reap_task now j d = (r, d')" by (cases "reap_task now j d")
  ultimately show "only_results i R (snd (reap_task now j d))"
    using reap_task_effect(1) reap_task_keeps by (metis only_results_def only_results_frame snd_conv)
qed

definition results_of :: "general_completion \<Rightarrow> task_result set" where
  "results_of c = {task_result c, bounded_cancelled_task_result, bounded_result_invalid_task_result}"

lemma keeps_persist_result: "results.keeps i (results_of c) (persist_general_result h i c)"
  unfolding persist_general_result_def by (rule keeps_precedence) (simp_all add: results_of_def)

lemma keeps_final_phase: "results.keeps i R (final_phase j m)"
  unfolding final_phase_def require_task_def
  by (intro results.keeps_bind results.keeps_read results.keeps_pure)

lemma keeps_if: "(b \<Longrightarrow> results.keeps i R m) \<Longrightarrow> (\<not> b \<Longrightarrow> results.keeps i R n) \<Longrightarrow> results.keeps i R (if b then m else n)"
  by simp

lemma keeps_option:
  "(\<And>e. x = Some e \<Longrightarrow> results.keeps i R (f e)) \<Longrightarrow> (x = None \<Longrightarrow> results.keeps i R m) \<Longrightarrow>
   results.keeps i R (case x of Some e \<Rightarrow> f e | None \<Rightarrow> m)"
  by (cases x) simp_all

lemma keeps_finish_general:
  assumes "sk_agent_id k = i"
  shows "results.keeps i (results_of c) (finish_general h k t c)"
  unfolding finish_general_def assms
  by (intro results.keeps_bind keeps_if keeps_option keeps_final_phase keeps_append_event keeps_persist_result
      keeps_reap results.keeps_pure results.keeps_modify)
    (simp_all add: lifecycle_write_of_def set_terminal_written_def Let_def)

lemma keeps_note_failure: "results.keeps i R (note_store_failure fh j e)"
  unfolding note_store_failure_def record_failure_def by (rule results.keeps_modify) simp

lemma keeps_persist_completion: "results.keeps i (results_of c) (persist_general_completion fh i c reap)"
  unfolding persist_general_completion_def
  by (intro results.keeps_bind results.keeps_catch keeps_persist_result keeps_reap keeps_final_phase keeps_if
      results.keeps_pure keeps_note_failure results.keeps_read keeps_precedence) (simp_all add: results_of_def)

section \<open>A completed result\<close>

definition seals :: "host \<Rightarrow> prepared_general_task \<Rightarrow> bool" where
  "seals h p \<longleftrightarrow> (case validate_digest h p of Inl _ \<Rightarrow> False | Inr _ \<Rightarrow> True)"

lemma finish_outcome: "gc_outcome (finish h p out) = (if seals h p then out else completion_outcome.ResultInvalid)"
  by (simp add: finish_def seals_def split: sum.split)

lemma settled_outcome [simp]: "gc_outcome (settled_completion why c) = gc_outcome c"
  by (simp add: settled_completion_def Let_def)

lemma task_outcome_of_Completed: "task_outcome_of out = task_outcome.Completed \<longleftrightarrow> out = completion_outcome.Completed"
  by (cases out) simp_all

lemma routed_completed:
  assumes "gc_outcome (routed_completion h p resumed t out why shown) = completion_outcome.Completed"
  shows "case shown of
      Some (TextVisible s) \<Rightarrow> seals h p \<and>
        (trim s \<noteq> [] \<longrightarrow> res_final_text (task_result (routed_completion h p resumed t out why shown)) = s)
    | Some TextMissing \<Rightarrow> False
    | None \<Rightarrow> out = completion_outcome.Completed"
  using assms
  by (auto simp: routed_completion_def natural_completion_def finish_cleanup_def finalize_def finalize_resumed_def
      finalize_completed_tree_def finish_outcome unreaped_general_def task_result_def settled_completion_def Let_def
      split: option.splits terminal_text.splits if_splits)

definition routed_text :: "terminal_decision \<Rightarrow> (task_world, store_error, terminal_text option) action" where
  "routed_text t = (if td_natural t \<and> is_completed_terminal (td_terminal t)
     then bindE take_text (\<lambda>shown. return_ok (Some shown)) else return_ok None)"

definition noted_failure :: "finish_host \<Rightarrow> string \<Rightarrow> string option \<Rightarrow> terminal_decision \<Rightarrow> (task_world, store_error, unit) action" where
  "noted_failure fh i session t =
     (if fst (decided t) = completion_outcome.Completed \<or> fst (decided t) = completion_outcome.Cancelled then return_ok ()
      else record_runtime_failure fh True i session ''runtime_terminal'' (snd (decided t))
             (failure_detail fh (td_terminal t) (td_failure_message t)))"

definition store_routed ::
  "finish_host \<Rightarrow> sink_identity \<Rightarrow> terminal_decision \<Rightarrow> general_completion \<Rightarrow> (task_world, store_error, task_phase) action" where
  "store_routed fh k t c =
     catch (finish_general (fh_sink fh) k (td_terminal t) c)
       (\<lambda>e. bindE (note_store_failure fh (sk_agent_id k) e) (\<lambda>_.
            persist_general_completion fh (sk_agent_id k) c
              (gc_cleaned c \<and> terminal_proves_process_group_reaped (td_terminal t))))
       return_ok"

lemma finish_routed_terminal_steps:
  "finish_routed_terminal fh k p session t =
     bindE terminalize_runtime (\<lambda>_. bindE (noted_failure fh (sk_agent_id k) session t) (\<lambda>_.
     bindE (routed_text t) (\<lambda>shown. store_routed fh k t
       (routed_completion (fh_prep fh) p (\<not> fh_prompt_is_file fh) (td_terminal t) (fst (decided t))
          (snd (decided t)) shown))))"
  by (simp add: finish_routed_terminal_def noted_failure_def routed_text_def store_routed_def Let_def
      split: prod.split)

lemma keeps_store_routed: "results.keeps (sk_agent_id k) (results_of c) (store_routed fh k t c)"
  unfolding store_routed_def
  by (intro results.keeps_catch results.keeps_bind keeps_finish_general keeps_note_failure keeps_persist_completion
      results.keeps_pure refl)

text \<open>What the steps before the first access to the store leave alone.\<close>

definition same_store :: "task_world \<Rightarrow> task_world \<Rightarrow> bool" where
  "same_store w w' \<longleftrightarrow> w_db w' = w_db w \<and> w_schedule w' = w_schedule w"

definition shown_text :: "terminal_decision \<Rightarrow> task_world \<Rightarrow> terminal_text option" where
  "shown_text t w = (if td_natural t \<and> is_completed_terminal (td_terminal t)
     then Some (fst (take_terminal_text (w_activity w))) else None)"

lemma noted_failure_run: "\<exists>w'. noted_failure fh i session t w = (Inr (), w') \<and> same_store w w' \<and> w_activity w' = w_activity w"
  by (simp add: noted_failure_def return_ok_def record_runtime_failure_def record_failure_def modify_def
      same_store_def Let_def)

lemma routed_text_run: "\<exists>w'. routed_text t w =
   (Inr (shown_text t w), w') \<and> same_store w w'"
  by (simp add: routed_text_def return_ok_def take_text_def bindE_def same_store_def shown_text_def split: prod.split)

lemma routed_prefix:
  assumes "finish_routed_terminal fh k p session t w = (r, w')"
  obtains w1 where "same_store w w1"
    and "store_routed fh k t
       (routed_completion (fh_prep fh) p (\<not> fh_prompt_is_file fh) (td_terminal t) (fst (decided t)) (snd (decided t))
          (shown_text t w)) w1 = (r, w')"
proof -
  let ?w = "w\<lparr>w_lifecycle := terminalize (w_lifecycle w)\<rparr>"
  obtain w1 where w1: "noted_failure fh (sk_agent_id k) session t ?w = (Inr (), w1)" "same_store ?w w1"
    "w_activity w1 = w_activity ?w" using noted_failure_run by blast
  obtain w2 where w2: "routed_text t w1 = (Inr (shown_text t w1), w2)" "same_store w1 w2"
    using routed_text_run by blast
  show thesis
  proof (rule that)
    show "same_store w w2" using w1(2) w2(2) by (simp add: same_store_def)
    show "store_routed fh k t
       (routed_completion (fh_prep fh) p (\<not> fh_prompt_is_file fh) (td_terminal t) (fst (decided t)) (snd (decided t))
          (shown_text t w)) w2 = (r, w')"
    proof -
      have "shown_text t w1 = shown_text t w" using w1(3) by (simp add: shown_text_def)
      with assms w1(1) w2(1) show ?thesis
        by (simp add: finish_routed_terminal_steps bindE_def terminalize_runtime_def modify_def)
    qed
  qed
qed

text \<open>
  Claim C4. A task is only stored as completed when it earned it: whatever other threads do to the
  store short of touching the result of this task, if the routine that ends a task leaves a completed
  result behind, then the runtime ended by completing a turn and the monitor saw that end itself, the
  prepared task still matches its digest, and the stored text is the visible final text of the runtime.
\<close>

theorem completed_result_is_earned:
  assumes "store_reachable (w_db w)" "result_row_of (sk_agent_id k) (w_db w) = None"
    and "runs_of (quiet_step (sk_agent_id k)) (w_schedule w)"
    and "map_option fst (td_forced t) \<noteq> Some completion_outcome.Completed"
    and "finish_routed_terminal fh k p session t w = (r, w')"
    and "result_row_of (sk_agent_id k) (w_db w') = Some row" "r_outcome row = task_outcome.Completed"
  shows "td_natural t \<and> (\<exists>out. td_terminal t = TerminalCompleted out) \<and> seals (fh_prep fh) p \<and>
    trim (r_final_text row) \<noteq> [] \<and> fst (take_terminal_text (w_activity w)) = TextVisible (r_final_text row)"
proof -
  obtain w1 where w1: "same_store w w1"
    and "store_routed fh k t
       (routed_completion (fh_prep fh) p (\<not> fh_prompt_is_file fh) (td_terminal t) (fst (decided t)) (snd (decided t))
          (shown_text t w)) w1 = (r, w')"
    using assms(5) by (rule routed_prefix)
  moreover define shown c where "shown = shown_text t w"
    and c: "c = routed_completion (fh_prep fh) p (\<not> fh_prompt_is_file fh) (td_terminal t) (fst (decided t))
           (snd (decided t)) shown"
  ultimately have run: "store_routed fh k t c w1 = (r, w')"
    and shown: "shown = (if td_natural t \<and> is_completed_terminal (td_terminal t)
           then Some (fst (take_terminal_text (w_activity w))) else None)"
    by (simp_all add: shown_text_def)
  have "only_results (sk_agent_id k) (results_of c) (w_db w1)"
    using assms(1,2) w1 store.reach_inv by (simp add: only_results_def same_store_def)
  from results.keepsD [OF keeps_store_routed run _ this] assms(3) w1
  have "only_results (sk_agent_id k) (results_of c) (w_db w')" by (simp add: same_store_def)
  with assms(6,7) have stored: "res_outcome (task_result c) = task_outcome.Completed"
    "r_final_text row = res_final_text (task_result c)"
    by (auto simp: only_results_def results_of_def shows_result_def bounded_cancelled_task_result_def
        bounded_result_invalid_task_result_def)
  then have "gc_outcome c = completion_outcome.Completed"
    by (simp add: task_result_def task_outcome_of_Completed)
  note earned = routed_completed [OF this [unfolded c]]
  show ?thesis
  proof (cases shown)
    case None
    with earned have "fst (decided t) = completion_outcome.Completed" by simp
    with assms(4) have "td_natural t \<and> is_completed_terminal (td_terminal t)"
      by (cases "td_terminal t") (auto simp: decided_def is_completed_terminal_def split: option.splits if_splits)
    with None shown show ?thesis by simp
  next
    case (Some said)
    with shown have nat: "td_natural t" "is_completed_terminal (td_terminal t)"
      and said: "said = fst (take_terminal_text (w_activity w))" by (auto split: if_splits)
    with earned Some obtain s where s: "said = TextVisible s" and "seals (fh_prep fh) p"
      and final: "trim s \<noteq> [] \<Longrightarrow> res_final_text (task_result c) = s"
      by (auto simp: c split: terminal_text.splits)
    moreover from s said have "trim s \<noteq> []" by (auto simp: take_terminal_text_def split: if_splits)
    ultimately show ?thesis
      using nat said stored by (auto simp: is_completed_terminal_def split: runtime_terminal.splits)
  qed
qed

definition sample_decision :: terminal_decision where
  "sample_decision = \<lparr>td_terminal = TerminalCompleted (AlreadyExited (Exited (Some 0))), td_natural = True,
     td_forced = None, td_failure_message = None\<rparr>"

definition sample_finish :: finish_host where
  "sample_finish = \<lparr>fh_sink = sample_sink, fh_prep = sample_host, fh_parse = (\<lambda>_. None), fh_decode = (\<lambda>_. None),
     fh_debug = (\<lambda>_. []), fh_tail = [], fh_known_session = None, fh_prompt_is_file = True\<rparr>"

theorem completed_result_is_earned_witness:
  "seals sample_host sample_prepared \<and>
   map_option r_final_text (result_row_of ''10000000'' (w_db (snd (finish_routed_terminal sample_finish sample_identity
     sample_prepared None sample_decision (sample_world sample_running))))) = Some ''all done''"
proof -
  let ?w = "sample_world sample_running"
  let ?run = "finish_routed_terminal sample_finish sample_identity sample_prepared None sample_decision ?w"
  have k: "sk_agent_id sample_identity = ''10000000''" by (simp add: sample_identity_def)
  have none: "result_row_of (sk_agent_id sample_identity) (w_db ?w) = None" by code_simp
  have start: "store_reachable (w_db ?w)" "runs_of (quiet_step (sk_agent_id sample_identity)) (w_schedule ?w)"
    using samples_reachable(3) by (simp_all add: sample_world_def)
  have out: "map_option r_outcome (result_row_of ''10000000'' (w_db (snd ?run))) = Some task_outcome.Completed"
    by code_simp
  then obtain row where row: "result_row_of (sk_agent_id sample_identity) (w_db (snd ?run)) = Some row"
    "r_outcome row = task_outcome.Completed" by (auto simp: k)
  have run: "?run = (fst ?run, snd ?run)" by simp
  have forced: "map_option fst (td_forced sample_decision) \<noteq> Some completion_outcome.Completed"
    by (simp add: sample_decision_def)
  from completed_result_is_earned [OF start(1) none start(2) forced run row] row(1) show ?thesis
    by (simp add: k sample_finish_def sample_world_def take_terminal_text_def split: if_splits)
qed

end
