(* ===== verification/Task_Start_Properties.thy ===== *)
theory Task_Start_Properties
  imports Task_Start Task_Finish_Properties
begin

text \<open>
  A runtime that was spawned is never forgotten: whatever fails, and whatever other threads do, it is
  stopped or still registered; a task is only started for an admitted preparation; a monitor only ends
  when its task is no longer its own.
\<close>

section \<open>Predicates on what was done with the runtime\<close>

text \<open>
  A predicate on the registration of the runtime and the calls to it; \<open>stays\<close> says that an action
  keeps it whatever the store answers. An idle predicate is kept by what does not call the runtime, a
  run predicate by what registers and releases nothing.
\<close>

locale idle_predicate =
  fixes P :: "task_world \<Rightarrow> bool"
  assumes same: "w_active_epoch w' = w_active_epoch w \<Longrightarrow> w_calls w' = w_calls w \<Longrightarrow> P w \<Longrightarrow> P w'"
begin

definition stays :: "(task_world, 'e, 'a) action \<Rightarrow> bool" where
  "stays m \<longleftrightarrow> (\<forall>w. P w \<longrightarrow> P (snd (m w)))"

lemma staysD: "stays m \<Longrightarrow> P w \<Longrightarrow> P (snd (m w))"
  by (simp add: stays_def)

lemma stays_bind: "stays m \<Longrightarrow> (\<And>a. stays (f a)) \<Longrightarrow> stays (bindE m f)"
  unfolding stays_def bindE_def by (auto split: prod.split sum.split)

lemma stays_catch: "stays m \<Longrightarrow> (\<And>e. stays (h e)) \<Longrightarrow> (\<And>a. stays (f a)) \<Longrightarrow> stays (catch m h f)"
  unfolding stays_def catch_def by (auto split: prod.split sum.split)

lemma stays_from_store: "stays m \<Longrightarrow> stays (from_store m)"
  unfolding stays_def from_store_def by (auto split: prod.split)

lemma stays_pure: "stays (return_ok a)" "stays (fail_with e)" "stays (lift_result r)" "stays (inspect g)"
  by (simp_all add: stays_def return_ok_def fail_with_def lift_result_def inspect_def)

lemma stays_store: "stays (store_call method)"
  unfolding stays_def store_call_def others_run_def
  by (auto split: list.split prod.split intro: same)

lemma stays_read: "stays (store_read query)"
  unfolding store_read_def by (rule stays_store)

lemma stays_outside: "stays read_time" "stays look_lifecycle"
  by (auto simp: stays_def read_time_def look_lifecycle_def split: list.split intro: same)

lemma stays_modify:
  "(\<And>w. w_active_epoch (f w) = w_active_epoch w \<and> w_calls (f w) = w_calls w) \<Longrightarrow> stays (modify f)"
  unfolding stays_def modify_def using same by (metis snd_conv)

lemma stays_if: "(b \<Longrightarrow> stays m) \<Longrightarrow> (\<not> b \<Longrightarrow> stays n) \<Longrightarrow> stays (if b then m else n)"
  by simp

lemma stays_option:
  "(\<And>e. x = Some e \<Longrightarrow> stays (f e)) \<Longrightarrow> (x = None \<Longrightarrow> stays m) \<Longrightarrow> stays (case x of Some e \<Rightarrow> f e | None \<Rightarrow> m)"
  by (cases x) simp_all

lemma stays_sum:
  "(\<And>e. x = Inl e \<Longrightarrow> stays (f e)) \<Longrightarrow> (\<And>a. x = Inr a \<Longrightarrow> stays (g a)) \<Longrightarrow> stays (case x of Inl e \<Rightarrow> f e | Inr a \<Rightarrow> g a)"
  by (cases x) simp_all

lemmas stays_rules = stays_bind stays_catch stays_from_store stays_pure stays_store stays_read stays_outside
  stays_if stays_option stays_sum

lemma stays_failures: "stays (record_failure i m)" "stays (record_runtime_failure fh b i s st code m)"
    "stays (note_store_failure fh i err)"
  unfolding record_runtime_failure_def note_store_failure_def record_failure_def Let_def
  by (rule stays_modify, simp)+

lemma stays_require: "stays (require_task i m)" "stays (final_phase i m)"
  unfolding final_phase_def require_task_def by (intro stays_rules)+

lemma stays_results: "stays (store_result h i res)" "stays (store_result_with_cancel_precedence h i res)"
    "stays (persist_general_result h i c)"
proof -
  show store: "stays (store_result h i res)" for res unfolding store_result_def by (rule stays_store)
  have "stays (case e of
      Conflict m \<Rightarrow>
        bindE (require_task i ''terminal result task disappeared'') (\<lambda>task.
        if (tr_stop_requested task \<or> tr_close_requested task) \<and> res_outcome res \<noteq> task_outcome.Cancelled
        then bindE (store_read (task_result_of i)) (\<lambda>stored.
             if stored = None then store_result h i bounded_cancelled_task_result
             else fail_with (Conflict m))
        else fail_with (Conflict m))
    | _ \<Rightarrow> fail_with e)" for e res
    by (cases e) (auto intro!: stays_rules stays_require store)
  then show "stays (store_result_with_cancel_precedence h i res)" for res
    unfolding store_result_with_cancel_precedence_def by (intro stays_catch store stays_pure)
  then show "stays (persist_general_result h i c)" unfolding persist_general_result_def .
qed

lemma stays_persist: "stays (persist_general_completion fh i c reap)" "stays (finish_unstarted_route fh i p t reaped)"
  unfolding finish_unstarted_route_def persist_general_completion_def Let_def
  by (intro stays_rules stays_failures stays_require stays_results)+

lemma stays_finish_general: "stays (finish_general h k t c)"
  unfolding finish_general_def set_terminal_written_def
  by (intro stays_rules stays_require stays_results stays_modify) simp

lemma stays_routed: "stays (finish_routed_terminal fh k p session t)"
proof -
  have "stays take_text"
    unfolding stays_def take_text_def by (auto split: prod.split intro: same)
  moreover have "stays terminalize_runtime"
    unfolding terminalize_runtime_def by (rule stays_modify) simp
  ultimately show ?thesis
    unfolding finish_routed_terminal_steps noted_failure_def routed_text_def store_routed_def
    by (intro stays_rules stays_failures stays_finish_general stays_persist)
qed

end

locale run_predicate = idle_predicate +
  assumes called: "P w \<Longrightarrow> P (w\<lparr>w_calls := w_calls w @ [c]\<rparr>)"
begin

lemma stays_call: "stays (call_runtime c)"
  by (simp add: stays_def call_runtime_def called)

lemma stays_force_stop: "stays (force_stop at turn)"
  unfolding force_stop_def by (intro stays_bind stays_call stays_modify) simp

lemma stays_monitored: "stays (finish_locked_monitor_terminal fh k p session turn stopped t natural forced)"
  unfolding finish_locked_monitor_terminal_def
  by (intro stays_rules stays_require stays_routed stays_force_stop)

lemma stays_remaining: "stays (remaining expires)" "stays (cleanup_grace expires g)" "stays (control_deadline ch)"
    "stays (runtime_phase_timeout ch i expires)"
  unfolding runtime_phase_timeout_def runtime_phase_def runtime_phase_deadline_def cleanup_grace_def
    control_deadline_def remaining_def
  by (intro stays_rules)+

lemma stays_ingress: "stays (require_runtime_ingress i)"
  unfolding require_runtime_ingress_def by (intro stays_rules)

lemma stays_deliver: "stays (deliver_next_message ch an i session expires)"
  unfolding deliver_next_message_def send_claimed_def Let_def
  by (intro stays_rules stays_call stays_ingress stays_remaining stays_failures)

end

definition stopped :: "task_world \<Rightarrow> bool" where
  "stopped w \<longleftrightarrow> CallStop \<in> set (w_calls w)"

definition secured :: "u64 \<Rightarrow> task_world \<Rightarrow> bool" where
  "secured epoch w \<longleftrightarrow> stopped w \<or> w_active_epoch w = Some epoch"

definition unspawned :: "task_world \<Rightarrow> bool" where
  "unspawned w \<longleftrightarrow> CallSpawn \<notin> set (w_calls w)"

interpretation stop: run_predicate stopped
  by unfold_locales (auto simp: stopped_def)

interpretation held: run_predicate "secured epoch" for epoch
  by unfold_locales (auto simp: secured_def stopped_def)

interpretation registered: run_predicate "\<lambda>w. w_active_epoch w = Some epoch" for epoch
  by unfold_locales simp_all

interpretation unspawned: idle_predicate unspawned
  by unfold_locales (simp add: unspawned_def)

lemma stopped_secured: "stopped w \<Longrightarrow> secured epoch w"
  by (simp add: secured_def)

text \<open>A cleanup stops the runtime, or the store refused to note the stop and the entry stays.\<close>

lemma stop_ensuring: "stop.stays m \<Longrightarrow> stop.stays (ensuring m (released epoch))"
  unfolding ensuring_def stop.stays_def
  by (auto simp: released_def stopped_def split: prod.split)

lemma stopped_after_force:
  assumes "\<And>u. stop.stays (f u)"
  shows "stopped (snd (bindE (force_stop at turn) f w))"
proof -
  have "stopped (w\<lparr>w_lifecycle := force_terminating (note_stop at turn (w_lifecycle w)), w_calls := w_calls w @ [CallStop]\<rparr>)"
    by (simp add: stopped_def)
  from stop.staysD [OF assms this] show ?thesis
    by (simp add: force_stop_def bindE_def modify_def call_runtime_def)
qed

lemma held_force_stop: "(\<And>u. stop.stays (f u)) \<Longrightarrow> held.stays epoch (bindE (force_stop at turn) f)"
  by (simp add: held.stays_def stopped_secured stopped_after_force)

lemma stop_cleanup_finish: "stop.stays (cleanup_finish fh k p session t wins failure current)"
  unfolding cleanup_finish_def by (intro stop.stays_if stop.stays_routed stop.stays_persist)

lemma cleanup_secures: "held.stays epoch (cleanup_registered_runtime_with_grace fh k p session turn t failure)"
  unfolding cleanup_registered_runtime_with_grace_def cancel_check_def
  by (rule held_force_stop held.stays_bind held.stays_from_store held.stays_store held.stays_modify held.stays_pure
      held.stays_if held.stays_outside stop.stays_bind stop.stays_from_store stop.stays_read stop_ensuring
      stop_cleanup_finish | simp)+

section \<open>Starts\<close>

lemmas start_defs = cleanup_registered_runtime_def ignoring_def read_registered_def not_marked_def run_registered_def

lemma run_registered_secures: "held.stays epoch (run_registered ch sa k p session resumed current)"
    "held.stays epoch (not_marked ch sa k p session current)"
  unfolding start_defs
  by (intro held.stays_rules held.stays_deliver held.stays_remaining cleanup_secures)+

lemma register_and_run_secures: "secured (sk_owner_epoch k) (snd (register_and_run ch sa k p session resumed w))"
proof -
  let ?rest = "catch (store_call (\<lambda>now. mark_session_running now (sk_agent_id k) (sk_owner_epoch k) (sk_runtime_agent_id k)
         (map_option store_identity (sa_identity sa)) (Some session) (Some (ready_turn_state (sa_turn sa)))))
       (\<lambda>e. bindE (ignoring (cleanup_registered_runtime ch sa k p session
              (Some (''STORE_START_FAILED'', store_error_text (sk_sqlite_text (fh_sink (ch_finish ch))) e)))) (\<lambda>_.
            fail_with (StoreFailure e)))
       (\<lambda>marked. read_registered ch sa k p session
          (if marked then run_registered ch sa k p session resumed else not_marked ch sa k p session))"
  have "held.stays (sk_owner_epoch k) ?rest"
    unfolding cleanup_registered_runtime_def ignoring_def read_registered_def
    by (intro held.stays_rules cleanup_secures) (simp add: run_registered_secures)
  then show ?thesis
    by (simp add: register_and_run_def register_runtime_def modify_def bindE_def held.stays_def secured_def)
qed

lemma abort_start_idle: "unspawned.stays (abort_start ch i p b session st code m reaped e)"
    "stop.stays (abort_start ch i p b session st code m reaped e)"
  unfolding abort_start_def note_store_error_def
  by (intro unspawned.stays_rules unspawned.stays_failures unspawned.stays_persist
      stop.stays_rules stop.stays_failures stop.stays_persist)+

lemma stop_first: "(\<And>u. stop.stays (f u)) \<Longrightarrow> stopped (snd (bindE (call_runtime CallStop) f w))"
  by (simp add: bindE_def call_runtime_def stop.stays_def stopped_def)

lemma session_started_secures: "secured (sk_owner_epoch k) (snd (session_started ch sa k p rec session w))"
  unfolding session_started_def Let_def
  by (auto intro!: stopped_secured stop_first abort_start_idle register_and_run_secures split: sum.split)

lemma fresh_runtime_idle: "unspawned.stays (fresh_runtime epoch)"
  unfolding fresh_runtime_def by (rule unspawned.stays_modify) simp

lemma spawn_and_run_tracks:
  assumes "unspawned w"
  shows "unspawned (snd (spawn_and_run ch sa k p rec w)) \<or> secured (sk_owner_epoch k) (snd (spawn_and_run ch sa k p rec w))"
proof (cases "sa_spawn sa")
  case (Inl m)
  from Inl have "unspawned.stays (spawn_and_run ch sa k p rec)"
    by (simp add: spawn_and_run_def Let_def unspawned.stays_bind abort_start_idle fresh_runtime_idle)
  with assms show ?thesis by (blast dest: unspawned.staysD)
next
  case (Inr u)
  have "secured (sk_owner_epoch k) (snd ((case sa_session sa of
           Inl e \<Rightarrow>
             bindE (call_runtime CallStop) (\<lambda>_.
             abort_start ch (sk_agent_id k) p True (tr_zcode_session_id rec) ''session_start'' ''SESSION_START_FAILED''
               (command_error_text e) (terminal_proves_process_group_reaped (sa_stop sa))
               (RuntimeCommand (sk_agent_id k) (command_error_text e)))
         | Inr session \<Rightarrow> session_started ch sa k p rec session) v))" for v
    by (auto intro!: stopped_secured stop_first abort_start_idle session_started_secures split: sum.split)
  with Inr show ?thesis
    by (simp add: spawn_and_run_def Let_def bindE_def fresh_runtime_def modify_def call_runtime_def)
qed

text \<open>
  Claim C6. No runtime is forgotten. Whatever the outside answers and whatever other threads do to the
  store meanwhile, when the start of a claim returns after spawning a runtime, then it was told to stop
  or its entry is registered under the epoch of the claim, where a stop, a close and the shutdown find
  it; and when the start succeeds it is registered.
\<close>

theorem spawned_runtime_is_tracked:
  assumes "CallSpawn \<notin> set (w_calls w)" "start_claim ch prep_text sa (rec, epoch) w = (r, w')"
    and "CallSpawn \<in> set (w_calls w')"
  shows "CallStop \<in> set (w_calls w') \<or> w_active_epoch w' = Some epoch"
proof -
  let ?i = "tr_agent_id rec"
  have refuse: "unspawned.stays (refuse_claim ch task ?i epoch code m)" for task code m
    unfolding refuse_claim_def by (intro unspawned.stays_rules unspawned.stays_results)
  have policy: "unspawned.stays (bindE (from_store (finish_unstarted_route fh ?i p t True)) (\<lambda>_. fail_with (InvalidConfig m)))"
    for fh p t m by (intro unspawned.stays_rules unspawned.stays_persist)
  obtain r1 w1 where look: "from_store (store_read (get_task ?i)) w = (r1, w1)"
    by (cases "from_store (store_read (get_task ?i)) w") auto
  have "unspawned w" using assms(1) by (simp add: unspawned_def)
  moreover have "unspawned.stays (from_store (store_read (get_task ?i)))" by (intro unspawned.stays_rules)
  ultimately have w1: "unspawned w1" using look unspawned.staysD by (metis snd_conv)
  have "unspawned w' \<or> secured epoch w'"
  proof (cases r1)
    case (Inl e)
    with assms(2) look w1 show ?thesis by (simp add: start_claim_def Let_def bindE_def)
  next
    case (Inr task)
    let ?tail = "case task_route (ch_finish ch) rec of
         Inl m \<Rightarrow> refuse_claim ch task ?i epoch ''PREPARED_LAUNCH_INVALID'' m
       | Inr p \<Rightarrow>
           (case validate_task_route task of
              Inl m \<Rightarrow> refuse_claim ch task ?i epoch ''TASK_ROUTE_INVALID'' m
            | Inr _ \<Rightarrow>
                (case sa_policy sa p (tr_zcode_session_id rec \<noteq> None) of
                   Inl e \<Rightarrow>
                     bindE (from_store (finish_unstarted_route (ch_finish ch) ?i p
                       \<lparr>un_outcome = completion_outcome.ResultInvalid, un_reason_code = ''PREPARED_CONTENT_INVALID'',
                        un_message = prep_text e\<rparr> True)) (\<lambda>_.
                     fail_with (InvalidConfig (prep_text e)))
                 | Inr _ \<Rightarrow> spawn_and_run ch sa (claim_identity ?i epoch) p rec))"
    from Inr assms(2) look have run: "?tail w1 = (r, w')" by (simp add: start_claim_def Let_def bindE_def)
    have epoch: "sk_owner_epoch (claim_identity ?i epoch) = epoch" by (simp add: claim_identity_def)
    have "unspawned (snd (?tail w1)) \<or> secured epoch (snd (?tail w1))"
      using spawn_and_run_tracks [OF w1, of ch sa "claim_identity ?i epoch" _ rec, unfolded epoch]
        unspawned.staysD [OF refuse w1] unspawned.staysD [OF policy w1]
      by (auto split: sum.split)
    with run show ?thesis by simp
  qed
  with assms(3) show ?thesis by (simp add: unspawned_def secured_def stopped_def)
qed

end
