(* ===== verification/Task_Control_Properties.thy ===== *)
theory Task_Control_Properties
  imports Task_Start_Properties
begin

text \<open>
  A monitor only ends when its task is no longer its own, an answer that may have reached the runtime
  is recorded or the runtime is stopped, and three races that the control operations lose.
\<close>

section \<open>The end of a monitor\<close>

definition freed :: "u64 \<Rightarrow> task_world \<Rightarrow> bool" where
  "freed epoch w \<longleftrightarrow> w_active_epoch w \<noteq> Some epoch"

interpretation free: run_predicate "freed epoch" for epoch
  by unfold_locales (simp_all add: freed_def)

definition handed_over :: "u64 \<Rightarrow> task_world \<Rightarrow> bool" where
  "handed_over epoch w \<longleftrightarrow> freed epoch w \<or> ingress_reason (w_lifecycle w) \<noteq> None"

definition ends_well :: "u64 \<Rightarrow> (task_world, 'e, monitor_next) action \<Rightarrow> bool" where
  "ends_well epoch m \<longleftrightarrow> (\<forall>w w'. m w = (Inr Ended, w') \<longrightarrow> handed_over epoch w')"

lemma ends_well_bind: "(\<And>a. ends_well epoch (f a)) \<Longrightarrow> ends_well epoch (bindE m f)"
  unfolding ends_well_def bindE_def by (auto split: prod.splits sum.splits)

lemma ends_well_catch: "(\<And>e. ends_well epoch (h e)) \<Longrightarrow> (\<And>a. ends_well epoch (f a)) \<Longrightarrow> ends_well epoch (catch m h f)"
  unfolding ends_well_def catch_def by (auto split: prod.splits sum.splits)

lemma ends_well_watch: "ends_well epoch (return_ok (Watch g))"
  by (simp add: ends_well_def return_ok_def)

lemma ends_well_if: "(b \<Longrightarrow> ends_well epoch m) \<Longrightarrow> (\<not> b \<Longrightarrow> ends_well epoch n) \<Longrightarrow> ends_well epoch (if b then m else n)"
  by simp

lemma ends_well_option:
  "(\<And>e. x = Some e \<Longrightarrow> ends_well epoch (f e)) \<Longrightarrow> (x = None \<Longrightarrow> ends_well epoch m) \<Longrightarrow>
   ends_well epoch (case x of Some e \<Rightarrow> f e | None \<Rightarrow> m)"
  by (cases x) simp_all

lemmas ends_well_rules = ends_well_bind ends_well_catch ends_well_watch ends_well_if ends_well_option

text \<open>What starts other tasks does not register this runtime again.\<close>

definition starts_others :: "u64 \<Rightarrow> start_tasks \<Rightarrow> bool" where
  "starts_others epoch start \<longleftrightarrow> (\<forall>w. freed epoch w \<longrightarrow> freed epoch (snd (start w)))"

lemma free_start: "starts_others epoch start \<Longrightarrow> free.stays epoch (start_or_note ch start i)"
  unfolding start_or_note_def starts_others_def
  by (intro free.stays_catch free.stays_failures free.stays_pure) (simp add: free.stays_def)

lemma release_frees: "freed epoch (snd (release_active epoch w))"
  by (simp add: release_active_def modify_def released_def freed_def)

lemma ends_well_release:
  assumes "\<And>u. free.stays epoch (f u)"
  shows "ends_well epoch (bindE (release_active epoch) f)"
  unfolding ends_well_def
proof (intro allI impI)
  fix w w'
  assume "bindE (release_active epoch) f w = (Inr Ended, w')"
  then have "f () (released epoch w) = (Inr Ended, w')"
    by (simp add: bindE_def release_active_def modify_def)
  moreover have "freed epoch (released epoch w)" by (simp add: released_def freed_def)
  ultimately show "handed_over epoch w'"
    using free.staysD [OF assms, of "released epoch w" "()"] by (simp add: handed_over_def)
qed

lemma monitor_end_hands_over:
  assumes "starts_others (sk_owner_epoch k) start"
  shows "ends_well (sk_owner_epoch k) (monitor_end ch start mv k p session t natural)"
  unfolding monitor_end_def
  by (rule ends_well_bind, rule ends_well_bind, rule ends_well_release)
    (intro free.stays_bind free.stays_pure free_start assms)

definition looked :: "task_world \<Rightarrow> task_world" where
  "looked w = (case w_interrupts w of [] \<Rightarrow> w
     | f # rest \<Rightarrow> w\<lparr>w_lifecycle := f (w_lifecycle w), w_interrupts := rest\<rparr>)"

lemma look_bind: "bindE look_lifecycle f w = f (w_lifecycle (looked w)) (looked w)"
  by (simp add: bindE_def look_lifecycle_def looked_def split: list.split)

lemma ends_well_look:
  assumes "\<And>l. ends_well epoch (f l)"
    and "\<And>l. c l \<Longrightarrow> ingress_reason l \<noteq> None"
  shows "ends_well epoch (bindE look_lifecycle (\<lambda>l. if c l then return_ok Ended else f l))"
  unfolding ends_well_def
proof (intro allI impI)
  fix w w'
  assume run: "bindE look_lifecycle (\<lambda>l. if c l then return_ok Ended else f l) w = (Inr Ended, w')"
  let ?w = "looked w"
  from run have "(if c (w_lifecycle ?w) then return_ok Ended else f (w_lifecycle ?w)) ?w = (Inr Ended, w')"
    by (simp add: look_bind)
  then show "handed_over epoch w'"
    using assms unfolding handed_over_def ends_well_def return_ok_def
    by (cases "c (w_lifecycle (looked w))") auto
qed

lemma monitor_terminal_hands_over:
  assumes "starts_others (sk_owner_epoch k) start"
  shows "ends_well (sk_owner_epoch k) (monitor_terminal ch start mv k p session handled t :: (task_world, 'e, monitor_next) action)"
proof -
  have "ends_well (sk_owner_epoch k) ((case admission of
       Deferred asked queued \<Rightarrow>
         if asked then return_ok (Watch handled) else deliver_after_end ch mv k session handled
     | _ \<Rightarrow> monitor_end ch start mv k p session t True) :: (task_world, 'e, monitor_next) action)" for admission
    unfolding deliver_after_end_def
    by (cases admission) (simp_all add: ends_well_rules monitor_end_hands_over assms)
  then show ?thesis
    unfolding monitor_terminal_def
    by (intro ends_well_look ends_well_rules monitor_end_hands_over assms) auto
qed

lemma monitor_sink_failure_hands_over: "ends_well (sk_owner_epoch k) (monitor_sink_failure ch mv k p session m)"
  unfolding monitor_sink_failure_def
  by (rule ends_well_bind, rule ends_well_bind, rule ends_well_bind, rule ends_well_bind, rule ends_well_bind,
      rule ends_well_release) (rule free.stays_pure)

lemma monitor_failed_hands_over:
  assumes "starts_others (sk_owner_epoch k) start"
  shows "ends_well (sk_owner_epoch k) (monitor_delivery_failed ch start mv k p session expires e)"
  unfolding monitor_delivery_failed_def Let_def
  by (rule ends_well_bind, rule ends_well_bind, rule ends_well_bind, rule ends_well_bind, rule ends_well_bind,
      rule ends_well_release) (intro free.stays_bind free.stays_pure free_start assms)

lemma monitor_turn_hands_over:
  assumes "starts_others (sk_owner_epoch k) start"
  shows "ends_well (sk_owner_epoch k) (monitor_turn ch start mv k p session handled)"
  unfolding monitor_turn_def Let_def
  by (intro ends_well_if ends_well_watch ends_well_option ends_well_look ends_well_bind)
    (auto split: option.split sum.split
      intro!: ends_well_bind ends_well_watch monitor_end_hands_over monitor_failed_hands_over assms)

lemma monitor_pass_hands_over:
  assumes "starts_others (sk_owner_epoch k) start"
  shows "ends_well (sk_owner_epoch k) (monitor_pass ch start k p session mv handled)"
  unfolding monitor_pass_def
  by (intro ends_well_option ends_well_bind monitor_terminal_hands_over monitor_sink_failure_hands_over
      monitor_turn_hands_over assms)



section \<open>Races that are lost\<close>

definition sample_control :: control_host where
  "sample_control = \<lparr>ch_finish = sample_finish, ch_stop_grace = 1, ch_control_timeout = 10\<rparr>"

definition quiet_turn :: turn_snapshot where
  "quiet_turn = \<lparr>turn_generation = 1, turn_active = False, turn_boundary = Some BoundaryCompleted\<rparr>"

definition sample_answers :: runtime_answers where
  "sample_answers = \<lparr>an_turn = (\<lambda>_. quiet_turn), an_send = Inr None, an_respond = Inr (),
     an_stop_turn = Inr quiet_turn, an_close = Inr (), an_stop = TerminalStopped (AlreadyExited (Exited (Some 0)))\<rparr>"

definition start_nothing :: start_tasks where
  "start_nothing = return_ok []"

text \<open>Between the read of the request and its claim another thread denies it.\<close>

definition denied_meanwhile :: "db \<Rightarrow> db" where
  "denied_meanwhile d = snd (complete_pending_response clk ''10000000'' ''q1''
     (snd (claim_pending_response_if_accepting ''10000000'' ''q1'' ''deny'' None d)))"

definition denied_world :: task_world where
  "denied_world = (sample_world sample_waiting)\<lparr>w_schedule := [(clk, id), (clk, id), (clk, denied_meanwhile)]\<rparr>"

lemma denied_world_real: "store_reachable (w_db denied_world) \<and> runs_of store_step_restore (w_schedule denied_world)"
proof -
  have "store_step_restore\<^sup>*\<^sup>* d (denied_meanwhile d)" for d
    unfolding denied_meanwhile_def
    by (rule rtranclp_trans [OF r_into_rtranclp r_into_rtranclp])
      (rule store_step_restore.ordinary, rule store_step.intros)+
  then show ?thesis using samples_reachable(4) by (simp add: denied_world_def sample_world_def)
qed


text \<open>While a finished task is resumed, the claim loop of the daemon starts it first.\<close>

definition started_meanwhile :: "db \<Rightarrow> db" where
  "started_meanwhile d = snd (mark_session_running clk ''10000000'' 2 ''10000000:2'' None (Some ''ses'') None
     (snd (claim_next clk ''worker'' (- 1) 1 d)))"

definition resumed_world :: task_world where
  "resumed_world = (sample_world sample_failed)\<lparr>w_active_epoch := None, w_schedule :=
     [(clk, id), (clk, id), (clk, id), (clk, id), (clk, id), (clk, started_meanwhile)]\<rparr>"

lemma resumed_world_real: "store_reachable (w_db resumed_world) \<and> runs_of store_step_restore (w_schedule resumed_world)"
proof -
  have "store_step_restore\<^sup>*\<^sup>* d (started_meanwhile d)" for d
    unfolding started_meanwhile_def
    by (rule rtranclp_trans [OF r_into_rtranclp r_into_rtranclp])
      (rule store_step_restore.ordinary, rule store_step.intros)+
  then show ?thesis using samples_reachable(7) by (simp add: resumed_world_def sample_world_def)
qed

definition requeued_then_started :: db where
  "requeued_then_started = started_meanwhile
     (snd (requeue_task_for_resume_with_message clk ''10000000'' ''m1'' ''go on'' sample_failed))"

text \<open>
  A resume that lost a race ends a running task: when the claim loop claims and starts the task
  between its requeue and the start in \<open>queue_message\<close>, the caller gets an error and the task that runs
  under the new owner epoch is forced back to its terminal state; nothing stops its runtime.
\<close>

theorem resume_race_ends_running_task:
  "phases requeued_then_started ''10000000'' = Some Running \<and>
   (let (r, w) = queue_message sample_control start_nothing 0 ''10000000'' ''m1'' ''queue'' ''go on'' resumed_world
    in r = Inl (RuntimeCommand ''10000000'' ''session resume was not started'') \<and>
       phases (w_db w) ''10000000'' = Some Terminal \<and>
       map_option t_owner_epoch (find_task (w_db w) ''10000000'') = Some 2 \<and> w_calls w = [])"
  by code_simp

text \<open>A message whose delivery runs out of time after it was claimed.\<close>

definition message_world :: task_world where
  "message_world = (sample_world (snd (insert_message clk ''m1'' ''10000000'' ''queue'' ''go on'' sample_running)))
     \<lparr>w_clock := [20]\<rparr>"

text \<open>
  A delivery that runs out of time loses its message: when the deadline has passed after the
  claim, the message stays in the state SENDING, which no later claim takes up and which keeps the task
  from completing.
\<close>

theorem timed_out_delivery_strands_message:
  "let (r, w) = deliver_next_message sample_control sample_answers ''10000000'' ''ses'' 10 message_world
   in r = Inl (control_timeout_error ''10000000'') \<and> w_calls w = [] \<and>
      map_option m_state (find_message (w_db w) ''m1'') = Some MsgSending \<and>
      fst (claim_next_message ''10000000'' (w_db w)) = Inr None \<and>
      completion_blockers ''10000000'' (w_db w) = Inr (False, True)"
  by code_simp


section \<open>Witnesses\<close>

definition sample_start_finish :: finish_host where
  "sample_start_finish = sample_finish\<lparr>fh_parse := (\<lambda>_. Some (JObject [(''schema'', JString general_task_schema)])),
     fh_decode := (\<lambda>_. Some sample_prepared)\<rparr>"

definition sample_launcher :: policy_launcher where
  "sample_launcher = \<lparr>worktree = ''/work'', scratch_root = ''/tmp/s'', report_target = ''/tmp/s'',
     readable_inputs = [], network_allowed = False, capabilities = default_capabilities, access_mode_of = ReadOnly,
     tracked_write_roots = [], interactive_bash = False\<rparr>"

definition sample_start :: start_answers where
  "sample_start = \<lparr>sa_policy = (\<lambda>_ _. Inr sample_launcher), sa_spawn = Inr (),
     sa_session = Inr \<lparr>ready_session_id = ''ses'', initial_turn_id = None, configured_model = None\<rparr>,
     sa_identity = None, sa_turn = quiet_turn, sa_stop = TerminalStopped (AlreadyExited (Exited (Some 0))),
     sa_runtime = sample_answers\<rparr>"

definition sample_claim :: task_record where
  "sample_claim = (case get_task ''10000000'' sample_claimed of Inr (Some r) \<Rightarrow>
     r\<lparr>tr_prepared_launch_sha256 := p_prepared_sha256 sample_prepared\<rparr>)"

theorem spawned_runtime_is_tracked_witness:
  "let (r, w) = start_claim (sample_control\<lparr>ch_finish := sample_start_finish\<rparr>) (\<lambda>_. []) sample_start (sample_claim, 1)
         ((sample_world sample_claimed)\<lparr>w_active_epoch := None\<rparr>)
   in r = Inr True \<and> CallSpawn \<in> set (w_calls w) \<and> (CallStop \<in> set (w_calls w) \<or> w_active_epoch w = Some 1)"
proof -
  let ?w = "(sample_world sample_claimed)\<lparr>w_active_epoch := None\<rparr>"
  let ?run = "start_claim (sample_control\<lparr>ch_finish := sample_start_finish\<rparr>) (\<lambda>_. []) sample_start (sample_claim, 1) ?w"
  have new: "CallSpawn \<notin> set (w_calls ?w)" by (simp add: sample_world_def)
  have run: "?run = (fst ?run, snd ?run)" by simp
  have out: "fst ?run = Inr True" "CallSpawn \<in> set (w_calls (snd ?run))" by code_simp+
  from spawned_runtime_is_tracked [OF new run out(2)] out show ?thesis by (simp add: case_prod_unfold)
qed

definition stopped_view :: monitor_view where
  "stopped_view = \<lparr>mv_terminal = Some (TerminalStopped (AlreadyExited (Exited (Some 0)))), mv_turn = quiet_turn,
     mv_again = quiet_turn, mv_finished = (\<lambda>_. TerminalStopped (AlreadyExited (Exited (Some 0)))),
     mv_answers = sample_answers\<rparr>"


end
