(* ===== verification/Task_Answer_Properties.thy ===== *)
theory Task_Answer_Properties
  imports Task_Control_Properties
begin

text \<open>
  An answer fails closed: when it may have reached the runtime, it is recorded as given, or the runtime
  is stopped, or the store itself failed.
\<close>

section \<open>Steps before the answer is sent\<close>

definition unsent :: "task_world \<Rightarrow> bool" where
  "unsent w \<longleftrightarrow> (\<forall>c d. CallRespond c d \<notin> set (w_calls w))"

interpretation unsent: idle_predicate unsent
  by unfold_locales (simp add: unsent_def)

context idle_predicate
begin

lemma stays_deadlines: "stays (remaining expires)" "stays (control_deadline ch)"
    "stays (require_remaining i expires)" "stays (response_deadline ch i expires)"
  unfolding require_remaining_def response_deadline_def runtime_phase_deadline_def control_deadline_def remaining_def
  by (intro stays_rules)+

lemma stays_lock: "stays (lock_operation i expires held)"
  by (induction held) (simp_all add: stays_pure stays_bind stays_deadlines)

lemma stays_look_ingress: "stays (require_runtime_ingress i)"
  unfolding require_runtime_ingress_def by (intro stays_rules)

lemma stays_release: "stays (release_claim i rid)"
  unfolding release_claim_def by (intro stays_rules)

end

section \<open>What is settled once it is sent\<close>

definition recorded :: "string \<Rightarrow> string \<Rightarrow> db \<Rightarrow> bool" where
  "recorded i rid d \<longleftrightarrow> (\<exists>q \<in> set (db_requests d). p_request_id q = rid \<and> request_row.p_agent_id q = i \<and> p_state q = ReqResponded)"

definition settled :: "string \<Rightarrow> string \<Rightarrow> string \<Rightarrow> (scheduler_error + response_outcome) \<times> task_world \<Rightarrow> bool" where
  "settled i rid decision = (\<lambda>(r, w). unsent w \<or>
     (case r of
        Inl e \<Rightarrow> CallStop \<in> set (w_calls w) \<or> (\<exists>x. e = StoreFailure x)
      | Inr out \<Rightarrow> out = caller_outcome Answered decision \<and> recorded i rid (w_db w)))"

definition settles :: "u64 \<Rightarrow> string \<Rightarrow> string \<Rightarrow> string \<Rightarrow> (task_world, scheduler_error, response_outcome) action \<Rightarrow> bool" where
  "settles epoch i rid decision m \<longleftrightarrow>
     (\<forall>w. unsent w \<longrightarrow> w_active_epoch w = Some epoch \<longrightarrow> settled i rid decision (m w))"

lemma settled_unsent: "unsent (snd rw) \<Longrightarrow> settled i rid decision rw"
  by (simp add: settled_def case_prod_unfold)

lemma settles_unsent: "unsent.stays m \<Longrightarrow> settles epoch i rid decision m"
  by (simp add: settles_def settled_unsent unsent.staysD)

lemma settles_bind:
  assumes "unsent.stays m" "registered.stays epoch m" "\<And>a. settles epoch i rid decision (f a)"
  shows "settles epoch i rid decision (bindE m f)"
  unfolding settles_def
proof (intro allI impI)
  fix w
  assume w: "unsent w" "w_active_epoch w = Some epoch"
  obtain r w1 where m: "m w = (r, w1)" by (cases "m w")
  have "unsent w1" "w_active_epoch w1 = Some epoch"
    using unsent.staysD [OF assms(1) w(1)] registered.staysD [OF assms(2) w(2)] m by simp_all
  with m assms(3) show "settled i rid decision (bindE m f w)"
    by (cases r) (auto simp: bindE_def settles_def settled_def)
qed

lemma settles_catch:
  assumes "unsent.stays m" "registered.stays epoch m" "\<And>e. settles epoch i rid decision (h e)"
    "\<And>a. settles epoch i rid decision (f a)"
  shows "settles epoch i rid decision (catch m h f)"
  unfolding settles_def
proof (intro allI impI)
  fix w
  assume w: "unsent w" "w_active_epoch w = Some epoch"
  obtain r w1 where m: "m w = (r, w1)" by (cases "m w")
  have "unsent w1" "w_active_epoch w1 = Some epoch"
    using unsent.staysD [OF assms(1) w(1)] registered.staysD [OF assms(2) w(2)] m by simp_all
  with m assms(3,4) show "settled i rid decision (catch m h f w)"
    by (cases r) (simp_all add: catch_def settles_def)
qed

lemma settles_if: "(b \<Longrightarrow> settles epoch i rid decision m) \<Longrightarrow> (\<not> b \<Longrightarrow> settles epoch i rid decision n) \<Longrightarrow>
    settles epoch i rid decision (if b then m else n)"
  by simp

section \<open>Failing closed\<close>

definition closing :: "u64 \<Rightarrow> (task_world, scheduler_error, 'a) action \<Rightarrow> bool" where
  "closing epoch m \<longleftrightarrow> (\<forall>w. w_active_epoch w = Some epoch \<longrightarrow>
     (case m w of (r, w1) \<Rightarrow> stopped w1 \<or> (\<exists>x. r = Inl (StoreFailure x))))"

lemma from_store_Inl: "from_store m w = (Inl e, w1) \<Longrightarrow> \<exists>x. e = StoreFailure x"
  by (cases "fst (m w)") (auto simp: from_store_def split: prod.splits)

lemma closing_then:
  assumes "registered.stays epoch m" "\<And>w e w1. m w = (Inl e, w1) \<Longrightarrow> \<exists>x. e = StoreFailure x" "\<And>a. closing epoch (f a)"
  shows "closing epoch (bindE m f)"
  unfolding closing_def
proof (intro allI impI)
  fix w :: task_world
  assume w: "w_active_epoch w = Some epoch"
  obtain r w1 where m: "m w = (r, w1)" by (cases "m w")
  with registered.staysD [OF assms(1) w] have w1: "w_active_epoch w1 = Some epoch" by simp
  show "case bindE m f w of (r, w1) \<Rightarrow> stopped w1 \<or> (\<exists>x. r = Inl (StoreFailure x))"
  proof (cases r)
    case (Inl e)
    with m assms(2) [of w e w1] show ?thesis by (auto simp: bindE_def)
  next
    case (Inr a)
    with m assms(3) [of a, unfolded closing_def, rule_format, OF w1] show ?thesis by (simp add: bindE_def)
  qed
qed

lemma closing_force_stop: "(\<And>u. stop.stays (f u)) \<Longrightarrow> closing epoch (bindE (force_stop at turn) f)"
  by (simp add: closing_def case_prod_unfold stopped_after_force)

lemma closing_cleanup:
  "closing epoch (cleanup_registered_runtime_with_grace fh k p session turn t failure)" if "sk_owner_epoch k = epoch"
proof -
  let ?finish = "\<lambda>decision. bindE read_time (\<lambda>at.
       bindE (force_stop at turn) (\<lambda>_.
       bindE (from_store (store_read (get_task (sk_agent_id k)))) (\<lambda>current.
       ensuring
         (from_store (cleanup_finish fh k p session t (cd_prior_stop_or_close decision \<or> failure = None) failure current))
         (released (sk_owner_epoch k)))))"
  have "stop.stays (bindE (from_store (store_read (get_task (sk_agent_id k)))) (\<lambda>current.
       ensuring (from_store (cleanup_finish fh k p session t wins failure current)) (released (sk_owner_epoch k))))" for wins
    by (intro stop.stays_bind stop.stays_from_store stop.stays_read stop_ensuring stop_cleanup_finish)
  then have ends: "closing epoch (?finish decision)" for decision
    by (intro closing_then registered.stays_outside closing_force_stop) (auto simp: read_time_def split: list.splits)
  show ?thesis
    unfolding closing_def
  proof (intro allI impI)
    fix w :: task_world
    assume w: "w_active_epoch w = Some epoch"
    obtain r w1 where m: "from_store (store_call (\<lambda>now. request_runtime_stop now (sk_agent_id k))) w = (r, w1)"
      by (cases "from_store (store_call (\<lambda>now. request_runtime_stop now (sk_agent_id k))) w") auto
    then have w1: "w_active_epoch w1 = Some epoch"
      using registered.staysD [OF registered.stays_from_store [OF registered.stays_store] w] by (metis snd_conv)
    show "case cleanup_registered_runtime_with_grace fh k p session turn t failure w of
        (r, w1) \<Rightarrow> stopped w1 \<or> (\<exists>x. r = Inl (StoreFailure x))"
    proof (cases r)
      case (Inl e)
      with m from_store_Inl [OF m [unfolded Inl]] show ?thesis
        by (auto simp: cleanup_registered_runtime_with_grace_def bindE_def)
    next
      case (Inr decision)
      have "w_active_epoch (w1\<lparr>w_check_cancelled := True\<rparr>) = Some epoch" using w1 by simp
      with ends [of decision] have "case ?finish decision (w1\<lparr>w_check_cancelled := True\<rparr>) of
          (r, w1) \<Rightarrow> stopped w1 \<or> (\<exists>x. r = Inl (StoreFailure x))" by (simp add: closing_def)
      with m Inr w1 that show ?thesis
        by (simp add: cleanup_registered_runtime_with_grace_def bindE_def cancel_check_def modify_def inspect_def)
    qed
  qed
qed

definition starts_keep_calls :: "start_tasks \<Rightarrow> bool" where
  "starts_keep_calls start \<longleftrightarrow> (\<forall>w. set (w_calls w) \<subseteq> set (w_calls (snd (start w))))"

lemma closing_bind:
  assumes "closing epoch m" "\<And>a. stop.stays (f a)"
  shows "closing epoch (bindE m f)"
  unfolding closing_def
proof (intro allI impI)
  fix w :: task_world
  assume w: "w_active_epoch w = Some epoch"
  obtain r w1 where m: "m w = (r, w1)" by (cases "m w")
  with assms(1) [unfolded closing_def, rule_format, OF w] have "stopped w1 \<or> (\<exists>x. r = Inl (StoreFailure x))" by simp
  with m show "case bindE m f w of (r, w1) \<Rightarrow> stopped w1 \<or> (\<exists>x. r = Inl (StoreFailure x))"
    using stop.staysD [OF assms(2), of w1]
    by (cases r) (auto simp: bindE_def case_prod_unfold)
qed

lemma closing_fail_closed:
  assumes "sk_owner_epoch k = epoch" "starts_keep_calls start"
  shows "closing epoch (bindE (fail_closed_control ch an start k p session expires code m) (\<lambda>_. fail_with e))"
proof -
  have start: "stop.stays start" using assms(2) by (auto simp: stop.stays_def starts_keep_calls_def stopped_def)
  let ?rest = "bindE (cleanup_grace expires (ch_stop_grace ch)) (\<lambda>_.
       bindE (cleanup_registered_runtime_with_grace (ch_finish ch) k p (Some session) (an_turn an 0) (an_stop an)
                (Some (code, m))) (\<lambda>_.
       catch start
         (\<lambda>e. record_failure (sk_agent_id k)
                (scheduler_error_text (sk_sqlite_text (fh_sink (ch_finish ch))) e))
         (\<lambda>_. return_ok ())))"
  have "closing epoch ?rest"
  proof (rule closing_then)
    show "registered.stays epoch (cleanup_grace expires (ch_stop_grace ch))" by (rule registered.stays_remaining)
    show "\<exists>x. e = StoreFailure x" if "cleanup_grace expires (ch_stop_grace ch) w = (Inl e, w1)"
      for w and e :: scheduler_error and w1
      using that by (auto simp: cleanup_grace_def remaining_def bindE_def read_time_def return_ok_def split: list.splits)
  qed (intro closing_bind closing_cleanup assms(1) stop.stays_catch start stop.stays_failures stop.stays_pure)
  then have "closing epoch (bindE ?rest (\<lambda>_. fail_with e))" by (rule closing_bind) (rule stop.stays_pure)
  then show ?thesis
    using assms(1) by (simp add: closing_def fail_closed_control_def bindE_def inspect_def)
qed

section \<open>The answer\<close>

definition concluded :: "string \<Rightarrow> string \<Rightarrow> string \<Rightarrow> (scheduler_error + response_outcome) \<times> task_world \<Rightarrow> bool" where
  "concluded i rid decision = (\<lambda>(r, w). case r of
        Inl e \<Rightarrow> CallStop \<in> set (w_calls w) \<or> (\<exists>x. e = StoreFailure x)
      | Inr out \<Rightarrow> out = caller_outcome Answered decision \<and> recorded i rid (w_db w))"

lemma settled_concluded: "settled i rid decision rw \<longleftrightarrow> unsent (snd rw) \<or> concluded i rid decision rw"
  by (simp add: settled_def concluded_def case_prod_unfold)

definition never_ok :: "(task_world, scheduler_error, 'a) action \<Rightarrow> bool" where
  "never_ok m \<longleftrightarrow> (\<forall>w a w1. m w \<noteq> (Inr a, w1))"

lemma never_ok_rules: "never_ok (fail_with e)" "(\<And>a. never_ok (f a)) \<Longrightarrow> never_ok (bindE m f)"
  by (auto simp: never_ok_def fail_with_def bindE_def split: prod.splits sum.splits)

lemma closing_concludes:
  assumes "closing epoch m" "never_ok m" "w_active_epoch w = Some epoch"
  shows "concluded i rid decision (m w)"
proof -
  obtain r w1 where m: "m w = (r, w1)" by (cases "m w")
  with assms(2) obtain e where "r = Inl e" by (cases r) (auto simp: never_ok_def)
  with m assms(1) [unfolded closing_def, rule_format, OF assms(3)] show ?thesis
    by (auto simp: concluded_def stopped_def)
qed

lemma release_claim_Inl: "release_claim i rid w = (Inl e, w1) \<Longrightarrow> \<exists>x. e = StoreFailure x"
  by (auto simp: release_claim_def bindE_def return_ok_def dest: from_store_Inl split: prod.splits sum.splits)

lemma released_and_closed:
  assumes "sk_owner_epoch k = epoch" "starts_keep_calls start" "w_active_epoch w = Some epoch"
  shows "concluded i rid decision (bindE (release_claim i rid) (\<lambda>_.
     bindE (fail_closed_control ch an start k p session expires code m) (\<lambda>_. fail_with e)) w)"
  using assms(1,3)
  by (intro closing_concludes [OF closing_then] registered.stays_release release_claim_Inl closing_fail_closed
      never_ok_rules assms(2)) simp_all

lemma completed_recorded:
  assumes "complete_pending_response now i rid d = (Inr True, d')"
  shows "recorded i rid d'"
proof -
  let ?sel = "\<lambda>q. p_request_id q = rid \<and> request_row.p_agent_id q = i \<and> p_state q = ReqSending"
  let ?upd = "update_requests ?sel (\<lambda>q. q\<lparr>p_state := ReqResponded, p_responded_at := Some (now 0)\<rparr>) d"
  from assms have "length (filter ?sel (db_requests d)) = 1" "db_requests d' = db_requests (snd ?upd)"
    by (auto simp: complete_pending_response_def run_tx_def update_requests_def result_simps Let_def
        dest!: insert_ledger_keeps(4) update_tasks_Inr(1) split: if_splits sum.splits prod.splits)
  moreover have "\<exists>q \<in> set (db_requests d). ?sel q" if "length (filter ?sel (db_requests d)) = 1"
  proof (rule ccontr)
    assume "\<not> ?thesis"
    then have "filter ?sel (db_requests d) = []" by (simp add: filter_empty_conv)
    with that show False by simp
  qed
  ultimately obtain q where "q \<in> set (db_requests d)" "?sel q" by blast
  with \<open>db_requests d' = db_requests (snd ?upd)\<close> show ?thesis
    by (auto simp: recorded_def update_requests_def intro!: bexI [of _ "q\<lparr>p_state := ReqResponded, p_responded_at := Some (now 0)\<rparr>"])
qed

lemma map_sum_iffs:
  "map_sum f g x = Inl e \<longleftrightarrow> (\<exists>a. x = Inl a \<and> e = f a)" "map_sum f g x = Inr b \<longleftrightarrow> (\<exists>a. x = Inr a \<and> b = g a)"
  by (cases x; auto)+

lemma sent_settles:
  assumes "sk_owner_epoch k = epoch" "starts_keep_calls start" "sk_agent_id k = i"
  shows "settles epoch i rid decision (bindE (call_runtime (CallRespond c decision)) (\<lambda>_.
     case an_respond an of
       Inl e \<Rightarrow>
         bindE (release_claim i rid) (\<lambda>_.
         bindE (fail_closed_control ch an start k p session expires (control_failure_code e) (command_error_text e)) (\<lambda>_.
         fail_with (RuntimeCommand i (command_error_text e))))
     | Inr _ \<Rightarrow>
         bindE (remaining expires) (\<lambda>left.
         if left = None then
           bindE (release_claim i rid) (\<lambda>_.
           bindE (fail_closed_control ch an start k p session expires ''CONTROL_DEADLINE_EXCEEDED''
                    (scheduler_error_text (sk_sqlite_text (fh_sink (ch_finish ch))) (control_timeout_error i))) (\<lambda>_.
           fail_with (control_timeout_error i)))
         else
           bindE (from_store (store_call (\<lambda>now. complete_pending_response now i rid))) (\<lambda>completed.
           if \<not> completed
           then fail_with (StoreFailure (Conflict (''request '' @ rid @ '' lost its response claim'')))
           else return_ok (caller_outcome Answered decision)))))" (is "settles _ _ _ _ (bindE _ (\<lambda>_. ?rest))")
proof -
  have stored: "concluded i rid decision (bindE (from_store (store_call (\<lambda>now. complete_pending_response now i rid))) (\<lambda>completed.
           if \<not> completed
           then fail_with (StoreFailure (Conflict (''request '' @ rid @ '' lost its response claim'')))
           else return_ok (caller_outcome Answered decision)) w)" for w
    by (auto simp: bindE_def from_store_def store_call_def fail_with_def return_ok_def concluded_def map_sum_iffs
        dest: completed_recorded split: prod.split sum.split)
  have rest: "concluded i rid decision (?rest w)" if w: "w_active_epoch w = Some epoch" for w
  proof (cases "an_respond an")
    case (Inl e)
    with released_and_closed [OF assms(1,2) w] show ?thesis by simp
  next
    case (Inr u)
    obtain left w1 where look: "remaining expires w = (Inr left :: scheduler_error + nat option, w1)" "w_active_epoch w1 = Some epoch"
      using w by (cases "w_clock w") (auto simp: remaining_def bindE_def read_time_def return_ok_def)
    with Inr stored released_and_closed [OF assms(1,2) look(2)] show ?thesis
      by (simp add: bindE_def [of "remaining expires"])
  qed
  show ?thesis
    by (simp add: settles_def settled_concluded bindE_def call_runtime_def rest)
qed

lemma answer_settles:
  assumes "sk_owner_epoch k = epoch" "starts_keep_calls start" "sk_agent_id k = i"
  shows "settles epoch i rid decision (answer_claimed ch an start k p session expires q rid decision)"
  unfolding answer_claimed_def Let_def assms(3)
  by (rule settles_catch settles_bind settles_if sent_settles assms settles_unsent
      unsent.stays_bind unsent.stays_release unsent.stays_pure unsent.stays_from_store unsent.stays_read
      unsent.stays_look_ingress unsent.stays_deadlines
      registered.stays_from_store registered.stays_read registered.stays_look_ingress registered.stays_deadlines)+

lemma pending_settles:
  assumes "sk_owner_epoch k = epoch" "starts_keep_calls start" "sk_agent_id k = i"
  shows "settles epoch i rid decision (respond_pending ch an start k p session held expires q rid decision content)"
proof -
  have claims: "settles epoch i rid decision (case claim of
       Claimed \<Rightarrow> answer_claimed ch an start k p session expires q rid decision
     | TaskStopping \<Rightarrow> fail_with (late_ingress_error i ''TASK_STOPPING'')
     | pending_response_claim.NotFound \<Rightarrow> fail_with (StoreFailure (InvalidState (''unknown request '' @ rid)))
     | NotPending ReqSending \<Rightarrow> return_ok (caller_outcome AnswerInFlight decision)
     | NotPending ReqResponded \<Rightarrow> return_ok (caller_outcome AlreadyAnswered decision)
     | NotPending ReqPending \<Rightarrow>
         fail_with (StoreFailure (Conflict (''request '' @ rid @ '' claim did not change pending state''))))" for claim
    using answer_settles [OF assms]
    by (auto split: pending_response_claim.split pending_request_state.split intro!: settles_unsent [OF unsent.stays_pure(1)]
        settles_unsent [OF unsent.stays_pure(2)])
  show ?thesis
    unfolding respond_pending_def Let_def assms(3)
    by (rule claims settles_bind settles_if unsent.stays_lock registered.stays_lock
        unsent.stays_look_ingress registered.stays_look_ingress unsent.stays_from_store registered.stays_from_store
        unsent.stays_read registered.stays_read unsent.stays_store registered.stays_store unsent.stays_pure
        unsent.stays_deadlines registered.stays_deadlines settles_unsent)+
qed



end
