(* ===== verification/Rpc_Properties.thy ===== *)
theory Rpc_Properties
  imports Rpc_Socket Task_Answer_Properties
begin

text \<open>Results are paged without loss and the cursors of the task list read back.\<close>

section \<open>Pages of a result\<close>

lemma page_end_floor: "char_boundary t offset \<Longrightarrow> offset \<le> e \<Longrightarrow> page_end t offset e = floor_boundary t e"
  by (induction e) (auto simp: le_Suc_eq)

text \<open>A reader that follows the offsets it is given, for at most \<open>n\<close> pages.\<close>

fun read_pages :: "nat \<Rightarrow> stored_task_result \<Rightarrow> nat \<Rightarrow> nat \<Rightarrow> string list option" where
  "read_pages 0 stored offset limit = None"
| "read_pages (Suc n) stored offset limit =
     (case task_result_page stored offset limit of
        Inl _ \<Rightarrow> None
      | Inr v \<Rightarrow>
          (case trv_next_offset v of
             None \<Rightarrow> Some [trv_final_text v]
           | Some next \<Rightarrow> map_option (Cons (trv_final_text v)) (read_pages n stored next limit)))"

lemma page_step:
  assumes t: "valid_utf8 t" "t = res_final_text (st_result stored)" and "char_boundary t offset" "offset \<le> length t"
    and "4 \<le> limit"
  obtains v e where "task_result_page stored offset limit = Inr v" "trv_final_text v = drop offset (take e t)"
    "offset \<le> e" "e \<le> length t" "e \<le> offset + limit" "char_boundary t e"
    "e = length t \<and> trv_next_offset v = None \<or> e < length t \<and> trv_next_offset v = Some e \<and> offset + limit \<le> e + 3"
proof -
  let ?m = "min (offset + limit) (length t)" let ?e = "floor_boundary t ?m"
  have m: "offset \<le> ?m" "?m \<le> length t" using assms(4) by auto
  have e: "page_end t offset ?m = ?e" by (rule page_end_floor [OF assms(3) m(1)])
  have near: "?m \<le> ?e + 3" by (rule floor_boundary_near [OF t(1) m(2)])
  have bounds: "offset \<le> ?e" "?e \<le> ?m" "char_boundary t ?e"
    using floor_boundary_greatest [OF assms(3) m(1)] floor_boundary_le [of t ?m] by simp_all
  have full: "?e = length t" if "length t \<le> offset + limit"
    using that floor_boundary_greatest [of t "length t" ?m] bounds(2) by (simp add: char_boundary_def)
  have "\<not> (?e = offset \<and> offset < length t)"
    using near assms(5) full by (cases "length t \<le> offset + limit") auto
  then have page: "result_page_bounds t offset limit = Inr (?e, if ?e < length t then Some ?e else None)"
    using assms(3,4) by (auto simp: result_page_bounds_def Let_def e)
  show thesis
  proof (rule that)
    let ?v = "\<lparr>trv_outcome = res_outcome (st_result stored),
        trv_final_text = drop offset (take ?e t), trv_partial = res_partial (st_result stored),
        trv_result_sha256 = st_result_sha256 stored, trv_offset = offset, trv_total_bytes = length t,
        trv_next_offset = (if ?e < length t then Some ?e else None), trv_complete = (\<not> ?e < length t)\<rparr>"
    show "task_result_page stored offset limit = Inr ?v"
      using page by (simp add: task_result_page_def Let_def flip: t(2))
    show short: "?e \<le> length t" "?e \<le> offset + limit" using bounds(2) by simp_all
    show "?e = length t \<and> trv_next_offset ?v = None \<or> ?e < length t \<and> trv_next_offset ?v = Some ?e \<and> offset + limit \<le> ?e + 3"
      using near full short(1) by (cases "length t \<le> offset + limit") (auto simp: min_def)
    show "offset \<le> ?e" "char_boundary t ?e" using bounds by simp_all
  qed simp
qed

lemma read_pages_rest:
  assumes "valid_utf8 t" "t = res_final_text (st_result stored)" "4 \<le> limit"
    and "char_boundary t offset" "offset \<le> length t" "length t - offset < n * (limit - 3)"
  shows "\<exists>ps. read_pages n stored offset limit = Some ps \<and> concat ps = drop offset t \<and> (\<forall>p \<in> set ps. length p \<le> limit)"
  using assms(4-6)
proof (induction n arbitrary: offset)
  case 0
  then show ?case by simp
next
  case (Suc n)
  obtain v e where v: "task_result_page stored offset limit = Inr v" "trv_final_text v = drop offset (take e t)"
    "offset \<le> e" "e \<le> length t" "e \<le> offset + limit" "char_boundary t e"
    and next_page: "e = length t \<and> trv_next_offset v = None \<or>
      e < length t \<and> trv_next_offset v = Some e \<and> offset + limit \<le> e + 3"
    using page_step [OF assms(1,2) Suc.prems(1,2) assms(3)] by blast
  have short: "length (drop offset (take e t)) \<le> limit" using v(5) by simp
  from next_page show ?case
  proof (elim disjE conjE)
    assume "e = length t" "trv_next_offset v = None"
    with v(1,2) short show ?thesis by auto
  next
    assume more: "e < length t" "trv_next_offset v = Some e" "offset + limit \<le> e + 3"
    then have "length t - e < n * (limit - 3)" using Suc.prems(3) assms(3) by (simp add: algebra_simps)
    then obtain ps where ps: "read_pages n stored e limit = Some ps" "concat ps = drop e t" "\<forall>p \<in> set ps. length p \<le> limit"
      using Suc.IH [OF v(6,4)] by blast
    have "drop offset (take e t) @ drop e t = drop offset t"
      using v(3,4) by (metis append_take_drop_id drop_append diff_is_0_eq' drop_0 length_take min.absorb2)
    with v(1,2) more(2) ps short show ?thesis by (intro exI [of _ "drop offset (take e t) # ps"]) simp
  qed
qed


definition accented :: string where "accented = [CHR 0xC3, CHR 0xA9]"

definition sample_stored :: stored_task_result where
  "sample_stored = \<lparr>st_result = \<lparr>res_outcome = task_outcome.Completed, res_final_text = ''abc'' @ accented @ ''d'',
     res_partial = False\<rparr>, st_result_sha256 = ''ab''\<rparr>"


section \<open>Cursors\<close>

lemma strip_prefix_append [simp]: "strip_prefix (p @ s) p = Some s"
  by (simp add: strip_prefix_def)

lemma parse_show_nat: "n \<le> limit \<Longrightarrow> parse_unsigned limit (show_nat n) = Some n"
proof -
  assume "n \<le> limit"
  obtain c r where s: "show_nat n = c # r" by (cases "show_nat n") auto
  have "is_ascii_digit c" using show_nat_digits [of n] by (simp add: s)
  then have "c \<noteq> CHR ''+''" by (auto simp: is_ascii_digit_def byte_def)
  with \<open>n \<le> limit\<close> show ?thesis
    using show_nat_digits [of n] digits_value_show_nat [of n] by (simp add: parse_unsigned_def s)
qed

lemma parse_unsigned_le: "parse_unsigned limit s = Some n \<Longrightarrow> n \<le> limit"
  by (auto simp: parse_unsigned_def Let_def split: if_splits)

text \<open>
  The cursor of a page is read back: the text that is given to a client for a position of the
  list parses to that position, and whatever text parses is a positive position.
\<close>

theorem cursor_round_trip:
  assumes "0 < c"
  shows "parse_task_cursor (format_task_cursor c) = Inr c \<and> (\<forall>s c'. parse_task_cursor s = Inr c' \<longrightarrow> 0 < c')"
proof -
  have "unat c < 2 ^ 64" using unsigned_less [of c] by simp
  then have "parse_task_cursor (format_task_cursor c) = Inr c"
    using assms unat_gt_0 [of c]
    by (simp add: parse_task_cursor_def format_task_cursor_def parse_show_nat word_neq_0_conv del: append_Cons)
  moreover have "0 < (word_of_nat n :: u64)" if "0 < n" "n \<le> 18446744073709551615" for n
    using that by (simp add: word_less_nat_alt unat_of_nat take_bit_nat_eq_self)
  ultimately show ?thesis
    by (auto simp: parse_task_cursor_def split: option.splits if_splits bind_splits dest!: parse_unsigned_le)
qed

theorem cursor_round_trip_witness: "parse_task_cursor (format_task_cursor 42) = Inr 42"
  using cursor_round_trip [of 42] by simp

end
