(* ===== verification/Rpc_Frame_Properties.thy ===== *)
theory Rpc_Frame_Properties
  imports Rpc_Socket Task_Control_Properties
begin

text \<open>
  Frames are read the same way however they arrive, answers echo valid ids and fit their frame, errors
  and summaries are redacted; and a request whose error text is long takes a connection slot with it.
\<close>

section \<open>The line that is read\<close>

lemma newline_position_Some: "newline_position s = Some n \<Longrightarrow> nl \<in> set s \<and> take n s = takeWhile (\<lambda>c. c \<noteq> nl) s \<and> n \<le> length s"
  using takeWhile_eq_take [of "\<lambda>c. c \<noteq> nl" s, symmetric] length_takeWhile_le [of "\<lambda>c. c \<noteq> nl" s]
  by (simp add: newline_position_def split: if_splits)

lemma newline_position_None: "newline_position s = None \<longleftrightarrow> nl \<notin> set s"
  by (simp add: newline_position_def)

lemma line_longer: "nl \<notin> set s \<Longrightarrow> length s \<le> length (takeWhile (\<lambda>c. c \<noteq> nl) (s @ t))"
  by (subst takeWhile_append2) auto

lemma read_limited_frame_line:
  assumes "nl \<notin> set frame" "length frame \<le> cap" "[] \<notin> set chunks"
  shows "read_limited_frame cap frame (map Inr chunks) =
    (let s = frame @ concat chunks; line = takeWhile (\<lambda>c. c \<noteq> nl) s
     in if cap < length line then Inl FrameExceedsCap else if s = [] then Inl EmptyFrame else Inr line)"
  using assms
proof (induction chunks arbitrary: frame)
  case Nil
  then have whole: "takeWhile (\<lambda>c. c \<noteq> nl) frame = frame" by (subst takeWhile_eq_all_conv) auto
  from Nil show ?case by (simp add: whole)
next
  case (Cons chunk chunks)
  show ?case
  proof (cases "newline_position chunk")
    case None
    then have clean: "nl \<notin> set (frame @ chunk)" using Cons.prems(1) by (simp add: newline_position_None)
    show ?thesis
    proof (cases "cap < length (frame @ chunk)")
      case True
      have "cap < length (takeWhile (\<lambda>c. c \<noteq> nl) ((frame @ chunk) @ concat chunks))"
        using True line_longer [OF clean, of "concat chunks"] by linarith
      with True None Cons.prems(3) show ?thesis by (auto simp: Let_def)
    next
      case False
      then have "read_limited_frame cap (frame @ chunk) (map Inr chunks) =
          (let s = (frame @ chunk) @ concat chunks; line = takeWhile (\<lambda>c. c \<noteq> nl) s
           in if cap < length line then Inl FrameExceedsCap else if s = [] then Inl EmptyFrame else Inr line)"
        using clean Cons.prems(3) by (intro Cons.IH) auto
      with False None Cons.prems(3) show ?thesis by (auto simp: Let_def)
    qed
  next
    case (Some n)
    note n = newline_position_Some [OF Some]
    have "takeWhile (\<lambda>c. c \<noteq> nl) (frame @ chunk @ concat chunks) = frame @ takeWhile (\<lambda>c. c \<noteq> nl) (chunk @ concat chunks)"
      using Cons.prems(1) by (intro takeWhile_append2) auto
    also have "takeWhile (\<lambda>c. c \<noteq> nl) (chunk @ concat chunks) = take n chunk"
      using n by (subst takeWhile_append1 [of nl]) auto
    finally have line: "takeWhile (\<lambda>c. c \<noteq> nl) (frame @ concat (chunk # chunks)) = frame @ take n chunk" by simp
    have "length (takeWhile (\<lambda>c. c \<noteq> nl) chunk) = n" using n by (metis length_take min.absorb2)
    with Some n Cons.prems(3) show ?thesis unfolding line Let_def by auto
  qed
qed

text \<open>
  Claim C27. A frame is its first line however it arrives: for every way the kernel cuts the bytes of a
  connection into chunks, the frame that is read is the text up to the first newline, or up to the end
  when there is none; it is refused exactly when this line is longer than the cap, and an empty
  connection is not a frame.
\<close>

theorem frame_is_first_line:
  assumes "[] \<notin> set chunks"
  shows "read_limited_frame cap [] (map Inr chunks) =
    (let s = concat chunks; line = takeWhile (\<lambda>c. c \<noteq> nl) s
     in if cap < length line then Inl FrameExceedsCap else if s = [] then Inl EmptyFrame else Inr line)"
  using read_limited_frame_line [of "[]" cap chunks] assms by simp

theorem frame_is_first_line_witness:
  "read_limited_frame 5 [] (map Inr [''ab'', ''cd'' @ [nl] @ ''e'']) = Inr ''abcd''"
  by (subst frame_is_first_line) (simp_all add: Let_def)

section \<open>Answers\<close>

lemma rpc_error_new_short [simp]:
  "length m \<le> 512 \<Longrightarrow> rpc_error_new code m = Fault \<lparr>err_code = code, err_message = m, err_active_agent_id = None\<rparr>"
  by (simp add: rpc_error_new_def)

lemma classify_rejects:
  assumes "classify_frame rh frame = Inl (rid, code, m)"
  shows "length m \<le> 512 \<and> (rid = None \<or> (\<exists>v. rh_parse rh frame = Some v \<and> echoed_id v = rid))"
  using assms by (auto simp: classify_frame_def Let_def split: if_splits option.splits)

lemma classify_accepts:
  assumes "classify_frame rh frame = Inr r"
  shows "length frame < max_request_frame_bytes \<and> valid_request_id (rq_request_id r) \<and>
    (\<exists>v. rh_parse rh frame = Some v \<and> rh_decode rh v = Some r \<and>
       Option.bind (get v ''version'') as_u64 = Some (of_nat rpc_version))"
  using assms by (auto simp: classify_frame_def Let_def split: if_splits option.splits)

lemma echoed_id_Some: "echoed_id v = Some rid \<Longrightarrow> valid_request_id rid \<and> get_str v ''request_id'' = Some rid"
  by (auto simp: echoed_id_def split: option.splits if_splits)

lemma fault_response_Returns:
  "fault_response rid f = Returns resp \<Longrightarrow>
     rr_version resp = rpc_version \<and> rr_request_id resp = rid \<and> (\<exists>e. rr_outcome resp = Inl e)"
  by (auto simp: fault_response_def error_response_def split: rpc_fault.splits)


text \<open>
  What a connection is sent is one line that fits its frame: it ends with a newline, and an
  answer that is longer than the cap is replaced by an error with the id of the request.
\<close>

theorem written_answer_fits:
  assumes "write_response encoded r = Some out"
  shows "length out \<le> max_response_frame_bytes \<and> (\<exists>frame. out = frame @ [nl] \<and>
    (encoded r = Some frame \<or> encoded (oversized_response r) = Some frame)) \<and>
    (\<forall>frame. encoded r = Some frame \<and> length frame < max_response_frame_bytes \<longrightarrow> out = frame @ [nl])"
  using assms by (auto simp: write_response_def split: option.splits if_splits)

theorem written_answer_fits_witness:
  "write_response (\<lambda>_. Some ''ok'') (error_response None \<lparr>err_code = ErrConflict, err_message = [],
     err_active_agent_id = None\<rparr>) = Some (''ok'' @ [nl])"
proof -
  let ?r = "error_response None \<lparr>err_code = ErrConflict, err_message = [], err_active_agent_id = None\<rparr>"
  have "\<exists>out. write_response (\<lambda>_. Some ''ok'') ?r = Some out"
    by (simp add: write_response_def max_response_frame_bytes_def)
  then show ?thesis
    using written_answer_fits [of "\<lambda>_. Some ''ok''" ?r] by (auto simp: max_response_frame_bytes_def)
qed

section \<open>Errors\<close>

definition public_messages :: "string set" where
  "public_messages = {''STORE_SCHEMA_VERSION_UNSUPPORTED'', ''durable store operation failed'', ''WORKSPACE_BUSY'',
     ''MESSAGE_ID_CONFLICT'', ''durable state conflict'', ''durable state rejected the operation'',
     ''runtime operation failed'', ''RUNTIME_COMMAND_FAILED''}"

lemma map_store_public: "\<exists>x. map_store e = Fault x \<and> err_message x \<in> public_messages"
  by (cases e) (auto simp: public_messages_def workspace_busy_error_def)


text \<open>A summary of a request for permission, without the directories of its paths.\<close>

lemma path_file_name_flat: "path_file_name p = Some name \<Longrightarrow> CHR ''/'' \<notin> set name"
proof -
  assume "path_file_name p = Some name"
  then obtain cs where "components p = cs" "cs \<noteq> []" "last cs = Normal name"
    by (auto simp: path_file_name_def Let_def split: if_splits component.splits)
  then have "Normal name \<in> set cs" by (metis last_in_set)
  moreover have "\<forall>c \<in> set cs. plain c \<or> c \<in> {RootDir, CurDir}"
    using wf_components [of p] \<open>components p = cs\<close>
    by (cases cs) (auto simp: wf_components_def list_all_iff)
  ultimately show ?thesis by fastforce
qed

lemma take_chars_subset: "set (take_chars n s) \<subseteq> set s"
proof -
  have "set (take_chars n s) = \<Union> (set ` set (take n (chars s)))" by (simp add: take_chars_def)
  also have "\<dots> \<subseteq> \<Union> (set ` set (chars s))" by (intro Union_mono image_mono set_take_subset)
  also have "\<dots> = set (concat (chars s))" by (simp only: set_concat)
  finally show ?thesis by simp
qed

lemma input_leaf_flat: "input_leaf params name = Some leaf \<Longrightarrow> CHR ''/'' \<notin> set leaf"
  using take_chars_subset path_file_name_flat by (fastforce simp: input_leaf_def Let_def split: bind_splits)

lemma show_nat_flat: "CHR ''/'' \<notin> set (show_nat n)"
  using show_nat_digits [of n] by (auto simp: list_all_iff is_ascii_digit_def byte_def)

text \<open>
  The summary of a permission request names no directory: whatever the runtime asks for, the
  text that is shown to the caller holds no path separator.
\<close>

theorem summary_hides_directories: "CHR ''/'' \<notin> set (sanitized_permission_summary params)"
  using show_nat_flat input_leaf_flat
  by (auto simp: sanitized_permission_summary_def or_else_def split: option.splits if_splits)

section \<open>Requests that panic\<close>

definition sample_start_host :: "unit start_host" where
  "sample_start_host = \<lparr>st_control = sample_control\<lparr>ch_finish := sample_start_finish\<rparr>, st_disk = sample_disk,
     st_error_text = preparation_error_text ''io'' ''json'', st_io_text = ''io''\<rparr>"

definition sample_component :: component_identity_view where
  "sample_component = running_component_identity_from (\<lambda>_. None) ''daemon'' ''0.1.0'' None None None 0"

definition sample_service :: "(json \<Rightarrow> rpc_request option) \<Rightarrow> unit rpc_host" where
  "sample_service decode =
     \<lparr>rh_start = sample_start_host, rh_answers = sample_answers, rh_start_tasks = start_nothing,
      rh_identity = sample_identity, rh_prepared = sample_prepared, rh_session = ''ses'', rh_held = 0, rh_nonce = 0,
      rh_decode = decode, rh_encoded = (\<lambda>_. Some 100), rh_generation = ''g'', rh_has_activity = True,
      rh_source_verified = True, rh_journal_mode = Inr ''wal'', rh_daemon = sample_component, rh_runtime_path = None\<rparr>"

text \<open>A relative path of 300 characters that take two bytes each.\<close>

definition long_repository :: string where
  "long_repository = concat (replicate 300 [CHR 0xC3, CHR 0xA9])"

definition panicking_manifest :: general_task_manifest where
  "panicking_manifest = sample_manifest\<lparr>m_repository := long_repository\<rparr>"

lemma long_repository_text: "valid_utf8 long_repository \<and> length long_repository = 600"
  by code_simp

lemma manifest_accepted: "validate_manifest (panicking_manifest\<lparr>m_agent_id := show_nat 10000000\<rparr>) = Inr ()"
proof -
  have "trim ''hi'' \<noteq> []" by code_simp
  moreover have "list_all identifier_byte (show_nat 10000000)"
    using show_nat_digits [of 10000000]
    by (auto simp: list_all_iff identifier_byte_def is_ascii_digit_def byte_def)
  moreover have "length (show_nat 10000000) \<le> 256" using show_nat_length [of 10000000 8] by simp
  ultimately show ?thesis
    by (simp add: validate_manifest_def panicking_manifest_def sample_manifest_def max_prompt_bytes_def)
qed

lemma sample_reserves:
  "fst (store_call (\<lambda>_. reserve_task_id) (sample_world sample_queued)) = Inr (show_nat 10000000)"
proof -
  have "db_next_id sample_queued = 10000000" by code_simp
  then have "fst (reserve_task_id sample_queued) = Inr (show_nat 10000000)"
    by (simp add: reserve_task_id_def run_tx_def Let_def)
  then show ?thesis
    by (cases "reserve_task_id sample_queued") (simp add: store_call_def sample_world_def others_run_def)
qed

definition refused_path :: string where
  "refused_path = ''scheduler rejected the operation: invalid path '' @ long_repository @ '': repository must be absolute''"


section \<open>Connections\<close>

text \<open>What holds of the accept loop.\<close>

definition slots_add_up :: "nat \<Rightarrow> nat \<Rightarrow> server_state \<Rightarrow> bool" where
  "slots_add_up max_connections lost s \<longleftrightarrow> sv_active s = sv_running s + lost \<and> sv_active s \<le> max_connections"

inductive_cases server_stepE: "server_step m s e t"
inductive_cases server_runE: "server_run m s (e # es) t" "server_run m s [] t"

lemma server_step_slots:
  "server_step m s e t \<Longrightarrow> slots_add_up m lost s \<Longrightarrow> slots_add_up m (if e = WorkerPanics then lost + 1 else lost) t"
  by (erule server_stepE) (auto simp: slots_add_up_def)

lemma server_run_slots:
  "server_run m s es t \<Longrightarrow> slots_add_up m lost s \<Longrightarrow> slots_add_up m (lost + count_list es WorkerPanics) t"
proof (induction arbitrary: lost rule: server_run.induct)
  case (rests s)
  then show ?case by simp
next
  case (moves s e s1 es s2)
  from moves.IH [OF server_step_slots [OF moves.hyps(1) moves.prems]] show ?case by (simp split: if_splits)
qed

text \<open>
  The number of workers is bounded: whatever connects, returns or panics, never more workers run
  than connections are admitted, and the slots that are counted but not in use are those of the workers
  that panicked.
\<close>

theorem workers_are_bounded:
  assumes "server_run max_connections server_init es s"
  shows "sv_active s = sv_running s + count_list es WorkerPanics \<and> sv_active s \<le> max_connections"
  using server_run_slots [OF assms, of 0] by (simp add: slots_add_up_def server_init_def)

theorem workers_are_bounded_witness:
  "\<exists>s. server_run 2 server_init [Connects, Connects, WorkerReturns] s \<and> sv_running s = 1 \<and> sv_active s = 1"
proof -
  let ?s1 = "\<lparr>sv_active = 1, sv_running = 1\<rparr>" let ?s2 = "\<lparr>sv_active = 2, sv_running = 2\<rparr>"
  have "server_step 2 server_init Connects ?s1" using server_step.admitted [of server_init 2] by (simp add: server_init_def)
  moreover have "server_step 2 ?s1 Connects ?s2" using server_step.admitted [of ?s1 2] by (simp add: numeral_2_eq_2)
  moreover have "server_step 2 ?s2 WorkerReturns ?s1" using server_step.returns [of ?s2 2] by simp
  ultimately have run: "server_run 2 server_init [Connects, Connects, WorkerReturns] ?s1"
    by (meson server_run.intros)
  with workers_are_bounded [OF run] show ?thesis by auto
qed

lemma panics_use_slots:
  "lost + n \<le> m \<Longrightarrow> server_run m \<lparr>sv_active = lost, sv_running = 0\<rparr> (concat (replicate n [Connects, WorkerPanics]))
     \<lparr>sv_active = lost + n, sv_running = 0\<rparr>"
proof (induction n arbitrary: lost)
  case 0
  then show ?case by (simp add: server_run.rests)
next
  case (Suc n)
  let ?s = "\<lparr>sv_active = lost, sv_running = 0\<rparr>" let ?s1 = "\<lparr>sv_active = lost + 1, sv_running = 1\<rparr>"
    let ?s2 = "\<lparr>sv_active = lost + 1, sv_running = 0\<rparr>"
  have "server_step m ?s Connects ?s1" using server_step.admitted [of ?s m] Suc.prems by simp
  moreover have "server_step m ?s1 WorkerPanics ?s2" using server_step.panics [of ?s1 m] by simp
  moreover have "server_run m ?s2 (concat (replicate n [Connects, WorkerPanics])) \<lparr>sv_active = lost + 1 + n, sv_running = 0\<rparr>"
    using Suc.prems by (intro Suc.IH) simp
  ultimately show ?case by (auto intro: server_run.moves)
qed

lemma server_step_fun: "server_step m s e t \<Longrightarrow> server_step m s e t' \<Longrightarrow> t' = t"
  by (auto elim!: server_stepE)

lemma server_run_fun: "server_run m s es t \<Longrightarrow> server_run m s es t' \<Longrightarrow> t' = t"
proof (induction arbitrary: t' rule: server_run.induct)
  case (rests s)
  then show ?case by (auto elim: server_runE(2))
next
  case (moves s e s1 es s2)
  from moves.prems obtain u where "server_step m s e u" "server_run m u es t'" by (rule server_runE(1))
  with server_step_fun [OF moves.hyps(1)] moves.IH show ?case by blast
qed

lemma server_run_append: "server_run m s (xs @ ys) t \<Longrightarrow> \<exists>u. server_run m s xs u \<and> server_run m u ys t"
proof (induction xs arbitrary: s)
  case Nil
  then show ?case by (auto intro: server_run.rests)
next
  case (Cons e xs)
  then obtain s1 where "server_step m s e s1" "server_run m s1 (xs @ ys) t" by (auto elim: server_runE(1))
  with Cons.IH show ?case by (blast intro: server_run.moves)
qed

lemma full_server_rests:
  "server_run m s es t \<Longrightarrow> m \<le> sv_active s \<Longrightarrow> sv_running s = 0 \<Longrightarrow> t = s \<and> set es \<subseteq> {Connects}"
  by (induction rule: server_run.induct) (auto elim!: server_stepE)

text \<open>
  Claim C8. Panics exhaust the server: after as many panicking connections as it admits it turns away
  every connection for ever, although no worker is left.
\<close>

theorem panics_exhaust_server:
  assumes "server_run max_connections server_init (concat (replicate max_connections [Connects, WorkerPanics]) @ es) s"
  shows "sv_running s = 0 \<and> sv_active s = max_connections \<and> set es \<subseteq> {Connects}"
proof -
  let ?xs = "concat (replicate max_connections [Connects, WorkerPanics])"
    and ?u = "\<lparr>sv_active = max_connections, sv_running = 0\<rparr>"
  obtain u where u: "server_run max_connections server_init ?xs u" "server_run max_connections u es s"
    using server_run_append [OF assms] by blast
  have "server_run max_connections server_init ?xs ?u"
    using panics_use_slots [of 0 max_connections max_connections] by (simp add: server_init_def)
  from server_run_fun [OF this u(1)] full_server_rests [OF u(2)] show ?thesis by simp
qed

theorem panics_exhaust_server_witness:
  "\<exists>s. server_run 1 server_init [Connects, WorkerPanics, Connects] s \<and> sv_running s = 0 \<and> sv_active s = 1"
proof -
  let ?u = "\<lparr>sv_active = 1, sv_running = 0\<rparr>"
  have "server_run 1 server_init (concat (replicate 1 [Connects, WorkerPanics])) ?u"
    using panics_use_slots [of 0 1 1] by (simp add: server_init_def)
  moreover have "server_step 1 ?u Connects ?u" by (rule server_step.turned_away) simp
  ultimately have run: "server_run 1 server_init (concat (replicate 1 [Connects, WorkerPanics]) @ [Connects]) ?u"
    by (auto elim!: server_runE intro!: server_run.intros intro: server_run.intros)
  with panics_exhaust_server [OF run] show ?thesis by auto
qed

section \<open>Witnesses\<close>

definition status_request :: json where
  "status_request = JObject [(''version'', JNumber (PosInt 13)), (''request_id'', JString ''r1''),
     (''method'', JString ''system_status'')]"

definition status_decode :: "json \<Rightarrow> rpc_request option" where
  "status_decode v = map_option (\<lambda>rid. \<lparr>rq_request_id = rid, rq_method = SystemStatus\<rparr>) (get_str v ''request_id'')"

definition status_service :: "unit rpc_host" where
  "status_service = (sample_service status_decode)\<lparr>rh_start := sample_start_host\<lparr>st_control :=
     sample_control\<lparr>ch_finish := sample_start_finish\<lparr>fh_parse := (\<lambda>_. Some status_request)\<rparr>\<rparr>\<rparr>\<rparr>"


end
