(* ===== verification/Rpc_Wait_Properties.thy ===== *)
theory Rpc_Wait_Properties
  imports Rpc_Frame_Properties
begin

text \<open>
  A wait ends when it should, and its answer fits its frame. The revision a caller passes is not used.
\<close>

lemma phase_view_terminal [simp]: "phase_view p = ''TERMINAL'' \<longleftrightarrow> p = task_phase.Terminal"
  by (cases p) simp_all

lemma transpose_opt_Inr: "transpose_opt f x = Inr y \<Longrightarrow> (y = None \<longleftrightarrow> x = None)"
  by (auto simp: transpose_opt_def result_simps split: option.splits sum.splits)

definition wait_fits :: "'d rpc_host \<Rightarrow> rpc_success \<Rightarrow> bool" where
  "wait_fits rh a \<longleftrightarrow>
     (case rh_encoded rh (success_response longest_request_id a) of
        None \<Rightarrow> False | Some n \<Rightarrow> n < max_response_frame_bytes)"

lemma bound_wait_result_fits:
  assumes "bound_wait_result rh v = Inr v'"
  shows "wait_fits rh (WaitAnswer v') \<and> v' = v\<lparr>wv_result := wv_result v'\<rparr> \<and> (wv_result v' = None \<longleftrightarrow> wv_result v = None)"
  using assms
  by (auto simp: result_simps bound_wait_result_def fits_frame_def wait_fits_def Let_def
      dest!: transpose_opt_Inr split: option.splits if_splits if_splits sum.splits)

section \<open>Why a wait ends\<close>

definition wait_due :: "'d rpc_host \<Rightarrow> string \<Rightarrow> rpc_success \<Rightarrow> bool" where
  "wait_due rh i a \<longleftrightarrow> (\<exists>v. a = WaitAnswer v \<and>
     (let approval = wv_command_pending_approval v; ended = (tv_phase (wv_task v) = ''TERMINAL'') in
     (approval \<or> ended \<or> wv_timed_out v) \<and> (wv_timed_out v \<longrightarrow> \<not> approval \<and> \<not> ended) \<and>
     approval = list_ex respondable_pending_request (wv_pending_requests v) \<and>
     (wv_result v \<noteq> None \<longrightarrow> ended \<and> wv_result_available v) \<and>
     tv_agent_id (wv_task v) = i \<and> wv_next_revision v = wv_revision v \<and> wait_fits rh a))"

lemma task_view_fields [simp]:
  "tv_phase (rh_task_view rh t) = phase_view (tr_phase t)" "tv_agent_id (rh_task_view rh t) = tr_agent_id t"
  by (simp_all add: rh_task_view_def task_view_of_def Let_def)

lemma wait_answer_due:
  assumes "wait_answer rh task receipt asked stored at late s = (Inr a, s')"
    and "list_ex respondable_pending_request asked \<or> tr_phase task = task_phase.Terminal \<or> late"
  shows "wait_due rh (tr_agent_id task) a"
proof -
  obtain v v' where v: "bound_wait_result rh v = Inr v'" "a = WaitAnswer v'"
    "wv_task v = rh_task_view rh task" "wv_next_revision v = wv_revision v" "wv_pending_requests v = asked"
    "wv_command_pending_approval v = list_ex respondable_pending_request asked"
    "wv_result_available v = (stored \<noteq> None)"
    "wv_result v = (if tr_phase task = task_phase.Terminal then map_option whole_result_view stored else None)"
    "wv_timed_out v = (\<not> list_ex respondable_pending_request asked \<and> tr_phase task \<noteq> task_phase.Terminal \<and> late)"
    using assms(1) unfolding wait_answer_def Let_def
    by (elim bindE_okE) (auto simp: lift_result_def return_ok_def)
  note fits = bound_wait_result_fits [OF v(1)]
  obtain r where v': "v' = v\<lparr>wv_result := r\<rparr>" "r = wv_result v'" using fits by blast
  have "r = None \<longleftrightarrow> wv_result v = None" using fits v'(2) by simp
  then have result: "wv_result v' \<noteq> None \<longrightarrow> tr_phase task = task_phase.Terminal \<and> stored \<noteq> None"
    using v(8) v'(2) by (auto split: if_splits)
  have same: "wv_task v' = wv_task v" "wv_next_revision v' = wv_next_revision v" "wv_revision v' = wv_revision v"
    "wv_pending_requests v' = wv_pending_requests v" "wv_timed_out v' = wv_timed_out v"
    "wv_command_pending_approval v' = wv_command_pending_approval v"
    "wv_result_available v' = wv_result_available v"
    by (subst v'(1); simp)+
  show ?thesis
    unfolding wait_due_def Let_def v(2)
    by (intro exI [of _ v'] conjI refl) (use assms(2) fits result in \<open>auto simp: same v(3-7,9)\<close>)
qed

lemma convert_task_row_agent: "convert_task_row r = Inr rec \<Longrightarrow> tr_agent_id rec = t_agent_id r"
  by (auto simp: convert_task_row_def result_simps Let_def)

lemma get_task_agent: "get_task i d = Inr (Some t) \<Longrightarrow> tr_agent_id t = i"
  by (auto simp: get_task_def query_task_def transpose_opt_def result_simps
      dest!: convert_task_row_agent find_task_SomeD split: option.splits)

lemma on_store_okE:
  assumes "on_store q s = (Inr a, s')"
  obtains d where "q d = Inr a"
proof -
  obtain w where "map_sum map_store id (q w) = Inr a"
    using assms
    by (auto simp: on_store_def on_world_def mapping_error_def store_read_def store_call_def split: prod.splits)
  then have "q w = Inr a" by (cases "q w") auto
  then show thesis by (rule that)
qed

lemma find_rpc_task_agent:
  assumes "find_rpc_task rh i s = (Inr t, s')"
  shows "tr_agent_id t = i"
  using assms unfolding find_rpc_task_def
  by (elim bindE_okE on_store_okE)
    (auto simp: refuse_def fail_with_def return_ok_def dest: get_task_agent split: option.splits if_splits)

lemma wait_look_due:
  assumes "wait_look rh q deadline s = (Inr (Some a), s')"
  shows "wait_due rh (twq_agent_id q) a"
proof -
  obtain task s1 receipt rows stored now s6 and observed :: "passive_activity_snapshot option" where
    task: "find_rpc_task rh (twq_agent_id q) s = (Inr task, s1)"
    and answer: "(let asked = map (pending_request_view_of (rh_parse rh)) rows;
         at_revision = max (case observed of None \<Rightarrow> 0 | Some s \<Rightarrow> snap_revision s) (tr_last_event_seq task)
     in if list_ex respondable_pending_request asked \<or> tr_phase task = task_phase.Terminal \<or> deadline \<le> now
        then bindE (wait_answer rh task receipt asked stored at_revision (deadline \<le> now)) (\<lambda>a. return_ok (Some a))
        else return_ok None) s6 = (Inr (Some a), s')"
    using assms unfolding wait_look_def by (elim bindE_okE) (rule that, assumption, assumption)
  note agent = find_rpc_task_agent [OF task]
  let ?asked = "map (pending_request_view_of (rh_parse rh)) rows"
    and ?at = "max (case observed of None \<Rightarrow> 0 | Some s \<Rightarrow> snap_revision s) (tr_last_event_seq task)"
  have due: "list_ex respondable_pending_request ?asked \<or> tr_phase task = task_phase.Terminal \<or> deadline \<le> now"
    using answer by (auto simp: Let_def return_ok_def split: if_splits)
  with answer have "bindE (wait_answer rh task receipt ?asked stored ?at (deadline \<le> now)) (\<lambda>a. return_ok (Some a)) s6 =
      (Inr (Some a), s')" unfolding Let_def by (simp only: if_True)
  then obtain w where "wait_answer rh task receipt ?asked stored ?at (deadline \<le> now) s6 = (Inr a, w)"
    by (elim bindE_okE) (simp add: return_ok_def)
  from wait_answer_due [OF this due] show ?thesis by (simp only: agent)
qed

lemma task_wait_due: "task_wait rh q deadline looks s = (Inr (Some a), s') \<Longrightarrow> wait_due rh (twq_agent_id q) a"
proof (induction looks arbitrary: s)
  case Nil
  then show ?case by (simp add: return_ok_def)
next
  case (Cons interrupted looks)
  then show ?case
    by (auto simp: refuse_def fail_with_def return_ok_def intro: wait_look_due split: if_splits option.splits
        elim!: bindE_okE)
qed


section \<open>The revision\<close>

lemma wait_look_revision: "wait_look rh (q\<lparr>twq_after_revision := r\<rparr>) = wait_look rh q"
proof (intro ext)
  fix deadline and s :: "task_world \<times> 'a"
  have "message_receipt (q\<lparr>twq_after_revision := r\<rparr>) = (message_receipt q :: ('a, message_receipt_view option) service)"
    by (simp add: message_receipt_def cong: option.case_cong)
  then show "wait_look rh (q\<lparr>twq_after_revision := r\<rparr>) deadline s = wait_look rh q deadline s"
    by (simp add: wait_look_def)
qed

lemma task_wait_revision: "task_wait rh (q\<lparr>twq_after_revision := r\<rparr>) deadline looks = task_wait rh q deadline looks"
  by (induction looks) (simp_all add: wait_look_revision)

text \<open>
  The revision a caller has seen does not matter to a wait: whatever revision it passes it gets
  the same answer after the same looks, so new activity never ends a wait.
\<close>

theorem wait_ignores_revision:
  "dispatch rh looks (TaskWait (q\<lparr>twq_after_revision := r\<rparr>)) = dispatch rh looks (TaskWait q)"
  by (simp add: serve_wait_def task_wait_revision)

section \<open>Witnesses\<close>

definition wait_service :: "unit rpc_host" where
  "wait_service = (sample_service status_decode)\<lparr>rh_start := sample_start_host\<lparr>st_control :=
     sample_control\<lparr>ch_finish := sample_start_finish\<lparr>fh_decode :=
       (\<lambda>_. Some (sample_prepared\<lparr>p_repository := ''/repo''\<rparr>))\<rparr>\<rparr>\<rparr>, rh_has_activity := False\<rparr>"

definition sample_wait :: task_wait_query where
  "sample_wait = \<lparr>twq_agent_id = ''10000000'', twq_after_revision = 0, twq_wait_time = 5, twq_message_id = None\<rparr>"

lemma respondable_view [simp]:
  "respondable_pending_request (pending_request_view_of parse q) \<longleftrightarrow> p_request_type q = ''permission'' \<and> p_state q = ReqPending"
  by (auto simp: respondable_pending_request_def pending_request_view_of_def Let_def)

lemma sample_wait_run:
  assumes service: "rh_has_activity rh = False" "rh_encoded rh = (\<lambda>_. Some 100)"
    and prepared: "\<And>x. Option.bind (rh_parse rh x) (fh_decode (ch_finish (st_control (rh_start rh)))) =
      Some (sample_prepared\<lparr>p_repository := ''/repo''\<rparr>)"
    and q: "twq_agent_id q = ''10000000''" "twq_message_id q = None"
  shows "\<exists>v. task_wait rh q deadline (False # looks) (sample_world sample_waiting, ()) =
    (Inr (Some (WaitAnswer v)), sample_world sample_waiting, ()) \<and> wv_command_pending_approval v"
proof -
  let ?w = "sample_world sample_waiting"
  have "case get_task ''10000000'' sample_waiting of Inr (Some t) \<Rightarrow> tr_repository t = ''/repo'' | _ \<Rightarrow> False" by code_simp
  then obtain t where t: "get_task ''10000000'' sample_waiting = Inr (Some t)" "tr_repository t = ''/repo''"
    by (auto split: sum.splits option.splits)
  note agent = get_task_agent [OF t(1)]
  have "case pending_requests_bounded ''10000000'' max_pending_requests sample_waiting of
      Inr rows \<Rightarrow> list_ex (\<lambda>q. p_request_type q = ''permission'' \<and> p_state q = ReqPending) rows
    | Inl _ \<Rightarrow> False" by code_simp
  then obtain rows where rows: "pending_requests_bounded ''10000000'' max_pending_requests sample_waiting = Inr rows"
    "list_ex (\<lambda>q. p_request_type q = ''permission'' \<and> p_state q = ReqPending) rows"
    by (auto split: sum.splits)
  then have asked: "list_ex respondable_pending_request (map (pending_request_view_of (rh_parse rh)) rows)"
    by (simp add: list_ex_iff)
  have stored: "task_result_of ''10000000'' sample_waiting = Inr None" by code_simp
  have valid: "validate_id ''10000000'' ''agent_id'' = Inr ()" by code_simp
  have looked: "on_store q (?w, ()) = (map_sum map_store id (q sample_waiting), ?w, ())" for q :: "db \<Rightarrow> 'x store_result"
    by (simp add: on_store_def on_world_def mapping_error_def store_read_def store_call_def others_run_def sample_world_def)
  have fits: "bound_wait_result rh v = Inr v" for v
    by (simp add: bound_wait_result_def fits_frame_def service max_response_frame_bytes_def)
  have "find_rpc_task rh ''10000000'' (?w, ()) = (Inr t, ?w, ())"
    using valid looked [of "get_task ''10000000''"] t
    by (simp add: find_rpc_task_def bindE_def lift_result_def return_ok_def prepared)
  moreover have "on_world read_time (?w, ()) = (Inr 0 :: rpc_fault + nat, ?w, ())"
    by (simp add: on_world_def read_time_def sample_world_def)
  ultimately show ?thesis
    using rows(1) asked stored
    by (simp add: wait_look_def bindE_def return_ok_def q message_receipt_def looked agent
        Rpc_Service.activity_snapshot_def service wait_answer_def lift_result_def fits Let_def)
qed


end
