(* ===== verification/Mcp_Properties.thy ===== *)
theory Mcp_Properties
  imports Mcp_Tools Rpc_Properties Rpc_Wait_Properties Store_Records
begin

text \<open>
  Task ids read back, accepted manifests are admissible for the preparation, public errors are redacted,
  and a facade over the service of its process adds nothing to it, so waits are as they should be.
\<close>

section \<open>Identifiers\<close>

lemma public_id_nat: "public_id_range n \<Longrightarrow> public_task_id (show_nat (unat n)) = Inr n"
proof -
  assume n: "public_id_range n"
  have "unat n < 2 ^ LENGTH(64)" by (rule unsigned_less)
  then have "unat n \<le> 18446744073709551615" by simp
  with n show ?thesis by (simp add: public_task_id_def parse_show_nat)
qed

lemma internal_public: "internal_task_id n = Inr s \<Longrightarrow> public_task_id s = Inr n"
  by (auto simp: internal_task_id_def public_id_nat split: if_splits)

lemma public_id_range_iff: "k < 2 ^ 64 \<Longrightarrow> public_id_range (word_of_nat k) \<longleftrightarrow> 10000000 \<le> k \<and> k \<le> 99999999"
  by (simp add: public_id_range_def min_public_task_id_def max_public_task_id_def word_le_nat_alt unat_of_nat
      take_bit_nat_eq_self)

text \<open>
  Claim C31. Task ids read back: every id the store hands out has a public number, and this number is
  turned back into exactly that id, so a tool call always names the task that was created.
\<close>

theorem reserved_id_round_trip:
  assumes "reserve_task_id d = (Inr s, d')"
  shows "\<exists>n. public_task_id s = Inr n \<and> internal_task_id n = Inr s"
proof -
  define k where "k = nat (db_next_id d)"
  have k: "10000000 \<le> k" "k \<le> 99999999" "s = show_nat k"
    using assms by (auto simp: reserve_task_id_Inr k_def)
  then have range: "public_id_range (word_of_nat k)" by (simp add: public_id_range_iff)
  have "unat (word_of_nat k :: u64) = k" using k(2) by (simp add: unat_of_nat take_bit_nat_eq_self)
  with range public_id_nat [OF range] k(3) show ?thesis
    by (intro exI [of _ "word_of_nat k"]) (simp add: internal_task_id_def)
qed

theorem reserved_id_round_trip_witness:
  "\<exists>n. public_task_id (show_nat 10000000) = Inr n \<and> internal_task_id n = Inr (show_nat 10000000)"
proof -
  have "db_next_id sample_queued = 10000000" by code_simp
  then have "reserve_task_id sample_queued = (Inr (show_nat 10000000), snd (reserve_task_id sample_queued))"
    by (simp add: reserve_task_id_def run_tx_def Let_def)
  from reserved_id_round_trip [OF this] show ?thesis .
qed

section \<open>Manifests\<close>

lemma check_text_Inr: "check_text v field limit = Inr u \<longleftrightarrow> trim v \<noteq> [] \<and> length v \<le> limit \<and> \<not> List.member v nul"
  by (auto simp: check_text_def)

lemma check_manifest_path_Inr: "check_manifest_path v = Inr p \<Longrightarrow> p = v \<and> (\<exists>q. confined_relative v = Inr q)"
proof -
  assume "check_manifest_path v = Inr p"
  then have v: "trim v \<noteq> []" "\<not> is_absolute v" "\<not> list_ex (\<lambda>c. c = ParentDir \<or> c = RootDir) (components v)" "p = v"
    by (auto simp: check_manifest_path_def check_path_def result_simps check_text_Inr split: if_splits)
  moreover have "v \<noteq> []" using v(1) by (auto simp: trim_eq_Nil_iff)
  ultimately show ?thesis by (simp add: confined_relative_def)
qed

lemma collect_paths: "collect_results check_manifest_path vs = Inr ps \<Longrightarrow>
    ps = vs \<and> (\<exists>qs. collect_results confined_relative vs = Inr qs)"
proof (induction vs arbitrary: ps)
  case Nil
  then show ?case by simp
next
  case (Cons v vs)
  then obtain p rest where p: "check_manifest_path v = Inr p" "collect_results check_manifest_path vs = Inr rest" "ps = p # rest"
    by (auto simp: result_simps)
  from Cons.IH [OF p(2)] check_manifest_path_Inr [OF p(1)] p(3) show ?case by (auto simp: result_simps)
qed

text \<open>
  What the facade accepts the preparation can use: a manifest that is made from the input of a
  spawn passes the validation of the preparation under every id the store hands out unless it names a
  path twice, its repository is absolute, all its paths are confined, and a plan has none.
\<close>

theorem accepted_manifest_is_admissible:
  assumes "general_manifest input = Inr m" "reserve_task_id d = (Inr i, d')"
  shows "(validate_manifest (m\<lparr>m_agent_id := i\<rparr>) = Inr () \<or> \<not> distinct (map components (as_write_manifest input))) \<and>
    is_absolute (m_repository m) \<and> (\<exists>ps. collect_results confined_relative (m_write_manifest m) = Inr ps) \<and>
    (m_permission_mode m = PlanMode \<longrightarrow> m_write_manifest m = [])"
proof -
  from assms(1) have m: "is_absolute (as_repository input)"
      "m = \<lparr>m_schema = general_task_schema, m_agent_id = ''daemon-prepared'', m_repository = as_repository input,
         m_permission_mode = as_permission_mode input, m_prompt = as_prompt input,
         m_write_manifest = as_write_manifest input\<rparr>"
    and prompt: "trim (as_prompt input) \<noteq> []" "length (as_prompt input) \<le> facade_prompt_bytes" "\<not> List.member (as_prompt input) nul"
    and plan: "as_permission_mode input = PlanMode \<longrightarrow> as_write_manifest input = []"
    and paths: "\<exists>ps. collect_results confined_relative (as_write_manifest input) = Inr ps"
    by (auto simp: general_manifest_def result_simps check_text_Inr split: if_splits dest!: collect_paths)
  have i: "length i = 8" "list_all is_ascii_digit i"
  proof -
    have "i = show_nat (nat (db_next_id d))" "10 ^ 7 \<le> nat (db_next_id d)" "nat (db_next_id d) < 10 ^ Suc 7"
      using assms(2) by (auto simp: reserve_task_id_Inr)
    then show "length i = 8" "list_all is_ascii_digit i" using length_show_nat [of 7] show_nat_digits by simp_all
  qed
  have "list_all identifier_byte i"
    using i(2) by (auto simp: list_all_iff identifier_byte_def is_ascii_digit_def byte_def)
  with i(1) prompt have "validate_manifest (m\<lparr>m_agent_id := i\<rparr>) = Inr () \<or> \<not> distinct (map components (as_write_manifest input))"
    by (auto simp: validate_manifest_def m(2) facade_prompt_bytes_def max_prompt_bytes_def)
  with m paths plan show ?thesis by simp
qed

definition sample_spawn :: agent_spawn_input where
  "sample_spawn = \<lparr>as_repository = ''/work'', as_permission_mode = EditMode, as_prompt = ''hi'', as_write_manifest = [''src'']\<rparr>"

theorem accepted_manifest_is_admissible_witness:
  "\<exists>m. general_manifest sample_spawn = Inr m \<and> validate_manifest (m\<lparr>m_agent_id := show_nat 10000000\<rparr>) = Inr ()"
proof -
  have "db_next_id sample_queued = 10000000" by code_simp
  then have reserved: "reserve_task_id sample_queued = (Inr (show_nat 10000000), snd (reserve_task_id sample_queued))"
    by (simp add: reserve_task_id_def run_tx_def Let_def)
  have "trim ''/work'' \<noteq> []" "trim ''hi'' \<noteq> []" "trim ''src'' \<noteq> []" "is_absolute ''/work''" "\<not> is_absolute ''src''"
    "\<not> list_ex (\<lambda>c. c = ParentDir \<or> c = RootDir) (components ''src'')" by code_simp+
  then have "\<exists>m. general_manifest sample_spawn = Inr m"
    by (simp add: general_manifest_def sample_spawn_def check_text_def check_path_def check_manifest_path_def
        max_path_bytes_def facade_prompt_bytes_def)
  then obtain m where m: "general_manifest sample_spawn = Inr m" ..
  from accepted_manifest_is_admissible [OF m reserved] m show ?thesis by (simp add: sample_spawn_def)
qed

section \<open>Errors\<close>

definition public_codes :: "(string \<times> string) set" where
  "public_codes = {(''validation'', ''request validation failed''),
     (''oversized'', ''bounded response or request was too large''),
     (''protocol_version_mismatch'', ''incompatible subagent daemon''),
     (''protocol_error'', ''daemon method is unavailable''), (''not_found'', ''agent task was not found''),
     (''conflict'', ''WORKSPACE_BUSY''), (''conflict'', ''MESSAGE_ID_CONFLICT''), (''conflict'', ''durable state conflict''),
     (''timeout'', ''daemon operation timed out''), (''runtime_lost'', ''agent runtime was lost''),
     (''result_invalid'', ''stored task result failed verification''),
     (''persistence'', ''durable store operation failed''), (''internal'', ''daemon operation failed''),
     (''runtime_command_failed'', ''runtime could not complete the command''),
     (''unavailable'', ''subagent daemon could not complete the operation'')}"

lemma with_agent_id_texts [simp]:
  "te_legacy_text (with_agent_id i e) = te_legacy_text e" "te_code (te_body (with_agent_id i e)) = te_code (te_body e)"
  "te_message (te_body (with_agent_id i e)) = te_message (te_body e)"
  by (simp_all add: with_agent_id_def)

lemma public_code_listed: "public_code e \<in> public_codes"
  by (cases "err_code e") (simp_all add: public_code_def public_codes_def)

text \<open>
  What a tool says about an error of the daemon is public: code and message are one of fifteen
  fixed pairs, and the text is made of them alone, but for the id of the task that is active and for the
  detail of a request that failed validation.
\<close>

theorem tool_errors_are_public:
  "(te_code (te_body (public_error e)), te_message (te_body (public_error e))) \<in> public_codes \<and>
   (\<exists>rest. te_legacy_text (public_error e) = te_code (te_body (public_error e)) @ '': '' @ te_message (te_body (public_error e)) @ rest \<and>
      (rest = [] \<or> (\<exists>i. err_active_agent_id e = Some i \<and> rest = '' (active_agent_id='' @ i @ '')'') \<or>
       err_code e \<in> {ErrValidation, ErrMalformed} \<and> rest = '': '' @ err_message e \<and> length (err_message e) \<le> 512))"
proof -
  obtain code m where c: "public_code e = (code, m)" by (cases "public_code e")
  then have listed: "(code, m) \<in> public_codes" using public_code_listed [of e] by simp
  have body: "te_code (te_body (public_error e)) = code" "te_message (te_body (public_error e)) = m"
    "te_legacy_text (public_error e) = legacy_text_of e code m"
    by (simp_all add: public_error_def c tool_error_new_def)
  show ?thesis
    unfolding body legacy_text_of_def
    using listed by (cases "err_active_agent_id e") (simp_all del: append.simps append_Cons)
qed

text \<open>
  The preview of the policy is never decided: whatever request the runtime makes, the tools show
  its policy preview as unknown, because the daemon labels requests with a text the tools do not know.
\<close>

theorem preview_is_never_decided:
  "pp_policy_preview (public_pending (pending_request_view_of parse q)) = UnknownPreview"
  by (simp add: public_pending_def pending_request_view_of_def public_preview_of_def Let_def)

section \<open>A facade over the service of its process\<close>

definition encodes_honestly :: "'s facade \<Rightarrow> 'd rpc_host \<Rightarrow> bool" where
  "encodes_honestly fa rh \<longleftrightarrow> (\<forall>rq frame. fa_encode fa rq = Some frame \<longrightarrow>
     (\<exists>v. rh_parse rh frame = Some v \<and> rh_decode rh v = Some rq \<and>
        Option.bind (get v ''version'') as_u64 = Some (of_nat rpc_version) \<and>
        has_only_request_fields v \<and> \<not> names_unknown_method v))"

definition outcome_of :: "rpc_method \<Rightarrow> string \<Rightarrow> rpc_fault + rpc_success option \<Rightarrow> tool_fault + rpc_success" where
  "outcome_of method rid r =
     (case r of
        Inl Panic \<Rightarrow> Inl Unwinds
      | Inl (Fault e) \<Rightarrow> Inl (ToolFailed (in_context method rid (public_error e)))
      | Inr None \<Rightarrow> Inl Waits
      | Inr (Some a) \<Rightarrow> Inr a)"

lemma request_number_valid: "valid_request_id (request_number n)"
proof -
  have "unat n < 2 ^ LENGTH(64)" by (rule unsigned_less)
  then have "unat n < 10 ^ 20" by simp
  then have "length (show_nat (unat n)) \<le> 20" by (intro show_nat_length) simp_all
  moreover have "nul \<notin> set (show_nat (unat n))"
    using show_nat_digits [of "unat n"] by (auto simp: list_all_iff is_ascii_digit_def byte_def)
  ultimately show ?thesis
    by (simp add: valid_request_id_def request_number_def max_request_id_bytes_def)
qed

lemma honest_frame:
  assumes "encodes_honestly fa rh" "fa_encode fa rq = Some frame" "length frame < max_request_frame_bytes"
    and "valid_request_id (rq_request_id rq)"
  shows "classify_frame rh frame = Inr rq"
proof -
  obtain v where "rh_parse rh frame = Some v" "rh_decode rh v = Some rq"
    "Option.bind (get v ''version'') as_u64 = Some (of_nat rpc_version)" "has_only_request_fields v"
    "\<not> names_unknown_method v"
    using assms(1,2) unfolding encodes_honestly_def by blast
  with assms(3,4) show ?thesis by (simp add: classify_frame_def)
qed

lemma facade_dispatches:
  assumes "encodes_honestly fa rh" "fa_transport fa = embedded rh looks"
    and "fa_encode fa \<lparr>rq_request_id = request_number n, rq_method = method\<rparr> = Some frame"
    and "length frame < max_request_frame_bytes"
  shows "rpc_interruptible fa method (n, s) =
    map_prod (outcome_of method (request_number n)) (Pair (n + 1)) (dispatch rh looks method s)"
proof -
  let ?rq = "\<lparr>rq_request_id = request_number n, rq_method = method\<rparr>"
  have frame: "classify_frame rh frame = Inr ?rq"
    using honest_frame [OF assms(1,3,4)] request_number_valid by simp
  obtain r s1 where d: "dispatch rh looks method s = (r, s1)" by (cases "dispatch rh looks method s")
  have "\<not> 512 * 1024 < length frame + 1" using assms(4) by (simp add: max_request_frame_bytes_def)
  then show ?thesis
    using frame
    by (auto simp: rpc_interruptible_def Let_def assms(2,3) embedded_def handle_bytes_def d outcome_of_def
        fault_response_def read_response_def error_response_def success_response_def
        split: sum.splits option.splits rpc_fault.splits)
qed

text \<open>
  Claim C15. A facade over the service of its process is that service: when the encoder and the decoder of
  requests agree, a call whose frame fits does to the store and the disk exactly what dispatching the
  method does, gives its answer or the public form of its error, and takes one number.
\<close>

theorem facade_refines_service:
  assumes "encodes_honestly fa rh" "fa_transport fa = embedded rh looks"
    and "fa_encode fa \<lparr>rq_request_id = request_number n, rq_method = method\<rparr> = Some frame"
    and "length frame < max_request_frame_bytes"
  shows "rpc_interruptible fa method (n, s) =
    map_prod (outcome_of method (request_number n)) (Pair (n + 1)) (dispatch rh looks method s)"
  using assms by (rule facade_dispatches)

section \<open>Waits of a caller\<close>

lemma public_task_of_Inr: "public_task_of v = Inr t \<Longrightarrow> public_task_id (tv_agent_id v) = Inr (pt_agent_id t) \<and> pt_phase t = tv_phase v"
  by (auto simp: public_task_of_def result_simps)

lemma public_asked:
  "list_ex respondable_pending_request vs \<longleftrightarrow> (\<exists>p \<in> set (map public_pending vs). pp_state p = PendingState \<and> pp_respondable p)"
proof -
  have "public_state x = PendingState \<longleftrightarrow> x = ReqPending" for x by (cases x) simp_all
  then show ?thesis by (auto simp: list_ex_iff respondable_pending_request_def public_pending_def)
qed

lemma tool_agent_okE:
  assumes "bindE (tool_agent operation k) f s = (Inr x, s')"
  obtains i where "internal_task_id k = Inr i" "f i s = (Inr x, s')"
  using assms by (cases "internal_task_id k") (auto simp: tool_agent_def tool_try_def lift_result_def bindE_def)

lemma tool_try_okE:
  assumes "tool_try wrap r s = (Inr x, s')"
  shows "r = Inr x \<and> s' = s"
  using assms by (cases r) (auto simp: tool_try_def lift_result_def)

text \<open>
  Claim C9. What the wait tool answers is due: it is about the task that was asked for, and it says
  that a permission request waits for the caller exactly when one that can be answered is in the list it
  shows; otherwise the task is over or the time is up, and it has timed out only if neither holds.
\<close>

theorem wait_tool_is_due:
  assumes "encodes_honestly fa rh" "fa_transport fa = embedded rh looks"
    and "tool_wait fa input (n, s) = (Inr out, s')"
  shows "pt_agent_id (wo_task out) = aw_agent_id input \<and>
    (wo_command_pending_approval out \<longleftrightarrow>
       (\<exists>p \<in> set (wo_pending_requests out). pp_state p = PendingState \<and> pp_respondable p)) \<and>
    (wo_command_pending_approval out \<or> pt_phase (wo_task out) = ''TERMINAL'' \<or> wo_timed_out out) \<and>
    (wo_timed_out out \<longrightarrow> \<not> wo_command_pending_approval out \<and> pt_phase (wo_task out) \<noteq> ''TERMINAL'')"
proof -
  from assms(3) obtain i where i: "internal_task_id (aw_agent_id input) = Inr i"
    and late: "\<not> 299 < aw_wait_time input"
    and rest: "bindE (rpc_wait fa \<lparr>twq_agent_id = i, twq_after_revision = aw_after_revision input,
        twq_wait_time = aw_wait_time input, twq_message_id = aw_message_id input\<rparr>) (\<lambda>answer.
       case answer of WaitAnswer v \<Rightarrow> tool_try id (agent_wait_output_of v)
       | _ \<Rightarrow> tool_fails (with_operation ''wait'' protocol_error)) (n, s) = (Inr out, s')"
    unfolding tool_wait_def by (rule tool_agent_okE) (simp add: tool_fails_def fail_with_def split: if_splits)
  define q where "q = \<lparr>twq_agent_id = i, twq_after_revision = aw_after_revision input,
    twq_wait_time = aw_wait_time input, twq_message_id = aw_message_id input\<rparr>"
  let ?rq = "\<lparr>rq_request_id = request_number n, rq_method = TaskWait q\<rparr>"
  from rest obtain v s1 where call: "rpc_wait fa q (n, s) = (Inr (WaitAnswer v), s1)" and out: "agent_wait_output_of v = Inr out"
    unfolding q_def [symmetric]
    by (rule bindE_okE) (auto simp: tool_fails_def fail_with_def dest: tool_try_okE split: rpc_success.splits)
  from call have run: "rpc_interruptible fa (TaskWait q) (n, s) = (Inr (WaitAnswer v), s1)"
    by (auto simp: rpc_wait_def split: prod.splits sum.splits tool_fault.splits)
  then obtain frame where frame: "fa_encode fa ?rq = Some frame" "length frame < max_request_frame_bytes"
    by (auto simp: rpc_interruptible_def Let_def max_request_frame_bytes_def split: option.splits if_splits)
  from facade_dispatches [OF assms(1,2) frame, of s] run
  have "outcome_of (TaskWait q) (request_number n) (fst (dispatch rh looks (TaskWait q) s)) = Inr (WaitAnswer v)"
    by (simp add: map_prod_def case_prod_unfold)
  then obtain s2 where served: "serve_wait rh q looks s = (Inr (Some (WaitAnswer v)), s2)"
    by (cases "serve_wait rh q looks s") (auto simp: outcome_of_def split: sum.splits option.splits rpc_fault.splits)
  then obtain deadline s3 where "task_wait rh q deadline looks s3 = (Inr (Some (WaitAnswer v)), s2)"
    by (auto simp: serve_wait_def refuse_def fail_with_def split: if_splits elim!: bindE_okE)
  from task_wait_due [OF this] have due: "(wv_command_pending_approval v \<or> tv_phase (wv_task v) = ''TERMINAL'' \<or> wv_timed_out v)"
    "wv_timed_out v \<longrightarrow> \<not> wv_command_pending_approval v \<and> tv_phase (wv_task v) \<noteq> ''TERMINAL''"
    "wv_command_pending_approval v = list_ex respondable_pending_request (wv_pending_requests v)"
    "tv_agent_id (wv_task v) = i"
    by (auto simp: wait_due_def Let_def q_def)
  from out obtain t where t: "public_task_of (wv_task v) = Inr t" "wo_task out = t"
    "wo_pending_requests out = map public_pending (wv_pending_requests v)"
    "wo_command_pending_approval out = wv_command_pending_approval v" "wo_timed_out out = wv_timed_out v"
    by (auto simp: agent_wait_output_of_def result_simps)
  note shown = public_task_of_Inr [OF t(1)]
  have "pt_agent_id t = aw_agent_id input" using shown internal_public [OF i] due(4) by simp
  with due shown t public_asked show ?thesis by simp
qed

section \<open>Witnesses\<close>

definition sample_wait_input :: agent_wait_input where
  "sample_wait_input = \<lparr>aw_agent_id = 10000000, aw_after_revision = 0, aw_wait_time = 5, aw_message_id = None\<rparr>"

definition sample_wait_request :: rpc_request where
  "sample_wait_request = \<lparr>rq_request_id = request_number 1, rq_method = TaskWait sample_wait\<rparr>"

definition facade_service :: "unit rpc_host" where
  "facade_service = wait_service\<lparr>rh_decode := (\<lambda>_. Some sample_wait_request), rh_start := sample_start_host\<lparr>st_control :=
     sample_control\<lparr>ch_finish := sample_start_finish\<lparr>fh_parse := (\<lambda>_. Some status_request),
       fh_decode := (\<lambda>_. Some (sample_prepared\<lparr>p_repository := ''/repo''\<rparr>))\<rparr>\<rparr>\<rparr>\<rparr>"

definition sample_facade :: "(task_world \<times> unit) facade" where
  "sample_facade = \<lparr>fa_encode = (\<lambda>rq. if rq = sample_wait_request then Some ''{}'' else None),
     fa_transport = embedded facade_service [False], fa_uuid = ''u'', fa_path = None\<rparr>"

lemma facade_service_parse: "rh_parse facade_service x = Some status_request"
  by (simp add: rh_parse_def facade_service_def sample_start_host_def sample_control_def)

lemma sample_facade_honest: "encodes_honestly sample_facade facade_service"
proof -
  have "Option.bind (get status_request ''version'') as_u64 = Some (of_nat rpc_version)"
    "has_only_request_fields status_request" "\<not> names_unknown_method status_request" by code_simp+
  moreover have "rh_decode facade_service v = Some sample_wait_request" for v by (simp add: facade_service_def)
  ultimately show ?thesis
    by (simp add: encodes_honestly_def facade_service_parse sample_facade_def)
qed

lemma sample_facade_encodes:
  "fa_transport sample_facade = embedded facade_service [False]"
  "fa_encode sample_facade \<lparr>rq_request_id = request_number 1, rq_method = TaskWait sample_wait\<rparr> = Some ''{}''"
  "length ''{}'' < max_request_frame_bytes"
  by (simp_all add: sample_facade_def sample_wait_request_def max_request_frame_bytes_def)

lemma sample_dispatch:
  "\<exists>v. dispatch facade_service [False] (TaskWait sample_wait) (sample_world sample_waiting, ()) =
     (Inr (Some (WaitAnswer v)), sample_world sample_waiting, ()) \<and> wv_command_pending_approval v \<and>
     tv_agent_id (wv_task v) = ''10000000''"
proof -
  let ?s = "(sample_world sample_waiting, ())" let ?at = "0 + twq_wait_time sample_wait * nanos_per_sec"
  obtain v where run: "task_wait facade_service sample_wait ?at [False] ?s = (Inr (Some (WaitAnswer v)), ?s)"
    "wv_command_pending_approval v"
    using sample_wait_run [of facade_service sample_wait ?at "[]"]
    by (auto simp: facade_service_parse) (auto simp: facade_service_def wait_service_def sample_service_def sample_wait_def)
  have "on_world read_time ?s = (Inr 0 :: rpc_fault + nat, ?s)"
    by (simp add: on_world_def read_time_def sample_world_def)
  moreover have "\<not> max_wait_secs < twq_wait_time sample_wait" by (simp add: max_wait_secs_def sample_wait_def)
  ultimately have "serve_wait facade_service sample_wait [False] ?s = (Inr (Some (WaitAnswer v)), ?s)"
    using run(1) by (simp add: serve_wait_def bindE_def del: task_wait.simps)
  moreover have "tv_agent_id (wv_task v) = ''10000000''"
    using task_wait_due [OF run(1)] by (auto simp: wait_due_def Let_def sample_wait_def)
  ultimately show ?thesis using run(2) by auto
qed

theorem facade_refines_service_witness:
  "\<exists>v. fst (rpc_interruptible sample_facade (TaskWait sample_wait) (1, sample_world sample_waiting, ())) = Inr (WaitAnswer v)"
  using facade_refines_service [OF sample_facade_honest sample_facade_encodes(1,2,3), of "(sample_world sample_waiting, ())"]
    sample_dispatch by (auto simp: outcome_of_def)

theorem wait_tool_is_due_witness:
  "\<exists>out. fst (tool_wait sample_facade sample_wait_input (1, sample_world sample_waiting, ())) = Inr out \<and>
     wo_command_pending_approval out \<and> \<not> wo_timed_out out"
proof -
  let ?s = "(1, sample_world sample_waiting, ()) :: u64 \<times> task_world \<times> unit"
  have id: "internal_task_id 10000000 = Inr ''10000000''"
    by (simp add: internal_task_id_def public_id_range_def min_public_task_id_def max_public_task_id_def show_nat.simps)
      code_simp
  obtain v where v: "dispatch facade_service [False] (TaskWait sample_wait) (sample_world sample_waiting, ()) =
     (Inr (Some (WaitAnswer v)), sample_world sample_waiting, ())" "wv_command_pending_approval v"
     "tv_agent_id (wv_task v) = ''10000000''"
    using sample_dispatch by blast
  have "rpc_wait sample_facade sample_wait ?s = (Inr (WaitAnswer v), 2, sample_world sample_waiting, ())"
    using facade_dispatches [OF sample_facade_honest sample_facade_encodes(1,2,3), of "(sample_world sample_waiting, ())"]
      v(1) by (simp add: rpc_wait_def outcome_of_def)
  moreover obtain out where out: "agent_wait_output_of v = Inr out" "wo_command_pending_approval out"
    using internal_public [OF id] v(2,3) by (simp add: agent_wait_output_of_def public_task_of_def)
  ultimately have "tool_wait sample_facade sample_wait_input ?s = (Inr out, 2, sample_world sample_waiting, ())"
    by (simp add: tool_wait_def sample_wait_input_def tool_agent_def tool_try_def id lift_result_def bindE_def
        sample_wait_def)
  with wait_tool_is_due [OF sample_facade_honest sample_facade_encodes(1) this] out(2) show ?thesis
    by (intro exI [of _ out]) simp
qed

end
